(* ===== verification/Prelude.thy ===== *)
theory Prelude
  imports Complex_Main "HOL-Library.Word" "HOL-Library.AList" "HOL-Library.Multiset"
begin

text \<open>
  Shared vocabulary of the development: machine integers as the crate uses them, Rust hash maps as
  association lists, the string operations of the Rust standard library that the sources call, and
  the named collections of simplification rules.

  \<^item> \<open>u64\<close> values that are hashed, xor-ed or added with wrap-around are 64-bit words; counters,
    lengths and indices (\<open>usize\<close>) are naturals; \<open>i64\<close> is \<open>int\<close> with \<open>wrap_i64\<close> written out where
    a release build wraps.
  \<^item> A \<open>HashMap\<close> is an association list. Its order stands for the unspecified iteration order of
    the hash table, so a statement about every list is a statement about every iteration order.
  \<^item> A Rust string is the list of its UTF-8 bytes; interned strings are their contents.
\<close>

named_theorems hm_simps "lookup, insertion and removal on hash maps"
named_theorems ev_simps "equations of the evaluator's state monad"
named_theorems frame_simps "fields an operation leaves alone"

type_synonym u8 = "8 word"
type_synonym u32 = "32 word"
type_synonym u64 = "64 word"
type_synonym i64 = int

abbreviation i64_min :: int where "i64_min \<equiv> - (2 ^ 63)"
abbreviation i64_max :: int where "i64_max \<equiv> 2 ^ 63 - 1"

definition is_i64 :: "int \<Rightarrow> bool" where
  "is_i64 n \<longleftrightarrow> i64_min \<le> n \<and> n \<le> i64_max"

text \<open>Two's-complement wrap-around of a release build.\<close>

definition wrap_i64 :: "int \<Rightarrow> int" where
  "wrap_i64 n = (n + 2 ^ 63) mod 2 ^ 64 - 2 ^ 63"

definition clamp_int :: "int \<Rightarrow> int \<Rightarrow> int \<Rightarrow> int" where
  "clamp_int lo hi n = (if n < lo then lo else if hi < n then hi else n)"

definition saturating_mul_i64 :: "int \<Rightarrow> int \<Rightarrow> int" where
  "saturating_mul_i64 a b = clamp_int i64_min i64_max (a * b)"

text \<open>Division that truncates towards zero, as Rust's \<open>/\<close> on signed integers does.\<close>

definition trunc_div :: "int \<Rightarrow> int \<Rightarrow> int" where
  "trunc_div a b = (let q = \<bar>a\<bar> div \<bar>b\<bar> in if (a < 0) = (b < 0) then q else - q)"

lemma wrap_i64_id [simp]: "is_i64 n \<Longrightarrow> wrap_i64 n = n"
  by (simp add: wrap_i64_def is_i64_def)

lemma wrap_i64_range: "is_i64 (wrap_i64 n)"
proof -
  have "0 \<le> (n + 2 ^ 63) mod 2 ^ 64" "(n + 2 ^ 63) mod 2 ^ 64 < (2 :: int) ^ 64"
    by simp_all
  then show ?thesis by (simp add: wrap_i64_def is_i64_def)
qed

text \<open>\<open>Option::or\<close>: the first value there is.\<close>

definition opt_else :: "'a option \<Rightarrow> 'a option \<Rightarrow> 'a option" where
  "opt_else a b = (case a of Some v \<Rightarrow> Some v | None \<Rightarrow> b)"

lemma opt_else_simps [simp]: "opt_else None b = b" "opt_else (Some v) b = Some v" "opt_else a None = a"
  by (simp_all add: opt_else_def split: option.splits)

lemma sum_list_mset_cong:
  fixes f :: "'a \<Rightarrow> 'b::comm_monoid_add"
  assumes "mset xs = mset ys"
  shows "sum_list (map f xs) = sum_list (map f ys)"
proof -
  have "sum_mset (mset (map f xs)) = sum_mset (mset (map f ys))" using assms by simp
  then show ?thesis by (simp only: sum_mset_sum_list)
qed

section \<open>Hash maps\<close>

type_synonym ('k, 'v) HashMap = "('k \<times> 'v) list"

definition hm_get :: "('k, 'v) HashMap \<Rightarrow> 'k \<Rightarrow> 'v option" where
  "hm_get m k = map_of m k"

definition hm_insert :: "'k \<Rightarrow> 'v \<Rightarrow> ('k, 'v) HashMap \<Rightarrow> ('k, 'v) HashMap" where
  "hm_insert k v m = AList.update k v m"

definition hm_remove :: "'k \<Rightarrow> ('k, 'v) HashMap \<Rightarrow> ('k, 'v) HashMap" where
  "hm_remove k m = AList.delete k m"

definition hm_contains :: "('k, 'v) HashMap \<Rightarrow> 'k \<Rightarrow> bool" where
  "hm_contains m k \<longleftrightarrow> hm_get m k \<noteq> None"

definition hm_keys :: "('k, 'v) HashMap \<Rightarrow> 'k list" where
  "hm_keys m = map fst m"

definition hm_values :: "('k, 'v) HashMap \<Rightarrow> 'v list" where
  "hm_values m = map snd m"

definition hm_wf :: "('k, 'v) HashMap \<Rightarrow> bool" where
  "hm_wf m \<longleftrightarrow> distinct (map fst m)"

lemma hm_get_Nil [simp, hm_simps]: "hm_get [] k = None"
  by (simp add: hm_get_def)

lemma hm_get_Cons [hm_simps]: "hm_get ((a, b) # m) k = (if a = k then Some b else hm_get m k)"
  by (simp add: hm_get_def)

lemma hm_get_insert [simp, hm_simps]:
  "hm_get (hm_insert k v m) k' = (if k' = k then Some v else hm_get m k')"
  by (simp add: hm_get_def hm_insert_def update_conv)

lemma hm_get_remove [simp, hm_simps]:
  "hm_get (hm_remove k m) k' = (if k' = k then None else hm_get m k')"
  by (simp add: hm_get_def hm_remove_def delete_conv)

lemma hm_wf_Nil [simp]: "hm_wf []"
  by (simp add: hm_wf_def)

lemma hm_wf_insert [simp]: "hm_wf m \<Longrightarrow> hm_wf (hm_insert k v m)"
  by (simp add: hm_wf_def hm_insert_def distinct_update)

lemma hm_wf_remove [simp]: "hm_wf m \<Longrightarrow> hm_wf (hm_remove k m)"
  by (simp add: hm_wf_def hm_remove_def distinct_delete)

lemma hm_get_in: "hm_get m k = Some v \<Longrightarrow> (k, v) \<in> set m"
  by (simp add: hm_get_def map_of_SomeD)

lemma hm_get_iff: "hm_wf m \<Longrightarrow> hm_get m k = Some v \<longleftrightarrow> (k, v) \<in> set m"
  by (simp add: hm_get_def hm_wf_def)

lemma hm_contains_iff: "hm_contains m k \<longleftrightarrow> k \<in> fst ` set m"
  by (force simp: hm_contains_def hm_get_def map_of_eq_None_iff)

lemma hm_insert_fresh: "k \<notin> fst ` set m \<Longrightarrow> hm_insert k v m = m @ [(k, v)]"
  by (induction m) (auto simp: hm_insert_def)

section \<open>Strings of the standard library\<close>

definition str_starts_with :: "string \<Rightarrow> string \<Rightarrow> bool" where
  "str_starts_with s p \<longleftrightarrow> take (length p) s = p"

definition str_ends_with :: "string \<Rightarrow> string \<Rightarrow> bool" where
  "str_ends_with s p \<longleftrightarrow> length p \<le> length s \<and> drop (length s - length p) s = p"

fun str_contains :: "string \<Rightarrow> string \<Rightarrow> bool" where
  "str_contains [] p = (p = [])"
| "str_contains (c # cs) p = (str_starts_with (c # cs) p \<or> str_contains cs p)"

fun str_split :: "char \<Rightarrow> string \<Rightarrow> string list" where
  "str_split c [] = [[]]"
| "str_split c (x # xs) =
     (if x = c then [] # str_split c xs
      else case str_split c xs of [] \<Rightarrow> [[x]] | w # ws \<Rightarrow> (x # w) # ws)"

text \<open>The UTF-8 encodings of the characters with the Unicode property \<open>White_Space\<close>.\<close>

definition ws_encodings :: "string list" where
  "ws_encodings = map (map char_of)
     ([[9], [10], [11], [12], [13], [32], [0xC2, 0x85], [0xC2, 0xA0], [0xE1, 0x9A, 0x80]]
      @ map (\<lambda>b. [0xE2, 0x80, b]) [0x80, 0x81, 0x82, 0x83, 0x84, 0x85, 0x86, 0x87, 0x88, 0x89, 0x8A,
          0xA8, 0xA9, 0xAF]
      @ [[0xE2, 0x81, 0x9F], [0xE3, 0x80, 0x80 :: nat]])"

function str_trim_start :: "string \<Rightarrow> string" where
  "str_trim_start s =
     (case find (\<lambda>w. str_starts_with s w \<and> w \<noteq> []) ws_encodings of
        None \<Rightarrow> s
      | Some w \<Rightarrow> if s = [] then s else str_trim_start (drop (length w) s))"
  by pat_completeness auto
termination
  by (relation "measure length") (auto simp: find_Some_iff)

declare str_trim_start.simps [simp del]

function str_trim_end :: "string \<Rightarrow> string" where
  "str_trim_end s =
     (case find (\<lambda>w. str_ends_with s w \<and> w \<noteq> []) ws_encodings of
        None \<Rightarrow> s
      | Some w \<Rightarrow> if s = [] then s else str_trim_end (take (length s - length w) s))"
  by pat_completeness auto
termination
  by (relation "measure length") (auto simp: find_Some_iff)

declare str_trim_end.simps [simp del]

definition str_trim :: "string \<Rightarrow> string" where
  "str_trim s = str_trim_end (str_trim_start s)"

definition digit_val :: "char \<Rightarrow> nat option" where
  "digit_val c = (let n = of_char c :: nat in if 48 \<le> n \<and> n \<le> 57 then Some (n - 48) else None)"

fun digits_val :: "nat \<Rightarrow> string \<Rightarrow> nat option" where
  "digits_val acc [] = Some acc"
| "digits_val acc (c # cs) =
     (case digit_val c of None \<Rightarrow> None | Some d \<Rightarrow> digits_val (10 * acc + d) cs)"

text \<open>\<open>str::parse\<close> for a signed integer type with the given range.\<close>

definition parse_int :: "int \<Rightarrow> int \<Rightarrow> string \<Rightarrow> int option" where
  "parse_int lo hi s =
     (let (neg, ds) = (case s of
          [] \<Rightarrow> (False, [])
        | c # cs \<Rightarrow> if c = CHR ''-'' then (True, cs)
                    else if c = CHR ''+'' then (False, cs) else (False, c # cs))
      in if ds = [] then None
         else case digits_val 0 ds of
             None \<Rightarrow> None
           | Some n \<Rightarrow> let v = (if neg then - int n else int n)
                       in if lo \<le> v \<and> v \<le> hi then Some v else None)"

definition parse_i64 :: "string \<Rightarrow> i64 option" where
  "parse_i64 s = parse_int i64_min i64_max s"

definition parse_i128 :: "string \<Rightarrow> int option" where
  "parse_i128 s = parse_int (- (2 ^ 127)) (2 ^ 127 - 1) s"

text \<open>The same for an unsigned type: a minus sign is no digit.\<close>

definition parse_uint :: "nat \<Rightarrow> string \<Rightarrow> nat option" where
  "parse_uint hi s =
     (let ds = (if s \<noteq> [] \<and> hd s = CHR ''+'' then tl s else s)
      in if ds = [] then None
         else case digits_val 0 ds of None \<Rightarrow> None | Some n \<Rightarrow> if n \<le> hi then Some n else None)"

function nat_to_string :: "nat \<Rightarrow> string" where
  "nat_to_string n = (if n < 10 then [char_of (48 + n)]
     else nat_to_string (n div 10) @ [char_of (48 + n mod 10)])"
  by pat_completeness auto
termination
  by (relation "measure id") auto

declare nat_to_string.simps [simp del]

definition int_to_string :: "int \<Rightarrow> string" where
  "int_to_string i = (if i < 0 then CHR ''-'' # nat_to_string (nat (- i)) else nat_to_string (nat i))"

definition bool_to_string :: "bool \<Rightarrow> string" where
  "bool_to_string b = (if b then ''true'' else ''false'')"

lemma parse_int_range: "parse_int lo hi s = Some v \<Longrightarrow> lo \<le> v \<and> v \<le> hi"
  by (auto simp: parse_int_def Let_def split: list.splits option.splits if_splits prod.splits)

lemma parse_i64_range: "parse_i64 s = Some v \<Longrightarrow> is_i64 v"
  using parse_int_range [of i64_min i64_max s v] by (simp add: parse_i64_def is_i64_def)

lemma str_split_not_Nil [simp]: "str_split c s \<noteq> []"
  by (induction s) (auto split: list.splits)

lemma digit_val_char_of: "d < 10 \<Longrightarrow> digit_val (char_of (48 + d)) = Some d"
  by (simp add: digit_val_def of_char_of)

lemma digits_val_append:
  "digits_val acc (xs @ ys) = (case digits_val acc xs of None \<Rightarrow> None | Some a \<Rightarrow> digits_val a ys)"
  by (induction xs arbitrary: acc) (auto split: option.splits)

lemma nat_to_string_not_Nil [simp]: "nat_to_string n \<noteq> []"
  by (subst nat_to_string.simps) simp

lemma digits_val_nat_to_string: "digits_val 0 (nat_to_string n) = Some n"
proof (induction n rule: nat_to_string.induct)
  case (1 n)
  show ?case
  proof (cases "n < 10")
    case True
    then show ?thesis by (subst nat_to_string.simps) (simp add: digit_val_char_of)
  next
    case False
    with "1.IH" show ?thesis
      by (subst nat_to_string.simps) (simp add: digits_val_append digit_val_char_of)
  qed
qed

lemma nat_to_string_inj: "nat_to_string m = nat_to_string n \<longleftrightarrow> m = n"
  by (metis digits_val_nat_to_string option.inject)

text \<open>Trimming leaves a string alone that starts and ends in a printing ASCII character.\<close>

definition graphic :: "char \<Rightarrow> bool" where
  "graphic c \<longleftrightarrow> (let n = of_char c :: nat in 33 \<le> n \<and> n \<le> 126)"

lemma ws_encodings_not_graphic: "list_all (\<lambda>w. w \<noteq> [] \<and> \<not> graphic (hd w) \<and> \<not> graphic (last w)) ws_encodings"
  by (simp add: ws_encodings_def graphic_def of_char_of)

lemma ws_encodings_ends:
  assumes "w \<in> set ws_encodings"
  shows "w \<noteq> []" "\<not> graphic (hd w)" "\<not> graphic (last w)"
  using ws_encodings_not_graphic assms by (simp_all add: list_all_iff)

lemma str_starts_with_hd: "str_starts_with s p \<Longrightarrow> p \<noteq> [] \<Longrightarrow> hd s = hd p"
  by (cases p; cases s) (auto simp: str_starts_with_def)

lemma str_ends_with_last: "str_ends_with s p \<Longrightarrow> p \<noteq> [] \<Longrightarrow> last s = last p"
  by (metis append_take_drop_id last_appendR str_ends_with_def)

lemma str_trim_graphic:
  assumes "graphic (hd s)" "graphic (last s)"
  shows "str_trim s = s"
proof -
  have "find (\<lambda>w. str_starts_with s w \<and> w \<noteq> []) ws_encodings = None"
    unfolding find_None_iff by (metis assms(1) str_starts_with_hd ws_encodings_ends(2))
  then have start: "str_trim_start s = s" by (subst str_trim_start.simps) simp
  have "find (\<lambda>w. str_ends_with s w \<and> w \<noteq> []) ws_encodings = None"
    unfolding find_None_iff by (metis assms(2) str_ends_with_last ws_encodings_ends(3))
  then have "str_trim_end s = s" by (subst str_trim_end.simps) simp
  with start show ?thesis by (simp add: str_trim_def)
qed

end
