(* ===== verification/Float64.thy ===== *)
theory Float64
  imports Prelude "HOL-Library.Log_Nat"
begin

text \<open>
  IEEE~754 binary64, the \<open>f64\<close> of the sources. A finite value is its exact rational value;
  arithmetic rounds to nearest, ties to even, with 53 significant bits, gradual underflow at
  $2^{-1074}$ and overflow to an infinity. The sign of zero is not kept: no source line modelled
  here observes it. The lemmas give what the components need: rounding is monotone, exact on
  53-bit values and has relative error at most $2^{-53}$.
\<close>

datatype f64 = NaN | PInf | NInf | Fin rat

definition ilog2 :: "rat \<Rightarrow> int" where
  "ilog2 q = (let (n, d) = quotient_of \<bar>q\<bar>; e = bitlen n - bitlen d
              in if 2 powi e \<le> \<bar>q\<bar> then e else e - 1)"

definition round_half_even :: "rat \<Rightarrow> int" where
  "round_half_even x =
     (let f = \<lfloor>x\<rfloor>; r = x - of_int f
      in if r < 1 / 2 then f
         else if 1 / 2 < r then f + 1
         else if even f then f else f + 1)"

definition ulp_exp :: "rat \<Rightarrow> int" where
  "ulp_exp q = max (ilog2 q - 52) (- 1074)"

definition round_rat :: "rat \<Rightarrow> rat" where
  "round_rat q = (if q = 0 then 0
     else of_int (round_half_even (q / 2 powi (ulp_exp q))) * 2 powi (ulp_exp q))"

definition round_f64 :: "rat \<Rightarrow> f64" where
  "round_f64 q = (let r = round_rat q
     in if \<bar>r\<bar> < 2 ^ 1024 then Fin r else if 0 < r then PInf else NInf)"

text \<open>Comparison operators: every comparison with a NaN is false.\<close>

fun f64_less :: "f64 \<Rightarrow> f64 \<Rightarrow> bool" where
  "f64_less (Fin a) (Fin b) = (a < b)"
| "f64_less (Fin _) PInf = True"
| "f64_less NInf (Fin _) = True"
| "f64_less NInf PInf = True"
| "f64_less _ _ = False"

fun f64_eq :: "f64 \<Rightarrow> f64 \<Rightarrow> bool" where
  "f64_eq (Fin a) (Fin b) = (a = b)"
| "f64_eq PInf PInf = True"
| "f64_eq NInf NInf = True"
| "f64_eq _ _ = False"

definition f64_le :: "f64 \<Rightarrow> f64 \<Rightarrow> bool" where
  "f64_le x y \<longleftrightarrow> f64_less x y \<or> f64_eq x y"

definition inf_of_sign :: "rat \<Rightarrow> f64" where
  "inf_of_sign s = (if s = 0 then NaN else if 0 < s then PInf else NInf)"

fun f64_add :: "f64 \<Rightarrow> f64 \<Rightarrow> f64" where
  "f64_add (Fin a) (Fin b) = round_f64 (a + b)"
| "f64_add NaN _ = NaN"
| "f64_add _ NaN = NaN"
| "f64_add PInf NInf = NaN"
| "f64_add NInf PInf = NaN"
| "f64_add PInf _ = PInf"
| "f64_add _ PInf = PInf"
| "f64_add NInf _ = NInf"
| "f64_add _ NInf = NInf"

fun f64_mul :: "f64 \<Rightarrow> f64 \<Rightarrow> f64" where
  "f64_mul (Fin a) (Fin b) = round_f64 (a * b)"
| "f64_mul NaN _ = NaN"
| "f64_mul _ NaN = NaN"
| "f64_mul (Fin a) PInf = inf_of_sign a"
| "f64_mul (Fin a) NInf = inf_of_sign (- a)"
| "f64_mul PInf (Fin b) = inf_of_sign b"
| "f64_mul NInf (Fin b) = inf_of_sign (- b)"
| "f64_mul PInf PInf = PInf"
| "f64_mul NInf NInf = PInf"
| "f64_mul _ _ = NInf"

fun f64_div :: "f64 \<Rightarrow> f64 \<Rightarrow> f64" where
  "f64_div (Fin a) (Fin b) = (if b = 0 then inf_of_sign a else round_f64 (a / b))"
| "f64_div NaN _ = NaN"
| "f64_div _ NaN = NaN"
| "f64_div (Fin _) _ = Fin 0"
| "f64_div PInf (Fin b) = (if b < 0 then NInf else PInf)"
| "f64_div NInf (Fin b) = (if b < 0 then PInf else NInf)"
| "f64_div _ _ = NaN"

text \<open>\<open>as\<close> casts: from integers with rounding, to integers truncating and saturating, NaN to 0.\<close>

definition i64_to_f64 :: "int \<Rightarrow> f64" where
  "i64_to_f64 n = round_f64 (of_int n)"

definition nat_to_f64 :: "nat \<Rightarrow> f64" where
  "nat_to_f64 n = round_f64 (of_nat n)"

definition trunc_rat :: "rat \<Rightarrow> int" where
  "trunc_rat q = (if 0 \<le> q then \<lfloor>q\<rfloor> else \<lceil>q\<rceil>)"

fun f64_to_int :: "int \<Rightarrow> int \<Rightarrow> f64 \<Rightarrow> int" where
  "f64_to_int lo hi NaN = 0"
| "f64_to_int lo hi PInf = hi"
| "f64_to_int lo hi NInf = lo"
| "f64_to_int lo hi (Fin q) = clamp_int lo hi (trunc_rat q)"

definition f64_to_i64 :: "f64 \<Rightarrow> int" where
  "f64_to_i64 x = f64_to_int i64_min i64_max x"

definition f64_to_u64 :: "f64 \<Rightarrow> u64" where
  "f64_to_u64 x = word_of_int (f64_to_int 0 (2 ^ 64 - 1) x)"

definition f64_to_usize :: "f64 \<Rightarrow> nat" where
  "f64_to_usize x = nat (f64_to_int 0 (2 ^ 64 - 1) x)"

fun f64_floor :: "f64 \<Rightarrow> f64" where
  "f64_floor (Fin q) = Fin (of_int \<lfloor>q\<rfloor>)"
| "f64_floor x = x"

fun f64_is_finite :: "f64 \<Rightarrow> bool" where
  "f64_is_finite (Fin _) = True"
| "f64_is_finite _ = False"

section \<open>Rounding\<close>

lemma round_half_even_le: "round_half_even x \<le> \<lfloor>x\<rfloor> + 1"
  and round_half_even_ge: "\<lfloor>x\<rfloor> \<le> round_half_even x"
  by (auto simp: round_half_even_def Let_def)

lemma round_half_even_of_int [simp]: "round_half_even (of_int n) = n"
  by (simp add: round_half_even_def)

lemma round_half_even_mono: "x \<le> y \<Longrightarrow> round_half_even x \<le> round_half_even y"
proof -
  assume le: "x \<le> y"
  then have fl: "\<lfloor>x\<rfloor> \<le> \<lfloor>y\<rfloor>" by (rule floor_mono)
  show ?thesis
  proof (cases "\<lfloor>x\<rfloor> = \<lfloor>y\<rfloor>")
    case True
    with le show ?thesis by (auto simp: round_half_even_def Let_def)
  next
    case False
    with fl have "\<lfloor>x\<rfloor> + 1 \<le> \<lfloor>y\<rfloor>" by simp
    with round_half_even_le [of x] round_half_even_ge [of y] show ?thesis by linarith
  qed
qed

lemma round_half_even_minus: "round_half_even (- x) = - round_half_even x"
proof (cases "x = of_int \<lfloor>x\<rfloor>")
  case True
  then show ?thesis by (metis of_int_minus round_half_even_of_int)
next
  case False
  have lt: "of_int \<lfloor>x\<rfloor> < x" using False by (metis of_int_floor_le order_less_le)
  have "\<lfloor>- x\<rfloor> = - \<lfloor>x\<rfloor> - 1"
  proof (rule floor_unique)
    show "of_int (- \<lfloor>x\<rfloor> - 1) \<le> - x" by (simp, linarith)
    show "- x < of_int (- \<lfloor>x\<rfloor> - 1) + 1" using lt by simp
  qed
  then show ?thesis by (auto simp: round_half_even_def Let_def)
qed

lemma round_half_even_error: "\<bar>of_int (round_half_even x) - x\<bar> \<le> 1 / 2"
proof -
  have "of_int \<lfloor>x\<rfloor> \<le> x" "x < of_int \<lfloor>x\<rfloor> + 1" by linarith+
  then show ?thesis by (auto simp: round_half_even_def Let_def abs_le_iff)
qed

lemma pow2_less_cancel: "(2 powi a :: rat) < 2 powi b \<Longrightarrow> a < b"
  using power_int_increasing [of b a "2 :: rat"] by force

lemma ilog2_bounds:
  assumes "q \<noteq> 0"
  shows "2 powi (ilog2 q) \<le> \<bar>q\<bar>" and "\<bar>q\<bar> < 2 powi (ilog2 q + 1)"
proof -
  obtain n d where nd: "quotient_of \<bar>q\<bar> = (n, d)" by fastforce
  have q: "\<bar>q\<bar> = of_int n / of_int d" and d: "0 < d"
    using nd quotient_of_div quotient_of_denom_pos by blast+
  have "0 < \<bar>q\<bar>" using assms by simp
  then have n: "0 < n" unfolding q using d by (simp add: zero_less_divide_iff)
  let ?e = "bitlen n - bitlen d"
  have bn: "2 ^ nat (bitlen n - 1) \<le> n" "n < 2 ^ nat (bitlen n)"
    using bitlen_bounds [OF n] by auto
  have bd: "2 ^ nat (bitlen d - 1) \<le> d" "d < 2 ^ nat (bitlen d)"
    using bitlen_bounds [OF d] by auto
  have pn: "0 < bitlen n" and pd: "0 < bitlen d" using n d bitlen_nonneg [of n] bitlen_nonneg [of d]
    by (metis bitlen_eq_zero_iff leD order_less_le)+
  have rn: "2 powi (bitlen n - 1) \<le> (of_int n :: rat)" "(of_int n :: rat) < 2 powi bitlen n"
    and rd: "2 powi (bitlen d - 1) \<le> (of_int d :: rat)" "(of_int d :: rat) < 2 powi bitlen d"
    using bn bd pn pd
    by (simp_all add: power_int_def)
  have up: "\<bar>q\<bar> < 2 powi (?e + 1)"
  proof -
    have "\<bar>q\<bar> < 2 powi bitlen n / 2 powi (bitlen d - 1)"
      unfolding q using rn rd n d by (intro frac_less) auto
    then show ?thesis by (simp add: power_int_diff power_int_add field_simps)
  qed
  have lo: "2 powi (?e - 1) \<le> \<bar>q\<bar>"
  proof -
    have "2 powi (bitlen n - 1) / 2 powi bitlen d \<le> \<bar>q\<bar>"
      unfolding q using rn rd n d by (intro frac_le) auto
    then show ?thesis by (simp add: power_int_diff power_int_add field_simps)
  qed
  show "2 powi (ilog2 q) \<le> \<bar>q\<bar>" "\<bar>q\<bar> < 2 powi (ilog2 q + 1)"
    using up lo by (auto simp: ilog2_def nd Let_def)
qed

lemma round_rat_minus: "round_rat (- q) = - round_rat q"
  by (simp add: round_rat_def ulp_exp_def ilog2_def round_half_even_minus)

text \<open>A number on the grid of its own binade bounds the rounding of everything below it.\<close>

lemma round_half_even_le_int:
  assumes "q \<le> of_int m * 2 powi u"
  shows "of_int (round_half_even (q / 2 powi u)) * 2 powi u \<le> (of_int m * 2 powi u :: rat)"
proof -
  have "q / 2 powi u \<le> of_int m" using assms by (simp add: divide_le_eq)
  then have "round_half_even (q / 2 powi u) \<le> round_half_even (of_int m)"
    by (rule round_half_even_mono)
  then show ?thesis by simp
qed

lemma round_half_even_ge_int:
  assumes "of_int m * 2 powi u \<le> q"
  shows "(of_int m * 2 powi u :: rat) \<le> of_int (round_half_even (q / 2 powi u)) * 2 powi u"
proof -
  have "of_int m \<le> q / 2 powi u" using assms by (simp add: le_divide_eq)
  then have "round_half_even (of_int m) \<le> round_half_even (q / 2 powi u)"
    by (rule round_half_even_mono)
  then show ?thesis by simp
qed

lemma pow2_grid: "u \<le> e \<Longrightarrow> (2 powi e :: rat) = of_int (2 ^ nat (e - u)) * 2 powi u"
proof -
  assume "u \<le> e"
  then have "(2 powi e :: rat) = 2 powi (e - u) * 2 powi u"
    by (simp flip: power_int_add)
  with \<open>u \<le> e\<close> show ?thesis by (simp add: power_int_def)
qed

lemma ilog2_mono: assumes "0 < p" "p \<le> q" shows "ilog2 p \<le> ilog2 q"
proof (rule ccontr)
  assume "\<not> ilog2 p \<le> ilog2 q"
  then have "ilog2 q + 1 \<le> ilog2 p" by simp
  then have "(2 powi (ilog2 q + 1) :: rat) \<le> 2 powi (ilog2 p)"
    by (rule power_int_increasing) simp
  with ilog2_bounds(2) [of q] ilog2_bounds(1) [of p] assms show False by simp
qed

lemma round_rat_mono_pos:
  assumes "0 < p" "p \<le> q" shows "round_rat p \<le> round_rat q"
proof (cases "ulp_exp p = ulp_exp q")
  case True
  have "p / 2 powi (ulp_exp q) \<le> q / 2 powi (ulp_exp q)"
    using assms by (simp add: divide_right_mono)
  then have "round_half_even (p / 2 powi (ulp_exp q)) \<le> round_half_even (q / 2 powi (ulp_exp q))"
    by (rule round_half_even_mono)
  then show ?thesis using assms True by (simp add: round_rat_def)
next
  case False
  let ?u = "ulp_exp p" and ?w = "ulp_exp q"
  have le: "ilog2 p \<le> ilog2 q" using assms by (rule ilog2_mono)
  with False have lt: "ilog2 p < ilog2 q" and w: "?w = ilog2 q - 52" and uw: "?u < ?w"
    by (auto simp: ulp_exp_def max_def split: if_splits)
  have u: "?u \<le> ilog2 q" using uw w by simp
  have "p \<le> 2 powi (ilog2 q)"
    using ilog2_bounds(2) [of p] assms power_int_increasing [of "ilog2 p + 1" "ilog2 q" "2 :: rat"] lt
    by simp
  then have "round_rat p \<le> 2 powi (ilog2 q)"
    using round_half_even_le_int [of p "2 ^ nat (ilog2 q - ?u)" ?u] pow2_grid [OF u] assms
    by (simp add: round_rat_def)
  also have "\<dots> \<le> round_rat q"
    using round_half_even_ge_int [of "2 ^ nat (ilog2 q - ?w)" ?w q] pow2_grid [of ?w "ilog2 q"]
      ilog2_bounds(1) [of q] assms w
    by (simp add: round_rat_def)
  finally show ?thesis .
qed

lemma round_rat_nonneg: "0 \<le> q \<Longrightarrow> 0 \<le> round_rat q"
  using round_half_even_ge_int [of 0 "ulp_exp q" q] by (simp add: round_rat_def)

lemma round_rat_mono: assumes "p \<le> q" shows "round_rat p \<le> round_rat q"
proof (cases "0 < p")
  case True
  then show ?thesis using assms by (rule round_rat_mono_pos)
next
  case False
  show ?thesis
  proof (cases "0 \<le> q")
    case True
    have "round_rat p \<le> 0" using round_rat_nonneg [of "- p"] False by (simp add: round_rat_minus)
    also have "0 \<le> round_rat q" using True by (rule round_rat_nonneg)
    finally show ?thesis .
  next
    case neg: False
    then have "round_rat (- q) \<le> round_rat (- p)" using assms by (intro round_rat_mono_pos) auto
    then show ?thesis by (simp add: round_rat_minus)
  qed
qed

text \<open>Every multiple of a small enough power of two with at most 53 significant bits is kept.\<close>

lemma round_rat_exact:
  assumes "\<bar>m\<bar> < 2 ^ 53" "- 1074 \<le> k"
  shows "round_rat (of_int m * 2 powi k) = of_int m * 2 powi k"
proof (cases "m = 0")
  case True then show ?thesis by (simp add: round_rat_def)
next
  case False
  let ?q = "of_int m * 2 powi k :: rat"
  have "2 powi (ilog2 ?q) \<le> \<bar>?q\<bar>" using False by (intro ilog2_bounds(1)) simp
  also have "\<dots> = of_int \<bar>m\<bar> * 2 powi k" by (simp add: abs_mult)
  also have "\<dots> < of_int (2 ^ 53) * 2 powi k"
    by (intro mult_strict_right_mono) (use assms in \<open>simp_all only: of_int_less_iff, simp\<close>)
  also have "\<dots> = 2 powi (k + 53)" by (simp add: power_int_add)
  finally have "ilog2 ?q < k + 53" by (rule pow2_less_cancel)
  then have u: "ulp_exp ?q \<le> k" using assms by (simp add: ulp_exp_def)
  have "?q = of_int (m * 2 ^ nat (k - ulp_exp ?q)) * 2 powi (ulp_exp ?q)"
    using pow2_grid [OF u] by simp
  then have "?q / 2 powi (ulp_exp ?q) = of_int (m * 2 ^ nat (k - ulp_exp ?q))"
    by (metis nonzero_mult_div_cancel_right power_int_not_zero zero_neq_numeral)
  then have "round_half_even (?q / 2 powi (ulp_exp ?q)) = m * 2 ^ nat (k - ulp_exp ?q)"
    by (metis round_half_even_of_int)
  with \<open>?q = of_int _ * _\<close> show ?thesis using False by (simp add: round_rat_def)
qed

lemma round_rat_of_int: "\<bar>m\<bar> < 2 ^ 53 \<Longrightarrow> round_rat (of_int m) = of_int m"
  using round_rat_exact [of m 0] by simp

lemma round_rat_error: assumes "2 powi (- 1022) \<le> q" shows "\<bar>round_rat q - q\<bar> \<le> q / 2 ^ 53"
proof -
  let ?u = "ulp_exp q"
  have q: "0 < q" using assms zero_less_power_int [of "2 :: rat" "- 1022"] by linarith
  have "\<bar>of_int (round_half_even (q / 2 powi ?u)) - q / 2 powi ?u\<bar> * 2 powi ?u \<le> 1 / 2 * 2 powi ?u"
    by (intro mult_right_mono round_half_even_error) simp
  then have e: "\<bar>round_rat q - q\<bar> \<le> 2 powi ?u / 2"
    using q by (simp add: round_rat_def abs_mult_pos left_diff_distrib)
  have "(2 powi (- 1022) :: rat) < 2 powi (ilog2 q + 1)" 
    using assms ilog2_bounds(2) [of q] q by simp
  then have "- 1022 < ilog2 q + 1" by (rule pow2_less_cancel)
  then have "?u = ilog2 q - 52" by (simp add: ulp_exp_def)
  then have "2 powi ?u = (2 powi (ilog2 q) / 2 ^ 52 :: rat)" by (simp add: power_int_diff)
  also have "\<dots> \<le> q / 2 ^ 52" using ilog2_bounds(1) [of q] q by (intro divide_right_mono) auto
  finally show ?thesis using e by simp
qed

section \<open>Facts used by the components\<close>

lemma round_f64_Fin: "\<bar>round_rat q\<bar> < 2 ^ 1024 \<Longrightarrow> round_f64 q = Fin (round_rat q)"
  by (simp add: round_f64_def)

lemma f64_le_refl: "x \<noteq> NaN \<Longrightarrow> f64_le x x"
  by (cases x) (auto simp: f64_le_def)

lemma f64_less_le_trans: "f64_less x y \<Longrightarrow> f64_le y z \<Longrightarrow> f64_less x z"
  by (cases x; cases y; cases z) (auto simp: f64_le_def)

lemma f64_less_trans: "f64_less x y \<Longrightarrow> f64_less y z \<Longrightarrow> f64_less x z"
  by (cases x; cases y; cases z) auto

lemma f64_less_irrefl [simp]: "\<not> f64_less x x"
  by (cases x) auto

lemma f64_less_asym: "f64_less x y \<Longrightarrow> \<not> f64_less y x"
  by (cases x; cases y) auto

lemma f64_not_less: "x \<noteq> NaN \<Longrightarrow> y \<noteq> NaN \<Longrightarrow> \<not> f64_less x y \<longleftrightarrow> f64_le y x"
  by (cases x; cases y) (auto simp: f64_le_def)

lemma f64_le_round: assumes "p \<le> q" shows "f64_le (round_f64 p) (round_f64 q)"
  using round_rat_mono [OF assms] by (auto simp: round_f64_def f64_le_def Let_def)

lemma f64_le_inf [simp]: "f64_le NInf x \<longleftrightarrow> x \<noteq> NaN" "f64_le x PInf \<longleftrightarrow> x \<noteq> NaN"
  by (cases x; simp add: f64_le_def)+

lemma f64_le_Fin [simp]: "f64_le (Fin a) (Fin b) \<longleftrightarrow> a \<le> b"
  by (auto simp: f64_le_def)

lemma f64_le_simps [simp]:
  "\<not> f64_le NaN x" "\<not> f64_le x NaN" "\<not> f64_le PInf (Fin a)" "\<not> f64_le (Fin a) NInf"
  "\<not> f64_le PInf NInf"
  by (cases x; simp add: f64_le_def)+

lemma round_f64_not_NaN [simp]: "round_f64 q \<noteq> NaN"
  by (simp add: round_f64_def Let_def)

lemma f64_mul_mono:
  assumes "f64_le x y" "0 < c" shows "f64_le (f64_mul x (Fin c)) (f64_mul y (Fin c))"
  using assms by (cases x; cases y) (auto simp: inf_of_sign_def intro: f64_le_round)

lemma nat_to_f64_exact: "n < 2 ^ 53 \<Longrightarrow> nat_to_f64 n = Fin (of_nat n)"
proof -
  assume n: "n < 2 ^ 53"
  then have r: "round_rat (of_nat n) = of_nat n"
    using round_rat_of_int [of "int n"] by simp
  have "(of_nat n :: rat) < of_nat (2 ^ 53)" using n by (simp only: of_nat_less_iff)
  also have "\<dots> < 2 ^ 1024" by simp
  finally show ?thesis using r by (simp add: nat_to_f64_def round_f64_def)
qed

lemma round_f64_small:
  assumes "0 \<le> q" "q \<le> 2 ^ 52"
  shows "round_f64 q = Fin (round_rat q)"
proof (rule round_f64_Fin)
  have "round_rat q \<le> round_rat (of_int (2 ^ 52))" using assms by (intro round_rat_mono) simp
  also have "\<dots> = 2 ^ 52" by (subst round_rat_of_int) simp_all
  also have "\<dots> < (2 :: rat) ^ 1024" by simp
  finally show "\<bar>round_rat q\<bar> < 2 ^ 1024" using round_rat_nonneg [OF assms(1)] by simp
qed

end
