(* ===== verification/Values.thy ===== *)
theory Values
  imports Float64
begin

text \<open>
  The value types of \<open>src/statsig-rust/src/evaluation\<close>: JSON values as \<open>serde_json\<close> gives them,
  \<open>DynamicString\<close> and \<open>DynamicValue\<close> (user side of a condition), \<open>MemoizedEvaluatorValue\<close> (target
  side of a condition) and \<open>DynamicReturnable\<close> (the value a rule returns), with their conversions.

  The record \<open>ext\<close> collects the functions of third-party crates and the standard-library functions
  that rest on Unicode tables or on the shortest-decimal algorithm. Every definition takes it as an
  argument, so a theorem without a hypothesis on it holds for every implementation.
\<close>

section \<open>JSON\<close>

text \<open>\<open>serde_json::Number\<close>: a non-negative integer, a negative integer or a finite double.\<close>

datatype json_num = PosInt nat | NegInt int | FloatNum f64

datatype json =
    JNull
  | JBool bool
  | JNumber json_num
  | JString string
  | JArray "json list"
  | JObject "(string \<times> json) list"

fun json_as_f64 :: "json_num \<Rightarrow> f64 option" where
  "json_as_f64 (PosInt n) = Some (nat_to_f64 n)"
| "json_as_f64 (NegInt i) = Some (i64_to_f64 i)"
| "json_as_f64 (FloatNum f) = Some f"

fun json_as_i64 :: "json_num \<Rightarrow> int option" where
  "json_as_i64 (PosInt n) = (if int n \<le> i64_max then Some (int n) else None)"
| "json_as_i64 (NegInt i) = Some i"
| "json_as_i64 (FloatNum f) = None"

fun json_as_str :: "json \<Rightarrow> string option" where
  "json_as_str (JString s) = Some s"
| "json_as_str _ = None"

section \<open>External functions\<close>

record ext =
  x_to_lowercase :: "string \<Rightarrow> string"
  x_f64_to_string :: "f64 \<Rightarrow> string"
  x_parse_f64 :: "string \<Rightarrow> f64 option"
  x_json_to_string :: "json \<Rightarrow> string"
  x_ahash_str :: "string \<Rightarrow> u64"
  x_hash_one :: "u64 list \<Rightarrow> u64"
  x_hash_bytes :: "string \<Rightarrow> u64"
  x_parse_rfc3339 :: "string \<Rightarrow> int option"
  x_parse_naive :: "string \<Rightarrow> int option"
  x_num_days :: "int \<Rightarrow> int option"
  x_regex_new :: "string \<Rightarrow> bool"
  x_regex_is_match :: "string \<Rightarrow> string \<Rightarrow> bool option"
  x_sha256 :: "string \<Rightarrow> u8 list"
  x_base64 :: "u8 list \<Rightarrow> string"
  x_fast_hash :: "nat \<Rightarrow> string list \<Rightarrow> u64"

section \<open>Dynamic strings\<close>

record dynamic_string =
  ds_value :: string
  ds_lowercased :: string
  ds_hash :: u64

definition ds_from_string :: "ext \<Rightarrow> string \<Rightarrow> dynamic_string" where
  "ds_from_string x s =
     \<lparr>ds_value = s, ds_lowercased = x_to_lowercase x s, ds_hash = x_ahash_str x s\<rparr>"

definition ds_from_json :: "ext \<Rightarrow> json \<Rightarrow> dynamic_string" where
  "ds_from_json x j =
     (let str_value = (case json_as_str j of Some s \<Rightarrow> s | None \<Rightarrow> x_json_to_string x j)
      in ds_from_string x str_value)"

definition ds_eq :: "dynamic_string \<Rightarrow> dynamic_string \<Rightarrow> bool" where
  "ds_eq a b \<longleftrightarrow> ds_value a = ds_value b"

text \<open>A dynamic string whose text is \<open>true\<close> or \<open>false\<close> is written as a JSON boolean.\<close>

definition ds_serialize :: "dynamic_string \<Rightarrow> json" where
  "ds_serialize s =
     (if ds_value s = ''true'' then JBool True
      else if ds_value s = ''false'' then JBool False
      else JString (ds_value s))"

section \<open>Dynamic values\<close>

datatype dynamic_value = DynamicValue
  (dv_null: bool)
  (dv_bool: "bool option")
  (dv_int: "i64 option")
  (dv_float: "f64 option")
  (dv_timestamp: "i64 option")
  (dv_string: "dynamic_string option")
  (dv_array: "dynamic_value list option")
  (dv_object: "(string \<times> dynamic_value) list option")
  (dv_json: json)
  (dv_hash: u64)

definition dv_new :: dynamic_value where
  "dv_new = DynamicValue False None None None None None None None JNull 0"

definition dv_for_timestamp_evaluation :: "i64 \<Rightarrow> dynamic_value" where
  "dv_for_timestamp_evaluation ts = DynamicValue False None (Some ts) None None None None None JNull 0"

text \<open>\<open>DynamicValue::try_parse_timestamp\<close>, with its length and delimiter pre-check.\<close>

definition dv_try_parse_timestamp :: "ext \<Rightarrow> string \<Rightarrow> i64 option" where
  "dv_try_parse_timestamp x s =
     (case parse_i64 s of
        Some ts \<Rightarrow> Some ts
      | None \<Rightarrow>
          if length s < 8 \<or> 20 < length s
             \<or> (\<not> str_contains s ''-'' \<and> \<not> str_contains s ''T'' \<and> \<not> str_contains s '':'') then None
          else case x_parse_rfc3339 x s of
              Some ts \<Rightarrow> Some ts
            | None \<Rightarrow> x_parse_naive x s)"

text \<open>The numeric views of a JSON number.\<close>

definition dv_number_views :: "json_num \<Rightarrow> f64 option \<times> int option" where
  "dv_number_views n =
     (let float_value = json_as_f64 n; int_value = json_as_i64 n
      in case (float_value, int_value) of
           (Some f, None) \<Rightarrow>
             (let iv = f64_to_i64 f
              in if f64_eq (i64_to_f64 iv) f then (float_value, Some iv) else (float_value, int_value))
         | (None, Some i) \<Rightarrow>
             (let fv = i64_to_f64 i
              in if f64_to_i64 fv = i then (Some fv, int_value) else (float_value, int_value))
         | _ \<Rightarrow> (float_value, int_value))"

definition dv_number_string :: "ext \<Rightarrow> f64 option \<Rightarrow> int option \<Rightarrow> string option \<Rightarrow> string option" where
  "dv_number_string x float_value int_value stringified =
     (case float_value of
        Some f \<Rightarrow> Some (x_f64_to_string x f)
      | None \<Rightarrow> (case int_value of Some i \<Rightarrow> Some (int_to_string i) | None \<Rightarrow> stringified))"

definition dv_hash_of_json :: "ext \<Rightarrow> json \<Rightarrow> u64" where
  "dv_hash_of_json x j = (case j of JString s \<Rightarrow> x_ahash_str x s | _ \<Rightarrow> x_ahash_str x (x_json_to_string x j))"

fun dv_from_json :: "ext \<Rightarrow> json \<Rightarrow> dynamic_value" where
  "dv_from_json x JNull =
     DynamicValue True None None None None None None None JNull (dv_hash_of_json x JNull)"
| "dv_from_json x (JBool b) =
     DynamicValue False (Some b) None None None (Some (ds_from_string x (bool_to_string b))) None None
       (JBool b) (dv_hash_of_json x (JBool b))"
| "dv_from_json x (JNumber n) =
     (let (float_value, int_value) = dv_number_views n;
          string_value = dv_number_string x float_value int_value (Some (x_json_to_string x (JNumber n)))
      in DynamicValue False None int_value float_value None
           (map_option (ds_from_string x) string_value) None None
           (JNumber n) (dv_hash_of_json x (JNumber n)))"
| "dv_from_json x (JString s) =
     DynamicValue False None (parse_i64 s) (x_parse_f64 x s) (dv_try_parse_timestamp x s)
       (Some (ds_from_string x s)) None None (JString s) (dv_hash_of_json x (JString s))"
| "dv_from_json x (JArray arr) =
     DynamicValue False None None None None
       (Some (ds_from_string x (x_json_to_string x (JArray arr))))
       (Some (map (dv_from_json x) arr)) None (JArray arr) (dv_hash_of_json x (JArray arr))"
| "dv_from_json x (JObject obj) =
     DynamicValue False None None None None None None
       (Some (map (\<lambda>(k, v). (k, dv_from_json x v)) obj)) (JObject obj) (dv_hash_of_json x (JObject obj))"

definition dv_from_string :: "ext \<Rightarrow> string \<Rightarrow> dynamic_value" where
  "dv_from_string x s = dv_from_json x (JString s)"

definition json_num_of_int :: "int \<Rightarrow> json_num" where
  "json_num_of_int i = (if i < 0 then NegInt i else PosInt (nat i))"

definition dv_from_i64 :: "ext \<Rightarrow> i64 \<Rightarrow> dynamic_value" where
  "dv_from_i64 x i = dv_from_json x (JNumber (json_num_of_int i))"

definition dv_from_usize :: "ext \<Rightarrow> nat \<Rightarrow> dynamic_value" where
  "dv_from_usize x n = dv_from_json x (JNumber (PosInt n))"

text \<open>A non-finite float has no JSON number; it is replaced by its saturating cast.\<close>

definition dv_from_f64 :: "ext \<Rightarrow> f64 \<Rightarrow> dynamic_value" where
  "dv_from_f64 x f =
     (let num = (if f64_is_finite f then FloatNum f else json_num_of_int (f64_to_i64 f))
      in dv_from_json x (JNumber num))"

definition dv_from_bool :: "ext \<Rightarrow> bool \<Rightarrow> dynamic_value" where
  "dv_from_bool x b = dv_from_json x (JBool b)"

definition dv_from_json_array :: "ext \<Rightarrow> json list \<Rightarrow> dynamic_value" where
  "dv_from_json_array x arr = dv_from_json x (JArray arr)"

definition dv_from_values :: "ext \<Rightarrow> dynamic_value list \<Rightarrow> dynamic_value" where
  "dv_from_values x vs =
     (let json_value = JArray (map dv_json vs)
      in DynamicValue False None None None None
           (Some (ds_from_string x (x_json_to_string x json_value)))
           (Some vs) None json_value (x_hash_one x (map dv_hash vs)))"

definition dv_from_map :: "ext \<Rightarrow> (string, dynamic_value) HashMap \<Rightarrow> dynamic_value" where
  "dv_from_map x m =
     DynamicValue False None None None None None None (Some m)
       (JObject (map (\<lambda>(k, v). (k, dv_json v)) m)) (x_hash_one x (map dv_hash (hm_values m)))"

definition dv_serialize :: "dynamic_value \<Rightarrow> json" where
  "dv_serialize v = dv_json v"

section \<open>Evaluator values\<close>

datatype evaluator_value_type = TNull | TBool | TNumber | TString | TArray | TObject

record memo_value =
  mv_type :: evaluator_value_type
  mv_bool :: "bool option"
  mv_float :: "f64 option"
  mv_string :: "dynamic_string option"
  mv_regex :: "string option"
  mv_timestamp :: "i64 option"
  mv_object :: "(string, dynamic_string) HashMap option"
  mv_array :: "(string, nat \<times> string) HashMap option"

definition mv_new :: "evaluator_value_type \<Rightarrow> memo_value" where
  "mv_new t = \<lparr>mv_type = t, mv_bool = None, mv_float = None, mv_string = None, mv_regex = None,
     mv_timestamp = None, mv_object = None, mv_array = None\<rparr>"

definition mv_empty :: memo_value where
  "mv_empty = mv_new TNull"

definition mv_try_parse_timestamp :: "ext \<Rightarrow> string \<Rightarrow> i64 option" where
  "mv_try_parse_timestamp x s =
     (case parse_i64 s of
        Some ts \<Rightarrow> Some ts
      | None \<Rightarrow> (case x_parse_rfc3339 x s of Some ts \<Rightarrow> Some ts | None \<Rightarrow> x_parse_naive x s))"

definition mv_from_string :: "ext \<Rightarrow> string \<Rightarrow> memo_value" where
  "mv_from_string x s =
     (mv_new TString)\<lparr>mv_timestamp := mv_try_parse_timestamp x s, mv_float := x_parse_f64 x s,
       mv_string := Some (ds_from_string x s)\<rparr>"

definition json_str_value :: "ext \<Rightarrow> json \<Rightarrow> string" where
  "json_str_value x v = (case json_as_str v of Some s \<Rightarrow> s | None \<Rightarrow> x_json_to_string x v)"

text \<open>
  The keyed array: an entry per element, keyed by its lower-cased text; an element whose key is
  already there replaces the earlier one, as collecting into a hash map does.
\<close>

fun keyed_array_from :: "ext \<Rightarrow> nat \<Rightarrow> json list \<Rightarrow> (string, nat \<times> string) HashMap \<Rightarrow>
    (string, nat \<times> string) HashMap" where
  "keyed_array_from x idx [] acc = acc"
| "keyed_array_from x idx (v # vs) acc =
     (let str_value = json_str_value x v
      in keyed_array_from x (Suc idx) vs
           (hm_insert (x_to_lowercase x str_value) (idx, str_value) acc))"

fun mv_from_json :: "ext \<Rightarrow> json \<Rightarrow> memo_value" where
  "mv_from_json x JNull = mv_new TNull"
| "mv_from_json x (JBool b) = (mv_new TBool)\<lparr>mv_bool := Some b\<rparr>"
| "mv_from_json x (JNumber n) = (mv_new TNumber)\<lparr>mv_float := json_as_f64 n\<rparr>"
| "mv_from_json x (JString s) = mv_from_string x s"
| "mv_from_json x (JArray arr) = (mv_new TArray)\<lparr>mv_array := Some (keyed_array_from x 0 arr [])\<rparr>"
| "mv_from_json x (JObject obj) =
     (mv_new TObject)\<lparr>mv_object := Some (map (\<lambda>(k, v). (k, ds_from_json x v)) obj)\<rparr>"

definition mv_compile_regex :: "ext \<Rightarrow> memo_value \<Rightarrow> memo_value" where
  "mv_compile_regex x m =
     (case mv_string m of
        None \<Rightarrow> m
      | Some s \<Rightarrow> if x_regex_new x (ds_value s) then m\<lparr>mv_regex := Some (ds_value s)\<rparr> else m)"

text \<open>
  \<open>is_equal_to_dynamic_value\<close>. The array branch reads \<open>other_arr[*i]\<close>, which panics when the index
  is out of range; \<open>None\<close> is that panic.
\<close>

fun eq_array_loop :: "(nat \<times> string) list \<Rightarrow> dynamic_value list \<Rightarrow> bool option" where
  "eq_array_loop [] other = Some True"
| "eq_array_loop ((i, self_value) # rest) other =
     (if length other \<le> i then None
      else case dv_string (other ! i) of
          None \<Rightarrow> Some False
        | Some s \<Rightarrow> if self_value \<noteq> ds_value s then Some False else eq_array_loop rest other)"

fun eq_object_loop :: "(string \<times> dynamic_string) list \<Rightarrow> (string, dynamic_value) HashMap \<Rightarrow> bool" where
  "eq_object_loop [] other = True"
| "eq_object_loop ((k, v) # rest) other =
     (case hm_get other k of
        None \<Rightarrow> False
      | Some dv \<Rightarrow>
          (case dv_string dv of
             None \<Rightarrow> False
           | Some s \<Rightarrow> if ds_value s \<noteq> ds_value v then False else eq_object_loop rest other))"

fun opt_f64_eq :: "f64 option \<Rightarrow> f64 option \<Rightarrow> bool" where
  "opt_f64_eq (Some a) (Some b) = f64_eq a b"
| "opt_f64_eq None None = True"
| "opt_f64_eq _ _ = False"

fun opt_ds_eq :: "dynamic_string option \<Rightarrow> dynamic_string option \<Rightarrow> bool" where
  "opt_ds_eq (Some a) (Some b) = ds_eq a b"
| "opt_ds_eq None None = True"
| "opt_ds_eq _ _ = False"

definition is_equal_to_dynamic_value :: "memo_value \<Rightarrow> dynamic_value \<Rightarrow> bool option" where
  "is_equal_to_dynamic_value m other =
     (case mv_type m of
        TNull \<Rightarrow> Some (dv_json other = JNull)
      | TBool \<Rightarrow> Some (mv_bool m = dv_bool other)
      | TNumber \<Rightarrow> Some (opt_f64_eq (mv_float m) (dv_float other))
      | TString \<Rightarrow> Some (opt_ds_eq (mv_string m) (dv_string other))
      | TArray \<Rightarrow>
          (case mv_array m of
             None \<Rightarrow> Some (dv_array other = None)
           | Some keyed \<Rightarrow>
               (case dv_array other of
                  None \<Rightarrow> Some False
                | Some arr \<Rightarrow>
                    if length keyed \<noteq> length arr then Some False
                    else eq_array_loop (hm_values keyed) arr))
      | TObject \<Rightarrow>
          (case mv_object m of
             None \<Rightarrow> Some (dv_object other = None)
           | Some obj \<Rightarrow>
               (case dv_object other of
                  None \<Rightarrow> Some False
                | Some other_obj \<Rightarrow>
                    if length obj \<noteq> length other_obj then Some False
                    else Some (eq_object_loop obj other_obj))))"

text \<open>Serialisation: the array goes back to the order of the original indices.\<close>

definition array_entries :: "(string, nat \<times> string) HashMap \<Rightarrow> string list" where
  "array_entries m = map snd (sort_key fst (hm_values m))"

fun json_of_f64 :: "f64 \<Rightarrow> json" where
  "json_of_f64 (Fin q) = JNumber (FloatNum (Fin q))"
| "json_of_f64 _ = JNull"

fun json_of_opt :: "('a \<Rightarrow> json) \<Rightarrow> 'a option \<Rightarrow> json" where
  "json_of_opt f None = JNull"
| "json_of_opt f (Some a) = f a"

definition mv_serialize :: "memo_value \<Rightarrow> json" where
  "mv_serialize m =
     (case mv_type m of
        TNull \<Rightarrow> JNull
      | TBool \<Rightarrow> json_of_opt JBool (mv_bool m)
      | TNumber \<Rightarrow> json_of_opt json_of_f64 (mv_float m)
      | TString \<Rightarrow> json_of_opt ds_serialize (mv_string m)
      | TArray \<Rightarrow> (case mv_array m of None \<Rightarrow> JNull | Some a \<Rightarrow> JArray (map JString (array_entries a)))
      | TObject \<Rightarrow> json_of_opt (\<lambda>obj. JObject (map (\<lambda>(k, v). (k, ds_serialize v)) obj)) (mv_object m))"

section \<open>Dynamic returnables\<close>

datatype returnable_value =
    RNull
  | RBool bool
  | RJsonPointer "(string, json) HashMap"
  | RJsonStatic "(string, json) HashMap"
  | RJsonArchived "(string, json) HashMap"

record dynamic_returnable =
  dr_hash :: u64
  dr_value :: returnable_value

definition dr_empty :: dynamic_returnable where
  "dr_empty = \<lparr>dr_hash = 0, dr_value = RNull\<rparr>"

definition dr_from_bool :: "bool \<Rightarrow> dynamic_returnable" where
  "dr_from_bool b = (if b then \<lparr>dr_hash = 0, dr_value = RBool True\<rparr> else \<lparr>dr_hash = 0, dr_value = RBool False\<rparr>)"

definition dr_get_bool :: "dynamic_returnable \<Rightarrow> bool option" where
  "dr_get_bool r = (case dr_value r of RBool b \<Rightarrow> Some b | _ \<Rightarrow> None)"

definition dr_get_json :: "dynamic_returnable \<Rightarrow> (string, json) HashMap option" where
  "dr_get_json r =
     (case dr_value r of
        RJsonPointer m \<Rightarrow> Some m
      | RJsonStatic m \<Rightarrow> Some m
      | RJsonArchived m \<Rightarrow> Some m
      | _ \<Rightarrow> None)"

definition dr_get_json_pointer_ref :: "dynamic_returnable \<Rightarrow> (string, json) HashMap option" where
  "dr_get_json_pointer_ref r =
     (case dr_value r of RJsonPointer m \<Rightarrow> Some m | RJsonStatic m \<Rightarrow> Some m | _ \<Rightarrow> None)"

definition dr_get_json_archived_ref :: "dynamic_returnable \<Rightarrow> (string, json) HashMap option" where
  "dr_get_json_archived_ref r = (case dr_value r of RJsonArchived m \<Rightarrow> Some m | _ \<Rightarrow> None)"

text \<open>
  \<open>from_map\<close> serialises the map and interns it under the hash of its text; without preloaded data
  the interned store answers with a pointer to that map.
\<close>

definition dr_from_map :: "ext \<Rightarrow> (string, json) HashMap \<Rightarrow> dynamic_returnable" where
  "dr_from_map x m = \<lparr>dr_hash = x_hash_bytes x (x_json_to_string x (JObject m)), dr_value = RJsonPointer m\<rparr>"

definition dr_serialize :: "dynamic_returnable \<Rightarrow> json" where
  "dr_serialize r =
     (case dr_value r of
        RJsonPointer m \<Rightarrow> JObject m
      | RJsonStatic m \<Rightarrow> JObject m
      | RJsonArchived m \<Rightarrow> JObject m
      | RNull \<Rightarrow> JNull
      | RBool b \<Rightarrow> JBool b)"

text \<open>\<open>eq_check\<close>: every entry of the archived map is in the other map.\<close>

fun eq_check :: "(string \<times> json) list \<Rightarrow> (string, json) HashMap \<Rightarrow> bool" where
  "eq_check [] right = True"
| "eq_check ((k, v) # left) right =
     (case hm_get right k of None \<Rightarrow> False | Some v' \<Rightarrow> if v' \<noteq> v then False else eq_check left right)"

definition json_map_eq :: "(string, json) HashMap \<Rightarrow> (string, json) HashMap \<Rightarrow> bool" where
  "json_map_eq a b \<longleftrightarrow> length a = length b \<and> list_all (\<lambda>(k, v). hm_get b k = Some v) a"

fun returnable_value_eq :: "returnable_value \<Rightarrow> returnable_value \<Rightarrow> bool" where
  "returnable_value_eq RNull RNull = True"
| "returnable_value_eq (RBool a) (RBool b) = (a = b)"
| "returnable_value_eq (RJsonPointer a) (RJsonPointer b) = json_map_eq a b"
| "returnable_value_eq (RJsonPointer a) (RJsonStatic b) = json_map_eq a b"
| "returnable_value_eq (RJsonPointer a) (RJsonArchived b) = eq_check b a"
| "returnable_value_eq (RJsonStatic a) (RJsonPointer b) = json_map_eq a b"
| "returnable_value_eq (RJsonStatic a) (RJsonStatic b) = json_map_eq a b"
| "returnable_value_eq (RJsonStatic a) (RJsonArchived b) = eq_check b a"
| "returnable_value_eq (RJsonArchived a) (RJsonPointer b) = eq_check a b"
| "returnable_value_eq (RJsonArchived a) (RJsonStatic b) = eq_check a b"
| "returnable_value_eq (RJsonArchived a) (RJsonArchived b) = json_map_eq a b"
| "returnable_value_eq _ _ = False"


section \<open>Keyed arrays\<close>

text \<open>A concrete instance of the external functions, at which hypotheses on them are shown to hold.\<close>

definition ascii_lower_char :: "char \<Rightarrow> char" where
  "ascii_lower_char c = (let n = of_char c :: nat in if 65 \<le> n \<and> n \<le> 90 then char_of (n + 32) else c)"

definition sample_ext :: ext where
  "sample_ext = \<lparr>x_to_lowercase = map ascii_lower_char, x_f64_to_string = (\<lambda>f. ''0''),
     x_parse_f64 = (\<lambda>s. map_option i64_to_f64 (parse_i64 s)), x_json_to_string = (\<lambda>j. ''null''),
     x_ahash_str = (\<lambda>s. of_nat (length s)), x_hash_one = (\<lambda>hs. sum_list hs),
     x_hash_bytes = (\<lambda>s. of_nat (length s)), x_parse_rfc3339 = (\<lambda>s. None), x_parse_naive = (\<lambda>s. None),
     x_num_days = (\<lambda>ms. Some (trunc_div ms 86400000)), x_regex_new = (\<lambda>s. True),
     x_regex_is_match = (\<lambda>r s. Some (str_contains s r)),
     x_sha256 = (\<lambda>s. map (\<lambda>c. word_of_nat (of_char c)) s @ replicate (32 - length s) 0),
     x_base64 = (\<lambda>bs. map (\<lambda>b. char_of (unat b)) bs),
     x_fast_hash = (\<lambda>tag parts. of_nat tag)\<rparr>"

abbreviation str_array :: "string list \<Rightarrow> json" where
  "str_array ss \<equiv> JArray (map JString ss)"

lemma json_str_value_JString [simp]: "json_str_value x (JString s) = s"
  by (simp add: json_str_value_def)

lemma keyed_array_wf [simp]: "hm_wf acc \<Longrightarrow> hm_wf (keyed_array_from x i vs acc)"
  by (induction x i vs acc rule: keyed_array_from.induct) (simp_all add: Let_def)

lemma keyed_array_contains:
  "hm_contains (keyed_array_from x i vs acc) k \<longleftrightarrow>
     k \<in> (\<lambda>v. x_to_lowercase x (json_str_value x v)) ` set vs \<or> hm_contains acc k"
  by (induction x i vs acc rule: keyed_array_from.induct) (auto simp: Let_def hm_contains_def)

text \<open>Without two elements that agree up to case, the keyed array lists the elements in order.\<close>

lemma keyed_array_distinct:
  assumes "distinct (map fst acc @ map (\<lambda>v. x_to_lowercase x (json_str_value x v)) vs)"
  shows "keyed_array_from x i vs acc =
    acc @ map (\<lambda>(j, v). (x_to_lowercase x (json_str_value x v), j, json_str_value x v)) (enumerate i vs)"
  using assms
proof (induction x i vs acc rule: keyed_array_from.induct)
  case (2 x idx v vs acc)
  then show ?case by (simp add: Let_def hm_insert_fresh)
qed simp

text \<open>Every entry of a keyed array is one of the elements, under its own lower-cased key.\<close>

lemma keyed_array_sound:
  assumes "(k, j, s) \<in> set (keyed_array_from x i vs acc)"
  shows "(k, j, s) \<in> set acc \<or>
    (\<exists>v \<in> set vs. s = json_str_value x v \<and> k = x_to_lowercase x s)"
  using assms
proof (induction x i vs acc rule: keyed_array_from.induct)
  case (2 x idx v vs acc)
  have "set (hm_insert k e m) \<subseteq> insert (k, e) (set m)" for k e and m :: "(string, nat \<times> string) HashMap"
    unfolding hm_insert_def by (induction m) auto
  with 2 show ?case by (fastforce simp: Let_def)
qed simp

lemma hm_values_keyed_array:
  assumes "distinct (map (x_to_lowercase x) ss)"
  shows "hm_values (keyed_array_from x 0 (map JString ss) []) = enumerate 0 ss"
proof -
  have "keyed_array_from x 0 (map JString ss) [] =
      map (\<lambda>(j, v). (x_to_lowercase x (json_str_value x v), j, json_str_value x v))
        (enumerate 0 (map JString ss))"
    using assms by (subst keyed_array_distinct) (simp_all add: comp_def)
  then show ?thesis
    by (simp add: hm_values_def list_eq_iff_nth_eq nth_enumerate_eq case_prod_beta)
qed

lemma mset_short_eq: "length xs \<le> 1 \<Longrightarrow> mset xs = mset ys \<Longrightarrow> xs = ys"
  by (cases xs; cases ys) (auto dest: mset_eq_length)

lemma sorted_enumerate_unique:
  assumes "mset es = mset (enumerate 0 ss)"
  shows "sort_key fst es = enumerate 0 ss"
proof (rule properties_for_sort_key)
  show "mset (enumerate 0 ss) = mset es" using assms by simp
  show "sorted (map fst (enumerate 0 ss))" by simp
  fix k
  have "length [y\<leftarrow>enumerate 0 ss. fst k = fst y] =
      length (filter (\<lambda>i. fst k = i) (map fst (enumerate 0 ss)))"
    by (simp add: filter_map comp_def del: map_fst_enumerate)
  also have "\<dots> \<le> 1"
    by (simp add: distinct_length_filter card_le_Suc0_iff_eq)
  finally show "[y\<leftarrow>enumerate 0 ss. fst k = fst y] = [y\<leftarrow>es. fst k = fst y]"
    by (rule mset_short_eq) (simp add: assms)
qed

lemma eq_array_loop_enumerate:
  "i + length ss \<le> length other \<Longrightarrow>
   eq_array_loop (enumerate i ss) other =
     Some (\<forall>j < length ss. map_option ds_value (dv_string (other ! (i + j))) = Some (ss ! j))"
proof (induction ss arbitrary: i)
  case (Cons s ss)
  have split: "(\<forall>j < Suc n. P j) \<longleftrightarrow> P 0 \<and> (\<forall>j < n. P (Suc j))" for n and P :: "nat \<Rightarrow> bool"
    by (auto simp: less_Suc_eq_0_disj)
  from Cons.prems Cons.IH [of "Suc i"] show ?case
    by (auto simp: split split: option.splits)
qed simp

lemma dv_from_json_str_array [simp]:
  "dv_array (dv_from_json x (str_array ts)) = Some (map (\<lambda>s. dv_from_json x (JString s)) ts)"
  by simp

lemma ds_value_from_string [simp]: "ds_value (ds_from_string x s) = s"
  "ds_lowercased (ds_from_string x s) = x_to_lowercase x s"
  by (simp_all add: ds_from_string_def)

section \<open>Properties\<close>

text \<open>
  The target array of a condition survives parsing and serialisation. Whatever order the hash
  map iterates in (\<open>m\<close> is any list with the entries of the parsed map), writing it back gives the
  original list, provided no two elements agree up to case.
\<close>

theorem array_serialize_roundtrip:
  assumes "distinct (map (x_to_lowercase x) ss)"
    and "mv_array (mv_from_json x (str_array ss)) = Some m0"
    and "mset m = mset m0"
  shows "mv_serialize ((mv_new TArray)\<lparr>mv_array := Some m\<rparr>) = str_array ss"
proof -
  have "mset (hm_values m) = mset (enumerate 0 ss)"
    using assms by (auto simp: hm_values_def mv_new_def simp flip: hm_values_keyed_array)
  then show ?thesis
    by (simp add: mv_serialize_def mv_new_def array_entries_def sorted_enumerate_unique)
qed

theorem array_serialize_roundtrip_witness:
  "mv_serialize ((mv_new TArray)\<lparr>mv_array := Some [(''b'', 1, ''B''), (''a'', 0, ''a'')]\<rparr>)
     = str_array [''a'', ''B'']"
  by (rule array_serialize_roundtrip [of sample_ext _ "[(''a'', 0, ''a''), (''b'', 1, ''B'')]"])
    (code_simp+)

text \<open>
  Equality of a target array with a user array is exact. When no two target elements agree up
  to case, the comparison never panics and holds just for the same list of strings.
\<close>

theorem is_equal_string_arrays:
  assumes "distinct (map (x_to_lowercase x) ss)"
  shows "is_equal_to_dynamic_value (mv_from_json x (str_array ss)) (dv_from_json x (str_array ts))
    = Some (ss = ts)"
proof (cases "length ss = length ts")
  case True
  have len: "length (keyed_array_from x 0 (map JString ss) []) = length ss"
    using arg_cong [OF hm_values_keyed_array [OF assms], of length] by (simp add: hm_values_def)
  have "is_equal_to_dynamic_value (mv_from_json x (str_array ss)) (dv_from_json x (str_array ts)) =
      eq_array_loop (enumerate 0 ss) (map (\<lambda>s. dv_from_json x (JString s)) ts)"
    using True len
    by (simp add: is_equal_to_dynamic_value_def mv_new_def hm_values_keyed_array [OF assms] comp_def)
  also have "\<dots> = Some (\<forall>j < length ss. ss ! j = ts ! j)"
    using True by (subst eq_array_loop_enumerate) auto
  also have "\<dots> = Some (ss = ts)"
    using True by (simp add: list_eq_iff_nth_eq [of ss ts])
  finally show ?thesis .
next
  case False
  have "length (keyed_array_from x 0 (map JString ss) []) = length ss"
    using arg_cong [OF hm_values_keyed_array [OF assms], of length] by (simp add: hm_values_def)
  with False show ?thesis by (auto simp: is_equal_to_dynamic_value_def mv_new_def)
qed

theorem is_equal_string_arrays_witness:
  "is_equal_to_dynamic_value (mv_from_json sample_ext (str_array [''x'', ''Y'']))
     (dv_from_json sample_ext (str_array [''x'', ''y''])) = Some False"
proof -
  have "distinct (map (x_to_lowercase sample_ext) [''x'', ''Y''])" by code_simp
  from is_equal_string_arrays [OF this, of "[''x'', ''y'']"] show ?thesis by simp
qed

text \<open>
  When two target elements agree up to case, the surviving entry keeps its original index while
  the length of the map shrinks, and comparing with a user array of that shorter length indexes out
  of bounds: the evaluation panics.
\<close>

theorem is_equal_case_collision_panics:
  assumes "x_to_lowercase x a = x_to_lowercase x b"
  shows "is_equal_to_dynamic_value (mv_from_json x (str_array [a, b])) (dv_from_json x (str_array [c])) = None"
  using assms by (simp add: is_equal_to_dynamic_value_def mv_new_def hm_insert_def hm_values_def Let_def)

theorem is_equal_case_collision_panics_witness:
  "is_equal_to_dynamic_value (mv_from_json sample_ext (str_array [''A'', ''a'']))
     (dv_from_json sample_ext (str_array [''a''])) = None"
  by (rule is_equal_case_collision_panics) code_simp

end
