(* ===== verification/Hashing.thy ===== *)
theory Hashing
  imports Values
begin

text \<open>
  The hashes of \<open>src/statsig-rust/src/hashing\<close>: \<open>djb2\<close>, the memoised SHA-256 cache of
  \<open>memo_sha_256.rs\<close> and the dispatcher \<open>HashUtil\<close>. SHA-256, base64 and the cache's fast hash are
  external functions. The locale \<open>memo_cache\<close> states what a memo table promises its clients.
\<close>

unbundle bit_operations_syntax

section \<open>djb2\<close>

text \<open>
  \<open>str::chars\<close>: the code points of a UTF-8 string. A Rust string is valid UTF-8, so every lead byte
  is followed by its continuation bytes.
\<close>

definition byte :: "char \<Rightarrow> nat" where
  "byte c = of_char c"

fun utf8_chars :: "string \<Rightarrow> nat list" where
  "utf8_chars [] = []"
| "utf8_chars [a] = [byte a]"
| "utf8_chars [a, b] =
     (if byte a < 0xC0 then byte a # utf8_chars [b] else [(byte a - 0xC0) * 64 + (byte b - 0x80)])"
| "utf8_chars [a, b, c] =
     (if byte a < 0xC0 then byte a # utf8_chars [b, c]
      else if byte a < 0xE0 then ((byte a - 0xC0) * 64 + (byte b - 0x80)) # utf8_chars [c]
      else [(byte a - 0xE0) * 4096 + (byte b - 0x80) * 64 + (byte c - 0x80)])"
| "utf8_chars (a # b # c # d # rest) =
     (if byte a < 0xC0 then byte a # utf8_chars (b # c # d # rest)
      else if byte a < 0xE0 then ((byte a - 0xC0) * 64 + (byte b - 0x80)) # utf8_chars (c # d # rest)
      else if byte a < 0xF0 then
        ((byte a - 0xE0) * 4096 + (byte b - 0x80) * 64 + (byte c - 0x80)) # utf8_chars (d # rest)
      else ((byte a - 0xF0) * 262144 + (byte b - 0x80) * 4096 + (byte c - 0x80) * 64 + (byte d - 0x80))
        # utf8_chars rest)"

text \<open>The loop runs on a 64-bit register with wrapping subtraction and addition.\<close>

definition djb2_step :: "u64 \<Rightarrow> nat \<Rightarrow> u64" where
  "djb2_step hash c = (push_bit 5 hash - hash) + of_nat c"

definition djb2_number :: "string \<Rightarrow> i64" where
  "djb2_number input = uint (foldl djb2_step 0 (utf8_chars input) AND 0xFFFFFFFF)"

definition djb2 :: "string \<Rightarrow> string" where
  "djb2 input = int_to_string (djb2_number input)"

text \<open>The polynomial the loop computes.\<close>

definition poly31 :: "nat list \<Rightarrow> nat" where
  "poly31 cs = foldl (\<lambda>h c. 31 * h + c) 0 cs"

lemma djb2_step_arith: "djb2_step h c = 31 * h + of_nat c"
  by (simp add: djb2_step_def push_bit_eq_mult)

lemma djb2_loop_poly: "foldl djb2_step (of_nat n) cs = of_nat (foldl (\<lambda>h c. 31 * h + c) n cs)"
proof (induction cs arbitrary: n)
  case (Cons c cs)
  have "djb2_step (of_nat n) c = of_nat (31 * n + c)" by (simp add: djb2_step_arith)
  with Cons.IH [of "31 * n + c"] show ?case by simp
qed simp

lemma mask32_mod: "uint ((w :: u64) AND 0xFFFFFFFF) = uint w mod 2 ^ 32"
proof -
  have "(w AND 0xFFFFFFFF) = take_bit 32 w"
    by (simp add: take_bit_eq_mask mask_eq_exp_minus_1)
  then have "uint (w AND 0xFFFFFFFF) = take_bit 32 (uint w)"
    by (simp add: unsigned_take_bit_eq)
  then show ?thesis by (simp add: take_bit_eq_mod)
qed

lemma djb2_number_poly: "djb2_number s = int (poly31 (utf8_chars s)) mod 2 ^ 32"
proof -
  have "foldl djb2_step 0 (utf8_chars s) = of_nat (poly31 (utf8_chars s))"
    using djb2_loop_poly [of 0] by (simp add: poly31_def)
  then have "djb2_number s = (int (poly31 (utf8_chars s)) mod 2 ^ 64) mod 2 ^ 32"
    by (simp add: djb2_number_def mask32_mod unsigned_of_nat take_bit_eq_mod zmod_int)
  then show ?thesis by (simp add: mod_mod_cancel)
qed

lemma djb2_number_range: "0 \<le> djb2_number s \<and> djb2_number s < 2 ^ 32"
  by (simp add: djb2_number_poly)

section \<open>Memoised SHA-256\<close>

datatype evaluation_hash_key = Raw string | Dot2 string string | Dot3 string string string

definition key_matches :: "evaluation_hash_key \<Rightarrow> evaluation_hash_key \<Rightarrow> bool" where
  "key_matches cached other =
     (case (cached, other) of
        (Raw a, Raw b) \<Rightarrow> a = b
      | (Dot2 a1 a2, Dot2 b1 b2) \<Rightarrow> a1 = b1 \<and> a2 = b2
      | (Dot3 a1 a2 a3, Dot3 b1 b2 b3) \<Rightarrow> a1 = b1 \<and> a2 = b2 \<and> a3 = b3
      | _ \<Rightarrow> False)"

fun key_parts :: "evaluation_hash_key \<Rightarrow> string list" where
  "key_parts (Raw a) = [a]"
| "key_parts (Dot2 a b) = [a, b]"
| "key_parts (Dot3 a b c) = [a, b, c]"

definition fast_hash :: "ext \<Rightarrow> evaluation_hash_key \<Rightarrow> u64" where
  "fast_hash x k = x_fast_hash x (length (key_parts k) - 1) (key_parts k)"

fun hash_input :: "evaluation_hash_key \<Rightarrow> string" where
  "hash_input (Raw a) = a"
| "hash_input (Dot2 a b) = a @ ''.'' @ b"
| "hash_input (Dot3 a b c) = a @ ''.'' @ b @ ''.'' @ c"

definition compute_bytes_for_key :: "ext \<Rightarrow> evaluation_hash_key \<Rightarrow> u8 list" where
  "compute_bytes_for_key x k = x_sha256 x (hash_input k)"

definition u64_from_be_bytes :: "u8 list \<Rightarrow> u64" where
  "u64_from_be_bytes bs = foldl (\<lambda>acc b. push_bit 8 acc OR ucast b) 0 bs"

record memo_sha256 =
  ms_cache :: "(u64, (evaluation_hash_key \<times> u64) list) HashMap"
  ms_entries :: nat

abbreviation MAX_CACHE_ENTRIES :: nat where "MAX_CACHE_ENTRIES \<equiv> 10000"

definition memo_new :: memo_sha256 where
  "memo_new = \<lparr>ms_cache = [], ms_entries = 0\<rparr>"

definition bucket_of :: "memo_sha256 \<Rightarrow> u64 \<Rightarrow> (evaluation_hash_key \<times> u64) list" where
  "bucket_of m h = (case hm_get (ms_cache m) h of Some b \<Rightarrow> b | None \<Rightarrow> [])"

definition memo_evict :: "memo_sha256 \<Rightarrow> memo_sha256" where
  "memo_evict m = (if MAX_CACHE_ENTRIES < ms_entries m then \<lparr>ms_cache = [], ms_entries = 0\<rparr> else m)"

definition compute_hash_for_key ::
    "ext \<Rightarrow> evaluation_hash_key \<Rightarrow> memo_sha256 \<Rightarrow> u64 option \<times> memo_sha256" where
  "compute_hash_for_key x key m =
     (let fh = fast_hash x key
      in case find (\<lambda>(cached_key, _). key_matches cached_key key) (bucket_of m fh) of
           Some (_, v) \<Rightarrow> (Some v, m)
         | None \<Rightarrow>
             (let m1 = memo_evict m;
                  bytes = take 8 (compute_bytes_for_key x key)
              in if length bytes = 8 then
                   (let u_bytes = u64_from_be_bytes bytes;
                        bucket = bucket_of m1 fh
                    in if list_ex (\<lambda>(cached_key, _). key_matches cached_key key) bucket
                       then (Some u_bytes, m1\<lparr>ms_cache := hm_insert fh bucket (ms_cache m1)\<rparr>)
                       else (Some u_bytes,
                         \<lparr>ms_cache = hm_insert fh (bucket @ [(key, u_bytes)]) (ms_cache m1),
                          ms_entries = ms_entries m1 + 1\<rparr>))
                 else (None, m1)))"

definition hash_string :: "ext \<Rightarrow> string \<Rightarrow> string" where
  "hash_string x input = x_base64 x (x_sha256 x input)"

section \<open>HashUtil\<close>

datatype hash_algorithm = Djb2 | NoHash | Sha256

definition hash_algorithm_from_string :: "string \<Rightarrow> hash_algorithm option" where
  "hash_algorithm_from_string s =
     (if s \<in> {''sha256'', ''SHA256'', ''Sha256''} then Some Sha256
      else if s \<in> {''djb2'', ''DJB2'', ''Djb2''} then Some Djb2
      else if s \<in> {''none'', ''NONE'', ''None''} then Some NoHash
      else None)"

fun hash_algorithm_to_string :: "hash_algorithm \<Rightarrow> string" where
  "hash_algorithm_to_string Djb2 = ''djb2''"
| "hash_algorithm_to_string NoHash = ''none''"
| "hash_algorithm_to_string Sha256 = ''sha256''"

fun opt_bool_to_hashable :: "bool option \<Rightarrow> u64" where
  "opt_bool_to_hashable (Some True) = 1"
| "opt_bool_to_hashable (Some False) = 0"
| "opt_bool_to_hashable None = 2"

definition hash_util_hash :: "ext \<Rightarrow> string \<Rightarrow> hash_algorithm \<Rightarrow> string" where
  "hash_util_hash x input alg =
     (case alg of Sha256 \<Rightarrow> hash_string x input | Djb2 \<Rightarrow> djb2 input | NoHash \<Rightarrow> input)"

text \<open>\<open>sha256_to_u64\<close> slices the first eight bytes of the base64 text; a shorter text panics.\<close>

definition sha256_to_u64 :: "ext \<Rightarrow> string \<Rightarrow> u64 option" where
  "sha256_to_u64 x input =
     (let hash = hash_string x input
      in if length hash < 8 then None
         else Some (u64_from_be_bytes (map (\<lambda>c. of_nat (byte c)) (take 8 hash))))"

definition evaluation_hash :: "ext \<Rightarrow> string \<Rightarrow> memo_sha256 \<Rightarrow> u64 option \<times> memo_sha256" where
  "evaluation_hash x input m = compute_hash_for_key x (Raw input) m"

definition evaluation_hash_dot2 :: "ext \<Rightarrow> string \<Rightarrow> string \<Rightarrow> memo_sha256 \<Rightarrow> u64 option \<times> memo_sha256" where
  "evaluation_hash_dot2 x a b m = compute_hash_for_key x (Dot2 a b) m"

definition evaluation_hash_dot3 ::
    "ext \<Rightarrow> string \<Rightarrow> string \<Rightarrow> string \<Rightarrow> memo_sha256 \<Rightarrow> u64 option \<times> memo_sha256" where
  "evaluation_hash_dot3 x a b c m = compute_hash_for_key x (Dot3 a b c) m"

section \<open>The memo table's contract\<close>

text \<open>The value a key hashes to, without a cache.\<close>

definition direct_hash :: "ext \<Rightarrow> evaluation_hash_key \<Rightarrow> u64 option" where
  "direct_hash x k =
     (let bytes = take 8 (compute_bytes_for_key x k)
      in if length bytes = 8 then Some (u64_from_be_bytes bytes) else None)"

text \<open>
  A memo table: an invariant that the empty table has and every call keeps, under which a call
  answers as the function it caches. A client may then read a run of calls as calls of the function.
\<close>

locale memo_cache =
  fixes empty_table :: "'m"
    and inv :: "'m \<Rightarrow> bool"
    and call :: "'k \<Rightarrow> 'm \<Rightarrow> 'v \<times> 'm"
    and spec :: "'k \<Rightarrow> 'v"
  assumes inv_empty: "inv empty_table"
    and inv_call: "inv m \<Longrightarrow> inv (snd (call k m))"
    and call_spec: "inv m \<Longrightarrow> fst (call k m) = spec k"
begin

fun run :: "'k list \<Rightarrow> 'm \<Rightarrow> 'v list \<times> 'm" where
  "run [] m = ([], m)"
| "run (k # ks) m = (let (v, m1) = call k m; (vs, m2) = run ks m1 in (v # vs, m2))"

lemma run_inv: "inv m \<Longrightarrow> inv (snd (run ks m))"
proof (induction ks arbitrary: m)
  case (Cons k ks)
  then have "inv (snd (run ks (snd (call k m))))" by (blast intro: inv_call)
  then show ?case by (simp add: Let_def case_prod_beta)
qed simp

lemma run_spec: "inv m \<Longrightarrow> fst (run ks m) = map spec ks"
proof (induction ks arbitrary: m)
  case (Cons k ks)
  then have "fst (run ks (snd (call k m))) = map spec ks" by (blast intro: inv_call)
  with Cons.prems show ?case by (simp add: Let_def case_prod_beta call_spec)
qed simp

lemma run_from_empty: "fst (run ks empty_table) = map spec ks"
  by (rule run_spec) (rule inv_empty)

end

text \<open>
  The invariant of the SHA-256 cache: a well-formed map, each cached value the direct hash of its
  key and each key in the bucket of its fast hash, no key twice in a bucket, and the entry counter
  equal to the number of cached keys and at most one above the cap.
\<close>

definition entries_total :: "(u64, (evaluation_hash_key \<times> u64) list) HashMap \<Rightarrow> nat" where
  "entries_total c = sum_list (map (\<lambda>(h, b). length b) c)"

definition memo_inv :: "ext \<Rightarrow> memo_sha256 \<Rightarrow> bool" where
  "memo_inv x m \<longleftrightarrow>
     hm_wf (ms_cache m) \<and>
     (\<forall>(h, b) \<in> set (ms_cache m). distinct (map fst b) \<and>
        (\<forall>(k, v) \<in> set b. fast_hash x k = h \<and> direct_hash x k = Some v)) \<and>
     ms_entries m = entries_total (ms_cache m) \<and> ms_entries m \<le> MAX_CACHE_ENTRIES + 1"

lemma key_matches_eq [simp]: "key_matches a b \<longleftrightarrow> a = b"
  by (cases a; cases b) (auto simp: key_matches_def)

lemma entries_total_insert:
  "hm_wf c \<Longrightarrow> entries_total (hm_insert h b c) + length (case hm_get c h of Some b' \<Rightarrow> b' | None \<Rightarrow> []) =
   entries_total c + length b"
proof (induction c)
  case (Cons e c)
  obtain h' b' where e: "e = (h', b')" by (cases e)
  show ?case
  proof (cases "h' = h")
    case True
    then show ?thesis by (simp add: e entries_total_def hm_insert_def hm_simps)
  next
    case False
    from Cons have "entries_total (hm_insert h b c) + length (case hm_get c h of Some b' \<Rightarrow> b' | None \<Rightarrow> []) =
        entries_total c + length b" by (simp add: hm_wf_def)
    with False show ?thesis by (simp add: e entries_total_def hm_insert_def hm_simps)
  qed
qed (simp add: entries_total_def hm_insert_def)

lemma set_hm_insert: "hm_wf c \<Longrightarrow> set (hm_insert k v c) = insert (k, v) {(k', v') \<in> set c. k' \<noteq> k}"
  by (induction c) (auto simp: hm_insert_def hm_wf_def image_iff)

lemma memo_inv_new: "memo_inv x memo_new"
  by (simp add: memo_inv_def memo_new_def entries_total_def)

lemma memo_inv_evict:
  "memo_inv x m \<Longrightarrow> memo_inv x (memo_evict m) \<and> ms_entries (memo_evict m) \<le> MAX_CACHE_ENTRIES"
  by (auto simp: memo_evict_def memo_inv_def entries_total_def)

lemma bucket_of_inv:
  assumes "memo_inv x m" "(k, v) \<in> set (bucket_of m h)"
  shows "fast_hash x k = h \<and> direct_hash x k = Some v"
proof -
  from assms(2) obtain b where "hm_get (ms_cache m) h = Some b" "(k, v) \<in> set b"
    by (cases "hm_get (ms_cache m) h") (simp_all add: bucket_of_def)
  then show ?thesis using assms(1) hm_get_in [of "ms_cache m" h b] by (auto simp: memo_inv_def)
qed

lemma bucket_of_distinct: "memo_inv x m \<Longrightarrow> distinct (map fst (bucket_of m h))"
  by (fastforce simp: memo_inv_def bucket_of_def split: option.splits dest: hm_get_in)

lemma memo_inv_push:
  assumes inv: "memo_inv x m" and cap: "ms_entries m \<le> MAX_CACHE_ENTRIES"
    and new: "k \<notin> fst ` set (bucket_of m (fast_hash x k))" and v: "direct_hash x k = Some v"
  shows "memo_inv x \<lparr>ms_cache = hm_insert (fast_hash x k) (bucket_of m (fast_hash x k) @ [(k, v)]) (ms_cache m),
    ms_entries = ms_entries m + 1\<rparr>"
proof -
  let ?h = "fast_hash x k" and ?b = "bucket_of m (fast_hash x k)"
  have wf: "hm_wf (ms_cache m)" using inv by (simp add: memo_inv_def)
  have tot: "entries_total (hm_insert ?h (?b @ [(k, v)]) (ms_cache m)) = entries_total (ms_cache m) + 1"
    using entries_total_insert [OF wf, of ?h "?b @ [(k, v)]"] by (simp add: bucket_of_def)
  have "\<forall>(k', v') \<in> set ?b. fast_hash x k' = ?h \<and> direct_hash x k' = Some v'"
    using bucket_of_inv [OF inv] by blast
  then show ?thesis
    using inv cap new v tot wf bucket_of_distinct [OF inv, of ?h]
    by (auto simp: memo_inv_def set_hm_insert)
qed

lemma memo_inv_touch:
  assumes inv: "memo_inv x m" and b: "bucket_of m h \<noteq> []"
  shows "memo_inv x (m\<lparr>ms_cache := hm_insert h (bucket_of m h) (ms_cache m)\<rparr>)"
proof -
  have wf: "hm_wf (ms_cache m)" using inv by (simp add: memo_inv_def)
  have get: "hm_get (ms_cache m) h = Some (bucket_of m h)"
    using b by (auto simp: bucket_of_def split: option.splits)
  then have "(h, bucket_of m h) \<in> set (ms_cache m)" by (rule hm_get_in)
  moreover have "entries_total (hm_insert h (bucket_of m h) (ms_cache m)) = entries_total (ms_cache m)"
    using entries_total_insert [OF wf, of h "bucket_of m h"] get by simp
  ultimately show ?thesis
    using inv wf by (auto simp: memo_inv_def set_hm_insert)
qed

lemma compute_hash_hit:
  assumes inv: "memo_inv x m"
    and hit: "find (\<lambda>(ck, _). key_matches ck k) (bucket_of m (fast_hash x k)) = Some (k', v)"
  shows "direct_hash x k = Some v"
proof -
  from hit have "(k', v) \<in> set (bucket_of m (fast_hash x k))" "k' = k"
    by (auto simp: find_Some_iff in_set_conv_nth)
  with bucket_of_inv [OF inv] show ?thesis by blast
qed

lemma compute_hash_inv:
  assumes "memo_inv x m"
  shows "memo_inv x (snd (compute_hash_for_key x k m))"
proof -
  let ?m = "memo_evict m" and ?h = "fast_hash x k"
  have e: "memo_inv x ?m" "ms_entries ?m \<le> MAX_CACHE_ENTRIES" using memo_inv_evict [OF assms] by simp_all
  have touch: "memo_inv x (?m\<lparr>ms_cache := hm_insert ?h (bucket_of ?m ?h) (ms_cache ?m)\<rparr>)"
    if "(k, v) \<in> set (bucket_of ?m ?h)" for v
    using that by (intro memo_inv_touch e) auto
  have push: "memo_inv x \<lparr>ms_cache = hm_insert ?h (bucket_of ?m ?h @ [(k, v)]) (ms_cache ?m),
      ms_entries = Suc (ms_entries ?m)\<rparr>"
    if "\<forall>e \<in> set (bucket_of ?m ?h). fst e \<noteq> k" "direct_hash x k = Some v" for v
    using memo_inv_push [OF e, of k v] that by auto
  show ?thesis
    using assms e touch push
    by (auto simp: compute_hash_for_key_def Let_def direct_hash_def list_ex_iff image_iff case_prod_beta
        simp del: length_take split: option.splits)
qed

lemma compute_hash_spec: "memo_inv x m \<Longrightarrow> fst (compute_hash_for_key x k m) = direct_hash x k"
  using compute_hash_hit [of x m k]
  by (auto simp: compute_hash_for_key_def Let_def direct_hash_def simp del: length_take
      split: option.splits if_splits)

interpretation sha_cache: memo_cache memo_new "memo_inv x" "compute_hash_for_key x" "direct_hash x" for x
  by unfold_locales (simp_all add: memo_inv_new compute_hash_inv compute_hash_spec)

section \<open>Properties\<close>

text \<open>
  The hash of the bucketing code path is cached without being changed. From an empty cache, any
  sequence of lookups, whatever the fast hash (collisions included) and however often the cache is
  cleared, answers each key with the first eight bytes of its own SHA-256.
\<close>

theorem memo_cache_transparent:
  "fst (sha_cache.run x ks memo_new) = map (direct_hash x) ks"
  by (rule sha_cache.run_from_empty)

text \<open>
  The cache stays within its cap, with a counter that is the number of cached keys, and every
  entry is right: each step keeps the invariant, so a run from the empty cache ends in at most
  10001 entries.
\<close>

theorem memo_cache_bounded:
  "memo_inv x (snd (sha_cache.run x ks memo_new)) \<and>
   entries_total (ms_cache (snd (sha_cache.run x ks memo_new))) \<le> 10001"
proof -
  have "memo_inv x (snd (sha_cache.run x ks memo_new))"
    by (rule sha_cache.run_inv) (rule memo_inv_new)
  then show ?thesis by (simp add: memo_inv_def)
qed

text \<open>
  The two- and three-part keys hash as the text with dots between the parts, so the memoised
  variants agree with hashing the formatted string.
\<close>

theorem evaluation_hash_dots:
  assumes "memo_inv x m1" "memo_inv x m2"
  shows "fst (evaluation_hash_dot2 x a b m1) = fst (evaluation_hash x (a @ ''.'' @ b) m2) \<and>
    fst (evaluation_hash_dot3 x a b c m1) = fst (evaluation_hash x (a @ ''.'' @ b @ ''.'' @ c) m2)"
  using assms
  by (simp add: evaluation_hash_def evaluation_hash_dot2_def evaluation_hash_dot3_def compute_hash_spec
      direct_hash_def compute_bytes_for_key_def)

theorem evaluation_hash_dots_witness:
  "fst (evaluation_hash_dot2 sample_ext ''salt'' ''user'' memo_new)
     = fst (evaluation_hash sample_ext ''salt.user'' memo_new)"
  using evaluation_hash_dots [OF memo_inv_new memo_inv_new, of sample_ext "''salt''" "''user''"] by simp

text \<open>
  \<open>djb2\<close> is the polynomial hash \<open>\<Sum> c\<^sub>i 31\<^sup>(\<^sup>n\<^sup>-\<^sup>1\<^sup>-\<^sup>i\<^sup>)\<close> of the code points modulo \<open>2\<^sup>3\<^sup>2\<close>: the 64-bit
  wrap-around of the loop never shows, and the result is an unsigned 32-bit number.
\<close>

theorem djb2_is_polynomial_hash:
  "djb2_number s = int (poly31 (utf8_chars s)) mod 2 ^ 32 \<and> 0 \<le> djb2_number s \<and> djb2_number s < 2 ^ 32"
  using djb2_number_poly djb2_number_range by simp

end
