(* ===== verification/Users.thy ===== *)
theory Users
  imports Hashing
begin

text \<open>
  Users, \<open>src/statsig-rust/src/user\<close>: the user record and its setters, unit ids, the lookup of a
  condition's field in a user, the environment, the hash of the private attributes, the dedupe hash
  and what a user looks like in an event.
\<close>

section \<open>The user record\<close>

type_synonym UserDataMap = "(string, dynamic_value) HashMap"

record user_data =
  ud_user_id :: "dynamic_value option"
  ud_custom_ids :: "UserDataMap option"
  ud_email :: "dynamic_value option"
  ud_ip :: "dynamic_value option"
  ud_user_agent :: "dynamic_value option"
  ud_country :: "dynamic_value option"
  ud_locale :: "dynamic_value option"
  ud_app_version :: "dynamic_value option"
  ud_statsig_environment :: "UserDataMap option"
  ud_private_attributes :: "UserDataMap option"
  ud_custom :: "UserDataMap option"

definition ud_default :: user_data where
  "ud_default = \<lparr>ud_user_id = None, ud_custom_ids = None, ud_email = None, ud_ip = None,
     ud_user_agent = None, ud_country = None, ud_locale = None, ud_app_version = None,
     ud_statsig_environment = None, ud_private_attributes = None, ud_custom = None\<rparr>"

datatype unit_id = UnitString string | UnitFloat f64 | UnitInt i64

fun dv_from_unit_id :: "ext \<Rightarrow> unit_id \<Rightarrow> dynamic_value" where
  "dv_from_unit_id x (UnitString s) = dv_from_string x s"
| "dv_from_unit_id x (UnitFloat f) = dv_from_f64 x f"
| "dv_from_unit_id x (UnitInt i) = dv_from_i64 x i"

text \<open>Collecting an iterator of pairs into a hash map: a later pair with the same key wins.\<close>

definition hm_collect :: "('k \<times> 'v) list \<Rightarrow> ('k, 'v) HashMap" where
  "hm_collect kvs = foldl (\<lambda>m (k, v). hm_insert k v m) [] kvs"

definition with_user_id :: "ext \<Rightarrow> unit_id \<Rightarrow> user_data" where
  "with_user_id x uid = ud_default\<lparr>ud_user_id := Some (dv_from_unit_id x uid)\<rparr>"

definition with_custom_ids :: "ext \<Rightarrow> (string, unit_id) HashMap \<Rightarrow> user_data" where
  "with_custom_ids x ids =
     ud_default\<lparr>ud_custom_ids := Some (hm_collect (map (\<lambda>(k, v). (k, dv_from_unit_id x v)) ids))\<rparr>"

definition set_user_id :: "ext \<Rightarrow> unit_id \<Rightarrow> user_data \<Rightarrow> user_data" where
  "set_user_id x uid u = u\<lparr>ud_user_id := Some (dv_from_unit_id x uid)\<rparr>"

definition set_custom_ids :: "ext \<Rightarrow> (string, unit_id) HashMap \<Rightarrow> user_data \<Rightarrow> user_data" where
  "set_custom_ids x ids u =
     u\<lparr>ud_custom_ids := Some (hm_collect (map (\<lambda>(k, v). (k, dv_from_unit_id x v)) ids))\<rparr>"

definition set_statsig_environment :: "ext \<Rightarrow> (string, string) HashMap option \<Rightarrow> user_data \<Rightarrow> user_data" where
  "set_statsig_environment x env u =
     (case env of
        None \<Rightarrow> u\<lparr>ud_statsig_environment := None\<rparr>
      | Some e \<Rightarrow> u\<lparr>ud_statsig_environment := Some (hm_collect (map (\<lambda>(k, v). (k, dv_from_string x v)) e))\<rparr>)"

text \<open>The macro \<open>string_field_accessor\<close>, for the field given by its update function and selector.\<close>

definition set_string_field ::
    "(dynamic_value option \<Rightarrow> user_data \<Rightarrow> user_data) \<Rightarrow> ext \<Rightarrow> string option \<Rightarrow> user_data \<Rightarrow> user_data" where
  "set_string_field upd x v u = upd (map_option (dv_from_string x) v) u"

definition get_string_field :: "(user_data \<Rightarrow> dynamic_value option) \<Rightarrow> user_data \<Rightarrow> string option" where
  "get_string_field sel u =
     (case sel u of None \<Rightarrow> None | Some v \<Rightarrow> map_option ds_value (dv_string v))"

text \<open>The macro \<open>map_field_accessor\<close>.\<close>

definition set_map_field ::
    "(UserDataMap option \<Rightarrow> user_data \<Rightarrow> user_data) \<Rightarrow> UserDataMap option \<Rightarrow> user_data \<Rightarrow> user_data" where
  "set_map_field upd v u = (case v of None \<Rightarrow> upd None u | Some m \<Rightarrow> upd (Some (hm_collect m)) u)"

definition entry_to_key_value_refs :: "string \<times> dynamic_value \<Rightarrow> string \<times> string" where
  "entry_to_key_value_refs e =
     (fst e, (case dv_string (snd e) of Some s \<Rightarrow> ds_value s | None \<Rightarrow> []))"

definition get_custom_ids :: "user_data \<Rightarrow> (string, string) HashMap option" where
  "get_custom_ids u = map_option (\<lambda>m. hm_collect (map entry_to_key_value_refs m)) (ud_custom_ids u)"

text \<open>\<open>StatsigUser::get_unit_id\<close>.\<close>

definition user_unit_id :: "user_data \<Rightarrow> dynamic_string \<Rightarrow> dynamic_value option" where
  "user_unit_id u id_type =
     (if ds_lowercased id_type = ''userid'' then ud_user_id u
      else case ud_custom_ids u of
          None \<Rightarrow> None
        | Some ids \<Rightarrow>
            (case hm_get ids (ds_value id_type) of
               Some v \<Rightarrow> Some v
             | None \<Rightarrow> hm_get ids (ds_lowercased id_type)))"

section \<open>Hashes of a user\<close>

definition eq_ignore_ascii_case :: "string \<Rightarrow> string \<Rightarrow> bool" where
  "eq_ignore_ascii_case a b \<longleftrightarrow> map ascii_lower_char a = map ascii_lower_char b"

definition get_unit_id_hash :: "ext \<Rightarrow> user_data \<Rightarrow> string \<Rightarrow> u64" where
  "get_unit_id_hash x u id_type =
     (if eq_ignore_ascii_case id_type ''userid''
      then (case ud_user_id u of None \<Rightarrow> 0 | Some v \<Rightarrow> dv_hash v)
      else case ud_custom_ids u of
          None \<Rightarrow> 0
        | Some ids \<Rightarrow>
            (case hm_get ids id_type of
               Some v \<Rightarrow> dv_hash v
             | None \<Rightarrow>
                 (case hm_get ids (x_to_lowercase x id_type) of Some v \<Rightarrow> dv_hash v | None \<Rightarrow> 0)))"

definition sum_custom_id_hashes :: "user_data \<Rightarrow> u64" where
  "sum_custom_id_hashes u =
     (case ud_custom_ids u of None \<Rightarrow> 0 | Some ids \<Rightarrow> foldl (\<lambda>acc v. acc + dv_hash v) 0 (hm_values ids))"

definition create_exposure_dedupe_user_hash :: "ext \<Rightarrow> user_data \<Rightarrow> string option \<Rightarrow> u64" where
  "create_exposure_dedupe_user_hash x u unit_id_type =
     x_hash_one x
       [case ud_user_id u of None \<Rightarrow> 0 | Some v \<Rightarrow> dv_hash v,
        get_unit_id_hash x u ''stableID'',
        case unit_id_type of None \<Rightarrow> 0 | Some t \<Rightarrow> get_unit_id_hash x u t,
        sum_custom_id_hashes u]"

text \<open>\<open>get_hashed_private_attributes\<close>: the running sum is masked to 32 bits at each step.\<close>

definition private_attribute_text :: "string \<times> dynamic_value \<Rightarrow> string" where
  "private_attribute_text kv =
     (case dv_string (snd kv) of
        Some s \<Rightarrow> fst kv @ '':'' @ ds_value s
      | None \<Rightarrow> fst kv @ '':'')"

definition private_attribute_step :: "i64 \<Rightarrow> string \<times> dynamic_value \<Rightarrow> i64" where
  "private_attribute_step val kv = wrap_i64 (val + djb2_number (private_attribute_text kv)) AND 0xFFFFFFFF"

definition get_hashed_private_attributes :: "user_data \<Rightarrow> string option" where
  "get_hashed_private_attributes u =
     (case ud_private_attributes u of
        None \<Rightarrow> None
      | Some attrs \<Rightarrow>
          if attrs = [] then None
          else Some (int_to_string (foldl private_attribute_step 0 attrs)))"

section \<open>A user seen by an SDK instance\<close>

text \<open>What the evaluation reads of the \<open>Statsig\<close> instance behind a user.\<close>

record statsig_instance =
  si_environment :: "UserDataMap option"
  si_fallback_environment :: "UserDataMap option"
  si_global_custom :: "UserDataMap option"

record statsig_user_internal =
  su_data :: user_data
  su_statsig :: "statsig_instance option"

definition get_from_statsig_env :: "statsig_instance \<Rightarrow> string \<Rightarrow> dynamic_value option" where
  "get_from_statsig_env si k =
     (case si_environment si of
        Some env \<Rightarrow> hm_get env k
      | None \<Rightarrow> (case si_fallback_environment si of Some env \<Rightarrow> hm_get env k | None \<Rightarrow> None))"

definition use_statsig_env :: "statsig_instance \<Rightarrow> UserDataMap option" where
  "use_statsig_env si =
     (case si_environment si of Some env \<Rightarrow> Some env | None \<Rightarrow> si_fallback_environment si)"

definition get_value_from_global_custom_fields :: "statsig_instance \<Rightarrow> string \<Rightarrow> dynamic_value option" where
  "get_value_from_global_custom_fields si k =
     (case si_global_custom si of Some m \<Rightarrow> hm_get m k | None \<Rightarrow> None)"

text \<open>The two lookups, under the field as written and then lower-cased.\<close>

definition get_either :: "UserDataMap option \<Rightarrow> dynamic_string \<Rightarrow> dynamic_value option" where
  "get_either m field =
     (case m of
        None \<Rightarrow> None
      | Some m \<Rightarrow> opt_else (hm_get m (ds_value field)) (hm_get m (ds_lowercased field)))"

definition builtin_field :: "user_data \<Rightarrow> string \<Rightarrow> dynamic_value option" where
  "builtin_field u f =
     (if f = ''userid'' then ud_user_id u
      else if f = ''email'' then ud_email u
      else if f = ''ip'' then ud_ip u
      else if f = ''country'' then ud_country u
      else if f = ''locale'' then ud_locale u
      else if f = ''appversion'' then ud_app_version u
      else if f = ''useragent'' then ud_user_agent u
      else None)"

definition builtin_field_alt :: "user_data \<Rightarrow> string \<Rightarrow> dynamic_value option" where
  "builtin_field_alt u f =
     (if f = ''user_id'' then ud_user_id u
      else if f = ''app_version'' then ud_app_version u
      else if f = ''user_agent'' then ud_user_agent u
      else None)"

definition non_empty_string :: "dynamic_value option \<Rightarrow> dynamic_value option" where
  "non_empty_string v =
     (case v of
        None \<Rightarrow> None
      | Some dv \<Rightarrow>
          (case dv_string dv of
             None \<Rightarrow> None
           | Some s \<Rightarrow> if ds_value s \<noteq> [] then Some dv else None))"

definition get_user_value :: "statsig_user_internal \<Rightarrow> dynamic_string option \<Rightarrow> dynamic_value option" where
  "get_user_value user field =
     (case field of
        None \<Rightarrow> None
      | Some f \<Rightarrow>
          (let u = su_data user
           in opt_else (non_empty_string (builtin_field u (ds_lowercased f)))
                (opt_else (get_either (ud_custom u) f)
                  (opt_else
                    (case su_statsig user of
                       None \<Rightarrow> None
                     | Some si \<Rightarrow>
                         opt_else (get_value_from_global_custom_fields si (ds_value f))
                           (get_value_from_global_custom_fields si (ds_lowercased f)))
                    (opt_else (get_either (ud_private_attributes u) f)
                      (builtin_field_alt u (ds_lowercased f)))))))"

definition get_value_from_environment :: "statsig_user_internal \<Rightarrow> dynamic_string option \<Rightarrow> dynamic_value option" where
  "get_value_from_environment user field =
     (case field of
        None \<Rightarrow> None
      | Some f \<Rightarrow>
          opt_else (case ud_statsig_environment (su_data user) of
                      None \<Rightarrow> None | Some env \<Rightarrow> hm_get env (ds_value f))
            (case su_statsig user of
               None \<Rightarrow> None
             | Some si \<Rightarrow> opt_else (get_from_statsig_env si (ds_value f))
                            (get_from_statsig_env si (ds_lowercased f))))"

text \<open>
  \<open>throttled_version_check\<close>: the new time of the last check, and whether the warning is logged.
  The compare-exchange succeeds in a run with no other thread.
\<close>

definition throttled_version_check :: "string \<Rightarrow> string \<Rightarrow> nat \<Rightarrow> nat \<Rightarrow> nat \<times> bool" where
  "throttled_version_check current_version user_version now last_check =
     (if user_version = current_version then (last_check, False)
      else if now - last_check < 60000 then (last_check, False)
      else (now, True))"

section \<open>Loggable users\<close>

record loggable_user =
  lu_data :: user_data
  lu_environment :: "UserDataMap option"
  lu_global_custom :: "UserDataMap option"

definition to_loggable :: "statsig_user_internal \<Rightarrow> loggable_user" where
  "to_loggable user =
     (let environment = ud_statsig_environment (su_data user)
      in case su_statsig user of
           None \<Rightarrow> \<lparr>lu_data = su_data user, lu_environment = environment, lu_global_custom = None\<rparr>
         | Some si \<Rightarrow>
             \<lparr>lu_data = su_data user,
              lu_environment = (if environment = None then use_statsig_env si else environment),
              lu_global_custom = si_global_custom si\<rparr>)"

definition merged_custom_fields :: "UserDataMap option \<Rightarrow> UserDataMap option \<Rightarrow> (string \<times> dynamic_value) list" where
  "merged_custom_fields custom global_custom =
     (case global_custom of
        None \<Rightarrow> []
      | Some g \<Rightarrow>
          map (\<lambda>(k, gv). (k, case custom of
                 None \<Rightarrow> gv
               | Some c \<Rightarrow> (case hm_get c k of Some v \<Rightarrow> v | None \<Rightarrow> gv))) g)
     @ (case custom of
          None \<Rightarrow> []
        | Some c \<Rightarrow>
            filter (\<lambda>(k, v). \<not> (case global_custom of Some g \<Rightarrow> hm_contains g k | None \<Rightarrow> False)) c)"

definition serialized_len :: "UserDataMap option \<Rightarrow> UserDataMap option \<Rightarrow> nat" where
  "serialized_len custom global_custom =
     (case global_custom of None \<Rightarrow> 0 | Some g \<Rightarrow> length g)
     + (case custom of
          None \<Rightarrow> 0
        | Some c \<Rightarrow>
            length (filter (\<lambda>k. \<not> (case global_custom of Some g \<Rightarrow> hm_contains g k | None \<Rightarrow> False)) (hm_keys c)))"

definition serialize_data_field :: "string \<Rightarrow> json option \<Rightarrow> (string \<times> json) list" where
  "serialize_data_field name v = (case v of Some j \<Rightarrow> [(name, j)] | None \<Rightarrow> [])"

definition json_of_map :: "(string \<times> dynamic_value) list \<Rightarrow> json" where
  "json_of_map m = JObject (map (\<lambda>(k, v). (k, dv_serialize v)) m)"

definition serialize_loggable :: "loggable_user \<Rightarrow> json" where
  "serialize_loggable lu =
     (let d = lu_data lu
      in JObject
        (serialize_data_field ''userID'' (map_option dv_serialize (ud_user_id d))
         @ serialize_data_field ''customIDs'' (map_option json_of_map (ud_custom_ids d))
         @ serialize_data_field ''email'' (map_option dv_serialize (ud_email d))
         @ serialize_data_field ''ip'' (map_option dv_serialize (ud_ip d))
         @ serialize_data_field ''userAgent'' (map_option dv_serialize (ud_user_agent d))
         @ serialize_data_field ''country'' (map_option dv_serialize (ud_country d))
         @ serialize_data_field ''locale'' (map_option dv_serialize (ud_locale d))
         @ serialize_data_field ''appVersion'' (map_option dv_serialize (ud_app_version d))
         @ (if lu_global_custom lu = None \<and> ud_custom d = None then []
            else [(''custom'', json_of_map (merged_custom_fields (ud_custom d) (lu_global_custom lu)))])
         @ serialize_data_field ''statsigEnvironment'' (map_option json_of_map (lu_environment lu))))"

section \<open>Lemmas\<close>

lemma private_attribute_step_mod:
  assumes "0 \<le> v" "v < 2 ^ 32"
  shows "private_attribute_step v kv = (v + djb2_number (private_attribute_text kv)) mod 2 ^ 32"
proof -
  have m: "n AND 0xFFFFFFFF = n mod 2 ^ 32" for n :: int
    using take_bit_eq_mask [of 32 n] by (simp add: take_bit_eq_mod mask_eq_exp_minus_1)
  have "is_i64 (v + djb2_number (private_attribute_text kv))"
    using assms djb2_number_range [of "private_attribute_text kv"] by (simp add: is_i64_def)
  then show ?thesis by (simp add: private_attribute_step_def m)
qed

lemma private_attribute_sum:
  assumes "0 \<le> v" "v < 2 ^ 32"
  shows "foldl private_attribute_step v attrs =
    (v + sum_list (map (\<lambda>kv. djb2_number (private_attribute_text kv)) attrs)) mod 2 ^ 32"
  using assms
proof (induction attrs arbitrary: v)
  case (Cons kv attrs)
  have "foldl private_attribute_step v (kv # attrs) =
      ((v + djb2_number (private_attribute_text kv)) mod 2 ^ 32
        + sum_list (map (\<lambda>kv. djb2_number (private_attribute_text kv)) attrs)) mod 2 ^ 32"
    using Cons by (simp add: private_attribute_step_mod)
  also have "\<dots> = (v + djb2_number (private_attribute_text kv)
        + sum_list (map (\<lambda>kv. djb2_number (private_attribute_text kv)) attrs)) mod 2 ^ 32"
    by (rule mod_add_left_eq)
  finally show ?case by (simp add: add.assoc)
qed simp

lemma foldl_sum_word: "foldl (\<lambda>acc v. acc + f v) (a :: u64) vs = a + sum_list (map f vs)"
  by (induction vs arbitrary: a) (simp_all add: add.assoc)

lemma map_of_map_value: "map_of (map (\<lambda>(k, v). (k, f k v)) m) k = map_option (f k) (map_of m k)"
  by (induction m) auto

lemma merged_custom_get:
  "hm_get (merged_custom_fields (Some c) (Some g)) k = opt_else (hm_get c k) (hm_get g k)"
proof -
  have "map_of (filter (\<lambda>(k, v). \<not> hm_contains g k) c) k = (if hm_contains g k then None else map_of c k)"
    by (induction c) auto
  then show ?thesis
    by (auto simp: merged_custom_fields_def hm_get_def map_add_def hm_contains_def map_of_map_value
        map_of_append opt_else_def split: option.splits)
qed

lemma sum_custom_id_hashes_perm:
  assumes "mset ids = mset ids'"
  shows "sum_custom_id_hashes (u\<lparr>ud_custom_ids := Some ids\<rparr>) = sum_custom_id_hashes (u\<lparr>ud_custom_ids := Some ids'\<rparr>)"
proof -
  have "sum_list (map (\<lambda>kv. dv_hash (snd kv)) ids) = sum_list (map (\<lambda>kv. dv_hash (snd kv)) ids')"
    by (rule sum_list_mset_cong) (rule assms)
  then show ?thesis by (simp add: sum_custom_id_hashes_def foldl_sum_word hm_values_def comp_def)
qed

section \<open>Properties\<close>

text \<open>
  C30: private attributes never reach an event. What is logged of a user is the same whatever its
  private attributes are.
\<close>

theorem private_attributes_not_logged:
  "serialize_loggable (to_loggable (user\<lparr>su_data := (su_data user)\<lparr>ud_private_attributes := p\<rparr>\<rparr>))
     = serialize_loggable (to_loggable user)"
  unfolding serialize_loggable_def to_loggable_def Let_def by (cases "su_statsig user") simp_all

text \<open>
  The hash of the private attributes is the sum of the attributes' hashes modulo \<open>2\<^sup>3\<^sup>2\<close>, so it
  does not depend on the iteration order of the map, and masking at each step does not lose anything.
\<close>

theorem hashed_private_attributes_order_free:
  assumes "ud_private_attributes u = Some attrs" "ud_private_attributes v = Some attrs'"
    and "mset attrs = mset attrs'" "attrs \<noteq> []"
  shows "get_hashed_private_attributes u = get_hashed_private_attributes v \<and>
    get_hashed_private_attributes u = Some (int_to_string
      ((\<Sum>kv \<leftarrow> attrs. djb2_number (private_attribute_text kv)) mod 2 ^ 32))"
proof -
  have "sum_list (map (\<lambda>kv. djb2_number (private_attribute_text kv)) attrs) =
      sum_list (map (\<lambda>kv. djb2_number (private_attribute_text kv)) attrs')"
    by (rule sum_list_mset_cong) (rule assms(3))
  moreover have "attrs' \<noteq> []" using assms(3,4) by auto
  ultimately show ?thesis
    using assms by (simp add: get_hashed_private_attributes_def private_attribute_sum)
qed

theorem hashed_private_attributes_order_free_witness:
  "get_hashed_private_attributes (ud_default\<lparr>ud_private_attributes := Some [(''a'', dv_new), (''b'', dv_new)]\<rparr>) =
   get_hashed_private_attributes (ud_default\<lparr>ud_private_attributes := Some [(''b'', dv_new), (''a'', dv_new)]\<rparr>)"
  by (rule conjunct1 [OF hashed_private_attributes_order_free [where attrs = "[(''a'', dv_new), (''b'', dv_new)]"
        and attrs' = "[(''b'', dv_new), (''a'', dv_new)]"]]) simp_all

text \<open>
  In a logged user the custom fields of the user take precedence over the global ones, a field
  is written under every key of either map, and the length announced to the serialiser is the
  number of fields written.
\<close>

theorem merged_custom_fields_user_wins:
  "hm_get (merged_custom_fields (Some c) (Some g)) k = opt_else (hm_get c k) (hm_get g k) \<and>
   length (merged_custom_fields custom global) = serialized_len custom global"
proof -
  have "length (filter (\<lambda>(k, v). P k) m) = length (filter P (hm_keys m))"
    for P and m :: "(string \<times> dynamic_value) list"
    by (induction m) (auto simp: hm_keys_def)
  then have "length (merged_custom_fields custom global) = serialized_len custom global"
    by (simp add: merged_custom_fields_def serialized_len_def split: option.splits)
  then show ?thesis using merged_custom_get by simp
qed

end
