(* ===== verification/Specs.thy ===== *)
theory Specs
  imports Users
begin

text \<open>
  The project configuration the evaluator reads, \<open>src/statsig-rust/src/specs_response\<close>: specs, rules,
  conditions, config mappings, bandit configurations and parameter stores, and the id lists of
  \<open>src/statsig-rust/src/id_lists_adapter/id_list.rs\<close>.
\<close>

section \<open>Rules, conditions and specs\<close>

type_synonym explicit_parameters = "string list"

definition explicit_contains :: "explicit_parameters \<Rightarrow> string \<Rightarrow> bool" where
  "explicit_contains ps p = list_ex (\<lambda>q. q = p) ps"

record rule =
  ru_name :: string
  ru_pass_percentage :: f64
  ru_return_value :: dynamic_returnable
  ru_id :: string
  ru_salt :: "string option"
  ru_conditions :: "string list"
  ru_id_type :: dynamic_string
  ru_group_name :: "string option"
  ru_config_delegate :: "string option"
  ru_is_experiment_group :: "bool option"
  ru_sampling_rate :: "u64 option"

definition is_targeting_rule :: "rule \<Rightarrow> bool" where
  "is_targeting_rule r \<longleftrightarrow> ru_id r = ''targetingGate'' \<or> ru_id r = ''inlineTargetingRules''"

definition is_override_rule :: "rule \<Rightarrow> bool" where
  "is_override_rule r \<longleftrightarrow> str_ends_with (ru_id r) ''override''"

record spec =
  sp_checksum :: "string option"
  sp_type :: string
  sp_salt :: string
  sp_default_value :: dynamic_returnable
  sp_enabled :: bool
  sp_rules :: "rule list"
  sp_id_type :: string
  sp_explicit_parameters :: "explicit_parameters option"
  sp_entity :: string
  sp_has_shared_params :: "bool option"
  sp_is_active :: "bool option"
  sp_version :: "u32 option"
  sp_target_app_ids :: "string list option"
  sp_forward_all_exposures :: "bool option"
  sp_fields_used :: "string list option"
  sp_use_new_layer_eval :: "bool option"

record condition =
  co_type :: string
  co_target_value :: "memo_value option"
  co_operator :: "string option"
  co_field :: "dynamic_string option"
  co_additional_values :: "(string, string) HashMap option"
  co_id_type :: dynamic_string
  co_checksum :: "string option"

text \<open>Deserialising a condition compiles the target of \<open>str_matches\<close>.\<close>

definition condition_deserialize :: "ext \<Rightarrow> condition \<Rightarrow> condition" where
  "condition_deserialize x c =
     (if co_operator c = Some ''str_matches''
      then c\<lparr>co_target_value := map_option (mv_compile_regex x) (co_target_value c)\<rparr>
      else c)"

section \<open>Config mappings\<close>

record override_rule =
  ov_rule_name :: string
  ov_start_time :: "i64 option"

record config_mapping =
  cm_new_config_name :: string
  cm_rules :: "override_rule list"

section \<open>Bandits\<close>

record cmab_group =
  cg_name :: string
  cg_parameter_values :: dynamic_returnable
  cg_id :: string

record cmab_group_config =
  gc_alpha :: f64
  gc_intercept :: f64
  gc_records :: u64
  gc_weights_numerical :: "(string, f64) HashMap"
  gc_weights_categorical :: "(string, (string, f64) HashMap) HashMap"

record cmab_config =
  cb_salt :: string
  cb_target_app_ids :: "string list option"
  cb_default_value :: dynamic_returnable
  cb_id_type :: dynamic_string
  cb_enabled :: bool
  cb_version :: u32
  cb_sample_rate :: f64
  cb_higher_is_better :: bool
  cb_groups :: "cmab_group list"
  cb_config :: "(string, cmab_group_config) HashMap option"
  cb_targeting_gate_name :: "string option"

section \<open>Parameter stores\<close>

datatype parameter =
    StaticValueParameter (pa_name: "string option") (pa_ref_type: string) (pa_param_type: string) (pa_value: json)
  | GateParameter (pa_name: "string option") (pa_ref_type: string) (pa_param_type: string)
      (pa_gate_name: string) (pa_pass_value: json) (pa_fail_value: json)
  | DynamicConfigParameter (pa_name: "string option") (pa_ref_type: string) (pa_param_type: string)
      (pa_config_name: string) (pa_param_name: string)
  | ExperimentParameter (pa_name: "string option") (pa_ref_type: string) (pa_param_type: string)
      (pa_experiment_name: string) (pa_param_name: string)
  | LayerParameter (pa_name: "string option") (pa_ref_type: string) (pa_param_type: string)
      (pa_layer_name: string) (pa_param_name: string)

record parameter_store =
  ps_parameters :: "(string, parameter) HashMap"
  ps_target_app_ids :: "string list option"
  ps_version :: "u32 option"
  ps_checksum :: "string option"

definition parameter_store_hash :: "ext \<Rightarrow> parameter_store \<Rightarrow> string \<Rightarrow> u64" where
  "parameter_store_hash x ps name =
     x_hash_one x [x_hash_bytes x name, (case ps_version ps of Some v \<Rightarrow> ucast v | None \<Rightarrow> 0)]"

section \<open>The response\<close>

record session_replay_trigger =
  rt_sampling_rate :: "f64 option"
  rt_values :: "string list option"
  rt_passes_sampling :: "bool option"

record session_replay_privacy_setting =
  rp_privacy_mode :: string
  rp_unmasked_elements :: "string list option"
  rp_masked_elements :: "string list option"
  rp_blocked_elements :: "string list option"

record session_replay_info =
  ri_sampling_rate :: "f64 option"
  ri_targeting_gate :: "string option"
  ri_recording_blocked :: "bool option"
  ri_event_triggers :: "(string, session_replay_trigger) HashMap option"
  ri_exposure_triggers :: "(string, session_replay_trigger) HashMap option"
  ri_privacy_settings :: "session_replay_privacy_setting option"

record auto_capture_settings =
  ac_disabled_events :: "(string, bool) HashMap"

record gcir_config =
  gf_remove_default_value_gates :: bool

text \<open>
  The fields of \<open>SpecsResponsePartial\<close>, the top level of a response, and of \<open>SpecsResponseFull\<close>, which
  has more.
\<close>

record specs_response_partial =
  sr_app_id :: "dynamic_value option"
  sr_cmab_configs :: "(string, cmab_config) HashMap option"
  sr_default_environment :: "string option"
  sr_diagnostics :: "(string, f64) HashMap option"
  sr_experiment_to_layer :: "(string, string) HashMap"
  sr_hashed_sdk_keys_to_app_ids :: "(string, dynamic_value) HashMap option"
  sr_id_lists :: "(string, bool) HashMap option"
  sr_override_rules :: "(string, rule) HashMap option"
  sr_overrides :: "(string, config_mapping list) HashMap option"
  sr_sdk_configs :: "(string, dynamic_value) HashMap option"
  sr_sdk_flags :: "(string, bool) HashMap option"
  sr_sdk_keys_to_app_ids :: "(string, dynamic_value) HashMap option"
  sr_session_replay_info :: "session_replay_info option"
  sr_auto_capture_settings :: "auto_capture_settings option"
  sr_gcir_config :: "gcir_config option"

record specs_response = specs_response_partial +
  sr_checksum :: "string option"
  sr_company_id :: "string option"
  sr_condition_map :: "(string, condition) HashMap"
  sr_dynamic_configs :: "(string, spec) HashMap"
  sr_feature_gates :: "(string, spec) HashMap"
  sr_has_updates :: bool
  sr_layer_configs :: "(string, spec) HashMap"
  sr_param_stores :: "(string, parameter_store) HashMap option"
  sr_response_format :: "string option"
  sr_time :: u64

definition specs_default :: specs_response where
  "specs_default = \<lparr>sr_app_id = None, sr_cmab_configs = None, sr_default_environment = None, sr_diagnostics = None,
     sr_experiment_to_layer = [], sr_hashed_sdk_keys_to_app_ids = None, sr_id_lists = None, sr_override_rules = None,
     sr_overrides = None, sr_sdk_configs = None, sr_sdk_flags = None, sr_sdk_keys_to_app_ids = None,
     sr_session_replay_info = None, sr_auto_capture_settings = None, sr_gcir_config = None, sr_checksum = None,
     sr_company_id = None, sr_condition_map = [], sr_dynamic_configs = [], sr_feature_gates = [],
     sr_has_updates = False, sr_layer_configs = [], sr_param_stores = None, sr_response_format = None, sr_time = 0\<rparr>"

text \<open>The macro's \<open>merge_from_partial\<close>: every common field is taken from the partial response.\<close>

definition merge_from_partial :: "specs_response \<Rightarrow> specs_response_partial \<Rightarrow> specs_response" where
  "merge_from_partial s p = s\<lparr>
     sr_app_id := sr_app_id p, sr_cmab_configs := sr_cmab_configs p, sr_default_environment := sr_default_environment p,
     sr_diagnostics := sr_diagnostics p, sr_experiment_to_layer := sr_experiment_to_layer p,
     sr_hashed_sdk_keys_to_app_ids := sr_hashed_sdk_keys_to_app_ids p, sr_id_lists := sr_id_lists p,
     sr_override_rules := sr_override_rules p, sr_overrides := sr_overrides p, sr_sdk_configs := sr_sdk_configs p,
     sr_sdk_flags := sr_sdk_flags p, sr_sdk_keys_to_app_ids := sr_sdk_keys_to_app_ids p,
     sr_session_replay_info := sr_session_replay_info p, sr_auto_capture_settings := sr_auto_capture_settings p,
     sr_gcir_config := sr_gcir_config p\<rparr>"

definition specs_reset :: "specs_response \<Rightarrow> specs_response" where
  "specs_reset s = specs_default"

definition specs_is_empty :: "specs_response \<Rightarrow> bool" where
  "specs_is_empty s \<longleftrightarrow> sr_checksum s = None \<and> length (sr_feature_gates s) = 0 \<and>
     length (sr_dynamic_configs s) = 0 \<and> length (sr_layer_configs s) = 0 \<and>
     length (sr_condition_map s) = 0 \<and> sr_time s = 0"

lemma specs_reset_is_empty: "specs_is_empty (specs_reset s)"
  by (simp add: specs_is_empty_def specs_reset_def specs_default_def)

section \<open>Id lists\<close>

record id_list_metadata =
  im_name :: string
  im_url :: string
  im_file_id :: "string option"
  im_size :: nat
  im_creation_time :: i64

record id_list =
  il_metadata :: id_list_metadata
  il_ids :: "string set"

record id_list_update =
  iu_raw_changeset :: "string option"
  iu_new_metadata :: id_list_metadata

definition id_list_new :: "id_list_metadata \<Rightarrow> id_list" where
  "id_list_new m = \<lparr>il_metadata = m\<lparr>im_size := 0\<rparr>, il_ids = {}\<rparr>"

definition update_metadata :: "id_list_metadata \<Rightarrow> id_list \<Rightarrow> id_list" where
  "update_metadata m l = \<lparr>il_metadata = m\<lparr>im_size := 0\<rparr>, il_ids = {}\<rparr>"

text \<open>\<open>str::lines\<close>: pieces between line feeds, a final empty piece dropped, a trailing carriage
  return of a terminated line removed.\<close>

definition strip_cr :: "string \<Rightarrow> string" where
  "strip_cr s = (if s \<noteq> [] \<and> last s = CHR 0x0D then butlast s else s)"

definition str_lines :: "string \<Rightarrow> string list" where
  "str_lines s =
     (let ps = str_split (CHR 0x0A) s
      in map strip_cr (butlast ps) @ (if last ps = [] then [] else [last ps]))"

text \<open>
  One line of a changeset. Slicing \<open>change[1..]\<close> panics (\<open>None\<close>) when the first character takes more
  than one byte.
\<close>

definition apply_change :: "string \<Rightarrow> string set \<Rightarrow> string set option" where
  "apply_change change ids =
     (if length (str_trim change) \<le> 1 then Some ids
      else if 128 \<le> byte (hd change) then None
      else if hd change = CHR ''+'' then Some (insert (tl change) ids)
      else if hd change = CHR ''-'' then Some (ids - {tl change})
      else Some ids)"

fun apply_changes :: "string list \<Rightarrow> string set \<Rightarrow> string set option" where
  "apply_changes [] ids = Some ids"
| "apply_changes (c # cs) ids =
     (case apply_change c ids of None \<Rightarrow> None | Some ids' \<Rightarrow> apply_changes cs ids')"

definition apply_update :: "id_list_update \<Rightarrow> id_list \<Rightarrow> id_list option" where
  "apply_update u l =
     (let new = iu_new_metadata u;
          cur = il_metadata l;
          l1 = (if im_file_id new \<noteq> im_file_id cur \<and> im_creation_time cur \<le> im_creation_time new
                then update_metadata new l else l)
      in case iu_raw_changeset u of
           None \<Rightarrow> Some l1
         | Some data \<Rightarrow>
             (case apply_changes (str_lines data) (il_ids l1) of
                None \<Rightarrow> None
              | Some ids \<Rightarrow>
                  Some \<lparr>il_metadata = (il_metadata l1)\<lparr>im_size := im_size (il_metadata l1) + length data\<rparr>,
                        il_ids = ids\<rparr>))"

text \<open>What a changeset means for one id: the last line about it decides.\<close>

definition change_of :: "string \<Rightarrow> (bool \<times> string) option" where
  "change_of c =
     (if length (str_trim c) \<le> 1 then None
      else if hd c = CHR ''+'' then Some (True, tl c)
      else if hd c = CHR ''-'' then Some (False, tl c)
      else None)"

definition last_change :: "string \<Rightarrow> string list \<Rightarrow> bool option" where
  "last_change i cs =
     (case filter (\<lambda>c. \<exists>b. change_of c = Some (b, i)) (rev cs) of
        [] \<Rightarrow> None
      | c # _ \<Rightarrow> map_option fst (change_of c))"

lemma apply_change_mem:
  "apply_change c ids = Some ids' \<Longrightarrow>
   i \<in> ids' \<longleftrightarrow> (case change_of c of Some (b, j) \<Rightarrow> if j = i then b else i \<in> ids | None \<Rightarrow> i \<in> ids)"
  by (auto simp: apply_change_def change_of_def split: if_splits)

lemma last_change_Cons:
  "last_change i (c # cs) =
     (case last_change i cs of
        Some b \<Rightarrow> Some b
      | None \<Rightarrow> (case change_of c of Some (b, j) \<Rightarrow> if j = i then Some b else None | None \<Rightarrow> None))"
proof -
  let ?hits = "filter (\<lambda>c. \<exists>b. change_of c = Some (b, i)) (rev cs)"
  show ?thesis
  proof (cases ?hits)
    case Nil
    then show ?thesis by (auto simp: last_change_def split: option.splits)
  next
    case (Cons c' ys)
    then have "c' \<in> set ?hits" by simp
    then obtain b where "change_of c' = Some (b, i)" by auto
    with Cons show ?thesis by (simp add: last_change_def)
  qed
qed

lemma apply_changes_mem:
  "apply_changes cs ids = Some ids' \<Longrightarrow>
   i \<in> ids' \<longleftrightarrow> (case last_change i cs of Some b \<Rightarrow> b | None \<Rightarrow> i \<in> ids)"
proof (induction cs arbitrary: ids)
  case Nil
  then show ?case by (simp add: last_change_def)
next
  case (Cons c cs)
  then obtain ids1 where "apply_change c ids = Some ids1" "apply_changes cs ids1 = Some ids'"
    by (auto split: option.splits)
  with Cons.IH [of ids1] apply_change_mem [of c ids ids1 i] show ?case
    by (auto simp: last_change_Cons split: option.splits)
qed

section \<open>Properties\<close>

text \<open>
  After a changeset an id is in the list just when the last line about it adds it, or no line
  mentions it and it was there before; a newer file (another file id, not created earlier) starts
  from the empty list. The size grows by the bytes read.
\<close>

theorem apply_update_last_line_wins:
  assumes "iu_raw_changeset u = Some data" "apply_update u l = Some l'"
  defines "replaced \<equiv> im_file_id (iu_new_metadata u) \<noteq> im_file_id (il_metadata l) \<and>
      im_creation_time (il_metadata l) \<le> im_creation_time (iu_new_metadata u)"
  shows "(i \<in> il_ids l' \<longleftrightarrow>
      (case last_change i (str_lines data) of Some b \<Rightarrow> b | None \<Rightarrow> \<not> replaced \<and> i \<in> il_ids l)) \<and>
    im_size (il_metadata l') = (if replaced then 0 else im_size (il_metadata l)) + length data"
  using assms
  by (auto simp: apply_update_def Let_def update_metadata_def apply_changes_mem
      split: option.splits if_splits)

theorem apply_update_last_line_wins_witness:
  "\<exists>l'. apply_update \<lparr>iu_raw_changeset = Some (''+ab'' @ [CHR 0x0A] @ ''-ab''),
      iu_new_metadata = \<lparr>im_name = ''l'', im_url = [], im_file_id = Some ''f'', im_size = 0, im_creation_time = 1\<rparr>\<rparr>
      (id_list_new \<lparr>im_name = ''l'', im_url = [], im_file_id = Some ''f'', im_size = 0, im_creation_time = 1\<rparr>) = Some l'
    \<and> ''ab'' \<notin> il_ids l'"
proof -
  let ?m = "\<lparr>im_name = ''l'', im_url = [], im_file_id = Some ''f'', im_size = 0, im_creation_time = 1\<rparr>"
  let ?u = "\<lparr>iu_raw_changeset = Some (''+ab'' @ [CHR 0x0A] @ ''-ab''), iu_new_metadata = ?m\<rparr>"
  have lines: "str_lines (''+ab'' @ [CHR 0x0A] @ ''-ab'') = [''+ab'', ''-ab'']" by code_simp
  have trim: "str_trim ''+ab'' = ''+ab''" "str_trim ''-ab'' = ''-ab''"
    by (simp_all add: str_trim_graphic graphic_def)
  have upd: "apply_update ?u (id_list_new ?m) =
      Some \<lparr>il_metadata = ?m\<lparr>im_size := 7\<rparr>, il_ids = {}\<rparr>"
    using lines by (simp add: apply_update_def id_list_new_def apply_change_def trim byte_def)
  have "last_change ''ab'' (str_lines (''+ab'' @ [CHR 0x0A] @ ''-ab'')) = Some False"
    by (simp only: lines) (auto simp: last_change_def change_of_def trim)
  with apply_update_last_line_wins [of ?u _ "id_list_new ?m" _ "''ab''", OF _ upd] upd show ?thesis
    by simp
qed

end
