(* ===== verification/Country_Lookup.thy ===== *)
theory Country_Lookup
  imports Users
begin

text \<open>
  The country of an IP address, \<open>src/statsig-rust/src/evaluation/country_lookup.rs\<close>: decoding the
  packed table into country codes and range ends, the binary search and the lookup. The packed
  table is an argument; indexing outside it is the panic \<open>None\<close>.
\<close>

section \<open>Operations\<close>

record country_lookup_data =
  cl_country_codes :: "string list"
  cl_ip_ranges :: "i64 list"

text \<open>\<open>byte as char\<close>, printed as UTF-8.\<close>

definition latin1_to_string :: "u8 \<Rightarrow> string" where
  "latin1_to_string b =
     (let n = unat b in if n < 128 then [char_of n] else [char_of (0xC0 + n div 64), char_of (0x80 + n mod 64)])"

fun read_codes :: "u8 list \<Rightarrow> (string list \<times> u8 list) option" where
  "read_codes [] = Some ([], [])"
| "read_codes [b] = None"
| "read_codes (c1 # c2 # rest) =
     (let code = latin1_to_string c1 @ latin1_to_string c2
      in if c1 = 42 then Some ([code], rest)
         else case read_codes rest of None \<Rightarrow> None | Some (codes, rest') \<Rightarrow> Some (code # codes, rest'))"

text \<open>The length of one range, with the bytes that follow it; 242 and 243 introduce longer counts.\<close>

definition long_of :: "u8 \<Rightarrow> int" where
  "long_of b = uint b"

definition read_count :: "u8 list \<Rightarrow> (int \<times> u8 list) option" where
  "read_count bs =
     (case bs of
        [] \<Rightarrow> None
      | n1 # rest \<Rightarrow>
          if long_of n1 < 240 then Some (long_of n1, rest)
          else if long_of n1 = 242 then
            (case rest of
               n2 # n3 # rest' \<Rightarrow> Some (long_of n2 OR (push_bit 8 (long_of n3)), rest')
             | _ \<Rightarrow> None)
          else if long_of n1 = 243 then
            (case rest of
               n2 # n3 # n4 # rest' \<Rightarrow>
                 Some (long_of n2 OR (push_bit 8 (long_of n3)) OR (push_bit 16 (long_of n4)), rest')
             | _ \<Rightarrow> None)
          else Some (0, rest))"

lemma read_count_shorter: "read_count bs = Some (n, rest) \<Longrightarrow> length rest < length bs"
  by (auto simp: read_count_def split: list.splits if_splits)

function read_ranges :: "string list \<Rightarrow> int \<Rightarrow> u8 list \<Rightarrow> country_lookup_data option" where
  "read_ranges raw_codes last_end bs =
     (if length bs \<le> 1 then Some \<lparr>cl_country_codes = [], cl_ip_ranges = []\<rparr>
      else case read_count bs of
          None \<Rightarrow> None
        | Some (cnt, rest) \<Rightarrow>
            (case rest of
               [] \<Rightarrow> None
             | cc # rest' \<Rightarrow>
                 if length raw_codes \<le> unat cc then None
                 else
                   (let end_range = last_end + cnt * 256
                    in case read_ranges raw_codes end_range rest' of
                         None \<Rightarrow> None
                       | Some d \<Rightarrow>
                           Some \<lparr>cl_country_codes = raw_codes ! unat cc # cl_country_codes d,
                                 cl_ip_ranges = end_range # cl_ip_ranges d\<rparr>)))"
  by pat_completeness auto
termination
  by (relation "measure (\<lambda>(c, l, bs). length bs)") (auto dest!: read_count_shorter)

declare read_ranges.simps [simp del]

definition decode_table :: "u8 list \<Rightarrow> country_lookup_data option" where
  "decode_table bs =
     (case read_codes bs of None \<Rightarrow> None | Some (codes, rest) \<Rightarrow> read_ranges codes 0 rest)"

text \<open>
  \<open>load_country_lookup\<close> on the shared table: the two flags say whether the read and the write lock
  are obtained within five seconds.
\<close>

definition load_country_lookup ::
    "u8 list \<Rightarrow> bool \<Rightarrow> bool \<Rightarrow> country_lookup_data option \<Rightarrow> country_lookup_data option option" where
  "load_country_lookup bytes read_ok write_ok table =
     (if \<not> read_ok then Some table
      else if table \<noteq> None then Some table
      else case decode_table bytes of
          None \<Rightarrow> None
        | Some d \<Rightarrow> if write_ok then Some (Some d) else Some table)"

function binary_search_loop :: "i64 list \<Rightarrow> i64 \<Rightarrow> nat \<Rightarrow> nat \<Rightarrow> nat" where
  "binary_search_loop ranges v lo hi =
     (if lo < hi then
        (let mid = (lo + hi) div 2
         in if ranges ! mid \<le> v then binary_search_loop ranges v (mid + 1) hi
            else binary_search_loop ranges v lo mid)
      else lo)"
  by pat_completeness auto
termination
  by (relation "measure (\<lambda>(r, v, lo, hi). hi - lo)") auto

declare binary_search_loop.simps [simp del]

definition binary_search :: "i64 \<Rightarrow> country_lookup_data \<Rightarrow> nat" where
  "binary_search v d = binary_search_loop (cl_ip_ranges d) v 0 (length (cl_ip_ranges d))"

definition lookup_numeric :: "ext \<Rightarrow> i64 \<Rightarrow> country_lookup_data \<Rightarrow> dynamic_value option option" where
  "lookup_numeric x ip d =
     (let index = binary_search ip d
      in if length (cl_country_codes d) \<le> index then None
         else
           (let cc = cl_country_codes d ! index
            in if cc = ''--'' then Some None else Some (Some (dv_from_string x cc))))"

abbreviation UNINITIALIZED_REASON :: string where
  "UNINITIALIZED_REASON \<equiv> ''CountryLookupNotLoaded''"

text \<open>The address as a number; the multiplication, shifts and additions wrap in a release build.\<close>

definition ip_number :: "i64 \<Rightarrow> i64 \<Rightarrow> i64 \<Rightarrow> i64 \<Rightarrow> i64" where
  "ip_number n0 n1 n2 n3 =
     wrap_i64 (wrap_i64 (wrap_i64 (wrap_i64 (n0 * 256 ^ 3) + wrap_i64 (push_bit 16 n1))
       + wrap_i64 (push_bit 8 n2)) + n3)"

text \<open>
  \<open>lookup\<close> gives the country and, when the table is not there, the override reason it leaves in the
  result; the outer \<open>None\<close> is the panic of \<open>lookup_numeric\<close>.
\<close>

definition lookup :: "ext \<Rightarrow> bool \<Rightarrow> country_lookup_data option \<Rightarrow> string \<Rightarrow>
    (dynamic_value option \<times> string option) option" where
  "lookup x read_ok table ip_address =
     (let parts = str_split (CHR ''.'') ip_address
      in if length parts \<noteq> 4 then Some (None, None)
         else if \<not> read_ok then Some (None, Some UNINITIALIZED_REASON)
         else case table of
             None \<Rightarrow> Some (None, Some UNINITIALIZED_REASON)
           | Some d \<Rightarrow>
               (case map parse_i64 parts of
                  [Some n0, Some n1, Some n2, Some n3] \<Rightarrow>
                    map_option (\<lambda>r. (r, None)) (lookup_numeric x (ip_number n0 n1 n2 n3) d)
                | _ \<Rightarrow> Some (None, None)))"

definition get_value_from_ip :: "ext \<Rightarrow> bool \<Rightarrow> country_lookup_data option \<Rightarrow> statsig_user_internal \<Rightarrow>
    dynamic_string option \<Rightarrow> (dynamic_value option \<times> string option) option" where
  "get_value_from_ip x read_ok table user field =
     (case field of
        None \<Rightarrow> Some (None, None)
      | Some f \<Rightarrow>
          if ds_value f \<noteq> ''country'' then Some (None, None)
          else
            (case get_user_value user (Some (ds_from_string x ''ip'')) of
               None \<Rightarrow> Some (None, None)
             | Some v \<Rightarrow>
                 (case dv_string v of
                    None \<Rightarrow> Some (None, None)
                  | Some s \<Rightarrow> lookup x read_ok table (ds_value s))))"

section \<open>Lemmas\<close>

lemma long_of_nonneg [simp]: "0 \<le> long_of b" "long_of b < 256"
  using uint_lt2p [of b] by (simp_all add: long_of_def)

lemma read_count_nonneg: "read_count bs = Some (n, rest) \<Longrightarrow> 0 \<le> n"
  by (auto simp: read_count_def split: list.splits if_splits)

text \<open>The decoded table: as many codes as ranges, and the range ends never decrease.\<close>

lemma read_ranges_sorted:
  "read_ranges codes e bs = Some d \<Longrightarrow>
   length (cl_country_codes d) = length (cl_ip_ranges d) \<and> sorted (cl_ip_ranges d) \<and>
   (\<forall>r \<in> set (cl_ip_ranges d). e \<le> r)"
proof (induction codes e bs arbitrary: d rule: read_ranges.induct)
  case (1 codes e bs)
  show ?case
  proof (cases "length bs \<le> 1")
    case True
    with 1 show ?thesis by (subst (asm) (2) read_ranges.simps) auto
  next
    case False
    with "1.prems" obtain n cc rest d' where
        parts: "read_count bs = Some (n, cc # rest)" "unat cc < length codes"
          "read_ranges codes (e + n * 256) rest = Some d'"
        and d: "d = \<lparr>cl_country_codes = codes ! unat cc # cl_country_codes d',
                     cl_ip_ranges = (e + n * 256) # cl_ip_ranges d'\<rparr>"
      by (subst (asm) read_ranges.simps)
        (auto simp: Let_def not_le split: option.splits list.splits if_splits)
    have "length (cl_country_codes d') = length (cl_ip_ranges d') \<and> sorted (cl_ip_ranges d') \<and>
        (\<forall>r \<in> set (cl_ip_ranges d'). e + n * 256 \<le> r)"
      using parts False by (intro "1.IH") auto
    moreover have "0 \<le> n" using read_count_nonneg [OF parts(1)] .
    ultimately show ?thesis using d by fastforce
  qed
qed

lemma decode_table_sorted:
  "decode_table bs = Some d \<Longrightarrow> length (cl_country_codes d) = length (cl_ip_ranges d) \<and> sorted (cl_ip_ranges d)"
  by (auto simp: decode_table_def split: option.splits dest: read_ranges_sorted)

lemma binary_search_loop_steps:
  "lo < hi \<Longrightarrow> ranges ! ((lo + hi) div 2) \<le> v \<Longrightarrow>
     binary_search_loop ranges v lo hi = binary_search_loop ranges v ((lo + hi) div 2 + 1) hi"
  "lo < hi \<Longrightarrow> \<not> ranges ! ((lo + hi) div 2) \<le> v \<Longrightarrow>
     binary_search_loop ranges v lo hi = binary_search_loop ranges v lo ((lo + hi) div 2)"
  "\<not> lo < hi \<Longrightarrow> binary_search_loop ranges v lo hi = lo"
  by (subst binary_search_loop.simps, simp add: Let_def)+

text \<open>The loop invariant: everything before \<open>lo\<close> is at most \<open>v\<close>, everything from \<open>hi\<close> on exceeds it.\<close>

definition search_inv :: "i64 list \<Rightarrow> i64 \<Rightarrow> nat \<Rightarrow> nat \<Rightarrow> bool" where
  "search_inv ranges v lo hi \<longleftrightarrow> lo \<le> hi \<and> hi \<le> length ranges \<and>
     (\<forall>i < lo. ranges ! i \<le> v) \<and> (\<forall>i. hi \<le> i \<longrightarrow> i < length ranges \<longrightarrow> v < ranges ! i)"

lemma search_inv_upper:
  assumes "sorted ranges" "search_inv ranges v lo hi" "lo < hi" "ranges ! ((lo + hi) div 2) \<le> v"
  shows "search_inv ranges v ((lo + hi) div 2 + 1) hi"
proof -
  let ?mid = "(lo + hi) div 2"
  have "?mid < hi" using assms(3) by simp
  moreover have "hi \<le> length ranges" using assms(2) by (simp add: search_inv_def)
  ultimately have "?mid < length ranges" by linarith
  then have "ranges ! i \<le> v" if "i < ?mid + 1" for i
    using sorted_nth_mono [OF assms(1), of i ?mid] assms(4) that by linarith
  with assms(2) \<open>?mid < hi\<close> show ?thesis by (simp add: search_inv_def)
qed

lemma search_inv_lower:
  assumes "sorted ranges" "search_inv ranges v lo hi" "lo < hi" "\<not> ranges ! ((lo + hi) div 2) \<le> v"
  shows "search_inv ranges v lo ((lo + hi) div 2)"
proof -
  let ?mid = "(lo + hi) div 2"
  have "v < ranges ! i" if "?mid \<le> i" "i < length ranges" for i
    using sorted_nth_mono [OF assms(1) that] assms(4) by linarith
  moreover have "lo \<le> ?mid" "?mid < hi" using assms(3) by simp_all
  moreover have "hi \<le> length ranges" using assms(2) by (simp add: search_inv_def)
  ultimately show ?thesis using assms(2) by (simp add: search_inv_def)
qed

lemma binary_search_loop_inv:
  assumes "sorted ranges" "search_inv ranges v lo hi"
  shows "search_inv ranges v (binary_search_loop ranges v lo hi) (binary_search_loop ranges v lo hi)"
  using assms
proof (induction ranges v lo hi rule: binary_search_loop.induct)
  case (1 ranges v lo hi)
  consider (upper) "lo < hi" "ranges ! ((lo + hi) div 2) \<le> v"
    | (lower) "lo < hi" "\<not> ranges ! ((lo + hi) div 2) \<le> v" | (finished) "\<not> lo < hi"
    by blast
  then show ?case
  proof cases
    case upper
    show ?thesis unfolding binary_search_loop_steps(1) [OF upper]
      by (rule "1.IH"(1) [OF upper(1) refl upper(2) "1.prems"(1) search_inv_upper [OF "1.prems" upper]])
  next
    case lower
    show ?thesis unfolding binary_search_loop_steps(2) [OF lower]
      by (rule "1.IH"(2) [OF lower(1) refl lower(2) "1.prems"(1) search_inv_lower [OF "1.prems" lower]])
  next
    case finished
    with "1.prems"(2) have "lo = hi" by (simp add: search_inv_def)
    with "1.prems"(2) show ?thesis by (simp add: binary_search_loop_steps(3))
  qed
qed

lemma binary_search_spec:
  assumes "sorted (cl_ip_ranges d)"
  shows "(\<forall>i < binary_search v d. cl_ip_ranges d ! i \<le> v) \<and>
    (\<forall>i. binary_search v d \<le> i \<longrightarrow> i < length (cl_ip_ranges d) \<longrightarrow> v < cl_ip_ranges d ! i) \<and>
    binary_search v d \<le> length (cl_ip_ranges d)"
  using binary_search_loop_inv [OF assms, of v 0 "length (cl_ip_ranges d)"]
  by (simp add: binary_search_def search_inv_def)

lemma binary_search_inside:
  assumes "sorted (cl_ip_ranges d)" "r \<in> set (cl_ip_ranges d)" "v < r"
  shows "binary_search v d < length (cl_ip_ranges d)"
  using binary_search_spec [OF assms(1), of v] assms(2,3) by (metis in_set_conv_nth leD leI order_trans)

lemma ip_number_octets:
  assumes "0 \<le> n0" "n0 < 256" "0 \<le> n1" "n1 < 256" "0 \<le> n2" "n2 < 256" "0 \<le> n3" "n3 < 256"
  shows "ip_number n0 n1 n2 n3 = n0 * 2 ^ 24 + n1 * 2 ^ 16 + n2 * 2 ^ 8 + n3"
    and "0 \<le> ip_number n0 n1 n2 n3 \<and> ip_number n0 n1 n2 n3 < 2 ^ 32"
proof -
  show "ip_number n0 n1 n2 n3 = n0 * 2 ^ 24 + n1 * 2 ^ 16 + n2 * 2 ^ 8 + n3"
    using assms by (simp add: ip_number_def push_bit_eq_mult is_i64_def)
  then show "0 \<le> ip_number n0 n1 n2 n3 \<and> ip_number n0 n1 n2 n3 < 2 ^ 32"
    using assms by simp
qed

section \<open>Properties\<close>

text \<open>
  For every packed table that decodes, the lookup of a number below the last range end gives
  the code of the one range that holds it: the code at the first position whose end exceeds the
  number, and no value for the code \<open>--\<close>. In particular it does not panic.
\<close>

theorem lookup_numeric_finds_range:
  assumes "decode_table bytes = Some d" "i < length (cl_ip_ranges d)"
    and "ip < cl_ip_ranges d ! i" "\<forall>j < i. cl_ip_ranges d ! j \<le> ip"
  shows "lookup_numeric x ip d =
    Some (if cl_country_codes d ! i = ''--'' then None else Some (dv_from_string x (cl_country_codes d ! i)))"
proof -
  have sorted: "sorted (cl_ip_ranges d)" and len: "length (cl_country_codes d) = length (cl_ip_ranges d)"
    using decode_table_sorted [OF assms(1)] by simp_all
  have "binary_search ip d = i"
    using binary_search_spec [OF sorted, of ip] assms(2-4)
    by (metis leD leI nat_neq_iff order.strict_implies_order)
  with assms(2) len show ?thesis by (simp add: lookup_numeric_def)
qed

theorem lookup_numeric_finds_range_witness:
  "lookup_numeric sample_ext 300 \<lparr>cl_country_codes = [''US'', ''CA''], cl_ip_ranges = [256, 768]\<rparr>
     = Some (Some (dv_from_string sample_ext ''CA''))"
proof -
  have "decode_table [85, 83, 67, 65, 42, 42, 1, 0, 2, 1] =
      Some \<lparr>cl_country_codes = [''US'', ''CA''], cl_ip_ranges = [256, 768]\<rparr>"
    by code_simp
  from lookup_numeric_finds_range [OF this, of 1 300] show ?thesis by simp
qed

text \<open>
  At or above the last range end the search runs off the table and indexing the codes panics.
\<close>

theorem lookup_numeric_panics_beyond_table:
  assumes "decode_table bytes = Some d" "\<forall>r \<in> set (cl_ip_ranges d). r \<le> ip"
  shows "lookup_numeric x ip d = None"
proof -
  have sorted: "sorted (cl_ip_ranges d)" and len: "length (cl_country_codes d) = length (cl_ip_ranges d)"
    using decode_table_sorted [OF assms(1)] by simp_all
  have "length (cl_ip_ranges d) \<le> binary_search ip d"
    using binary_search_spec [OF sorted, of ip] assms(2) by (meson leD leI nth_mem order_refl)
  with len show ?thesis by (simp add: lookup_numeric_def)
qed

theorem lookup_numeric_panics_beyond_table_witness:
  "lookup_numeric sample_ext 768 \<lparr>cl_country_codes = [''US'', ''CA''], cl_ip_ranges = [256, 768]\<rparr> = None"
proof (rule lookup_numeric_panics_beyond_table)
  show "decode_table [85, 83, 67, 65, 42, 42, 1, 0, 2, 1] =
      Some \<lparr>cl_country_codes = [''US'', ''CA''], cl_ip_ranges = [256, 768]\<rparr>"
    by code_simp
qed simp

text \<open>
  A dotted quad whose parts are octets never panics when the decoded table reaches \<open>2\<^sup>3\<^sup>2\<close>, and
  its number is the usual big-endian value, untouched by the wrap-around of the 64-bit arithmetic.
\<close>

theorem lookup_octets_no_panic:
  assumes "decode_table bytes = Some d" "2 ^ 32 \<in> set (cl_ip_ranges d)"
    and "map parse_i64 (str_split (CHR ''.'') ip) = map Some [n0, n1, n2, n3]"
    and "\<forall>n \<in> {n0, n1, n2, n3}. 0 \<le> n \<and> n < 256"
  shows "lookup x True (Some d) ip =
      map_option (\<lambda>r. (r, None)) (lookup_numeric x (n0 * 2 ^ 24 + n1 * 2 ^ 16 + n2 * 2 ^ 8 + n3) d) \<and>
    lookup x True (Some d) ip \<noteq> None"
proof -
  have sorted: "sorted (cl_ip_ranges d)" and len: "length (cl_country_codes d) = length (cl_ip_ranges d)"
    using decode_table_sorted [OF assms(1)] by simp_all
  have ip: "ip_number n0 n1 n2 n3 = n0 * 2 ^ 24 + n1 * 2 ^ 16 + n2 * 2 ^ 8 + n3" "ip_number n0 n1 n2 n3 < 2 ^ 32"
    using ip_number_octets [of n0 n1 n2 n3] assms(4) by simp_all
  have "binary_search (ip_number n0 n1 n2 n3) d < length (cl_country_codes d)"
    unfolding len by (rule binary_search_inside [OF sorted assms(2) ip(2)])
  then have "lookup_numeric x (ip_number n0 n1 n2 n3) d \<noteq> None"
    by (simp add: lookup_numeric_def Let_def)
  moreover have "length (str_split (CHR ''.'') ip) = 4"
    using arg_cong [OF assms(3), of length] by simp
  ultimately show ?thesis
    using assms(3) ip(1) by (simp add: lookup_def Let_def)
qed

theorem lookup_octets_no_panic_witness:
  "lookup sample_ext True (Some \<lparr>cl_country_codes = [''US'', ''CA''], cl_ip_ranges = [2 ^ 31, 2 ^ 32]\<rparr>) ''10.0.0.1'' \<noteq> None"
proof -
  have table: "decode_table [85, 83, 67, 65, 42, 42, 243, 0, 0, 128, 0, 243, 0, 0, 128, 1] =
      Some \<lparr>cl_country_codes = [''US'', ''CA''], cl_ip_ranges = [2 ^ 31, 2 ^ 32]\<rparr>"
    by code_simp
  have octets: "map parse_i64 (str_split (CHR ''.'') ''10.0.0.1'') = map Some [10, 0, 0, 1]"
    by code_simp
  show ?thesis
    by (rule conjunct2 [OF lookup_octets_no_panic [OF table _ octets]]) simp_all
qed

end
