(* ===== verification/Errors.thy ===== *)
theory Errors
  imports Prelude
begin

text \<open>
  The errors of the library, \<open>src/statsig-rust/src/statsig_err.rs\<close> and \<open>networking/network_error.rs\<close>, with
  their names and texts, the masking of secret keys in whatever is logged, \<open>logging_utils.rs\<close>, and the
  handling of URLs of \<open>utils/mod.rs\<close>.

  The texts of network errors are masked. Masking can panic on characters outside ASCII, so a text is
  an \<open>option\<close>. Which of those characters are alphanumeric is a parameter, the Unicode table of the
  standard library.
\<close>

section \<open>Characters\<close>

text \<open>The UTF-8 encodings of the characters of a string, one after the other.\<close>

definition utf8_len :: "char \<Rightarrow> nat" where
  "utf8_len c = (let n = of_char c :: nat in if n < 0x80 then 1 else if n < 0xE0 then 2 else if n < 0xF0 then 3 else 4)"

function utf8_encodings :: "string \<Rightarrow> string list" where
  "utf8_encodings [] = []"
| "utf8_encodings (c # cs) = take (utf8_len c) (c # cs) # utf8_encodings (drop (utf8_len c) (c # cs))"
  by pat_completeness auto
termination
  by (relation "measure length") (auto simp: utf8_len_def Let_def)

declare utf8_encodings.simps(2) [simp del]

definition is_char_boundary :: "string \<Rightarrow> nat \<Rightarrow> bool" where
  "is_char_boundary s i \<longleftrightarrow> i = 0 \<or> i = length s \<or>
     i < length s \<and> \<not> (0x80 \<le> (of_char (s ! i) :: nat) \<and> (of_char (s ! i) :: nat) < 0xC0)"

definition is_ascii_digit :: "char \<Rightarrow> bool" where
  "is_ascii_digit c \<longleftrightarrow> (let n = of_char c :: nat in 48 \<le> n \<and> n \<le> 57)"

definition is_ascii_alphanumeric :: "char \<Rightarrow> bool" where
  "is_ascii_alphanumeric c \<longleftrightarrow>
     (let n = of_char c :: nat in 48 \<le> n \<and> n \<le> 57 \<or> 65 \<le> n \<and> n \<le> 90 \<or> 97 \<le> n \<and> n \<le> 122)"

definition is_alphanumeric :: "(string \<Rightarrow> bool) \<Rightarrow> string \<Rightarrow> bool" where
  "is_alphanumeric uni c = (case c of [b] \<Rightarrow> is_ascii_alphanumeric b | _ \<Rightarrow> uni c)"

section \<open>Splitting at a text\<close>

fun split_once :: "string \<Rightarrow> string \<Rightarrow> (string \<times> string) option" where
  "split_once pat [] = (if pat = [] then Some ([], []) else None)"
| "split_once pat (c # cs) =
     (if str_starts_with (c # cs) pat then Some ([], drop (length pat) (c # cs))
      else map_option (\<lambda>(a, b). (c # a, b)) (split_once pat cs))"

lemma split_once_append: "split_once pat s = Some (a, b) \<Longrightarrow> s = a @ pat @ b"
proof (induction s arbitrary: a)
  case (Cons c cs)
  then show ?case by (auto simp: str_starts_with_def split: if_splits)
    (metis append_take_drop_id)
qed (auto split: if_splits)

function split_text :: "string \<Rightarrow> string \<Rightarrow> string list" where
  "split_text pat s =
     (case split_once pat s of
        None \<Rightarrow> [s]
      | Some (a, b) \<Rightarrow> if pat = [] then [s] else a # split_text pat b)"
  by pat_completeness auto
termination
  by (relation "measure (length \<circ> snd)") (auto dest!: split_once_append)

declare split_text.simps [simp del]

section \<open>Masking of keys\<close>

abbreviation SECRET :: string where "SECRET \<equiv> ''secret-''"

text \<open>One part after \<open>secret-\<close>. The number of leading alphanumeric characters is used as a number of bytes.\<close>

definition mask_part :: "(string \<Rightarrow> bool) \<Rightarrow> string \<Rightarrow> string option" where
  "mask_part uni part =
     (let n = length (takeWhile (is_alphanumeric uni) (utf8_encodings part))
      in if \<not> is_char_boundary part n then None
         else
           (let key = take n part; rest = drop n part
            in if 5 < length key
               then if \<not> is_char_boundary key 5 then None else Some (SECRET @ take 5 key @ ''*****'' @ rest)
               else Some (SECRET @ key @ ''*****'' @ rest)))"

fun mask_parts :: "(string \<Rightarrow> bool) \<Rightarrow> string list \<Rightarrow> string option" where
  "mask_parts uni [] = Some []"
| "mask_parts uni (p # ps) =
     Option.bind (mask_part uni p) (\<lambda>m. Option.bind (mask_parts uni ps) (\<lambda>ms. Some (m @ ms)))"

definition sanitize_secret_key :: "(string \<Rightarrow> bool) \<Rightarrow> string \<Rightarrow> string option" where
  "sanitize_secret_key uni input =
     (case split_text SECRET input of
        [] \<Rightarrow> Some []
      | p # ps \<Rightarrow> map_option (\<lambda>ms. p @ ms) (mask_parts uni ps))"

section \<open>Network errors\<close>

datatype network_error =
    NetShutdownError string
  | NetDisableNetworkOn string
  | NetSerializationError string string
  | NetRequestFailed string "nat option" string
  | NetRetriesExhausted string "nat option" nat string
  | NetRequestNotRetryable string "nat option" string

fun network_error_name :: "network_error \<Rightarrow> string" where
  "network_error_name (NetShutdownError _) = ''ShutdownError''"
| "network_error_name (NetDisableNetworkOn _) = ''DisableNetworkOn''"
| "network_error_name (NetSerializationError _ _) = ''SerializationError''"
| "network_error_name (NetRequestFailed _ _ _) = ''RequestFailed''"
| "network_error_name (NetRetriesExhausted _ _ _ _) = ''RetriesExhausted''"
| "network_error_name (NetRequestNotRetryable _ _ _) = ''RequestNotRetryable''"

definition status_display :: "nat option \<Rightarrow> string" where
  "status_display status = (case status of Some code \<Rightarrow> nat_to_string code | None \<Rightarrow> ''None'')"

text \<open>Two texts masked, then put together.\<close>

definition masked2 :: "(string \<Rightarrow> bool) \<Rightarrow> string \<Rightarrow> string \<Rightarrow> (string \<Rightarrow> string \<Rightarrow> string) \<Rightarrow> string option" where
  "masked2 uni a b f =
     Option.bind (sanitize_secret_key uni a) (\<lambda>a'. Option.bind (sanitize_secret_key uni b) (\<lambda>b'. Some (f a' b')))"

fun network_error_display :: "(string \<Rightarrow> bool) \<Rightarrow> network_error \<Rightarrow> string option" where
  "network_error_display uni (NetShutdownError url) =
     map_option (\<lambda>u. ''ShutdownError: '' @ u) (sanitize_secret_key uni url)"
| "network_error_display uni (NetDisableNetworkOn url) =
     map_option (\<lambda>u. ''DisableNetworkOn: '' @ u) (sanitize_secret_key uni url)"
| "network_error_display uni (NetSerializationError url s) =
     masked2 uni url s (\<lambda>u s. ''SerializationError: '' @ u @ '' '' @ s)"
| "network_error_display uni (NetRequestFailed url status message) =
     masked2 uni url message (\<lambda>u m. ''RequestFailed: '' @ u @ '' '' @ status_display status @ '' '' @ m)"
| "network_error_display uni (NetRetriesExhausted url status attempts message) =
     masked2 uni url message (\<lambda>u m. ''RetriesExhausted: '' @ u @ '' status('' @ status_display status @ '') attempts(''
       @ nat_to_string attempts @ '') '' @ m)"
| "network_error_display uni (NetRequestNotRetryable url status message) =
     masked2 uni url message (\<lambda>u m. ''RequestNotRetryable: '' @ u @ '' status('' @ status_display status @ '') '' @ m)"

section \<open>Errors\<close>

datatype statsig_err =
    CustomError string
  | LockFailureError string
  | ThreadFailure string
  | StackOverflowError
  | SharedInstanceFailure string
  | ObservabilityClientFailure string
  | UnstartedAdapter string
  | IdListsAdapterFailedToInsertIdList
  | SpecsAdapterSkipPoll string
  | DataStoreFailure string
  | BytesNotImplemented
  | NetworkError network_error
  | GrpcError string
  | SerializationError string
  | JsonParseError string string
  | ProtobufParseError string string
  | ChecksumFailure string
  | ZstdDictCompressionError string
  | GzipError string
  | ZstdError string
  | FileError string
  | LogEventError string
  | EvaluationError string
  | InitializationError string
  | ShutdownFailure string
  | InvalidOperation string
  | ScheduleFailure string
  | TaskShutdownFailure
  | GCIRError string

fun statsig_err_display :: "(string \<Rightarrow> bool) \<Rightarrow> statsig_err \<Rightarrow> string option" where
  "statsig_err_display uni (CustomError msg) = Some msg"
| "statsig_err_display uni (LockFailureError msg) = Some (''Failed to acquire lock: '' @ msg)"
| "statsig_err_display uni (ThreadFailure msg) = Some (''Thread failure: '' @ msg)"
| "statsig_err_display uni StackOverflowError = Some ''Statsig Evaluation Depth Exceeded''"
| "statsig_err_display uni (SharedInstanceFailure msg) = Some (''SharedInstance Error: '' @ msg)"
| "statsig_err_display uni (ObservabilityClientFailure msg) = Some (''ObservabilityClient Error: '' @ msg)"
| "statsig_err_display uni (UnstartedAdapter msg) = Some (''Adapter not started: '' @ msg)"
| "statsig_err_display uni IdListsAdapterFailedToInsertIdList = Some ''Failed to insert new Id List''"
| "statsig_err_display uni (SpecsAdapterSkipPoll name) = Some (name @ '' skips scheduling polling'')"
| "statsig_err_display uni (DataStoreFailure msg) = Some (''DataStore Error: '' @ msg)"
| "statsig_err_display uni BytesNotImplemented = Some ''Bytes method not implemented''"
| "statsig_err_display uni (NetworkError e) = map_option (\<lambda>t. ''NetworkError|'' @ t) (network_error_display uni e)"
| "statsig_err_display uni (GrpcError e) = Some (''gRPC failure: '' @ e)"
| "statsig_err_display uni (SerializationError msg) = Some (''Serialization error: '' @ msg)"
| "statsig_err_display uni (JsonParseError t msg) = Some (''Failed to parse JSON '' @ t @ '' - '' @ msg)"
| "statsig_err_display uni (ProtobufParseError t msg) = Some (''Failed to parse Protobuf '' @ t @ '' - '' @ msg)"
| "statsig_err_display uni (ChecksumFailure msg) = Some (''Checksum failure: '' @ msg)"
| "statsig_err_display uni (ZstdDictCompressionError msg) = Some (''Zstd dictionary compression error: '' @ msg)"
| "statsig_err_display uni (GzipError msg) = Some (''Gzip error: '' @ msg)"
| "statsig_err_display uni (ZstdError msg) = Some (''Zstd error: '' @ msg)"
| "statsig_err_display uni (FileError msg) = Some (''File write error: '' @ msg)"
| "statsig_err_display uni (LogEventError msg) = Some (''Log event error: '' @ msg)"
| "statsig_err_display uni (EvaluationError msg) = Some (''Evaluation Error: '' @ msg)"
| "statsig_err_display uni (InitializationError msg) = Some (''Initialization Error: '' @ msg)"
| "statsig_err_display uni (ShutdownFailure e) = Some (''Shutdown failure: '' @ e)"
| "statsig_err_display uni (InvalidOperation e) = Some (''Invalid operation: '' @ e)"
| "statsig_err_display uni (ScheduleFailure e) = Some (''Failed to schedule task: '' @ e)"
| "statsig_err_display uni TaskShutdownFailure = Some ''Failed to shutdown task scheduler''"
| "statsig_err_display uni (GCIRError e) = Some (''Error Getting Client Initialize Response: '' @ e)"

fun statsig_err_name :: "statsig_err \<Rightarrow> string" where
  "statsig_err_name (CustomError _) = ''CustomError''"
| "statsig_err_name (LockFailureError _) = ''LockFailure''"
| "statsig_err_name (ThreadFailure _) = ''ThreadFailure''"
| "statsig_err_name StackOverflowError = ''StackOverflowError''"
| "statsig_err_name (SharedInstanceFailure _) = ''SharedInstanceFailure''"
| "statsig_err_name (ObservabilityClientFailure _) = ''ObservabilityClientFailure''"
| "statsig_err_name (UnstartedAdapter _) = ''UnstartedAdapter''"
| "statsig_err_name IdListsAdapterFailedToInsertIdList = ''IdListsAdapterFailedToInsertIdList''"
| "statsig_err_name (SpecsAdapterSkipPoll _) = ''SpecsAdapterSkipPoll''"
| "statsig_err_name (DataStoreFailure _) = ''DataStoreFailure''"
| "statsig_err_name BytesNotImplemented = ''BytesNotImplemented''"
| "statsig_err_name (NetworkError e) = network_error_name e"
| "statsig_err_name (GrpcError _) = ''GrpcError''"
| "statsig_err_name (SerializationError _) = ''SerializationError''"
| "statsig_err_name (JsonParseError _ _) = ''JsonParseError''"
| "statsig_err_name (ProtobufParseError _ _) = ''ProtobufParseError''"
| "statsig_err_name (ChecksumFailure _) = ''ChecksumFailure''"
| "statsig_err_name (ZstdDictCompressionError _) = ''ZstdDictCompressionError''"
| "statsig_err_name (GzipError _) = ''GzipError''"
| "statsig_err_name (ZstdError _) = ''ZstdError''"
| "statsig_err_name (FileError _) = ''FileError''"
| "statsig_err_name (LogEventError _) = ''LogEventError''"
| "statsig_err_name (EvaluationError _) = ''EvaluationError''"
| "statsig_err_name (InitializationError _) = ''InitializationError''"
| "statsig_err_name (ShutdownFailure _) = ''ShutdownFailure''"
| "statsig_err_name (InvalidOperation _) = ''InvalidOperation''"
| "statsig_err_name (ScheduleFailure _) = ''ScheduleFailure''"
| "statsig_err_name TaskShutdownFailure = ''TaskShutdownFailure''"
| "statsig_err_name (GCIRError _) = ''GCIRError''"

section \<open>URLs\<close>

definition get_loggable_sdk_key :: "string \<Rightarrow> string" where
  "get_loggable_sdk_key sdk_key = concat (take 13 (utf8_encodings sdk_key))"

definition split_host_and_path :: "string \<Rightarrow> string \<times> string" where
  "split_host_and_path url =
     (case split_once ''://'' url of
        Some (scheme, after_scheme) \<Rightarrow>
          (let (host, path) = (case split_once ''/'' after_scheme of Some hp \<Rightarrow> hp | None \<Rightarrow> (after_scheme, []))
           in (scheme @ ''://'' @ host @ ''/'', path))
      | None \<Rightarrow> ([], url))"

definition before_text :: "string \<Rightarrow> string \<Rightarrow> string" where
  "before_text pat s = (case split_once pat s of Some (a, _) \<Rightarrow> a | None \<Rightarrow> s)"

definition strip_query_and_fragment :: "string \<Rightarrow> string" where
  "strip_query_and_fragment path = before_text ''#'' (before_text ''?'' path)"

definition url_path_has_suffix :: "string \<Rightarrow> string list \<Rightarrow> bool" where
  "url_path_has_suffix url expected_suffix =
     (let (_, raw_path) = split_host_and_path url;
          segments = filter (\<lambda>s. s \<noteq> []) (str_split (CHR ''/'') (strip_query_and_fragment raw_path))
      in length expected_suffix \<le> length segments \<and>
         drop (length segments - length expected_suffix) segments = expected_suffix)"

definition is_version_segment :: "string \<Rightarrow> bool" where
  "is_version_segment segment \<longleftrightarrow>
     1 < length segment \<and> str_starts_with segment ''v'' \<and> list_all is_ascii_digit (tl segment)"

definition get_api_from_url :: "string \<Rightarrow> string" where
  "get_api_from_url url =
     (let (base, path) =
        (case split_once ''://'' url of
           Some (scheme, after_scheme) \<Rightarrow>
             (case split_once ''/'' after_scheme of
                Some (host, rest) \<Rightarrow> (scheme @ ''://'' @ host, ''/'' @ rest)
              | None \<Rightarrow> (url, []))
         | None \<Rightarrow> (url, []))
      in if str_starts_with path ''/v''
         then
           (let rest = drop 2 path; digits = takeWhile is_ascii_digit rest; after = drop (length digits) rest
            in if digits \<noteq> [] \<and> (after = [] \<or> str_starts_with after ''/'') then base @ ''/v'' @ digits else base)
         else base)"

section \<open>Lemmas on masking\<close>

lemma starts_with_iff: "str_starts_with s p \<longleftrightarrow> (\<exists>r. s = p @ r)"
  by (auto simp: str_starts_with_def) (metis append_take_drop_id)

lemma starts_with_append: "str_starts_with s p \<Longrightarrow> str_starts_with (s @ r) p"
  by (auto simp: starts_with_iff)

lemma less_7_cases: "0 < n \<Longrightarrow> n < 7 \<Longrightarrow> n = 1 \<or> n = 2 \<or> n = 3 \<or> n = 4 \<or> n = 5 \<or> n = (6 :: nat)"
  by linarith

text \<open>Two occurrences of \<open>secret-\<close> do not overlap: the letter \<open>s\<close> is only its first.\<close>

lemma secret_no_overlap:
  assumes "str_starts_with (a @ SECRET @ b) SECRET" "a \<noteq> []"
  shows "str_starts_with a SECRET"
proof (cases "7 \<le> length a")
  case True
  then show ?thesis using assms(1) by (simp add: str_starts_with_def)
next
  case False
  from assms(1) obtain r where r: "a @ SECRET @ b = SECRET @ r" by (auto simp: starts_with_iff)
  have "(SECRET @ r) ! length a = (a @ SECRET @ b) ! length a" by (simp only: r)
  then have "(SECRET @ r) ! length a = CHR ''s''" by (simp add: nth_append)
  moreover have "0 < length a" "length a < 7" using False assms(2) by simp_all
  ultimately show ?thesis using less_7_cases [of "length a"] by auto
qed

lemma split_once_secret:
  "split_once SECRET (a @ SECRET @ b) =
     (case split_once SECRET a of Some (u, v) \<Rightarrow> Some (u, v @ SECRET @ b) | None \<Rightarrow> Some (a, b))"
proof (induction a)
  case Nil
  then show ?case by (simp add: str_starts_with_def)
next
  case (Cons c a)
  show ?case
  proof (cases "str_starts_with (c # a) SECRET")
    case True
    then obtain r where r: "c # a = SECRET @ r" by (auto simp: starts_with_iff)
    have "str_starts_with (c # a @ SECRET @ b) SECRET" using starts_with_append [OF True, of "SECRET @ b"] by simp
    then show ?thesis using True r by simp
  next
    case False
    then have "\<not> str_starts_with (c # a @ SECRET @ b) SECRET" using secret_no_overlap [of "c # a" b] by auto
    then have "split_once SECRET ((c # a) @ SECRET @ b) = map_option (\<lambda>(x, y). (c # x, y)) (split_once SECRET (a @ SECRET @ b))"
      by simp
    then show ?thesis using False unfolding Cons.IH by (auto split: option.split)
  qed
qed

lemma split_text_secret: "split_text SECRET (a @ SECRET @ b) = split_text SECRET a @ split_text SECRET b"
proof (induction "length a" arbitrary: a rule: less_induct)
  case less
  show ?case
  proof (cases "split_once SECRET a")
    case None
    then show ?thesis
      by (subst split_text.simps, subst (2) split_text.simps) (simp add: split_once_secret [simplified])
  next
    case (Some uv)
    obtain u v where uv: "uv = (u, v)" by (cases uv)
    have "length v < length a" using split_once_append [of SECRET a u v] Some uv by simp
    then have "split_text SECRET (v @ SECRET @ b) = split_text SECRET v @ split_text SECRET b" by (rule less)
    then show ?thesis using Some uv
      by (subst split_text.simps, subst (2) split_text.simps) (simp add: split_once_secret [simplified])
  qed
qed

text \<open>A run of letters and digits that no hyphen follows stays in one part.\<close>

lemma secret_not_in_key:
  assumes "list_all is_ascii_alphanumeric w" "w \<noteq> []" "rest = [] \<or> \<not> is_ascii_alphanumeric (hd rest) \<and> hd rest \<noteq> CHR ''-''"
  shows "\<not> str_starts_with (w @ rest) SECRET"
proof
  assume "str_starts_with (w @ rest) SECRET"
  then obtain r where r: "w @ rest = SECRET @ r" by (auto simp: starts_with_iff)
  have len: "7 \<le> length w + length rest" using arg_cong [OF r, of length] by simp
  show False
  proof (cases "7 \<le> length w")
    case True
    then have "w ! 6 = CHR ''-''" using arg_cong [OF r, of "\<lambda>l. l ! 6"] by (simp add: nth_append)
    moreover have "is_ascii_alphanumeric (w ! 6)" using assms(1) True by (simp add: list_all_length)
    ultimately show False by (simp add: is_ascii_alphanumeric_def)
  next
    case False
    then have "rest \<noteq> []" using len by auto
    then have "hd rest = (w @ rest) ! length w" by (simp add: hd_conv_nth nth_append)
    also have "\<dots> = (SECRET @ r) ! length w" by (simp only: r)
    finally have hd: "hd rest = (SECRET @ r) ! length w" .
    have "0 < length w" "length w < 7" using False assms(2) by simp_all
    then have "is_ascii_alphanumeric (hd rest) \<or> hd rest = CHR ''-''"
      unfolding hd using less_7_cases [of "length w"] by (auto simp: is_ascii_alphanumeric_def)
    then show False using assms(3) \<open>rest \<noteq> []\<close> by auto
  qed
qed

lemma split_once_key:
  assumes "list_all is_ascii_alphanumeric w" "rest = [] \<or> \<not> is_ascii_alphanumeric (hd rest) \<and> hd rest \<noteq> CHR ''-''"
  shows "split_once SECRET (w @ rest) = map_option (\<lambda>(x, y). (w @ x, y)) (split_once SECRET rest)"
  using assms
proof (induction w)
  case Nil
  then show ?case by (simp add: case_prod_beta' option.map_ident)
next
  case (Cons c w)
  then have "\<not> str_starts_with (c # w @ rest) SECRET" using secret_not_in_key [of "c # w" rest] by simp
  then show ?case using Cons by (cases "split_once SECRET rest") auto
qed

lemma split_text_key:
  assumes "list_all is_ascii_alphanumeric w" "rest = [] \<or> \<not> is_ascii_alphanumeric (hd rest) \<and> hd rest \<noteq> CHR ''-''"
    and "split_text SECRET rest = p # ps"
  shows "split_text SECRET (w @ rest) = (w @ p) # ps"
  using assms(3)
  by (subst split_text.simps, subst (asm) split_text.simps)
    (simp add: split_once_key [OF assms(1,2), simplified] split: option.splits prod.splits)

lemma split_text_Cons: "\<exists>p ps. split_text pat s = p # ps"
  by (subst split_text.simps) (auto split: option.split)

lemma split_text_hd:
  assumes "split_text pat s = p # ps"
  shows "\<exists>r. s = p @ r"
  using assms by (subst (asm) split_text.simps) (auto split: option.splits if_splits dest!: split_once_append)

definition is_ascii :: "string \<Rightarrow> bool" where
  "is_ascii s \<longleftrightarrow> list_all (\<lambda>c. (of_char c :: nat) < 0x80) s"

lemma is_ascii_simps [simp]:
  "is_ascii []" "is_ascii (c # s) \<longleftrightarrow> (of_char c :: nat) < 0x80 \<and> is_ascii s" "is_ascii (s @ t) \<longleftrightarrow> is_ascii s \<and> is_ascii t"
  by (simp_all add: is_ascii_def)

lemma utf8_encodings_ascii: "is_ascii s \<Longrightarrow> utf8_encodings s = map (\<lambda>c. [c]) s"
  by (induction s) (simp_all add: utf8_encodings.simps(2) utf8_len_def)

lemma ascii_boundary: "is_ascii s \<Longrightarrow> i \<le> length s \<Longrightarrow> is_char_boundary s i"
  by (cases "i = length s") (auto simp: is_char_boundary_def is_ascii_def list_all_length not_le)

lemma mask_part_ascii:
  assumes "is_ascii part"
  shows "mask_part uni part = Some (SECRET @ take 5 (takeWhile is_ascii_alphanumeric part) @ ''*****''
    @ dropWhile is_ascii_alphanumeric part)"
proof -
  have "takeWhile (is_alphanumeric uni) (utf8_encodings part) = map (\<lambda>c. [c]) (takeWhile is_ascii_alphanumeric part)"
    using assms by (simp add: utf8_encodings_ascii takeWhile_map is_alphanumeric_def comp_def)
  then have n: "length (takeWhile (is_alphanumeric uni) (utf8_encodings part)) = length (takeWhile is_ascii_alphanumeric part)"
    by simp
  have key: "take (length (takeWhile is_ascii_alphanumeric part)) part = takeWhile is_ascii_alphanumeric part"
      "drop (length (takeWhile is_ascii_alphanumeric part)) part = dropWhile is_ascii_alphanumeric part"
    by (simp_all flip: takeWhile_eq_take dropWhile_eq_drop)
  have "is_ascii (takeWhile is_ascii_alphanumeric part)" using assms by (auto simp: is_ascii_def list_all_iff dest: set_takeWhileD)
  then show ?thesis using assms ascii_boundary
    by (simp add: mask_part_def n key length_takeWhile_le Let_def)
qed

lemma mask_parts_ascii:
  "list_all is_ascii ps \<Longrightarrow> mask_parts uni ps = Some (concat (map (\<lambda>p. SECRET @ take 5 (takeWhile is_ascii_alphanumeric p)
     @ ''*****'' @ dropWhile is_ascii_alphanumeric p) ps))"
  by (induction ps) (simp_all add: mask_part_ascii)

lemma split_text_ascii: "is_ascii s \<Longrightarrow> list_all is_ascii (split_text pat s)"
proof (induction pat s rule: split_text.induct)
  case (1 pat s)
  show ?case
  proof (cases "split_once pat s = None \<or> pat = []")
    case True
    then show ?thesis using 1(2) by (subst split_text.simps) (auto split: option.split)
  next
    case False
    then obtain a b where ab: "split_once pat s = Some (a, b)" by auto
    with 1(2) split_once_append have "is_ascii a" "is_ascii b" by (fastforce)+
    then show ?thesis using 1(1) [OF ab refl] ab False by (subst split_text.simps) simp
  qed
qed

text \<open>What masking makes of the parts of a text.\<close>

lemma sanitize_ascii:
  assumes "is_ascii s" "split_text SECRET s = p # ps"
  shows "sanitize_secret_key uni s = Some (p @ concat (map (\<lambda>q. SECRET @ take 5 (takeWhile is_ascii_alphanumeric q)
    @ ''*****'' @ dropWhile is_ascii_alphanumeric q) ps))"
  using assms split_text_ascii [OF assms(1), of SECRET] by (simp add: sanitize_secret_key_def mask_parts_ascii)

section \<open>Properties\<close>

text \<open>
  A secret key is not logged. Masking an ASCII text always succeeds, and its result does not depend
  on what follows the first five characters of a key: two texts that differ only there become the same.
  The key is a run of letters and digits after \<open>secret-\<close> that ends at the end of the text or at another
  character, but for the hyphen, which could complete a further \<open>secret-\<close>.
\<close>

theorem secret_key_not_logged:
  assumes "is_ascii before" "is_ascii after" "length shown = 5"
    and "list_all is_ascii_alphanumeric (shown @ hidden)" "list_all is_ascii_alphanumeric (shown @ hidden')"
    and "after = [] \<or> \<not> is_ascii_alphanumeric (hd after) \<and> hd after \<noteq> CHR ''-''"
  shows "\<exists>t. sanitize_secret_key uni (before @ SECRET @ shown @ hidden @ after) = Some t \<and>
    sanitize_secret_key uni (before @ SECRET @ shown @ hidden' @ after) = Some t"
proof -
  obtain q qs where q: "split_text SECRET before = q # qs" using split_text_Cons by blast
  obtain p ps where p: "split_text SECRET after = p # ps" using split_text_Cons by blast
  let ?mask = "\<lambda>q. SECRET @ take 5 (takeWhile is_ascii_alphanumeric q) @ ''*****'' @ dropWhile is_ascii_alphanumeric q"
  have "p = [] \<or> \<not> is_ascii_alphanumeric (hd p)"
    using split_text_hd [OF p] assms(6) by (cases p) auto
  then have edge: "takeWhile is_ascii_alphanumeric p = []" "dropWhile is_ascii_alphanumeric p = p" by (cases p; simp)+
  have alnum_ascii: "is_ascii w" if "list_all is_ascii_alphanumeric w" for w
    using that by (auto simp: is_ascii_def list_all_iff is_ascii_alphanumeric_def Let_def)
  have mask: "sanitize_secret_key uni (before @ SECRET @ shown @ h @ after)
      = Some (q @ concat (map ?mask qs) @ SECRET @ shown @ ''*****'' @ p @ concat (map ?mask ps))"
    if h: "list_all is_ascii_alphanumeric (shown @ h)" for h
  proof -
    have "split_text SECRET (before @ SECRET @ (shown @ h) @ after) = (q # qs) @ ((shown @ h) @ p) # ps"
      by (simp only: split_text_secret q split_text_key [OF h assms(6) p])
    moreover have "is_ascii (before @ SECRET @ (shown @ h) @ after)" using assms(1,2) alnum_ascii [OF h] by simp
    moreover have "takeWhile is_ascii_alphanumeric ((shown @ h) @ p) = shown @ h" "dropWhile is_ascii_alphanumeric ((shown @ h) @ p) = p"
      using h edge by (auto simp: takeWhile_append dropWhile_append list_all_iff)
    ultimately show ?thesis using sanitize_ascii [of "before @ SECRET @ (shown @ h) @ after" q "qs @ ((shown @ h) @ p) # ps" uni]
      assms(3) by simp
  qed
  from mask [OF assms(4)] mask [OF assms(5)] show ?thesis by blast
qed

theorem secret_key_not_logged_witness:
  "\<exists>t. sanitize_secret_key (\<lambda>_. True) ''GET /secret-abcdefgh.json'' = Some t \<and>
     sanitize_secret_key (\<lambda>_. True) ''GET /secret-abcdexyz0123.json'' = Some t"
  using secret_key_not_logged [of "''GET /''" "''.json''" "''abcde''" "''fgh''" "''xyz0123''" "\<lambda>_. True"]
  by (simp add: is_ascii_alphanumeric_def)

text \<open>
  Outside ASCII masking can panic: the number of alphanumeric characters is used as a number of bytes, and
  after \<open>secret-\<close> a single letter of two bytes is cut in the middle.
\<close>

theorem sanitize_panics_on_umlaut:
  "sanitize_secret_key (\<lambda>_. True) (SECRET @ [CHR 0xC3, CHR 0xA9]) = None"
proof -
  have chars: "utf8_encodings [CHR 0xC3, CHR 0xA9] = [[CHR 0xC3, CHR 0xA9]]"
    by (simp add: utf8_encodings.simps(2) utf8_len_def)
  have "split_once SECRET [CHR 0xC3, CHR 0xA9] = None" by (simp add: str_starts_with_def)
  then have tail: "split_text SECRET [CHR 0xC3, CHR 0xA9] = [[CHR 0xC3, CHR 0xA9]]" by (subst split_text.simps) simp
  have empty: "split_text SECRET [] = [[]]" by (subst split_text.simps) simp
  have "split_text SECRET ([] @ SECRET @ [CHR 0xC3, CHR 0xA9]) = [[], [CHR 0xC3, CHR 0xA9]]"
    using split_text_secret [of "[]" "[CHR 0xC3, CHR 0xA9]"] tail empty by simp
  moreover have "mask_part (\<lambda>_. True) [CHR 0xC3, CHR 0xA9] = None"
    by (simp add: mask_part_def chars is_alphanumeric_def is_char_boundary_def)
  ultimately show ?thesis by (simp add: sanitize_secret_key_def)
qed

end
