(* ===== verification/Eval_Context.thy ===== *)
theory Eval_Context
  imports Specs Country_Lookup Errors
begin

text \<open>
  The state of one evaluation, \<open>src/statsig-rust/src/evaluation/evaluator_context.rs\<close>, the result it
  fills in (\<open>EvaluatorResult\<close>) and the shape of the computations on it.

  \<open>EvaluatorContext\<close> is split into the part an evaluation only reads (\<open>eval_env\<close>: user, specs, id
  lists, adapter, flags, clock and random source) and the part it changes (\<open>eval_state\<close>: result,
  nesting depth, memo of nested gates, hash cache, and how often clock and random source were read).
  A computation maps a state to an outcome: a value, an error of the crate, a panic, or no answer
  within the fuel. The rules of \<open>ev_spec\<close> carry the proofs about these computations.
\<close>

section \<open>The result\<close>

record secondary_exposure =
  se_gate :: string
  se_gate_value :: string
  se_rule_id :: string

record evaluator_result =
  er_name :: "string option"
  er_bool_value :: bool
  er_unsupported :: bool
  er_is_experiment_group :: bool
  er_is_experiment_active :: bool
  er_is_in_layer :: bool
  er_id_type :: "string option"
  er_json_value :: "dynamic_returnable option"
  er_rule_id :: "string option"
  er_rule_id_suffix :: "string option"
  er_group_name :: "string option"
  er_explicit_parameters :: "explicit_parameters option"
  er_config_delegate :: "string option"
  er_secondary_exposures :: "secondary_exposure list"
  er_undelegated_secondary_exposures :: "secondary_exposure list option"
  er_override_reason :: "string option"
  er_version :: "u32 option"
  er_sampling_rate :: "u64 option"
  er_forward_all_exposures :: "bool option"
  er_override_config_name :: "string option"
  er_has_seen_analytical_gates :: "bool option"
  er_parameter_rule_ids :: "(string, string) HashMap option"

definition er_default :: evaluator_result where
  "er_default = \<lparr>er_name = None, er_bool_value = False, er_unsupported = False,
     er_is_experiment_group = False, er_is_experiment_active = False, er_is_in_layer = False,
     er_id_type = None, er_json_value = None, er_rule_id = None, er_rule_id_suffix = None,
     er_group_name = None, er_explicit_parameters = None, er_config_delegate = None,
     er_secondary_exposures = [], er_undelegated_secondary_exposures = None,
     er_override_reason = None, er_version = None, er_sampling_rate = None,
     er_forward_all_exposures = None, er_override_config_name = None,
     er_has_seen_analytical_gates = None, er_parameter_rule_ids = None\<rparr>"

datatype spec_type = Gate | DynamicConfig | Experiment | Layer | ParameterStore

datatype recognition = Unrecognized | Recognized

section \<open>Environment and state\<close>

text \<open>The read side of the trait \<open>OverrideAdapter\<close>: whether an override applies, and the new result.\<close>

record override_adapter =
  oa_gate :: "user_data \<Rightarrow> string \<Rightarrow> evaluator_result \<Rightarrow> bool \<times> evaluator_result"
  oa_dynamic_config :: "user_data \<Rightarrow> string \<Rightarrow> evaluator_result \<Rightarrow> bool \<times> evaluator_result"
  oa_experiment :: "user_data \<Rightarrow> string \<Rightarrow> spec option \<Rightarrow> evaluator_result \<Rightarrow> bool \<times> evaluator_result"
  oa_layer :: "user_data \<Rightarrow> string \<Rightarrow> evaluator_result \<Rightarrow> bool \<times> evaluator_result"
  oa_parameter_store :: "user_data \<Rightarrow> string \<Rightarrow> evaluator_result \<Rightarrow> bool \<times> evaluator_result"

datatype id_list_resolution =
    MapLookup "(string, id_list) HashMap"
  | Callback "string \<Rightarrow> string \<Rightarrow> bool"

record eval_env =
  en_ext :: ext
  en_user :: statsig_user_internal
  en_specs_data :: specs_response
  en_id_list_resolver :: id_list_resolution
  en_app_id :: "dynamic_value option"
  en_override_adapter :: "override_adapter option"
  en_third_party_parser :: bool
  en_statsig :: "(user_data \<Rightarrow> string \<Rightarrow> bool \<Rightarrow> string option) option"
  en_disable_exposure_logging :: bool
  en_only_evaluate_targeting :: bool
  en_only_evaluate_overrides :: bool
  en_country_lock :: bool
  en_country_table :: "country_lookup_data option"
  en_user_agent :: "statsig_user_internal \<Rightarrow> dynamic_string option \<Rightarrow> bool \<Rightarrow> dynamic_value option \<times> string option"
  en_now :: "nat \<Rightarrow> i64"
  en_random :: "nat \<Rightarrow> f64"

type_synonym nested_gate_memo = "(string, bool \<times> string option \<times> secondary_exposure list) HashMap"

record eval_state =
  st_result :: evaluator_result
  st_nested_count :: nat
  st_nested_gate_memo :: nested_gate_memo
  st_hash :: memo_sha256
  st_ticks :: nat

definition st_new :: "memo_sha256 \<Rightarrow> eval_state" where
  "st_new h = \<lparr>st_result = er_default, st_nested_count = 0, st_nested_gate_memo = [], st_hash = h, st_ticks = 0\<rparr>"

section \<open>Computations\<close>

datatype 'a outcome = Ok 'a eval_state | Err statsig_err eval_state | Panic | OutOfFuel

type_synonym 'a ev = "eval_state \<Rightarrow> 'a outcome"

definition ev_return :: "'a \<Rightarrow> 'a ev" where
  "ev_return a s = Ok a s"

definition ev_throw :: "statsig_err \<Rightarrow> 'a ev" where
  "ev_throw e s = Err e s"

definition ev_panic :: "'a ev" where
  "ev_panic s = Panic"

text \<open>The operator \<open>?\<close>: an error leaves the function.\<close>

definition ev_bind :: "'a ev \<Rightarrow> ('a \<Rightarrow> 'b ev) \<Rightarrow> 'b ev" where
  "ev_bind m f s =
     (case m s of Ok a s' \<Rightarrow> f a s' | Err e s' \<Rightarrow> Err e s' | Panic \<Rightarrow> Panic | OutOfFuel \<Rightarrow> OutOfFuel)"

text \<open>A \<open>match\<close> on a \<open>Result\<close>; a panic unwinds through it.\<close>

definition ev_match :: "'a ev \<Rightarrow> ('a \<Rightarrow> 'b ev) \<Rightarrow> 'b ev \<Rightarrow> 'b ev" where
  "ev_match m ok err s =
     (case m s of Ok a s' \<Rightarrow> ok a s' | Err e s' \<Rightarrow> err s' | Panic \<Rightarrow> Panic | OutOfFuel \<Rightarrow> OutOfFuel)"

definition ev_get :: "(eval_state \<Rightarrow> 'a) \<Rightarrow> 'a ev" where
  "ev_get f s = Ok (f s) s"

definition ev_result :: "(evaluator_result \<Rightarrow> evaluator_result) \<Rightarrow> unit ev" where
  "ev_result f s = Ok () (s\<lparr>st_result := f (st_result s)\<rparr>)"

definition ev_bool :: "bool ev" where
  "ev_bool s = Ok (er_bool_value (st_result s)) s"

definition ev_unsupported :: "bool ev" where
  "ev_unsupported s = Ok (er_unsupported (st_result s)) s"

definition set_bool :: "bool \<Rightarrow> unit ev" where
  "set_bool b = ev_result (\<lambda>r. r\<lparr>er_bool_value := b\<rparr>)"

definition set_unsupported :: "unit ev" where
  "set_unsupported = ev_result (\<lambda>r. r\<lparr>er_unsupported := True\<rparr>)"

text \<open>A value that stands for a panic when it is \<open>None\<close>.\<close>

definition ev_unwrap :: "'a option \<Rightarrow> 'a ev" where
  "ev_unwrap v = (case v of Some a \<Rightarrow> ev_return a | None \<Rightarrow> ev_panic)"

text \<open>Reading the clock or the random source moves to its next value.\<close>

definition ev_clock :: "eval_env \<Rightarrow> i64 ev" where
  "ev_clock en s = Ok (en_now en (st_ticks s)) (s\<lparr>st_ticks := st_ticks s + 1\<rparr>)"

definition ev_random :: "eval_env \<Rightarrow> f64 ev" where
  "ev_random en s = Ok (en_random en (st_ticks s)) (s\<lparr>st_ticks := st_ticks s + 1\<rparr>)"

text \<open>The memoised evaluation hash.\<close>

definition ev_hash :: "eval_env \<Rightarrow> evaluation_hash_key \<Rightarrow> u64 option ev" where
  "ev_hash en k s =
     (let (h, m) = compute_hash_for_key (en_ext en) k (st_hash s) in Ok h (s\<lparr>st_hash := m\<rparr>))"

lemmas ev_defs = ev_return_def ev_throw_def ev_panic_def ev_bind_def ev_match_def ev_get_def ev_result_def
  ev_bool_def ev_unsupported_def set_bool_def set_unsupported_def

declare ev_defs [ev_simps]

section \<open>Methods of the context\<close>

abbreviation MAX_RECURSIVE_DEPTH :: nat where "MAX_RECURSIVE_DEPTH \<equiv> 300"

definition reset_result :: "unit ev" where
  "reset_result s = Ok () (s\<lparr>st_nested_count := 0, st_result := er_default\<rparr>)"

definition finalize_result :: "spec \<Rightarrow> rule option \<Rightarrow> evaluator_result \<Rightarrow> evaluator_result" where
  "finalize_result sp ru r =
     r\<lparr>er_sampling_rate := (case ru of None \<Rightarrow> None | Some q \<Rightarrow> ru_sampling_rate q),
       er_forward_all_exposures := sp_forward_all_exposures sp\<rparr>"

definition finalize_evaluation :: "spec \<Rightarrow> rule option \<Rightarrow> unit ev" where
  "finalize_evaluation sp ru s =
     (let s1 = s\<lparr>st_result := finalize_result sp ru (st_result s)\<rparr>
      in if 0 < st_nested_count s1 then Ok () (s1\<lparr>st_nested_count := st_nested_count s1 - 1\<rparr>)
         else if er_secondary_exposures (st_result s1) = [] then Ok () s1
         else if er_undelegated_secondary_exposures (st_result s1) \<noteq> None then Ok () s1
         else Ok () (s1\<lparr>st_result := (st_result s1)\<lparr>er_undelegated_secondary_exposures :=
                  Some (er_secondary_exposures (st_result s1))\<rparr>\<rparr>))"

definition prep_for_nested_evaluation :: "unit ev" where
  "prep_for_nested_evaluation s =
     (let s1 = s\<lparr>st_nested_count := st_nested_count s + 1,
                 st_result := (st_result s)\<lparr>er_bool_value := False, er_json_value := None\<rparr>\<rparr>
      in if MAX_RECURSIVE_DEPTH < st_nested_count s1 then Err StackOverflowError s1 else Ok () s1)"

definition get_unit_id :: "eval_env \<Rightarrow> dynamic_string \<Rightarrow> string" where
  "get_unit_id en id_type =
     (case user_unit_id (su_data (en_user en)) id_type of
        None \<Rightarrow> []
      | Some v \<Rightarrow> (case dv_string v of Some s \<Rightarrow> ds_value s | None \<Rightarrow> []))"

section \<open>Reasoning about computations\<close>

text \<open>
  \<open>ev_spec fuel P m Q E\<close>: started in a state with \<open>P\<close>, the computation ends in \<open>Q\<close> or, with an error,
  in \<open>E\<close>; with \<open>fuel = False\<close> it also does not run out of fuel.
\<close>

definition ev_spec ::
    "bool \<Rightarrow> (eval_state \<Rightarrow> bool) \<Rightarrow> 'a ev \<Rightarrow> ('a \<Rightarrow> eval_state \<Rightarrow> bool) \<Rightarrow> (eval_state \<Rightarrow> bool) \<Rightarrow> bool" where
  "ev_spec fuel P m Q E \<longleftrightarrow>
     (\<forall>s. P s \<longrightarrow> (case m s of Ok a s' \<Rightarrow> Q a s' | Err e s' \<Rightarrow> E s' | Panic \<Rightarrow> True | OutOfFuel \<Rightarrow> fuel))"

lemma ev_spec_bind:
  assumes "ev_spec f P m R E" "\<And>a. ev_spec f (R a) (g a) Q E"
  shows "ev_spec f P (ev_bind m g) Q E"
  using assms by (fastforce simp: ev_spec_def ev_bind_def split: outcome.splits)

lemma ev_spec_match:
  assumes "ev_spec f P m R E'" "\<And>a. ev_spec f (R a) (g a) Q E" "ev_spec f E' h Q E"
  shows "ev_spec f P (ev_match m g h) Q E"
  using assms by (fastforce simp: ev_spec_def ev_match_def split: outcome.splits)

lemma ev_spec_weaken:
  assumes "ev_spec f P' m Q' E'" "\<And>s. P s \<Longrightarrow> P' s" "\<And>a s. Q' a s \<Longrightarrow> Q a s" "\<And>s. E' s \<Longrightarrow> E s"
  shows "ev_spec f P m Q E"
  using assms by (fastforce simp: ev_spec_def split: outcome.splits)

lemma ev_spec_return: "(\<And>s. P s \<Longrightarrow> Q a s) \<Longrightarrow> ev_spec f P (ev_return a) Q E"
  by (simp add: ev_spec_def ev_return_def)

lemma ev_spec_throw: "(\<And>s. P s \<Longrightarrow> E s) \<Longrightarrow> ev_spec f P (ev_throw e) Q E"
  by (simp add: ev_spec_def ev_throw_def)

lemma ev_spec_panic: "ev_spec f P ev_panic Q E"
  by (simp add: ev_spec_def ev_panic_def)

lemma ev_spec_unwrap: "(\<And>s a. P s \<Longrightarrow> Q a s) \<Longrightarrow> ev_spec f P (ev_unwrap v) Q E"
  by (simp add: ev_spec_def ev_unwrap_def ev_return_def ev_panic_def split: option.splits)

lemma ev_spec_if:
  assumes "b \<Longrightarrow> ev_spec f P m Q E" "\<not> b \<Longrightarrow> ev_spec f P m' Q E"
  shows "ev_spec f P (if b then m else m') Q E"
  using assms by simp

lemma ev_spec_option:
  assumes "v = None \<Longrightarrow> ev_spec f P m Q E" "\<And>a. v = Some a \<Longrightarrow> ev_spec f P (m' a) Q E"
  shows "ev_spec f P (case v of None \<Rightarrow> m | Some a \<Rightarrow> m' a) Q E"
  using assms by (cases v) simp_all

lemma ev_spec_get: "(\<And>s. P s \<Longrightarrow> Q (g s) s) \<Longrightarrow> ev_spec f P (ev_get g) Q E"
  by (simp add: ev_spec_def ev_get_def)

lemma ev_spec_result:
  "(\<And>s. P s \<Longrightarrow> Q () (s\<lparr>st_result := g (st_result s)\<rparr>)) \<Longrightarrow> ev_spec f P (ev_result g) Q E"
  by (simp add: ev_spec_def ev_result_def)

text \<open>The steps that leave an invariant alone which does not look at the result or the tick count.\<close>

definition result_free :: "(eval_state \<Rightarrow> bool) \<Rightarrow> bool" where
  "result_free P \<longleftrightarrow> (\<forall>s r t. P (s\<lparr>st_result := r\<rparr>) = P s \<and> P (s\<lparr>st_ticks := t\<rparr>) = P s)"

lemma ev_spec_keep:
  assumes "result_free P"
  shows "ev_spec f P (ev_return a) (\<lambda>_. P) E" "ev_spec f P ev_panic (\<lambda>_. P) E"
    "ev_spec f P (ev_unwrap v) (\<lambda>_. P) E" "ev_spec f P (ev_get h) (\<lambda>_. P) E"
    "ev_spec f P (ev_result g) (\<lambda>_. P) E" "ev_spec f P ev_bool (\<lambda>_. P) E"
    "ev_spec f P ev_unsupported (\<lambda>_. P) E" "ev_spec f P (set_bool b) (\<lambda>_. P) E"
    "ev_spec f P set_unsupported (\<lambda>_. P) E" "ev_spec f P (ev_clock en) (\<lambda>_. P) E"
    "ev_spec f P (ev_random en) (\<lambda>_. P) E"
  using assms
  by (auto simp: ev_spec_def ev_defs ev_unwrap_def ev_clock_def ev_random_def result_free_def
      split: option.splits)

end
