(* ===== verification/Cmab.thy ===== *)
theory Cmab
  imports Eval_Context
begin

text \<open>
  Contextual bandits, \<open>src/statsig-rust/src/evaluation/cmab_evaluator.rs\<close>. The nested evaluation of the
  targeting gate is an argument, so that this theory stands before the evaluator; the shuffle of
  the random number crate is an argument of the ranked list.
\<close>

type_synonym eval_rec = "string \<Rightarrow> spec_type \<Rightarrow> recognition ev"

section \<open>Operations\<close>

abbreviation EXPLORE_RULE_ID_SUFFIX :: string where "EXPLORE_RULE_ID_SUFFIX \<equiv> ''explore''"
abbreviation FAILS_TARGETING :: string where "FAILS_TARGETING \<equiv> ''inlineTargetingRules''"
abbreviation NOT_STARTED_RULE :: string where "NOT_STARTED_RULE \<equiv> ''prestart''"

record cmab_ranked_group =
  rg_score :: f64
  rg_variant_name :: string
  rg_rule_id :: string
  rg_value :: "(string, json) HashMap option"
  rg_cmab_name :: string

definition is_cmab_started :: "cmab_config \<Rightarrow> bool" where
  "is_cmab_started cmab \<longleftrightarrow> cb_enabled cmab \<and> cb_groups cmab \<noteq> []"

definition push_exposure :: "secondary_exposure \<Rightarrow> evaluator_result \<Rightarrow> evaluator_result" where
  "push_exposure e r = r\<lparr>er_secondary_exposures := er_secondary_exposures r @ [e]\<rparr>"

definition opt_string_or_empty :: "string option \<Rightarrow> string" where
  "opt_string_or_empty s = (case s of Some v \<Rightarrow> v | None \<Rightarrow> [])"

definition get_passes_targeting :: "eval_rec \<Rightarrow> cmab_config \<Rightarrow> bool ev" where
  "get_passes_targeting rec cmab =
     (case cb_targeting_gate_name cmab of
        None \<Rightarrow> ev_return True
      | Some name \<Rightarrow>
          ev_match prep_for_nested_evaluation
            (\<lambda>_. ev_bind (ev_match (rec name Gate) (\<lambda>_. ev_bool) (ev_return False)) (\<lambda>result.
              ev_bind
                (if \<not> str_starts_with name ''segment:''
                 then ev_result (\<lambda>r. push_exposure
                   \<lparr>se_gate = name, se_gate_value = bool_to_string result,
                    se_rule_id = opt_string_or_empty (er_rule_id r)\<rparr> r)
                 else ev_return ())
                (\<lambda>_. ev_return result)))
            (ev_bind (ev_result (\<lambda>r. r\<lparr>er_bool_value := False, er_rule_id := Some FAILS_TARGETING\<rparr>))
              (\<lambda>_. ev_return False)))"

definition apply_group :: "string option \<Rightarrow> cmab_group \<Rightarrow> evaluator_result \<Rightarrow> evaluator_result" where
  "apply_group suffix g r =
     r\<lparr>er_bool_value := True, er_rule_id := Some (cg_id g),
       er_rule_id_suffix := (case suffix of Some s \<Rightarrow> Some s | None \<Rightarrow> er_rule_id_suffix r),
       er_group_name := Some (cg_name g), er_json_value := Some (cg_parameter_values g)\<rparr>"

definition bucket_10000 :: "u64 \<Rightarrow> f64" where
  "bucket_10000 hash = nat_to_f64 (unat hash mod 10000)"

definition random_group_index :: "nat \<Rightarrow> u64 option \<Rightarrow> nat" where
  "random_group_index n user_hash =
     (let group_size = f64_div (Fin 10000) (nat_to_f64 n)
      in case user_hash of
           Some hash \<Rightarrow> f64_to_usize (f64_floor (f64_div (bucket_10000 hash) group_size))
         | None \<Rightarrow> 0)"

definition nth_group :: "cmab_config \<Rightarrow> nat \<Rightarrow> cmab_group ev" where
  "nth_group cmab i = ev_unwrap (if i < length (cb_groups cmab) then Some (cb_groups cmab ! i) else None)"

definition apply_random_group :: "cmab_config \<Rightarrow> u64 option \<Rightarrow> unit ev" where
  "apply_random_group cmab user_hash =
     ev_bind (nth_group cmab (random_group_index (length (cb_groups cmab)) user_hash))
       (\<lambda>g. ev_result (apply_group (Some EXPLORE_RULE_ID_SUFFIX) g))"

text \<open>The inverse frequency weight of a group; the counter wraps in a release build.\<close>

definition inverse_count :: "(string, cmab_group_config) HashMap \<Rightarrow> cmab_group \<Rightarrow> f64" where
  "inverse_count config g =
     (let cur_count = (case hm_get config (cg_id g) of Some c \<Rightarrow> gc_records c + 1 | None \<Rightarrow> 1)
      in f64_div (Fin 1) (nat_to_f64 (unat cur_count)))"

definition total_records :: "(string, cmab_group_config) HashMap \<Rightarrow> cmab_group list \<Rightarrow> f64" where
  "total_records config gs = foldl (\<lambda>acc g. f64_add acc (inverse_count config g)) (Fin 0) gs"

fun sampling_loop :: "(string, cmab_group_config) HashMap \<Rightarrow> f64 \<Rightarrow> f64 \<Rightarrow> f64 \<Rightarrow> cmab_group list \<Rightarrow> cmab_group option" where
  "sampling_loop config tot v acc [] = None"
| "sampling_loop config tot v acc (g # gs) =
     (let acc' = f64_add acc (f64_div (inverse_count config g) tot)
      in if f64_less v acc' then Some g else sampling_loop config tot v acc' gs)"

definition apply_sampling_group ::
    "eval_env \<Rightarrow> cmab_config \<Rightarrow> (string, cmab_group_config) HashMap \<Rightarrow> bool ev" where
  "apply_sampling_group en cmab config =
     ev_bind (ev_random en) (\<lambda>v.
       case sampling_loop config (total_records config (cb_groups cmab)) v (Fin 0) (cb_groups cmab) of
         Some g \<Rightarrow> ev_bind (ev_result (apply_group (Some EXPLORE_RULE_ID_SUFFIX) g)) (\<lambda>_. ev_return True)
       | None \<Rightarrow> ev_return False)"

definition add_categorical :: "eval_env \<Rightarrow> f64 \<Rightarrow> string \<times> (string, f64) HashMap \<Rightarrow> f64" where
  "add_categorical en score kv =
     (case get_user_value (en_user en) (Some (ds_from_string (en_ext en) (fst kv))) of
        None \<Rightarrow> score
      | Some v \<Rightarrow>
          (let text = (case dv_string v of Some s \<Rightarrow> ds_value s | None \<Rightarrow> x_json_to_string (en_ext en) (dv_json v))
           in case hm_get (snd kv) text of None \<Rightarrow> score | Some w \<Rightarrow> f64_add score w))"

definition add_numerical :: "eval_env \<Rightarrow> f64 \<Rightarrow> string \<times> f64 \<Rightarrow> f64" where
  "add_numerical en score kv =
     (case get_user_value (en_user en) (Some (ds_from_string (en_ext en) (fst kv))) of
        None \<Rightarrow> score
      | Some v \<Rightarrow> (case dv_float v of None \<Rightarrow> score | Some f \<Rightarrow> f64_add score (f64_mul f (snd kv))))"

definition get_cmab_score_for_group ::
    "eval_env \<Rightarrow> (string, cmab_group_config) HashMap \<Rightarrow> cmab_group \<Rightarrow> f64 option" where
  "get_cmab_score_for_group en config g =
     (case hm_get config (cg_id g) of
        None \<Rightarrow> None
      | Some c \<Rightarrow>
          if gc_weights_numerical c = [] \<and> gc_weights_categorical c = [] then None
          else
            (let score = f64_add (f64_add (Fin 0) (gc_intercept c)) (gc_alpha c);
                 score = foldl (add_categorical en) score (gc_weights_categorical c)
             in Some (foldl (add_numerical en) score (gc_weights_numerical c))))"

text \<open>The scan of \<open>apply_best_group\<close>: best score and group so far, and whether any group has a score.\<close>

fun best_loop :: "eval_env \<Rightarrow> bool \<Rightarrow> (string, cmab_group_config) HashMap \<Rightarrow> f64 \<times> cmab_group \<times> bool \<Rightarrow>
    cmab_group list \<Rightarrow> f64 \<times> cmab_group \<times> bool" where
  "best_loop en higher config acc [] = acc"
| "best_loop en higher config (best_score, best_group, has_score) (g # gs) =
     (case get_cmab_score_for_group en config g of
        None \<Rightarrow> best_loop en higher config (best_score, best_group, has_score) gs
      | Some score \<Rightarrow>
          if higher \<and> f64_less best_score score \<or> \<not> higher \<and> f64_less score best_score
          then best_loop en higher config (score, g, True) gs
          else best_loop en higher config (best_score, best_group, True) gs)"

definition apply_best_group ::
    "eval_env \<Rightarrow> cmab_config \<Rightarrow> (string, cmab_group_config) HashMap \<Rightarrow> unit ev" where
  "apply_best_group en cmab config =
     ev_bind (nth_group cmab 0) (\<lambda>g0.
       let (best_score, best_group, has_score) =
         best_loop en (cb_higher_is_better cmab) config
           (if cb_higher_is_better cmab then NInf else PInf, g0, False) (cb_groups cmab)
       in ev_bind
            (if \<not> has_score
             then ev_bind (ev_random en) (\<lambda>random.
               nth_group cmab (f64_to_usize (f64_floor (f64_mul random (nat_to_f64 (length (cb_groups cmab)))))))
             else ev_return best_group)
            (\<lambda>g. ev_result (apply_group None g)))"

definition should_sample :: "cmab_config \<Rightarrow> u64 option \<Rightarrow> bool" where
  "should_sample cmab user_hash =
     (case user_hash of
        Some hash \<Rightarrow> f64_less (bucket_10000 hash) (f64_mul (cb_sample_rate cmab) (Fin 10000))
      | None \<Rightarrow> False)"

definition cmab_header :: "cmab_config \<Rightarrow> evaluator_result \<Rightarrow> evaluator_result" where
  "cmab_header cmab r =
     r\<lparr>er_id_type := Some (ds_value (cb_id_type cmab)), er_version := Some (cb_version cmab),
       er_is_experiment_active := cb_enabled cmab\<rparr>"

definition cmab_default :: "string \<Rightarrow> cmab_config \<Rightarrow> evaluator_result \<Rightarrow> evaluator_result" where
  "cmab_default rule_id cmab r =
     (cmab_header cmab r)\<lparr>er_bool_value := False, er_rule_id := Some rule_id,
       er_json_value := Some (cb_default_value cmab)\<rparr>"

definition evaluate_cmab :: "eval_env \<Rightarrow> eval_rec \<Rightarrow> string \<Rightarrow> spec_type \<Rightarrow> bool ev" where
  "evaluate_cmab en rec spec_name spec_type =
     (if spec_type \<noteq> Experiment then ev_return False
      else case sr_cmab_configs (en_specs_data en) of
          None \<Rightarrow> ev_return False
        | Some cmabs \<Rightarrow>
            (case hm_get cmabs spec_name of
               None \<Rightarrow> ev_return False
             | Some cmab \<Rightarrow>
                 if \<not> is_cmab_started cmab
                 then ev_bind (ev_result (cmab_default NOT_STARTED_RULE cmab)) (\<lambda>_. ev_return True)
                 else
                   ev_bind (get_passes_targeting rec cmab) (\<lambda>passes.
                     if \<not> passes
                     then ev_bind (ev_result (cmab_default FAILS_TARGETING cmab)) (\<lambda>_. ev_return True)
                     else
                       ev_bind (ev_result (cmab_header cmab)) (\<lambda>_.
                       ev_bind (ev_hash en (Dot2 (cb_salt cmab) (get_unit_id en (cb_id_type cmab)))) (\<lambda>user_hash.
                         case cb_config cmab of
                           None \<Rightarrow> ev_bind (apply_random_group cmab user_hash) (\<lambda>_. ev_return True)
                         | Some config \<Rightarrow>
                             ev_bind
                               (if should_sample cmab user_hash then apply_sampling_group en cmab config
                                else ev_return False)
                               (\<lambda>sampled.
                                 if sampled then ev_return True
                                 else ev_bind (apply_best_group en cmab config) (\<lambda>_. ev_return True)))))))"

text \<open>
  The ranked list. \<open>sort_by\<close> is stable; with scores that are not NaN its comparison is a total
  order, and insertion gives the one sorted, stable arrangement.
\<close>

definition ranked_le :: "bool \<Rightarrow> cmab_ranked_group \<Rightarrow> cmab_ranked_group \<Rightarrow> bool" where
  "ranked_le higher a b \<longleftrightarrow>
     (if higher then \<not> f64_less (rg_score a) (rg_score b) else \<not> f64_less (rg_score b) (rg_score a))"

fun ranked_insert :: "bool \<Rightarrow> cmab_ranked_group \<Rightarrow> cmab_ranked_group list \<Rightarrow> cmab_ranked_group list" where
  "ranked_insert higher a [] = [a]"
| "ranked_insert higher a (b # bs) =
     (if ranked_le higher a b then a # b # bs else b # ranked_insert higher a bs)"

definition ranked_sort :: "bool \<Rightarrow> cmab_ranked_group list \<Rightarrow> cmab_ranked_group list" where
  "ranked_sort higher gs = foldr (ranked_insert higher) gs []"

definition ranked_group :: "string \<Rightarrow> f64 \<Rightarrow> string \<Rightarrow> cmab_group \<Rightarrow> cmab_ranked_group" where
  "ranked_group name score suffix g =
     \<lparr>rg_score = score, rg_variant_name = cg_name g, rg_rule_id = cg_id g @ suffix,
      rg_value = dr_get_json (cg_parameter_values g), rg_cmab_name = name\<rparr>"

definition EXPLORE_SCORE :: f64 where
  "EXPLORE_SCORE = round_f64 (1 / 10000)"

definition get_cmab_ranked_list ::
    "eval_env \<Rightarrow> eval_rec \<Rightarrow> (cmab_group list \<Rightarrow> cmab_group list) \<Rightarrow> string \<Rightarrow> cmab_ranked_group list ev" where
  "get_cmab_ranked_list en rec shuffle name =
     (case sr_cmab_configs (en_specs_data en) of
        None \<Rightarrow> ev_return []
      | Some cmabs \<Rightarrow>
          (case hm_get cmabs name of
             None \<Rightarrow> ev_return []
           | Some cmab \<Rightarrow>
               if \<not> is_cmab_started cmab then ev_return []
               else
                 ev_bind (get_passes_targeting rec cmab) (\<lambda>passes.
                   if \<not> passes then ev_return []
                   else case cb_config cmab of
                       None \<Rightarrow> ev_return (map (ranked_group name EXPLORE_SCORE []) (shuffle (cb_groups cmab)))
                     | Some config \<Rightarrow>
                         ev_bind (ev_hash en (Dot2 (cb_salt cmab) (get_unit_id en (cb_id_type cmab)))) (\<lambda>user_hash.
                           if should_sample cmab user_hash
                           then ev_return (map (ranked_group name EXPLORE_SCORE '':explore'') (shuffle (cb_groups cmab)))
                           else ev_return (ranked_sort (cb_higher_is_better cmab)
                             (map (\<lambda>g. ranked_group name
                                (case get_cmab_score_for_group en config g of Some s \<Rightarrow> s | None \<Rightarrow> Fin 0) [] g)
                               (cb_groups cmab)))))))"

end
