(* ===== verification/Comparisons.thy ===== *)
theory Comparisons
  imports Values
begin

text \<open>
  The comparison operators of \<open>src/statsig-rust/src/evaluation/comparisons\<close>: numbers, versions,
  strings in an array, arrays, regular expressions and times. The lemmas give each operator its
  set-theoretic or order-theoretic reading; the version order is an instance of the locale
  \<open>three_way\<close>, the laws of a three-way comparison.
\<close>

section \<open>Operations\<close>

subsection \<open>Numbers\<close>

definition compare_numbers :: "dynamic_value \<Rightarrow> memo_value \<Rightarrow> string \<Rightarrow> bool" where
  "compare_numbers left right op =
     (case (dv_float left, mv_float right) of
        (Some l, Some r) \<Rightarrow>
          if op = ''gt'' then f64_less r l
          else if op = ''gte'' then f64_le r l
          else if op = ''lt'' then f64_less l r
          else if op = ''lte'' then f64_le l r
          else False
      | _ \<Rightarrow> False)"

subsection \<open>Versions\<close>

datatype comparison_result = NumericParseFailure | CmpOk int

text \<open>\<open>next_num\<close>: an exhausted iterator gives \<open>Some None\<close>, a part that does not parse gives \<open>None\<close>.\<close>

fun next_num :: "string option \<Rightarrow> int option option" where
  "next_num None = Some None"
| "next_num (Some part) = (case parse_i128 (str_trim part) of None \<Rightarrow> None | Some n \<Rightarrow> Some (Some n))"

fun iter_next :: "'a list \<Rightarrow> 'a option \<times> 'a list" where
  "iter_next [] = (None, [])"
| "iter_next (x # xs) = (Some x, xs)"

function compare_version_loop :: "string list \<Rightarrow> string list \<Rightarrow> comparison_result" where
  "compare_version_loop left_parts right_parts =
     (case next_num (fst (iter_next left_parts)) of
        None \<Rightarrow> NumericParseFailure
      | Some left_num \<Rightarrow>
          (case next_num (fst (iter_next right_parts)) of
             None \<Rightarrow> NumericParseFailure
           | Some right_num \<Rightarrow>
               if left_num = None \<and> right_num = None then CmpOk 0
               else
                 (let l = (case left_num of None \<Rightarrow> 0 | Some n \<Rightarrow> n);
                      r = (case right_num of None \<Rightarrow> 0 | Some n \<Rightarrow> n)
                  in if l < r then CmpOk (- 1)
                     else if r < l then CmpOk 1
                     else compare_version_loop (snd (iter_next left_parts)) (snd (iter_next right_parts)))))"
  by pat_completeness auto
termination
proof (relation "measure (\<lambda>(l, r). length l + length r)", goal_cases)
  case (2 l r x2 x2a)
  then show ?case by (cases l; cases r) (auto split: option.splits)
qed simp

declare compare_version_loop.simps [simp del]

definition compare_versions_impl :: "string \<Rightarrow> string \<Rightarrow> comparison_result" where
  "compare_versions_impl left_str right_str =
     (let left_version = hd (str_split (CHR ''-'') left_str);
          right_version = hd (str_split (CHR ''-'') right_str)
      in compare_version_loop (str_split (CHR ''.'') left_version) (str_split (CHR ''.'') right_version))"

definition compare_versions :: "dynamic_value \<Rightarrow> memo_value \<Rightarrow> string \<Rightarrow> bool" where
  "compare_versions left right op =
     (case (dv_string left, mv_string right) of
        (Some l, Some r) \<Rightarrow>
          (case compare_versions_impl (ds_value l) (ds_value r) of
             NumericParseFailure \<Rightarrow> False
           | CmpOk res \<Rightarrow>
               if op = ''version_gt'' then 0 < res
               else if op = ''version_gte'' then 0 \<le> res
               else if op = ''version_lt'' then res < 0
               else if op = ''version_lte'' then res \<le> 0
               else if op = ''version_eq'' then res = 0
               else if op = ''version_neq'' then res \<noteq> 0
               else False)
      | _ \<Rightarrow> False)"

subsection \<open>Strings in an array\<close>

definition string_comparison :: "string \<Rightarrow> string \<Rightarrow> string \<Rightarrow> bool" where
  "string_comparison op left right =
     (if op \<in> {''any'', ''none'', ''any_case_sensitive'', ''none_case_sensitive''} then left = right
      else if op = ''str_starts_with_any'' then str_starts_with left right
      else if op = ''str_ends_with_any'' then str_ends_with left right
      else if op = ''str_contains_any'' \<or> op = ''str_contains_none'' then str_contains left right
      else False)"

fun strings_in_array_loop :: "string \<Rightarrow> bool \<Rightarrow> dynamic_string \<Rightarrow> (string \<times> nat \<times> string) list \<Rightarrow> bool" where
  "strings_in_array_loop op ignore_case value_str [] = False"
| "strings_in_array_loop op ignore_case value_str ((lowercase_str, _, current_str) # rest) =
     (let left = (if ignore_case then ds_lowercased value_str else ds_value value_str);
          right = (if ignore_case then lowercase_str else current_str)
      in if string_comparison op left right then True
         else strings_in_array_loop op ignore_case value_str rest)"

definition compare_strings_in_array_impl ::
    "dynamic_string \<Rightarrow> memo_value \<Rightarrow> string \<Rightarrow> bool \<Rightarrow> bool" where
  "compare_strings_in_array_impl value_str target op ignore_case =
     (let keyed = ignore_case \<and> (op = ''any'' \<or> op = ''none'')
      in case (mv_object target, keyed) of
           (Some keyed_lookup, True) \<Rightarrow> hm_contains keyed_lookup (ds_lowercased value_str)
         | _ \<Rightarrow>
             (case mv_array target of
                None \<Rightarrow> False
              | Some array_value \<Rightarrow>
                  if keyed then hm_contains array_value (ds_lowercased value_str)
                  else strings_in_array_loop op ignore_case value_str array_value))"

definition compare_strings_in_array ::
    "ext \<Rightarrow> dynamic_value \<Rightarrow> memo_value \<Rightarrow> string \<Rightarrow> bool \<Rightarrow> bool" where
  "compare_strings_in_array x v target op ignore_case =
     (let value_str = (case dv_string v of Some s \<Rightarrow> s | None \<Rightarrow> ds_from_string x []);
          result = compare_strings_in_array_impl value_str target op ignore_case
      in if op = ''none'' \<or> op = ''none_case_sensitive'' \<or> op = ''str_contains_none'' then \<not> result
         else result)"

subsection \<open>Arrays\<close>

definition value_set :: "dynamic_value list \<Rightarrow> string set" where
  "value_set arr = set (map (\<lambda>v. case dv_string v of Some s \<Rightarrow> ds_value s | None \<Rightarrow> []) arr)"

fun compare_arrays_loop :: "string \<Rightarrow> string set \<Rightarrow> (nat \<times> string) list \<Rightarrow> bool" where
  "compare_arrays_loop op vs [] = (\<not> (op = ''array_contains_any'' \<or> op = ''not_array_contains_all''))"
| "compare_arrays_loop op vs ((_, item) # rest) =
     (if op = ''array_contains_all'' then (if item \<notin> vs then False else compare_arrays_loop op vs rest)
      else if op = ''array_contains_any'' then (if item \<in> vs then True else compare_arrays_loop op vs rest)
      else if op = ''array_contains_none'' then (if item \<in> vs then False else compare_arrays_loop op vs rest)
      else if op = ''not_array_contains_all'' then (if item \<notin> vs then True else compare_arrays_loop op vs rest)
      else False)"

definition compare_arrays :: "dynamic_value \<Rightarrow> memo_value \<Rightarrow> string \<Rightarrow> bool" where
  "compare_arrays v target op =
     (case mv_array target of
        None \<Rightarrow> False
      | Some target_array \<Rightarrow>
          (case dv_array v of
             None \<Rightarrow> False
           | Some value_array \<Rightarrow> compare_arrays_loop op (value_set value_array) (hm_values target_array)))"

subsection \<open>Regular expressions and times\<close>

definition compare_str_with_regex :: "ext \<Rightarrow> dynamic_value \<Rightarrow> memo_value \<Rightarrow> bool" where
  "compare_str_with_regex x v regex_value =
     (case dv_string v of
        None \<Rightarrow> False
      | Some value_str \<Rightarrow>
          (case mv_regex regex_value of
             None \<Rightarrow> False
           | Some r \<Rightarrow> (case x_regex_is_match x r (ds_value value_str) of Some b \<Rightarrow> b | None \<Rightarrow> False)))"

text \<open>\<open>to_millis\<close>: \<open>abs\<close> wraps at \<open>i64::MIN\<close> in a release build.\<close>

definition to_millis :: "i64 \<Rightarrow> i64" where
  "to_millis ts =
     (let digits = wrap_i64 \<bar>ts\<bar>
      in if digits < 10000000000 then saturating_mul_i64 ts 1000 else ts)"

text \<open>
  \<open>compare_time\<close>. \<open>Duration::milliseconds\<close> panics outside the range of a duration, so \<open>x_num_days\<close>
  gives an option and \<open>None\<close> is that panic.
\<close>

definition compare_time :: "ext \<Rightarrow> dynamic_value \<Rightarrow> memo_value \<Rightarrow> string \<Rightarrow> bool option" where
  "compare_time x left right op =
     (case opt_else (dv_timestamp left) (dv_int left) of
        None \<Rightarrow> Some False
      | Some raw_left_ts \<Rightarrow>
          (let left_ts = to_millis raw_left_ts
           in case opt_else (mv_timestamp right) (map_option f64_to_i64 (mv_float right)) of
                None \<Rightarrow> Some False
              | Some right_ts \<Rightarrow>
                  if op = ''before'' then Some (left_ts < right_ts)
                  else if op = ''after'' then Some (right_ts < left_ts)
                  else if op = ''on'' then
                    (case x_num_days x left_ts of
                       None \<Rightarrow> None
                     | Some l \<Rightarrow> (case x_num_days x right_ts of None \<Rightarrow> None | Some r \<Rightarrow> Some (l = r)))
                  else Some False))"

section \<open>Three-way comparisons\<close>

text \<open>
  The contract of a three-way comparison: the result is a sign, swapping the arguments negates it,
  and \<open>\<le>\<close> is transitive. From it follow the laws that relate the six operators.
\<close>

locale three_way =
  fixes cmp :: "'a \<Rightarrow> 'a \<Rightarrow> int"
  assumes cmp_swap: "cmp b a = - cmp a b"
    and cmp_trans: "cmp a b \<le> 0 \<Longrightarrow> cmp b c \<le> 0 \<Longrightarrow> cmp a c \<le> 0"
begin

lemma cmp_self: "cmp a a = 0"
  using cmp_swap [of a a] by simp

lemma cmp_eq_sym: "cmp a b = 0 \<longleftrightarrow> cmp b a = 0"
  using cmp_swap [of a b] by simp

lemma cmp_eq_trans: "cmp a b = 0 \<Longrightarrow> cmp b c = 0 \<Longrightarrow> cmp a c = 0"
  using cmp_trans [of a b c] cmp_trans [of c b a] cmp_swap [of a b] cmp_swap [of b c] cmp_swap [of a c]
  by simp

lemma cmp_less_trans:
  assumes ab: "cmp a b < 0" and bc: "cmp b c \<le> 0"
  shows "cmp a c < 0"
proof (rule ccontr)
  assume "\<not> cmp a c < 0"
  then have "cmp c a \<le> 0" using cmp_swap [of a c] by simp
  with bc have "cmp b a \<le> 0" by (rule cmp_trans)
  with ab show False using cmp_swap [of a b] by simp
qed

lemma cmp_total: "cmp a b \<le> 0 \<or> cmp b a \<le> 0"
  using cmp_swap [of a b] by linarith

end

section \<open>Versions as sequences of numbers\<close>

text \<open>
  The reading of the version loop: the numbers of both versions, the shorter one padded with
  zeroes, compared lexicographically.
\<close>

fun parts_cmp :: "int list \<Rightarrow> int list \<Rightarrow> int" where
  "parts_cmp [] [] = 0"
| "parts_cmp (l # ls) [] = (if l < 0 then - 1 else if 0 < l then 1 else parts_cmp ls [])"
| "parts_cmp [] (r # rs) = (if 0 < r then - 1 else if r < 0 then 1 else parts_cmp [] rs)"
| "parts_cmp (l # ls) (r # rs) = (if l < r then - 1 else if r < l then 1 else parts_cmp ls rs)"

definition version_part :: "string \<Rightarrow> int option" where
  "version_part s = parse_i128 (str_trim s)"

text \<open>The numbers of a version string, when all its parts parse.\<close>

definition version_numbers :: "string \<Rightarrow> int list option" where
  "version_numbers s = those (map version_part (str_split (CHR ''.'') (hd (str_split (CHR ''-'') s))))"

definition part_at :: "int list \<Rightarrow> nat \<Rightarrow> int" where
  "part_at ls i = (if i < length ls then ls ! i else 0)"

lemmas version_eval = version_numbers_def version_part_def str_trim_graphic graphic_def
  parse_i128_def parse_int_def digit_val_def

lemma part_at_simps [simp]:
  "part_at [] i = 0" "part_at (l # ls) 0 = l" "part_at (l # ls) (Suc i) = part_at ls i"
  by (simp_all add: part_at_def)

lemma compare_version_loop_unfold:
  "compare_version_loop [] [] = CmpOk 0"
  "version_part p = Some n \<Longrightarrow> compare_version_loop (p # lp) [] =
     (if n < 0 then CmpOk (- 1) else if 0 < n then CmpOk 1 else compare_version_loop lp [])"
  "version_part q = Some m \<Longrightarrow> compare_version_loop [] (q # rp) =
     (if 0 < m then CmpOk (- 1) else if m < 0 then CmpOk 1 else compare_version_loop [] rp)"
  "version_part p = Some n \<Longrightarrow> version_part q = Some m \<Longrightarrow> compare_version_loop (p # lp) (q # rp) =
     (if n < m then CmpOk (- 1) else if m < n then CmpOk 1 else compare_version_loop lp rp)"
  by (subst compare_version_loop.simps, simp add: version_part_def)+

lemma compare_version_loop_parsed:
  assumes "those (map version_part lp) = Some ls" "those (map version_part rp) = Some rs"
  shows "compare_version_loop lp rp = CmpOk (parts_cmp ls rs)"
  using assms
  by (induction ls rs arbitrary: lp rp rule: parts_cmp.induct)
    (case_tac lp; case_tac rp; force simp: compare_version_loop_unfold split: option.splits)+

lemma compare_versions_impl_parsed:
  "version_numbers l = Some ls \<Longrightarrow> version_numbers r = Some rs \<Longrightarrow>
   compare_versions_impl l r = CmpOk (parts_cmp ls rs)"
  by (simp add: compare_versions_impl_def version_numbers_def compare_version_loop_parsed)

lemma parts_cmp_swap: "parts_cmp rs ls = - parts_cmp ls rs"
  by (induction ls rs rule: parts_cmp.induct) auto

lemma parts_cmp_sign: "parts_cmp ls rs \<in> {- 1, 0, 1}"
  by (induction ls rs rule: parts_cmp.induct) auto

lemma all_Suc_split: "(\<forall>i. P i) \<longleftrightarrow> P 0 \<and> (\<forall>i. P (Suc i))"
  by (metis not0_implies_Suc)

lemma parts_cmp_eq_0: "parts_cmp ls rs = 0 \<longleftrightarrow> (\<forall>i. part_at ls i = part_at rs i)"
proof (induction ls rs rule: parts_cmp.induct)
  case (2 l ls)
  then show ?case by (subst all_Suc_split) auto
next
  case (3 r rs)
  then show ?case by (subst all_Suc_split) auto
next
  case (4 l ls r rs)
  then show ?case by (subst all_Suc_split) auto
qed simp

text \<open>The comparison is decided at the first position where the padded sequences differ.\<close>

lemma first_diff_Suc:
  "(\<exists>k. (\<forall>i < k. f i = g i) \<and> f k < (g k :: int)) \<longleftrightarrow>
   f 0 < g 0 \<or> f 0 = g 0 \<and> (\<exists>k. (\<forall>i < k. f (Suc i) = g (Suc i)) \<and> f (Suc k) < g (Suc k))"
  (is "?L \<longleftrightarrow> ?R")
proof
  assume ?L
  then obtain k where k: "\<forall>i < k. f i = g i" "f k < g k" by blast
  then show ?R by (cases k) auto
next
  assume ?R
  then show ?L
  proof (elim disjE conjE exE)
    fix k assume "f 0 = g 0" "\<forall>i<k. f (Suc i) = g (Suc i)" "f (Suc k) < g (Suc k)"
    then have "(\<forall>i < Suc k. f i = g i) \<and> f (Suc k) < g (Suc k)"
      by (auto simp: less_Suc_eq_0_disj)
    then show ?L by blast
  qed auto
qed

lemma parts_cmp_less:
  "parts_cmp ls rs < 0 \<longleftrightarrow> (\<exists>k. (\<forall>i < k. part_at ls i = part_at rs i) \<and> part_at ls k < part_at rs k)"
proof (induction ls rs rule: parts_cmp.induct)
  case (2 l ls)
  then show ?case by (subst first_diff_Suc) auto
next
  case (3 r rs)
  then show ?case by (subst first_diff_Suc) auto
next
  case (4 l ls r rs)
  then show ?case by (subst first_diff_Suc) auto
qed simp

lemma parts_cmp_trans:
  assumes ab: "parts_cmp a b \<le> 0" and bc: "parts_cmp b c \<le> 0"
  shows "parts_cmp a c \<le> 0"
proof (cases "parts_cmp a b = 0 \<or> parts_cmp b c = 0")
  case True
  then show ?thesis
  proof
    assume "parts_cmp a b = 0"
    then have "part_at a = part_at b" by (auto simp: parts_cmp_eq_0)
    then show ?thesis using bc parts_cmp_less [of a c] parts_cmp_less [of b c]
      parts_cmp_eq_0 [of a c] parts_cmp_eq_0 [of b c] by (simp add: le_less)
  next
    assume "parts_cmp b c = 0"
    then have "part_at b = part_at c" by (auto simp: parts_cmp_eq_0)
    then show ?thesis using ab parts_cmp_less [of a c] parts_cmp_less [of a b]
      parts_cmp_eq_0 [of a c] parts_cmp_eq_0 [of a b] by (simp add: le_less)
  qed
next
  case False
  with ab bc have "parts_cmp a b < 0" "parts_cmp b c < 0" by simp_all
  then obtain j k where
      j: "\<forall>i < j. part_at a i = part_at b i" "part_at a j < part_at b j" and
      k: "\<forall>i < k. part_at b i = part_at c i" "part_at b k < part_at c k"
    by (auto simp: parts_cmp_less)
  have "\<forall>i < min j k. part_at a i = part_at c i" using j k by simp
  moreover have "part_at a (min j k) < part_at c (min j k)"
    using j k by (cases j k rule: linorder_cases) (auto simp: min_def)
  ultimately have "parts_cmp a c < 0" unfolding parts_cmp_less by blast
  then show ?thesis by simp
qed

interpretation version_order: three_way parts_cmp
  by unfold_locales (auto intro: parts_cmp_swap parts_cmp_trans)

section \<open>Set readings of the array operators\<close>

lemma strings_in_array_loop_iff:
  "strings_in_array_loop op ic s arr \<longleftrightarrow>
     (\<exists>(low, i, cur) \<in> set arr.
        string_comparison op (if ic then ds_lowercased s else ds_value s) (if ic then low else cur))"
  by (induction op ic s arr rule: strings_in_array_loop.induct) (auto simp: Let_def)

lemma compare_arrays_loop_all:
  "compare_arrays_loop ''array_contains_all'' vs arr \<longleftrightarrow> snd ` set arr \<subseteq> vs"
  by (induction arr) (auto split: if_splits)

lemma compare_arrays_loop_any:
  "compare_arrays_loop ''array_contains_any'' vs arr \<longleftrightarrow> snd ` set arr \<inter> vs \<noteq> {}"
  by (induction arr) (auto split: if_splits)

lemma compare_arrays_loop_none:
  "compare_arrays_loop ''array_contains_none'' vs arr \<longleftrightarrow> snd ` set arr \<inter> vs = {}"
  by (induction arr) (auto split: if_splits)

lemma compare_arrays_loop_not_all:
  "compare_arrays_loop ''not_array_contains_all'' vs arr \<longleftrightarrow> \<not> snd ` set arr \<subseteq> vs"
  by (induction arr) (auto split: if_splits)

lemmas compare_arrays_loop_sets = compare_arrays_loop_all compare_arrays_loop_any
  compare_arrays_loop_none compare_arrays_loop_not_all

lemma compare_arrays_loop_perm:
  assumes "set arr = set arr'"
  shows "compare_arrays_loop op vs arr = compare_arrays_loop op vs arr'"
proof (cases "op \<in> {''array_contains_all'', ''array_contains_any'', ''array_contains_none'',
    ''not_array_contains_all''}")
  case True
  with assms show ?thesis by (auto simp: compare_arrays_loop_sets)
next
  case False
  with assms show ?thesis by (cases arr; cases arr') auto
qed

section \<open>Properties\<close>

text \<open>
  C26: the version operators implement the lexicographic order of the numeric parts, the shorter
  version padded with zeroes: \<open>version_lt\<close> holds just when at the first differing position the left
  number is smaller, \<open>version_eq\<close> when there is no differing position, and the other four operators
  are the matching combinations.
\<close>

theorem compare_versions_lexicographic:
  assumes "dv_string v = Some l" "mv_string t = Some r"
    and "version_numbers (ds_value l) = Some ls" "version_numbers (ds_value r) = Some rs"
  defines "lex_less as bs \<equiv> \<exists>k. (\<forall>i < k. part_at as i = part_at bs i) \<and> part_at as k < part_at bs k"
  shows "(compare_versions v t ''version_lt'' \<longleftrightarrow> lex_less ls rs) \<and>
    (compare_versions v t ''version_gt'' \<longleftrightarrow> lex_less rs ls) \<and>
    (compare_versions v t ''version_eq'' \<longleftrightarrow> (\<forall>i. part_at ls i = part_at rs i)) \<and>
    (compare_versions v t ''version_lte'' \<longleftrightarrow> \<not> lex_less rs ls) \<and>
    (compare_versions v t ''version_gte'' \<longleftrightarrow> \<not> lex_less ls rs) \<and>
    (compare_versions v t ''version_neq'' \<longleftrightarrow> (\<exists>i. part_at ls i \<noteq> part_at rs i))"
proof -
  have "lex_less ls rs \<longleftrightarrow> parts_cmp ls rs < 0" "lex_less rs ls \<longleftrightarrow> 0 < parts_cmp ls rs"
    using parts_cmp_swap [of rs ls] by (simp_all add: lex_less_def parts_cmp_less [symmetric])
  then show ?thesis
    using assms(1-4) parts_cmp_eq_0 [of ls rs]
    by (simp add: compare_versions_def compare_versions_impl_parsed not_less)
qed

theorem compare_versions_lexicographic_witness:
  "compare_versions (dv_from_json sample_ext (JString ''1.2'')) (mv_from_string sample_ext ''1.2.1-rc'')
     ''version_lt''"
proof -
  let ?v = "dv_from_json sample_ext (JString ''1.2'')" and ?t = "mv_from_string sample_ext ''1.2.1-rc''"
  have parts: "version_numbers ''1.2'' = Some [1, 2]" "version_numbers ''1.2.1-rc'' = Some [1, 2, 1]"
    by (simp_all add: version_eval)
  have strs: "dv_string ?v = Some (ds_from_string sample_ext ''1.2'')"
    "mv_string ?t = Some (ds_from_string sample_ext ''1.2.1-rc'')"
    by (simp_all add: mv_from_string_def mv_new_def)
  have "\<exists>k. (\<forall>i < k. part_at [1, 2] i = part_at [1, 2, 1] i) \<and> part_at [1, 2] k < part_at [1, 2, 1] k"
    by (rule exI [of _ 2]) (auto simp: part_at_def less_2_cases_iff)
  with compare_versions_lexicographic [OF strs] parts show ?thesis by simp
qed

text \<open>
  Version targeting is monotone in the threshold: a user below one threshold is below every
  threshold that is at least as high, which rests on the transitivity of the version order.
\<close>

theorem version_lt_threshold_mono:
  assumes "dv_string v = Some l"
    and "version_numbers (ds_value l) = Some ls" "version_numbers s = Some ss" "version_numbers t = Some ts"
    and "compare_versions v (mv_from_string x s) ''version_lt''"
    and "compare_versions (dv_from_json x (JString s)) (mv_from_string x t) ''version_lte''"
  shows "compare_versions v (mv_from_string x t) ''version_lt''"
proof -
  have "parts_cmp ls ss < 0" "parts_cmp ss ts \<le> 0"
    using assms by (simp_all add: compare_versions_def mv_from_string_def mv_new_def compare_versions_impl_parsed)
  then have "parts_cmp ls ts < 0" by (rule version_order.cmp_less_trans)
  then show ?thesis
    using assms(1,2,4) by (simp add: compare_versions_def mv_from_string_def mv_new_def compare_versions_impl_parsed)
qed

theorem version_lt_threshold_mono_witness:
  "compare_versions (dv_from_json sample_ext (JString ''1.9'')) (mv_from_string sample_ext ''2.0'') ''version_lt''"
proof (rule version_lt_threshold_mono [where s = "''1.10''" and ls = "[1, 9]" and ss = "[1, 10]" and ts = "[2, 0]"
      and l = "ds_from_string sample_ext ''1.9''"])
  have nums: "version_numbers ''1.9'' = Some [1, 9]" "version_numbers ''1.10'' = Some [1, 10]"
    "version_numbers ''2.0'' = Some [2, 0]"
    by (simp_all add: version_eval)
  show "version_numbers (ds_value (ds_from_string sample_ext ''1.9'')) = Some [1, 9]"
    "version_numbers ''1.10'' = Some [1, 10]" "version_numbers ''2.0'' = Some [2, 0]"
    using nums by simp_all
  show "compare_versions (dv_from_json sample_ext (JString ''1.9'')) (mv_from_string sample_ext ''1.10'') ''version_lt''"
    "compare_versions (dv_from_json sample_ext (JString ''1.10'')) (mv_from_string sample_ext ''2.0'') ''version_lte''"
    using nums by (simp_all add: compare_versions_def mv_from_string_def mv_new_def compare_versions_impl_parsed)
qed simp

text \<open>
  The four array operators have their set meaning for every iteration order of the hash map:
  with \<open>T\<close> the strings of the target and \<open>V\<close> the strings of the user's array, they decide
  \<open>T \<subseteq> V\<close>, \<open>T \<inter> V \<noteq> {}\<close>, \<open>T \<inter> V = {}\<close> and \<open>\<not> T \<subseteq> V\<close>.
\<close>

theorem compare_arrays_set_semantics:
  assumes "distinct (map (x_to_lowercase x) ss)"
    and "mset m = mset (keyed_array_from x 0 (map JString ss) [])"
    and "t = (mv_new TArray)\<lparr>mv_array := Some m\<rparr>"
    and "v = dv_from_json x (str_array ts)"
  shows "(compare_arrays v t ''array_contains_all'' \<longleftrightarrow> set ss \<subseteq> set ts) \<and>
    (compare_arrays v t ''array_contains_any'' \<longleftrightarrow> set ss \<inter> set ts \<noteq> {}) \<and>
    (compare_arrays v t ''array_contains_none'' \<longleftrightarrow> set ss \<inter> set ts = {}) \<and>
    (compare_arrays v t ''not_array_contains_all'' \<longleftrightarrow> \<not> set ss \<subseteq> set ts)"
proof -
  have "snd ` set (hm_values m) = snd ` set (enumerate 0 ss)"
    using mset_eq_setD [OF assms(2)] unfolding hm_values_keyed_array [OF assms(1), symmetric]
    by (simp add: hm_values_def)
  also have "\<dots> = set ss" by (metis map_snd_enumerate set_map)
  finally have T: "snd ` set (hm_values m) = set ss" .
  have V: "value_set (map (\<lambda>s. dv_from_json x (JString s)) ts) = set ts"
    by (simp add: value_set_def comp_def)
  show ?thesis
    using V by (simp add: compare_arrays_def assms(3,4) mv_new_def compare_arrays_loop_sets T comp_def)
qed

theorem compare_arrays_set_semantics_witness:
  "compare_arrays (dv_from_json sample_ext (str_array [''x'', ''y'']))
     ((mv_new TArray)\<lparr>mv_array := Some [(''y'', 1, ''y''), (''x'', 0, ''x'')]\<rparr>) ''array_contains_all''"
proof -
  have "distinct (map (x_to_lowercase sample_ext) [''x'', ''y''])"
    and "mset [(''y'', 1, ''y''), (''x'', 0, ''x'')] = mset (keyed_array_from sample_ext 0 (map JString [''x'', ''y'']) [])"
    by code_simp+
  from compare_arrays_set_semantics [OF this refl refl, of "[''x'', ''y'']"] show ?thesis by simp
qed

text \<open>
  The string operators over a list of targets. Ignoring case, \<open>any\<close> is membership of the
  lower-cased value among the lower-cased targets and \<open>none\<close> is its complement; for every operator
  that ends in \<open>none\<close> the result is the negation of the matching \<open>any\<close> operator, for every target.
\<close>

theorem compare_strings_any_none:
  "(compare_strings_in_array x (dv_from_json x (JString s)) (mv_from_json x (str_array ss)) ''any'' True
      \<longleftrightarrow> x_to_lowercase x s \<in> x_to_lowercase x ` set ss) \<and>
   compare_strings_in_array x v t ''none'' c = (\<not> compare_strings_in_array x v t ''any'' c) \<and>
   compare_strings_in_array x v t ''none_case_sensitive'' c
      = (\<not> compare_strings_in_array x v t ''any_case_sensitive'' c) \<and>
   compare_strings_in_array x v t ''str_contains_none'' c
      = (\<not> compare_strings_in_array x v t ''str_contains_any'' c)"
proof (intro conjI)
  show "compare_strings_in_array x (dv_from_json x (JString s)) (mv_from_json x (str_array ss)) ''any'' True
      \<longleftrightarrow> x_to_lowercase x s \<in> x_to_lowercase x ` set ss"
    by (simp add: compare_strings_in_array_def compare_strings_in_array_impl_def mv_new_def
        keyed_array_contains image_image) (simp add: hm_contains_def)
  have loop: "strings_in_array_loop ''none'' c' s' arr = strings_in_array_loop ''any'' c' s' arr"
    "strings_in_array_loop ''none_case_sensitive'' c' s' arr = strings_in_array_loop ''any_case_sensitive'' c' s' arr"
    "strings_in_array_loop ''str_contains_none'' c' s' arr = strings_in_array_loop ''str_contains_any'' c' s' arr"
    for c' s' and arr :: "(string \<times> nat \<times> string) list"
    by (simp_all add: strings_in_array_loop_iff string_comparison_def)
  show "compare_strings_in_array x v t ''none'' c = (\<not> compare_strings_in_array x v t ''any'' c)"
    "compare_strings_in_array x v t ''none_case_sensitive'' c
      = (\<not> compare_strings_in_array x v t ''any_case_sensitive'' c)"
    "compare_strings_in_array x v t ''str_contains_none'' c
      = (\<not> compare_strings_in_array x v t ''str_contains_any'' c)"
    by (auto simp: compare_strings_in_array_def compare_strings_in_array_impl_def Let_def loop
        split: option.splits bool.splits)
qed

text \<open>
  A case-sensitive match looks only at the entries that survive the lower-cased keying, so the
  first of two targets that differ in case alone is not matched although it is in the list.
\<close>

theorem case_sensitive_any_misses_target:
  assumes "x_to_lowercase x a = x_to_lowercase x b" "a \<noteq> b"
  shows "\<not> compare_strings_in_array x (dv_from_json x (JString a)) (mv_from_json x (str_array [a, b]))
    ''any_case_sensitive'' False"
  using assms
  by (simp add: compare_strings_in_array_def compare_strings_in_array_impl_def mv_new_def hm_insert_def
      string_comparison_def)

theorem case_sensitive_any_misses_target_witness:
  "\<not> compare_strings_in_array sample_ext (dv_from_json sample_ext (JString ''HELLO''))
     (mv_from_json sample_ext (str_array [''HELLO'', ''hello''])) ''any_case_sensitive'' False"
  by (rule case_sensitive_any_misses_target) code_simp+

end
