(* ===== verification/Overrides.thy ===== *)
theory Overrides
  imports Eval_Context
begin

text \<open>
  The local override adapter,
  \<open>src/statsig-rust/src/override_adapter/statsig_local_override_adapter.rs\<close>: overrides per config and
  per id, looked up by user id, then by custom ids, then by the entry for no id. The first argument
  of an operation says whether its lock is obtained in time; without it nothing happens.
  The locale \<open>override_table\<close> states the laws one such table promises.
\<close>

section \<open>The store\<close>

datatype experiment_overrides = OverrideValue dynamic_returnable | OverrideGroupName string

type_synonym 'a table = "(string, (string, 'a) HashMap) HashMap"

record override_store =
  os_gate :: "bool table"
  os_config :: "dynamic_returnable table"
  os_experiment :: "experiment_overrides table"
  os_layer :: "dynamic_returnable table"
  os_parameter_store :: "(string, parameter) HashMap table"

definition os_new :: override_store where
  "os_new = \<lparr>os_gate = [], os_config = [], os_experiment = [], os_layer = [], os_parameter_store = []\<rparr>"

abbreviation NO_ID_OVERRIDE :: string where "NO_ID_OVERRIDE \<equiv> ''__STATSIG_NO_ID__''"

section \<open>Lookup\<close>

definition mark_result_as_override :: "evaluator_result \<Rightarrow> evaluator_result" where
  "mark_result_as_override r = r\<lparr>er_override_reason := Some ''LocalOverride'', er_rule_id := Some ''override''\<rparr>"

definition check_default_override ::
    "(string, 'a) HashMap \<Rightarrow> ('a \<Rightarrow> evaluator_result \<Rightarrow> evaluator_result) \<Rightarrow> evaluator_result \<Rightarrow> bool \<times> evaluator_result" where
  "check_default_override overrides app r =
     (case hm_get overrides NO_ID_OVERRIDE of
        Some v \<Rightarrow> (True, mark_result_as_override (app v r))
      | None \<Rightarrow> (False, r))"

definition check_user_id_override ::
    "user_data \<Rightarrow> (string, 'a) HashMap \<Rightarrow> ('a \<Rightarrow> evaluator_result \<Rightarrow> evaluator_result) \<Rightarrow> evaluator_result \<Rightarrow> bool \<times> evaluator_result" where
  "check_user_id_override u overrides app r =
     (case ud_user_id u of
        None \<Rightarrow> (False, r)
      | Some user_id \<Rightarrow>
          (case dv_string user_id of
             None \<Rightarrow> (False, r)
           | Some s \<Rightarrow>
               (case hm_get overrides (ds_value s) of
                  None \<Rightarrow> (False, r)
                | Some v \<Rightarrow> (True, mark_result_as_override (app v r)))))"

fun custom_ids_loop ::
    "dynamic_value list \<Rightarrow> (string, 'a) HashMap \<Rightarrow> ('a \<Rightarrow> evaluator_result \<Rightarrow> evaluator_result) \<Rightarrow> evaluator_result \<Rightarrow> bool \<times> evaluator_result" where
  "custom_ids_loop [] overrides app r = (False, r)"
| "custom_ids_loop (custom_id_value # rest) overrides app r =
     (case dv_string custom_id_value of
        None \<Rightarrow> custom_ids_loop rest overrides app r
      | Some s \<Rightarrow>
          (case hm_get overrides (ds_value s) of
             None \<Rightarrow> custom_ids_loop rest overrides app r
           | Some v \<Rightarrow> (True, mark_result_as_override (app v r))))"

definition check_custom_ids_override ::
    "user_data \<Rightarrow> (string, 'a) HashMap \<Rightarrow> ('a \<Rightarrow> evaluator_result \<Rightarrow> evaluator_result) \<Rightarrow> evaluator_result \<Rightarrow> bool \<times> evaluator_result" where
  "check_custom_ids_override u overrides app r =
     (case ud_custom_ids u of
        None \<Rightarrow> (False, r)
      | Some ids \<Rightarrow> custom_ids_loop (hm_values ids) overrides app r)"

definition find_override_for_user ::
    "user_data \<Rightarrow> (string, 'a) HashMap \<Rightarrow> ('a \<Rightarrow> evaluator_result \<Rightarrow> evaluator_result) \<Rightarrow> evaluator_result \<Rightarrow> bool \<times> evaluator_result" where
  "find_override_for_user u overrides app r =
     (let (found, r1) = check_user_id_override u overrides app r
      in if found then (True, r1)
         else
           (let (found, r2) = check_custom_ids_override u overrides app r1
            in if found then (True, r2) else check_default_override overrides app r2))"

definition table_override ::
    "bool \<Rightarrow> 'a table \<Rightarrow> ('a \<Rightarrow> evaluator_result \<Rightarrow> evaluator_result) \<Rightarrow> user_data \<Rightarrow> string \<Rightarrow> evaluator_result \<Rightarrow> bool \<times> evaluator_result" where
  "table_override lock_ok t app u name r =
     (if \<not> lock_ok then (False, r)
      else case hm_get t name of
          None \<Rightarrow> (False, r)
        | Some overrides \<Rightarrow> find_override_for_user u overrides app r)"

definition get_gate_override where
  "get_gate_override lock_ok st u name r =
     table_override lock_ok (os_gate st) (\<lambda>v res. res\<lparr>er_bool_value := v\<rparr>) u name r"

definition get_dynamic_config_override where
  "get_dynamic_config_override lock_ok st u name r =
     table_override lock_ok (os_config st) (\<lambda>v res. res\<lparr>er_json_value := Some v\<rparr>) u name r"

fun find_group :: "string \<Rightarrow> rule list \<Rightarrow> dynamic_returnable option" where
  "find_group group_name [] = None"
| "find_group group_name (r # rs) =
     (if ru_group_name r = Some group_name then Some (ru_return_value r) else find_group group_name rs)"

definition get_experiment_with_group_name :: "spec option \<Rightarrow> string \<Rightarrow> dynamic_returnable option" where
  "get_experiment_with_group_name opt_spec group_name =
     (case opt_spec of None \<Rightarrow> None | Some sp \<Rightarrow> find_group group_name (sp_rules sp))"

definition get_experiment_override where
  "get_experiment_override lock_ok st u name opt_spec r =
     table_override lock_ok (os_experiment st)
       (\<lambda>v res. case v of
            OverrideValue m \<Rightarrow> res\<lparr>er_json_value := Some m\<rparr>
          | OverrideGroupName g \<Rightarrow> res\<lparr>er_json_value := get_experiment_with_group_name opt_spec g\<rparr>)
       u name r"

definition get_layer_override where
  "get_layer_override lock_ok st u name r =
     table_override lock_ok (os_layer st) (\<lambda>v res. res\<lparr>er_json_value := Some v\<rparr>) u name r"

section \<open>Parameters as JSON\<close>

text \<open>
  The derived serialisation of \<open>Parameter\<close>, an untagged enum. A missing name is written as \<open>null\<close>.
  Reading accepts an object with the fields or an array with them in order.
\<close>

definition opt_string_json :: "string option \<Rightarrow> json" where
  "opt_string_json s = (case s of None \<Rightarrow> JNull | Some t \<Rightarrow> JString t)"

fun parameter_to_json :: "parameter \<Rightarrow> json" where
  "parameter_to_json (StaticValueParameter n rt pt v) =
     JObject [(''name'', opt_string_json n), (''ref_type'', JString rt), (''param_type'', JString pt), (''value'', v)]"
| "parameter_to_json (GateParameter n rt pt g pv fv) =
     JObject [(''name'', opt_string_json n), (''ref_type'', JString rt), (''param_type'', JString pt),
       (''gate_name'', JString g), (''pass_value'', pv), (''fail_value'', fv)]"
| "parameter_to_json (DynamicConfigParameter n rt pt c p) =
     JObject [(''name'', opt_string_json n), (''ref_type'', JString rt), (''param_type'', JString pt),
       (''config_name'', JString c), (''param_name'', JString p)]"
| "parameter_to_json (ExperimentParameter n rt pt e p) =
     JObject [(''name'', opt_string_json n), (''ref_type'', JString rt), (''param_type'', JString pt),
       (''experiment_name'', JString e), (''param_name'', JString p)]"
| "parameter_to_json (LayerParameter n rt pt l p) =
     JObject [(''name'', opt_string_json n), (''ref_type'', JString rt), (''param_type'', JString pt),
       (''layer_name'', JString l), (''param_name'', JString p)]"

definition struct_fields :: "string list \<Rightarrow> json \<Rightarrow> json option list option" where
  "struct_fields keys j =
     (case j of
        JObject obj \<Rightarrow> Some (map (hm_get obj) keys)
      | JArray a \<Rightarrow> if length a = length keys then Some (map Some a) else None
      | _ \<Rightarrow> None)"

fun opt_string_field :: "json option \<Rightarrow> string option option" where
  "opt_string_field None = Some None"
| "opt_string_field (Some JNull) = Some None"
| "opt_string_field (Some (JString s)) = Some (Some s)"
| "opt_string_field _ = None"

fun string_field :: "json option \<Rightarrow> string option" where
  "string_field (Some (JString s)) = Some s"
| "string_field _ = None"

definition parse_static :: "json \<Rightarrow> parameter option" where
  "parse_static j =
     (case struct_fields [''name'', ''ref_type'', ''param_type'', ''value''] j of
        Some [n, rt, pt, v] \<Rightarrow>
          (case (opt_string_field n, string_field rt, string_field pt, v) of
             (Some n', Some rt', Some pt', Some v') \<Rightarrow> Some (StaticValueParameter n' rt' pt' v')
           | _ \<Rightarrow> None)
      | _ \<Rightarrow> None)"

definition parse_gate_param :: "json \<Rightarrow> parameter option" where
  "parse_gate_param j =
     (case struct_fields [''name'', ''ref_type'', ''param_type'', ''gate_name'', ''pass_value'', ''fail_value''] j of
        Some [n, rt, pt, g, pv, fv] \<Rightarrow>
          (case (opt_string_field n, string_field rt, string_field pt, string_field g, pv, fv) of
             (Some n', Some rt', Some pt', Some g', Some pv', Some fv') \<Rightarrow>
               Some (GateParameter n' rt' pt' g' pv' fv')
           | _ \<Rightarrow> None)
      | _ \<Rightarrow> None)"

definition parse_named_param ::
    "string \<Rightarrow> (string option \<Rightarrow> string \<Rightarrow> string \<Rightarrow> string \<Rightarrow> string \<Rightarrow> parameter) \<Rightarrow> json \<Rightarrow> parameter option" where
  "parse_named_param key con j =
     (case struct_fields [''name'', ''ref_type'', ''param_type'', key, ''param_name''] j of
        Some [n, rt, pt, c, p] \<Rightarrow>
          (case (opt_string_field n, string_field rt, string_field pt, string_field c, string_field p) of
             (Some n', Some rt', Some pt', Some c', Some p') \<Rightarrow> Some (con n' rt' pt' c' p')
           | _ \<Rightarrow> None)
      | _ \<Rightarrow> None)"

definition parameter_from_json :: "json \<Rightarrow> parameter option" where
  "parameter_from_json j =
     opt_else (parse_static j)
       (opt_else (parse_gate_param j)
         (opt_else (parse_named_param ''config_name'' DynamicConfigParameter j)
           (opt_else (parse_named_param ''experiment_name'' ExperimentParameter j)
             (parse_named_param ''layer_name'' LayerParameter j))))"

fun infer_param_type :: "json \<Rightarrow> string" where
  "infer_param_type JNull = ''null''"
| "infer_param_type (JBool _) = ''boolean''"
| "infer_param_type (JNumber _) = ''number''"
| "infer_param_type (JString _) = ''string''"
| "infer_param_type (JArray _) = ''array''"
| "infer_param_type (JObject _) = ''object''"

definition get_parameter_store_override where
  "get_parameter_store_override lock_ok x st u name r =
     table_override lock_ok (os_parameter_store st)
       (\<lambda>v res. res\<lparr>er_json_value := Some (dr_from_map x (map (\<lambda>(k, p). (k, parameter_to_json p)) v))\<rparr>)
       u name r"

section \<open>Changes\<close>

definition id_or_default :: "string option \<Rightarrow> string" where
  "id_or_default i = (case i of Some s \<Rightarrow> s | None \<Rightarrow> NO_ID_OVERRIDE)"

text \<open>\<open>entry(key).or_default().insert(id, value)\<close>.\<close>

definition table_put :: "string \<Rightarrow> string option \<Rightarrow> 'a \<Rightarrow> 'a table \<Rightarrow> 'a table" where
  "table_put key i v t =
     hm_insert key (hm_insert (id_or_default i) v (case hm_get t key of Some m \<Rightarrow> m | None \<Rightarrow> [])) t"

definition table_remove :: "string \<Rightarrow> string option \<Rightarrow> 'a table \<Rightarrow> 'a table" where
  "table_remove key i t =
     (case i of
        None \<Rightarrow> hm_remove key t
      | Some id_str \<Rightarrow>
          (case hm_get t key of
             None \<Rightarrow> t
           | Some overrides \<Rightarrow> hm_insert key (hm_remove id_str overrides) t))"

definition with_lock :: "bool \<Rightarrow> ('s \<Rightarrow> 's) \<Rightarrow> 's \<Rightarrow> 's" where
  "with_lock lock_ok f st = (if lock_ok then f st else st)"

definition override_gate where
  "override_gate lock_ok key v i = with_lock lock_ok (\<lambda>st. st\<lparr>os_gate := table_put key i v (os_gate st)\<rparr>)"

definition override_dynamic_config where
  "override_dynamic_config lock_ok x key m i =
     with_lock lock_ok (\<lambda>st. st\<lparr>os_config := table_put key i (dr_from_map x m) (os_config st)\<rparr>)"

definition override_experiment where
  "override_experiment lock_ok x key m i =
     with_lock lock_ok (\<lambda>st. st\<lparr>os_experiment := table_put key i (OverrideValue (dr_from_map x m)) (os_experiment st)\<rparr>)"

definition override_experiment_by_group_name where
  "override_experiment_by_group_name lock_ok key g i =
     with_lock lock_ok (\<lambda>st. st\<lparr>os_experiment := table_put key i (OverrideGroupName g) (os_experiment st)\<rparr>)"

definition override_layer where
  "override_layer lock_ok x key m i =
     with_lock lock_ok (\<lambda>st. st\<lparr>os_layer := table_put key i (dr_from_map x m) (os_layer st)\<rparr>)"

definition parameter_of_value :: "json \<Rightarrow> parameter" where
  "parameter_of_value j =
     (case parameter_from_json j of
        Some p \<Rightarrow> p
      | None \<Rightarrow> StaticValueParameter None ''static'' (infer_param_type j) j)"

definition override_parameter_store where
  "override_parameter_store lock_ok key m i =
     with_lock lock_ok (\<lambda>st. st\<lparr>os_parameter_store :=
       table_put key i (map (\<lambda>(k, j). (k, parameter_of_value j)) m) (os_parameter_store st)\<rparr>)"

definition remove_gate_override where
  "remove_gate_override lock_ok key i = with_lock lock_ok (\<lambda>st. st\<lparr>os_gate := table_remove key i (os_gate st)\<rparr>)"

definition remove_dynamic_config_override where
  "remove_dynamic_config_override lock_ok key i =
     with_lock lock_ok (\<lambda>st. st\<lparr>os_config := table_remove key i (os_config st)\<rparr>)"

definition remove_experiment_override where
  "remove_experiment_override lock_ok key i =
     with_lock lock_ok (\<lambda>st. st\<lparr>os_experiment := table_remove key i (os_experiment st)\<rparr>)"

definition remove_layer_override where
  "remove_layer_override lock_ok key i =
     with_lock lock_ok (\<lambda>st. st\<lparr>os_layer := table_remove key i (os_layer st)\<rparr>)"

definition remove_parameter_store_override where
  "remove_parameter_store_override lock_ok key i =
     with_lock lock_ok (\<lambda>st. st\<lparr>os_parameter_store := table_remove key i (os_parameter_store st)\<rparr>)"

definition remove_all_overrides where
  "remove_all_overrides lock_ok =
     with_lock lock_ok (\<lambda>st. st\<lparr>os_gate := [], os_config := [], os_experiment := [], os_layer := [],
       os_parameter_store := []\<rparr>)"

text \<open>The adapter as the evaluator sees it.\<close>

definition local_override_adapter :: "ext \<Rightarrow> bool \<Rightarrow> override_store \<Rightarrow> override_adapter" where
  "local_override_adapter x lock_ok st =
     \<lparr>oa_gate = get_gate_override lock_ok st,
      oa_dynamic_config = get_dynamic_config_override lock_ok st,
      oa_experiment = get_experiment_override lock_ok st,
      oa_layer = get_layer_override lock_ok st,
      oa_parameter_store = get_parameter_store_override lock_ok x st\<rparr>"

section \<open>The laws of an override table\<close>

text \<open>
  A table of overrides per config and id: what is found after a change. The client's lemmas follow
  from the laws alone.
\<close>

locale override_table =
  fixes empty_t :: "'t"
    and find_t :: "'t \<Rightarrow> string \<Rightarrow> string \<Rightarrow> 'a option"
    and put_t :: "string \<Rightarrow> string option \<Rightarrow> 'a \<Rightarrow> 't \<Rightarrow> 't"
    and remove_t :: "string \<Rightarrow> string option \<Rightarrow> 't \<Rightarrow> 't"
  assumes find_empty: "find_t empty_t key i = None"
    and find_put: "find_t (put_t key oi v t) key' i =
      (if key' = key \<and> i = id_or_default oi then Some v else find_t t key' i)"
    and find_remove_all: "find_t (remove_t key None t) key' i = (if key' = key then None else find_t t key' i)"
    and find_remove: "find_t (remove_t key (Some j) t) key' i =
      (if key' = key \<and> i = j then None else find_t t key' i)"
begin

lemma put_overwrites: "find_t (put_t key j w (put_t key j v t)) key' i = find_t (put_t key j w t) key' i"
  by (simp add: find_put)

lemma put_commutes:
  "(key, id_or_default i) \<noteq> (key2, id_or_default j) \<Longrightarrow>
   find_t (put_t key i v (put_t key2 j w t)) k q = find_t (put_t key2 j w (put_t key i v t)) k q"
  by (auto simp: find_put)

lemma remove_undoes_put:
  "find_t t key j = None \<Longrightarrow> find_t (remove_t key (Some j) (put_t key (Some j) v t)) key' i = find_t t key' i"
  by (auto simp: find_put find_remove id_or_default_def)

lemma remove_all_clears: "find_t (remove_t key None (put_t key j v t)) key i = None"
  by (simp add: find_remove_all)

end

definition table_find :: "'a table \<Rightarrow> string \<Rightarrow> string \<Rightarrow> 'a option" where
  "table_find t key i = (case hm_get t key of None \<Rightarrow> None | Some m \<Rightarrow> hm_get m i)"

interpretation overrides: override_table "[] :: 'a table" table_find table_put table_remove
  by unfold_locales
    (auto simp: table_find_def table_put_def table_remove_def split: option.splits)

section \<open>Precedence\<close>

definition user_id_text :: "user_data \<Rightarrow> string option" where
  "user_id_text u = (case ud_user_id u of None \<Rightarrow> None | Some v \<Rightarrow> map_option ds_value (dv_string v))"

definition custom_id_texts :: "user_data \<Rightarrow> string list" where
  "custom_id_texts u =
     (case ud_custom_ids u of
        None \<Rightarrow> [] | Some ids \<Rightarrow> List.map_filter (\<lambda>v. map_option ds_value (dv_string v)) (hm_values ids))"

text \<open>The ids under which an override for this user is looked up, in order.\<close>

definition override_ids :: "user_data \<Rightarrow> string list" where
  "override_ids u = (case user_id_text u of None \<Rightarrow> [] | Some i \<Rightarrow> [i]) @ custom_id_texts u @ [NO_ID_OVERRIDE]"

fun first_override :: "(string, 'a) HashMap \<Rightarrow> string list \<Rightarrow> 'a option" where
  "first_override m [] = None"
| "first_override m (i # is) = opt_else (hm_get m i) (first_override m is)"

lemma first_override_append: "first_override m (xs @ ys) = opt_else (first_override m xs) (first_override m ys)"
  by (induction xs) (auto simp: opt_else_def split: option.splits)

definition apply_found :: "'a option \<Rightarrow> ('a \<Rightarrow> evaluator_result \<Rightarrow> evaluator_result) \<Rightarrow> evaluator_result \<Rightarrow> bool \<times> evaluator_result" where
  "apply_found v app r = (case v of None \<Rightarrow> (False, r) | Some a \<Rightarrow> (True, mark_result_as_override (app a r)))"

lemma custom_ids_loop_first:
  "custom_ids_loop vs m app r =
     apply_found (first_override m (List.map_filter (\<lambda>v. map_option ds_value (dv_string v)) vs)) app r"
  by (induction vs) (auto simp: apply_found_def List.map_filter_def split: option.splits)

lemma find_override_first:
  "find_override_for_user u m app r = apply_found (first_override m (override_ids u)) app r"
proof -
  have user: "check_user_id_override u m app r =
      apply_found (first_override m (case user_id_text u of None \<Rightarrow> [] | Some i \<Rightarrow> [i])) app r"
    by (simp add: check_user_id_override_def user_id_text_def apply_found_def split: option.splits)
  have custom: "check_custom_ids_override u m app r = apply_found (first_override m (custom_id_texts u)) app r"
    by (simp add: check_custom_ids_override_def custom_id_texts_def custom_ids_loop_first apply_found_def
        split: option.splits)
  have default: "check_default_override m app r = apply_found (first_override m [NO_ID_OVERRIDE]) app r"
    by (simp add: check_default_override_def apply_found_def split: option.splits)
  show ?thesis
    unfolding find_override_for_user_def override_ids_def first_override_append
    using user custom default
    by (auto simp: apply_found_def Let_def opt_else_def split: option.splits prod.splits)
qed

lemma first_override_cong:
  "(\<And>i. hm_get m i = hm_get m' i) \<Longrightarrow> first_override m is = first_override m' is"
  by (induction "is") simp_all

lemma table_override_find:
  "table_override True t app u name r =
     apply_found (first_override (case hm_get t name of None \<Rightarrow> [] | Some m \<Rightarrow> m) (override_ids u)) app r"
proof (cases "hm_get t name")
  case None
  have "first_override ([] :: (string \<times> 'a) list) is = None" for "is"
    by (induction "is") simp_all
  with None show ?thesis by (simp add: table_override_def apply_found_def)
qed (simp add: table_override_def find_override_first)

lemma table_override_cong:
  assumes "\<And>i. table_find t name i = table_find t' name i"
  shows "table_override True t app u name r = table_override True t' app u name r"
proof -
  have "hm_get (case hm_get t name of None \<Rightarrow> [] | Some m \<Rightarrow> m) i =
      hm_get (case hm_get t' name of None \<Rightarrow> [] | Some m \<Rightarrow> m) i" for i
    using assms [of i] by (simp add: table_find_def split: option.splits)
  from first_override_cong [OF this] show ?thesis by (simp add: table_override_find)
qed

lemma table_override_without_id:
  assumes "hm_get t key = None"
  shows "table_override True (table_put key None v t) app u key r = (True, mark_result_as_override (app v r))"
proof -
  have "first_override [(NO_ID_OVERRIDE, v)] (js @ [NO_ID_OVERRIDE]) = Some v" for js
    by (induction js) (auto simp: hm_get_Cons)
  from this [of "(case user_id_text u of None \<Rightarrow> [] | Some i \<Rightarrow> [i]) @ custom_id_texts u"] show ?thesis
    using assms by (simp add: table_override_find table_put_def apply_found_def id_or_default_def override_ids_def hm_insert_fresh)
qed

section \<open>Properties\<close>

text \<open>
  Precedence of local overrides. An override set for the user's id decides the gate, whatever
  else is in the store; an override set without an id decides it only when neither the user id nor a
  custom id has one; and the result is marked as overridden.
\<close>

theorem gate_override_precedence:
  assumes "user_id_text u = Some i"
  shows "get_gate_override True (override_gate True key v (Some i) st) u key r =
      (True, mark_result_as_override (r\<lparr>er_bool_value := v\<rparr>)) \<and>
    (i \<noteq> NO_ID_OVERRIDE \<and> table_find (os_gate st) key i = Some w \<longrightarrow>
      get_gate_override True (override_gate True key v None st) u key r =
        (True, mark_result_as_override (r\<lparr>er_bool_value := w\<rparr>))) \<and>
    ((\<forall>j \<in> set (i # custom_id_texts u). table_find (os_gate st) key j = None) \<longrightarrow>
      get_gate_override True (override_gate True key v None st) u key r =
        (True, mark_result_as_override (r\<lparr>er_bool_value := v\<rparr>)))"
proof -
  let ?m = "case hm_get (os_gate st) key of None \<Rightarrow> [] | Some m \<Rightarrow> m"
  have ids: "override_ids u = (i # custom_id_texts u) @ [NO_ID_OVERRIDE]"
    by (simp add: override_ids_def assms)
  have find: "hm_get ?m j = table_find (os_gate st) key j" for j
    by (simp add: table_find_def split: option.splits)
  have get: "get_gate_override True (override_gate True key v oi st) u key r =
      apply_found (first_override (hm_insert (id_or_default oi) v ?m) (override_ids u))
        (\<lambda>v res. res\<lparr>er_bool_value := v\<rparr>) r" for oi
    by (simp add: get_gate_override_def override_gate_def with_lock_def table_override_find table_put_def)
  have default: "first_override (hm_insert NO_ID_OVERRIDE v ?m) (js @ [NO_ID_OVERRIDE]) = Some v"
    if "\<forall>j \<in> set js. hm_get ?m j = None" for js
    using that by (induction js) auto
  show ?thesis
    using default [of "i # custom_id_texts u"]
    by (simp add: get ids apply_found_def id_or_default_def find)
qed

theorem gate_override_precedence_witness:
  "get_gate_override True (override_gate True ''g'' True (Some ''u1'') (override_gate True ''g'' False None os_new))
     (with_user_id sample_ext (UnitString ''u1'')) ''g'' er_default
   = (True, mark_result_as_override (er_default\<lparr>er_bool_value := True\<rparr>))"
  by (rule conjunct1 [OF gate_override_precedence])
    (simp add: user_id_text_def with_user_id_def dv_from_string_def)

text \<open>
  Setting an override for an id and removing it again leaves every lookup as it was, and
  removing without an id drops all overrides of that config.
\<close>

theorem remove_undoes_override:
  assumes "table_find (os_gate st) key i = None"
  shows "get_gate_override True (remove_gate_override True key (Some i) (override_gate True key v (Some i) st)) u name r
      = get_gate_override True st u name r \<and>
    get_gate_override True (remove_gate_override True key None st) u key r = (False, r)"
proof -
  have "table_override True (table_remove key (Some i) (table_put key (Some i) v (os_gate st))) app u name r =
      table_override True (os_gate st) app u name r" for app
    by (rule table_override_cong) (rule overrides.remove_undoes_put [OF assms])
  moreover have "table_override True (table_remove key None (os_gate st)) app u key r = (False, r)" for app
    by (simp add: table_remove_def table_override_def)
  ultimately show ?thesis
    by (simp add: get_gate_override_def remove_gate_override_def override_gate_def with_lock_def)
qed

theorem remove_undoes_override_witness:
  "get_gate_override True (remove_gate_override True ''g'' (Some ''u1'') (override_gate True ''g'' True (Some ''u1'') os_new))
     ud_default ''g'' er_default = get_gate_override True os_new ud_default ''g'' er_default"
  by (rule conjunct1 [OF remove_undoes_override]) (simp add: os_new_def overrides.find_empty)

lemma parameter_from_to_json: "parameter_from_json (parameter_to_json p) = Some p"
  by (cases p)
    (simp_all add: parameter_from_json_def parse_static_def parse_gate_param_def parse_named_param_def
      struct_fields_def hm_simps opt_string_json_def split: option.splits)

text \<open>
  A parameter written as JSON by a parameter-store override is read back as the same parameter:
  the variants of the untagged enum never shadow one another.
\<close>

theorem parameter_json_roundtrip: "parameter_from_json (parameter_to_json p) = Some p"
  by (rule parameter_from_to_json)

end
