(* ===== verification/Evaluator.thy ===== *)
theory Evaluator
  imports Cmab Comparisons Overrides
begin

text \<open>
  The evaluator, \<open>src/statsig-rust/src/evaluation/evaluator.rs\<close>. The functions of the file are
  mutually recursive through \<open>Evaluator::evaluate\<close>; each is a definition with that call as its
  argument \<open>rec\<close>, and \<open>evaluate\<close> ties the knot with fuel for the depth of the recursion.
\<close>

section \<open>Bucketing\<close>

definition evaluate_pass_percentage :: "eval_env \<Rightarrow> rule \<Rightarrow> string \<Rightarrow> bool ev" where
  "evaluate_pass_percentage en r spec_salt =
     (if f64_eq (ru_pass_percentage r) (Fin 100) then ev_return True
      else if f64_eq (ru_pass_percentage r) (Fin 0) then ev_return False
      else
        (let rule_salt = (case ru_salt r of Some s \<Rightarrow> s | None \<Rightarrow> ru_id r);
             unit_id = get_unit_id en (ru_id_type r)
         in ev_bind (ev_hash en (Dot3 spec_salt rule_salt unit_id)) (\<lambda>h.
              case h of
                Some hash \<Rightarrow> ev_return (f64_less (bucket_10000 hash) (f64_mul (ru_pass_percentage r) (Fin 100)))
              | None \<Rightarrow> ev_return False)))"

definition get_hash_for_user_bucket :: "eval_env \<Rightarrow> condition \<Rightarrow> dynamic_value ev" where
  "get_hash_for_user_bucket en c =
     (let unit_id = get_unit_id en (co_id_type c);
          salt = (case co_additional_values c of
                    None \<Rightarrow> []
                  | Some vals \<Rightarrow> (case hm_get vals ''salt'' of Some v \<Rightarrow> v | None \<Rightarrow> []))
      in ev_bind (ev_hash en (Dot2 salt unit_id)) (\<lambda>h.
           let hash = (case h of Some v \<Rightarrow> v | None \<Rightarrow> 1)
           in ev_return (dv_from_json (en_ext en) (JNumber (PosInt (unat hash mod 1000))))))"

section \<open>Id lists and experiment groups\<close>

definition is_in_id_list :: "eval_env \<Rightarrow> memo_value \<Rightarrow> dynamic_value \<Rightarrow> bool" where
  "is_in_id_list en target v =
     (case mv_string target of
        None \<Rightarrow> False
      | Some list_name \<Rightarrow>
          (case dv_string v of
             None \<Rightarrow> False
           | Some dyn_str \<Rightarrow>
               (let lookup_id = take 8 (hash_string (en_ext en) (ds_value dyn_str))
                in case en_id_list_resolver en of
                     MapLookup id_lists \<Rightarrow>
                       (case hm_get id_lists (ds_value list_name) of
                          None \<Rightarrow> False
                        | Some l \<Rightarrow> lookup_id \<in> il_ids l)
                   | Callback f \<Rightarrow> f (ds_value list_name) lookup_id)))"

definition evaluate_id_list :: "eval_env \<Rightarrow> string \<Rightarrow> memo_value \<Rightarrow> dynamic_value \<Rightarrow> bool" where
  "evaluate_id_list en op target v =
     (let is_in_list = is_in_id_list en target v
      in if op = ''not_in_segment_list'' then \<not> is_in_list else is_in_list)"

definition evaluate_experiment_group :: "eval_env \<Rightarrow> dynamic_string option \<Rightarrow> string option ev" where
  "evaluate_experiment_group en experiment_name =
     (case experiment_name of
        None \<Rightarrow> ev_return None
      | Some exp_name \<Rightarrow>
          (case en_statsig en of
             None \<Rightarrow> ev_bind set_unsupported (\<lambda>_. ev_return None)
           | Some group_of \<Rightarrow>
               ev_return (group_of (su_data (en_user en)) (ds_value exp_name) (en_disable_exposure_logging en))))"

section \<open>Nested gates\<close>

definition nested_gate_name :: "memo_value \<Rightarrow> string" where
  "nested_gate_name target = (case mv_string target of Some s \<Rightarrow> ds_value s | None \<Rightarrow> [])"

text \<open>The part after the gate's value is known: the exposure, and the negation for \<open>fail_gate\<close>.\<close>

definition record_nested_gate :: "string \<Rightarrow> evaluator_result \<Rightarrow> evaluator_result" where
  "record_nested_gate gate_name r =
     (let is_empty_rule_id = (case er_rule_id r of Some i \<Rightarrow> i = [] | None \<Rightarrow> True)
      in if \<not> str_starts_with gate_name ''segment:'' \<and> \<not> is_empty_rule_id then
           push_exposure
             \<lparr>se_gate = gate_name, se_gate_value = bool_to_string (er_bool_value r),
              se_rule_id = opt_string_or_empty (er_rule_id r)\<rparr>
             (if er_sampling_rate r = None then r\<lparr>er_has_seen_analytical_gates := Some True\<rparr> else r)
         else r)"

definition finish_nested_gate :: "string \<Rightarrow> string \<Rightarrow> unit ev" where
  "finish_nested_gate gate_name condition_type =
     ev_bind (ev_result (record_nested_gate gate_name)) (\<lambda>_.
       if condition_type = ''fail_gate'' then ev_result (\<lambda>r. r\<lparr>er_bool_value := \<not> er_bool_value r\<rparr>)
       else ev_return ())"

definition memo_insert :: "string \<Rightarrow> unit ev" where
  "memo_insert gate_name s =
     Ok () (s\<lparr>st_nested_gate_memo := hm_insert gate_name
       (er_bool_value (st_result s), er_rule_id (st_result s), er_secondary_exposures (st_result s))
       (st_nested_gate_memo s)\<rparr>)"

definition evaluate_nested_gate :: "eval_rec \<Rightarrow> memo_value \<Rightarrow> string \<Rightarrow> unit ev" where
  "evaluate_nested_gate rec target condition_type =
     (let gate_name = nested_gate_name target
      in ev_bind (ev_get (\<lambda>s. hm_get (st_nested_gate_memo s) gate_name)) (\<lambda>memo.
           case memo of
             Some (previous_bool, previous_rule_id, previous_exposures) \<Rightarrow>
               ev_bind (ev_result (\<lambda>r. r\<lparr>er_bool_value := previous_bool, er_rule_id := previous_rule_id,
                   er_secondary_exposures := er_secondary_exposures r @ previous_exposures\<rparr>))
                 (\<lambda>_. finish_nested_gate gate_name condition_type)
           | None \<Rightarrow>
               ev_bind prep_for_nested_evaluation (\<lambda>_.
               ev_bind (ev_get (\<lambda>s. er_secondary_exposures (st_result s))) (\<lambda>current_exposures.
               ev_bind (ev_result (\<lambda>r. r\<lparr>er_secondary_exposures := []\<rparr>)) (\<lambda>_.
               ev_bind (rec gate_name Gate) (\<lambda>_.
               ev_bind ev_unsupported (\<lambda>unsupported.
                 if unsupported then ev_return ()
                 else
                   ev_bind (if gate_name \<noteq> [] then memo_insert gate_name else ev_return ()) (\<lambda>_.
                   ev_bind (ev_result (\<lambda>r. r\<lparr>er_secondary_exposures := current_exposures @ er_secondary_exposures r\<rparr>)) (\<lambda>_.
                     finish_nested_gate gate_name condition_type)))))))))"

section \<open>Conditions and rules\<close>

text \<open>
  The value a condition looks at. The outer \<open>None\<close> is an early return of \<open>evaluate_condition\<close>; the
  inner one is the missing value, which the operators see as the empty value.
\<close>

definition with_reason :: "dynamic_value option \<times> string option \<Rightarrow> dynamic_value option option ev" where
  "with_reason vr =
     (case snd vr of
        None \<Rightarrow> ev_return (Some (fst vr))
      | Some reason \<Rightarrow>
          ev_bind (ev_result (\<lambda>r. r\<lparr>er_override_reason := Some reason\<rparr>)) (\<lambda>_. ev_return (Some (fst vr))))"

definition condition_value :: "eval_env \<Rightarrow> eval_rec \<Rightarrow> memo_value \<Rightarrow> condition \<Rightarrow> dynamic_value option option ev" where
  "condition_value en rec target c =
     (let ct = co_type c; user = en_user en
      in if ct = ''public'' then ev_bind (set_bool True) (\<lambda>_. ev_return None)
         else if ct = ''fail_gate'' \<or> ct = ''pass_gate'' then
           ev_bind (evaluate_nested_gate rec target ct) (\<lambda>_. ev_return None)
         else if ct = ''experiment_group'' then
           ev_bind (evaluate_experiment_group en (co_field c)) (\<lambda>g.
             ev_return (Some (map_option (dv_from_string (en_ext en)) g)))
         else if ct = ''ua_based'' then
           (case get_user_value user (co_field c) of
              Some v \<Rightarrow> ev_return (Some (Some v))
            | None \<Rightarrow> with_reason (en_user_agent en user (co_field c) (en_third_party_parser en)))
         else if ct = ''ip_based'' then
           (case get_user_value user (co_field c) of
              Some v \<Rightarrow> ev_return (Some (Some v))
            | None \<Rightarrow>
                ev_bind (ev_unwrap (get_value_from_ip (en_ext en) (en_country_lock en) (en_country_table en) user (co_field c)))
                  with_reason)
         else if ct = ''user_field'' then ev_return (Some (get_user_value user (co_field c)))
         else if ct = ''environment_field'' then ev_return (Some (get_value_from_environment user (co_field c)))
         else if ct = ''current_time'' then
           ev_bind (ev_clock en) (\<lambda>now. ev_return (Some (Some (dv_for_timestamp_evaluation now))))
         else if ct = ''user_bucket'' then
           ev_bind (get_hash_for_user_bucket en c) (\<lambda>v. ev_return (Some (Some v)))
         else if ct = ''target_app'' then ev_return (Some (en_app_id en))
         else if ct = ''unit_id'' then ev_return (Some (user_unit_id (su_data user) (co_id_type c)))
         else ev_bind set_unsupported (\<lambda>_. ev_return None))"

text \<open>The operators; the outer \<open>None\<close> is an unknown operator, the inner one a panic.\<close>

definition apply_operator :: "eval_env \<Rightarrow> string \<Rightarrow> dynamic_value \<Rightarrow> memo_value \<Rightarrow> bool option option" where
  "apply_operator en op v target =
     (let x = en_ext en
      in if op \<in> {''gt'', ''gte'', ''lt'', ''lte''} then Some (Some (compare_numbers v target op))
         else if op \<in> {''version_gt'', ''version_gte'', ''version_lt'', ''version_lte'', ''version_eq'', ''version_neq''}
           then Some (Some (compare_versions v target op))
         else if op \<in> {''any'', ''none'', ''str_starts_with_any'', ''str_ends_with_any'', ''str_contains_any'', ''str_contains_none''}
           then Some (Some (compare_strings_in_array x v target op True))
         else if op \<in> {''any_case_sensitive'', ''none_case_sensitive''}
           then Some (Some (compare_strings_in_array x v target op False))
         else if op = ''str_matches'' then Some (Some (compare_str_with_regex x v target))
         else if op \<in> {''before'', ''after'', ''on''} then Some (compare_time x v target op)
         else if op = ''eq'' then Some (is_equal_to_dynamic_value target v)
         else if op = ''neq'' then Some (map_option Not (is_equal_to_dynamic_value target v))
         else if op \<in> {''in_segment_list'', ''not_in_segment_list''} then Some (Some (evaluate_id_list en op target v))
         else if op \<in> {''array_contains_any'', ''array_contains_none'', ''array_contains_all'', ''not_array_contains_all''}
           then Some (Some (compare_arrays v target op))
         else None)"

definition evaluate_condition :: "eval_env \<Rightarrow> eval_rec \<Rightarrow> condition \<Rightarrow> unit ev" where
  "evaluate_condition en rec c =
     (let target = (case co_target_value c of Some t \<Rightarrow> t | None \<Rightarrow> mv_empty)
      in ev_bind (condition_value en rec target c) (\<lambda>found.
           case found of
             None \<Rightarrow> ev_return ()
           | Some opt_value \<Rightarrow>
               (let v = (case opt_value of Some dv \<Rightarrow> dv | None \<Rightarrow> dv_new)
                in case co_operator c of
                     None \<Rightarrow> set_unsupported
                   | Some op \<Rightarrow>
                       (case apply_operator en op v target of
                          None \<Rightarrow> set_unsupported
                        | Some res \<Rightarrow> ev_bind (ev_unwrap res) set_bool))))"

fun conditions_loop :: "eval_env \<Rightarrow> eval_rec \<Rightarrow> bool \<Rightarrow> string list \<Rightarrow> unit ev" where
  "conditions_loop en rec all_conditions_pass [] = set_bool all_conditions_pass"
| "conditions_loop en rec all_conditions_pass (condition_hash # rest) =
     (case hm_get (sr_condition_map (en_specs_data en)) condition_hash of
        None \<Rightarrow> set_unsupported
      | Some c \<Rightarrow>
          ev_bind (evaluate_condition en rec c) (\<lambda>_.
          ev_bind ev_bool (\<lambda>b. conditions_loop en rec (all_conditions_pass \<and> b) rest)))"

definition evaluate_rule :: "eval_env \<Rightarrow> eval_rec \<Rightarrow> rule \<Rightarrow> unit ev" where
  "evaluate_rule en rec r = conditions_loop en rec True (ru_conditions r)"

section \<open>Delegates, overrides and config mappings\<close>

definition evaluate_config_delegate :: "eval_env \<Rightarrow> eval_rec \<Rightarrow> rule \<Rightarrow> bool ev" where
  "evaluate_config_delegate en rec r =
     (case ru_config_delegate r of
        None \<Rightarrow> ev_return False
      | Some delegate \<Rightarrow>
          (case hm_get (sr_dynamic_configs (en_specs_data en)) delegate of
             None \<Rightarrow> ev_return False
           | Some delegate_spec \<Rightarrow>
               ev_bind (ev_result (\<lambda>q. q\<lparr>er_undelegated_secondary_exposures := Some (er_secondary_exposures q)\<rparr>)) (\<lambda>_.
               ev_bind prep_for_nested_evaluation (\<lambda>_.
               ev_bind (rec delegate Experiment) (\<lambda>recognition.
                 if recognition = Unrecognized
                 then ev_bind (ev_result (\<lambda>q. q\<lparr>er_undelegated_secondary_exposures := None\<rparr>)) (\<lambda>_. ev_return False)
                 else
                   ev_bind (ev_result (\<lambda>q. q\<lparr>er_explicit_parameters := sp_explicit_parameters delegate_spec,
                       er_config_delegate := ru_config_delegate r\<rparr>)) (\<lambda>_. ev_return True))))))"

definition try_apply_override :: "eval_env \<Rightarrow> string \<Rightarrow> spec_type \<Rightarrow> spec option \<Rightarrow> bool ev" where
  "try_apply_override en name st opt_spec s =
     (case en_override_adapter en of
        None \<Rightarrow> Ok False s
      | Some oa \<Rightarrow>
          (let u = su_data (en_user en);
               (found, r) =
                 (case st of
                    Gate \<Rightarrow> oa_gate oa u name (st_result s)
                  | DynamicConfig \<Rightarrow> oa_dynamic_config oa u name (st_result s)
                  | Experiment \<Rightarrow> oa_experiment oa u name opt_spec (st_result s)
                  | Layer \<Rightarrow> oa_layer oa u name (st_result s)
                  | ParameterStore \<Rightarrow> oa_parameter_store oa u name (st_result s))
           in Ok found (s\<lparr>st_result := r\<rparr>)))"

fun mapping_rules_loop ::
    "eval_env \<Rightarrow> eval_rec \<Rightarrow> (string, rule) HashMap \<Rightarrow> spec_type \<Rightarrow> string \<Rightarrow> string \<Rightarrow> override_rule list \<Rightarrow> bool ev" where
  "mapping_rules_loop en rec override_rules st spec_salt new_config_name [] = ev_return False"
| "mapping_rules_loop en rec override_rules st spec_salt new_config_name (o_rule # rest) =
     ev_bind (ev_clock en) (\<lambda>now.
       if now < (case ov_start_time o_rule of Some t \<Rightarrow> t | None \<Rightarrow> 0)
       then mapping_rules_loop en rec override_rules st spec_salt new_config_name rest
       else case hm_get override_rules (ov_rule_name o_rule) of
           None \<Rightarrow> mapping_rules_loop en rec override_rules st spec_salt new_config_name rest
         | Some r \<Rightarrow>
             ev_match (evaluate_rule en rec r)
               (\<lambda>_. ev_bind ev_bool (\<lambda>b. ev_bind ev_unsupported (\<lambda>unsupported.
                 ev_bind reset_result (\<lambda>_.
                   if \<not> b \<or> unsupported
                   then mapping_rules_loop en rec override_rules st spec_salt new_config_name rest
                   else ev_bind (evaluate_pass_percentage en r spec_salt) (\<lambda>pass.
                     if pass then
                       ev_bind (ev_result (\<lambda>q. q\<lparr>er_override_config_name := Some new_config_name\<rparr>)) (\<lambda>_.
                         ev_match (rec new_config_name st)
                           (\<lambda>recognition.
                             if recognition = Recognized then ev_return True
                             else ev_bind reset_result (\<lambda>_. ev_return False))
                           (ev_bind reset_result (\<lambda>_. ev_return False)))
                     else mapping_rules_loop en rec override_rules st spec_salt new_config_name rest)))))
               (ev_bind reset_result (\<lambda>_.
                 mapping_rules_loop en rec override_rules st spec_salt new_config_name rest)))"

fun mappings_loop ::
    "eval_env \<Rightarrow> eval_rec \<Rightarrow> (string, rule) HashMap \<Rightarrow> spec_type \<Rightarrow> string \<Rightarrow> config_mapping list \<Rightarrow> bool ev" where
  "mappings_loop en rec override_rules st spec_salt [] = ev_return False"
| "mappings_loop en rec override_rules st spec_salt (m # ms) =
     ev_bind (mapping_rules_loop en rec override_rules st spec_salt (cm_new_config_name m) (cm_rules m)) (\<lambda>found.
       if found then ev_return True else mappings_loop en rec override_rules st spec_salt ms)"

definition try_apply_config_mapping :: "eval_env \<Rightarrow> eval_rec \<Rightarrow> string \<Rightarrow> spec_type \<Rightarrow> spec option \<Rightarrow> bool ev" where
  "try_apply_config_mapping en rec name st opt_spec =
     (case sr_overrides (en_specs_data en) of
        None \<Rightarrow> ev_return False
      | Some overrides \<Rightarrow>
          (case sr_override_rules (en_specs_data en) of
             None \<Rightarrow> ev_return False
           | Some override_rules \<Rightarrow>
               (case hm_get overrides name of
                  None \<Rightarrow> ev_return False
                | Some mapping_list \<Rightarrow>
                    mappings_loop en rec override_rules st
                      (case opt_spec of Some sp \<Rightarrow> sp_salt sp | None \<Rightarrow> []) mapping_list)))"

section \<open>Rule filters\<close>

definition rule_matches_filter :: "eval_env \<Rightarrow> rule \<Rightarrow> bool" where
  "rule_matches_filter en r \<longleftrightarrow>
     en_only_evaluate_targeting en \<and> is_targeting_rule r \<or> en_only_evaluate_overrides en \<and> is_override_rule r"

definition spec_has_filtered_rule :: "eval_env \<Rightarrow> spec \<Rightarrow> bool" where
  "spec_has_filtered_rule en sp = list_ex (rule_matches_filter en) (sp_rules sp)"

definition filter_active :: "eval_env \<Rightarrow> eval_state \<Rightarrow> bool" where
  "filter_active en s \<longleftrightarrow> st_nested_count s = 0 \<and> (en_only_evaluate_targeting en \<or> en_only_evaluate_overrides en)"

section \<open>Layers with parameter-wise evaluation\<close>

text \<open>The first writer of a parameter wins, and the rule that wrote it is remembered.\<close>

fun update_parameters :: "(string \<times> json) list \<Rightarrow> string \<Rightarrow> (string, json) HashMap \<times> (string, string) HashMap \<Rightarrow>
    (string, json) HashMap \<times> (string, string) HashMap" where
  "update_parameters [] rule_id (vals, rule_ids) = (vals, rule_ids)"
| "update_parameters ((k, v) # rest) rule_id (vals, rule_ids) =
     (if hm_contains vals k then update_parameters rest rule_id (vals, rule_ids)
      else update_parameters rest rule_id (hm_insert k v vals, hm_insert k rule_id rule_ids))"

definition update_parameter_values :: "(string, json) HashMap option \<Rightarrow> string \<Rightarrow>
    (string, json) HashMap \<times> (string, string) HashMap \<Rightarrow> (string, json) HashMap \<times> (string, string) HashMap" where
  "update_parameter_values to_apply rule_id vr =
     (case to_apply of None \<Rightarrow> vr | Some m \<Rightarrow> update_parameters m rule_id vr)"

record layer_acc =
  la_has_passed_rule :: bool
  la_passed :: bool
  la_rule_id :: string
  la_delegate_name :: "string option"
  la_values :: "(string, json) HashMap \<times> (string, string) HashMap"
  la_group_name :: "string option"
  la_is_experiment_group :: bool
  la_explicit_parameters :: "explicit_parameters option"
  la_secondary_exposures :: "secondary_exposure list"
  la_undelegated :: "secondary_exposure list"

definition la_new :: layer_acc where
  "la_new = \<lparr>la_has_passed_rule = False, la_passed = False, la_rule_id = ''default'', la_delegate_name = None,
     la_values = ([], []), la_group_name = None, la_is_experiment_group = False,
     la_explicit_parameters = None, la_secondary_exposures = [], la_undelegated = []\<rparr>"

text \<open>
  \<open>append(&mut v)\<close> moves the elements out of \<open>v\<close>, so the second append of the loop finds it empty.
\<close>

definition take_exposures :: "secondary_exposure list ev" where
  "take_exposures =
     ev_bind (ev_get (\<lambda>s. er_secondary_exposures (st_result s))) (\<lambda>es.
     ev_bind (ev_result (\<lambda>r. r\<lparr>er_secondary_exposures := []\<rparr>)) (\<lambda>_. ev_return es))"

definition reuses_parameter :: "(string, json) HashMap option \<Rightarrow> (string, json) HashMap \<Rightarrow> bool" where
  "reuses_parameter delegate_value vals =
     (case delegate_value of None \<Rightarrow> False | Some m \<Rightarrow> list_ex (hm_contains vals) (hm_keys m))"

text \<open>The branch of the loop for a rule that delegates; \<open>None\<close> is its \<open>continue\<close>.\<close>

definition delegated_layer_rule :: "rule \<Rightarrow> layer_acc \<Rightarrow> layer_acc option ev" where
  "delegated_layer_rule r acc =
     (if la_has_passed_rule acc then ev_return None
      else ev_bind (ev_get st_result) (\<lambda>res.
        case er_json_value res of
          None \<Rightarrow> ev_return None
        | Some val \<Rightarrow>
            (let delegate_value = dr_get_json val
             in if reuses_parameter delegate_value (fst (la_values acc)) then ev_return None
                else ev_bind take_exposures (\<lambda>es.
                  ev_return (Some (acc\<lparr>
                    la_values := update_parameter_values delegate_value (ru_id r) (la_values acc),
                    la_secondary_exposures := la_secondary_exposures acc @ es,
                    la_passed := er_bool_value res,
                    la_delegate_name := er_config_delegate res,
                    la_group_name := er_group_name res,
                    la_rule_id := ru_id r,
                    la_is_experiment_group := (case ru_is_experiment_group r of Some b \<Rightarrow> b | None \<Rightarrow> False),
                    la_explicit_parameters := er_explicit_parameters res,
                    la_has_passed_rule := True\<rparr>))))))"

definition plain_layer_rule :: "rule \<Rightarrow> layer_acc \<Rightarrow> layer_acc ev" where
  "plain_layer_rule r acc =
     ev_bind ev_bool (\<lambda>b. ev_return (acc\<lparr>la_passed := b,
       la_values := update_parameter_values (dr_get_json (ru_return_value r)) (ru_id r) (la_values acc),
       la_has_passed_rule := True\<rparr>))"

text \<open>The loop over the rules; \<open>None\<close> is the early return for an unsupported rule.\<close>

fun layer_rules_loop :: "eval_env \<Rightarrow> eval_rec \<Rightarrow> bool \<Rightarrow> string \<Rightarrow> layer_acc \<Rightarrow> rule list \<Rightarrow> layer_acc option ev" where
  "layer_rules_loop en rec filtering salt acc [] = ev_return (Some acc)"
| "layer_rules_loop en rec filtering salt acc (r # rest) =
     (if filtering \<and> \<not> rule_matches_filter en r then layer_rules_loop en rec filtering salt acc rest
      else
        ev_bind (evaluate_rule en rec r) (\<lambda>_.
        ev_bind take_exposures (\<lambda>es.
        ev_bind take_exposures (\<lambda>undelegated.
          let acc1 = acc\<lparr>la_secondary_exposures := la_secondary_exposures acc @ es,
                         la_undelegated := la_undelegated acc @ undelegated\<rparr>
          in ev_bind ev_unsupported (\<lambda>unsupported.
               if unsupported then ev_return None
               else ev_bind ev_bool (\<lambda>b.
                 if \<not> b then layer_rules_loop en rec filtering salt acc1 rest
                 else ev_bind (evaluate_pass_percentage en r salt) (\<lambda>did_pass.
                   if \<not> did_pass then layer_rules_loop en rec filtering salt acc1 rest
                   else ev_bind (evaluate_config_delegate en rec r) (\<lambda>delegated.
                     if delegated then
                       ev_bind (delegated_layer_rule r acc1) (\<lambda>acc2.
                         layer_rules_loop en rec filtering salt
                           (case acc2 of Some a \<Rightarrow> a | None \<Rightarrow> acc1) rest)
                     else ev_bind (plain_layer_rule r acc1) (\<lambda>acc2.
                       layer_rules_loop en rec filtering salt acc2 rest)))))))))"

definition layer_result :: "ext \<Rightarrow> spec \<Rightarrow> layer_acc \<Rightarrow> evaluator_result \<Rightarrow> evaluator_result" where
  "layer_result x sp acc r =
     (let (vals, rule_ids) = update_parameter_values (dr_get_json (sp_default_value sp)) ''default'' (la_values acc)
      in r\<lparr>er_bool_value := la_passed acc,
           er_config_delegate := la_delegate_name acc,
           er_group_name := la_group_name acc,
           er_rule_id := Some (la_rule_id acc),
           er_json_value := Some (dr_from_map x vals),
           er_is_experiment_group := la_is_experiment_group acc,
           er_is_experiment_active := (case sp_is_active sp of Some b \<Rightarrow> b | None \<Rightarrow> False),
           er_explicit_parameters := la_explicit_parameters acc,
           er_secondary_exposures := la_secondary_exposures acc,
           er_undelegated_secondary_exposures := Some (la_undelegated acc),
           er_parameter_rule_ids := Some rule_ids\<rparr>)"

definition new_layer_eval :: "eval_env \<Rightarrow> eval_rec \<Rightarrow> spec \<Rightarrow> recognition ev" where
  "new_layer_eval en rec sp =
     ev_bind (ev_get (filter_active en)) (\<lambda>filtering.
       if filtering \<and> \<not> spec_has_filtered_rule en sp then
         ev_bind (set_bool False) (\<lambda>_. ev_bind (finalize_evaluation sp None) (\<lambda>_. ev_return Recognized))
       else
         ev_bind (layer_rules_loop en rec filtering (sp_salt sp) la_new (sp_rules sp)) (\<lambda>acc.
           case acc of
             None \<Rightarrow> ev_return Recognized
           | Some a \<Rightarrow>
               ev_bind (ev_result (layer_result (en_ext en) sp a)) (\<lambda>_.
               ev_bind (finalize_evaluation sp None) (\<lambda>_. ev_return Recognized))))"

section \<open>Evaluate\<close>

definition evaluate_param_store_reason :: "eval_env \<Rightarrow> string \<Rightarrow> recognition ev" where
  "evaluate_param_store_reason en name =
     (case sr_param_stores (en_specs_data en) of
        None \<Rightarrow> ev_return Unrecognized
      | Some stores \<Rightarrow> ev_return (if hm_get stores name \<noteq> None then Recognized else Unrecognized))"

definition find_spec :: "eval_env \<Rightarrow> string \<Rightarrow> spec_type \<Rightarrow> spec option" where
  "find_spec en name st =
     (case st of
        Gate \<Rightarrow> hm_get (sr_feature_gates (en_specs_data en)) name
      | DynamicConfig \<Rightarrow> hm_get (sr_dynamic_configs (en_specs_data en)) name
      | Experiment \<Rightarrow> hm_get (sr_dynamic_configs (en_specs_data en)) name
      | Layer \<Rightarrow> hm_get (sr_layer_configs (en_specs_data en)) name
      | ParameterStore \<Rightarrow> None)"

definition init_result :: "string \<Rightarrow> spec \<Rightarrow> evaluator_result \<Rightarrow> evaluator_result" where
  "init_result name sp r =
     r\<lparr>er_name := opt_else (er_name r) (Some name),
       er_id_type := opt_else (er_id_type r) (Some (sp_id_type sp)),
       er_version := opt_else (er_version r) (sp_version sp),
       er_is_experiment_active := (case sp_is_active sp of Some b \<Rightarrow> b | None \<Rightarrow> er_is_experiment_active r),
       er_is_in_layer := (case sp_has_shared_params sp of Some b \<Rightarrow> b | None \<Rightarrow> er_is_in_layer r),
       er_explicit_parameters := opt_else (sp_explicit_parameters sp) (er_explicit_parameters r)\<rparr>"

definition rule_result :: "spec \<Rightarrow> rule \<Rightarrow> bool \<Rightarrow> evaluator_result \<Rightarrow> evaluator_result" where
  "rule_result sp ru did_pass r =
     r\<lparr>er_bool_value :=
         (if did_pass then dr_get_bool (ru_return_value ru) \<noteq> Some False
          else dr_get_bool (sp_default_value sp) = Some True),
       er_json_value := Some (if did_pass then ru_return_value ru else sp_default_value sp),
       er_rule_id := Some (ru_id ru),
       er_group_name := ru_group_name ru,
       er_is_experiment_group := (case ru_is_experiment_group ru of Some b \<Rightarrow> b | None \<Rightarrow> False),
       er_is_experiment_active := (case sp_is_active sp of Some b \<Rightarrow> b | None \<Rightarrow> False)\<rparr>"

definition default_result :: "spec \<Rightarrow> evaluator_result \<Rightarrow> evaluator_result" where
  "default_result sp r =
     r\<lparr>er_bool_value := (dr_get_bool (sp_default_value sp) = Some True),
       er_json_value := Some (sp_default_value sp),
       er_rule_id := Some (if sp_enabled sp then ''default'' else ''disabled'')\<rparr>"

fun rules_loop :: "eval_env \<Rightarrow> eval_rec \<Rightarrow> bool \<Rightarrow> spec \<Rightarrow> rule list \<Rightarrow> recognition ev" where
  "rules_loop en rec filtering sp [] =
     ev_bind (ev_result (default_result sp)) (\<lambda>_.
     ev_bind (finalize_evaluation sp None) (\<lambda>_. ev_return Recognized))"
| "rules_loop en rec filtering sp (r # rest) =
     (if filtering \<and> \<not> rule_matches_filter en r then rules_loop en rec filtering sp rest
      else
        ev_bind (evaluate_rule en rec r) (\<lambda>_.
        ev_bind ev_unsupported (\<lambda>unsupported.
          if unsupported then ev_return Recognized
          else ev_bind ev_bool (\<lambda>b.
            if \<not> b then rules_loop en rec filtering sp rest
            else ev_bind (evaluate_config_delegate en rec r) (\<lambda>delegated.
              if delegated then ev_bind (finalize_evaluation sp None) (\<lambda>_. ev_return Recognized)
              else ev_bind (evaluate_pass_percentage en r (sp_salt sp)) (\<lambda>did_pass.
                ev_bind (ev_result (rule_result sp r did_pass)) (\<lambda>_.
                ev_bind (finalize_evaluation sp (Some r)) (\<lambda>_. ev_return Recognized))))))))"

definition evaluate_spec :: "eval_env \<Rightarrow> eval_rec \<Rightarrow> bool \<Rightarrow> string \<Rightarrow> spec_type \<Rightarrow> spec \<Rightarrow> recognition ev" where
  "evaluate_spec en rec filtering name st sp =
     ev_bind (ev_result (init_result name sp)) (\<lambda>_.
       if sp_use_new_layer_eval sp = Some True \<and> st = Layer then new_layer_eval en rec sp
       else if filtering \<and> \<not> spec_has_filtered_rule en sp then
         ev_bind (set_bool False) (\<lambda>_. ev_bind (finalize_evaluation sp None) (\<lambda>_. ev_return Recognized))
       else rules_loop en rec filtering sp (sp_rules sp))"

text \<open>The checks before the spec itself: overrides, config mapping and bandits.\<close>

definition try_shortcuts :: "eval_env \<Rightarrow> eval_rec \<Rightarrow> string \<Rightarrow> spec_type \<Rightarrow> spec option \<Rightarrow> bool ev" where
  "try_shortcuts en rec name st opt_spec =
     ev_bind (try_apply_override en name st opt_spec) (\<lambda>overridden.
       if overridden then ev_return True
       else ev_bind (try_apply_config_mapping en rec name st opt_spec) (\<lambda>mapped.
         if mapped then ev_return True else evaluate_cmab en rec name st))"

definition evaluate_body :: "eval_env \<Rightarrow> eval_rec \<Rightarrow> eval_rec" where
  "evaluate_body en rec name st =
     ev_bind (ev_get (filter_active en)) (\<lambda>filtering.
       if st = ParameterStore then evaluate_param_store_reason en name
       else
         ev_bind (if filtering then ev_return False else try_shortcuts en rec name st (find_spec en name st)) (\<lambda>found.
           if found then ev_return Recognized
           else case find_spec en name st of
               None \<Rightarrow> ev_return Unrecognized
             | Some sp \<Rightarrow> evaluate_spec en rec filtering name st sp))"

fun evaluate :: "eval_env \<Rightarrow> nat \<Rightarrow> eval_rec" where
  "evaluate en 0 name st s = OutOfFuel"
| "evaluate en (Suc n) name st s = evaluate_body en (evaluate en n) name st s"

end
