(* ===== verification/Eval_Contract.thy ===== *)
theory Eval_Contract
  imports Evaluator
begin

text \<open>
  What the evaluator needs of its own recursive call. A simulation \<open>sim\<close> relates two runs of the
  evaluator; the locale \<open>eval_contract\<close> lists what the relation and the nested evaluation have to
  satisfy, and derives the same for every function of the evaluator. Three instances
  follow: the depth of the recursion (how much fuel is enough), more fuel than enough (it changes
  nothing) and the contents of the hash cache (they do not matter).
\<close>

section \<open>Simulations\<close>

type_synonym srel = "eval_state \<Rightarrow> eval_state \<Rightarrow> bool"

text \<open>From states related by \<open>R\<close> both computations give the same value in states related by \<open>S\<close>, or the
  same error in states related by \<open>E\<close>, or both panic; the first may run out of fuel when \<open>fuel\<close> allows it.\<close>

definition out_rel :: "bool \<Rightarrow> srel \<Rightarrow> srel \<Rightarrow> 'a outcome \<Rightarrow> 'a outcome \<Rightarrow> bool" where
  "out_rel fuel S E o1 o2 \<longleftrightarrow>
     (case o1 of
        Ok a s \<Rightarrow> (case o2 of Ok b t \<Rightarrow> a = b \<and> S s t | _ \<Rightarrow> False)
      | Err e s \<Rightarrow> (case o2 of Err e' t \<Rightarrow> e = e' \<and> E s t | _ \<Rightarrow> False)
      | Panic \<Rightarrow> o2 = Panic
      | OutOfFuel \<Rightarrow> fuel)"

definition sim :: "bool \<Rightarrow> srel \<Rightarrow> srel \<Rightarrow> srel \<Rightarrow> 'a ev \<Rightarrow> 'a ev \<Rightarrow> bool" where
  "sim fuel R S E m m' \<longleftrightarrow> (\<forall>s t. R s t \<longrightarrow> out_rel fuel S E (m s) (m' t))"

lemma out_rel_simps:
  "out_rel f S E (Ok a s) o2 \<longleftrightarrow> (\<exists>t. o2 = Ok a t \<and> S s t)"
  "out_rel f S E (Err e s) o2 \<longleftrightarrow> (\<exists>t. o2 = Err e t \<and> E s t)"
  "out_rel f S E Panic o2 \<longleftrightarrow> o2 = Panic"
  "out_rel f S E OutOfFuel o2 \<longleftrightarrow> f"
  by (cases o2; force simp: out_rel_def)+

lemma sim_bind:
  assumes "sim f R R' E m m'" "\<And>a. sim f R' S E (g a) (g' a)"
  shows "sim f R S E (ev_bind m g) (ev_bind m' g')"
  unfolding sim_def
proof (intro allI impI)
  fix s t assume "R s t"
  then have m: "out_rel f R' E (m s) (m' t)" using assms(1) by (simp add: sim_def)
  have g: "out_rel f S E (g a s') (g' a t')" if "R' s' t'" for a s' t'
    using assms(2) that by (simp add: sim_def)
  show "out_rel f S E (ev_bind m g s) (ev_bind m' g' t)"
    using m by (cases "m s") (auto simp: ev_bind_def out_rel_simps g)
qed

lemma sim_match:
  assumes "sim f R R' E' m m'" "\<And>a. sim f R' S E (g a) (g' a)" "sim f E' S E h h'"
  shows "sim f R S E (ev_match m g h) (ev_match m' g' h')"
  unfolding sim_def
proof (intro allI impI)
  fix s t assume "R s t"
  then have m: "out_rel f R' E' (m s) (m' t)" using assms(1) by (simp add: sim_def)
  have g: "out_rel f S E (g a s') (g' a t')" if "R' s' t'" for a s' t'
    using assms(2) that by (simp add: sim_def)
  have h: "out_rel f S E (h s') (h' t')" if "E' s' t'" for s' t'
    using assms(3) that by (simp add: sim_def)
  show "out_rel f S E (ev_match m g h s) (ev_match m' g' h' t)"
    using m by (cases "m s") (auto simp: ev_match_def out_rel_simps g h)
qed

lemma sim_weaken:
  assumes "sim f R' S' E' m m'" "\<And>s t. R s t \<Longrightarrow> R' s t" "\<And>s t. S' s t \<Longrightarrow> S s t" "\<And>s t. E' s t \<Longrightarrow> E s t"
  shows "sim f R S E m m'"
  unfolding sim_def
proof (intro allI impI)
  fix s t assume "R s t"
  then have "out_rel f S' E' (m s) (m' t)" using assms(1,2) by (simp add: sim_def)
  then show "out_rel f S E (m s) (m' t)"
    using assms(3,4) by (cases "m s") (auto simp: out_rel_simps)
qed

lemma sim_if:
  "(b \<Longrightarrow> sim f R S E m m') \<Longrightarrow> (\<not> b \<Longrightarrow> sim f R S E k k') \<Longrightarrow>
   sim f R S E (if b then m else k) (if b then m' else k')"
  by simp

lemma sim_option:
  "(v = None \<Longrightarrow> sim f R S E m m') \<Longrightarrow> (\<And>a. v = Some a \<Longrightarrow> sim f R S E (k a) (k' a)) \<Longrightarrow>
   sim f R S E (case v of None \<Rightarrow> m | Some a \<Rightarrow> k a) (case v of None \<Rightarrow> m' | Some a \<Rightarrow> k' a)"
  by (cases v) simp_all

lemma sim_pair:
  "(\<And>a b. p = (a, b) \<Longrightarrow> sim f R S E (m a b) (m' a b)) \<Longrightarrow>
   sim f R S E (case p of (a, b) \<Rightarrow> m a b) (case p of (a, b) \<Rightarrow> m' a b)"
  by (cases p) simp

lemma sim_return: "(\<And>s t. R s t \<Longrightarrow> S s t) \<Longrightarrow> sim f R S E (ev_return a) (ev_return a)"
  by (simp add: sim_def out_rel_def ev_return_def)

lemma sim_panic: "sim f R S E ev_panic ev_panic"
  by (simp add: sim_def out_rel_def ev_panic_def)

lemma sim_unwrap: "(\<And>s t. R s t \<Longrightarrow> S s t) \<Longrightarrow> sim f R S E (ev_unwrap v) (ev_unwrap v)"
  by (simp add: ev_unwrap_def sim_return sim_panic split: option.splits)

text \<open>A relation on states that agree except in the hash cache, closed under the evaluator's updates.\<close>

definition state_rel :: "srel \<Rightarrow> bool" where
  "state_rel R \<longleftrightarrow> (\<forall>s t. R s t \<longrightarrow>
     st_result s = st_result t \<and> st_nested_count s = st_nested_count t \<and>
     st_nested_gate_memo s = st_nested_gate_memo t \<and> st_ticks s = st_ticks t \<and>
     (\<forall>r. R (s\<lparr>st_result := r\<rparr>) (t\<lparr>st_result := r\<rparr>)) \<and>
     (\<forall>m. R (s\<lparr>st_nested_gate_memo := m\<rparr>) (t\<lparr>st_nested_gate_memo := m\<rparr>)) \<and>
     (\<forall>k. R (s\<lparr>st_ticks := k\<rparr>) (t\<lparr>st_ticks := k\<rparr>)))"

definition hash_rel :: "eval_env \<Rightarrow> srel \<Rightarrow> bool" where
  "hash_rel en R \<longleftrightarrow> (\<forall>s t k. R s t \<longrightarrow>
     fst (compute_hash_for_key (en_ext en) k (st_hash s)) = fst (compute_hash_for_key (en_ext en) k (st_hash t)) \<and>
     R (s\<lparr>st_hash := snd (compute_hash_for_key (en_ext en) k (st_hash s))\<rparr>)
       (t\<lparr>st_hash := snd (compute_hash_for_key (en_ext en) k (st_hash t))\<rparr>))"

lemma sim_primitives:
  assumes "state_rel R"
  shows "sim f R R E (ev_result g) (ev_result g)" "sim f R R E ev_bool ev_bool" "sim f R R E ev_unsupported ev_unsupported"
    "sim f R R E (set_bool b) (set_bool b)" "sim f R R E set_unsupported set_unsupported" "sim f R R E (ev_clock en) (ev_clock en)"
    "sim f R R E (ev_random en) (ev_random en)" "sim f R R E (memo_insert n) (memo_insert n)"
    "sim f R R E (ev_get (\<lambda>s. hm_get (st_nested_gate_memo s) n)) (ev_get (\<lambda>s. hm_get (st_nested_gate_memo s) n))"
    "sim f R R E (ev_get (\<lambda>s. er_secondary_exposures (st_result s))) (ev_get (\<lambda>s. er_secondary_exposures (st_result s)))"
    "sim f R R E (ev_get st_result) (ev_get st_result)" "sim f R R E (ev_get (filter_active en)) (ev_get (filter_active en))"
  using assms
  by (auto simp: sim_def out_rel_def ev_defs state_rel_def ev_clock_def ev_random_def memo_insert_def
      filter_active_def)

lemma sim_hash:
  assumes "hash_rel en R"
  shows "sim f R R E (ev_hash en k) (ev_hash en k)"
  using assms by (simp add: sim_def out_rel_def hash_rel_def ev_hash_def Let_def case_prod_beta)

section \<open>The contract\<close>

text \<open>
  \<open>R\<close> relates the states inside an evaluation, \<open>N\<close> those at the start of a nested one and \<open>F\<close> those
  after an evaluation is finalised.
\<close>

locale eval_contract =
  fixes en :: eval_env and rec :: eval_rec and rec' :: eval_rec and fuel :: bool and R :: srel and N :: srel and F :: srel
  assumes rel: "state_rel R" and nested_rel: "state_rel N" and hash: "hash_rel en R"
    and prep: "sim fuel R N R prep_for_nested_evaluation prep_for_nested_evaluation"
    and nested: "sim fuel N R R (rec name st) (rec' name st)"
    and mapping_reset: "sr_overrides (en_specs_data en) \<noteq> None \<Longrightarrow> sim fuel R R R reset_result reset_result"
    and mapping_rec: "sr_overrides (en_specs_data en) \<noteq> None \<Longrightarrow> sim fuel R R R (rec name st) (rec' name st)"
    and final: "sim fuel R F R (finalize_evaluation sp ru) (finalize_evaluation sp ru)"
    and unfinal: "R s t \<Longrightarrow> F s t"
begin

lemmas steps = sim_primitives [OF rel] sim_primitives [OF nested_rel] sim_hash [OF hash] prep nested
lemmas shapes = sim_bind sim_match sim_if sim_option sim_pair sim_return sim_unwrap

lemma keep_return: "sim fuel R R R (ev_return a) (ev_return a)" "sim fuel R R R (ev_unwrap v) (ev_unwrap v)"
  by (simp_all add: sim_return sim_unwrap)

lemma take_exposures_sim: "sim fuel R R R take_exposures take_exposures"
  unfolding take_exposures_def by (rule sim_bind steps keep_return)+

lemma pass_percentage_sim: "sim fuel R R R (evaluate_pass_percentage en r salt) (evaluate_pass_percentage en r salt)"
  unfolding evaluate_pass_percentage_def Let_def
  by (rule sim_if sim_bind sim_option steps keep_return)+

lemma user_bucket_sim: "sim fuel R R R (get_hash_for_user_bucket en c) (get_hash_for_user_bucket en c)"
  unfolding get_hash_for_user_bucket_def Let_def by (rule sim_bind steps keep_return)+

lemma experiment_group_sim: "sim fuel R R R (evaluate_experiment_group en n) (evaluate_experiment_group en n)"
  unfolding evaluate_experiment_group_def by (rule sim_option sim_bind steps keep_return)+

lemma finish_nested_gate_sim: "sim fuel R R R (finish_nested_gate g ct) (finish_nested_gate g ct)"
  unfolding finish_nested_gate_def by (rule sim_bind sim_if steps keep_return)+

lemma nested_gate_sim: "sim fuel R R R (evaluate_nested_gate rec target ct) (evaluate_nested_gate rec' target ct)"
  unfolding evaluate_nested_gate_def Let_def
  by (rule sim_bind sim_if sim_option sim_pair finish_nested_gate_sim prep nested sim_primitives [OF rel]
      sim_primitives [OF nested_rel] keep_return)+

lemma with_reason_sim: "sim fuel R R R (with_reason vr) (with_reason vr)"
  unfolding with_reason_def by (rule sim_option sim_bind steps keep_return)+

lemma condition_value_sim: "sim fuel R R R (condition_value en rec target c) (condition_value en rec' target c)"
  unfolding condition_value_def Let_def
  by (rule sim_if sim_bind sim_option steps keep_return nested_gate_sim with_reason_sim
      experiment_group_sim user_bucket_sim)+

lemma condition_sim: "sim fuel R R R (evaluate_condition en rec c) (evaluate_condition en rec' c)"
  unfolding evaluate_condition_def Let_def
  by (rule condition_value_sim sim_bind sim_option steps keep_return)+

lemma conditions_sim: "sim fuel R R R (conditions_loop en rec b cs) (conditions_loop en rec' b cs)"
proof (induction cs arbitrary: b)
  case Nil
  then show ?case by (simp add: steps)
next
  case (Cons c cs)
  show ?case unfolding conditions_loop.simps
    by (rule sim_option sim_bind condition_sim steps Cons.IH)+
qed

lemma rule_sim: "sim fuel R R R (evaluate_rule en rec r) (evaluate_rule en rec' r)"
  by (simp add: evaluate_rule_def conditions_sim)

lemma delegate_sim: "sim fuel R R R (evaluate_config_delegate en rec r) (evaluate_config_delegate en rec' r)"
  unfolding evaluate_config_delegate_def
  by (rule sim_option sim_bind sim_if steps keep_return)+

lemma override_sim: "sim fuel R R R (try_apply_override en n st sp) (try_apply_override en n st sp)"
  using rel unfolding try_apply_override_def sim_def out_rel_def state_rel_def Let_def case_prod_beta
  by (auto split: option.splits spec_type.splits)

lemma mapping_rules_sim:
  assumes "sr_overrides (en_specs_data en) \<noteq> None"
  shows "sim fuel R R R (mapping_rules_loop en rec rules st salt n os) (mapping_rules_loop en rec' rules st salt n os)"
proof (induction os)
  case Nil
  then show ?case by (simp add: keep_return)
next
  case (Cons o_rule os)
  show ?case unfolding mapping_rules_loop.simps
    by (rule Cons.IH sim_if sim_option sim_match sim_bind rule_sim pass_percentage_sim
        mapping_reset [OF assms] mapping_rec [OF assms] sim_primitives [OF rel] keep_return)+
qed

lemma mappings_sim:
  assumes "sr_overrides (en_specs_data en) \<noteq> None"
  shows "sim fuel R R R (mappings_loop en rec rules st salt ms) (mappings_loop en rec' rules st salt ms)"
proof (induction ms)
  case Nil
  then show ?case by (simp add: keep_return)
next
  case (Cons m ms)
  show ?case unfolding mappings_loop.simps
    by (rule sim_bind sim_if mapping_rules_sim [OF assms] Cons.IH keep_return)+
qed

lemma config_mapping_sim: "sim fuel R R R (try_apply_config_mapping en rec n st sp) (try_apply_config_mapping en rec' n st sp)"
proof (cases "sr_overrides (en_specs_data en) = None")
  case True
  then show ?thesis by (simp add: try_apply_config_mapping_def keep_return)
next
  case False
  show ?thesis unfolding try_apply_config_mapping_def
    by (rule sim_option keep_return mappings_sim [OF False])+
qed

lemma passes_targeting_sim: "sim fuel R R R (get_passes_targeting rec cmab) (get_passes_targeting rec' cmab)"
  unfolding get_passes_targeting_def
  by (rule sim_option sim_match prep nested sim_bind sim_if sim_primitives [OF rel] keep_return)+

lemma nth_group_sim: "sim fuel R R R (nth_group cmab i) (nth_group cmab i)"
  by (simp add: nth_group_def keep_return)

lemma random_group_sim: "sim fuel R R R (apply_random_group cmab h) (apply_random_group cmab h)"
  unfolding apply_random_group_def by (rule sim_bind nth_group_sim steps)+

lemma sampling_group_sim: "sim fuel R R R (apply_sampling_group en cmab config) (apply_sampling_group en cmab config)"
  unfolding apply_sampling_group_def by (rule sim_bind sim_option steps keep_return)+

lemma best_group_sim: "sim fuel R R R (apply_best_group en cmab config) (apply_best_group en cmab config)"
  unfolding apply_best_group_def Let_def
  by (rule sim_bind sim_pair sim_if nth_group_sim steps keep_return)+

lemma cmab_sim: "sim fuel R R R (evaluate_cmab en rec n st) (evaluate_cmab en rec' n st)"
  unfolding evaluate_cmab_def
  by (rule sim_if sim_option sim_bind passes_targeting_sim random_group_sim sampling_group_sim
      best_group_sim steps keep_return)+

lemma shortcuts_sim: "sim fuel R R R (try_shortcuts en rec n st sp) (try_shortcuts en rec' n st sp)"
  unfolding try_shortcuts_def
  by (rule sim_bind sim_if override_sim config_mapping_sim cmab_sim keep_return)+

text \<open>The ends of an evaluation: finalised, or left early.\<close>

lemma final_return: "sim fuel F F R (ev_return a) (ev_return a)" "sim fuel R F R (ev_return a) (ev_return a)"
  by (simp_all add: sim_return unfinal)

lemma rules_sim: "sim fuel R F R (rules_loop en rec b sp rs) (rules_loop en rec' b sp rs)"
proof (induction rs)
  case Nil
  show ?case unfolding rules_loop.simps
    by (rule sim_bind sim_primitives [OF rel] final final_return)+
next
  case (Cons r rs)
  show ?case unfolding rules_loop.simps
    by (rule sim_if Cons.IH sim_bind rule_sim delegate_sim pass_percentage_sim sim_primitives [OF rel]
        final final_return)+
qed

lemma delegated_layer_rule_sim: "sim fuel R R R (delegated_layer_rule r acc) (delegated_layer_rule r acc)"
  unfolding delegated_layer_rule_def Let_def
  by (rule sim_if sim_bind sim_option take_exposures_sim sim_primitives [OF rel] keep_return)+

lemma plain_layer_rule_sim: "sim fuel R R R (plain_layer_rule r acc) (plain_layer_rule r acc)"
  unfolding plain_layer_rule_def by (rule sim_bind sim_primitives [OF rel] keep_return)+

lemma layer_rules_sim: "sim fuel R R R (layer_rules_loop en rec b salt acc rs) (layer_rules_loop en rec' b salt acc rs)"
proof (induction rs arbitrary: acc)
  case Nil
  then show ?case by (simp add: keep_return)
next
  case (Cons r rs)
  show ?case unfolding layer_rules_loop.simps Let_def
    by (rule sim_if Cons.IH sim_bind rule_sim take_exposures_sim pass_percentage_sim delegate_sim
        delegated_layer_rule_sim plain_layer_rule_sim sim_primitives [OF rel] keep_return)+
qed

lemma new_layer_sim: "sim fuel R F R (new_layer_eval en rec sp) (new_layer_eval en rec' sp)"
  unfolding new_layer_eval_def
  by (rule sim_bind sim_if sim_option layer_rules_sim sim_primitives [OF rel] final final_return)+

lemma spec_sim: "sim fuel R F R (evaluate_spec en rec b n st sp) (evaluate_spec en rec' b n st sp)"
  unfolding evaluate_spec_def
  by (rule sim_bind sim_if new_layer_sim rules_sim sim_primitives [OF rel] final final_return)+

lemma param_store_sim: "sim fuel R F R (evaluate_param_store_reason en n) (evaluate_param_store_reason en n)"
  unfolding evaluate_param_store_reason_def by (rule sim_option final_return)+

lemma body_sim: "sim fuel R F R (evaluate_body en rec n st) (evaluate_body en rec' n st)"
  unfolding evaluate_body_def
  by (rule sim_bind sim_if sim_option shortcuts_sim param_store_sim spec_sim sim_primitives [OF rel]
      keep_return final_return)+

end

section \<open>Depth\<close>

text \<open>
  Without a config mapping every nested call goes through \<open>prep_for_nested_evaluation\<close>, which counts
  the depth and refuses to go below 300. With one the count is reset, and nothing is claimed.
\<close>

definition mapped :: "eval_env \<Rightarrow> bool" where
  "mapped en \<longleftrightarrow> sr_overrides (en_specs_data en) \<noteq> None"

definition depth_rel :: "eval_env \<Rightarrow> nat \<Rightarrow> srel" where
  "depth_rel en n s t \<longleftrightarrow> s = t \<and> (mapped en \<or> n \<le> st_nested_count s)"

definition entry_rel :: "eval_env \<Rightarrow> nat \<Rightarrow> srel" where
  "entry_rel en n s t \<longleftrightarrow> s = t \<and> (mapped en \<or> n \<le> st_nested_count s \<and> st_nested_count s \<le> MAX_RECURSIVE_DEPTH)"

definition final_rel :: "eval_env \<Rightarrow> nat \<Rightarrow> srel" where
  "final_rel en n s t \<longleftrightarrow> s = t \<and> (mapped en \<or> n \<le> st_nested_count s + 1)"

lemmas depth_rels = depth_rel_def entry_rel_def final_rel_def

lemma out_rel_refl:
  "(\<And>a s. m = Ok a s \<Longrightarrow> S s s) \<Longrightarrow> (\<And>e s. m = Err e s \<Longrightarrow> E s s) \<Longrightarrow> (m = OutOfFuel \<Longrightarrow> f) \<Longrightarrow> out_rel f S E m m"
  by (cases m) (auto simp: out_rel_simps)

lemma sim_refl: "sim True (=) (=) (=) m m"
  by (auto simp: sim_def intro: out_rel_refl)

lemma sim_mapped:
  assumes "mapped en"
  shows "sim (mapped en) (depth_rel en n) (depth_rel en k) (depth_rel en l) m m"
  using assms by (auto simp: sim_def depth_rels intro: out_rel_refl)

lemma depth_contract:
  assumes "\<And>name st. sim (mapped en) (entry_rel en (Suc n)) (final_rel en (Suc n)) (depth_rel en (Suc n)) (rec name st) (rec name st)"
  shows "eval_contract en rec rec (mapped en) (depth_rel en n) (entry_rel en (Suc n)) (final_rel en n)"
proof
  show "state_rel (depth_rel en n)" "state_rel (entry_rel en (Suc n))" "hash_rel en (depth_rel en n)"
    by (simp_all add: state_rel_def hash_rel_def depth_rels)
  show "sim (mapped en) (depth_rel en n) (entry_rel en (Suc n)) (depth_rel en n) prep_for_nested_evaluation prep_for_nested_evaluation"
    by (auto simp: sim_def depth_rels prep_for_nested_evaluation_def Let_def out_rel_simps)
  show "sim (mapped en) (entry_rel en (Suc n)) (depth_rel en n) (depth_rel en n) (rec name st) (rec name st)" for name st
    by (rule sim_weaken [OF assms]) (auto simp: depth_rels)
  show "sim (mapped en) (depth_rel en n) (final_rel en n) (depth_rel en n) (finalize_evaluation sp ru) (finalize_evaluation sp ru)" for sp ru
    by (auto simp: sim_def depth_rels finalize_evaluation_def Let_def out_rel_simps)
  show "depth_rel en n s u \<Longrightarrow> final_rel en n s u" for s u
    by (auto simp: depth_rels)
qed (rule sim_mapped, simp add: mapped_def)+

lemma evaluate_depth:
  "sim (mapped en) (entry_rel en n) (final_rel en n) (depth_rel en n)
     (evaluate en (Suc MAX_RECURSIVE_DEPTH - n) name st) (evaluate en (Suc MAX_RECURSIVE_DEPTH - n) name st)"
proof (induction "Suc MAX_RECURSIVE_DEPTH - n" arbitrary: n name st)
  case 0
  then show ?case by (auto simp: sim_def depth_rels out_rel_simps intro: out_rel_refl)
next
  case (Suc f)
  have f: "f = Suc MAX_RECURSIVE_DEPTH - Suc n" using Suc.hyps(2) by simp
  have "eval_contract en (evaluate en f) (evaluate en f) (mapped en) (depth_rel en n) (entry_rel en (Suc n)) (final_rel en n)"
    by (rule depth_contract) (use Suc.hyps(1) [OF f] f in simp)
  then have body: "sim (mapped en) (depth_rel en n) (final_rel en n) (depth_rel en n)
      (evaluate_body en (evaluate en f) name st) (evaluate_body en (evaluate en f) name st)"
    by (rule eval_contract.body_sim)
  have "evaluate en (Suc f) name st = evaluate_body en (evaluate en f) name st" by (rule ext) simp
  then show ?case unfolding Suc.hyps(2) [symmetric]
    by (simp only:) (rule sim_weaken [OF body]; auto simp: depth_rels)
qed

interpretation depth: eval_contract en "evaluate en (MAX_RECURSIVE_DEPTH - n)" "evaluate en (MAX_RECURSIVE_DEPTH - n)"
  "mapped en" "depth_rel en n" "entry_rel en (Suc n)" "final_rel en n" for en n
  by (rule depth_contract) (use evaluate_depth [of en "Suc n"] in simp)

section \<open>Fuel\<close>

lemma fuel_contract:
  assumes "\<And>name st. sim True (=) (=) (=) (rec name st) (rec' name st)"
  shows "eval_contract en rec rec' True (=) (=) (=)"
  by unfold_locales (simp_all add: assms sim_refl state_rel_def hash_rel_def)

lemma evaluate_more_fuel_sim: "sim True (=) (=) (=) (evaluate en f name st) (evaluate en (f + k) name st)"
proof (induction f arbitrary: name st)
  case 0
  then show ?case by (simp add: sim_def out_rel_simps)
next
  case (Suc f)
  have "sim True (=) (=) (=) (evaluate_body en (evaluate en f) name st) (evaluate_body en (evaluate en (f + k)) name st)"
    by (rule eval_contract.body_sim [OF fuel_contract [OF Suc.IH]])
  then show ?case by (simp add: sim_def)
qed

interpretation more_fuel: eval_contract en "evaluate en f" "evaluate en (f + k)" True "(=)" "(=)" "(=)" for en f k
  by (rule fuel_contract) (rule evaluate_more_fuel_sim)

lemma evaluate_more_fuel:
  assumes "evaluate en f name st s \<noteq> OutOfFuel"
  shows "evaluate en (f + k) name st s = evaluate en f name st s"
proof -
  have "out_rel True (=) (=) (evaluate en f name st s) (evaluate en (f + k) name st s)"
    using evaluate_more_fuel_sim [of en f name st k] by (simp add: sim_def)
  with assms show ?thesis by (cases "evaluate en f name st s") (auto simp: out_rel_simps)
qed

section \<open>Hash cache\<close>

definition cache_rel :: "eval_env \<Rightarrow> srel" where
  "cache_rel en s t \<longleftrightarrow> s\<lparr>st_hash := memo_new\<rparr> = t\<lparr>st_hash := memo_new\<rparr> \<and>
     memo_inv (en_ext en) (st_hash s) \<and> memo_inv (en_ext en) (st_hash t)"

lemma cache_rel_fields:
  "cache_rel en s t \<Longrightarrow> st_result s = st_result t \<and> st_nested_count s = st_nested_count t \<and>
     st_nested_gate_memo s = st_nested_gate_memo t \<and> st_ticks s = st_ticks t"
  by (cases s; cases t) (simp add: cache_rel_def)

lemma cache_rel_update:
  "cache_rel en s t \<Longrightarrow> cache_rel en (s\<lparr>st_result := r\<rparr>) (t\<lparr>st_result := r\<rparr>)"
  "cache_rel en s t \<Longrightarrow> cache_rel en (s\<lparr>st_nested_gate_memo := m\<rparr>) (t\<lparr>st_nested_gate_memo := m\<rparr>)"
  "cache_rel en s t \<Longrightarrow> cache_rel en (s\<lparr>st_ticks := k\<rparr>) (t\<lparr>st_ticks := k\<rparr>)"
  "cache_rel en s t \<Longrightarrow> cache_rel en (s\<lparr>st_nested_count := c\<rparr>) (t\<lparr>st_nested_count := c\<rparr>)"
  by (cases s; cases t; simp add: cache_rel_def)+

lemma cache_rel_hash:
  "cache_rel en s t \<Longrightarrow> memo_inv (en_ext en) h \<Longrightarrow> memo_inv (en_ext en) h' \<Longrightarrow>
   cache_rel en (s\<lparr>st_hash := h\<rparr>) (t\<lparr>st_hash := h'\<rparr>)"
  by (cases s; cases t) (simp add: cache_rel_def)

lemma cache_state_rel: "state_rel (cache_rel en)"
  unfolding state_rel_def using cache_rel_fields cache_rel_update by blast

lemma cache_hash_rel: "hash_rel en (cache_rel en)"
  by (auto simp: hash_rel_def cache_rel_hash compute_hash_inv compute_hash_spec cache_rel_def)

lemma cache_contract:
  assumes "\<And>name st. sim True (cache_rel en) (cache_rel en) (cache_rel en) (rec name st) (rec name st)"
  shows "eval_contract en rec rec True (cache_rel en) (cache_rel en) (cache_rel en)"
proof
  show "sim True (cache_rel en) (cache_rel en) (cache_rel en) prep_for_nested_evaluation prep_for_nested_evaluation"
    by (auto simp: sim_def prep_for_nested_evaluation_def Let_def out_rel_simps cache_rel_update cache_rel_fields)
  show "sim True (cache_rel en) (cache_rel en) (cache_rel en) reset_result reset_result"
    by (simp add: sim_def reset_result_def out_rel_simps cache_rel_update)
  show "sim True (cache_rel en) (cache_rel en) (cache_rel en) (finalize_evaluation sp ru) (finalize_evaluation sp ru)" for sp ru
    by (auto simp: sim_def finalize_evaluation_def Let_def out_rel_simps cache_rel_update cache_rel_fields)
qed (simp_all add: assms cache_state_rel cache_hash_rel)

lemma evaluate_cache_sim:
  "sim True (cache_rel en) (cache_rel en) (cache_rel en) (evaluate en f name st) (evaluate en f name st)"
proof (induction f arbitrary: name st)
  case 0
  then show ?case by (simp add: sim_def out_rel_simps)
next
  case (Suc f)
  have "sim True (cache_rel en) (cache_rel en) (cache_rel en)
      (evaluate_body en (evaluate en f) name st) (evaluate_body en (evaluate en f) name st)"
    by (rule eval_contract.body_sim [OF cache_contract [OF Suc.IH]])
  then show ?case by (simp add: sim_def)
qed

interpretation cache: eval_contract en "evaluate en f" "evaluate en f" True "cache_rel en" "cache_rel en" "cache_rel en" for en f
  by (rule cache_contract) (rule evaluate_cache_sim)

end
