(* ===== verification/Rollout.thy ===== *)
theory Rollout
  imports Evaluation
begin

text \<open>
  How a rule's pass percentage selects users: the hash of spec, rule and unit falls into one of ten
  thousand buckets, and the product of the percentage with one hundred, in double precision, is the
  bound. The lemmas read \<open>evaluate_pass_percentage\<close> through \<open>rollout_passes\<close>; the last section
  relates a gate without nested gates to the first matching rule.
\<close>

section \<open>Buckets\<close>

definition rollout_passes :: "f64 \<Rightarrow> nat \<Rightarrow> bool" where
  "rollout_passes pct bucket \<longleftrightarrow>
     f64_eq pct (Fin 100) \<or> \<not> f64_eq pct (Fin 0) \<and> f64_less (nat_to_f64 bucket) (f64_mul pct (Fin 100))"

definition rollout_key :: "eval_env \<Rightarrow> rule \<Rightarrow> string \<Rightarrow> evaluation_hash_key" where
  "rollout_key en r salt =
     Dot3 salt (case ru_salt r of Some s \<Rightarrow> s | None \<Rightarrow> ru_id r) (get_unit_id en (ru_id_type r))"

lemma ev_hash_direct:
  assumes "memo_inv (en_ext en) (st_hash s)"
  shows "ev_hash en k s = Ok (direct_hash (en_ext en) k)
    (s\<lparr>st_hash := snd (compute_hash_for_key (en_ext en) k (st_hash s))\<rparr>)"
  using compute_hash_spec [OF assms, of k] by (simp add: ev_hash_def case_prod_beta)

lemma pass_percentage_bucket:
  assumes "memo_inv (en_ext en) (st_hash s)" "direct_hash (en_ext en) (rollout_key en r salt) = Some h"
  shows "\<exists>m. memo_inv (en_ext en) m \<and> evaluate_pass_percentage en r salt s =
    Ok (rollout_passes (ru_pass_percentage r) (unat h mod 10000)) (s\<lparr>st_hash := m\<rparr>)"
proof (cases "f64_eq (ru_pass_percentage r) (Fin 100) \<or> f64_eq (ru_pass_percentage r) (Fin 0)")
  case True
  then have "evaluate_pass_percentage en r salt s =
      Ok (rollout_passes (ru_pass_percentage r) (unat h mod 10000)) (s\<lparr>st_hash := st_hash s\<rparr>)"
    by (auto simp: evaluate_pass_percentage_def rollout_passes_def ev_simps)
  with assms(1) show ?thesis by blast
next
  case False
  let ?m = "snd (compute_hash_for_key (en_ext en) (rollout_key en r salt) (st_hash s))"
  have "evaluate_pass_percentage en r salt s =
      Ok (rollout_passes (ru_pass_percentage r) (unat h mod 10000)) (s\<lparr>st_hash := ?m\<rparr>)"
    using False assms(2) ev_hash_direct [OF assms(1), of "rollout_key en r salt"]
    by (simp add: evaluate_pass_percentage_def rollout_passes_def rollout_key_def bucket_10000_def Let_def
        ev_return_def ev_bind_def)
  with compute_hash_inv [OF assms(1)] show ?thesis by blast
qed

lemma bucket_f64: "b < 10000 \<Longrightarrow> nat_to_f64 b = Fin (of_nat b)"
  by (rule nat_to_f64_exact) simp

lemma rollout_passes_mono:
  assumes "b < 10000" "f64_le p q" "rollout_passes p b"
  shows "rollout_passes q b"
proof -
  have mul: "f64_le (f64_mul p (Fin 100)) (f64_mul q (Fin 100))" using assms(2) by (rule f64_mul_mono) simp
  have full: "f64_mul (Fin 100) (Fin 100) = Fin 10000"
    using nat_to_f64_exact [of 10000] by (simp add: nat_to_f64_def)
  have less: "f64_less (nat_to_f64 b) (f64_mul p (Fin 100))"
  proof (cases "f64_eq p (Fin 100)")
    case True
    then have "p = Fin 100" by (cases p) auto
    with assms(1) show ?thesis by (simp add: bucket_f64 full of_nat_less_numeral_iff del: f64_mul.simps)
  next
    case False
    with assms(3) show ?thesis by (simp add: rollout_passes_def)
  qed
  then have lessq: "f64_less (nat_to_f64 b) (f64_mul q (Fin 100))" using mul by (rule f64_less_le_trans)
  moreover have "\<not> f64_eq q (Fin 0)"
  proof
    assume "f64_eq q (Fin 0)"
    then have "q = Fin 0" by (cases q) auto
    with lessq assms(1) show False by (simp add: bucket_f64 round_f64_def round_rat_def)
  qed
  ultimately show ?thesis by (simp add: rollout_passes_def)
qed

lemma rollout_passes_integer:
  assumes "k \<le> 100" "b < 10000"
  shows "rollout_passes (Fin (of_nat k)) b \<longleftrightarrow> b < 100 * k"
proof -
  have "f64_mul (Fin (of_nat k)) (Fin 100) = nat_to_f64 (100 * k)"
    by (simp add: nat_to_f64_def mult.commute)
  also have "\<dots> = Fin (of_nat (100 * k))" using assms(1) by (intro nat_to_f64_exact) simp
  finally have mul: "f64_mul (Fin (of_nat k)) (Fin 100) = Fin (of_nat (100 * k))" .
  have "f64_less (nat_to_f64 b) (f64_mul (Fin (of_nat k)) (Fin 100)) \<longleftrightarrow> b < 100 * k"
    unfolding mul bucket_f64 [OF assms(2)] f64_less.simps by (rule of_nat_less_iff)
  moreover have "f64_eq (Fin (of_nat k)) (Fin 100) \<longleftrightarrow> k = 100"
    using of_nat_eq_iff [where ?'a = rat, of k 100] by simp
  ultimately have "rollout_passes (Fin (of_nat k)) b \<longleftrightarrow> k = 100 \<or> k \<noteq> 0 \<and> b < 100 * k"
    unfolding rollout_passes_def by simp
  with assms show ?thesis by auto
qed

definition sample_hash :: "string \<Rightarrow> u64" where
  "sample_hash s = u64_from_be_bytes (take 8 (x_sha256 sample_ext s))"

lemma sample_direct_hash: "direct_hash sample_ext k = Some (sample_hash (hash_input k))"
proof -
  have "length (take 8 (x_sha256 sample_ext s)) = 8" for s by (simp add: sample_ext_def)
  then show ?thesis
    by (simp add: direct_hash_def sample_hash_def compute_bytes_for_key_def Let_def del: length_take)
qed

lemma sample_rollout_key: "rollout_key (sample_env specs) (sample_rule i p cs) salt = Dot3 salt i ''u1''"
proof -
  have "x_to_lowercase sample_ext ''userID'' = ''userid''" by code_simp
  then show ?thesis
    by (simp add: rollout_key_def sample_env_def sample_rule_def get_unit_id_def user_unit_id_def with_user_id_def
        dv_from_string_def)
qed

section \<open>Properties\<close>

text \<open>
  C4: rollouts only grow. A unit that passes a rule still passes it after the rule's percentage is
  raised, the salts and the unit being the same, for all percentages the wire format can carry.
\<close>

theorem rollout_monotone:
  assumes "memo_inv (en_ext en) (st_hash s)" "direct_hash (en_ext en) (rollout_key en r salt) = Some h"
    and "f64_le (ru_pass_percentage r) q" "evaluate_pass_percentage en r salt s = Ok True s1"
  shows "\<exists>s2. evaluate_pass_percentage en (r\<lparr>ru_pass_percentage := q\<rparr>) salt s = Ok True s2"
proof -
  obtain m where "evaluate_pass_percentage en r salt s =
      Ok (rollout_passes (ru_pass_percentage r) (unat h mod 10000)) (s\<lparr>st_hash := m\<rparr>)"
    using pass_percentage_bucket [OF assms(1,2)] by blast
  with assms(4) have "rollout_passes (ru_pass_percentage r) (unat h mod 10000)" by simp
  then have "rollout_passes q (unat h mod 10000)"
    by (rule rollout_passes_mono [rotated 2]) (simp_all add: assms(3))
  moreover have "direct_hash (en_ext en) (rollout_key en (r\<lparr>ru_pass_percentage := q\<rparr>) salt) = Some h"
    using assms(2) by (cases "ru_salt r") (simp_all add: rollout_key_def)
  ultimately obtain m where "evaluate_pass_percentage en (r\<lparr>ru_pass_percentage := q\<rparr>) salt s =
      Ok True (s\<lparr>st_hash := m\<rparr>)"
    using pass_percentage_bucket [OF assms(1), of "r\<lparr>ru_pass_percentage := q\<rparr>" salt h] by simp blast
  then show ?thesis by blast
qed

theorem rollout_monotone_witness:
  "\<exists>s2. evaluate_pass_percentage (sample_env specs_default)
     ((sample_rule ''r'' (Fin 100) [])\<lparr>ru_pass_percentage := Fin 200\<rparr>) ''s'' (st_new memo_new) = Ok True s2"
proof (rule rollout_monotone [where h = "sample_hash ''s.r.u1''"])
  show "memo_inv (en_ext (sample_env specs_default)) (st_hash (st_new memo_new))"
    by (simp add: st_new_def memo_inv_new)
  show "direct_hash (en_ext (sample_env specs_default)) (rollout_key (sample_env specs_default) (sample_rule ''r'' (Fin 100) []) ''s'')
      = Some (sample_hash ''s.r.u1'')"
    by (simp add: sample_direct_hash sample_rollout_key)
  show "f64_le (ru_pass_percentage (sample_rule ''r'' (Fin 100) [])) (Fin 200)" by (simp add: sample_rule_def)
  show "evaluate_pass_percentage (sample_env specs_default) (sample_rule ''r'' (Fin 100) []) ''s'' (st_new memo_new)
      = Ok True (st_new memo_new)"
    by (simp add: evaluate_pass_percentage_def sample_rule_def ev_return_def)
qed

text \<open>
  C5: an integer percentage is exact: \<open>k\<close> percent lets through the units in the first \<open>100 k\<close> of the
  ten thousand buckets, and no rounding of the double-precision product moves the border.
\<close>

theorem rollout_integer_exact:
  assumes "memo_inv (en_ext en) (st_hash s)" "direct_hash (en_ext en) (rollout_key en r salt) = Some h"
    and "ru_pass_percentage r = Fin (of_nat k)" "k \<le> 100"
  shows "(\<exists>m. evaluate_pass_percentage en r salt s = Ok (unat h mod 10000 < 100 * k) (s\<lparr>st_hash := m\<rparr>)) \<and>
    card {b. b < 10000 \<and> rollout_passes (ru_pass_percentage r) b} = 100 * k"
proof
  show "\<exists>m. evaluate_pass_percentage en r salt s = Ok (unat h mod 10000 < 100 * k) (s\<lparr>st_hash := m\<rparr>)"
    using pass_percentage_bucket [OF assms(1,2)] unfolding assms(3)
    by (simp only: rollout_passes_integer [OF assms(4)] mod_less_divisor zero_less_numeral) blast
  have "{b. b < 10000 \<and> rollout_passes (ru_pass_percentage r) b} = {b. b < 100 * k}"
    using assms(3,4) by (auto simp: rollout_passes_integer)
  then show "card {b. b < 10000 \<and> rollout_passes (ru_pass_percentage r) b} = 100 * k" by simp
qed

theorem rollout_integer_exact_witness:
  "card {b. b < 10000 \<and> rollout_passes (ru_pass_percentage (sample_rule ''r'' (Fin (of_nat 25)) [])) b} = 100 * 25"
proof (rule conjunct2 [OF rollout_integer_exact [where en = "sample_env specs_default" and s = "st_new memo_new"
        and salt = "''s''" and h = "sample_hash ''s.r.u1''"]])
  show "direct_hash (en_ext (sample_env specs_default)) (rollout_key (sample_env specs_default) (sample_rule ''r'' (Fin (of_nat 25)) []) ''s'')
      = Some (sample_hash ''s.r.u1'')"
    by (simp add: sample_direct_hash sample_rollout_key)
qed (simp_all add: st_new_def memo_inv_new sample_rule_def)

text \<open>
  A fractional percentage is not: the double nearest to 0.07, times one hundred, rounds to
  slightly more than seven, so bucket seven passes and eight buckets of ten thousand are let through
  where seven were asked for.
\<close>

theorem rollout_seven_hundredths_lets_eight_through:
  "rollout_passes (round_f64 (7 / 100)) 7 \<and>
   {b. b < 8} \<subseteq> {b. b < 10000 \<and> rollout_passes (round_f64 (7 / 100)) b}"
proof -
  have pct: "round_f64 (7 / 100) = Fin (5044031582654956 / 72057594037927936)"
  proof -
    have "round_rat (7 / 100) = 5044031582654956 / 72057594037927936" by code_simp
    then show ?thesis by (simp add: round_f64_small)
  qed
  have prod: "f64_mul (round_f64 (7 / 100)) (Fin 100) = Fin (7881299347898369 / 1125899906842624)"
  proof -
    have "round_rat (5044031582654956 / 72057594037927936 * 100) = 7881299347898369 / 1125899906842624" by code_simp
    then show ?thesis by (simp add: pct round_f64_small)
  qed
  have "rollout_passes (round_f64 (7 / 100)) b" if "b < 8" for b
  proof -
    have "(of_nat b :: rat) \<le> of_nat 7" using that by (simp only: of_nat_le_iff)
    also have "\<dots> < 7881299347898369 / 1125899906842624" by simp
    finally show ?thesis using that by (simp add: rollout_passes_def prod bucket_f64) (simp add: pct)
  qed
  then show ?thesis by auto
qed

end
