(* ===== verification/First_Match.thy ===== *)
theory First_Match
  imports Rollout
begin

text \<open>
  The abstract reading of a gate: the first rule all of whose conditions hold decides it, by its
  rollout, and the default value decides when there is none. The refinement lemma shows that the
  evaluator implements this reading for specs whose conditions look at the user, the environment,
  the app or the unit id alone.
\<close>

section \<open>The specification\<close>

definition local_value :: "eval_env \<Rightarrow> condition \<Rightarrow> dynamic_value option" where
  "local_value en c =
     (if co_type c = ''user_field'' then get_user_value (en_user en) (co_field c)
      else if co_type c = ''environment_field'' then get_value_from_environment (en_user en) (co_field c)
      else if co_type c = ''target_app'' then en_app_id en
      else user_unit_id (su_data (en_user en)) (co_id_type c))"

definition local_outcome :: "eval_env \<Rightarrow> condition \<Rightarrow> bool option" where
  "local_outcome en c =
     (if co_type c = ''public'' then Some True
      else if co_type c \<in> {''user_field'', ''environment_field'', ''target_app'', ''unit_id''} then
        (case co_operator c of
           None \<Rightarrow> None
         | Some op \<Rightarrow>
             (case apply_operator en op (case local_value en c of Some v \<Rightarrow> v | None \<Rightarrow> dv_new)
                (case co_target_value c of Some t \<Rightarrow> t | None \<Rightarrow> mv_empty) of
                Some (Some b) \<Rightarrow> Some b
              | _ \<Rightarrow> None))
      else None)"

definition condition_outcome :: "eval_env \<Rightarrow> string \<Rightarrow> bool option" where
  "condition_outcome en h =
     (case hm_get (sr_condition_map (en_specs_data en)) h of None \<Rightarrow> None | Some c \<Rightarrow> local_outcome en c)"

text \<open>A rule the specification covers, and whether its conditions hold.\<close>

definition local_rule :: "eval_env \<Rightarrow> rule \<Rightarrow> bool" where
  "local_rule en r \<longleftrightarrow> ru_config_delegate r = None \<and> list_all (\<lambda>h. condition_outcome en h \<noteq> None) (ru_conditions r)"

definition rule_holds :: "eval_env \<Rightarrow> rule \<Rightarrow> bool" where
  "rule_holds en r \<longleftrightarrow> list_all (\<lambda>h. condition_outcome en h = Some True) (ru_conditions r)"

definition rollout_bucket :: "eval_env \<Rightarrow> rule \<Rightarrow> string \<Rightarrow> nat" where
  "rollout_bucket en r salt =
     (case direct_hash (en_ext en) (rollout_key en r salt) of Some h \<Rightarrow> unat h mod 10000 | None \<Rightarrow> 0)"

definition decide_rules :: "eval_env \<Rightarrow> spec \<Rightarrow> rule list \<Rightarrow> bool \<times> string \<times> dynamic_returnable" where
  "decide_rules en sp rs =
     (case find (rule_holds en) rs of
        None \<Rightarrow>
          (dr_get_bool (sp_default_value sp) = Some True, if sp_enabled sp then ''default'' else ''disabled'',
           sp_default_value sp)
      | Some r \<Rightarrow>
          if rollout_passes (ru_pass_percentage r) (rollout_bucket en r (sp_salt sp))
          then (dr_get_bool (ru_return_value r) \<noteq> Some False, ru_id r, ru_return_value r)
          else (dr_get_bool (sp_default_value sp) = Some True, ru_id r, sp_default_value sp))"

definition gate_decision :: "eval_env \<Rightarrow> spec \<Rightarrow> bool \<times> string \<times> dynamic_returnable" where
  "gate_decision en sp = decide_rules en sp (sp_rules sp)"

definition result_decision :: "evaluator_result \<Rightarrow> bool \<times> string option \<times> dynamic_returnable option" where
  "result_decision r = (er_bool_value r, er_rule_id r, er_json_value r)"

section \<open>Refinement\<close>

abbreviation with_bool :: "bool \<Rightarrow> eval_state \<Rightarrow> eval_state" where
  "with_bool b s \<equiv> s\<lparr>st_result := (st_result s)\<lparr>er_bool_value := b\<rparr>\<rparr>"

lemma local_condition_eval:
  assumes "local_outcome en c = Some b"
  shows "evaluate_condition en rec c s = Ok () (with_bool b s)"
proof (cases "co_type c = ''public''")
  case True
  with assms show ?thesis
    by (simp add: local_outcome_def evaluate_condition_def condition_value_def ev_simps)
next
  case False
  with assms obtain op where op: "co_operator c = Some op"
      "apply_operator en op (case local_value en c of Some v \<Rightarrow> v | None \<Rightarrow> dv_new)
        (case co_target_value c of Some t \<Rightarrow> t | None \<Rightarrow> mv_empty) = Some (Some b)"
      and ty: "co_type c \<in> {''user_field'', ''environment_field'', ''target_app'', ''unit_id''}"
    by (auto simp: local_outcome_def split: option.splits if_splits)
  have "condition_value en rec t c = ev_return (Some (local_value en c))" for t
    using ty by (auto simp: condition_value_def local_value_def)
  with op show ?thesis
    by (simp add: evaluate_condition_def ev_unwrap_def ev_simps)
qed

lemma local_conditions_eval:
  assumes "list_all (\<lambda>h. condition_outcome en h \<noteq> None) hs"
  shows "conditions_loop en rec b hs s =
    Ok () (with_bool (b \<and> list_all (\<lambda>h. condition_outcome en h = Some True) hs) s)"
  using assms
proof (induction hs arbitrary: b s)
  case Nil
  then show ?case by (simp add: ev_simps)
next
  case (Cons h hs)
  then obtain c v where "hm_get (sr_condition_map (en_specs_data en)) h = Some c" "local_outcome en c = Some v"
    by (auto simp: condition_outcome_def split: option.splits)
  with Cons show ?case
    by (simp add: local_condition_eval condition_outcome_def ev_bind_def ev_bool_def)
qed

lemma local_rule_eval:
  "local_rule en r \<Longrightarrow> evaluate_rule en rec r s = Ok () (with_bool (rule_holds en r) s)"
  by (simp add: local_rule_def rule_holds_def evaluate_rule_def local_conditions_eval)

text \<open>What a rule with local conditions leaves alone.\<close>

definition result_frame :: "evaluator_result \<Rightarrow> secondary_exposure list \<times> string option" where
  "result_frame r = (er_secondary_exposures r, er_rule_id_suffix r)"

lemma finalize_decision:
  "\<exists>s'. finalize_evaluation sp ru s = Ok () s' \<and> result_decision (st_result s') = result_decision (st_result s) \<and>
    result_frame (st_result s') = result_frame (st_result s)"
  by (auto simp: finalize_evaluation_def finalize_result_def result_decision_def result_frame_def Let_def)

lemma rules_loop_refines:
  assumes "list_all (local_rule en) rs" "\<not> er_unsupported (st_result s)" "memo_inv (en_ext en) (st_hash s)"
    and "\<forall>k. direct_hash (en_ext en) k \<noteq> None"
  shows "\<exists>s'. rules_loop en rec False sp rs s = Ok Recognized s' \<and>
    (let (b, i, v) = decide_rules en sp rs
     in result_decision (st_result s') = (b, Some i, Some v)) \<and>
    result_frame (st_result s') = result_frame (st_result s)"
  using assms(1-3)
proof (induction rs arbitrary: s)
  case Nil
  obtain s' where "finalize_evaluation sp None (s\<lparr>st_result := default_result sp (st_result s)\<rparr>) = Ok () s'"
      "result_decision (st_result s') = result_decision (default_result sp (st_result s))"
      "result_frame (st_result s') = result_frame (default_result sp (st_result s))"
    using finalize_decision [of sp None "s\<lparr>st_result := default_result sp (st_result s)\<rparr>"] by auto
  then show ?case
    by (simp add: ev_simps decide_rules_def result_decision_def result_frame_def default_result_def)
next
  case (Cons r rs)
  then have rule: "evaluate_rule en rec r s = Ok () (with_bool (rule_holds en r) s)"
    and no_delegate: "ru_config_delegate r = None"
    by (simp_all add: local_rule_eval) (simp add: local_rule_def)
  show ?case
  proof (cases "rule_holds en r")
    case False
    with Cons.prems have "\<exists>s'. rules_loop en rec False sp rs (with_bool False s) = Ok Recognized s' \<and>
        (let (b, i, v) = decide_rules en sp rs
         in result_decision (st_result s') = (b, Some i, Some v)) \<and>
        result_frame (st_result s') = result_frame (st_result (with_bool False s))"
      by (intro Cons.IH) simp_all
    with False rule Cons.prems(2) show ?thesis
      by (simp add: result_frame_def ev_bind_def ev_unsupported_def ev_bool_def decide_rules_def)
  next
    case True
    let ?s = "with_bool True s"
    obtain h where h: "direct_hash (en_ext en) (rollout_key en r (sp_salt sp)) = Some h" using assms(4) by blast
    obtain m where m: "evaluate_pass_percentage en r (sp_salt sp) ?s =
        Ok (rollout_passes (ru_pass_percentage r) (unat h mod 10000)) (?s\<lparr>st_hash := m\<rparr>)"
      using pass_percentage_bucket [OF _ h, of ?s] Cons.prems(3) by auto
    let ?p = "rollout_passes (ru_pass_percentage r) (unat h mod 10000)"
    let ?t = "?s\<lparr>st_hash := m, st_result := rule_result sp r ?p (st_result ?s)\<rparr>"
    obtain s' where s': "finalize_evaluation sp (Some r) ?t = Ok () s'"
        "result_decision (st_result s') = result_decision (st_result ?t)"
        "result_frame (st_result s') = result_frame (st_result ?t)"
      using finalize_decision [of sp "Some r" ?t] by blast
    have "rules_loop en rec False sp (r # rs) s = Ok Recognized s'"
      using rule True Cons.prems(2) m s'(1) no_delegate
      by (simp add: ev_bind_def ev_unsupported_def ev_bool_def evaluate_config_delegate_def ev_return_def ev_result_def)
    then show ?thesis
      using True s'(2,3) h by (simp add: decide_rules_def rollout_bucket_def result_decision_def result_frame_def rule_result_def)
  qed
qed

section \<open>Properties\<close>

text \<open>
  C2: the evaluator refines the specification: for a gate whose conditions look at the user, the
  environment, the app or the unit id, with no override, mapping or rule filter in force, the value,
  the rule id and the returned value are those of the first matching rule.
\<close>

theorem evaluate_refines_first_match:
  assumes "en_override_adapter en = None" "sr_overrides (en_specs_data en) = None"
    and "\<not> en_only_evaluate_targeting en" "\<not> en_only_evaluate_overrides en"
    and "find_spec en g Gate = Some sp" "list_all (local_rule en) (sp_rules sp)"
    and "\<not> er_unsupported (st_result s)" "memo_inv (en_ext en) (st_hash s)"
    and "\<forall>k. direct_hash (en_ext en) k \<noteq> None"
  shows "\<exists>s'. evaluate en (Suc f) g Gate s = Ok Recognized s' \<and>
    (let (b, i, v) = gate_decision en sp in result_decision (st_result s') = (b, Some i, Some v))"
proof -
  let ?s = "s\<lparr>st_result := init_result g sp (st_result s)\<rparr>"
  have "evaluate en (Suc f) g Gate s = rules_loop en (evaluate en f) False sp (sp_rules sp) ?s"
    using assms(1-5) by (simp add: evaluate_body_plain)
  moreover have "\<not> er_unsupported (st_result ?s)" "memo_inv (en_ext en) (st_hash ?s)"
    using assms(7,8) by (simp_all add: init_result_def)
  ultimately show ?thesis
    using rules_loop_refines [OF assms(6) _ _ assms(9), of ?s "evaluate en f" sp] by (auto simp: gate_decision_def)
qed

theorem evaluate_refines_first_match_witness:
  "\<exists>s'. evaluate (sample_env (specs_default\<lparr>sr_feature_gates := [(''g'', sample_spec [sample_rule ''r'' (Fin 100) [''c'']])],
      sr_condition_map := [(''c'', public_condition)]\<rparr>)) (Suc 0) ''g'' Gate (st_new memo_new) = Ok Recognized s' \<and>
    result_decision (st_result s') = (True, Some ''r'', Some (dr_from_bool True))"
proof -
  let ?specs = "specs_default\<lparr>sr_feature_gates := [(''g'', sample_spec [sample_rule ''r'' (Fin 100) [''c'']])],
      sr_condition_map := [(''c'', public_condition)]\<rparr>"
  let ?en = "sample_env ?specs" and ?sp = "sample_spec [sample_rule ''r'' (Fin 100) [''c'']]"
  have rules: "sp_rules ?sp = [sample_rule ''r'' (Fin 100) [''c'']]" by (simp add: sample_spec_def)
  have out: "condition_outcome ?en ''c'' = Some True"
    by (simp add: condition_outcome_def hm_simps local_outcome_def public_condition_def)
  have "\<exists>s'. evaluate ?en (Suc 0) ''g'' Gate (st_new memo_new) = Ok Recognized s' \<and>
      (let (b, i, v) = gate_decision ?en ?sp in result_decision (st_result s') = (b, Some i, Some v))"
    by (rule evaluate_refines_first_match)
      (simp_all add: find_spec_def hm_simps rules local_rule_def out st_new_def er_default_def memo_inv_new
        sample_direct_hash, rule exI [of _ True], simp)
  moreover have "gate_decision ?en ?sp = (True, ''r'', dr_from_bool True)"
    using out by (simp add: gate_decision_def decide_rules_def rules rule_holds_def rollout_passes_def dr_get_bool_def
        dr_from_bool_def)
  ultimately show ?thesis by simp
qed

end
