(* ===== verification/Layers.thy ===== *)
theory Layers
  imports Evaluation
begin

text \<open>
  Layers evaluated parameter by parameter, \<open>new_layer_eval\<close> of
  \<open>src/statsig-rust/src/evaluation/evaluator.rs\<close>. Several rules and delegated experiments may contribute to
  one layer: the first one to set a parameter keeps it, and the result records which rule that was.
\<close>

section \<open>Accumulated parameters\<close>

text \<open>What \<open>update_parameters\<close> leaves of a parameter: the old entry if there is one, else the new one.\<close>

definition first_entry :: "'a option \<Rightarrow> 'a option \<Rightarrow> 'a option" where
  "first_entry old_entry new_entry = (case old_entry of Some v \<Rightarrow> Some v | None \<Rightarrow> new_entry)"

lemma update_parameters_values:
  "hm_get (fst (update_parameters m i (vals, ids))) k = first_entry (hm_get vals k) (hm_get m k)"
  by (induction m i "(vals, ids)" arbitrary: vals ids rule: update_parameters.induct)
    (auto simp: first_entry_def hm_get_Cons hm_contains_def split: option.splits)

lemma update_parameters_rule_ids:
  "hm_get (snd (update_parameters m i (vals, ids))) k =
     (if hm_get vals k = None \<and> hm_get m k \<noteq> None then Some i else hm_get ids k)"
  by (induction m i "(vals, ids)" arbitrary: vals ids rule: update_parameters.induct)
    (auto simp: hm_get_Cons hm_contains_def split: option.splits)

text \<open>
  Every parameter has a rule id, every rule id belongs to a parameter, and the rule ids are among
  the given ones.
\<close>

definition attributed :: "string set \<Rightarrow> (string, json) HashMap \<times> (string, string) HashMap \<Rightarrow> bool" where
  "attributed rids vr \<longleftrightarrow>
     (\<forall>k. hm_get (fst vr) k = None \<longleftrightarrow> hm_get (snd vr) k = None) \<and>
     (\<forall>k i. hm_get (snd vr) k = Some i \<longrightarrow> i \<in> rids)"

lemma attributed_update:
  assumes "attributed rids vr" "i \<in> rids"
  shows "attributed rids (update_parameter_values v i vr)"
proof (cases v)
  case (Some m)
  obtain vals ids where vr: "vr = (vals, ids)" by (cases vr)
  have keys: "hm_get vals k = None \<longleftrightarrow> hm_get ids k = None" for k using assms(1) vr by (simp add: attributed_def)
  show ?thesis
    using assms Some vr
    by (auto simp: keys update_parameter_values_def attributed_def update_parameters_values update_parameters_rule_ids
        first_entry_def simp flip: not_None_eq split: option.split)
qed (use assms(1) in \<open>simp add: update_parameter_values_def\<close>)

lemma attributed_mono: "attributed rids vr \<Longrightarrow> rids \<subseteq> rids' \<Longrightarrow> attributed rids' vr"
  by (auto simp: attributed_def)

section \<open>The loop over the rules\<close>

text \<open>The outcome of the loop: unsupported, or parameters attributed to rules and no undelegated exposure.\<close>

definition layer_post :: "string set \<Rightarrow> layer_acc option \<Rightarrow> eval_state \<Rightarrow> bool" where
  "layer_post rids acc s =
     (case acc of
        None \<Rightarrow> er_unsupported (st_result s)
      | Some a \<Rightarrow> attributed rids (la_values a) \<and> la_undelegated a = [])"

lemma ev_spec_any: "ev_spec True P m (\<lambda>_ _. True) (\<lambda>_. True)"
  by (simp add: ev_spec_def split: outcome.splits)

lemma ev_spec_any_bind:
  assumes "\<And>a. ev_spec True (\<lambda>_. True) (g a) Q (\<lambda>_. True)"
  shows "ev_spec True P (ev_bind m g) Q (\<lambda>_. True)"
  using ev_spec_bind [OF ev_spec_any assms] .

lemma ev_spec_pure:
  assumes "b \<Longrightarrow> ev_spec f (\<lambda>_. True) m Q E"
  shows "ev_spec f (\<lambda>_. b) m Q E"
  using assms by (auto simp: ev_spec_def)

lemma take_exposures_spec:
  "ev_spec True P take_exposures (\<lambda>_ s. er_secondary_exposures (st_result s) = []) E"
  by (simp add: ev_spec_def take_exposures_def ev_simps)

lemma take_exposures_empty:
  "ev_spec True (\<lambda>s. er_secondary_exposures (st_result s) = []) take_exposures (\<lambda>es _. es = []) E"
  by (simp add: ev_spec_def take_exposures_def ev_simps)

text \<open>What both branches for a passing rule keep of the accumulator.\<close>

definition acc_ok :: "string set \<Rightarrow> layer_acc \<Rightarrow> bool" where
  "acc_ok rids acc \<longleftrightarrow> attributed rids (la_values acc) \<and> la_undelegated acc = []"

lemma two_takes:
  assumes "acc_ok rids acc"
    and G: "\<And>acc' P. acc_ok rids acc' \<Longrightarrow> ev_spec True P (G acc') Q (\<lambda>_. True)"
  shows "ev_spec True P
    (ev_bind take_exposures (\<lambda>es. ev_bind take_exposures (\<lambda>undelegated.
       G (acc\<lparr>la_secondary_exposures := la_secondary_exposures acc @ es,
             la_undelegated := la_undelegated acc @ undelegated\<rparr>)))) Q (\<lambda>_. True)"
proof (rule ev_spec_bind [OF take_exposures_spec], rule ev_spec_bind [OF take_exposures_empty])
  fix es undelegated
  show "ev_spec True (\<lambda>_. undelegated = []) (G (acc\<lparr>la_secondary_exposures := la_secondary_exposures acc @ es,
            la_undelegated := la_undelegated acc @ undelegated\<rparr>)) Q (\<lambda>_. True)"
    by (rule ev_spec_pure, rule G) (use assms(1) in \<open>simp add: acc_ok_def\<close>)
qed

lemma delegated_layer_rule_ok:
  assumes "acc_ok rids acc" "ru_id r \<in> rids"
  shows "ev_spec True P (delegated_layer_rule r acc) (\<lambda>a _. \<forall>acc'. a = Some acc' \<longrightarrow> acc_ok rids acc') (\<lambda>_. True)"
  using assms
  by (auto simp: delegated_layer_rule_def ev_spec_def take_exposures_def ev_simps acc_ok_def attributed_update Let_def
      split: outcome.splits option.splits)

lemma plain_layer_rule_ok:
  assumes "acc_ok rids acc" "ru_id r \<in> rids"
  shows "ev_spec True P (plain_layer_rule r acc) (\<lambda>a _. acc_ok rids a) (\<lambda>_. True)"
  using assms by (simp add: plain_layer_rule_def ev_spec_def ev_simps acc_ok_def attributed_update)

lemma layer_rules_loop_ok:
  assumes "acc_ok rids acc" "ru_id ` set rs \<subseteq> rids"
  shows "ev_spec True (\<lambda>_. True) (layer_rules_loop en rec filtering salt acc rs) (layer_post rids) (\<lambda>_. True)"
  using assms
proof (induction rs arbitrary: acc)
  case Nil
  then show ?case by (auto intro!: ev_spec_return simp: layer_post_def acc_ok_def)
next
  case (Cons r rest)
  note next_rule = Cons.IH [OF _ subset_trans [OF _ Cons.prems(2)]]
  have rest: "ev_spec True P (layer_rules_loop en rec filtering salt acc' rest) (layer_post rids) (\<lambda>_. True)"
    if "acc_ok rids acc'" for acc' P
    using next_rule [OF that] by (auto simp: ev_spec_def)
  have delegated: "ev_spec True P (ev_bind (delegated_layer_rule r acc') (\<lambda>acc2.
      layer_rules_loop en rec filtering salt (case acc2 of Some a \<Rightarrow> a | None \<Rightarrow> acc') rest)) (layer_post rids) (\<lambda>_. True)"
    and plain: "ev_spec True P (ev_bind (plain_layer_rule r acc') (\<lambda>acc2.
      layer_rules_loop en rec filtering salt acc2 rest)) (layer_post rids) (\<lambda>_. True)"
    if ok: "acc_ok rids acc'" for acc' P
  proof -
    have r: "ru_id r \<in> rids" using Cons.prems(2) by simp
    show "ev_spec True P (ev_bind (delegated_layer_rule r acc') (\<lambda>acc2.
      layer_rules_loop en rec filtering salt (case acc2 of Some a \<Rightarrow> a | None \<Rightarrow> acc') rest)) (layer_post rids) (\<lambda>_. True)"
      by (rule ev_spec_bind [OF delegated_layer_rule_ok [OF ok r]], rule ev_spec_pure [OF rest])
        (use ok in \<open>auto split: option.splits\<close>)
    show "ev_spec True P (ev_bind (plain_layer_rule r acc') (\<lambda>acc2.
      layer_rules_loop en rec filtering salt acc2 rest)) (layer_post rids) (\<lambda>_. True)"
      by (rule ev_spec_bind [OF plain_layer_rule_ok [OF ok r]], rule ev_spec_pure [OF rest]) auto
  qed
  have body: "ev_spec True P
      (ev_bind ev_unsupported (\<lambda>unsupported.
         if unsupported then ev_return None
         else ev_bind ev_bool (\<lambda>b.
           if \<not> b then layer_rules_loop en rec filtering salt acc' rest
           else ev_bind (evaluate_pass_percentage en r salt) (\<lambda>did_pass.
             if \<not> did_pass then layer_rules_loop en rec filtering salt acc' rest
             else ev_bind (evaluate_config_delegate en rec r) (\<lambda>d.
               if d then ev_bind (delegated_layer_rule r acc') (\<lambda>acc2.
                   layer_rules_loop en rec filtering salt (case acc2 of Some a \<Rightarrow> a | None \<Rightarrow> acc') rest)
               else ev_bind (plain_layer_rule r acc') (\<lambda>acc2. layer_rules_loop en rec filtering salt acc2 rest))))))
      (layer_post rids) (\<lambda>_. True)"
    if ok: "acc_ok rids acc'" for acc' P
  proof (rule ev_spec_bind [where R = "\<lambda>u s. u = er_unsupported (st_result s)"])
    show "ev_spec True P ev_unsupported (\<lambda>u s. u = er_unsupported (st_result s)) (\<lambda>_. True)"
      by (simp add: ev_spec_def ev_unsupported_def)
  qed (intro ev_spec_if ev_spec_return ev_spec_any_bind rest [OF ok] delegated [OF ok] plain [OF ok];
      auto simp: layer_post_def)
  show ?case
  proof (cases "filtering \<and> \<not> rule_matches_filter en r")
    case True
    then show ?thesis using rest [OF Cons.prems(1)] by simp
  next
    case False
    then show ?thesis
      unfolding layer_rules_loop.simps Let_def
      by (simp only: if_False) (rule ev_spec_any_bind, rule two_takes [OF Cons.prems(1) body], assumption)
  qed
qed

section \<open>A sample layer\<close>

text \<open>A layer with a default parameter and one rule behind the gate \<open>g\<close>, which sets another.\<close>

definition layer_sample :: spec where
  "layer_sample = (sample_spec [(sample_rule ''r1'' (Fin 100) [''needs_g''])
       \<lparr>ru_return_value := dr_from_map sample_ext [(''a'', JBool True)]\<rparr>])
     \<lparr>sp_default_value := dr_from_map sample_ext [(''a'', JBool False), (''b'', JBool False)],
      sp_use_new_layer_eval := Some True\<rparr>"

definition layer_env :: eval_env where
  "layer_env = sample_env (specs_default\<lparr>sr_feature_gates := [(''g'', sample_spec [sample_rule ''r2'' (Fin 100) [''all'']])],
     sr_condition_map := [(''all'', public_condition), (''needs_g'', gate_condition ''g'')]\<rparr>)"

definition layer_run :: "recognition outcome" where
  "layer_run = new_layer_eval layer_env (evaluate layer_env 2) layer_sample (st_new memo_new)"

lemma layer_run_ok:
  "case layer_run of
     Ok rc s \<Rightarrow> rc = Recognized \<and> \<not> er_unsupported (st_result s) \<and> er_secondary_exposures (st_result s) \<noteq> [] \<and>
       er_parameter_rule_ids (st_result s) = Some [(''a'', ''r1''), (''b'', ''default'')]
   | _ \<Rightarrow> False"
  by code_simp

lemma layer_run_state:
  obtains s where "new_layer_eval layer_env (evaluate layer_env 2) layer_sample (st_new memo_new) = Ok Recognized s"
    "\<not> filter_active layer_env (st_new memo_new)" "\<not> er_unsupported (st_result s)"
    "er_secondary_exposures (st_result s) \<noteq> []"
    "er_parameter_rule_ids (st_result s) = Some [(''a'', ''r1''), (''b'', ''default'')]"
proof -
  have "\<not> filter_active layer_env (st_new memo_new)" by (simp add: filter_active_def layer_env_def)
  with layer_run_ok that show thesis by (cases layer_run) (auto simp: layer_run_def)
qed

section \<open>Properties\<close>

text \<open>The loop has ended without an unsupported rule: what the final assignment makes of its accumulator.\<close>

lemma new_layer_eval_result:
  assumes "new_layer_eval en rec sp s = Ok Recognized s'" "\<not> filter_active en s" "\<not> er_unsupported (st_result s')"
  obtains a q where "acc_ok (ru_id ` set (sp_rules sp)) a"
    "st_result s' = finalize_result sp None (layer_result (en_ext en) sp a q)"
proof -
  let ?rids = "ru_id ` set (sp_rules sp)"
  have "acc_ok ?rids la_new" by (simp add: acc_ok_def la_new_def attributed_def)
  note loop = layer_rules_loop_ok [OF this subset_refl, of en rec False "sp_salt sp"]
  obtain acc t where acc: "layer_rules_loop en rec False (sp_salt sp) la_new (sp_rules sp) s = Ok acc t"
    using assms(1,2)
    by (cases "layer_rules_loop en rec False (sp_salt sp) la_new (sp_rules sp) s")
      (simp_all add: new_layer_eval_def ev_bind_def ev_get_def)
  then have post: "layer_post ?rids acc t" using loop by (auto simp: ev_spec_def split: outcome.splits)
  show thesis
  proof (cases acc)
    case None
    with acc assms post show thesis
      by (simp add: new_layer_eval_def ev_bind_def ev_get_def ev_return_def layer_post_def)
  next
    case (Some a)
    have "st_result s' = finalize_result sp None (layer_result (en_ext en) sp a (st_result t))"
      using acc assms(1,2) Some
      by (auto simp: new_layer_eval_def ev_simps finalize_evaluation_def finalize_result_def layer_result_def Let_def
          case_prod_beta split: if_splits)
    with that post Some show thesis by (auto simp: layer_post_def acc_ok_def)
  qed
qed

text \<open>
  C20: the parameters of a layer evaluated parameter by parameter. When the evaluation ends with a
  supported result, the result records a rule id for exactly the parameters it has; each is the id
  of a rule of the layer or \<open>default\<close>; and every parameter of the layer's default value is present.
\<close>

theorem layer_parameters_attributed:
  assumes "new_layer_eval en rec sp s = Ok Recognized s'" "\<not> filter_active en s" "\<not> er_unsupported (st_result s')"
  shows "\<exists>vals ids. er_json_value (st_result s') = Some (dr_from_map (en_ext en) vals) \<and>
    er_parameter_rule_ids (st_result s') = Some ids \<and>
    (\<forall>k. hm_contains vals k = hm_contains ids k) \<and>
    (\<forall>k i. hm_get ids k = Some i \<longrightarrow> i = ''default'' \<or> i \<in> ru_id ` set (sp_rules sp)) \<and>
    (\<forall>m k. dr_get_json (sp_default_value sp) = Some m \<longrightarrow> hm_contains m k \<longrightarrow> hm_contains vals k)"
proof -
  from assms obtain a q where a: "acc_ok (ru_id ` set (sp_rules sp)) a"
    and r: "st_result s' = finalize_result sp None (layer_result (en_ext en) sp a q)"
    by (rule new_layer_eval_result)
  define out where "out = update_parameter_values (dr_get_json (sp_default_value sp)) ''default'' (la_values a)"
  have "attributed (insert ''default'' (ru_id ` set (sp_rules sp))) out"
    unfolding out_def
    by (rule attributed_update) (use a in \<open>auto simp: acc_ok_def intro: attributed_mono\<close>)
  moreover have "hm_contains (fst out) k" if "dr_get_json (sp_default_value sp) = Some m" "hm_contains m k" for m k
    using that by (cases "la_values a")
      (auto simp: out_def update_parameter_values_def hm_contains_def update_parameters_values first_entry_def
        split: option.split)
  moreover have "er_json_value (st_result s') = Some (dr_from_map (en_ext en) (fst out))"
    "er_parameter_rule_ids (st_result s') = Some (snd out)"
    by (simp_all add: r finalize_result_def layer_result_def out_def case_prod_beta Let_def)
  ultimately show ?thesis
    by (intro exI [of _ "fst out"] exI [of _ "snd out"]) (auto simp: attributed_def hm_contains_def)
qed

theorem layer_parameters_attributed_witness:
  "\<exists>s vals. new_layer_eval layer_env (evaluate layer_env 2) layer_sample (st_new memo_new) = Ok Recognized s \<and>
     er_json_value (st_result s) = Some (dr_from_map (en_ext layer_env) vals) \<and>
     hm_contains vals ''a'' \<and> hm_contains vals ''b'' \<and> \<not> hm_contains vals ''c'' \<and>
     er_parameter_rule_ids (st_result s) = Some [(''a'', ''r1''), (''b'', ''default'')]"
proof -
  obtain s where s: "new_layer_eval layer_env (evaluate layer_env 2) layer_sample (st_new memo_new) = Ok Recognized s"
      "\<not> filter_active layer_env (st_new memo_new)" "\<not> er_unsupported (st_result s)"
    and ids: "er_parameter_rule_ids (st_result s) = Some [(''a'', ''r1''), (''b'', ''default'')]"
    by (rule layer_run_state)
  from layer_parameters_attributed [OF s] obtain vals where
      "er_json_value (st_result s) = Some (dr_from_map (en_ext layer_env) vals)"
      "\<forall>k. hm_contains vals k = hm_contains [(''a'', ''r1''), (''b'', ''default'')] k"
    using ids by auto
  with s(1) ids show ?thesis
    by (intro exI [of _ s] exI [of _ vals]) (simp add: hm_contains_def hm_get_Cons)
qed

text \<open>
  The undelegated exposures of such a layer are always the empty list, whatever gates its rules
  looked at: the loop has already moved the exposures of each rule into the other list.
\<close>

theorem new_layer_undelegated_empty:
  assumes "new_layer_eval en rec sp s = Ok Recognized s'" "\<not> filter_active en s" "\<not> er_unsupported (st_result s')"
  shows "er_undelegated_secondary_exposures (st_result s') = Some []"
proof -
  from assms obtain a q where "acc_ok (ru_id ` set (sp_rules sp)) a"
    "st_result s' = finalize_result sp None (layer_result (en_ext en) sp a q)"
    by (rule new_layer_eval_result)
  then show ?thesis by (simp add: finalize_result_def layer_result_def acc_ok_def case_prod_beta Let_def)
qed

theorem new_layer_undelegated_empty_witness:
  "\<exists>s. new_layer_eval layer_env (evaluate layer_env 2) layer_sample (st_new memo_new) = Ok Recognized s \<and>
     er_undelegated_secondary_exposures (st_result s) = Some [] \<and> er_secondary_exposures (st_result s) \<noteq> []"
proof -
  obtain s where s: "new_layer_eval layer_env (evaluate layer_env 2) layer_sample (st_new memo_new) = Ok Recognized s"
      "\<not> filter_active layer_env (st_new memo_new)" "\<not> er_unsupported (st_result s)"
    and "er_secondary_exposures (st_result s) \<noteq> []"
    by (rule layer_run_state)
  with new_layer_undelegated_empty [OF s] show ?thesis by blast
qed

end
