(* ===== verification/Bandits.thy ===== *)
theory Bandits
  imports Evaluation
begin

text \<open>
  What the contextual bandits of \<open>src/statsig-rust/src/evaluation/cmab_evaluator.rs\<close> select: exploration by
  hash always names an existing group, exploitation names a group with an optimal score, and the
  ranked list is a stable sort of the groups by score.
\<close>

section \<open>Exploration\<close>

lemma f64_to_usize_floor:
  assumes "0 \<le> q" "q < of_nat n" "n \<le> 2 ^ 52"
  shows "f64_to_usize (f64_floor (Fin q)) < n"
proof -
  have "0 \<le> \<lfloor>q\<rfloor>" "\<lfloor>q\<rfloor> < int n" using assms by (simp_all add: floor_less_iff)
  moreover have "clamp_int 0 (2 ^ 64 - 1) \<lfloor>q\<rfloor> \<le> \<lfloor>q\<rfloor>" using \<open>0 \<le> \<lfloor>q\<rfloor>\<close> by (simp add: clamp_int_def)
  moreover have "0 \<le> clamp_int 0 (2 ^ 64 - 1) \<lfloor>q\<rfloor>" by (simp add: clamp_int_def)
  ultimately show ?thesis by (simp add: f64_to_usize_def trunc_rat_def)
qed

text \<open>The quotient by the rounded group size, rounded again, stays below the number of groups.\<close>

lemma rounded_quotient_below:
  fixes b n :: rat
  assumes b: "0 < b" "b \<le> 9999" "1 / 9999 \<le> b" and n: "1 \<le> n" "n \<le> 2 ^ 52"
  shows "0 \<le> round_rat (b / round_rat (10000 / n))" "round_rat (b / round_rat (10000 / n)) < n"
    "0 < round_rat (10000 / n)" "b / round_rat (10000 / n) \<le> n"
proof -
  let ?g = "10000 / n" and ?e = "1 / 2 ^ 53 :: rat"
  have tiny: "(2 powi (- 1022) :: rat) \<le> 2 powi (- 80)" by (rule power_int_increasing) simp_all
  have g: "2 powi (- 80) \<le> ?g" "0 < ?g" using n by (simp_all add: power_int_minus field_simps)
  have "\<bar>round_rat ?g - ?g\<bar> \<le> ?g / 2 ^ 53" by (rule round_rat_error) (use tiny g in linarith)
  then have low: "?g * (1 - ?e) \<le> round_rat ?g" by (simp add: field_simps)
  have "round_rat ?g \<le> round_rat (of_int 10000)" using n by (intro round_rat_mono) (simp add: field_simps)
  also have "\<dots> = of_int 10000" by (rule round_rat_of_int) simp
  finally have up: "round_rat ?g \<le> 10000" by simp
  have pos: "0 < ?g * (1 - ?e)" using g by (intro mult_pos_pos) simp_all
  then show g0: "0 < round_rat ?g" using low by linarith
  let ?q = "b / round_rat ?g"
  have "?q \<le> 9999 / (?g * (1 - ?e))" using low pos b g0 by (intro frac_le) simp_all
  also have "\<dots> = n * (9999 / (10000 * (1 - ?e)))" using n by (simp add: field_simps)
  finally have q: "?q \<le> n * (9999 / (10000 * (1 - ?e)))" .
  also have "\<dots> \<le> n * 1" using n by (intro mult_left_mono) simp_all
  finally show "?q \<le> n" by simp
  have "1 / 9999 / 10000 \<le> ?q" using b up g0 by (intro frac_le) simp_all
  moreover have "(2 powi (- 80) :: rat) \<le> 1 / 9999 / 10000" by (simp add: power_int_minus)
  ultimately have "2 powi (- 1022) \<le> ?q" using tiny by linarith
  then have "\<bar>round_rat ?q - ?q\<bar> \<le> ?q / 2 ^ 53" by (rule round_rat_error)
  then have "round_rat ?q \<le> ?q * (1 + ?e)" by (simp add: field_simps)
  also have "\<dots> \<le> n * (9999 / (10000 * (1 - ?e))) * (1 + ?e)" using q by (intro mult_right_mono) simp_all
  also have "\<dots> < n * 1" using n by (simp add: mult.assoc)
  finally show "round_rat ?q < n" by simp
  show "0 \<le> round_rat ?q" using b g0 by (intro round_rat_nonneg) simp
qed

lemma random_group_index_less:
  assumes "0 < n" "n \<le> 2 ^ 52"
  shows "random_group_index n user_hash < n"
proof (cases user_hash)
  case None
  then show ?thesis using assms by (simp add: random_group_index_def Let_def)
next
  case (Some hash)
  define b where "b = unat hash mod 10000"
  have b: "b < 10000" by (simp add: b_def)
  have n: "1 \<le> (of_nat n :: rat)" "(of_nat n :: rat) \<le> 2 ^ 52"
    using assms by simp (metis assms(2) of_nat_le_iff of_nat_numeral of_nat_power)
  have n64: "nat_to_f64 n = Fin (of_nat n)" using assms by (intro nat_to_f64_exact) simp
  have b64: "bucket_10000 hash = Fin (of_nat b)" unfolding bucket_10000_def b_def by (rule nat_to_f64_exact) simp
  let ?g = "round_rat (10000 / of_nat n)"
  have size: "f64_div (Fin 10000) (nat_to_f64 n) = Fin ?g"
    using n unfolding n64 by (simp add: round_f64_small field_simps)
  have "0 < ?g" using rounded_quotient_below(3) [of 1 "of_nat n"] n by simp
  have quot: "\<exists>q. f64_div (bucket_10000 hash) (Fin ?g) = Fin q \<and> 0 \<le> q \<and> q < of_nat n"
  proof (cases "b = 0")
    case True
    moreover have "round_f64 0 = Fin 0" by (simp add: round_f64_def round_rat_def)
    ultimately show ?thesis using \<open>0 < ?g\<close> n by (auto simp: b64)
  next
    case False
    then have "0 < (of_nat b :: rat)" "(of_nat b :: rat) \<le> 9999" "1 / 9999 \<le> (of_nat b :: rat)" using b by simp_all
    note r = rounded_quotient_below [OF this n]
    have "round_f64 (of_nat b / ?g) = Fin (round_rat (of_nat b / ?g))"
      using r(4) n(2) \<open>0 < ?g\<close> by (intro round_f64_small) simp_all
    then show ?thesis using r \<open>0 < ?g\<close> by (simp add: b64)
  qed
  then obtain q where q: "f64_div (bucket_10000 hash) (Fin ?g) = Fin q" "0 \<le> q" "q < of_nat n" by blast
  show ?thesis using f64_to_usize_floor [OF q(2,3) assms(2)] Some q(1) by (simp add: random_group_index_def size)
qed

section \<open>Exploitation\<close>

text \<open>The order in which a score is better, and that a group is best among the scored ones.\<close>

definition score_better :: "bool \<Rightarrow> f64 \<Rightarrow> f64 \<Rightarrow> bool" where
  "score_better higher a b \<longleftrightarrow> (if higher then f64_less b a else f64_less a b)"

definition best_of :: "bool \<Rightarrow> (cmab_group \<Rightarrow> f64 option) \<Rightarrow> cmab_group set \<Rightarrow> cmab_group \<Rightarrow> bool" where
  "best_of higher score gs g \<longleftrightarrow>
     g \<in> gs \<and> (\<exists>v. score g = Some v \<and> (\<forall>g'\<in>gs. \<forall>v'. score g' = Some v' \<longrightarrow> \<not> score_better higher v' v))"

lemma score_better_trans: "score_better higher a b \<Longrightarrow> \<not> score_better higher c b \<Longrightarrow> b \<noteq> NaN \<Longrightarrow> \<not> score_better higher c a"
  by (cases a; cases b; cases c) (auto simp: score_better_def split: if_splits)

lemma score_better_self [simp]: "\<not> score_better higher a a"
  by (simp add: score_better_def)

text \<open>The accumulator of the scan: nothing scored yet, or the best group so far with its score.\<close>

definition best_acc :: "eval_env \<Rightarrow> bool \<Rightarrow> (string, cmab_group_config) HashMap \<Rightarrow> cmab_group set \<Rightarrow> f64 \<times> cmab_group \<times> bool \<Rightarrow> bool" where
  "best_acc en higher config seen acc =
     (case acc of (v, g, has_score) \<Rightarrow>
        if has_score then get_cmab_score_for_group en config g = Some v \<and> best_of higher (get_cmab_score_for_group en config) seen g
        else v = (if higher then NInf else PInf) \<and> (\<forall>g\<in>seen. get_cmab_score_for_group en config g = None))"

lemma best_acc_step:
  assumes "best_acc en higher config seen (v, g, has_score)"
    and finite: "\<forall>g'\<in>insert g0 seen. \<forall>w. get_cmab_score_for_group en config g' = Some w \<longrightarrow> f64_is_finite w"
    and score: "get_cmab_score_for_group en config g0 = Some w"
  shows "best_acc en higher config (insert g0 seen) (if score_better higher w v then (w, g0, True) else (v, g, True))"
proof (cases has_score)
  case True
  with assms(1) have g: "get_cmab_score_for_group en config g = Some v"
      "best_of higher (get_cmab_score_for_group en config) seen g"
    by (simp_all add: best_acc_def)
  then have "v \<noteq> NaN" using finite by (auto simp: best_of_def)
  then show ?thesis
    using g score score_better_trans [of higher w v] by (auto simp: best_acc_def best_of_def)
next
  case False
  with assms(1) have v: "v = (if higher then NInf else PInf)" "\<forall>g\<in>seen. get_cmab_score_for_group en config g = None"
    by (simp_all add: best_acc_def)
  have "f64_is_finite w" using finite score by simp
  then have "score_better higher w v" using v(1) by (cases w) (auto simp: score_better_def)
  then show ?thesis using v(2) score by (auto simp: best_acc_def best_of_def)
qed

lemma best_loop_acc:
  assumes "best_acc en higher config seen acc"
    and "\<forall>g\<in>seen \<union> set gs. \<forall>w. get_cmab_score_for_group en config g = Some w \<longrightarrow> f64_is_finite w"
  shows "best_acc en higher config (seen \<union> set gs) (best_loop en higher config acc gs)"
  using assms
proof (induction gs arbitrary: acc seen)
  case (Cons g0 gs)
  obtain v g h where acc: "acc = (v, g, h)" by (cases acc)
  show ?case
  proof (cases "get_cmab_score_for_group en config g0")
    case None
    then have "best_acc en higher config (insert g0 seen) acc"
      using Cons.prems(1) by (auto simp: best_acc_def best_of_def acc split: if_splits)
    then show ?thesis using Cons.IH [of "insert g0 seen" acc] Cons.prems(2) None by (simp add: acc)
  next
    case (Some w)
    have "best_acc en higher config (insert g0 seen) (if score_better higher w v then (w, g0, True) else (v, g, True))"
      by (rule best_acc_step [OF Cons.prems(1) [unfolded acc] _ Some]) (use Cons.prems(2) in auto)
    then show ?thesis
      using Cons.IH [of "insert g0 seen" "if score_better higher w v then (w, g0, True) else (v, g, True)"]
        Cons.prems(2) Some
      by (auto simp: acc score_better_def split: if_splits)
  qed
qed simp

section \<open>The ranked list\<close>

lemma ranked_insert_mset: "mset (ranked_insert higher a gs) = add_mset a (mset gs)"
  by (induction gs) auto

lemma ranked_le_trans:
  "ranked_le higher a b \<Longrightarrow> ranked_le higher b c \<Longrightarrow> rg_score b \<noteq> NaN \<Longrightarrow> ranked_le higher a c"
  by (cases "rg_score a"; cases "rg_score b"; cases "rg_score c") (auto simp: ranked_le_def split: if_splits)

lemma ranked_le_total: "\<not> ranked_le higher a b \<Longrightarrow> ranked_le higher b a"
  by (auto simp: ranked_le_def f64_less_asym split: if_splits)

lemma ranked_insert_sorted:
  assumes "sorted_wrt (ranked_le higher) gs" "\<forall>g\<in>insert a (set gs). rg_score g \<noteq> NaN"
  shows "sorted_wrt (ranked_le higher) (ranked_insert higher a gs)"
  using assms
proof (induction gs)
  case (Cons b bs)
  have set: "set (ranked_insert higher a bs) = insert a (set bs)"
    using arg_cong [OF ranked_insert_mset, of set_mset higher a bs] by simp
  show ?case
    using Cons by (auto simp: set intro: ranked_le_trans ranked_le_total)
qed simp

lemma ranked_insert_stable:
  "filter (\<lambda>g. rg_score g = v) (ranked_insert higher a gs) = filter (\<lambda>g. rg_score g = v) (a # gs)"
  by (induction gs) (auto simp: ranked_le_def split: if_splits)

lemma ranked_sort_Cons [simp]: "ranked_sort higher (g # gs) = ranked_insert higher g (ranked_sort higher gs)"
  "ranked_sort higher [] = []"
  by (simp_all add: ranked_sort_def)

lemma ranked_sort_mset: "mset (ranked_sort higher gs) = mset gs"
  by (induction gs) (simp_all add: ranked_insert_mset)

lemma ranked_sort_set: "set (ranked_sort higher gs) = set gs"
  using arg_cong [OF ranked_sort_mset, of set_mset higher gs] by simp

section \<open>A sample bandit\<close>

definition sample_group :: "string \<Rightarrow> cmab_group" where
  "sample_group i = \<lparr>cg_name = i, cg_parameter_values = dr_from_bool True, cg_id = i\<rparr>"

definition sample_cmab :: cmab_config where
  "sample_cmab = \<lparr>cb_salt = ''s'', cb_target_app_ids = None, cb_default_value = dr_from_bool False,
     cb_id_type = ds_from_string sample_ext ''userID'', cb_enabled = True, cb_version = 1, cb_sample_rate = Fin 0,
     cb_higher_is_better = True, cb_groups = [sample_group ''a'', sample_group ''b''], cb_config = None,
     cb_targeting_gate_name = None\<rparr>"

definition sample_group_config :: "rat \<Rightarrow> cmab_group_config" where
  "sample_group_config q = \<lparr>gc_alpha = Fin 0, gc_intercept = Fin q, gc_records = 1,
     gc_weights_numerical = [(''age'', Fin 1)], gc_weights_categorical = []\<rparr>"

definition sample_config :: "(string, cmab_group_config) HashMap" where
  "sample_config = [(''a'', sample_group_config 1), (''b'', sample_group_config 2)]"

lemma sample_user_age:
  "get_user_value (en_user (sample_env specs_default)) (Some (ds_from_string (en_ext (sample_env specs_default)) ''age'')) = None"
  by code_simp

lemma sample_rounding: "round_f64 0 = Fin 0" "round_f64 1 = Fin 1" "round_f64 2 = Fin 2"
  using nat_to_f64_exact [of 0] nat_to_f64_exact [of 1] nat_to_f64_exact [of 2] by (simp_all add: nat_to_f64_def)

lemma sample_scores:
  "get_cmab_score_for_group (sample_env specs_default) sample_config (sample_group ''a'') = Some (Fin 1)"
  "get_cmab_score_for_group (sample_env specs_default) sample_config (sample_group ''b'') = Some (Fin 2)"
  using sample_user_age
  by (simp_all add: get_cmab_score_for_group_def sample_config_def sample_group_def sample_group_config_def hm_get_Cons
      add_numerical_def sample_rounding)

section \<open>Properties\<close>

text \<open>
  Exploration without a model. A started bandit with no targeting gate and no trained config,
  with at most $2^{52}$ groups, never indexes out of range: the evaluation assigns one of its groups.
\<close>

theorem cmab_random_group_exists:
  assumes "sr_cmab_configs (en_specs_data en) = Some cmabs" "hm_get cmabs name = Some cmab"
    and "is_cmab_started cmab" "cb_targeting_gate_name cmab = None" "cb_config cmab = None"
    and "length (cb_groups cmab) \<le> 2 ^ 52"
  shows "\<exists>g\<in>set (cb_groups cmab). \<exists>h. evaluate_cmab en rec name Experiment s =
    Ok True (s\<lparr>st_result := apply_group (Some EXPLORE_RULE_ID_SUFFIX) g (cmab_header cmab (st_result s)), st_hash := h\<rparr>)"
proof -
  let ?key = "Dot2 (cb_salt cmab) (get_unit_id en (cb_id_type cmab))"
  obtain hash m where hash: "compute_hash_for_key (en_ext en) ?key (st_hash s) = (hash, m)"
    by (cases "compute_hash_for_key (en_ext en) ?key (st_hash s)")
  let ?i = "random_group_index (length (cb_groups cmab)) hash"
  have "?i < length (cb_groups cmab)"
    using assms(3,6) by (intro random_group_index_less) (simp_all add: is_cmab_started_def)
  with assms hash show ?thesis
    by (intro bexI [of _ "cb_groups cmab ! ?i"] exI [of _ m])
      (simp_all add: evaluate_cmab_def get_passes_targeting_def ev_simps ev_hash_def apply_random_group_def nth_group_def
        ev_unwrap_def)
qed

theorem cmab_random_group_exists_witness:
  "\<exists>g\<in>{sample_group ''a'', sample_group ''b''}. \<exists>h.
     evaluate_cmab (sample_env (specs_default\<lparr>sr_cmab_configs := Some [(''c'', sample_cmab)]\<rparr>))
       (evaluate (sample_env specs_default) 1) ''c'' Experiment (st_new memo_new) =
     Ok True ((st_new memo_new)\<lparr>st_result := apply_group (Some EXPLORE_RULE_ID_SUFFIX) g
       (cmab_header sample_cmab (st_result (st_new memo_new))), st_hash := h\<rparr>)"
  using cmab_random_group_exists [of "sample_env (specs_default\<lparr>sr_cmab_configs := Some [(''c'', sample_cmab)]\<rparr>)"
      "[(''c'', sample_cmab)]" "''c''" sample_cmab "evaluate (sample_env specs_default) 1" "st_new memo_new"]
  by (simp add: hm_get_Cons is_cmab_started_def sample_cmab_def)

text \<open>
  C21: exploitation is optimal. When some group has a score and all scores are finite, the group
  that \<open>apply_best_group\<close> assigns has a score that no other group's score beats, in the direction the
  bandit optimises.
\<close>

theorem cmab_best_group_optimal:
  assumes "cb_groups cmab \<noteq> []" "\<exists>g\<in>set (cb_groups cmab). get_cmab_score_for_group en config g \<noteq> None"
    and "\<forall>g\<in>set (cb_groups cmab). \<forall>w. get_cmab_score_for_group en config g = Some w \<longrightarrow> f64_is_finite w"
  shows "\<exists>g. best_of (cb_higher_is_better cmab) (get_cmab_score_for_group en config) (set (cb_groups cmab)) g \<and>
    apply_best_group en cmab config s = Ok () (s\<lparr>st_result := apply_group None g (st_result s)\<rparr>)"
proof -
  let ?h = "cb_higher_is_better cmab"
  let ?start = "(if ?h then NInf else PInf, cb_groups cmab ! 0, False)"
  obtain v g has_score where loop: "best_loop en ?h config ?start (cb_groups cmab) = (v, g, has_score)"
    by (cases "best_loop en ?h config ?start (cb_groups cmab)")
  have "best_acc en ?h config ({} \<union> set (cb_groups cmab)) (v, g, has_score)"
    unfolding loop [symmetric] by (rule best_loop_acc) (use assms(3) in \<open>simp_all add: best_acc_def\<close>)
  then have "has_score" "best_of ?h (get_cmab_score_for_group en config) (set (cb_groups cmab)) g"
    using assms(2) by (auto simp: best_acc_def split: if_splits)
  with assms(1) loop show ?thesis
    by (intro exI [of _ g]) (simp add: apply_best_group_def nth_group_def ev_unwrap_def ev_simps)
qed

theorem cmab_best_group_optimal_witness:
  "apply_best_group (sample_env specs_default) sample_cmab sample_config (st_new memo_new) =
     Ok () ((st_new memo_new)\<lparr>st_result := apply_group None (sample_group ''b'') er_default\<rparr>)"
proof -
  have groups: "cb_groups sample_cmab = [sample_group ''a'', sample_group ''b'']" "cb_higher_is_better sample_cmab"
    by (simp_all add: sample_cmab_def)
  then obtain g where g: "best_of True (get_cmab_score_for_group (sample_env specs_default) sample_config)
      {sample_group ''a'', sample_group ''b''} g"
    "apply_best_group (sample_env specs_default) sample_cmab sample_config (st_new memo_new) =
     Ok () ((st_new memo_new)\<lparr>st_result := apply_group None g er_default\<rparr>)"
    using cmab_best_group_optimal [of sample_cmab "sample_env specs_default" sample_config "st_new memo_new"]
    by (auto simp: sample_scores st_new_def)
  then have "g = sample_group ''b''" by (auto simp: best_of_def sample_scores score_better_def)
  with g(2) show ?thesis by simp
qed

text \<open>
  The ranked list is a stable sort. It keeps every group, groups with equal scores keep their
  order, and without NaN scores it is ordered by score in the direction the bandit optimises.
\<close>

theorem ranked_sort_correct:
  "mset (ranked_sort higher gs) = mset gs \<and>
   filter (\<lambda>g. rg_score g = v) (ranked_sort higher gs) = filter (\<lambda>g. rg_score g = v) gs \<and>
   ((\<forall>g\<in>set gs. rg_score g \<noteq> NaN) \<longrightarrow> sorted_wrt (ranked_le higher) (ranked_sort higher gs))"
proof (intro conjI impI)
  show "mset (ranked_sort higher gs) = mset gs" by (rule ranked_sort_mset)
  show "filter (\<lambda>g. rg_score g = v) (ranked_sort higher gs) = filter (\<lambda>g. rg_score g = v) gs"
    by (induction gs) (simp_all add: ranked_insert_stable)
  show "sorted_wrt (ranked_le higher) (ranked_sort higher gs)" if "\<forall>g\<in>set gs. rg_score g \<noteq> NaN"
    using that by (induction gs) (simp_all add: ranked_insert_sorted ranked_sort_set)
qed

theorem ranked_sort_correct_witness:
  "sorted_wrt (ranked_le True) (ranked_sort True
     [ranked_group ''c'' (Fin 1) [] (sample_group ''a''), ranked_group ''c'' (Fin 2) [] (sample_group ''b'')])"
  using ranked_sort_correct [of True "[ranked_group ''c'' (Fin 1) [] (sample_group ''a''),
      ranked_group ''c'' (Fin 2) [] (sample_group ''b'')]" "Fin 1"]
  by (simp add: ranked_group_def)

end
