(* ===== verification/Eval_Types.thy ===== *)
theory Eval_Types
  imports Eval_Context
begin

text \<open>
  What an evaluation is turned into for the caller and for the events:
  \<open>src/statsig-rust/src/evaluation/evaluation_details.rs\<close>, \<open>evaluation_types.rs\<close>, the conversions of
  \<open>evaluator_result.rs\<close>, and the types of the interface, \<open>statsig_types.rs\<close>,
  \<open>statsig_types_raw.rs\<close> and \<open>statsig_type_factories.rs\<close>.

  An interned string is its text. The hash it carries is the hash of the text (\<open>interned_hash\<close>); the
  constant for the empty string, which carries 0 in the sources, is treated like any other text.
  A conversion that takes a mutable result moves parts out of it: it gives back the evaluation and
  what is left of the result.
\<close>

section \<open>Where values come from\<close>

datatype specs_source =
    SrcUninitialized | SrcNoValues | SrcError | SrcLoading | SrcBootstrap | SrcAdapter string | SrcNetwork

fun specs_source_to_string :: "specs_source \<Rightarrow> string" where
  "specs_source_to_string (SrcAdapter name) = ''Adapter('' @ name @ '')''"
| "specs_source_to_string SrcUninitialized = ''Uninitialized''"
| "specs_source_to_string SrcNoValues = ''NoValues''"
| "specs_source_to_string SrcError = ''Error''"
| "specs_source_to_string SrcLoading = ''Loading''"
| "specs_source_to_string SrcNetwork = ''Network''"
| "specs_source_to_string SrcBootstrap = ''Bootstrap''"

definition specs_source_from_string :: "string \<Rightarrow> specs_source" where
  "specs_source_from_string s =
     (if str_starts_with s ''Adapter(''
      then (let rest = drop 8 s in SrcAdapter (if str_ends_with rest '')'' then butlast rest else []))
      else if s = ''Uninitialized'' then SrcUninitialized
      else if s = ''NoValues'' then SrcNoValues
      else if s = ''Error'' then SrcError
      else if s = ''Loading'' then SrcLoading
      else if s = ''Bootstrap'' then SrcBootstrap
      else if s = ''Network'' then SrcNetwork
      else SrcError)"

section \<open>Details\<close>

record evaluation_details =
  ed_reason :: string
  ed_lcut :: "u64 option"
  ed_received_at :: "u64 option"
  ed_version :: "u32 option"

definition create_from_data :: "specs_source \<Rightarrow> u64 \<Rightarrow> u64 option \<Rightarrow> string \<Rightarrow> evaluator_result \<Rightarrow> evaluation_details" where
  "create_from_data source lcut received_at sub_reason r =
     (if source = SrcUninitialized \<or> source = SrcNoValues
      then \<lparr>ed_reason = specs_source_to_string source, ed_lcut = None, ed_received_at = None, ed_version = er_version r\<rparr>
      else if er_unsupported r
      then \<lparr>ed_reason = specs_source_to_string source @ '':Unsupported'', ed_lcut = Some lcut,
            ed_received_at = received_at, ed_version = er_version r\<rparr>
      else \<lparr>ed_reason = specs_source_to_string source @ '':'' @ sub_reason, ed_lcut = Some lcut,
            ed_received_at = received_at, ed_version = er_version r\<rparr>)"

definition details_unrecognized :: "specs_source \<Rightarrow> u64 \<Rightarrow> u64 option \<Rightarrow> evaluation_details" where
  "details_unrecognized source lcut received_at = create_from_data source lcut received_at ''Unrecognized'' er_default"

definition details_recognized_without_eval_result :: "specs_source \<Rightarrow> u64 \<Rightarrow> u64 option \<Rightarrow> evaluation_details" where
  "details_recognized_without_eval_result source lcut received_at =
     create_from_data source lcut received_at ''Recognized'' er_default"

definition details_recognized :: "specs_source \<Rightarrow> u64 \<Rightarrow> u64 option \<Rightarrow> evaluator_result \<Rightarrow> evaluation_details" where
  "details_recognized source lcut received_at r = create_from_data source lcut received_at ''Recognized'' r"

definition details_recognized_but_overridden :: "u64 \<Rightarrow> u64 option \<Rightarrow> string \<Rightarrow> u32 option \<Rightarrow> evaluation_details" where
  "details_recognized_but_overridden lcut received_at override_reason version =
     \<lparr>ed_reason = override_reason @ '':Recognized'', ed_lcut = Some lcut, ed_received_at = received_at, ed_version = version\<rparr>"

definition details_unrecognized_no_data :: evaluation_details where
  "details_unrecognized_no_data =
     \<lparr>ed_reason = specs_source_to_string SrcNoValues, ed_lcut = None, ed_received_at = None, ed_version = None\<rparr>"

definition details_error :: "string \<Rightarrow> evaluation_details" where
  "details_error sub_reason = \<lparr>ed_reason = ''Error:'' @ sub_reason, ed_lcut = None, ed_received_at = None, ed_version = None\<rparr>"

section \<open>Evaluations\<close>

definition interned_hash :: "ext \<Rightarrow> string \<Rightarrow> u64" where
  "interned_hash x s = x_hash_bytes x s"

definition opt_interned_hash :: "ext \<Rightarrow> string option \<Rightarrow> u64" where
  "opt_interned_hash x s = (case s of Some t \<Rightarrow> interned_hash x t | None \<Rightarrow> 0)"

definition secondary_exposure_hash :: "ext \<Rightarrow> secondary_exposure \<Rightarrow> string \<Rightarrow> u64" where
  "secondary_exposure_hash x e name =
     x_hash_one x [interned_hash x name, interned_hash x (se_gate_value e), interned_hash x (se_rule_id e)]"

definition get_dedupe_key :: "secondary_exposure \<Rightarrow> string" where
  "get_dedupe_key e = se_gate e @ ''|'' @ se_gate_value e @ ''|'' @ se_rule_id e"

record extra_exposure_info =
  xi_sampling_rate :: "u64 option"
  xi_forward_all_exposures :: "bool option"
  xi_has_seen_analytical_gates :: "bool option"
  xi_override_config_name :: "string option"
  xi_version :: "u32 option"

record base_evaluation =
  be_name :: string
  be_rule_id :: string
  be_secondary_exposures :: "secondary_exposure list"
  be_exposure_info :: "extra_exposure_info option"

record gate_evaluation =
  ge_base :: base_evaluation
  ge_id_type :: "string option"
  ge_value :: bool

record dynamic_config_evaluation =
  ce_base :: base_evaluation
  ce_id_type :: "string option"
  ce_value :: dynamic_returnable
  ce_is_device_based :: bool
  ce_passed :: bool

record experiment_evaluation =
  xe_base :: base_evaluation
  xe_id_type :: "string option"
  xe_value :: dynamic_returnable
  xe_is_device_based :: bool
  xe_is_in_layer :: bool
  xe_explicit_parameters :: "explicit_parameters option"
  xe_group_name :: "string option"
  xe_is_experiment_active :: "bool option"
  xe_is_user_in_experiment :: "bool option"
  xe_undelegated_secondary_exposures :: "secondary_exposure list option"

record layer_evaluation =
  le_base :: base_evaluation
  le_value :: dynamic_returnable
  le_id_type :: "string option"
  le_is_device_based :: bool
  le_group_name :: "string option"
  le_is_experiment_active :: "bool option"
  le_is_user_in_experiment :: "bool option"
  le_allocated_experiment_name :: "string option"
  le_explicit_parameters :: explicit_parameters
  le_undelegated_secondary_exposures :: "secondary_exposure list option"
  le_parameter_rule_ids :: "(string, string) HashMap option"

datatype any_evaluation =
    AnyFeatureGate gate_evaluation
  | AnyDynamicConfig dynamic_config_evaluation
  | AnyExperiment experiment_evaluation
  | AnyLayer layer_evaluation

fun get_base_result :: "any_evaluation \<Rightarrow> base_evaluation" where
  "get_base_result (AnyFeatureGate g) = ge_base g"
| "get_base_result (AnyDynamicConfig c) = ce_base c"
| "get_base_result (AnyExperiment e) = xe_base e"
| "get_base_result (AnyLayer l) = le_base l"

fun get_gate_bool_value :: "any_evaluation \<Rightarrow> bool" where
  "get_gate_bool_value (AnyFeatureGate g) = ge_value g"
| "get_gate_bool_value _ = False"

datatype any_config_evaluation =
    ConfigDynamicConfig dynamic_config_evaluation
  | ConfigExperiment experiment_evaluation

subsection \<open>Checksums\<close>

text \<open>The checksum of a map hashes its entries in the order of iteration.\<close>

definition bool_u64 :: "bool \<Rightarrow> u64" where
  "bool_u64 b = (if b then 1 else 0)"

definition hash_secondary_exposures :: "ext \<Rightarrow> secondary_exposure list \<Rightarrow> u64" where
  "hash_secondary_exposures x es = x_hash_one x (map (\<lambda>e. secondary_exposure_hash x e (se_gate e)) es)"

definition explicit_params_hash :: "ext \<Rightarrow> explicit_parameters option \<Rightarrow> u64" where
  "explicit_params_hash x ps = x_hash_one x (case ps of Some l \<Rightarrow> map (interned_hash x) l | None \<Rightarrow> [])"

definition gate_evaluation_hash :: "ext \<Rightarrow> gate_evaluation \<Rightarrow> string \<Rightarrow> u64" where
  "gate_evaluation_hash x g name =
     x_hash_one x [interned_hash x name, bool_u64 (ge_value g), interned_hash x (be_rule_id (ge_base g)),
       hash_secondary_exposures x (be_secondary_exposures (ge_base g))]"

definition dynamic_config_evaluation_hash :: "ext \<Rightarrow> dynamic_config_evaluation \<Rightarrow> string \<Rightarrow> u64" where
  "dynamic_config_evaluation_hash x c name =
     x_hash_one x [interned_hash x name, dr_hash (ce_value c), interned_hash x (be_rule_id (ce_base c)),
       hash_secondary_exposures x (be_secondary_exposures (ce_base c)), bool_u64 (ce_passed c)]"

definition experiment_evaluation_hash :: "ext \<Rightarrow> experiment_evaluation \<Rightarrow> string \<Rightarrow> u64" where
  "experiment_evaluation_hash x e name =
     x_hash_one x [interned_hash x name, dr_hash (xe_value e), interned_hash x (be_rule_id (xe_base e)),
       hash_secondary_exposures x (be_secondary_exposures (xe_base e)), bool_u64 (xe_is_in_layer e),
       explicit_params_hash x (xe_explicit_parameters e), opt_interned_hash x (xe_group_name e),
       opt_bool_to_hashable (xe_is_experiment_active e), opt_bool_to_hashable (xe_is_user_in_experiment e)]"

fun any_config_evaluation_hash :: "ext \<Rightarrow> any_config_evaluation \<Rightarrow> string \<Rightarrow> u64" where
  "any_config_evaluation_hash x (ConfigDynamicConfig c) name = dynamic_config_evaluation_hash x c name"
| "any_config_evaluation_hash x (ConfigExperiment e) name = experiment_evaluation_hash x e name"

definition layer_evaluation_hash :: "ext \<Rightarrow> layer_evaluation \<Rightarrow> string \<Rightarrow> u64" where
  "layer_evaluation_hash x l name =
     x_hash_one x ([interned_hash x name, dr_hash (le_value l), interned_hash x (be_rule_id (le_base l)),
       hash_secondary_exposures x (be_secondary_exposures (le_base l)), opt_interned_hash x (le_group_name l),
       opt_bool_to_hashable (le_is_experiment_active l), opt_bool_to_hashable (le_is_user_in_experiment l),
       opt_interned_hash x (le_allocated_experiment_name l),
       explicit_params_hash x (Some (le_explicit_parameters l)),
       hash_secondary_exposures x (case le_undelegated_secondary_exposures l of Some es \<Rightarrow> es | None \<Rightarrow> [])]
      @ (case le_parameter_rule_ids l of
           None \<Rightarrow> []
         | Some m \<Rightarrow> [x_hash_one x (concat (map (\<lambda>(p, r). [interned_hash x p, interned_hash x r]) m))]))"

section \<open>From results to evaluations\<close>

definition create_suffixed_rule_id :: "string option \<Rightarrow> string option \<Rightarrow> string" where
  "create_suffixed_rule_id rule_id suffix =
     (let rule_id_str = (case rule_id of Some r \<Rightarrow> r | None \<Rightarrow> [])
      in case suffix of Some s \<Rightarrow> rule_id_str @ '':'' @ s | None \<Rightarrow> rule_id_str)"

definition get_id_type_info :: "string option \<Rightarrow> string \<times> bool" where
  "get_id_type_info id_type =
     (let t = (case id_type of Some s \<Rightarrow> s | None \<Rightarrow> []) in (t, t = ''stableID'' \<or> t = ''stableid''))"

definition get_json_value :: "evaluator_result \<Rightarrow> dynamic_returnable" where
  "get_json_value r = (case er_json_value r of Some v \<Rightarrow> v | None \<Rightarrow> dr_empty)"

definition get_exposure_name_if_not_hashed :: "string \<Rightarrow> string option \<Rightarrow> string" where
  "get_exposure_name_if_not_hashed possibly_hashed_name exposure_name =
     (let n = (case exposure_name of Some s \<Rightarrow> s | None \<Rightarrow> [])
      in if possibly_hashed_name = n then n else possibly_hashed_name)"

definition result_to_extra_exposure_info :: "evaluator_result \<Rightarrow> extra_exposure_info" where
  "result_to_extra_exposure_info r =
     \<lparr>xi_sampling_rate = er_sampling_rate r, xi_forward_all_exposures = er_forward_all_exposures r,
      xi_has_seen_analytical_gates = er_has_seen_analytical_gates r,
      xi_override_config_name = er_override_config_name r, xi_version = er_version r\<rparr>"

definition result_to_base_eval :: "string \<Rightarrow> evaluator_result \<Rightarrow> base_evaluation \<times> evaluator_result" where
  "result_to_base_eval spec_name r =
     (\<lparr>be_name = get_exposure_name_if_not_hashed spec_name (er_name r),
       be_rule_id = create_suffixed_rule_id (er_rule_id r) (er_rule_id_suffix r),
       be_secondary_exposures = er_secondary_exposures r,
       be_exposure_info = Some (result_to_extra_exposure_info r)\<rparr>,
      r\<lparr>er_secondary_exposures := []\<rparr>)"

definition result_to_gate_eval :: "string \<Rightarrow> evaluator_result \<Rightarrow> gate_evaluation \<times> evaluator_result" where
  "result_to_gate_eval gate_name r =
     (let (base, r1) = result_to_base_eval gate_name r
      in (\<lparr>ge_base = base, ge_id_type = er_id_type r1, ge_value = er_bool_value r1\<rparr>, r1\<lparr>er_id_type := None\<rparr>))"

definition result_to_dynamic_config_eval :: "string \<Rightarrow> evaluator_result \<Rightarrow> dynamic_config_evaluation \<times> evaluator_result" where
  "result_to_dynamic_config_eval name r =
     (let (id_type, is_device_based) = get_id_type_info (er_id_type r);
          (base, r1) = result_to_base_eval name r
      in (\<lparr>ce_base = base, ce_id_type = Some id_type, ce_value = get_json_value r1,
           ce_is_device_based = is_device_based, ce_passed = er_bool_value r1\<rparr>,
          r1\<lparr>er_json_value := None\<rparr>))"

text \<open>The common part of the two conversions to an experiment.\<close>

definition experiment_eval_with ::
    "string \<Rightarrow> bool option \<Rightarrow> bool option \<Rightarrow> evaluator_result \<Rightarrow> experiment_evaluation \<times> evaluator_result" where
  "experiment_eval_with name active in_experiment r =
     (let (id_type, is_device_based) = get_id_type_info (er_id_type r);
          (base, r1) = result_to_base_eval name r
      in (\<lparr>xe_base = base, xe_id_type = Some id_type, xe_value = get_json_value r1,
           xe_is_device_based = is_device_based, xe_is_in_layer = er_is_in_layer r1,
           xe_explicit_parameters = er_explicit_parameters r1, xe_group_name = er_group_name r1,
           xe_is_experiment_active = active, xe_is_user_in_experiment = in_experiment,
           xe_undelegated_secondary_exposures = er_undelegated_secondary_exposures r1\<rparr>,
          r1\<lparr>er_json_value := None, er_group_name := None, er_undelegated_secondary_exposures := None\<rparr>))"

definition result_to_experiment_eval ::
    "string \<Rightarrow> string option \<Rightarrow> evaluator_result \<Rightarrow> experiment_evaluation \<times> evaluator_result" where
  "result_to_experiment_eval name spec_entity r =
     (if spec_entity = None \<or> spec_entity = Some ''experiment''
      then experiment_eval_with name (Some (er_is_experiment_active r)) (Some (er_is_experiment_group r)) r
      else experiment_eval_with name None None r)"

definition eval_result_to_experiment_eval :: "string \<Rightarrow> evaluator_result \<Rightarrow> experiment_evaluation \<times> evaluator_result" where
  "eval_result_to_experiment_eval name r =
     experiment_eval_with name (Some (er_is_experiment_active r)) (Some (er_is_experiment_group r)) r"

text \<open>The experiment a layer delegates to, with what is told about it.\<close>

definition delegate_info :: "evaluator_result \<Rightarrow> string option \<times> bool option \<times> bool option" where
  "delegate_info r =
     (case er_config_delegate r of
        None \<Rightarrow> (None, None, None)
      | Some d \<Rightarrow>
          if d = [] then (None, None, None)
          else (Some d, Some (er_is_experiment_active r), Some (er_is_experiment_group r)))"

definition result_to_layer_eval :: "string \<Rightarrow> evaluator_result \<Rightarrow> layer_evaluation \<times> evaluator_result" where
  "result_to_layer_eval layer_name r =
     (let (allocated, active, in_experiment) = delegate_info r;
          (id_type, is_device_based) = get_id_type_info (er_id_type r);
          (base, r1) = result_to_base_eval layer_name r
      in (\<lparr>le_base = base, le_value = get_json_value r1, le_id_type = Some id_type, le_is_device_based = is_device_based,
           le_group_name = er_group_name r1, le_is_experiment_active = active, le_is_user_in_experiment = in_experiment,
           le_allocated_experiment_name = allocated,
           le_explicit_parameters = (case er_explicit_parameters r1 of Some ps \<Rightarrow> ps | None \<Rightarrow> []),
           le_undelegated_secondary_exposures =
             Some (case er_undelegated_secondary_exposures r1 of Some es \<Rightarrow> es | None \<Rightarrow> []),
           le_parameter_rule_ids = er_parameter_rule_ids r1\<rparr>,
          r1\<lparr>er_config_delegate := None, er_undelegated_secondary_exposures := None, er_json_value := None,
             er_group_name := None\<rparr>))"

end
