(* ===== verification/Init_Types.thy ===== *)
theory Init_Types
  imports Eval_Types
begin

text \<open>
  The evaluations of the client initialize responses:
  \<open>src/statsig-rust/src/evaluation/evaluation_types_v2.rs\<close>, \<open>evaluation_types_initialize_v2.rs\<close>,
  \<open>secondary_exposure_key.rs\<close>, and their conversions in \<open>evaluator_result.rs\<close>. The second format replaces
  exposures by djb2 hashes; the third one by ids of shared tables of exposures and values, which the
  conversions extend as they go along.
\<close>

section \<open>Version 2\<close>

record base_evaluation_v2 =
  b2_name :: string
  b2_rule_id :: string
  b2_secondary_exposures :: "string list"

record gate_evaluation_v2 =
  g2_base :: base_evaluation_v2
  g2_id_type :: "string option"
  g2_value :: bool

record dynamic_config_evaluation_v2 =
  c2_base :: base_evaluation_v2
  c2_id_type :: "string option"
  c2_value :: dynamic_returnable
  c2_is_device_based :: bool
  c2_passed :: bool

record experiment_evaluation_v2 =
  x2_base :: base_evaluation_v2
  x2_id_type :: "string option"
  x2_value :: dynamic_returnable
  x2_is_device_based :: bool
  x2_is_in_layer :: bool
  x2_explicit_parameters :: "explicit_parameters option"
  x2_group_name :: "string option"
  x2_is_experiment_active :: "bool option"
  x2_is_user_in_experiment :: "bool option"
  x2_undelegated_secondary_exposures :: "secondary_exposure list option"

record layer_evaluation_v2 =
  l2_base :: base_evaluation_v2
  l2_value :: dynamic_returnable
  l2_id_type :: "string option"
  l2_is_device_based :: bool
  l2_group_name :: "string option"
  l2_is_experiment_active :: "bool option"
  l2_is_user_in_experiment :: "bool option"
  l2_allocated_experiment_name :: "string option"
  l2_explicit_parameters :: explicit_parameters
  l2_undelegated_secondary_exposures :: "string list option"

datatype any_config_evaluation_v2 =
    ConfigDynamicConfigV2 dynamic_config_evaluation_v2
  | ConfigExperimentV2 experiment_evaluation_v2

definition hash_secondary_exposures_v2 :: "ext \<Rightarrow> string list \<Rightarrow> u64" where
  "hash_secondary_exposures_v2 x es = x_hash_one x (map (x_ahash_str x) es)"

definition gate_evaluation_v2_hash :: "ext \<Rightarrow> gate_evaluation_v2 \<Rightarrow> string \<Rightarrow> u64" where
  "gate_evaluation_v2_hash x g name =
     x_hash_one x [interned_hash x name, bool_u64 (g2_value g), interned_hash x (b2_rule_id (g2_base g)),
       hash_secondary_exposures_v2 x (b2_secondary_exposures (g2_base g))]"

definition dynamic_config_evaluation_v2_hash :: "ext \<Rightarrow> dynamic_config_evaluation_v2 \<Rightarrow> string \<Rightarrow> u64" where
  "dynamic_config_evaluation_v2_hash x c name =
     x_hash_one x [interned_hash x name, dr_hash (c2_value c), interned_hash x (b2_rule_id (c2_base c)),
       hash_secondary_exposures_v2 x (b2_secondary_exposures (c2_base c)), bool_u64 (c2_passed c)]"

definition experiment_evaluation_v2_hash :: "ext \<Rightarrow> experiment_evaluation_v2 \<Rightarrow> string \<Rightarrow> u64" where
  "experiment_evaluation_v2_hash x e name =
     x_hash_one x [interned_hash x name, dr_hash (x2_value e), interned_hash x (b2_rule_id (x2_base e)),
       hash_secondary_exposures_v2 x (b2_secondary_exposures (x2_base e)), bool_u64 (x2_is_in_layer e),
       explicit_params_hash x (x2_explicit_parameters e), opt_interned_hash x (x2_group_name e),
       opt_bool_to_hashable (x2_is_experiment_active e), opt_bool_to_hashable (x2_is_user_in_experiment e)]"

fun any_config_evaluation_v2_hash :: "ext \<Rightarrow> any_config_evaluation_v2 \<Rightarrow> string \<Rightarrow> u64" where
  "any_config_evaluation_v2_hash x (ConfigDynamicConfigV2 c) name = dynamic_config_evaluation_v2_hash x c name"
| "any_config_evaluation_v2_hash x (ConfigExperimentV2 e) name = experiment_evaluation_v2_hash x e name"

definition layer_evaluation_v2_hash :: "ext \<Rightarrow> layer_evaluation_v2 \<Rightarrow> string \<Rightarrow> u64" where
  "layer_evaluation_v2_hash x l name =
     x_hash_one x [interned_hash x name, dr_hash (l2_value l), interned_hash x (b2_rule_id (l2_base l)),
       hash_secondary_exposures_v2 x (b2_secondary_exposures (l2_base l)), opt_interned_hash x (l2_group_name l),
       opt_bool_to_hashable (l2_is_experiment_active l), opt_bool_to_hashable (l2_is_user_in_experiment l),
       opt_interned_hash x (l2_allocated_experiment_name l),
       explicit_params_hash x (Some (l2_explicit_parameters l)),
       x_hash_one x (case l2_undelegated_secondary_exposures l of Some es \<Rightarrow> map (interned_hash x) es | None \<Rightarrow> [])]"

definition exposure_text :: "secondary_exposure \<Rightarrow> string" where
  "exposure_text e = se_gate e @ '':'' @ se_gate_value e @ '':'' @ se_rule_id e"

definition result_to_base_eval_v2 :: "ext \<Rightarrow> string \<Rightarrow> evaluator_result \<Rightarrow> base_evaluation_v2" where
  "result_to_base_eval_v2 x spec_name r =
     \<lparr>b2_name = spec_name, b2_rule_id = create_suffixed_rule_id (er_rule_id r) (er_rule_id_suffix r),
      b2_secondary_exposures = map (\<lambda>e. hash_util_hash x (exposure_text e) Djb2) (er_secondary_exposures r)\<rparr>"

definition result_to_gate_eval_v2 :: "ext \<Rightarrow> string \<Rightarrow> evaluator_result \<Rightarrow> gate_evaluation_v2 \<times> evaluator_result" where
  "result_to_gate_eval_v2 x gate_name r =
     (\<lparr>g2_base = result_to_base_eval_v2 x gate_name r, g2_id_type = er_id_type r, g2_value = er_bool_value r\<rparr>,
      r\<lparr>er_id_type := None\<rparr>)"

definition result_to_dynamic_config_eval_v2 ::
    "ext \<Rightarrow> string \<Rightarrow> evaluator_result \<Rightarrow> dynamic_config_evaluation_v2 \<times> evaluator_result" where
  "result_to_dynamic_config_eval_v2 x name r =
     (let (id_type, is_device_based) = get_id_type_info (er_id_type r)
      in (\<lparr>c2_base = result_to_base_eval_v2 x name r, c2_id_type = Some id_type, c2_value = get_json_value r,
           c2_is_device_based = is_device_based, c2_passed = er_bool_value r\<rparr>,
          r\<lparr>er_json_value := None\<rparr>))"

definition result_to_experiment_eval_v2 ::
    "ext \<Rightarrow> string \<Rightarrow> string option \<Rightarrow> evaluator_result \<Rightarrow> experiment_evaluation_v2 \<times> evaluator_result" where
  "result_to_experiment_eval_v2 x name spec_entity r =
     (let (id_type, is_device_based) = get_id_type_info (er_id_type r);
          known = (spec_entity = Some ''experiment'')
      in (\<lparr>x2_base = result_to_base_eval_v2 x name r, x2_id_type = Some id_type, x2_value = get_json_value r,
           x2_is_device_based = is_device_based, x2_is_in_layer = er_is_in_layer r,
           x2_explicit_parameters = er_explicit_parameters r, x2_group_name = er_group_name r,
           x2_is_experiment_active = (if known then Some (er_is_experiment_active r) else None),
           x2_is_user_in_experiment = (if known then Some (er_is_experiment_group r) else None),
           x2_undelegated_secondary_exposures = er_undelegated_secondary_exposures r\<rparr>,
          r\<lparr>er_json_value := None, er_group_name := None\<rparr>))"

definition result_to_layer_eval_v2 :: "ext \<Rightarrow> string \<Rightarrow> evaluator_result \<Rightarrow> layer_evaluation_v2 \<times> evaluator_result" where
  "result_to_layer_eval_v2 x layer_name r =
     (let undelegated = (case er_undelegated_secondary_exposures r of
            Some es \<Rightarrow> map (\<lambda>e. hash_util_hash x (exposure_text e) Djb2) es | None \<Rightarrow> []);
          (allocated, active, in_experiment) = delegate_info r;
          (id_type, is_device_based) = get_id_type_info (er_id_type r)
      in (\<lparr>l2_base = result_to_base_eval_v2 x layer_name r, l2_value = get_json_value r, l2_id_type = Some id_type,
           l2_is_device_based = is_device_based, l2_group_name = er_group_name r, l2_is_experiment_active = active,
           l2_is_user_in_experiment = in_experiment, l2_allocated_experiment_name = allocated,
           l2_explicit_parameters = (case er_explicit_parameters r of Some ps \<Rightarrow> ps | None \<Rightarrow> []),
           l2_undelegated_secondary_exposures = Some undelegated\<rparr>,
          r\<lparr>er_config_delegate := None, er_json_value := None, er_group_name := None\<rparr>))"

section \<open>Shared tables\<close>

record base_evaluation_init_v2 =
  bi_rule_id :: "string option"
  bi_secondary_exposures :: "string list option"

record gate_evaluation_init_v2 =
  gi_base :: base_evaluation_init_v2
  gi_id_type :: "string option"
  gi_value :: "bool option"

record dynamic_config_evaluation_init_v2 =
  ci_base :: base_evaluation_init_v2
  ci_id_type :: "string option"
  ci_value :: string
  ci_passed :: bool

record experiment_evaluation_init_v2 =
  ei_base :: base_evaluation_init_v2
  ei_id_type :: "string option"
  ei_value :: string
  ei_group_name :: "string option"
  ei_is_experiment_active :: "bool option"
  ei_is_user_in_experiment :: "bool option"

record layer_evaluation_init_v2 =
  li_base :: base_evaluation_init_v2
  li_value :: string
  li_id_type :: "string option"
  li_group_name :: "string option"
  li_is_experiment_active :: "bool option"
  li_is_user_in_experiment :: "bool option"
  li_allocated_experiment_name :: "string option"
  li_explicit_parameters :: "explicit_parameters option"
  li_undelegated_secondary_exposures :: "string list option"

datatype any_config_evaluation_init_v2 =
    ConfigDynamicConfigInitV2 dynamic_config_evaluation_init_v2
  | ConfigExperimentInitV2 experiment_evaluation_init_v2

definition hash_secondary_exposures_init_v2 :: "ext \<Rightarrow> string list option \<Rightarrow> u64" where
  "hash_secondary_exposures_init_v2 x es =
     x_hash_one x (case es of Some l \<Rightarrow> map (interned_hash x) l | None \<Rightarrow> [])"

definition gate_evaluation_init_v2_hash :: "ext \<Rightarrow> gate_evaluation_init_v2 \<Rightarrow> string \<Rightarrow> u64" where
  "gate_evaluation_init_v2_hash x g name =
     x_hash_one x [interned_hash x name, (if gi_value g = Some True then 1 else 0),
       opt_interned_hash x (bi_rule_id (gi_base g)), hash_secondary_exposures_init_v2 x (bi_secondary_exposures (gi_base g))]"

definition dynamic_config_evaluation_init_v2_hash :: "ext \<Rightarrow> dynamic_config_evaluation_init_v2 \<Rightarrow> string \<Rightarrow> u64" where
  "dynamic_config_evaluation_init_v2_hash x c name =
     x_hash_one x [interned_hash x name, interned_hash x (ci_value c), opt_interned_hash x (bi_rule_id (ci_base c)),
       hash_secondary_exposures_init_v2 x (bi_secondary_exposures (ci_base c)), (if ci_passed c then 1 else 0)]"

definition experiment_evaluation_init_v2_hash :: "ext \<Rightarrow> experiment_evaluation_init_v2 \<Rightarrow> string \<Rightarrow> u64" where
  "experiment_evaluation_init_v2_hash x e name =
     x_hash_one x [interned_hash x name, interned_hash x (ei_value e), opt_interned_hash x (bi_rule_id (ei_base e)),
       hash_secondary_exposures_init_v2 x (bi_secondary_exposures (ei_base e)), opt_interned_hash x (ei_group_name e),
       opt_bool_to_hashable (ei_is_experiment_active e), opt_bool_to_hashable (ei_is_user_in_experiment e)]"

fun any_config_evaluation_init_v2_hash :: "ext \<Rightarrow> any_config_evaluation_init_v2 \<Rightarrow> string \<Rightarrow> u64" where
  "any_config_evaluation_init_v2_hash x (ConfigDynamicConfigInitV2 c) name = dynamic_config_evaluation_init_v2_hash x c name"
| "any_config_evaluation_init_v2_hash x (ConfigExperimentInitV2 e) name = experiment_evaluation_init_v2_hash x e name"

text \<open>The explicit parameters are collected in the sources but do not enter this hash.\<close>

definition layer_evaluation_init_v2_hash :: "ext \<Rightarrow> layer_evaluation_init_v2 \<Rightarrow> string \<Rightarrow> u64" where
  "layer_evaluation_init_v2_hash x l name =
     x_hash_one x [interned_hash x name, interned_hash x (li_value l), opt_interned_hash x (bi_rule_id (li_base l)),
       hash_secondary_exposures_init_v2 x (bi_secondary_exposures (li_base l)), opt_interned_hash x (li_group_name l),
       opt_bool_to_hashable (li_is_experiment_active l), opt_bool_to_hashable (li_is_user_in_experiment l),
       opt_interned_hash x (li_allocated_experiment_name l),
       hash_secondary_exposures_init_v2 x (li_undelegated_secondary_exposures l)]"

record secondary_exposure_key =
  ek_gate_name_hash :: u64
  ek_rule_id_hash :: u64
  ek_gate_value_hash :: u64

definition secondary_exposure_key_of :: "ext \<Rightarrow> secondary_exposure \<Rightarrow> secondary_exposure_key" where
  "secondary_exposure_key_of x e =
     \<lparr>ek_gate_name_hash = interned_hash x (se_gate e), ek_rule_id_hash = interned_hash x (se_rule_id e),
      ek_gate_value_hash = interned_hash x (se_gate_value e)\<rparr>"

text \<open>A table from ids to entries, with the ids by key of the entry.\<close>

record ('k, 'v) id_table =
  it_entries :: "(string, 'v) HashMap"
  it_ids :: "('k, string) HashMap"

definition table_empty :: "('k, 'v) id_table" where
  "table_empty = \<lparr>it_entries = [], it_ids = []\<rparr>"

text \<open>The id of an entry: the one of its key, or else the number of entries so far.\<close>

definition table_id :: "'k \<Rightarrow> 'v \<Rightarrow> ('k, 'v) id_table \<Rightarrow> string \<times> ('k, 'v) id_table" where
  "table_id key entry t =
     (case hm_get (it_ids t) key of
        Some i \<Rightarrow> (i, t)
      | None \<Rightarrow>
          (let i = nat_to_string (length (it_entries t))
           in (i, \<lparr>it_entries = hm_insert i entry (it_entries t), it_ids = hm_insert key i (it_ids t)\<rparr>)))"

type_synonym exposure_table = "(secondary_exposure_key, secondary_exposure) id_table"
type_synonym value_table = "(u64, dynamic_returnable) id_table"

fun map_exposures :: "ext \<Rightarrow> secondary_exposure list \<Rightarrow> exposure_table \<Rightarrow> string list \<times> exposure_table" where
  "map_exposures x [] t = ([], t)"
| "map_exposures x (e # es) t =
     (let (i, t1) = table_id (secondary_exposure_key_of x e) e t;
          (is, t2) = map_exposures x es t1
      in (i # is, t2))"

definition get_mapped_value :: "dynamic_returnable option \<Rightarrow> value_table \<Rightarrow> string \<times> value_table" where
  "get_mapped_value v t = (let val = (case v of Some w \<Rightarrow> w | None \<Rightarrow> dr_empty) in table_id (dr_hash val) val t)"

definition result_to_base_eval_init_v2 ::
    "ext \<Rightarrow> evaluator_result \<Rightarrow> exposure_table \<Rightarrow> base_evaluation_init_v2 \<times> evaluator_result \<times> exposure_table" where
  "result_to_base_eval_init_v2 x r t =
     (let rule_id = create_suffixed_rule_id (er_rule_id r) (er_rule_id_suffix r);
          opt_rule_id = (if rule_id = ''default'' then None else Some rule_id)
      in if er_secondary_exposures r = [] then (\<lparr>bi_rule_id = opt_rule_id, bi_secondary_exposures = None\<rparr>, r, t)
         else
           (let (ids, t1) = map_exposures x (er_secondary_exposures r) t
            in (\<lparr>bi_rule_id = opt_rule_id, bi_secondary_exposures = Some ids\<rparr>, r\<lparr>er_secondary_exposures := []\<rparr>, t1)))"

definition result_to_gate_eval_init_v2 ::
    "ext \<Rightarrow> evaluator_result \<Rightarrow> exposure_table \<Rightarrow> gate_evaluation_init_v2 \<times> evaluator_result \<times> exposure_table" where
  "result_to_gate_eval_init_v2 x r t =
     (let (base, r1, t1) = result_to_base_eval_init_v2 x r t
      in (\<lparr>gi_base = base, gi_id_type = er_id_type r1, gi_value = (if er_bool_value r then Some True else None)\<rparr>,
          r1\<lparr>er_id_type := None\<rparr>, t1))"

definition result_to_dynamic_config_eval_init_v2 ::
    "ext \<Rightarrow> evaluator_result \<Rightarrow> exposure_table \<Rightarrow> value_table \<Rightarrow>
     dynamic_config_evaluation_init_v2 \<times> evaluator_result \<times> exposure_table \<times> value_table" where
  "result_to_dynamic_config_eval_init_v2 x r t vt =
     (let r0 = r\<lparr>er_json_value := None, er_id_type := None\<rparr>;
          (mapped, vt1) = get_mapped_value (er_json_value r) vt;
          (base, r1, t1) = result_to_base_eval_init_v2 x r0 t
      in (\<lparr>ci_base = base, ci_id_type = er_id_type r, ci_value = mapped, ci_passed = er_bool_value r1\<rparr>, r1, t1, vt1))"

definition result_to_experiment_eval_init_v2 ::
    "ext \<Rightarrow> string option \<Rightarrow> evaluator_result \<Rightarrow> exposure_table \<Rightarrow> value_table \<Rightarrow>
     experiment_evaluation_init_v2 \<times> evaluator_result \<times> exposure_table \<times> value_table" where
  "result_to_experiment_eval_init_v2 x spec_entity r t vt =
     (let r0 = r\<lparr>er_json_value := None, er_id_type := None\<rparr>;
          known = (spec_entity = Some ''experiment'');
          (mapped, vt1) = get_mapped_value (er_json_value r) vt;
          (base, r1, t1) = result_to_base_eval_init_v2 x r0 t
      in (\<lparr>ei_base = base, ei_id_type = er_id_type r, ei_value = mapped, ei_group_name = er_group_name r1,
           ei_is_experiment_active = (if known then Some (er_is_experiment_active r) else None),
           ei_is_user_in_experiment = (if known then Some (er_is_experiment_group r) else None)\<rparr>,
          r1\<lparr>er_group_name := None\<rparr>, t1, vt1))"

definition result_to_layer_eval_init_v2 ::
    "ext \<Rightarrow> evaluator_result \<Rightarrow> exposure_table \<Rightarrow> value_table \<Rightarrow>
     layer_evaluation_init_v2 \<times> evaluator_result \<times> exposure_table \<times> value_table" where
  "result_to_layer_eval_init_v2 x r t vt =
     (let (allocated, active, in_experiment) = delegate_info r;
          (undelegated, t1, r0) =
            (case er_undelegated_secondary_exposures r of
               None \<Rightarrow> (None, t, r)
             | Some es \<Rightarrow>
                 if es = [] then (None, t, r)
                 else (let (ids, t1) = map_exposures x es t
                       in (Some ids, t1, r\<lparr>er_undelegated_secondary_exposures := Some []\<rparr>)));
          (mapped, vt1) = get_mapped_value (er_json_value r) vt;
          (base, r1, t2) = result_to_base_eval_init_v2 x
            (r0\<lparr>er_json_value := None, er_config_delegate := None, er_id_type := None\<rparr>) t1
      in (\<lparr>li_base = base, li_value = mapped, li_id_type = er_id_type r, li_group_name = er_group_name r1,
           li_is_experiment_active = active, li_is_user_in_experiment = in_experiment,
           li_allocated_experiment_name = allocated, li_explicit_parameters = er_explicit_parameters r1,
           li_undelegated_secondary_exposures = undelegated\<rparr>,
          r1\<lparr>er_group_name := None\<rparr>, t2, vt1))"

section \<open>Tables are consistent\<close>

text \<open>
  The ids of a table are the numbers below its size, and the id kept for a key leads to an entry of
  that key. \<open>D\<close> are the entries under consideration; on them the key must be injective, that is, no two
  of them may have the same hashes.
\<close>

definition table_ok :: "('v \<Rightarrow> 'k) \<Rightarrow> 'v set \<Rightarrow> ('k, 'v) id_table \<Rightarrow> bool" where
  "table_ok key D t \<longleftrightarrow>
     set (hm_keys (it_entries t)) = nat_to_string ` {..<length (it_entries t)} \<and>
     (\<forall>k i. hm_get (it_ids t) k = Some i \<longrightarrow> (\<exists>v\<in>D. hm_get (it_entries t) i = Some v \<and> key v = k))"

definition table_extends :: "('k, 'v) id_table \<Rightarrow> ('k, 'v) id_table \<Rightarrow> bool" where
  "table_extends t t' \<longleftrightarrow> (\<forall>i v. hm_get (it_entries t) i = Some v \<longrightarrow> hm_get (it_entries t') i = Some v)"

lemma table_extends_refl [simp]: "table_extends t t"
  by (simp add: table_extends_def)

lemma table_extends_trans: "table_extends t1 t2 \<Longrightarrow> table_extends t2 t3 \<Longrightarrow> table_extends t1 t3"
  by (simp add: table_extends_def)

lemma table_empty_ok [simp]: "table_ok key D table_empty"
  by (simp add: table_ok_def table_empty_def hm_keys_def)

lemma hm_insert_new:
  assumes "k \<notin> set (hm_keys m)"
  shows "hm_insert k v m = m @ [(k, v)]"
  using assms by (induction m) (auto simp: hm_insert_def hm_keys_def)

lemma table_id_ok:
  assumes ok: "table_ok key D t" and inj: "inj_on key D" and v: "v \<in> D" and id: "table_id (key v) v t = (i, t')"
  shows "table_ok key D t'" "hm_get (it_entries t') i = Some v" "table_extends t t'"
proof -
  let ?n = "nat_to_string (length (it_entries t))"
  have fresh: "?n \<notin> set (hm_keys (it_entries t))" using ok by (auto simp: table_ok_def nat_to_string_inj)
  then have no_entry: "hm_get (it_entries t) ?n = None" by (simp add: hm_get_def hm_keys_def map_of_eq_None_iff)
  consider (known) "hm_get (it_ids t) (key v) = Some i" "t' = t"
    | (new) "hm_get (it_ids t) (key v) = None" "i = ?n"
        "t' = \<lparr>it_entries = hm_insert ?n v (it_entries t), it_ids = hm_insert (key v) ?n (it_ids t)\<rparr>"
    using id by (auto simp: table_id_def Let_def split: option.splits)
  note cases = this
  show "hm_get (it_entries t') i = Some v"
  proof (cases rule: cases)
    case known
    then obtain w where "w \<in> D" "hm_get (it_entries t) i = Some w" "key w = key v" using ok unfolding table_ok_def by blast
    with known inj v show ?thesis by (auto dest: inj_onD)
  qed simp
  show "table_extends t t'" by (cases rule: cases) (use no_entry in \<open>auto simp: table_extends_def\<close>)
  show "table_ok key D t'"
  proof (cases rule: cases)
    case new
    have "set (hm_keys (it_entries t')) = insert ?n (set (hm_keys (it_entries t)))" "length (it_entries t') = Suc (length (it_entries t))"
      using new hm_insert_new [OF fresh] by (simp_all add: hm_keys_def)
    then have "set (hm_keys (it_entries t')) = nat_to_string ` {..<length (it_entries t')}"
      using ok by (simp add: table_ok_def lessThan_Suc)
    moreover have "\<exists>w\<in>D. hm_get (it_entries t') j = Some w \<and> key w = k" if "hm_get (it_ids t') k = Some j" for k j
      using that new v ok no_entry by (cases "k = key v") (fastforce simp: table_ok_def)+
    ultimately show ?thesis by (simp add: table_ok_def)
  qed (use ok in simp)
qed

lemma map_exposures_ok:
  assumes "inj_on (secondary_exposure_key_of x) D"
    and "table_ok (secondary_exposure_key_of x) D t" "set es \<subseteq> D" "map_exposures x es t = (ids, t')"
  shows "table_ok (secondary_exposure_key_of x) D t' \<and> map (hm_get (it_entries t')) ids = map Some es \<and> table_extends t t'"
  using assms(2-4)
proof (induction es arbitrary: t ids)
  case (Cons e es)
  obtain i t1 where i: "table_id (secondary_exposure_key_of x e) e t = (i, t1)"
    by (cases "table_id (secondary_exposure_key_of x e) e t")
  obtain js t2 where rest: "map_exposures x es t1 = (js, t2)" by (cases "map_exposures x es t1")
  have out: "ids = i # js" "t' = t2" using Cons.prems(3) i rest by simp_all
  have "e \<in> D" using Cons.prems(2) by simp
  note step = table_id_ok [OF Cons.prems(1) assms(1) this i]
  have IH: "table_ok (secondary_exposure_key_of x) D t2" "map (hm_get (it_entries t2)) js = map Some es" "table_extends t1 t2"
    using Cons.IH [OF step(1) _ rest [folded out(2)]] Cons.prems(2) out(2) by simp_all
  have "hm_get (it_entries t2) i = Some e" using step(2) IH(3) by (simp add: table_extends_def)
  with IH step(3) show ?case unfolding out by (auto intro: table_extends_trans)
qed simp

section \<open>Reading the response back\<close>

text \<open>What a client reads of a gate, with the final table of exposures: value, rule id and exposures.\<close>

definition decode_gate :: "exposure_table \<Rightarrow> gate_evaluation_init_v2 \<Rightarrow> bool \<times> string \<times> secondary_exposure option list" where
  "decode_gate t g =
     (gi_value g = Some True,
      (case bi_rule_id (gi_base g) of Some r \<Rightarrow> r | None \<Rightarrow> ''default''),
      (case bi_secondary_exposures (gi_base g) of Some ids \<Rightarrow> map (hm_get (it_entries t)) ids | None \<Rightarrow> []))"

fun convert_gates :: "ext \<Rightarrow> evaluator_result list \<Rightarrow> exposure_table \<Rightarrow> gate_evaluation_init_v2 list \<times> exposure_table" where
  "convert_gates x [] t = ([], t)"
| "convert_gates x (r # rs) t =
     (let (g, r', t1) = result_to_gate_eval_init_v2 x r t;
          (gs, t2) = convert_gates x rs t1
      in (g # gs, t2))"

text \<open>What the first format says of the same result.\<close>

definition plain_gate :: "evaluator_result \<Rightarrow> bool \<times> string \<times> secondary_exposure option list" where
  "plain_gate r =
     (let g = fst (result_to_gate_eval [] r)
      in (ge_value g, be_rule_id (ge_base g), map Some (be_secondary_exposures (ge_base g))))"

lemma gate_init_v2_step:
  assumes "inj_on (secondary_exposure_key_of x) D" "table_ok (secondary_exposure_key_of x) D t"
    and "set (er_secondary_exposures r) \<subseteq> D" "result_to_gate_eval_init_v2 x r t = (g, r', t')"
  shows "table_ok (secondary_exposure_key_of x) D t'" "table_extends t t'"
    "table_extends t' t'' \<Longrightarrow> decode_gate t'' g = plain_gate r"
proof -
  obtain ids t1 where m: "map_exposures x (er_secondary_exposures r) t = (ids, t1)"
    by (cases "map_exposures x (er_secondary_exposures r) t")
  note ok = map_exposures_ok [OF assms(1-3) m]
  have t': "t' = t1"
    using assms(4) m by (auto simp: result_to_gate_eval_init_v2_def result_to_base_eval_init_v2_def Let_def split: if_splits)
  then show "table_ok (secondary_exposure_key_of x) D t'" "table_extends t t'" using ok by simp_all
  assume ext: "table_extends t' t''"
  have "map (hm_get (it_entries t'')) ids = map Some (er_secondary_exposures r)"
  proof (rule nth_equalityI)
    have len: "length ids = length (er_secondary_exposures r)" using ok by (metis length_map)
    then show "length (map (hm_get (it_entries t'')) ids) = length (map Some (er_secondary_exposures r))" by simp
    fix n
    assume "n < length (map (hm_get (it_entries t'')) ids)"
    moreover from this have "map (hm_get (it_entries t')) ids ! n = map Some (er_secondary_exposures r) ! n" using ok t' by simp
    ultimately show "map (hm_get (it_entries t'')) ids ! n = map Some (er_secondary_exposures r) ! n"
      using ext len by (simp add: table_extends_def)
  qed
  then show "decode_gate t'' g = plain_gate r"
    using assms(4) m t'
    by (auto simp: result_to_gate_eval_init_v2_def result_to_base_eval_init_v2_def Let_def decode_gate_def plain_gate_def
        result_to_gate_eval_def result_to_base_eval_def split: if_splits)
qed

section \<open>Properties\<close>

text \<open>
  C22: the compact response loses nothing. Gates converted one after the other with a shared table of
  exposures, then read back with the final table, give the value, the rule id and the exposures that
  the plain response has, as long as no two of the exposures have the same hashes.
\<close>

theorem init_v2_gates_decode:
  assumes "inj_on (secondary_exposure_key_of x) (\<Union>r\<in>set rs. set (er_secondary_exposures r))"
    and "convert_gates x rs table_empty = (gs, t)"
  shows "map (decode_gate t) gs = map plain_gate rs"
proof -
  define D where "D = (\<Union>r\<in>set rs. set (er_secondary_exposures r))"
  have inj: "inj_on (secondary_exposure_key_of x) D" using assms(1) by (simp add: D_def)
  have "map (decode_gate t') gs = map plain_gate rs \<and> table_extends t0 t'"
    if "convert_gates x rs t0 = (gs, t')" "table_ok (secondary_exposure_key_of x) D t0"
      "(\<Union>r\<in>set rs. set (er_secondary_exposures r)) \<subseteq> D" for rs gs t0 t'
    using that
  proof (induction rs arbitrary: gs t0)
    case (Cons r rs)
    obtain g r' t1 where g: "result_to_gate_eval_init_v2 x r t0 = (g, r', t1)"
      by (cases "result_to_gate_eval_init_v2 x r t0")
    obtain gs1 t2 where rest: "convert_gates x rs t1 = (gs1, t2)" by (cases "convert_gates x rs t1")
    have out: "gs = g # gs1" "t' = t2" using Cons.prems(1) g rest by simp_all
    note step = gate_init_v2_step [OF inj Cons.prems(2) _ g]
    have "map (decode_gate t') gs1 = map plain_gate rs \<and> table_extends t1 t'"
      using Cons.IH [OF rest [folded out(2)]] step(1) Cons.prems(3) by simp
    with step(2,3) Cons.prems(3) show ?case unfolding out(1) by (auto intro: table_extends_trans)
  qed simp
  from this [OF assms(2)] show ?thesis by (simp add: D_def)
qed

definition sample_gate_result :: "string \<Rightarrow> evaluator_result" where
  "sample_gate_result g = er_default\<lparr>er_bool_value := True, er_rule_id := Some ''r1'',
     er_secondary_exposures := [\<lparr>se_gate = g, se_gate_value = ''true'', se_rule_id = ''r''\<rparr>]\<rparr>"

theorem init_v2_gates_decode_witness:
  "let (gs, t) = convert_gates sample_ext [sample_gate_result ''a'', sample_gate_result ''bb'', sample_gate_result ''a''] table_empty
   in map (decode_gate t) gs = map plain_gate [sample_gate_result ''a'', sample_gate_result ''bb'', sample_gate_result ''a'']"
proof -
  let ?rs = "[sample_gate_result ''a'', sample_gate_result ''bb'', sample_gate_result ''a'']"
  have "inj_on (secondary_exposure_key_of sample_ext) (\<Union>r\<in>set ?rs. set (er_secondary_exposures r))"
    by (simp add: sample_gate_result_def secondary_exposure_key_of_def interned_hash_def sample_ext_def inj_on_def)
  from init_v2_gates_decode [OF this] show ?thesis by (simp add: split_def)
qed

end
