(* ===== verification/Api_Types.thy ===== *)
theory Api_Types
  imports Eval_Types
begin

text \<open>
  The values the interface hands out: the native ones of \<open>src/statsig-rust/src/statsig_types.rs\<close> with
  their factories (\<open>statsig_type_factories.rs\<close>), and the raw ones of \<open>statsig_types_raw.rs\<close> for the language
  bindings, built from the same evaluator result by \<open>evaluation/evaluator_result.rs\<close>.

  The conversion of a JSON value to a requested type, \<open>serde_json::from_value\<close>, is the argument \<open>de\<close>.
\<close>

section \<open>Raw values\<close>

record suffixed_rule_id =
  sx_rule_id :: string
  sx_rule_id_suffix :: "string option"

definition try_as_unprefixed_str :: "suffixed_rule_id \<Rightarrow> string option" where
  "try_as_unprefixed_str s = (if sx_rule_id_suffix s \<noteq> None then None else Some (sx_rule_id s))"

definition suffixed_to_string :: "suffixed_rule_id \<Rightarrow> string" where
  "suffixed_to_string s =
     (case sx_rule_id_suffix s of Some suffix \<Rightarrow> sx_rule_id s @ '':'' @ suffix | None \<Rightarrow> sx_rule_id s)"

text \<open>The formatter of \<open>Display\<close> writes the parts one after the other.\<close>

definition suffixed_display :: "suffixed_rule_id \<Rightarrow> string" where
  "suffixed_display s = sx_rule_id s @ (case sx_rule_id_suffix s of Some suffix \<Rightarrow> '':'' @ suffix | None \<Rightarrow> [])"

definition empty_suffixed_rule_id :: suffixed_rule_id where
  "empty_suffixed_rule_id = \<lparr>sx_rule_id = [], sx_rule_id_suffix = None\<rparr>"

record feature_gate_raw =
  gr_name :: string
  gr_value :: bool
  gr_rule_id :: suffixed_rule_id
  gr_id_type :: "string option"
  gr_details :: evaluation_details

definition feature_gate_raw_empty :: "string \<Rightarrow> evaluation_details \<Rightarrow> feature_gate_raw" where
  "feature_gate_raw_empty name details =
     \<lparr>gr_name = name, gr_value = False, gr_rule_id = empty_suffixed_rule_id, gr_id_type = None, gr_details = details\<rparr>"

record dynamic_config_raw =
  cr_name :: string
  cr_value :: "dynamic_returnable option"
  cr_rule_id :: suffixed_rule_id
  cr_id_type :: "string option"
  cr_details :: evaluation_details

definition dynamic_config_raw_empty :: "string \<Rightarrow> evaluation_details \<Rightarrow> dynamic_config_raw" where
  "dynamic_config_raw_empty name details =
     \<lparr>cr_name = name, cr_value = None, cr_rule_id = empty_suffixed_rule_id, cr_id_type = None, cr_details = details\<rparr>"

record experiment_raw =
  xr_name :: string
  xr_value :: "dynamic_returnable option"
  xr_rule_id :: suffixed_rule_id
  xr_id_type :: "string option"
  xr_group_name :: "string option"
  xr_is_experiment_active :: "bool option"
  xr_details :: evaluation_details
  xr_secondary_exposures :: "secondary_exposure list option"

definition experiment_raw_empty :: "string \<Rightarrow> evaluation_details \<Rightarrow> experiment_raw" where
  "experiment_raw_empty name details =
     \<lparr>xr_name = name, xr_value = None, xr_rule_id = empty_suffixed_rule_id, xr_id_type = None, xr_group_name = None,
      xr_is_experiment_active = None, xr_details = details, xr_secondary_exposures = None\<rparr>"

record layer_raw =
  lr_name :: string
  lr_value :: "dynamic_returnable option"
  lr_rule_id :: suffixed_rule_id
  lr_id_type :: "string option"
  lr_group_name :: "string option"
  lr_is_experiment_active :: "bool option"
  lr_details :: evaluation_details
  lr_allocated_experiment_name :: "string option"
  lr_disable_exposure :: bool
  lr_user :: loggable_user
  lr_secondary_exposures :: "secondary_exposure list option"
  lr_undelegated_secondary_exposures :: "secondary_exposure list option"
  lr_explicit_parameters :: "explicit_parameters option"
  lr_parameter_rule_ids :: "(string, string) HashMap option"
  lr_exposure_info :: "extra_exposure_info option"

definition loggable_null :: loggable_user where
  "loggable_null = \<lparr>lu_data = ud_default, lu_environment = None, lu_global_custom = None\<rparr>"

definition layer_raw_empty :: "string \<Rightarrow> evaluation_details \<Rightarrow> layer_raw" where
  "layer_raw_empty name details =
     \<lparr>lr_name = name, lr_value = None, lr_rule_id = empty_suffixed_rule_id, lr_id_type = None, lr_group_name = None,
      lr_is_experiment_active = None, lr_details = details, lr_allocated_experiment_name = None,
      lr_disable_exposure = False, lr_user = loggable_null, lr_secondary_exposures = None,
      lr_undelegated_secondary_exposures = None, lr_explicit_parameters = None, lr_parameter_rule_ids = None,
      lr_exposure_info = None\<rparr>"

text \<open>The part of a raw layer that comes back through a binding to log an exposure.\<close>

record partial_layer_raw =
  pl_name :: string
  pl_rule_id :: "string option"
  pl_id_type :: "string option"
  pl_group_name :: "string option"
  pl_details :: evaluation_details
  pl_allocated_experiment_name :: "string option"
  pl_disable_exposure :: bool
  pl_user :: loggable_user
  pl_secondary_exposures :: "secondary_exposure list option"
  pl_undelegated_secondary_exposures :: "secondary_exposure list option"
  pl_explicit_parameters :: "explicit_parameters option"
  pl_parameter_rule_ids :: "(string, string) HashMap option"
  pl_exposure_info :: "extra_exposure_info option"

definition partial_layer_from_raw :: "layer_raw \<Rightarrow> partial_layer_raw" where
  "partial_layer_from_raw raw =
     \<lparr>pl_name = lr_name raw, pl_rule_id = Some (suffixed_to_string (lr_rule_id raw)), pl_id_type = lr_id_type raw,
      pl_group_name = lr_group_name raw, pl_details = lr_details raw,
      pl_allocated_experiment_name = lr_allocated_experiment_name raw, pl_disable_exposure = lr_disable_exposure raw,
      pl_user = lr_user raw, pl_secondary_exposures = lr_secondary_exposures raw,
      pl_undelegated_secondary_exposures = lr_undelegated_secondary_exposures raw,
      pl_explicit_parameters = lr_explicit_parameters raw, pl_parameter_rule_ids = lr_parameter_rule_ids raw,
      pl_exposure_info = lr_exposure_info raw\<rparr>"

section \<open>Raw values of a result\<close>

definition create_raw_suffixed_rule_id :: "evaluator_result \<Rightarrow> suffixed_rule_id" where
  "create_raw_suffixed_rule_id r =
     \<lparr>sx_rule_id = (case er_rule_id r of Some i \<Rightarrow> i | None \<Rightarrow> []), sx_rule_id_suffix = er_rule_id_suffix r\<rparr>"

definition result_to_gate_raw :: "string \<Rightarrow> evaluation_details \<Rightarrow> evaluator_result option \<Rightarrow> feature_gate_raw" where
  "result_to_gate_raw name details res =
     (case res of
        Some r \<Rightarrow> \<lparr>gr_name = name, gr_value = er_bool_value r, gr_rule_id = create_raw_suffixed_rule_id r,
                   gr_id_type = er_id_type r, gr_details = details\<rparr>
      | None \<Rightarrow> feature_gate_raw_empty name details)"

definition result_to_dynamic_config_raw :: "string \<Rightarrow> evaluation_details \<Rightarrow> evaluator_result option \<Rightarrow> dynamic_config_raw" where
  "result_to_dynamic_config_raw name details res =
     (case res of
        Some r \<Rightarrow> \<lparr>cr_name = name, cr_value = er_json_value r, cr_rule_id = create_raw_suffixed_rule_id r,
                   cr_id_type = er_id_type r, cr_details = details\<rparr>
      | None \<Rightarrow> dynamic_config_raw_empty name details)"

definition result_to_experiment_raw :: "string \<Rightarrow> evaluation_details \<Rightarrow> evaluator_result option \<Rightarrow> experiment_raw" where
  "result_to_experiment_raw name details res =
     (case res of
        Some r \<Rightarrow> \<lparr>xr_name = name, xr_value = er_json_value r, xr_rule_id = create_raw_suffixed_rule_id r,
                   xr_id_type = er_id_type r, xr_group_name = er_group_name r,
                   xr_is_experiment_active = Some (er_is_experiment_active r), xr_details = details,
                   xr_secondary_exposures = Some (er_secondary_exposures r)\<rparr>
      | None \<Rightarrow> experiment_raw_empty name details)"

definition rule_to_experiment_raw :: "string \<Rightarrow> spec option \<Rightarrow> rule option \<Rightarrow> evaluation_details \<Rightarrow> experiment_raw" where
  "rule_to_experiment_raw name sp ru details =
     (case (sp, ru) of
        (Some s, Some r) \<Rightarrow>
          \<lparr>xr_name = name, xr_value = Some (ru_return_value r),
           xr_rule_id = \<lparr>sx_rule_id = ru_id r, sx_rule_id_suffix = None\<rparr>, xr_id_type = Some (ds_value (ru_id_type r)),
           xr_group_name = ru_group_name r, xr_is_experiment_active = Some (sp_is_active s = Some True),
           xr_details = details, xr_secondary_exposures = None\<rparr>
      | _ \<Rightarrow> experiment_raw_empty name details)"

definition result_to_layer_raw ::
    "statsig_user_internal \<Rightarrow> string \<Rightarrow> bool \<Rightarrow> evaluation_details \<Rightarrow> evaluator_result option \<Rightarrow> layer_raw" where
  "result_to_layer_raw user name disable_exposure_logging details res =
     (case res of
        Some r \<Rightarrow>
          \<lparr>lr_name = name, lr_value = er_json_value r, lr_rule_id = create_raw_suffixed_rule_id r,
           lr_id_type = er_id_type r, lr_group_name = er_group_name r,
           lr_is_experiment_active = Some (er_is_experiment_active r), lr_details = details,
           lr_allocated_experiment_name = er_config_delegate r, lr_disable_exposure = disable_exposure_logging,
           lr_user = to_loggable user, lr_secondary_exposures = Some (er_secondary_exposures r),
           lr_undelegated_secondary_exposures = er_undelegated_secondary_exposures r,
           lr_explicit_parameters = er_explicit_parameters r, lr_parameter_rule_ids = er_parameter_rule_ids r,
           lr_exposure_info = Some (result_to_extra_exposure_info r)\<rparr>
      | None \<Rightarrow> layer_raw_empty name details)"

section \<open>Native values\<close>

record feature_gate =
  fg_name :: string
  fg_value :: bool
  fg_rule_id :: string
  fg_id_type :: string
  fg_details :: evaluation_details
  fg_evaluation :: "gate_evaluation option"

record dynamic_config_value =
  dc_name :: string
  dc_value :: "(string, json) HashMap"
  dc_rule_id :: string
  dc_id_type :: string
  dc_details :: evaluation_details
  dc_evaluation :: "dynamic_config_evaluation option"

record experiment_value =
  xp_name :: string
  xp_value :: "(string, json) HashMap"
  xp_rule_id :: string
  xp_id_type :: string
  xp_group_name :: "string option"
  xp_details :: evaluation_details
  xp_is_experiment_active :: bool
  xp_evaluation :: "experiment_evaluation option"

record layer_value =
  ly_name :: string
  ly_rule_id :: string
  ly_id_type :: string
  ly_group_name :: "string option"
  ly_details :: evaluation_details
  ly_allocated_experiment_name :: "string option"
  ly_is_experiment_active :: bool
  ly_parameter_rule_ids :: "(string, string) HashMap option"
  ly_evaluation :: "layer_evaluation option"
  ly_value :: "(string, json) HashMap"
  ly_user :: loggable_user
  ly_disable_exposure :: bool
  ly_version :: "u32 option"
  ly_exposure_info :: "extra_exposure_info option"
  ly_has_event_logger :: bool

record experiment_group =
  eg_group_name :: string
  eg_rule_id :: string
  eg_id_type :: string
  eg_return_value :: "(string, json) HashMap"

definition opt_default :: "'a \<Rightarrow> 'a option \<Rightarrow> 'a" where
  "opt_default d v = (case v of Some a \<Rightarrow> a | None \<Rightarrow> d)"

lemma opt_default_simps [simp]: "opt_default d None = d" "opt_default d (Some a) = a"
  by (simp_all add: opt_default_def)

definition experiment_group_from_rule :: "rule \<Rightarrow> experiment_group" where
  "experiment_group_from_rule r =
     \<lparr>eg_group_name = opt_default [] (ru_group_name r), eg_rule_id = ru_id r, eg_id_type = ds_value (ru_id_type r),
      eg_return_value = opt_default [] (dr_get_json (ru_return_value r))\<rparr>"

definition make_feature_gate :: "string \<Rightarrow> gate_evaluation option \<Rightarrow> evaluation_details \<Rightarrow> feature_gate" where
  "make_feature_gate name evaluation details =
     (let (value, rule_id, id_type) =
        (case evaluation of
           Some e \<Rightarrow> (ge_value e, be_rule_id (ge_base e), opt_default [] (ge_id_type e))
         | None \<Rightarrow> (False, ''default'', []))
      in \<lparr>fg_name = name, fg_value = value, fg_rule_id = rule_id, fg_id_type = id_type, fg_details = details,
          fg_evaluation = evaluation\<rparr>)"

definition make_dynamic_config :: "string \<Rightarrow> dynamic_config_evaluation option \<Rightarrow> evaluation_details \<Rightarrow> dynamic_config_value" where
  "make_dynamic_config name evaluation details =
     (let (value, rule_id, id_type) =
        (case evaluation of
           Some e \<Rightarrow> (ce_value e, be_rule_id (ce_base e), opt_default [] (ce_id_type e))
         | None \<Rightarrow> (dr_empty, ''default'', []))
      in \<lparr>dc_name = name, dc_value = opt_default [] (dr_get_json value), dc_rule_id = rule_id, dc_id_type = id_type,
          dc_details = details, dc_evaluation = evaluation\<rparr>)"

definition extract_from_experiment_evaluation ::
    "experiment_evaluation option \<Rightarrow> dynamic_returnable \<times> string \<times> string \<times> string option \<times> bool" where
  "extract_from_experiment_evaluation evaluation =
     (case evaluation of
        Some e \<Rightarrow> (xe_value e, be_rule_id (xe_base e), opt_default [] (xe_id_type e), xe_group_name e,
                   opt_default False (xe_is_experiment_active e))
      | None \<Rightarrow> (dr_empty, ''default'', [], None, False))"

definition make_experiment :: "string \<Rightarrow> experiment_evaluation option \<Rightarrow> evaluation_details \<Rightarrow> experiment_value" where
  "make_experiment name evaluation details =
     (let (value, rule_id, id_type, group_name, active) = extract_from_experiment_evaluation evaluation
      in \<lparr>xp_name = name, xp_value = opt_default [] (dr_get_json value), xp_rule_id = rule_id, xp_id_type = id_type,
          xp_group_name = group_name, xp_details = details, xp_is_experiment_active = active, xp_evaluation = evaluation\<rparr>)"

text \<open>Of the pointer to the event logger only whether there is one is kept.\<close>

definition make_layer ::
    "loggable_user \<Rightarrow> string \<Rightarrow> layer_evaluation option \<Rightarrow> evaluation_details \<Rightarrow> bool \<Rightarrow> bool \<Rightarrow> layer_value" where
  "make_layer user name evaluation details has_event_logger disable_exposure =
     (let (value, rule_id, group_name, allocated, id_type, active, parameter_rule_ids) =
        (case evaluation of
           Some e \<Rightarrow> (le_value e, be_rule_id (le_base e), le_group_name e, le_allocated_experiment_name e,
                      opt_default [] (le_id_type e), opt_default False (le_is_experiment_active e), le_parameter_rule_ids e)
         | None \<Rightarrow> (dr_empty, ''default'', None, None, [], False, None));
          exposure_info = Option.bind evaluation (\<lambda>e. be_exposure_info (le_base e));
          version = Option.bind exposure_info xi_version
      in \<lparr>ly_name = name, ly_rule_id = rule_id, ly_id_type = id_type, ly_group_name = group_name, ly_details = details,
          ly_allocated_experiment_name = allocated, ly_is_experiment_active = active,
          ly_parameter_rule_ids = parameter_rule_ids, ly_evaluation = evaluation,
          ly_value = opt_default [] (dr_get_json value), ly_user = user, ly_disable_exposure = disable_exposure,
          ly_version = version, ly_exposure_info = exposure_info, ly_has_event_logger = has_event_logger\<rparr>)"

section \<open>Reading parameters\<close>

fun same_json_type :: "json \<Rightarrow> json \<Rightarrow> bool" where
  "same_json_type (JBool _) (JBool _) = True"
| "same_json_type (JNumber _) (JNumber _) = True"
| "same_json_type (JString _) (JString _) = True"
| "same_json_type (JArray _) (JArray _) = True"
| "same_json_type (JObject _) (JObject _) = True"
| "same_json_type JNull JNull = True"
| "same_json_type _ _ = False"

definition extract_matching_type :: "(string, json) HashMap \<Rightarrow> string \<Rightarrow> json option \<Rightarrow> json option" where
  "extract_matching_type m param_name fallback =
     (case hm_get m param_name of
        None \<Rightarrow> None
      | Some found \<Rightarrow>
          (case fallback of
             None \<Rightarrow> Some found
           | Some f \<Rightarrow> if same_json_type f found then Some found else None))"

definition config_get_opt :: "(json \<Rightarrow> 'a option) \<Rightarrow> (string, json) HashMap \<Rightarrow> string \<Rightarrow> 'a option" where
  "config_get_opt de m param_name = (case hm_get m param_name of Some v \<Rightarrow> de v | None \<Rightarrow> None)"

definition config_get :: "(json \<Rightarrow> 'a option) \<Rightarrow> (string, json) HashMap \<Rightarrow> string \<Rightarrow> 'a \<Rightarrow> 'a" where
  "config_get de m param_name fallback = opt_default fallback (config_get_opt de m param_name)"

definition config_get_typed_opt :: "(string, json) HashMap \<Rightarrow> string \<Rightarrow> json option \<Rightarrow> json option" where
  "config_get_typed_opt m param_name fallback = opt_else (extract_matching_type m param_name fallback) fallback"

text \<open>
  Reading a parameter of a layer also logs: nothing without a logger, a count of the check when
  exposures are disabled, else an exposure of the parameter.
\<close>

datatype layer_log = NoLog | CountNonExposed string | LogParamExposure string

definition log_param_exposure :: "layer_value \<Rightarrow> string \<Rightarrow> layer_log" where
  "log_param_exposure l param_name =
     (if \<not> ly_has_event_logger l then NoLog
      else if ly_disable_exposure l then CountNonExposed (ly_name l)
      else LogParamExposure param_name)"

definition layer_get_opt :: "(json \<Rightarrow> 'a option) \<Rightarrow> layer_value \<Rightarrow> string \<Rightarrow> 'a option \<times> layer_log" where
  "layer_get_opt de l param_name =
     (case hm_get (ly_value l) param_name of
        None \<Rightarrow> (None, NoLog)
      | Some v \<Rightarrow> (case de v of Some a \<Rightarrow> (Some a, log_param_exposure l param_name) | None \<Rightarrow> (None, NoLog)))"

definition layer_get_typed_opt :: "layer_value \<Rightarrow> string \<Rightarrow> json option \<Rightarrow> json option \<times> layer_log" where
  "layer_get_typed_opt l param_name fallback =
     (case extract_matching_type (ly_value l) param_name fallback of
        Some v \<Rightarrow> (Some v, log_param_exposure l param_name)
      | None \<Rightarrow> (fallback, NoLog))"

definition layer_get_raw_value :: "layer_value \<Rightarrow> string \<Rightarrow> json option \<times> layer_log" where
  "layer_get_raw_value l param_name =
     (case hm_get (ly_value l) param_name of
        Some v \<Rightarrow> (Some v, log_param_exposure l param_name)
      | None \<Rightarrow> (None, NoLog))"

section \<open>Properties\<close>

lemma suffixed_rule_id_agrees:
  "suffixed_display (create_raw_suffixed_rule_id r) = create_suffixed_rule_id (er_rule_id r) (er_rule_id_suffix r)"
  "suffixed_to_string s = suffixed_display s"
  by (simp_all add: suffixed_display_def suffixed_to_string_def create_raw_suffixed_rule_id_def create_suffixed_rule_id_def
      split: option.splits)

lemma get_json_of_value: "opt_default [] (dr_get_json (get_json_value r)) = opt_default [] (Option.bind (er_json_value r) dr_get_json)"
  by (simp add: get_json_value_def dr_get_json_def dr_empty_def split: option.splits)

lemmas conversion_defs = Let_def split_def result_to_base_eval_def result_to_gate_eval_def result_to_dynamic_config_eval_def
  experiment_eval_with_def eval_result_to_experiment_eval_def get_id_type_info_def
  make_feature_gate_def make_dynamic_config_def make_experiment_def extract_from_experiment_evaluation_def
  result_to_gate_raw_def result_to_dynamic_config_raw_def result_to_experiment_raw_def

text \<open>
  The two interfaces agree. Whatever the evaluator's result, the gate, config and experiment that
  native callers get and the raw ones the bindings get have the same value, the same rule id with its
  suffix, the same id type, group and activity.
\<close>

theorem raw_values_agree:
  "let g = make_feature_gate n (Some (fst (result_to_gate_eval n r))) d; gr = result_to_gate_raw n d (Some r);
       c = make_dynamic_config n (Some (fst (result_to_dynamic_config_eval n r))) d;
       cr = result_to_dynamic_config_raw n d (Some r);
       e = make_experiment n (Some (fst (eval_result_to_experiment_eval n r))) d; xr = result_to_experiment_raw n d (Some r)
   in (fg_value g = gr_value gr \<and> fg_rule_id g = suffixed_display (gr_rule_id gr) \<and>
       fg_id_type g = opt_default [] (gr_id_type gr)) \<and>
      (dc_value c = opt_default [] (Option.bind (cr_value cr) dr_get_json) \<and>
       dc_rule_id c = suffixed_display (cr_rule_id cr) \<and> dc_id_type c = opt_default [] (cr_id_type cr)) \<and>
      (xp_value e = opt_default [] (Option.bind (xr_value xr) dr_get_json) \<and>
       xp_rule_id e = suffixed_display (xr_rule_id xr) \<and> xp_id_type e = opt_default [] (xr_id_type xr) \<and>
       xp_group_name e = xr_group_name xr \<and> Some (xp_is_experiment_active e) = xr_is_experiment_active xr)"
  by (simp add: conversion_defs suffixed_rule_id_agrees get_json_value_def dr_get_json_def dr_empty_def opt_default_def
      split: option.splits)

lemma same_json_type_refl [simp]: "same_json_type f f"
  by (cases f) simp_all


end
