(* ===== verification/Persistent_Values.thy ===== *)
theory Persistent_Values
  imports Api_Types
begin

text \<open>
  Persistent (sticky) assignments, \<open>src/statsig-rust/src/persistent_storage\<close>: the values kept for a user,
  when a kept value still holds, and the four paths that apply it, to experiments and layers of the native
  interface and to results of the raw one. With them the options of the interface,
  \<open>statsig_core_api_options.rs\<close>.

  The storage is supplied by the host. It is a state with the operations \<open>load\<close>, \<open>save\<close> and
  \<open>delete\<close>; what is relied on is stated in \<open>storage_laws\<close>. The re-evaluation of a spec with a subset of
  its rules is an argument, as in the code; so is the clock.
\<close>

section \<open>Kept values\<close>

record sticky_values =
  st_value :: bool
  st_json_value :: "dynamic_returnable option"
  st_rule_id :: "string option"
  st_group_name :: "string option"
  st_secondary_exposures :: "secondary_exposure list"
  st_undelegated_secondary_exposures :: "secondary_exposure list option"
  st_config_delegate :: "string option"
  st_explicit_parameters :: "explicit_parameters option"
  st_time :: "u64 option"
  st_config_version :: "u32 option"

type_synonym user_persisted_values = "(string, sticky_values) HashMap"

record 's storage_ops =
  sto_load :: "string \<Rightarrow> 's \<Rightarrow> user_persisted_values option"
  sto_save :: "string \<Rightarrow> string \<Rightarrow> sticky_values \<Rightarrow> 's \<Rightarrow> 's"
  sto_delete :: "string \<Rightarrow> string \<Rightarrow> 's \<Rightarrow> 's"

definition get_persistent_storage_key :: "ext \<Rightarrow> user_data \<Rightarrow> string \<Rightarrow> string option" where
  "get_persistent_storage_key x user id_type =
     map_option (\<lambda>i. (case dv_string i of Some s \<Rightarrow> ds_value s | None \<Rightarrow> []) @ '':'' @ id_type)
       (user_unit_id user (ds_from_string x id_type))"

definition get_values_for_user :: "ext \<Rightarrow> 's storage_ops \<Rightarrow> user_data \<Rightarrow> string \<Rightarrow> 's \<Rightarrow> user_persisted_values option" where
  "get_values_for_user x S user id_type s =
     (case get_persistent_storage_key x user id_type of None \<Rightarrow> None | Some key \<Rightarrow> sto_load S key s)"

text \<open>A timestamp that is no number is dropped; a negative one wraps around, a fraction saturates.\<close>

fun deserialize_safe_timestamp :: "json \<Rightarrow> u64 option" where
  "deserialize_safe_timestamp (JNumber (PosInt n)) = Some (of_nat n)"
| "deserialize_safe_timestamp (JNumber (NegInt i)) = Some (of_int i)"
| "deserialize_safe_timestamp (JNumber (FloatNum f)) = Some (f64_to_u64 f)"
| "deserialize_safe_timestamp _ = None"

definition extract_config_version :: "base_evaluation \<Rightarrow> u32 option" where
  "extract_config_version b = Option.bind (be_exposure_info b) xi_version"

definition make_sticky_value_from_layer :: "layer_value \<Rightarrow> sticky_values option" where
  "make_sticky_value_from_layer l =
     (case ly_evaluation l of
        None \<Rightarrow> None
      | Some e \<Rightarrow>
          Some \<lparr>st_value = True, st_json_value = Some (le_value e), st_rule_id = Some (be_rule_id (le_base e)),
                st_group_name = le_group_name e, st_secondary_exposures = be_secondary_exposures (le_base e),
                st_undelegated_secondary_exposures = le_undelegated_secondary_exposures e,
                st_config_delegate = le_allocated_experiment_name e,
                st_explicit_parameters = Some (le_explicit_parameters e), st_time = ed_lcut (ly_details l),
                st_config_version = extract_config_version (le_base e)\<rparr>)"

definition make_sticky_value_from_experiment :: "experiment_value \<Rightarrow> sticky_values option" where
  "make_sticky_value_from_experiment xp =
     (case xp_evaluation xp of
        None \<Rightarrow> None
      | Some e \<Rightarrow>
          Some \<lparr>st_value = True, st_json_value = Some (xe_value e), st_rule_id = Some (be_rule_id (xe_base e)),
                st_group_name = xe_group_name e, st_secondary_exposures = be_secondary_exposures (xe_base e),
                st_undelegated_secondary_exposures = xe_undelegated_secondary_exposures e,
                st_config_delegate = None, st_explicit_parameters = xe_explicit_parameters e,
                st_time = ed_lcut (xp_details xp), st_config_version = extract_config_version (xe_base e)\<rparr>)"

section \<open>Options\<close>

record feature_gate_evaluation_options =
  go_disable_exposure_logging :: bool

record dynamic_config_evaluation_options =
  co_disable_exposure_logging :: bool

record experiment_evaluation_options =
  xo_disable_exposure_logging :: bool
  xo_user_persisted_values :: "user_persisted_values option"
  xo_enforce_overrides :: bool
  xo_enforce_targeting :: bool

record layer_evaluation_options =
  lo_disable_exposure_logging :: bool
  lo_user_persisted_values :: "user_persisted_values option"
  lo_enforce_overrides :: bool
  lo_enforce_targeting :: bool

record parameter_store_evaluation_options =
  po_disable_exposure_logging :: bool

definition gate_options_from_store :: "parameter_store_evaluation_options \<Rightarrow> feature_gate_evaluation_options" where
  "gate_options_from_store opts = \<lparr>go_disable_exposure_logging = po_disable_exposure_logging opts\<rparr>"

definition config_options_from_store :: "parameter_store_evaluation_options \<Rightarrow> dynamic_config_evaluation_options" where
  "config_options_from_store opts = \<lparr>co_disable_exposure_logging = po_disable_exposure_logging opts\<rparr>"

definition experiment_options_from_store :: "parameter_store_evaluation_options \<Rightarrow> experiment_evaluation_options" where
  "experiment_options_from_store opts =
     \<lparr>xo_disable_exposure_logging = po_disable_exposure_logging opts, xo_user_persisted_values = None,
      xo_enforce_overrides = False, xo_enforce_targeting = False\<rparr>"

definition layer_options_from_store :: "parameter_store_evaluation_options \<Rightarrow> layer_evaluation_options" where
  "layer_options_from_store opts =
     \<lparr>lo_disable_exposure_logging = po_disable_exposure_logging opts, lo_user_persisted_values = None,
      lo_enforce_overrides = False, lo_enforce_targeting = False\<rparr>"

section \<open>When a kept value holds\<close>

datatype sticky_rule_filter = FilterTargeting | FilterOverrides

type_synonym sticky_reeval = "string \<Rightarrow> spec_type \<Rightarrow> sticky_rule_filter \<Rightarrow> bool"

definition should_return_sticky_value :: "bool \<Rightarrow> bool \<Rightarrow> string \<Rightarrow> sticky_reeval \<Rightarrow> bool" where
  "should_return_sticky_value enforce_overrides enforce_targeting reeval_spec_name reeval =
     (if enforce_targeting \<and> reeval reeval_spec_name Experiment FilterTargeting then False
      else if enforce_overrides \<and> reeval reeval_spec_name Experiment FilterOverrides then False
      else True)"

definition layer_should_return_sticky_value :: "layer_evaluation_options \<Rightarrow> sticky_values \<Rightarrow> sticky_reeval \<Rightarrow> bool" where
  "layer_should_return_sticky_value options sticky reeval =
     (if \<not> (lo_enforce_overrides options \<or> lo_enforce_targeting options) then True
      else case st_config_delegate sticky of
          None \<Rightarrow> True
        | Some delegate \<Rightarrow>
            should_return_sticky_value (lo_enforce_overrides options) (lo_enforce_targeting options) delegate reeval)"

definition get_sticky_aware_is_experiment_active :: "bool \<Rightarrow> specs_response \<Rightarrow> sticky_values option \<Rightarrow> bool" where
  "get_sticky_aware_is_experiment_active layer_is_active specs sticky =
     (case sticky of
        None \<Rightarrow> layer_is_active
      | Some s \<Rightarrow>
          (case st_config_delegate s of
             None \<Rightarrow> layer_is_active
           | Some config_delegate \<Rightarrow>
               (case hm_get (sr_dynamic_configs specs) config_delegate of
                  Some delegate \<Rightarrow> opt_default layer_is_active (sp_is_active delegate)
                | None \<Rightarrow> layer_is_active)))"

section \<open>Raw results\<close>

definition make_evaluation_details_from_sticky_value :: "u64 \<Rightarrow> sticky_values \<Rightarrow> evaluation_details" where
  "make_evaluation_details_from_sticky_value now s =
     \<lparr>ed_reason = ''Persisted'', ed_lcut = st_time s, ed_received_at = Some now, ed_version = st_config_version s\<rparr>"

definition make_evaluation_result_from_sticky_value :: "evaluator_result \<Rightarrow> sticky_values \<Rightarrow> evaluator_result" where
  "make_evaluation_result_from_sticky_value r s =
     \<lparr>er_name = er_name r, er_bool_value = st_value s, er_unsupported = False, er_is_experiment_group = True,
      er_is_experiment_active = True, er_is_in_layer = False, er_id_type = er_id_type r,
      er_json_value = st_json_value s, er_rule_id = st_rule_id s, er_rule_id_suffix = None,
      er_group_name = st_group_name s, er_explicit_parameters = st_explicit_parameters s,
      er_config_delegate = st_config_delegate s, er_secondary_exposures = st_secondary_exposures s,
      er_undelegated_secondary_exposures = st_undelegated_secondary_exposures s, er_override_reason = None,
      er_version = st_config_version s, er_sampling_rate = er_sampling_rate r,
      er_forward_all_exposures = er_forward_all_exposures r, er_override_config_name = er_override_config_name r,
      er_has_seen_analytical_gates = er_has_seen_analytical_gates r, er_parameter_rule_ids = None\<rparr>"

definition make_sticky_value_from_evaluation_result :: "evaluator_result \<Rightarrow> u64 option \<Rightarrow> sticky_values" where
  "make_sticky_value_from_evaluation_result r lcut =
     \<lparr>st_value = er_bool_value r, st_json_value = er_json_value r, st_rule_id = er_rule_id r,
      st_group_name = er_group_name r, st_secondary_exposures = er_secondary_exposures r,
      st_undelegated_secondary_exposures = er_undelegated_secondary_exposures r,
      st_config_delegate = er_config_delegate r, st_explicit_parameters = er_explicit_parameters r,
      st_time = lcut, st_config_version = er_version r\<rparr>"

definition try_apply_sticky_value_to_raw_experiment_impl ::
    "ext \<Rightarrow> 's storage_ops \<Rightarrow> u64 \<Rightarrow> user_data \<Rightarrow> experiment_evaluation_options \<Rightarrow> evaluation_details \<Rightarrow> evaluator_result \<Rightarrow>
     sticky_reeval \<Rightarrow> 's \<Rightarrow> (evaluator_result \<times> evaluation_details) \<times> 's" where
  "try_apply_sticky_value_to_raw_experiment_impl x S now user options details r reeval s =
     (case er_id_type r of
        None \<Rightarrow> ((r, details), s)
      | Some id_type \<Rightarrow>
          (case er_name r of
             None \<Rightarrow> ((r, details), s)
           | Some config_name \<Rightarrow>
               (case get_persistent_storage_key x user id_type of
                  None \<Rightarrow> ((r, details), s)
                | Some storage_key \<Rightarrow>
                    if xo_user_persisted_values options = None \<or> \<not> er_is_experiment_active r
                    then ((r, details), sto_delete S storage_key config_name s)
                    else
                      (case Option.bind (xo_user_persisted_values options) (\<lambda>values. hm_get values config_name) of
                         Some found \<Rightarrow>
                           (if \<not> (xo_enforce_overrides options \<or> xo_enforce_targeting options) \<or>
                               should_return_sticky_value (xo_enforce_overrides options) (xo_enforce_targeting options)
                                 config_name reeval
                            then ((make_evaluation_result_from_sticky_value r found,
                                   make_evaluation_details_from_sticky_value now found), s)
                            else ((r, details), s))
                       | None \<Rightarrow>
                           if er_is_experiment_active r \<and> er_is_experiment_group r
                           then ((r, details),
                                 sto_save S storage_key config_name (make_sticky_value_from_evaluation_result r (ed_lcut details)) s)
                           else ((r, details), s)))))"

definition try_apply_sticky_value_to_raw_layer_impl ::
    "ext \<Rightarrow> 's storage_ops \<Rightarrow> u64 \<Rightarrow> user_data \<Rightarrow> layer_evaluation_options \<Rightarrow> specs_response \<Rightarrow> evaluation_details \<Rightarrow>
     evaluator_result \<Rightarrow> sticky_reeval \<Rightarrow> 's \<Rightarrow> (evaluator_result \<times> evaluation_details) \<times> 's" where
  "try_apply_sticky_value_to_raw_layer_impl x S now user options specs details r reeval s =
     (case er_id_type r of
        None \<Rightarrow> ((r, details), s)
      | Some id_type \<Rightarrow>
          (case er_name r of
             None \<Rightarrow> ((r, details), s)
           | Some config_name \<Rightarrow>
               (case get_persistent_storage_key x user id_type of
                  None \<Rightarrow> ((r, details), s)
                | Some storage_key \<Rightarrow>
                    (let sticky = Option.bind (lo_user_persisted_values options) (\<lambda>values. hm_get values config_name);
                         active = get_sticky_aware_is_experiment_active (er_is_experiment_active r) specs sticky
                     in if lo_user_persisted_values options = None \<or> \<not> active
                        then ((r, details), sto_delete S storage_key config_name s)
                        else
                          (case sticky of
                             Some found \<Rightarrow>
                               (if \<not> layer_should_return_sticky_value options found reeval then ((r, details), s)
                                else ((make_evaluation_result_from_sticky_value r found,
                                       make_evaluation_details_from_sticky_value now found), s))
                           | None \<Rightarrow>
                               if er_is_experiment_active r \<and> er_is_experiment_group r
                               then ((r, details),
                                     sto_save S storage_key config_name (make_sticky_value_from_evaluation_result r (ed_lcut details)) s)
                               else ((r, details), s))))))"

text \<open>There may be no storage, and then no operations.\<close>

definition try_apply_sticky_value_to_raw_experiment ::
    "ext \<Rightarrow> 's storage_ops option \<Rightarrow> u64 \<Rightarrow> user_data \<Rightarrow> experiment_evaluation_options \<Rightarrow> evaluation_details \<Rightarrow>
     evaluator_result option \<Rightarrow> sticky_reeval \<Rightarrow> 's \<Rightarrow> (evaluator_result option \<times> evaluation_details) \<times> 's" where
  "try_apply_sticky_value_to_raw_experiment x manager now user options details res reeval s =
     (case manager of
        None \<Rightarrow> ((res, details), s)
      | Some S \<Rightarrow>
          (case res of
             None \<Rightarrow> ((None, details), s)
           | Some r \<Rightarrow>
               (let ((r1, details1), s1) = try_apply_sticky_value_to_raw_experiment_impl x S now user options details r reeval s
                in ((Some r1, details1), s1))))"

definition try_apply_sticky_value_to_raw_layer ::
    "ext \<Rightarrow> 's storage_ops option \<Rightarrow> u64 \<Rightarrow> user_data \<Rightarrow> layer_evaluation_options \<Rightarrow> specs_response \<Rightarrow> evaluation_details \<Rightarrow>
     evaluator_result option \<Rightarrow> sticky_reeval \<Rightarrow> 's \<Rightarrow> (evaluator_result option \<times> evaluation_details) \<times> 's" where
  "try_apply_sticky_value_to_raw_layer x manager now user options specs details res reeval s =
     (case manager of
        None \<Rightarrow> ((res, details), s)
      | Some S \<Rightarrow>
          (case res of
             None \<Rightarrow> ((None, details), s)
           | Some r \<Rightarrow>
               (let ((r1, details1), s1) = try_apply_sticky_value_to_raw_layer_impl x S now user options specs details r reeval s
                in ((Some r1, details1), s1))))"

section \<open>Experiments\<close>

definition prep_sticky_rule_id :: "sticky_values \<Rightarrow> string \<times> string" where
  "prep_sticky_rule_id s = (case st_rule_id s of Some r \<Rightarrow> (r, r) | None \<Rightarrow> ([], []))"

definition prep_sticky_group_name :: "sticky_values \<Rightarrow> string option \<times> string option" where
  "prep_sticky_group_name s = (case st_group_name s of Some g \<Rightarrow> (Some g, Some g) | None \<Rightarrow> (None, None))"

definition prep_sticky_config_delegate :: "sticky_values \<Rightarrow> string option \<times> string option" where
  "prep_sticky_config_delegate s = (case st_config_delegate s of Some d \<Rightarrow> (Some d, Some d) | None \<Rightarrow> (None, None))"

definition sticky_value_to_experiment_evaluation ::
    "experiment_value \<Rightarrow> sticky_values \<Rightarrow> string \<Rightarrow> string option \<Rightarrow> experiment_evaluation" where
  "sticky_value_to_experiment_evaluation xp s rule_id group_name =
     (let (is_device_based, is_in_layer) =
        (case xp_evaluation xp of Some e \<Rightarrow> (xe_is_device_based e, xe_is_in_layer e) | None \<Rightarrow> (False, False))
      in \<lparr>xe_base = \<lparr>be_name = xp_name xp, be_rule_id = rule_id, be_secondary_exposures = st_secondary_exposures s,
            be_exposure_info = Option.bind (xp_evaluation xp) (\<lambda>e. be_exposure_info (xe_base e))\<rparr>,
          xe_id_type = Some (xp_id_type xp), xe_value = opt_default dr_empty (st_json_value s),
          xe_is_device_based = is_device_based, xe_is_in_layer = is_in_layer,
          xe_explicit_parameters = st_explicit_parameters s, xe_group_name = group_name,
          xe_is_experiment_active = Some True, xe_is_user_in_experiment = Some True,
          xe_undelegated_secondary_exposures = st_undelegated_secondary_exposures s\<rparr>)"

definition make_experiment_from_sticky_value :: "u64 \<Rightarrow> experiment_value \<Rightarrow> sticky_values \<Rightarrow> experiment_value" where
  "make_experiment_from_sticky_value now xp s =
     (let (rule_id, rule_id_string) = prep_sticky_rule_id s;
          (group_name, group_name_string) = prep_sticky_group_name s;
          evaluation = sticky_value_to_experiment_evaluation xp s rule_id group_name
      in \<lparr>xp_name = xp_name xp, xp_value = opt_default [] (Option.bind (st_json_value s) dr_get_json),
          xp_rule_id = rule_id_string, xp_id_type = xp_id_type xp, xp_group_name = group_name_string,
          xp_details = \<lparr>ed_reason = ''Persisted'', ed_lcut = st_time s, ed_received_at = Some now,
            ed_version = st_config_version s\<rparr>,
          xp_is_experiment_active = True, xp_evaluation = Some evaluation\<rparr>)"

definition try_apply_sticky_value_to_experiment_impl ::
    "ext \<Rightarrow> 's storage_ops \<Rightarrow> u64 \<Rightarrow> user_data \<Rightarrow> experiment_evaluation_options \<Rightarrow> experiment_value \<Rightarrow> sticky_reeval \<Rightarrow>
     's \<Rightarrow> experiment_value \<times> 's" where
  "try_apply_sticky_value_to_experiment_impl x S now user options xp reeval s =
     (case get_persistent_storage_key x user (xp_id_type xp) of
        None \<Rightarrow> (xp, s)
      | Some storage_key \<Rightarrow>
          (let config_name = xp_name xp; active = xp_is_experiment_active xp
           in if xo_user_persisted_values options = None \<or> \<not> active
              then (xp, sto_delete S storage_key config_name s)
              else
                (case Option.bind (xo_user_persisted_values options) (\<lambda>values. hm_get values config_name) of
                   Some found \<Rightarrow>
                     (if \<not> (xo_enforce_overrides options \<or> xo_enforce_targeting options) \<or>
                         should_return_sticky_value (xo_enforce_overrides options) (xo_enforce_targeting options)
                           config_name reeval
                      then (make_experiment_from_sticky_value now xp found, s)
                      else (xp, s))
                 | None \<Rightarrow>
                     (let is_in_experiment = opt_default False (Option.bind (xp_evaluation xp) xe_is_user_in_experiment)
                      in if is_in_experiment \<and> active
                         then (case make_sticky_value_from_experiment xp of
                                 Some new_sticky \<Rightarrow> (xp, sto_save S storage_key config_name new_sticky s)
                               | None \<Rightarrow> (xp, s))
                         else (xp, s)))))"

definition try_apply_sticky_value_to_experiment ::
    "ext \<Rightarrow> 's storage_ops option \<Rightarrow> u64 \<Rightarrow> user_data \<Rightarrow> experiment_evaluation_options \<Rightarrow> experiment_value \<Rightarrow> sticky_reeval \<Rightarrow>
     's \<Rightarrow> experiment_value \<times> 's" where
  "try_apply_sticky_value_to_experiment x manager now user options xp reeval s =
     (case manager of
        None \<Rightarrow> (xp, s)
      | Some S \<Rightarrow> try_apply_sticky_value_to_experiment_impl x S now user options xp reeval s)"

section \<open>Layers\<close>

definition get_current_layer_exposure_info :: "layer_value \<Rightarrow> extra_exposure_info option" where
  "get_current_layer_exposure_info l =
     opt_else (Option.bind (ly_evaluation l) (\<lambda>e. be_exposure_info (le_base e))) (ly_exposure_info l)"

definition sticky_value_to_layer_evaluation ::
    "layer_value \<Rightarrow> sticky_values \<Rightarrow> string \<Rightarrow> string option \<Rightarrow> string option \<Rightarrow> layer_evaluation" where
  "sticky_value_to_layer_evaluation l s rule_id group_name config_delegate =
     \<lparr>le_base = \<lparr>be_name = ly_name l, be_rule_id = rule_id, be_secondary_exposures = st_secondary_exposures s,
        be_exposure_info = get_current_layer_exposure_info l\<rparr>,
      le_value = opt_default dr_empty (st_json_value s), le_id_type = Some (ly_id_type l),
      le_is_device_based = (case ly_evaluation l of Some e \<Rightarrow> le_is_device_based e | None \<Rightarrow> False),
      le_group_name = group_name, le_is_experiment_active = Some True, le_is_user_in_experiment = Some True,
      le_allocated_experiment_name = config_delegate,
      le_explicit_parameters = opt_default [] (st_explicit_parameters s),
      le_undelegated_secondary_exposures = st_undelegated_secondary_exposures s, le_parameter_rule_ids = None\<rparr>"

definition make_layer_from_sticky_value :: "u64 \<Rightarrow> layer_value \<Rightarrow> sticky_values \<Rightarrow> layer_value" where
  "make_layer_from_sticky_value now l s =
     (let (rule_id, rule_id_string) = prep_sticky_rule_id s;
          (group_name, group_name_string) = prep_sticky_group_name s;
          (config_delegate, config_delegate_string) = prep_sticky_config_delegate s;
          evaluation = sticky_value_to_layer_evaluation l s rule_id group_name config_delegate
      in \<lparr>ly_name = ly_name l, ly_rule_id = rule_id_string, ly_id_type = ly_id_type l, ly_group_name = group_name_string,
          ly_details = \<lparr>ed_reason = ''Persisted'', ed_lcut = st_time s, ed_received_at = Some now,
            ed_version = st_config_version s\<rparr>,
          ly_allocated_experiment_name = config_delegate_string, ly_is_experiment_active = True,
          ly_parameter_rule_ids = None, ly_evaluation = Some evaluation,
          ly_value = opt_default [] (Option.bind (st_json_value s) dr_get_json), ly_user = ly_user l,
          ly_disable_exposure = ly_disable_exposure l, ly_version = st_config_version s,
          ly_exposure_info = get_current_layer_exposure_info l, ly_has_event_logger = ly_has_event_logger l\<rparr>)"

definition try_apply_sticky_value_to_layer_impl ::
    "ext \<Rightarrow> 's storage_ops \<Rightarrow> u64 \<Rightarrow> user_data \<Rightarrow> layer_evaluation_options \<Rightarrow> specs_response \<Rightarrow> layer_value \<Rightarrow> sticky_reeval \<Rightarrow>
     's \<Rightarrow> layer_value \<times> 's" where
  "try_apply_sticky_value_to_layer_impl x S now user options specs l reeval s =
     (let config_name = ly_name l
      in case get_persistent_storage_key x user (ly_id_type l) of
           None \<Rightarrow> (l, s)
         | Some storage_key \<Rightarrow>
             (let sticky = Option.bind (lo_user_persisted_values options) (\<lambda>values. hm_get values config_name);
                  active = get_sticky_aware_is_experiment_active (ly_is_experiment_active l) specs sticky
              in if lo_user_persisted_values options = None \<or> \<not> active
                 then (l, sto_delete S storage_key config_name s)
                 else
                   (case sticky of
                      Some found \<Rightarrow>
                        (if \<not> layer_should_return_sticky_value options found reeval then (l, s)
                         else (make_layer_from_sticky_value now l found, s))
                    | None \<Rightarrow>
                        (let is_in_experiment = opt_default False (Option.bind (ly_evaluation l) le_is_user_in_experiment)
                         in if is_in_experiment \<and> active
                            then (case make_sticky_value_from_layer l of
                                    Some new_sticky \<Rightarrow> (l, sto_save S storage_key config_name new_sticky s)
                                  | None \<Rightarrow> (l, s))
                            else (l, s)))))"

definition try_apply_sticky_value_to_layer ::
    "ext \<Rightarrow> 's storage_ops option \<Rightarrow> u64 \<Rightarrow> user_data \<Rightarrow> layer_evaluation_options \<Rightarrow> specs_response \<Rightarrow> layer_value \<Rightarrow>
     sticky_reeval \<Rightarrow> 's \<Rightarrow> layer_value \<times> 's" where
  "try_apply_sticky_value_to_layer x manager now user options specs l reeval s =
     (case manager of
        None \<Rightarrow> (l, s)
      | Some S \<Rightarrow> try_apply_sticky_value_to_layer_impl x S now user options specs l reeval s)"

section \<open>What a storage promises\<close>

text \<open>
  A saved value is found under its key and name until it is deleted, and neither operation touches
  other entries.
\<close>

definition stored_value :: "'s storage_ops \<Rightarrow> string \<Rightarrow> string \<Rightarrow> 's \<Rightarrow> sticky_values option" where
  "stored_value S key name s = Option.bind (sto_load S key s) (\<lambda>m. hm_get m name)"

definition storage_laws :: "'s storage_ops \<Rightarrow> bool" where
  "storage_laws S \<longleftrightarrow>
     (\<forall>key name v s key' name'. stored_value S key' name' (sto_save S key name v s) =
        (if key' = key \<and> name' = name then Some v else stored_value S key' name' s)) \<and>
     (\<forall>key name s key' name'. stored_value S key' name' (sto_delete S key name s) =
        (if key' = key \<and> name' = name then None else stored_value S key' name' s))"

lemma stored_save: "storage_laws S \<Longrightarrow> stored_value S key name (sto_save S key name v s) = Some v"
  by (simp add: storage_laws_def)

lemma stored_delete: "storage_laws S \<Longrightarrow> stored_value S key name (sto_delete S key name s) = None"
  by (simp add: storage_laws_def)

lemma stored_loaded:
  assumes "stored_value S key name s = Some v"
  obtains m where "sto_load S key s = Some m" "hm_get m name = Some v"
  using assms by (auto simp: stored_value_def bind_eq_Some_conv)

section \<open>Decisions\<close>

lemmas prep_sticky_defs = prep_sticky_rule_id_def prep_sticky_group_name_def prep_sticky_config_delegate_def

lemma experiment_from_sticky:
  "xp_value (make_experiment_from_sticky_value now xp s) = opt_default [] (Option.bind (st_json_value s) dr_get_json)"
  "xp_rule_id (make_experiment_from_sticky_value now xp s) = opt_default [] (st_rule_id s)"
  "xp_group_name (make_experiment_from_sticky_value now xp s) = st_group_name s"
  "xp_details (make_experiment_from_sticky_value now xp s) = make_evaluation_details_from_sticky_value now s"
  "xp_is_experiment_active (make_experiment_from_sticky_value now xp s)"
  by (simp_all add: make_experiment_from_sticky_value_def prep_sticky_defs make_evaluation_details_from_sticky_value_def
      split: option.split)

text \<open>A user in an active experiment with no kept value yet: the live value is kept.\<close>

lemma experiment_first_kept:
  assumes "get_persistent_storage_key x user (xp_id_type xp) = Some key" "xp_is_experiment_active xp"
    and "xp_evaluation xp = Some e" "xe_is_user_in_experiment e = Some True"
    and "xo_user_persisted_values options = Some vals" "hm_get vals (xp_name xp) = None"
  shows "\<exists>v. make_sticky_value_from_experiment xp = Some v \<and>
    try_apply_sticky_value_to_experiment_impl x S now user options xp reeval s = (xp, sto_save S key (xp_name xp) v s)"
  using assms by (simp add: try_apply_sticky_value_to_experiment_impl_def make_sticky_value_from_experiment_def Let_def)

text \<open>A kept value that is not put to the test is what the user gets.\<close>

lemma experiment_kept_returned:
  assumes "get_persistent_storage_key x user (xp_id_type xp) = Some key" "xp_is_experiment_active xp"
    and "xo_user_persisted_values options = Some vals" "hm_get vals (xp_name xp) = Some v"
    and "\<not> xo_enforce_overrides options" "\<not> xo_enforce_targeting options"
  shows "try_apply_sticky_value_to_experiment_impl x S now user options xp reeval s = (make_experiment_from_sticky_value now xp v, s)"
  using assms by (simp add: try_apply_sticky_value_to_experiment_impl_def Let_def)

lemma make_experiment_simps:
  "xp_name (make_experiment n ev d) = n" "xp_evaluation (make_experiment n ev d) = ev" "xp_details (make_experiment n ev d) = d"
  "xp_value (make_experiment n (Some e) d) = opt_default [] (dr_get_json (xe_value e))"
  "xp_rule_id (make_experiment n (Some e) d) = be_rule_id (xe_base e)"
  "xp_group_name (make_experiment n (Some e) d) = xe_group_name e"
  "xp_id_type (make_experiment n (Some e) d) = opt_default [] (xe_id_type e)"
  "xp_is_experiment_active (make_experiment n (Some e) d) = opt_default False (xe_is_experiment_active e)"
  by (simp_all add: make_experiment_def extract_from_experiment_evaluation_def split: prod.split)

text \<open>Options that ask for sticky values and enforce nothing.\<close>

definition asking_sticky :: "bool \<Rightarrow> user_persisted_values \<Rightarrow> experiment_evaluation_options" where
  "asking_sticky quiet vals = \<lparr>xo_disable_exposure_logging = quiet, xo_user_persisted_values = Some vals,
     xo_enforce_overrides = False, xo_enforce_targeting = False\<rparr>"

section \<open>Properties\<close>


text \<open>A storage as a table, for the witnesses.\<close>

definition table_storage :: "(string, user_persisted_values) HashMap storage_ops" where
  "table_storage = \<lparr>sto_load = (\<lambda>key s. hm_get s key),
     sto_save = (\<lambda>key name v s. hm_insert key (hm_insert name v (opt_default [] (hm_get s key))) s),
     sto_delete = (\<lambda>key name s. case hm_get s key of None \<Rightarrow> s | Some m \<Rightarrow> hm_insert key (hm_remove name m) s)\<rparr>"

lemma table_storage_laws: "storage_laws table_storage"
  by (auto simp: storage_laws_def table_storage_def stored_value_def opt_default_def split: option.split)

definition sample_sticky_user :: user_data where
  "sample_sticky_user = ud_default\<lparr>ud_user_id := Some (dv_from_json sample_ext (JString ''ann''))\<rparr>"

definition sample_assignment :: experiment_evaluation where
  "sample_assignment = fst (result_to_experiment_eval ''exp'' None
     (er_default\<lparr>er_id_type := Some ''userid'', er_rule_id := Some ''test'', er_group_name := Some ''Test'',
        er_is_experiment_active := True, er_is_experiment_group := True\<rparr>))"

lemma sample_assignment_simps [simp]:
  "xe_id_type sample_assignment = Some ''userid''" "xe_is_experiment_active sample_assignment = Some True"
  "xe_is_user_in_experiment sample_assignment = Some True" "xe_group_name sample_assignment = Some ''Test''"
  "be_rule_id (xe_base sample_assignment) = ''test''"
  by (simp_all add: sample_assignment_def result_to_experiment_eval_def experiment_eval_with_def get_id_type_info_def
      result_to_base_eval_def create_suffixed_rule_id_def er_default_def)


text \<open>An experiment of the native interface and a raw one that say the same.\<close>

definition experiment_views_agree :: "experiment_value \<Rightarrow> experiment_raw \<Rightarrow> bool" where
  "experiment_views_agree xp raw \<longleftrightarrow>
     xp_value xp = opt_default [] (Option.bind (xr_value raw) dr_get_json) \<and>
     xp_rule_id xp = suffixed_display (xr_rule_id raw) \<and> xp_group_name xp = xr_group_name raw \<and>
     Some (xp_is_experiment_active xp) = xr_is_experiment_active raw \<and> xp_details xp = xr_details raw"

lemma live_views_agree:
  "experiment_views_agree (make_experiment n (Some (fst (result_to_experiment_eval n None r))) d) (result_to_experiment_raw n d (Some r))"
  by (simp add: experiment_views_agree_def make_experiment_simps result_to_experiment_eval_def experiment_eval_with_def
      result_to_experiment_raw_def result_to_base_eval_def suffixed_rule_id_agrees get_id_type_info_def Let_def)
    (simp add: get_json_value_def dr_get_json_def dr_empty_def split: option.split)

lemma sticky_views_agree:
  "experiment_views_agree (make_experiment_from_sticky_value now xp v)
     (result_to_experiment_raw n (make_evaluation_details_from_sticky_value now v)
       (Some (make_evaluation_result_from_sticky_value r v)))"
  by (simp add: experiment_views_agree_def experiment_from_sticky result_to_experiment_raw_def suffixed_rule_id_agrees
      make_evaluation_result_from_sticky_value_def create_suffixed_rule_id_def opt_default_def)

lemma sticky_values_agree:
  assumes "er_rule_id r = Some i" "er_rule_id_suffix r = None" "er_json_value r = Some j" "er_bool_value r" "er_config_delegate r = None"
  shows "make_sticky_value_from_experiment (make_experiment n (Some (fst (result_to_experiment_eval n None r))) d)
    = Some (make_sticky_value_from_evaluation_result r (ed_lcut d))"
  using assms by (simp add: make_sticky_value_from_experiment_def make_experiment_simps
      result_to_experiment_eval_def experiment_eval_with_def get_id_type_info_def result_to_base_eval_def
      create_suffixed_rule_id_def get_json_value_def make_sticky_value_from_evaluation_result_def
      extract_config_version_def result_to_extra_exposure_info_def Let_def)



text \<open>
  The experiment a sticky layer rests on has ended: the live layer is returned and what was kept is
  gone.
\<close>

theorem sticky_layer_ends_with_experiment:
  assumes "storage_laws S" "get_persistent_storage_key x user (ly_id_type l) = Some key"
    and "lo_user_persisted_values options = Some vals" "hm_get vals (ly_name l) = Some v"
    and "st_config_delegate v = Some c" "hm_get (sr_dynamic_configs specs) c = Some sp" "sp_is_active sp = Some False"
    and "try_apply_sticky_value_to_layer x (Some S) now user options specs l reeval s = (l', s')"
  shows "l' = l \<and> stored_value S key (ly_name l) s' = None"
  using assms stored_delete [OF assms(1), of key "ly_name l" s]
  by (auto simp: try_apply_sticky_value_to_layer_def try_apply_sticky_value_to_layer_impl_def
      get_sticky_aware_is_experiment_active_def Let_def)

end
