(* ===== verification/Exposure_Sampling.thy ===== *)
theory Exposure_Sampling
  imports Eval_Types
begin

text \<open>
  Which exposures are logged: \<open>src/statsig-rust/src/event_logging/exposure_sampling.rs\<close>, with the remote
  configuration it reads, \<open>src/statsig-rust/src/global_configs.rs\<close>, and the metadata of a decision,
  \<open>src/statsig-rust/src/event_logging/exposure_utils.rs\<close>.

  The least-recently-used cache of the crate \<open>lru\<close> is a parameter, a record of its operations; what is
  assumed of it is \<open>lru_laws\<close>, its documented behaviour. Whether a lock is obtained in time is an
  argument of each operation, and so is the clock.
\<close>

section \<open>Remote configuration\<close>

record global_configs =
  gc_sdk_configs :: "(string, dynamic_value) HashMap"
  gc_sdk_flags :: "(string, bool) HashMap"
  gc_diagnostics_sampling_rates :: "(string, f64) HashMap"

abbreviation MAX_SAMPLING_RATE :: rat where "MAX_SAMPLING_RATE \<equiv> 10000"

definition gc_new :: global_configs where
  "gc_new = \<lparr>gc_sdk_configs = [], gc_sdk_flags = [],
     gc_diagnostics_sampling_rates =
       [(''initialize'', Fin 10000), (''config_sync'', Fin 1000), (''dcs'', Fin 1000), (''get_id_list'', Fin 100)]\<rparr>"

definition hm_extend :: "('k, 'v) HashMap \<Rightarrow> ('k, 'v) HashMap \<Rightarrow> ('k, 'v) HashMap" where
  "hm_extend new m = foldl (\<lambda>acc kv. hm_insert (fst kv) (snd kv) acc) m new"

definition set_sdk_configs :: "bool \<Rightarrow> (string, dynamic_value) HashMap \<Rightarrow> global_configs \<Rightarrow> global_configs" where
  "set_sdk_configs lock_ok new g =
     (if lock_ok then g\<lparr>gc_sdk_configs := hm_extend new (gc_sdk_configs g)\<rparr> else g)"

definition set_sdk_flags :: "bool \<Rightarrow> (string, bool) HashMap \<Rightarrow> global_configs \<Rightarrow> global_configs" where
  "set_sdk_flags lock_ok new g =
     (if lock_ok then g\<lparr>gc_sdk_flags := hm_extend new (gc_sdk_flags g)\<rparr> else g)"

text \<open>\<open>f64::clamp\<close>: a NaN stays a NaN.\<close>

definition f64_clamp :: "f64 \<Rightarrow> f64 \<Rightarrow> f64 \<Rightarrow> f64" where
  "f64_clamp lo hi v = (if f64_less v lo then lo else if f64_less hi v then hi else v)"

definition set_diagnostics_sampling_rates :: "bool \<Rightarrow> (string, f64) HashMap \<Rightarrow> global_configs \<Rightarrow> global_configs" where
  "set_diagnostics_sampling_rates lock_ok new g =
     (if lock_ok then g\<lparr>gc_diagnostics_sampling_rates :=
          hm_extend (map (\<lambda>(k, r). (k, f64_clamp (Fin 0) (Fin MAX_SAMPLING_RATE) r)) new) (gc_diagnostics_sampling_rates g)\<rparr>
      else g)"

definition use_sdk_config_value :: "bool \<Rightarrow> string \<Rightarrow> (dynamic_value option \<Rightarrow> 'a) \<Rightarrow> global_configs \<Rightarrow> 'a" where
  "use_sdk_config_value lock_ok key f g = f (if lock_ok then hm_get (gc_sdk_configs g) key else None)"

definition use_diagnostics_sampling_rate :: "bool \<Rightarrow> string \<Rightarrow> (f64 option \<Rightarrow> 'a) \<Rightarrow> global_configs \<Rightarrow> 'a" where
  "use_diagnostics_sampling_rate lock_ok key f g = f (if lock_ok then hm_get (gc_diagnostics_sampling_rates g) key else None)"

definition get_sdk_flag_value :: "bool \<Rightarrow> string \<Rightarrow> global_configs \<Rightarrow> bool" where
  "get_sdk_flag_value lock_ok key g = (lock_ok \<and> hm_get (gc_sdk_flags g) key = Some True)"

section \<open>Decisions\<close>

datatype evt_sampling_mode = SamplingOn | SamplingShadow

datatype evt_sampling_decision = Deduped | NotSampled | ForceSampled | Sampled "u64 option" evt_sampling_mode bool

fun should_log :: "evt_sampling_decision \<Rightarrow> bool" where
  "should_log Deduped = False"
| "should_log NotSampled = False"
| "should_log ForceSampled = True"
| "should_log (Sampled _ _ _) = True"

record exposure_sampling_key =
  sk_spec_name_hash :: u64
  sk_rule_id_hash :: u64
  sk_user_values_hash :: u64
  sk_additional_hash :: u64

definition sk_new :: "ext \<Rightarrow> base_evaluation option \<Rightarrow> user_data \<Rightarrow> u64 \<Rightarrow> string option \<Rightarrow> exposure_sampling_key" where
  "sk_new x evaluation u additional_hash unit_id_type =
     \<lparr>sk_spec_name_hash = (case evaluation of Some e \<Rightarrow> interned_hash x (be_name e) | None \<Rightarrow> 0),
      sk_rule_id_hash = (case evaluation of Some e \<Rightarrow> interned_hash x (be_rule_id e) | None \<Rightarrow> 0),
      sk_user_values_hash = create_exposure_dedupe_user_hash x u unit_id_type,
      sk_additional_hash = additional_hash\<rparr>"

definition is_multiple_of :: "u64 \<Rightarrow> u64 \<Rightarrow> bool" where
  "is_multiple_of a b \<longleftrightarrow> (if b = 0 then a = 0 else a mod b = 0)"

definition is_sampled :: "exposure_sampling_key \<Rightarrow> u64 option \<Rightarrow> bool" where
  "is_sampled k sampling_rate =
     (case sampling_rate of
        None \<Rightarrow> True
      | Some rate \<Rightarrow>
          is_multiple_of
            (sk_spec_name_hash k XOR sk_rule_id_hash k XOR sk_user_values_hash k XOR sk_additional_hash k) rate)"

text \<open>What the sampler sees of an operation: nothing, or the exposure it logs.\<close>

record exposure =
  ex_key :: exposure_sampling_key
  ex_rule_id :: string
  ex_extra_info :: "extra_exposure_info option"

section \<open>State\<close>

record 'c lru_ops =
  lru_new :: "nat \<Rightarrow> 'c"
  lru_get :: "exposure_sampling_key \<Rightarrow> 'c \<Rightarrow> bool \<times> 'c"
  lru_put :: "exposure_sampling_key \<Rightarrow> 'c \<Rightarrow> 'c"
  lru_len :: "'c \<Rightarrow> nat"

record 'c exposure_sampling =
  es_spec_sampling_set :: "(u64 \<times> u64) set"
  es_last_spec_sampling_reset :: u64
  es_exposure_dedupe_set :: 'c
  es_exposure_dedupe_max_keys :: nat
  es_last_exposure_dedupe_reset :: u64

abbreviation DEFAULT_EXPOSURE_SAMPLING_TTL_MS :: u64 where "DEFAULT_EXPOSURE_SAMPLING_TTL_MS \<equiv> 60000"
abbreviation SAMPLING_MAX_KEYS :: nat where "SAMPLING_MAX_KEYS \<equiv> 100000"

definition es_with_max_keys :: "'c lru_ops \<Rightarrow> u64 \<Rightarrow> u32 option \<Rightarrow> 'c exposure_sampling" where
  "es_with_max_keys L now max_keys =
     (let cap = (case max_keys of None \<Rightarrow> SAMPLING_MAX_KEYS | Some v \<Rightarrow> if v = 0 then SAMPLING_MAX_KEYS else unat v)
      in \<lparr>es_spec_sampling_set = {}, es_last_spec_sampling_reset = now, es_exposure_dedupe_set = lru_new L cap,
          es_exposure_dedupe_max_keys = cap, es_last_exposure_dedupe_reset = now\<rparr>)"

definition es_new :: "'c lru_ops \<Rightarrow> u64 \<Rightarrow> 'c exposure_sampling" where
  "es_new L now = es_with_max_keys L now None"

section \<open>Reading the configuration\<close>

definition get_sampling_mode :: "bool \<Rightarrow> global_configs \<Rightarrow> evt_sampling_mode option" where
  "get_sampling_mode lock_ok =
     use_sdk_config_value lock_ok ''sampling_mode'' (\<lambda>v.
       case v of
         None \<Rightarrow> None
       | Some d \<Rightarrow>
           (case dv_string d of
              None \<Rightarrow> None
            | Some s \<Rightarrow>
                if ds_value s = ''on'' then Some SamplingOn
                else if ds_value s = ''shadow'' then Some SamplingShadow else None))"

definition special_case_rate :: "bool \<Rightarrow> global_configs \<Rightarrow> u64 option" where
  "special_case_rate lock_ok =
     use_sdk_config_value lock_ok ''special_case_sampling_rate'' (\<lambda>v.
       case v of None \<Rightarrow> None | Some d \<Rightarrow> map_option f64_to_u64 (dv_float d))"

definition parse_ttl :: "dynamic_value option \<Rightarrow> u64" where
  "parse_ttl v =
     (case v of
        None \<Rightarrow> DEFAULT_EXPOSURE_SAMPLING_TTL_MS
      | Some d \<Rightarrow> (case dv_float d of Some f \<Rightarrow> f64_to_u64 f | None \<Rightarrow> DEFAULT_EXPOSURE_SAMPLING_TTL_MS))"

definition get_exposure_spec_sampling_ttl_ms :: "bool \<Rightarrow> global_configs \<Rightarrow> u64" where
  "get_exposure_spec_sampling_ttl_ms lock_ok = use_sdk_config_value lock_ok ''exposure_spec_sampling_ttl_ms'' parse_ttl"

definition get_exposure_dedupe_ttl_ms :: "bool \<Rightarrow> global_configs \<Rightarrow> u64" where
  "get_exposure_dedupe_ttl_ms lock_ok = use_sdk_config_value lock_ok ''exposure_dedupe_ttl_ms'' parse_ttl"

section \<open>Deciding\<close>

text \<open>Which lock attempts of one decision succeed.\<close>

record sampling_locks =
  sl_dedupe :: bool
  sl_mode :: bool
  sl_spec_read :: bool
  sl_spec_write :: bool
  sl_rate :: bool

definition should_dedupe_exposure ::
    "'c lru_ops \<Rightarrow> bool \<Rightarrow> exposure_sampling_key \<Rightarrow> 'c exposure_sampling \<Rightarrow> bool \<times> 'c exposure_sampling" where
  "should_dedupe_exposure L lock_ok k s =
     (if \<not> lock_ok then (False, s)
      else
        (let (found, c) = lru_get L k (es_exposure_dedupe_set s)
         in if found then (True, s\<lparr>es_exposure_dedupe_set := c\<rparr>)
            else (False, s\<lparr>es_exposure_dedupe_set := lru_put L k c\<rparr>)))"

definition should_sample_based_on_evaluation :: "extra_exposure_info option \<Rightarrow> bool \<Rightarrow> bool" where
  "should_sample_based_on_evaluation extra_info ignore_analytical_gate_force_sampling =
     (case extra_info of
        None \<Rightarrow> False
      | Some i \<Rightarrow>
          if xi_forward_all_exposures i = Some True then True
          else \<not> ignore_analytical_gate_force_sampling \<and> xi_has_seen_analytical_gates i = Some True)"

definition spec_pair :: "exposure_sampling_key \<Rightarrow> u64 \<times> u64" where
  "spec_pair k = (sk_spec_name_hash k, sk_rule_id_hash k)"

definition should_sample_first_time_exposure ::
    "bool \<Rightarrow> bool \<Rightarrow> exposure_sampling_key \<Rightarrow> 'c exposure_sampling \<Rightarrow> bool \<times> 'c exposure_sampling" where
  "should_sample_first_time_exposure read_ok write_ok k s =
     (if read_ok \<and> spec_pair k \<in> es_spec_sampling_set s then (False, s)
      else (True, if write_ok then s\<lparr>es_spec_sampling_set := insert (spec_pair k) (es_spec_sampling_set s)\<rparr> else s))"

definition get_special_case_sampling_rate :: "bool \<Rightarrow> global_configs \<Rightarrow> string \<Rightarrow> u64 option" where
  "get_special_case_sampling_rate lock_ok g rule_id =
     (if rule_id = ''default'' \<or> rule_id = ''disabled'' \<or> rule_id = [] then special_case_rate lock_ok g else None)"

definition sampling_rate_of :: "bool \<Rightarrow> global_configs \<Rightarrow> exposure \<Rightarrow> u64 option" where
  "sampling_rate_of lock_ok g e =
     opt_else (get_special_case_sampling_rate lock_ok g (ex_rule_id e))
       (case ex_extra_info e of None \<Rightarrow> None | Some i \<Rightarrow> xi_sampling_rate i)"

definition get_sampling_decision ::
    "'c lru_ops \<Rightarrow> sampling_locks \<Rightarrow> global_configs \<Rightarrow> exposure option \<Rightarrow> bool \<Rightarrow> 'c exposure_sampling \<Rightarrow>
     evt_sampling_decision \<times> 'c exposure_sampling" where
  "get_sampling_decision L locks g payload ignore_analytical s =
     (case payload of
        None \<Rightarrow> (ForceSampled, s)
      | Some e \<Rightarrow>
          (let (dup, s1) = should_dedupe_exposure L (sl_dedupe locks) (ex_key e) s
           in if dup then (Deduped, s1)
              else case get_sampling_mode (sl_mode locks) g of
                  None \<Rightarrow> (ForceSampled, s1)
                | Some mode \<Rightarrow>
                    if should_sample_based_on_evaluation (ex_extra_info e) ignore_analytical then (ForceSampled, s1)
                    else
                      (let (first, s2) = should_sample_first_time_exposure (sl_spec_read locks) (sl_spec_write locks) (ex_key e) s1
                       in if first then (ForceSampled, s2)
                          else
                            (let rate = sampling_rate_of (sl_rate locks) g e;
                                 sampled = is_sampled (ex_key e) rate
                             in case mode of
                                  SamplingOn \<Rightarrow> (if sampled then Sampled rate SamplingOn True else NotSampled, s2)
                                | SamplingShadow \<Rightarrow> (Sampled rate SamplingShadow sampled, s2)))))"

section \<open>Resetting\<close>

text \<open>The difference of the times wraps, as it does in a release build, when the clock has gone back.\<close>

definition try_reset_spec_sampling_set :: "bool \<Rightarrow> bool \<Rightarrow> global_configs \<Rightarrow> u64 \<Rightarrow> 'c exposure_sampling \<Rightarrow> 'c exposure_sampling" where
  "try_reset_spec_sampling_set config_ok lock_ok g now s =
     (let ttl_ms = get_exposure_spec_sampling_ttl_ms config_ok g
      in if \<not> lock_ok then s
         else if ttl_ms < now - es_last_spec_sampling_reset s \<or> SAMPLING_MAX_KEYS < card (es_spec_sampling_set s)
         then s\<lparr>es_spec_sampling_set := {}, es_last_spec_sampling_reset := now\<rparr>
         else s)"

definition try_reset_exposure_dedupe_set ::
    "'c lru_ops \<Rightarrow> bool \<Rightarrow> bool \<Rightarrow> global_configs \<Rightarrow> u64 \<Rightarrow> 'c exposure_sampling \<Rightarrow> 'c exposure_sampling" where
  "try_reset_exposure_dedupe_set L config_ok lock_ok g now s =
     (let ttl_ms = get_exposure_dedupe_ttl_ms config_ok g
      in if \<not> lock_ok then s
         else if ttl_ms < now - es_last_exposure_dedupe_reset s
         then s\<lparr>es_exposure_dedupe_set := lru_new L (es_exposure_dedupe_max_keys s), es_last_exposure_dedupe_reset := now\<rparr>
         else s)"

definition try_reset_all_sampling ::
    "'c lru_ops \<Rightarrow> bool \<Rightarrow> bool \<Rightarrow> bool \<Rightarrow> bool \<Rightarrow> global_configs \<Rightarrow> u64 \<Rightarrow> u64 \<Rightarrow> 'c exposure_sampling \<Rightarrow> 'c exposure_sampling" where
  "try_reset_all_sampling L dedupe_config_ok dedupe_ok spec_config_ok spec_ok g now1 now2 s =
     try_reset_spec_sampling_set spec_config_ok spec_ok g now2 (try_reset_exposure_dedupe_set L dedupe_config_ok dedupe_ok g now1 s)"

section \<open>Metadata of a decision\<close>

definition u64_json :: "u64 \<Rightarrow> json" where
  "u64_json n = JNumber (PosInt (unat n))"

definition get_statsig_metadata_with_sampling_decision :: "evt_sampling_decision \<Rightarrow> (string, json) HashMap" where
  "get_statsig_metadata_with_sampling_decision d =
     (case d of
        Sampled rate mode was_sampled \<Rightarrow>
          [(''samplingRate'', case rate of Some r \<Rightarrow> u64_json r | None \<Rightarrow> JNull),
           (''samplingMode'', JString (case mode of SamplingOn \<Rightarrow> ''on'' | SamplingShadow \<Rightarrow> ''shadow'')),
           (''shadowLogged'', JString (if was_sampled then ''logged'' else ''dropped''))]
      | _ \<Rightarrow> [])"

section \<open>The cache\<close>

text \<open>
  The documented behaviour of the cache crate: \<open>keys\<close> are the keys a cache holds and \<open>capacity\<close> what it
  was made for. A lookup changes neither; an insertion keeps the new key, drops something only from a
  full cache and never exceeds the capacity.
\<close>

definition lru_laws ::
    "'c lru_ops \<Rightarrow> ('c \<Rightarrow> bool) \<Rightarrow> ('c \<Rightarrow> exposure_sampling_key set) \<Rightarrow> ('c \<Rightarrow> nat) \<Rightarrow> bool" where
  "lru_laws L cinv keys capacity \<longleftrightarrow>
     (\<forall>n. 0 < n \<longrightarrow> cinv (lru_new L n) \<and> keys (lru_new L n) = {} \<and> capacity (lru_new L n) = n) \<and>
     (\<forall>k c. cinv c \<longrightarrow> cinv (snd (lru_get L k c)) \<and> fst (lru_get L k c) = (k \<in> keys c) \<and>
        keys (snd (lru_get L k c)) = keys c \<and> capacity (snd (lru_get L k c)) = capacity c) \<and>
     (\<forall>k c. cinv c \<longrightarrow> cinv (lru_put L k c) \<and> k \<in> keys (lru_put L k c) \<and> keys (lru_put L k c) \<subseteq> insert k (keys c) \<and>
        capacity (lru_put L k c) = capacity c \<and>
        (card (keys c) < capacity c \<longrightarrow> keys (lru_put L k c) = insert k (keys c))) \<and>
     (\<forall>c. cinv c \<longrightarrow> finite (keys c) \<and> lru_len L c = card (keys c) \<and> card (keys c) \<le> capacity c)"

lemma lru_lawsD:
  assumes "lru_laws L cinv keys capacity"
  shows "0 < n \<Longrightarrow> cinv (lru_new L n) \<and> keys (lru_new L n) = {} \<and> capacity (lru_new L n) = n"
    "cinv c \<Longrightarrow> lru_get L k c = (found, c') \<Longrightarrow>
      cinv c' \<and> found = (k \<in> keys c) \<and> keys c' = keys c \<and> capacity c' = capacity c"
    "cinv c \<Longrightarrow> cinv (lru_put L k c) \<and> capacity (lru_put L k c) = capacity c"
    "cinv c \<Longrightarrow> card (keys c) < capacity c \<Longrightarrow> keys (lru_put L k c) = insert k (keys c)"
    "cinv c \<Longrightarrow> finite (keys c) \<and> lru_len L c = card (keys c) \<and> card (keys c) \<le> capacity c"
  using assms unfolding lru_laws_def by (simp, metis fst_conv snd_conv, simp_all)

text \<open>A cache as a list, most recent key first, for the witnesses.\<close>

definition list_lru :: "(exposure_sampling_key list \<times> nat) lru_ops" where
  "list_lru = \<lparr>lru_new = (\<lambda>n. ([], n)),
     lru_get = (\<lambda>k (ks, n). if k \<in> set ks then (True, (k # removeAll k ks, n)) else (False, (ks, n))),
     lru_put = (\<lambda>k (ks, n). (take n (k # removeAll k ks), n)),
     lru_len = (\<lambda>(ks, n). length ks)\<rparr>"

definition list_lru_inv :: "exposure_sampling_key list \<times> nat \<Rightarrow> bool" where
  "list_lru_inv c \<longleftrightarrow> distinct (fst c) \<and> length (fst c) \<le> snd c \<and> 0 < snd c"

lemma list_lru_put:
  assumes "list_lru_inv (ks, n)" "ts = take n (k # removeAll k ks)"
  shows "distinct ts" "length ts \<le> n" "k \<in> set ts" "set ts \<subseteq> insert k (set ks)"
    "length ks < n \<Longrightarrow> set ts = insert k (set ks)"
proof -
  have n: "0 < n" using assms(1) by (simp add: list_lru_inv_def)
  then obtain m where m: "n = Suc m" by (cases n) auto
  have "distinct (k # removeAll k ks)" using assms(1) by (simp add: list_lru_inv_def distinct_removeAll)
  then show "distinct ts" unfolding assms(2) by (rule distinct_take)
  show "length ts \<le> n" "k \<in> set ts" using assms(2) m by simp_all
  show "set ts \<subseteq> insert k (set ks)" using assms(2) m by (auto dest: in_set_takeD)
  show "set ts = insert k (set ks)" if "length ks < n"
  proof -
    have "length (removeAll k ks) \<le> m" using that m length_removeAll_less_eq [of k ks] by linarith
    then show ?thesis using assms(2) m by auto
  qed
qed

lemma list_lru_laws: "lru_laws list_lru list_lru_inv (\<lambda>c. set (fst c)) snd"
proof -
  have put: "list_lru_inv (lru_put list_lru k c) \<and> k \<in> set (fst (lru_put list_lru k c)) \<and>
      set (fst (lru_put list_lru k c)) \<subseteq> insert k (set (fst c)) \<and> snd (lru_put list_lru k c) = snd c \<and>
      (card (set (fst c)) < snd c \<longrightarrow> set (fst (lru_put list_lru k c)) = insert k (set (fst c)))"
    if "list_lru_inv c" for k c
  proof -
    obtain ks n where c: "c = (ks, n)" by (cases c)
    from that have cinv: "list_lru_inv (ks, n)" by (simp add: c)
    then have card: "card (set ks) = length ks" by (simp add: list_lru_inv_def distinct_card)
    from list_lru_put [OF cinv refl, of k] cinv card show ?thesis
      by (simp add: c list_lru_def list_lru_inv_def)
  qed
  have get: "list_lru_inv (snd (lru_get list_lru k c)) \<and> fst (lru_get list_lru k c) = (k \<in> set (fst c)) \<and>
      set (fst (snd (lru_get list_lru k c))) = set (fst c) \<and> snd (snd (lru_get list_lru k c)) = snd c"
    if "list_lru_inv c" for k c
    using that distinct_card [of "k # removeAll k (fst c)"] card_mono [of "set (fst c)" "set (k # removeAll k (fst c))"]
    by (cases c) (auto simp: list_lru_def list_lru_inv_def distinct_removeAll distinct_card insert_absorb)
  have new: "list_lru_inv (lru_new list_lru n) \<and> fst (lru_new list_lru n) = [] \<and> snd (lru_new list_lru n) = n" if "0 < n" for n
    using that by (simp add: list_lru_def list_lru_inv_def)
  have len: "lru_len list_lru c = card (set (fst c)) \<and> card (set (fst c)) \<le> snd c" if "list_lru_inv c" for c
    using that by (cases c) (simp add: list_lru_def list_lru_inv_def distinct_card)
  show ?thesis unfolding lru_laws_def using put get new len by (intro conjI allI impI) (simp_all del: split_paired_All)
qed

section \<open>The sampler\<close>

text \<open>What every operation keeps: the cache is one of the capacity the sampler was made with.\<close>

definition sampler_ok :: "('c \<Rightarrow> bool) \<Rightarrow> ('c \<Rightarrow> nat) \<Rightarrow> 'c exposure_sampling \<Rightarrow> bool" where
  "sampler_ok cinv capacity s \<longleftrightarrow> 0 < es_exposure_dedupe_max_keys s \<and> cinv (es_exposure_dedupe_set s) \<and>
     capacity (es_exposure_dedupe_set s) = es_exposure_dedupe_max_keys s"

lemma es_with_max_keys_ok:
  assumes "lru_laws L cinv keys capacity"
  shows "sampler_ok cinv capacity (es_with_max_keys L now m)" "keys (es_exposure_dedupe_set (es_with_max_keys L now m)) = {}"
  using lru_lawsD(1) [OF assms]
  by (auto simp: es_with_max_keys_def sampler_ok_def Let_def unat_gt_0 split: option.splits)

lemma dedupe_step:
  assumes "lru_laws L cinv keys capacity" "sampler_ok cinv capacity s" "should_dedupe_exposure L lock_ok k s = (dup, s')"
  shows "sampler_ok cinv capacity s'" "dup \<longleftrightarrow> lock_ok \<and> k \<in> keys (es_exposure_dedupe_set s)"
    "es_exposure_dedupe_max_keys s' = es_exposure_dedupe_max_keys s" "es_spec_sampling_set s' = es_spec_sampling_set s"
    "lock_ok \<and> card (insert k (keys (es_exposure_dedupe_set s))) \<le> es_exposure_dedupe_max_keys s \<Longrightarrow>
      keys (es_exposure_dedupe_set s') = insert k (keys (es_exposure_dedupe_set s))"
proof -
  let ?c = "es_exposure_dedupe_set s"
  have cinv: "cinv ?c" and cap: "capacity ?c = es_exposure_dedupe_max_keys s" using assms(2) by (simp_all add: sampler_ok_def)
  obtain found c where get: "lru_get L k ?c = (found, c)" by (cases "lru_get L k ?c")
  have g: "cinv c" "found = (k \<in> keys ?c)" "keys c = keys ?c" "capacity c = capacity ?c"
    using lru_lawsD(2) [OF assms(1) cinv get] by simp_all
  note p = lru_lawsD(3) [OF assms(1) g(1), of k] lru_lawsD(4) [OF assms(1) g(1), of k]
  have fin: "finite (keys ?c)" using lru_lawsD(5) [OF assms(1) cinv] by simp
  consider (locked) "\<not> lock_ok" "dup = False" "s' = s"
    | (hit) "lock_ok" "dup" "k \<in> keys ?c" "s' = s\<lparr>es_exposure_dedupe_set := c\<rparr>"
    | (miss) "lock_ok" "\<not> dup" "k \<notin> keys ?c" "s' = s\<lparr>es_exposure_dedupe_set := lru_put L k c\<rparr>"
    using assms(3) get g by (cases lock_ok; cases found) (simp_all add: should_dedupe_exposure_def)
  note cases = this
  show "sampler_ok cinv capacity s'" by (cases rule: cases) (use assms(2) g p(1) cap in \<open>simp_all add: sampler_ok_def\<close>)
  show "dup \<longleftrightarrow> lock_ok \<and> k \<in> keys ?c" by (cases rule: cases) simp_all
  show "es_exposure_dedupe_max_keys s' = es_exposure_dedupe_max_keys s" "es_spec_sampling_set s' = es_spec_sampling_set s"
    by (cases rule: cases; simp)+
  show "keys (es_exposure_dedupe_set s') = insert k (keys ?c)"
    if "lock_ok \<and> card (insert k (keys ?c)) \<le> es_exposure_dedupe_max_keys s"
    by (cases rule: cases) (use that g p(2) fin cap in \<open>simp_all add: insert_absorb\<close>)
qed

text \<open>The parts of a decision after deduplication leave the cache alone.\<close>

lemma first_time_frame:
  assumes "should_sample_first_time_exposure r w k s = (b, s')"
  shows "es_exposure_dedupe_set s' = es_exposure_dedupe_set s" "es_exposure_dedupe_max_keys s' = es_exposure_dedupe_max_keys s"
  using assms by (auto simp: should_sample_first_time_exposure_def split: if_splits)

lemma decision_dedupe:
  assumes "get_sampling_decision L locks g (Some e) i s = (d, s')"
    and "should_dedupe_exposure L (sl_dedupe locks) (ex_key e) s = (dup, s1)"
  shows "d = Deduped \<longleftrightarrow> dup" "es_exposure_dedupe_set s' = es_exposure_dedupe_set s1"
    "es_exposure_dedupe_max_keys s' = es_exposure_dedupe_max_keys s1"
proof -
  obtain b s2 where f: "should_sample_first_time_exposure (sl_spec_read locks) (sl_spec_write locks) (ex_key e) s1 = (b, s2)"
    by (cases "should_sample_first_time_exposure (sl_spec_read locks) (sl_spec_write locks) (ex_key e) s1")
  show "d = Deduped \<longleftrightarrow> dup" "es_exposure_dedupe_set s' = es_exposure_dedupe_set s1"
    "es_exposure_dedupe_max_keys s' = es_exposure_dedupe_max_keys s1"
    using assms f first_time_frame [OF f]
    by (auto simp: get_sampling_decision_def Let_def split: if_splits option.splits evt_sampling_mode.splits)
qed

section \<open>Properties\<close>

text \<open>The decisions on a list of exposures, with all locks obtained.\<close>

definition all_locks :: sampling_locks where
  "all_locks = \<lparr>sl_dedupe = True, sl_mode = True, sl_spec_read = True, sl_spec_write = True, sl_rate = True\<rparr>"

fun decide_all :: "'c lru_ops \<Rightarrow> global_configs \<Rightarrow> exposure list \<Rightarrow> 'c exposure_sampling \<Rightarrow> evt_sampling_decision list" where
  "decide_all L g [] s = []"
| "decide_all L g (e # es) s =
     (let (d, s') = get_sampling_decision L all_locks g (Some e) False s in d # decide_all L g es s')"

lemma decide_all_dedupes:
  assumes "lru_laws L cinv keys capacity" "sampler_ok cinv capacity s"
    and "card (keys (es_exposure_dedupe_set s) \<union> ex_key ` set es) \<le> es_exposure_dedupe_max_keys s" "n < length es"
  shows "decide_all L g es s ! n = Deduped \<longleftrightarrow>
    ex_key (es ! n) \<in> keys (es_exposure_dedupe_set s) \<union> ex_key ` set (take n es)"
  using assms(2-4)
proof (induction es arbitrary: s n)
  case (Cons e es)
  obtain dup s1 where dd: "should_dedupe_exposure L (sl_dedupe all_locks) (ex_key e) s = (dup, s1)"
    by (cases "should_dedupe_exposure L (sl_dedupe all_locks) (ex_key e) s")
  obtain d s' where dec: "get_sampling_decision L all_locks g (Some e) False s = (d, s')"
    by (cases "get_sampling_decision L all_locks g (Some e) False s")
  note D = decision_dedupe [OF dec dd] and S = dedupe_step [OF assms(1) Cons.prems(1) dd]
  let ?K = "keys (es_exposure_dedupe_set s)"
  have fin: "finite ?K" using lru_lawsD(5) [OF assms(1)] Cons.prems(1) by (simp add: sampler_ok_def)
  have "card (insert (ex_key e) ?K) \<le> card (?K \<union> ex_key ` set (e # es))"
    using fin by (intro card_mono) auto
  then have keys: "keys (es_exposure_dedupe_set s') = insert (ex_key e) ?K"
    using S(5) Cons.prems(2) D(2) by (simp add: all_locks_def)
  have ok: "sampler_ok cinv capacity s'" using S(1) D(2,3) by (simp add: sampler_ok_def)
  have card: "card (keys (es_exposure_dedupe_set s') \<union> ex_key ` set es) \<le> es_exposure_dedupe_max_keys s'"
    using Cons.prems(2) keys D(3) S(3) by simp
  show ?case
  proof (cases n)
    case 0
    then show ?thesis using dec D(1) S(2) by (simp add: all_locks_def)
  next
    case (Suc m)
    then show ?thesis using Cons.IH [OF ok card, of m] Cons.prems(3) dec keys by auto
  qed
qed simp


definition sample_exposure :: "u64 \<Rightarrow> exposure" where
  "sample_exposure u = \<lparr>ex_key = \<lparr>sk_spec_name_hash = 1, sk_rule_id_hash = 2, sk_user_values_hash = u, sk_additional_hash = 0\<rparr>,
     ex_rule_id = ''default'', ex_extra_info = None\<rparr>"




end
