(* ===== verification/Spec_Store.thy ===== *)
theory Spec_Store
  imports Eval_Types Exposure_Sampling
begin

text \<open>
  The store of the project configuration, \<open>src/statsig-rust/src/spec_store.rs\<close>: its data, the three steps of
  an update (prepare, apply, notify), the id lists, and what is read from it. With it the updates it is
  given (\<open>specs_adapter/specs_adapter_trait.rs\<close>), the data of a response (\<open>networking/http_types.rs\<close>) and the
  keys of the data store (\<open>data_store_interface.rs\<close>).

  Reading a response (serde and the protocol buffers) is a parameter. Whether a lock is obtained in time
  and the clock are arguments. What an update does to the rest of the library is a list of effects.
\<close>

section \<open>Responses and updates\<close>

record response_data =
  rd_bytes :: string
  rd_headers :: "(string, string) HashMap option"

definition from_bytes :: "string \<Rightarrow> response_data" where
  "from_bytes bytes = \<lparr>rd_bytes = bytes, rd_headers = None\<rparr>"

definition get_header_ref :: "response_data \<Rightarrow> string \<Rightarrow> string option" where
  "get_header_ref d key = Option.bind (rd_headers d) (\<lambda>h. hm_get h key)"

datatype specs_format = FormatJson | FormatProtobuf

fun specs_format_to_string :: "specs_format \<Rightarrow> string" where
  "specs_format_to_string FormatJson = ''JSON''"
| "specs_format_to_string FormatProtobuf = ''Protobuf''"

record specs_update =
  up_data :: response_data
  up_source :: specs_source
  up_received_at :: u64
  up_source_api :: "string option"

record specs_info =
  in_lcut :: "u64 option"
  in_checksum :: "string option"
  in_source :: specs_source
  in_source_api :: "string option"

definition specs_info_empty :: specs_info where
  "specs_info_empty = \<lparr>in_lcut = None, in_checksum = None, in_source = SrcNoValues, in_source_api = None\<rparr>"

definition specs_info_error :: specs_info where
  "specs_info_error = \<lparr>in_lcut = None, in_checksum = None, in_source = SrcError, in_source_api = None\<rparr>"

section \<open>Keys of the data store\<close>

datatype request_path = RulesetsV2 | RulesetsV1 | IDListsV1 | IDListPath

fun request_path_to_string :: "request_path \<Rightarrow> string" where
  "request_path_to_string IDListsV1 = ''/v1/get_id_lists''"
| "request_path_to_string IDListPath = ''id_list''"
| "request_path_to_string RulesetsV2 = ''/v2/download_config_specs''"
| "request_path_to_string RulesetsV1 = ''/v1/download_config_specs''"

datatype compress_format = PlainText | Gzip | StatsigBr

fun compress_format_to_string :: "compress_format \<Rightarrow> string" where
  "compress_format_to_string PlainText = ''plain_text''"
| "compress_format_to_string Gzip = ''gzip''"
| "compress_format_to_string StatsigBr = ''statsig-br''"

datatype data_store_key_version = V2Hashed | V3HumanReadable

definition data_store_key_version_from :: "ext \<Rightarrow> string \<Rightarrow> data_store_key_version" where
  "data_store_key_version_from x level =
     (let l = x_to_lowercase x level
      in if l = ''v2'' \<or> l = ''2'' then V2Hashed else if l = ''v3'' \<or> l = ''3'' then V3HumanReadable else V2Hashed)"

text \<open>\<open>String::truncate\<close> panics (\<open>None\<close>) inside a character.\<close>

definition get_data_store_key :: "ext \<Rightarrow> request_path \<Rightarrow> string \<Rightarrow> data_store_key_version option \<Rightarrow> string option" where
  "get_data_store_key x path sdk_key schema_version =
     map_option (\<lambda>key. ''statsig|'' @ request_path_to_string path @ ''|'' @ compress_format_to_string PlainText @ ''|'' @ key)
       (case (case schema_version of Some v \<Rightarrow> v | None \<Rightarrow> V2Hashed) of
          V3HumanReadable \<Rightarrow>
            (if length sdk_key \<le> 20 then Some sdk_key
             else if is_char_boundary sdk_key 20 then Some (take 20 sdk_key) else None)
        | V2Hashed \<Rightarrow> Some (hash_util_hash x sdk_key Sha256))"

definition data_store_key_with_compress_format :: "string \<Rightarrow> compress_format \<Rightarrow> string" where
  "data_store_key_with_compress_format key fmt =
     (let target = ''|'' @ compress_format_to_string fmt @ ''|''
      in case find (\<lambda>cur. split_once cur key \<noteq> None)
             (map (\<lambda>f. ''|'' @ compress_format_to_string f @ ''|'') [PlainText, Gzip, StatsigBr]) of
           Some cur \<Rightarrow> (case split_once cur key of Some (a, b) \<Rightarrow> a @ target @ b | None \<Rightarrow> key)
         | None \<Rightarrow> key)"

record data_store_cache_keys =
  dk_plain_text :: string
  dk_statsig_br :: string

definition from_selected_key :: "string \<Rightarrow> data_store_cache_keys" where
  "from_selected_key key =
     \<lparr>dk_plain_text = data_store_key_with_compress_format key PlainText,
      dk_statsig_br = data_store_key_with_compress_format key StatsigBr\<rparr>"

section \<open>State\<close>

record spec_store_data =
  sd_source :: specs_source
  sd_source_api :: "string option"
  sd_time_received_at :: "u64 option"
  sd_values :: specs_response
  sd_id_lists :: "(string, id_list) HashMap"

record spec_store =
  ss_data :: spec_store_data
  ss_data_store_keys :: data_store_cache_keys
  ss_has_data_store :: bool
  ss_global_configs :: global_configs

definition ss_new :: "string \<Rightarrow> bool \<Rightarrow> global_configs \<Rightarrow> spec_store" where
  "ss_new data_store_key has_data_store g =
     \<lparr>ss_data = \<lparr>sd_source = SrcUninitialized, sd_source_api = None, sd_time_received_at = None,
        sd_values = specs_default, sd_id_lists = []\<rparr>,
      ss_data_store_keys = from_selected_key data_store_key, ss_has_data_store = has_data_store, ss_global_configs = g\<rparr>"

definition set_source :: "bool \<Rightarrow> specs_source \<Rightarrow> spec_store \<Rightarrow> spec_store" where
  "set_source lock_ok src st = (if lock_ok then st\<lparr>ss_data := (ss_data st)\<lparr>sd_source := src\<rparr>\<rparr> else st)"

section \<open>Reading\<close>

definition get_fields_used_for_entity :: "bool \<Rightarrow> string \<Rightarrow> spec_type \<Rightarrow> spec_store \<Rightarrow> string list" where
  "get_fields_used_for_entity lock_ok entity_name entity_type st =
     (if \<not> lock_ok then []
      else
        (let v = sd_values (ss_data st);
             fields = (\<lambda>entities. case hm_get entities entity_name of
                 Some e \<Rightarrow> (case sp_fields_used e of Some fs \<Rightarrow> fs | None \<Rightarrow> [])
               | None \<Rightarrow> [])
         in case entity_type of
              Gate \<Rightarrow> fields (sr_feature_gates v)
            | DynamicConfig \<Rightarrow> fields (sr_dynamic_configs v)
            | Experiment \<Rightarrow> fields (sr_dynamic_configs v)
            | Layer \<Rightarrow> fields (sr_layer_configs v)
            | ParameterStore \<Rightarrow> []))"

definition unperformant_keys_entity_filter :: "bool \<Rightarrow> string \<Rightarrow> string \<Rightarrow> spec_store \<Rightarrow> string list" where
  "unperformant_keys_entity_filter lock_ok top_level_key entity_type st =
     (if \<not> lock_ok then []
      else
        (let v = sd_values (ss_data st);
             keys = (\<lambda>m. if entity_type = ''*'' then hm_keys m
                         else map fst (filter (\<lambda>(_, sp). sp_entity sp = entity_type) m))
         in if top_level_key = ''param_stores'' then (case sr_param_stores v of Some m \<Rightarrow> hm_keys m | None \<Rightarrow> [])
            else if top_level_key = ''feature_gates'' then keys (sr_feature_gates v)
            else if top_level_key = ''dynamic_configs'' then keys (sr_dynamic_configs v)
            else if top_level_key = ''layer_configs'' then keys (sr_layer_configs v)
            else []))"

definition get_current_specs_info :: "bool \<Rightarrow> spec_store \<Rightarrow> specs_info" where
  "get_current_specs_info lock_ok st =
     (if \<not> lock_ok then specs_info_error
      else \<lparr>in_lcut = Some (sr_time (sd_values (ss_data st))), in_checksum = sr_checksum (sd_values (ss_data st)),
            in_source = sd_source (ss_data st), in_source_api = sd_source_api (ss_data st)\<rparr>)"

section \<open>Updating the specs\<close>

text \<open>
  How the bytes of a response are read: as JSON into the values given, as protocol buffers with the
  current values at hand, and as the short form that only says whether there are updates.
\<close>

record spec_parsers =
  pa_json :: "specs_response \<Rightarrow> string \<Rightarrow> statsig_err + specs_response"
  pa_protobuf :: "specs_response \<Rightarrow> specs_response \<Rightarrow> string \<Rightarrow> statsig_err + specs_response"
  pa_no_updates :: "string \<Rightarrow> statsig_err + bool"

definition deserialize_specs_data ::
    "spec_parsers \<Rightarrow> specs_response \<Rightarrow> specs_format \<Rightarrow> response_data \<Rightarrow> statsig_err + specs_response" where
  "deserialize_specs_data P current_values fmt d =
     (let next_values = specs_default
      in case fmt of
           FormatProtobuf \<Rightarrow> pa_protobuf P current_values next_values (rd_bytes d)
         | FormatJson \<Rightarrow> pa_json P next_values (rd_bytes d))"

datatype prep_result = HasUpdates specs_response specs_format | NoUpdates | CurrentValuesNewer

record apply_result =
  ar_prev_source :: specs_source
  ar_prev_lcut :: u64
  ar_time_received_at :: u64

datatype store_effect =
    EmitSpecsUpdated specs_source "string option" specs_response
  | WriteDataStore string string u64 bool
  | LogNoUpdate specs_source "string option"
  | LogPropagationDiff u64 u64 u64 specs_source "string option" specs_format

definition get_spec_response_format :: "specs_update \<Rightarrow> specs_format" where
  "get_spec_response_format u =
     (case get_header_ref (up_data u) ''content-type'' of
        None \<Rightarrow> FormatJson
      | Some ct \<Rightarrow>
          if \<not> str_contains ct ''application/octet-stream'' then FormatJson
          else case get_header_ref (up_data u) ''content-encoding'' of
              None \<Rightarrow> FormatJson
            | Some ce \<Rightarrow> if str_contains ce ''statsig-br'' then FormatProtobuf else FormatJson)"

definition are_current_values_newer :: "spec_store_data \<Rightarrow> specs_response \<Rightarrow> bool" where
  "are_current_values_newer d next =
     (let cur = sd_values d;
          curr_checksum = (case sr_checksum cur of Some c \<Rightarrow> c | None \<Rightarrow> []);
          new_checksum = (case sr_checksum next of Some c \<Rightarrow> c | None \<Rightarrow> [])
      in 0 < sr_time cur \<and> sr_time next < sr_time cur \<or> curr_checksum \<noteq> [] \<and> curr_checksum = new_checksum)"

definition specs_update_prep :: "spec_parsers \<Rightarrow> bool \<Rightarrow> specs_update \<Rightarrow> spec_store \<Rightarrow> statsig_err + prep_result" where
  "specs_update_prep P lock_ok u st =
     (let fmt = get_spec_response_format u
      in if \<not> lock_ok then Inl (LockFailureError ''Failed to acquire read lock for extract_response_from_update'')
         else
           (let second = (\<lambda>first_error.
                case pa_no_updates P (rd_bytes (up_data u)) of
                  Inr has_updates \<Rightarrow>
                    if \<not> has_updates then Inr NoUpdates
                    else Inl (case first_error of Some e \<Rightarrow> e | None \<Rightarrow> JsonParseError ''SpecsResponse'' ''Unknown error'')
                | Inl e2 \<Rightarrow> Inl (case first_error of Some e \<Rightarrow> e | None \<Rightarrow> e2))
            in case deserialize_specs_data P (sd_values (ss_data st)) fmt (up_data u) of
                 Inr next \<Rightarrow>
                   if are_current_values_newer (ss_data st) next then Inr CurrentValuesNewer
                   else if sr_has_updates next then Inr (HasUpdates next fmt)
                   else second None
               | Inl e \<Rightarrow> second (Some e)))"

definition try_update_global_configs :: "bool \<Rightarrow> bool \<Rightarrow> bool \<Rightarrow> specs_response \<Rightarrow> global_configs \<Rightarrow> global_configs" where
  "try_update_global_configs ok1 ok2 ok3 dcs g =
     (let g1 = (case sr_diagnostics dcs of Some d \<Rightarrow> set_diagnostics_sampling_rates ok1 d g | None \<Rightarrow> g);
          g2 = (case sr_sdk_configs dcs of Some c \<Rightarrow> set_sdk_configs ok2 c g1 | None \<Rightarrow> g1)
      in case sr_sdk_flags dcs of Some f \<Rightarrow> set_sdk_flags ok3 f g2 | None \<Rightarrow> g2)"

record apply_env =
  ae_configs1 :: bool
  ae_configs2 :: bool
  ae_configs3 :: bool
  ae_write :: bool
  ae_now :: u64

definition specs_update_apply ::
    "apply_env \<Rightarrow> specs_response \<Rightarrow> specs_update \<Rightarrow> spec_store \<Rightarrow> (statsig_err + apply_result) \<times> spec_store" where
  "specs_update_apply A next u st =
     (let st1 = st\<lparr>ss_global_configs :=
            try_update_global_configs (ae_configs1 A) (ae_configs2 A) (ae_configs3 A) next (ss_global_configs st)\<rparr>
      in if \<not> ae_write A then (Inl (LockFailureError ''Failed to acquire write lock for swap_current_with_next''), st1)
         else
           (Inr \<lparr>ar_prev_source = sd_source (ss_data st1), ar_prev_lcut = sr_time (sd_values (ss_data st1)),
                 ar_time_received_at = ae_now A\<rparr>,
            st1\<lparr>ss_data := (ss_data st1)\<lparr>sd_source := up_source u, sd_values := next,
              sd_time_received_at := Some (ae_now A), sd_source_api := up_source_api u\<rparr>\<rparr>))"

definition try_update_data_store :: "specs_source \<Rightarrow> response_data \<Rightarrow> u64 \<Rightarrow> bool \<Rightarrow> spec_store \<Rightarrow> store_effect list" where
  "try_update_data_store src d now is_protobuf st =
     (if src \<noteq> SrcNetwork then []
      else if get_header_ref d ''x-deltas-used'' \<noteq> None then []
      else if \<not> ss_has_data_store st then []
      else [WriteDataStore (if is_protobuf then dk_statsig_br (ss_data_store_keys st) else dk_plain_text (ss_data_store_keys st))
              (rd_bytes d) now is_protobuf])"

definition ops_stats_log_config_propagation_diff ::
    "u64 \<Rightarrow> u64 \<Rightarrow> u64 \<Rightarrow> specs_source \<Rightarrow> specs_source \<Rightarrow> string option \<Rightarrow> specs_format \<Rightarrow> store_effect list" where
  "ops_stats_log_config_propagation_diff now lcut prev_lcut src prev_source source_api fmt =
     (let delay = (if now < lcut then 0 else now - lcut)
      in if prev_source = SrcUninitialized \<or> prev_source = SrcLoading then []
         else [LogPropagationDiff delay lcut prev_lcut src source_api fmt])"

definition specs_update_notify ::
    "bool \<Rightarrow> u64 \<Rightarrow> specs_format \<Rightarrow> specs_update \<Rightarrow> apply_result \<Rightarrow> spec_store \<Rightarrow> (statsig_err + unit) \<times> store_effect list" where
  "specs_update_notify lock_ok now fmt u a st =
     (if \<not> lock_ok then (Inl (LockFailureError ''Failed to acquire read lock for set_values''), [])
      else
        (Inr (),
         [EmitSpecsUpdated (sd_source (ss_data st)) (sd_source_api (ss_data st)) (sd_values (ss_data st))]
         @ try_update_data_store (up_source u) (up_data u) (ar_time_received_at a) (fmt = FormatProtobuf) st
         @ ops_stats_log_config_propagation_diff now (sr_time (sd_values (ss_data st))) (ar_prev_lcut a) (up_source u)
             (ar_prev_source a) (up_source_api u) fmt))"

record update_env =
  ue_prep :: bool
  ue_apply :: apply_env
  ue_notify :: bool
  ue_notify_now :: u64

definition set_values ::
    "spec_parsers \<Rightarrow> update_env \<Rightarrow> specs_update \<Rightarrow> spec_store \<Rightarrow> (statsig_err + unit) \<times> store_effect list \<times> spec_store" where
  "set_values P E u st =
     (case specs_update_prep P (ue_prep E) u st of
        Inl e \<Rightarrow> (Inl e, [], st)
      | Inr CurrentValuesNewer \<Rightarrow> (Inr (), [], st)
      | Inr NoUpdates \<Rightarrow> (Inr (), [LogNoUpdate (up_source u) (up_source_api u)], st)
      | Inr (HasUpdates next fmt) \<Rightarrow>
          (case specs_update_apply (ue_apply E) next u st of
             (Inl e, st1) \<Rightarrow> (Inl e, [], st1)
           | (Inr a, st1) \<Rightarrow>
               (let (r, effects) = specs_update_notify (ue_notify E) (ue_notify_now E) fmt u a st1 in (r, effects, st1))))"

text \<open>The data store of the host: writing bytes or a text may fail; bytes may not be supported.\<close>

record 'd data_store_ops =
  do_set_bytes :: "string \<Rightarrow> string \<Rightarrow> u64 option \<Rightarrow> 'd \<Rightarrow> (statsig_err + unit) \<times> 'd"
  do_set :: "string \<Rightarrow> string \<Rightarrow> u64 option \<Rightarrow> 'd \<Rightarrow> (statsig_err + unit) \<times> 'd"

definition write_specs_to_data_store ::
    "(string \<Rightarrow> bool) \<Rightarrow> 'd data_store_ops \<Rightarrow> string \<Rightarrow> string \<Rightarrow> u64 \<Rightarrow> bool \<Rightarrow> 'd \<Rightarrow> 'd" where
  "write_specs_to_data_store is_utf8 D key bytes now is_protobuf d =
     (case do_set_bytes D key bytes (Some now) d of
        (Inr _, d1) \<Rightarrow> d1
      | (Inl e, d1) \<Rightarrow>
          if e = BytesNotImplemented
          then if is_protobuf then d1
               else if \<not> is_utf8 bytes then d1
               else snd (do_set D key bytes (Some now) d1)
          else d1)"

section \<open>Updating the id lists\<close>

definition get_current_id_list_metadata :: "bool \<Rightarrow> spec_store \<Rightarrow> (string, id_list_metadata) HashMap" where
  "get_current_id_list_metadata lock_ok st =
     (if \<not> lock_ok then [] else map (\<lambda>(key, l). (key, il_metadata l)) (sd_id_lists (ss_data st)))"

text \<open>One update of one list; \<open>None\<close> is the panic of \<open>apply_update\<close>.\<close>

definition update_one_list ::
    "string \<Rightarrow> id_list_update \<Rightarrow> (string, id_list) HashMap \<Rightarrow> (string, id_list) HashMap option" where
  "update_one_list list_name u ls =
     (case hm_get ls list_name of
        Some entry \<Rightarrow> map_option (\<lambda>l. hm_insert list_name l ls) (apply_update u entry)
      | None \<Rightarrow> map_option (\<lambda>l. hm_insert list_name l ls) (apply_update u (id_list_new (iu_new_metadata u))))"

fun update_lists ::
    "(string, id_list_update) HashMap \<Rightarrow> (string, id_list) HashMap \<Rightarrow> (string, id_list) HashMap option" where
  "update_lists [] ls = Some ls"
| "update_lists ((n, u) # us) ls = Option.bind (update_one_list n u ls) (update_lists us)"

definition did_receive_id_list_updates ::
    "bool \<Rightarrow> (string, id_list_update) HashMap \<Rightarrow> spec_store \<Rightarrow> spec_store option" where
  "did_receive_id_list_updates lock_ok updates st =
     (if \<not> lock_ok then Some st
      else map_option (\<lambda>ls. st\<lparr>ss_data := (ss_data st)\<lparr>sd_id_lists := ls\<rparr>\<rparr>)
        (update_lists updates (filter (\<lambda>(n, _). hm_contains updates n) (sd_id_lists (ss_data st)))))"

section \<open>Sequential updates\<close>

lemma prep_has_updatesD:
  assumes "specs_update_prep P ok u st = Inr (HasUpdates next fmt)"
  shows "ok \<and> fmt = get_spec_response_format u \<and>
    deserialize_specs_data P (sd_values (ss_data st)) fmt (up_data u) = Inr next \<and>
    \<not> are_current_values_newer (ss_data st) next \<and> sr_has_updates next"
  using assms by (auto simp: specs_update_prep_def Let_def split: sum.splits if_splits)

lemma accepted_not_older: "\<not> are_current_values_newer d next \<Longrightarrow> sr_time (sd_values d) \<le> sr_time next"
  by (auto simp: are_current_values_newer_def Let_def not_less word_gt_0) 

lemma specs_update_apply_data:
  "specs_update_apply A next u st = (r, st1) \<Longrightarrow>
   ss_data st1 = (if ae_write A then (ss_data st)\<lparr>sd_source := up_source u, sd_values := next,
     sd_time_received_at := Some (ae_now A), sd_source_api := up_source_api u\<rparr> else ss_data st) \<and>
   (r = Inl (LockFailureError ''Failed to acquire write lock for swap_current_with_next'') \<longleftrightarrow> \<not> ae_write A)"
  by (auto simp: specs_update_apply_def Let_def split: if_splits)

lemma set_values_cases:
  assumes "set_values P E u st = (r, effects, st')"
  shows "ss_data st' = ss_data st \<or>
    (\<exists>next fmt. specs_update_prep P (ue_prep E) u st = Inr (HasUpdates next fmt) \<and>
       ss_data st' = (ss_data st)\<lparr>sd_source := up_source u, sd_values := next,
         sd_time_received_at := Some (ae_now (ue_apply E)), sd_source_api := up_source_api u\<rparr>)"
  using assms
  by (auto simp: set_values_def Let_def split: sum.splits prod.splits prep_result.splits
      dest!: specs_update_apply_data split: if_splits)


text \<open>
  C10: An update taken alone never puts an older configuration in the store. Whatever the locks, the clock
  and the parsers do, the time of the configuration does not decrease. When the data changes at all, it
  changes as a whole to a response that was read from this update, claims to have updates and is not older
  or the same by checksum, and its source is the update's. The id lists are kept.
\<close>

theorem spec_store_monotone:
  assumes "set_values P E u st = (r, effects, st')"
  shows "sr_time (sd_values (ss_data st)) \<le> sr_time (sd_values (ss_data st')) \<and>
    sd_id_lists (ss_data st') = sd_id_lists (ss_data st) \<and>
    (ss_data st' \<noteq> ss_data st \<longrightarrow>
       deserialize_specs_data P (sd_values (ss_data st)) (get_spec_response_format u) (up_data u) = Inr (sd_values (ss_data st')) \<and>
       sr_has_updates (sd_values (ss_data st')) \<and> \<not> are_current_values_newer (ss_data st) (sd_values (ss_data st')) \<and>
       sd_source (ss_data st') = up_source u \<and> sd_source_api (ss_data st') = up_source_api u)"
  using set_values_cases [OF assms]
proof
  assume "ss_data st' = ss_data st"
  then show ?thesis by simp
next
  assume "\<exists>next fmt. specs_update_prep P (ue_prep E) u st = Inr (HasUpdates next fmt) \<and>
       ss_data st' = (ss_data st)\<lparr>sd_source := up_source u, sd_values := next,
         sd_time_received_at := Some (ae_now (ue_apply E)), sd_source_api := up_source_api u\<rparr>"
  then obtain "next" fmt where prep: "specs_update_prep P (ue_prep E) u st = Inr (HasUpdates next fmt)"
    and d: "ss_data st' = (ss_data st)\<lparr>sd_source := up_source u, sd_values := next,
         sd_time_received_at := Some (ae_now (ue_apply E)), sd_source_api := up_source_api u\<rparr>" by blast
  from prep_has_updatesD [OF prep] accepted_not_older [of "ss_data st" "next"] show ?thesis
    by (auto simp: d)
qed

section \<open>Updates running at the same time\<close>

text \<open>
  The three steps of \<open>set_values\<close> take the lock of the data one after the other, so the steps of several
  updates interleave. A thread is idle, has prepared an update, or has applied it. Beside the updates, the
  source can be set and id lists can arrive.
\<close>

datatype update_phase = Prepared specs_update specs_response specs_format | AppliedUpdate specs_update apply_result specs_format

type_synonym update_pool = "nat \<Rightarrow> update_phase option"

inductive store_step :: "spec_parsers \<Rightarrow> spec_store \<times> update_pool \<Rightarrow> spec_store \<times> update_pool \<Rightarrow> bool" for P where
  step_prep: "pool i = None \<Longrightarrow> specs_update_prep P True u st = Inr (HasUpdates nv fmt) \<Longrightarrow>
     store_step P (st, pool) (st, pool(i \<mapsto> Prepared u nv fmt))"
| step_apply: "pool i = Some (Prepared u nv fmt) \<Longrightarrow> specs_update_apply A nv u st = (Inr a, st') \<Longrightarrow>
     store_step P (st, pool) (st', pool(i \<mapsto> AppliedUpdate u a fmt))"
| step_apply_fails: "pool i = Some (Prepared u nv fmt) \<Longrightarrow> specs_update_apply A nv u st = (Inl e, st') \<Longrightarrow>
     store_step P (st, pool) (st', pool(i := None))"
| step_notify: "pool i = Some (AppliedUpdate u a fmt) \<Longrightarrow> specs_update_notify ok now fmt u a st = (r, effects) \<Longrightarrow>
     store_step P (st, pool) (st, pool(i := None))"
| step_set_source: "store_step P (st, pool) (set_source ok src st, pool)"
| step_id_lists: "did_receive_id_list_updates ok updates st = Some st' \<Longrightarrow> store_step P (st, pool) (st', pool)"

inductive_cases store_stepE: "store_step P s s'"

text \<open>What every prepared update and the data itself satisfy: the values were read from an update.\<close>

definition read_from :: "spec_parsers \<Rightarrow> specs_update \<Rightarrow> specs_response \<Rightarrow> bool" where
  "read_from P u v \<longleftrightarrow> sr_has_updates v \<and>
     (\<exists>cur. deserialize_specs_data P cur (get_spec_response_format u) (up_data u) = Inr v)"

definition data_coherent :: "spec_parsers \<Rightarrow> spec_store_data \<Rightarrow> bool" where
  "data_coherent P d \<longleftrightarrow>
     sd_time_received_at d = None \<and> sd_values d = specs_default \<and> sd_source_api d = None \<or>
     (\<exists>u. read_from P u (sd_values d) \<and> sd_source_api d = up_source_api u)"

fun store_coherent :: "spec_parsers \<Rightarrow> spec_store \<times> update_pool \<Rightarrow> bool" where
  "store_coherent P (st, pool) \<longleftrightarrow>
     data_coherent P (ss_data st) \<and> (\<forall>i u v fmt. pool i = Some (Prepared u v fmt) \<longrightarrow> read_from P u v)"

lemma data_coherent_cong:
  "\<lbrakk>data_coherent P d; sd_values d' = sd_values d; sd_time_received_at d' = sd_time_received_at d;
    sd_source_api d' = sd_source_api d\<rbrakk> \<Longrightarrow> data_coherent P d'"
  by (simp add: data_coherent_def)

lemma prep_read_from: "specs_update_prep P ok u st = Inr (HasUpdates next fmt) \<Longrightarrow> read_from P u next"
  by (drule prep_has_updatesD) (auto simp: read_from_def)

lemma set_source_data [simp]:
  "sd_values (ss_data (set_source ok src st)) = sd_values (ss_data st)"
  "sd_time_received_at (ss_data (set_source ok src st)) = sd_time_received_at (ss_data st)"
  "sd_source_api (ss_data (set_source ok src st)) = sd_source_api (ss_data st)"
  by (simp_all add: set_source_def)

lemma id_list_updates_data:
  "did_receive_id_list_updates ok updates st = Some st' \<Longrightarrow>
   sd_values (ss_data st') = sd_values (ss_data st) \<and>
   sd_time_received_at (ss_data st') = sd_time_received_at (ss_data st) \<and> sd_source_api (ss_data st') = sd_source_api (ss_data st)"
  by (auto simp: did_receive_id_list_updates_def split: if_splits)

lemma store_step_coherent:
  assumes "store_step P s s'" "store_coherent P s"
  shows "store_coherent P s'"
  using assms
proof (induction rule: store_step.induct)
  case (step_prep pool i u st "next" fmt)
  then show ?case using prep_read_from [OF step_prep.hyps(2)] by simp
next
  case (step_apply pool i u "next" fmt A st a st')
  have w: "ae_write A" using step_apply.hyps(2) by (auto simp: specs_update_apply_def Let_def split: if_splits)
  have rf: "read_from P u next" using step_apply.hyps(1) step_apply.prems by auto
  have d: "sd_values (ss_data st') = next" "sd_time_received_at (ss_data st') = Some (ae_now A)"
      "sd_source_api (ss_data st') = up_source_api u"
    using specs_update_apply_data [OF step_apply.hyps(2)] w by simp_all
  have "data_coherent P (ss_data st')" using rf by (auto simp: data_coherent_def d)
  then show ?case using step_apply.prems by simp
next
  case (step_apply_fails pool i u "next" fmt A st e st')
  have w: "\<not> ae_write A" using step_apply_fails.hyps(2) by (auto simp: specs_update_apply_def Let_def split: if_splits)
  have "ss_data st' = ss_data st" using specs_update_apply_data [OF step_apply_fails.hyps(2)] w by simp
  then show ?case using step_apply_fails.prems by simp
next
  case (step_notify pool i u a fmt ok now st r effects)
  then show ?case by simp
next
  case (step_set_source st pool ok src)
  then show ?case by (auto intro: data_coherent_cong)
next
  case (step_id_lists ok updates st st' pool)
  then show ?case using id_list_updates_data [OF step_id_lists.hyps] by (auto intro: data_coherent_cong)
qed

definition store_start :: "string \<Rightarrow> bool \<Rightarrow> global_configs \<Rightarrow> spec_store \<times> update_pool" where
  "store_start key has_data_store g = (ss_new key has_data_store g, \<lambda>_. None)"

lemma store_reachable_coherent:
  "(store_step P)\<^sup>*\<^sup>* (store_start key ds g) s \<Longrightarrow> store_coherent P s"
proof (induction rule: rtranclp_induct)
  case base
  show ?case by (simp add: data_coherent_def store_start_def ss_new_def)
next
  case (step y z)
  then show ?case by (blast intro: store_step_coherent)
qed

text \<open>
  C11: However the steps of concurrent updates interleave, the store is never torn: its configuration is the
  default one and nothing was received, or it is, as a whole, what the parsers read from one update, which
  has updates and which also gives the source API on record.
\<close>

theorem spec_store_never_torn:
  assumes "(store_step P)\<^sup>*\<^sup>* (store_start key ds g) (st, pool)"
  shows "sd_time_received_at (ss_data st) = None \<and> sd_values (ss_data st) = specs_default \<and> sd_source_api (ss_data st) = None \<or>
    (\<exists>u cur. deserialize_specs_data P cur (get_spec_response_format u) (up_data u) = Inr (sd_values (ss_data st)) \<and>
       sr_has_updates (sd_values (ss_data st)) \<and> sd_source_api (ss_data st) = up_source_api u)"
  using store_reachable_coherent [OF assms]
  by (auto simp: data_coherent_def read_from_def)


text \<open>
  The check that an update is not older is made when it is prepared, not when it is applied. Two updates
  prepared from the same state, applied newer first, leave the older configuration in place.
\<close>

definition values_at :: "u64 \<Rightarrow> specs_response" where
  "values_at n = specs_default\<lparr>sr_has_updates := True, sr_time := n\<rparr>"

definition length_parsers :: spec_parsers where
  "length_parsers = \<lparr>pa_json = (\<lambda>_ s. Inr (values_at (of_nat (length s)))), pa_protobuf = (\<lambda>_ _ _. Inr specs_default),
     pa_no_updates = (\<lambda>_. Inr True)\<rparr>"

definition update_of :: "string \<Rightarrow> specs_update" where
  "update_of s = \<lparr>up_data = from_bytes s, up_source = SrcNetwork, up_received_at = 0, up_source_api = Some s\<rparr>"

definition locks_ok :: apply_env where
  "locks_ok = \<lparr>ae_configs1 = True, ae_configs2 = True, ae_configs3 = True, ae_write = True, ae_now = 7\<rparr>"

lemma values_at_simps [simp]:
  "sr_time (values_at n) = n" "sr_has_updates (values_at n)" "sr_checksum (values_at n) = None"
  "sr_diagnostics (values_at n) = None" "sr_sdk_configs (values_at n) = None" "sr_sdk_flags (values_at n) = None"
  by (simp_all add: values_at_def specs_default_def)

lemma prep_update_of:
  assumes "sd_values (ss_data st) = specs_default"
  shows "specs_update_prep length_parsers True (update_of s) st = Inr (HasUpdates (values_at (of_nat (length s))) FormatJson)"
  using assms by (simp add: specs_update_prep_def deserialize_specs_data_def length_parsers_def update_of_def from_bytes_def
      get_spec_response_format_def get_header_ref_def are_current_values_newer_def specs_default_def)

definition after_apply :: "u64 \<Rightarrow> string \<Rightarrow> spec_store \<Rightarrow> spec_store" where
  "after_apply n s st = st\<lparr>ss_data := (ss_data st)\<lparr>sd_source := SrcNetwork, sd_values := values_at n,
     sd_time_received_at := Some 7, sd_source_api := Some s\<rparr>\<rparr>"

lemma apply_update_of:
  "specs_update_apply locks_ok (values_at n) (update_of s) st =
     (Inr \<lparr>ar_prev_source = sd_source (ss_data st), ar_prev_lcut = sr_time (sd_values (ss_data st)),
        ar_time_received_at = 7\<rparr>, after_apply n s st)"
  by (simp add: specs_update_apply_def locks_ok_def update_of_def after_apply_def try_update_global_configs_def Let_def)

lemma newer_applied_first:
  "\<exists>pool. (store_step length_parsers)\<^sup>*\<^sup>* (store_start key ds g) (after_apply 2 ''ab'' (ss_new key ds g), pool) \<and>
     pool 0 = Some (Prepared (update_of ''a'') (values_at 1) FormatJson)"
proof -
  define s0 where "s0 = ss_new key ds g"
  define p1 :: update_pool where "p1 = (\<lambda>_. None)(0 \<mapsto> Prepared (update_of ''a'') (values_at 1) FormatJson)"
  define p2 where "p2 = p1(1 \<mapsto> Prepared (update_of ''ab'') (values_at 2) FormatJson)"
  have v: "sd_values (ss_data s0) = specs_default" by (simp add: s0_def ss_new_def)
  have t1: "store_step length_parsers (store_start key ds g) (s0, p1)"
    unfolding p1_def store_start_def s0_def [symmetric] by (rule step_prep) (simp_all add: prep_update_of [OF v])
  have t2: "store_step length_parsers (s0, p1) (s0, p2)"
    unfolding p2_def by (rule step_prep) (simp_all add: prep_update_of [OF v] p1_def)
  obtain p3 where t3: "store_step length_parsers (s0, p2) (after_apply 2 ''ab'' s0, p3)" "p3 0 = p2 0"
    using step_apply [OF _ apply_update_of, of p2 1] by (force simp: p2_def)
  have "(store_step length_parsers)\<^sup>*\<^sup>* (store_start key ds g) (after_apply 2 ''ab'' s0, p3)"
    by (rule rtranclp.rtrancl_into_rtrancl [OF rtranclp.rtrancl_into_rtrancl [OF r_into_rtranclp]], rule t1, rule t2, rule t3)
  with t3(2) show ?thesis by (auto simp: p2_def p1_def s0_def)
qed

theorem concurrent_update_goes_older:
  "\<exists>st pool st' pool'. (store_step length_parsers)\<^sup>*\<^sup>* (store_start key ds g) (st, pool) \<and>
     store_step length_parsers (st, pool) (st', pool') \<and>
     sr_time (sd_values (ss_data st')) < sr_time (sd_values (ss_data st))"
proof -
  obtain pool where reach: "(store_step length_parsers)\<^sup>*\<^sup>* (store_start key ds g) (after_apply 2 ''ab'' (ss_new key ds g), pool)"
    and prepared: "pool 0 = Some (Prepared (update_of ''a'') (values_at 1) FormatJson)"
    using newer_applied_first by blast
  have "store_step length_parsers (after_apply 2 ''ab'' (ss_new key ds g), pool)
      (after_apply 1 ''a'' (after_apply 2 ''ab'' (ss_new key ds g)), pool(0 \<mapsto> AppliedUpdate (update_of ''a'')
         \<lparr>ar_prev_source = SrcNetwork, ar_prev_lcut = 2, ar_time_received_at = 7\<rparr> FormatJson))"
    by (rule step_apply [where A = locks_ok, OF _ trans [OF apply_update_of]])
      (use prepared in \<open>simp_all add: after_apply_def\<close>)
  moreover have "sr_time (sd_values (ss_data (after_apply 1 ''a'' (after_apply 2 ''ab'' (ss_new key ds g)))))
      < sr_time (sd_values (ss_data (after_apply 2 ''ab'' (ss_new key ds g))))"
    by (simp add: after_apply_def)
  ultimately show ?thesis using reach by blast
qed

theorem spec_store_never_torn_witness:
  "\<exists>st pool. (store_step length_parsers)\<^sup>*\<^sup>* (store_start [] False gc_new) (st, pool) \<and> sr_time (sd_values (ss_data st)) = 2 \<and>
    (\<exists>u cur. deserialize_specs_data length_parsers cur (get_spec_response_format u) (up_data u) = Inr (sd_values (ss_data st)) \<and>
       sr_has_updates (sd_values (ss_data st)) \<and> sd_source_api (ss_data st) = up_source_api u)"
proof -
  obtain pool where reach: "(store_step length_parsers)\<^sup>*\<^sup>* (store_start [] False gc_new) (after_apply 2 ''ab'' (ss_new [] False gc_new), pool)"
    using newer_applied_first by blast
  from spec_store_never_torn [OF reach] have "\<exists>u cur. deserialize_specs_data length_parsers cur (get_spec_response_format u) (up_data u)
        = Inr (sd_values (ss_data (after_apply 2 ''ab'' (ss_new [] False gc_new)))) \<and>
       sr_has_updates (sd_values (ss_data (after_apply 2 ''ab'' (ss_new [] False gc_new)))) \<and>
       sd_source_api (ss_data (after_apply 2 ''ab'' (ss_new [] False gc_new))) = up_source_api u"
    by (simp add: after_apply_def)
  with reach show ?thesis by (intro exI [of _ "after_apply 2 ''ab'' (ss_new [] False gc_new)"] exI [of _ pool]) (simp add: after_apply_def)
qed

theorem spec_store_monotone_witness:
  "\<exists>r effects st'. set_values length_parsers \<lparr>ue_prep = True, ue_apply = locks_ok, ue_notify = True, ue_notify_now = 9\<rparr>
      (update_of ''ab'') (ss_new [] False gc_new) = (r, effects, st') \<and>
    sr_time (sd_values (ss_data (ss_new [] False gc_new))) \<le> sr_time (sd_values (ss_data st')) \<and>
    sr_time (sd_values (ss_data st')) = 2"
proof -
  let ?E = "\<lparr>ue_prep = True, ue_apply = locks_ok, ue_notify = True, ue_notify_now = 9\<rparr>"
  obtain r effects st' where s: "set_values length_parsers ?E (update_of ''ab'') (ss_new [] False gc_new) = (r, effects, st')"
    by (metis prod_cases3)
  have v: "sd_values (ss_data (ss_new [] False gc_new)) = specs_default" by (simp add: ss_new_def)
  have "st' = after_apply 2 ''ab'' (ss_new [] False gc_new)"
    using s by (simp add: set_values_def prep_update_of [OF v] apply_update_of Let_def split: prod.splits)
  then have "sr_time (sd_values (ss_data st')) = 2" by (simp add: after_apply_def)
  with s spec_store_monotone [OF s] show ?thesis by blast
qed

section \<open>Id lists\<close>

lemma hm_get_filter_keys: "hm_get (filter (\<lambda>(n, _). Q n) m) n = (if Q n then hm_get m n else None)"
  by (induction m) (auto simp: hm_get_Cons)

text \<open>What an update makes of the list of its name.\<close>

definition updated_list :: "id_list_update \<Rightarrow> id_list option \<Rightarrow> id_list option" where
  "updated_list u old = apply_update u (case old of Some l \<Rightarrow> l | None \<Rightarrow> id_list_new (iu_new_metadata u))"

lemma update_one_list_get:
  "update_one_list n u ls = Some ls' \<Longrightarrow>
   hm_get ls' k = (if k = n then updated_list u (hm_get ls n) else hm_get ls k)"
  by (auto simp: update_one_list_def updated_list_def split: option.splits)

lemma update_lists_get:
  assumes "update_lists us ls = Some ls'" "hm_wf us"
  shows "hm_get ls' n = (case hm_get us n of Some u \<Rightarrow> updated_list u (hm_get ls n) | None \<Rightarrow> hm_get ls n)"
  using assms
proof (induction us arbitrary: ls)
  case Nil
  then show ?case by simp
next
  case (Cons p us)
  obtain k u where p: "p = (k, u)" by force
  from Cons.prems(1) obtain ls1 where u1: "update_one_list k u ls = Some ls1" "update_lists us ls1 = Some ls'"
    by (auto simp: p bind_eq_Some_conv)
  have k: "hm_get us k = None" "hm_wf us"
    using Cons.prems(2) by (auto simp: p hm_wf_def hm_get_def map_of_eq_None_iff)
  show ?case
    using Cons.IH [OF u1(2) k(2)] update_one_list_get [OF u1(1), of n] k(1)
    by (cases "k = n") (simp_all add: p hm_get_Cons split: option.splits)
qed

text \<open>
  After the updates of a manifest of id lists, the store has exactly the lists the manifest names: each
  one is the list it had before, or a new one made from the metadata, with the update applied to it. Every
  list the manifest does not name is gone, in whatever order the updates are met. The configuration is not
  touched.
\<close>

theorem id_lists_follow_manifest:
  assumes "did_receive_id_list_updates True updates st = Some st'" "hm_wf updates"
  shows "hm_get (sd_id_lists (ss_data st')) n =
      (case hm_get updates n of
         None \<Rightarrow> None
       | Some u \<Rightarrow> apply_update u (case hm_get (sd_id_lists (ss_data st)) n of
             Some l \<Rightarrow> l | None \<Rightarrow> id_list_new (iu_new_metadata u))) \<and>
    sd_values (ss_data st') = sd_values (ss_data st)"
proof -
  let ?kept = "filter (\<lambda>(n, _). hm_contains updates n) (sd_id_lists (ss_data st))"
  from assms(1) obtain ls where ls: "update_lists updates ?kept = Some ls" "sd_id_lists (ss_data st') = ls"
      "sd_values (ss_data st') = sd_values (ss_data st)"
    by (auto simp: did_receive_id_list_updates_def)
  have kept: "hm_get ?kept n = (if hm_get updates n = None then None else hm_get (sd_id_lists (ss_data st)) n)"
    by (simp add: hm_get_filter_keys hm_contains_def)
  show ?thesis
    using update_lists_get [OF ls(1) assms(2), of n] unfolding kept
    by (cases "hm_get updates n") (simp_all add: ls(2,3) updated_list_def)
qed


theorem id_lists_follow_manifest_witness:
  "\<exists>st'. did_receive_id_list_updates True [(''b'', \<lparr>iu_raw_changeset = None, iu_new_metadata =
      \<lparr>im_name = ''b'', im_url = [], im_file_id = Some ''f'', im_size = 9, im_creation_time = 1\<rparr>\<rparr>)]
      ((ss_new [] False gc_new)\<lparr>ss_data := (ss_data (ss_new [] False gc_new))\<lparr>sd_id_lists := [(''a'', id_list_new
        \<lparr>im_name = ''a'', im_url = [], im_file_id = None, im_size = 0, im_creation_time = 0\<rparr>)]\<rparr>\<rparr>) = Some st' \<and>
    hm_get (sd_id_lists (ss_data st')) ''a'' = None \<and> hm_get (sd_id_lists (ss_data st')) ''b'' \<noteq> None"
proof -
  let ?us = "[(''b'', \<lparr>iu_raw_changeset = None, iu_new_metadata =
      \<lparr>im_name = ''b'', im_url = [], im_file_id = Some ''f'', im_size = 9, im_creation_time = 1\<rparr>\<rparr>)]"
  let ?st = "(ss_new [] False gc_new)\<lparr>ss_data := (ss_data (ss_new [] False gc_new))\<lparr>sd_id_lists := [(''a'', id_list_new
        \<lparr>im_name = ''a'', im_url = [], im_file_id = None, im_size = 0, im_creation_time = 0\<rparr>)]\<rparr>\<rparr>"
  obtain st' where st': "did_receive_id_list_updates True ?us ?st = Some st'"
    by (simp add: did_receive_id_list_updates_def update_one_list_def hm_contains_def hm_get_Cons apply_update_def Let_def)
  have wf: "hm_wf ?us" by (simp add: hm_wf_def)
  show ?thesis
    using st' id_lists_follow_manifest [OF st' wf, of "''a''"] id_lists_follow_manifest [OF st' wf, of "''b''"]
    by (simp add: hm_get_Cons apply_update_def Let_def)
qed

end
