(* ===== verification/Event_Emitter.thy ===== *)
theory Event_Emitter
  imports Spec_Store Api_Types
begin

text \<open>
  The events the library emits to its host, \<open>src/statsig-rust/src/sdk_event_emitter/event_types.rs\<close> and
  \<open>event_emitter.rs\<close>: the events with their codes, subscriptions, and which listeners an event reaches.

  A callback is known by the id of its subscription; calling listeners gives the list of the calls in
  their order. The fresh id of a subscription (a random UUID) is an argument.
\<close>

section \<open>Events and their codes\<close>

datatype sdk_event_code =
    CodeUnknown | CodeAll | CodeGateEvaluated | CodeDynamicConfigEvaluated | CodeExperimentEvaluated
  | CodeLayerEvaluated | CodeSpecsUpdated

abbreviation EV_ALL :: string where "EV_ALL \<equiv> ''*''"
abbreviation EV_GATE_EVALUATED :: string where "EV_GATE_EVALUATED \<equiv> ''gate_evaluated''"
abbreviation EV_DYNAMIC_CONFIG_EVALUATED :: string where "EV_DYNAMIC_CONFIG_EVALUATED \<equiv> ''dynamic_config_evaluated''"
abbreviation EV_EXPERIMENT_EVALUATED :: string where "EV_EXPERIMENT_EVALUATED \<equiv> ''experiment_evaluated''"
abbreviation EV_LAYER_EVALUATED :: string where "EV_LAYER_EVALUATED \<equiv> ''layer_evaluated''"
abbreviation EV_SPECS_UPDATED :: string where "EV_SPECS_UPDATED \<equiv> ''specs_updated''"

definition code_from_name :: "string \<Rightarrow> sdk_event_code" where
  "code_from_name name =
     (if name = EV_ALL then CodeAll
      else if name = EV_GATE_EVALUATED then CodeGateEvaluated
      else if name = EV_DYNAMIC_CONFIG_EVALUATED then CodeDynamicConfigEvaluated
      else if name = EV_EXPERIMENT_EVALUATED then CodeExperimentEvaluated
      else if name = EV_LAYER_EVALUATED then CodeLayerEvaluated
      else if name = EV_SPECS_UPDATED then CodeSpecsUpdated
      else CodeUnknown)"

fun code_as_raw :: "sdk_event_code \<Rightarrow> nat" where
  "code_as_raw CodeUnknown = 0"
| "code_as_raw CodeAll = 1"
| "code_as_raw CodeGateEvaluated = 2"
| "code_as_raw CodeDynamicConfigEvaluated = 3"
| "code_as_raw CodeExperimentEvaluated = 4"
| "code_as_raw CodeLayerEvaluated = 5"
| "code_as_raw CodeSpecsUpdated = 6"

datatype sdk_event =
    SpecsUpdated specs_source "string option" specs_response
  | GateEvaluated string string bool string
  | DynamicConfigEvaluated string string "string option" "dynamic_returnable option"
  | ExperimentEvaluated string string "string option" "dynamic_returnable option" "string option"
  | LayerEvaluated string string "string option"

fun get_code :: "sdk_event \<Rightarrow> sdk_event_code" where
  "get_code (GateEvaluated _ _ _ _) = CodeGateEvaluated"
| "get_code (DynamicConfigEvaluated _ _ _ _) = CodeDynamicConfigEvaluated"
| "get_code (ExperimentEvaluated _ _ _ _ _) = CodeExperimentEvaluated"
| "get_code (LayerEvaluated _ _ _) = CodeLayerEvaluated"
| "get_code (SpecsUpdated _ _ _) = CodeSpecsUpdated"

fun name_of_code :: "sdk_event_code \<Rightarrow> string" where
  "name_of_code CodeAll = EV_ALL"
| "name_of_code CodeGateEvaluated = EV_GATE_EVALUATED"
| "name_of_code CodeDynamicConfigEvaluated = EV_DYNAMIC_CONFIG_EVALUATED"
| "name_of_code CodeExperimentEvaluated = EV_EXPERIMENT_EVALUATED"
| "name_of_code CodeLayerEvaluated = EV_LAYER_EVALUATED"
| "name_of_code CodeSpecsUpdated = EV_SPECS_UPDATED"
| "name_of_code CodeUnknown = ''unknown''"

definition get_event_name :: "sdk_event \<Rightarrow> string" where
  "get_event_name e = name_of_code (get_code e)"

lemma code_from_name_of_code: "code_from_name (name_of_code c) = c"
  by (cases c) (simp_all add: code_from_name_def)

lemma code_as_raw_inject: "code_as_raw a = code_as_raw b \<longleftrightarrow> a = b"
  by (cases a; cases b) simp_all

section \<open>Subscriptions\<close>

record subscription_id =
  sub_value :: string
  sub_event :: string

definition subscription_new :: "string \<Rightarrow> string \<Rightarrow> subscription_id" where
  "subscription_new uuid event = \<lparr>sub_value = uuid, sub_event = event\<rparr>"

definition subscription_error :: subscription_id where
  "subscription_error = \<lparr>sub_value = ''ERROR'', sub_event = ''ERROR''\<rparr>"

definition subscription_decode :: "string \<Rightarrow> subscription_id option" where
  "subscription_decode s =
     (let parts = str_split (CHR ''@'') s
      in if length parts \<noteq> 2 then None else Some \<lparr>sub_value = parts ! 0, sub_event = parts ! 1\<rparr>)"

definition subscription_encode :: "subscription_id \<Rightarrow> string" where
  "subscription_encode i = sub_value i @ ''@'' @ sub_event i"

record sdk_event_emitter =
  em_listeners :: "(nat, string list) HashMap"
  em_listener_count :: nat

definition emitter_default :: sdk_event_emitter where
  "emitter_default = \<lparr>em_listeners = [], em_listener_count = 0\<rparr>"

definition listeners_for :: "nat \<Rightarrow> sdk_event_emitter \<Rightarrow> string list" where
  "listeners_for code em = opt_default [] (hm_get (em_listeners em) code)"

definition subscribe :: "string \<Rightarrow> string \<Rightarrow> sdk_event_emitter \<Rightarrow> subscription_id \<times> sdk_event_emitter" where
  "subscribe uuid event em =
     (let code = code_as_raw (code_from_name event)
      in if code = 0 then (subscription_error, em)
         else
           (let sub_id = subscription_new uuid event
            in (sub_id, em\<lparr>em_listener_count := em_listener_count em + 1,
                  em_listeners := hm_insert code (opt_default [] (hm_get (em_listeners em) code) @ [sub_value sub_id])
                    (em_listeners em)\<rparr>)))"

text \<open>Subtracting from the counter wraps around in the source; the invariant below rules that out.\<close>

definition unsubscribe :: "string \<Rightarrow> sdk_event_emitter \<Rightarrow> sdk_event_emitter" where
  "unsubscribe event em =
     (let code = code_as_raw (code_from_name event)
      in case hm_get (em_listeners em) code of
           Some ls \<Rightarrow> em\<lparr>em_listeners := hm_remove code (em_listeners em),
                          em_listener_count := em_listener_count em - length ls\<rparr>
         | None \<Rightarrow> em)"

definition unsubscribe_by_id :: "subscription_id \<Rightarrow> sdk_event_emitter \<Rightarrow> sdk_event_emitter" where
  "unsubscribe_by_id i em =
     (let code = code_as_raw (code_from_name (sub_event i))
      in case hm_get (em_listeners em) code of
           None \<Rightarrow> em
         | Some ls \<Rightarrow>
             (let kept = filter (\<lambda>l. l \<noteq> sub_value i) ls;
                  removed = length ls - length kept;
                  em1 = em\<lparr>em_listeners := hm_insert code kept (em_listeners em)\<rparr>
              in if 0 < removed then em1\<lparr>em_listener_count := em_listener_count em1 - removed\<rparr> else em1))"

definition unsubscribe_all :: "sdk_event_emitter \<Rightarrow> sdk_event_emitter" where
  "unsubscribe_all em = em\<lparr>em_listeners := [], em_listener_count := 0\<rparr>"

definition emit_to_listeners :: "sdk_event \<Rightarrow> string list option \<Rightarrow> (string \<times> sdk_event) list" where
  "emit_to_listeners event listeners = (case listeners of None \<Rightarrow> [] | Some ls \<Rightarrow> map (\<lambda>l. (l, event)) ls)"

definition emit :: "sdk_event \<Rightarrow> sdk_event_emitter \<Rightarrow> (string \<times> sdk_event) list" where
  "emit event em =
     (if em_listener_count em = 0 then []
      else emit_to_listeners event (hm_get (em_listeners em) (code_as_raw (code_from_name EV_ALL)))
         @ emit_to_listeners event (hm_get (em_listeners em) (code_as_raw (get_code event))))"

section \<open>The events of the evaluations\<close>

definition gate_evaluated :: "string \<Rightarrow> string \<Rightarrow> bool \<Rightarrow> string \<Rightarrow> sdk_event" where
  "gate_evaluated gate_name rule_id val reason = GateEvaluated gate_name rule_id val reason"

definition dynamic_config_evaluated :: "dynamic_config_value \<Rightarrow> sdk_event" where
  "dynamic_config_evaluated c =
     DynamicConfigEvaluated (dc_name c) (ed_reason (dc_details c)) (Some (dc_rule_id c)) (map_option ce_value (dc_evaluation c))"

definition experiment_evaluated :: "experiment_value \<Rightarrow> sdk_event" where
  "experiment_evaluated e =
     ExperimentEvaluated (xp_name e) (ed_reason (xp_details e)) (Some (xp_rule_id e)) (map_option xe_value (xp_evaluation e))
       (xp_group_name e)"

definition layer_evaluated :: "layer_value \<Rightarrow> sdk_event" where
  "layer_evaluated l = LayerEvaluated (ly_name l) (ed_reason (ly_details l)) (Some (ly_rule_id l))"

definition gate_evaluated_parts :: "string \<Rightarrow> string \<Rightarrow> evaluator_result option \<Rightarrow> sdk_event" where
  "gate_evaluated_parts gate_name reason r =
     GateEvaluated gate_name (opt_default [] (Option.bind r er_rule_id)) (case r of Some e \<Rightarrow> er_bool_value e | None \<Rightarrow> False) reason"

definition dynamic_config_evaluated_parts :: "string \<Rightarrow> string \<Rightarrow> evaluator_result option \<Rightarrow> sdk_event" where
  "dynamic_config_evaluated_parts config_name reason r =
     DynamicConfigEvaluated config_name reason (Option.bind r er_rule_id) (Option.bind r er_json_value)"

definition experiment_evaluated_parts :: "string \<Rightarrow> string \<Rightarrow> evaluator_result option \<Rightarrow> sdk_event" where
  "experiment_evaluated_parts experiment_name reason r =
     ExperimentEvaluated experiment_name reason (Option.bind r er_rule_id) (Option.bind r er_json_value)
       (Option.bind r er_group_name)"

definition layer_evaluated_parts :: "string \<Rightarrow> string \<Rightarrow> evaluator_result option \<Rightarrow> sdk_event" where
  "layer_evaluated_parts layer_name reason r = LayerEvaluated layer_name reason (Option.bind r er_rule_id)"

section \<open>The counter\<close>

definition emitter_ok :: "sdk_event_emitter \<Rightarrow> bool" where
  "emitter_ok em \<longleftrightarrow> hm_wf (em_listeners em) \<and> em_listener_count em = sum_list (map (length \<circ> snd) (em_listeners em))"

lemma sum_list_hm_insert:
  "hm_wf m \<Longrightarrow> sum_list (map (length \<circ> snd) (hm_insert k v m)) + length (opt_default [] (hm_get m k)) =
     sum_list (map (length \<circ> snd) m) + length v"
proof (induction m)
  case (Cons p m)
  obtain a b where p: "p = (a, b)" by force
  show ?case
  proof (cases "a = k")
    case True
    then show ?thesis by (simp add: p hm_insert_def hm_get_Cons)
  next
    case False
    have "hm_wf m" using Cons.prems by (simp add: hm_wf_def)
    with Cons.IH False show ?thesis by (simp add: p hm_insert_def hm_get_Cons)
  qed
qed (simp add: hm_insert_def)

lemma sum_list_hm_remove:
  "hm_wf m \<Longrightarrow> sum_list (map (length \<circ> snd) (hm_remove k m)) + length (opt_default [] (hm_get m k)) =
     sum_list (map (length \<circ> snd) m)"
proof (induction m)
  case (Cons p m)
  obtain a b where p: "p = (a, b)" by force
  have wf: "hm_wf m" and fresh: "a \<notin> fst ` set m" using Cons.prems by (auto simp: hm_wf_def p)
  show ?case
  proof (cases "a = k")
    case True
    then have "hm_remove k m = m" using fresh by (force simp: hm_remove_def AList.delete_eq filter_id_conv)
    with True show ?thesis by (simp add: p hm_remove_def AList.delete_eq hm_get_Cons)
  next
    case False
    with Cons.IH [OF wf] show ?thesis by (simp add: p hm_remove_def AList.delete_eq hm_get_Cons)
  qed
qed (simp add: hm_remove_def)

datatype emitter_op = Subscribe string string | Unsubscribe string | UnsubscribeById subscription_id | UnsubscribeAll

fun run_emitter_op :: "emitter_op \<Rightarrow> sdk_event_emitter \<Rightarrow> sdk_event_emitter" where
  "run_emitter_op (Subscribe uuid event) em = snd (subscribe uuid event em)"
| "run_emitter_op (Unsubscribe event) em = unsubscribe event em"
| "run_emitter_op (UnsubscribeById i) em = unsubscribe_by_id i em"
| "run_emitter_op UnsubscribeAll em = unsubscribe_all em"

lemma run_emitter_op_ok:
  assumes "emitter_ok em"
  shows "emitter_ok (run_emitter_op op em)"
proof (cases op)
  case (Subscribe uuid event)
  let ?c = "code_as_raw (code_from_name event)"
  from sum_list_hm_insert [of "em_listeners em" ?c "opt_default [] (hm_get (em_listeners em) ?c) @ [uuid]"] assms
  show ?thesis by (auto simp: Subscribe emitter_ok_def subscribe_def subscription_new_def Let_def)
next
  case (Unsubscribe event)
  with sum_list_hm_remove [of "em_listeners em" "code_as_raw (code_from_name event)"] assms show ?thesis
    by (auto simp: emitter_ok_def unsubscribe_def Let_def split: option.splits)
next
  case (UnsubscribeById i)
  show ?thesis
  proof (cases "hm_get (em_listeners em) (code_as_raw (code_from_name (sub_event i)))")
    case None
    with assms show ?thesis by (simp add: UnsubscribeById unsubscribe_by_id_def)
  next
    case (Some ls)
    define kept where "kept = filter (\<lambda>l. l \<noteq> sub_value i) ls"
    have "length kept \<le> length ls" unfolding kept_def by (rule length_filter_le)
    with sum_list_hm_insert [of "em_listeners em" "code_as_raw (code_from_name (sub_event i))" kept] assms Some
    show ?thesis by (auto simp: UnsubscribeById emitter_ok_def unsubscribe_by_id_def Let_def kept_def [symmetric])
  qed
next
  case UnsubscribeAll
  then show ?thesis by (simp add: emitter_ok_def unsubscribe_all_def)
qed

lemma emitter_reachable_ok: "emitter_ok (foldl (\<lambda>em op. run_emitter_op op em) emitter_default ops)"
proof -
  have "emitter_ok em \<Longrightarrow> emitter_ok (foldl (\<lambda>em op. run_emitter_op op em) em ops)" for em
    by (induction ops arbitrary: em) (auto intro: run_emitter_op_ok)
  then show ?thesis by (simp add: emitter_ok_def emitter_default_def)
qed

lemma count_zero_no_listeners: "emitter_ok em \<Longrightarrow> em_listener_count em = 0 \<Longrightarrow> listeners_for c em = []"
  using hm_get_in [of "em_listeners em" c] by (force simp: emitter_ok_def listeners_for_def opt_default_def split: option.splits)

text \<open>
  The shortcut of \<open>emit\<close> never loses an event. After any sequence of subscriptions and their removals,
  an event is delivered to exactly the listeners of all events and then those of its own kind, each in the
  order of subscription, and the counter that allows skipping the lookup is the number of listeners.
\<close>

theorem emit_reaches_listeners:
  fixes ops :: "emitter_op list"
  defines "em \<equiv> foldl (\<lambda>em op. run_emitter_op op em) emitter_default ops"
  shows "emit event em = map (\<lambda>l. (l, event)) (listeners_for 1 em @ listeners_for (code_as_raw (get_code event)) em) \<and>
    em_listener_count em = sum_list (map (length \<circ> snd) (em_listeners em))"
proof -
  have ok: "emitter_ok em" unfolding em_def by (rule emitter_reachable_ok)
  show ?thesis
  proof (cases "em_listener_count em = 0")
    case True
    with ok show ?thesis by (simp add: emit_def count_zero_no_listeners) (simp add: emitter_ok_def)
  next
    case False
    then show ?thesis using ok unfolding emit_def if_not_P [OF False] emit_to_listeners_def listeners_for_def opt_default_def
      by (auto simp: code_from_name_def emitter_ok_def split: option.splits)
  qed
qed

lemma str_split_plain: "c \<notin> set s \<Longrightarrow> str_split c s = [s]"
  by (induction s) auto

lemma str_split_append: "c \<notin> set s \<Longrightarrow> str_split c (s @ c # t) = s # str_split c t"
  by (induction s) auto

lemma subscription_roundtrip:
  "\<lbrakk>CHR ''@'' \<notin> set (sub_value i); CHR ''@'' \<notin> set (sub_event i)\<rbrakk> \<Longrightarrow>
   subscription_decode (subscription_encode i) = Some i"
  by (simp add: subscription_decode_def subscription_encode_def str_split_append str_split_plain)

end
