(* ===== verification/Accounting.thy ===== *)
theory Accounting
  imports Prelude "HOL-Library.Multiset"
begin

text \<open>
  Components that hold events and work one atomic operation at a time. A list of operations stands
  for one interleaving of the calls of any number of threads. The interface \<open>accounting\<close> states what
  a component promises for one operation: it returns, and every event is still held, has been handed
  out, or is counted as lost. What a client may conclude for a whole run is proved once.
\<close>

section \<open>Runs\<close>

fun run_steps :: "('op \<Rightarrow> 's \<Rightarrow> ('o \<times> 's) option) \<Rightarrow> 'op list \<Rightarrow> 's \<Rightarrow> ('o list \<times> 's) option" where
  "run_steps step [] s = Some ([], s)"
| "run_steps step (a # ops) s =
     (case step a s of
        None \<Rightarrow> None
      | Some (ob, s1) \<Rightarrow>
          (case run_steps step ops s1 of
             None \<Rightarrow> None
           | Some (obs, s2) \<Rightarrow> Some (ob # obs, s2)))"

lemma run_steps_length: "run_steps step ops s = Some (obs, s') \<Longrightarrow> length obs = length ops"
  by (induction ops arbitrary: s obs) (auto split: option.splits prod.splits)

lemma map2_fst: "length ys = length xs \<Longrightarrow> map2 (\<lambda>a _. f a) xs ys = map f xs"
  by (induction xs arbitrary: ys) (auto simp: length_Suc_conv)

text \<open>The account of one operation, or of a run: nothing is lost but what is counted.\<close>

definition balanced :: "'e multiset \<Rightarrow> 'e multiset \<Rightarrow> u64 \<Rightarrow> bool" where
  "balanced inputs outputs reported \<longleftrightarrow> (\<exists>lost. inputs = outputs + lost \<and> of_nat (size lost) = reported)"

lemma balancedI: "inputs = outputs + lost \<Longrightarrow> of_nat (size lost) = reported \<Longrightarrow> balanced inputs outputs reported"
  by (auto simp: balanced_def)

lemma balanced_exact: "inputs = outputs \<Longrightarrow> balanced inputs outputs 0"
  by (auto intro: balancedI [where lost = "{#}"])

lemma balanced_refl [simp]: "balanced a a 0"
  by (rule balanced_exact) simp

lemma balanced_lost: "balanced (a + l) a (of_nat (size l))"
  by (rule balancedI [OF refl refl])

lemma balanced_trans:
  assumes "balanced (a + i) (b + x) m" "balanced (b + j) (c + y) n"
  shows "balanced (a + (i + j)) (c + (x + y)) (m + n)"
proof -
  from assms obtain l k where "a + i = b + x + l" "of_nat (size l) = m" "b + j = c + y + k" "of_nat (size k) = n"
    by (auto simp: balanced_def)
  moreover from this have "a + (i + j) = c + (x + y) + (l + k)"
    by (metis add.assoc add.commute)
  ultimately show ?thesis by (auto intro: balancedI [where lost = "l + k"])
qed

locale accounting =
  fixes step :: "'op \<Rightarrow> 's \<Rightarrow> ('o \<times> 's) option"
    and ok :: "'s \<Rightarrow> bool"
    and held :: "'s \<Rightarrow> 'e multiset"
    and gained :: "'op \<Rightarrow> 'o \<Rightarrow> 'e multiset"
    and handed_out :: "'o \<Rightarrow> 'e multiset"
    and reported :: "'o \<Rightarrow> u64"
    and silent :: "'o \<Rightarrow> bool"
  assumes step_returns: "ok s \<Longrightarrow> \<exists>ob s'. step a s = Some (ob, s')"
    and step_ok: "ok s \<Longrightarrow> step a s = Some (ob, s') \<Longrightarrow> ok s'"
    and step_balanced: "ok s \<Longrightarrow> step a s = Some (ob, s') \<Longrightarrow> \<not> silent ob \<Longrightarrow>
      balanced (held s + gained a ob) (held s' + handed_out ob) (reported ob)"
begin

lemma run_returns: "ok s \<Longrightarrow> \<exists>obs s'. run_steps step ops s = Some (obs, s') \<and> ok s'"
proof (induction ops arbitrary: s)
  case (Cons a ops)
  obtain ob s1 where "step a s = Some (ob, s1)" using step_returns [OF Cons.prems] by blast
  with Cons.IH [OF step_ok [OF Cons.prems]] show ?case by fastforce
qed simp

lemma run_cases:
  assumes "run_steps step (a # ops) s = Some (obs, s')"
  obtains ob obs1 s1 where "obs = ob # obs1" "step a s = Some (ob, s1)" "run_steps step ops s1 = Some (obs1, s')"
  using assms by (auto split: option.splits prod.splits)

lemma run_balanced:
  assumes "ok s" "run_steps step ops s = Some (obs, s')" "\<not> list_ex silent obs"
  shows "balanced (held s + sum_list (map2 gained ops obs)) (held s' + sum_list (map handed_out obs))
    (sum_list (map reported obs))"
  using assms
proof (induction ops arbitrary: s obs)
  case Nil
  then show ?case by (simp add: balanced_exact)
next
  case (Cons a ops)
  from Cons.prems(2) obtain ob obs1 s1 where obs: "obs = ob # obs1" and step: "step a s = Some (ob, s1)"
    and run: "run_steps step ops s1 = Some (obs1, s')" by (rule run_cases)
  have "balanced (held s + gained a ob) (held s1 + handed_out ob) (reported ob)"
    using Cons.prems step obs by (intro step_balanced) simp_all
  moreover have "balanced (held s1 + sum_list (map2 gained ops obs1)) (held s' + sum_list (map handed_out obs1))
      (sum_list (map reported obs1))"
    using Cons.IH [OF step_ok [OF Cons.prems(1) step] run] Cons.prems(3) obs by simp
  ultimately show ?case unfolding obs by (simp add: balanced_trans)
qed

lemma run_invariant:
  assumes "ok s" "run_steps step ops s = Some (obs, s')" "P s"
    and "\<And>a s ob s'. ok s \<Longrightarrow> P s \<Longrightarrow> step a s = Some (ob, s') \<Longrightarrow> P s'"
  shows "P s'"
  using assms(1-3)
proof (induction ops arbitrary: s obs)
  case (Cons a ops)
  from Cons.prems(2) obtain ob obs1 s1 where "step a s = Some (ob, s1)" "run_steps step ops s1 = Some (obs1, s')"
    by (rule run_cases)
  then show ?case using Cons.IH [OF step_ok [OF Cons.prems(1)]] assms(4) [OF Cons.prems(1,3)] by blast
qed simp

end

end
