(* ===== verification/Event_Queue.thy ===== *)
theory Event_Queue
  imports Accounting
begin

text \<open>
  The queue of events waiting to be sent, \<open>src/statsig-rust/src/event_logging/event_queue/queue.rs\<close> and
  \<open>batch.rs\<close>. Producers append to one of several shards, each event with a sequence number; a flush
  drains all shards, restores the order by sequence number and cuts the events into batches.

  Every method is one atomic step, so that a list of operations stands for an interleaving of the
  methods of any number of threads; inside \<open>add\<close> the shard's lock is held from the stamp to the
  return. Whether a lock is obtained within its time limit is an argument. Queued events \<open>'q\<close> become
  events \<open>'e\<close> by the function \<open>into\<close>, \<open>into_statsig_event_internal\<close> of the sources. Counters of 64 bits
  are words and wrap; sizes and lengths are natural numbers.
\<close>

section \<open>Data\<close>

type_synonym u8_count = "8 word"

record 'e event_batch =
  eb_attempts :: u8_count
  eb_events :: "'e list"

definition eb_new :: "'e list \<Rightarrow> 'e event_batch" where
  "eb_new es = \<lparr>eb_attempts = 0, eb_events = es\<rparr>"

datatype queue_add_result = AddNoop | NeedsFlush | NeedsFlushAndDropped u64

datatype queue_reconcile_result = ReconcileSuccess | DroppedEvents u64 | LockFailure

record ('q, 'e) event_queue =
  eq_batch_size :: nat
  eq_max_pending_batches :: nat
  eq_pending_shards :: "(u64 \<times> 'q) list list"
  eq_pending_count :: nat
  eq_next_shard :: u64
  eq_next_seq :: u64
  eq_batches :: "'e event_batch list"
  eq_max_pending_events :: nat

abbreviation PENDING_SHARD_COUNT :: nat where "PENDING_SHARD_COUNT \<equiv> 16"

section \<open>Operations\<close>

definition eq_new :: "u32 \<Rightarrow> u32 \<Rightarrow> ('q, 'e) event_queue" where
  "eq_new batch_size max_queue_size =
     (let max_pending_events = unat batch_size * unat max_queue_size;
          shard_count = max (min PENDING_SHARD_COUNT max_pending_events) 1
      in \<lparr>eq_batch_size = unat batch_size, eq_max_pending_batches = unat max_queue_size,
          eq_pending_shards = replicate shard_count [], eq_pending_count = 0, eq_next_shard = 0,
          eq_next_seq = 0, eq_batches = [], eq_max_pending_events = max_pending_events\<rparr>)"

definition approximate_pending_events_count :: "bool \<Rightarrow> ('q, 'e) event_queue \<Rightarrow> nat" where
  "approximate_pending_events_count lock_ok q =
     (if \<not> lock_ok then 0 else eq_pending_count q + length (eq_batches q) * eq_batch_size q)"

definition queue_add :: "bool \<Rightarrow> 'q \<Rightarrow> ('q, 'e) event_queue \<Rightarrow> queue_add_result \<times> ('q, 'e) event_queue" where
  "queue_add lock_ok ev q =
     (let idx = unat (eq_next_shard q) mod length (eq_pending_shards q);
          q0 = q\<lparr>eq_next_shard := eq_next_shard q + 1\<rparr>
      in if \<not> lock_ok then (AddNoop, q0)
         else
           (let shard = eq_pending_shards q ! idx @ [(eq_next_seq q, ev)];
                tot = eq_pending_count q + 1;
                q1 = q0\<lparr>eq_next_seq := eq_next_seq q + 1, eq_pending_count := tot,
                        eq_pending_shards := (eq_pending_shards q)[idx := shard]\<rparr>
            in if eq_max_pending_events q < tot \<and> 1 < length shard
               then (NeedsFlushAndDropped 1,
                 q1\<lparr>eq_pending_count := tot - 1, eq_pending_shards := (eq_pending_shards q)[idx := tl shard]\<rparr>)
               else if eq_batch_size q dvd tot then (NeedsFlush, q1) else (AddNoop, q1)))"

definition requeue_batch :: "bool \<Rightarrow> 'e event_batch \<Rightarrow> ('q, 'e) event_queue \<Rightarrow> queue_reconcile_result \<times> ('q, 'e) event_queue" where
  "requeue_batch lock_ok b q =
     (let len = of_nat (length (eb_events b))
      in if \<not> lock_ok then (DroppedEvents len, q)
         else if eq_max_pending_batches q < length (eq_batches q) then (DroppedEvents len, q)
         else (ReconcileSuccess, q\<lparr>eq_batches := eq_batches q @ [b]\<rparr>))"

definition contains_at_least_one_full_batch :: "bool \<Rightarrow> ('q, 'e) event_queue \<Rightarrow> bool" where
  "contains_at_least_one_full_batch lock_ok q \<longleftrightarrow>
     eq_batch_size q \<le> eq_pending_count q \<or>
     lock_ok \<and> list_ex (\<lambda>b. eq_batch_size q \<le> length (eb_events b)) (eq_batches q)"

definition take_all_batches :: "bool \<Rightarrow> ('q, 'e) event_queue \<Rightarrow> 'e event_batch list \<times> ('q, 'e) event_queue" where
  "take_all_batches lock_ok q = (if \<not> lock_ok then ([], q) else (eq_batches q, q\<lparr>eq_batches := []\<rparr>))"

definition take_next_batch :: "bool \<Rightarrow> ('q, 'e) event_queue \<Rightarrow> 'e event_batch option \<times> ('q, 'e) event_queue" where
  "take_next_batch lock_ok q =
     (if \<not> lock_ok then (None, q)
      else case eq_batches q of
          [] \<Rightarrow> (None, q)
        | b # bs \<Rightarrow> (Some b, q\<lparr>eq_batches := bs\<rparr>))"

text \<open>The sequence numbers are distinct, so the unstable sort of the sources has one result.\<close>

definition take_all_pending_events :: "bool \<Rightarrow> ('q, 'e) event_queue \<Rightarrow> 'q list \<times> ('q, 'e) event_queue" where
  "take_all_pending_events locks_ok q =
     (if \<not> locks_ok then ([], q)
      else
        (let all = concat (eq_pending_shards q)
         in (map snd (sort_key (\<lambda>e. unat (fst e)) all),
             q\<lparr>eq_pending_shards := map (\<lambda>_. []) (eq_pending_shards q),
               eq_pending_count := eq_pending_count q - length all\<rparr>)))"

text \<open>\<open>None\<close> is a loop that does not end.\<close>

partial_function (option) create_batches :: "nat \<Rightarrow> 'e list \<Rightarrow> 'e event_batch list option" where
  "create_batches batch_size pending =
     (if pending = [] then Some []
      else
        (let drain_count = min batch_size (length pending)
         in Option.bind (create_batches batch_size (drop drain_count pending))
              (\<lambda>rest. Some (eb_new (take drain_count pending) # rest))))"

fun clamp_batches :: "nat \<Rightarrow> 'e event_batch list \<Rightarrow> u64 \<times> 'e event_batch list" where
  "clamp_batches limit [] = (0, [])"
| "clamp_batches limit (b # bs) =
     (if Suc (length bs) \<le> limit then (0, b # bs)
      else (let (n, rest) = clamp_batches limit bs in (of_nat (length (eb_events b)) + n, rest)))"

definition reconcile_batching ::
    "('q \<Rightarrow> 'e) \<Rightarrow> bool \<Rightarrow> bool \<Rightarrow> ('q, 'e) event_queue \<Rightarrow> (queue_reconcile_result \<times> ('q, 'e) event_queue) option" where
  "reconcile_batching into drain_ok lock_ok q =
     (let (taken, q1) = take_all_pending_events drain_ok q;
          pending = map into taken
      in if pending = [] then Some (ReconcileSuccess, q1)
         else if \<not> lock_ok then Some (LockFailure, q1)
         else
           (let full = filter (\<lambda>b. eq_batch_size q \<le> length (eb_events b)) (eq_batches q1);
                partial = filter (\<lambda>b. \<not> eq_batch_size q \<le> length (eb_events b)) (eq_batches q1)
            in case create_batches (eq_batch_size q) (pending @ concat (map eb_events partial)) of
                 None \<Rightarrow> None
               | Some new_batches \<Rightarrow>
                   (let (n, kept) = clamp_batches (eq_max_pending_batches q) (full @ new_batches)
                    in Some (if 0 < n then DroppedEvents n else ReconcileSuccess, q1\<lparr>eq_batches := kept\<rparr>))))"

section \<open>Sequences of operations\<close>

text \<open>
  What the threads of the program do with the queue, each call with the outcome of its lock attempts,
  and what the call gives back.
\<close>

datatype ('q, 'e) queue_op =
    OpAdd bool 'q
  | OpRequeue bool "'e event_batch"
  | OpTakeAll bool
  | OpTakeNext bool
  | OpReconcile bool bool

datatype 'e queue_obs =
    ObsAdd queue_add_result
  | ObsReconcile queue_reconcile_result
  | ObsTaken "'e event_batch list"

definition opt_to_list :: "'a option \<Rightarrow> 'a list" where
  "opt_to_list v = (case v of None \<Rightarrow> [] | Some a \<Rightarrow> [a])"

fun queue_step ::
    "('q \<Rightarrow> 'e) \<Rightarrow> ('q, 'e) queue_op \<Rightarrow> ('q, 'e) event_queue \<Rightarrow> ('e queue_obs \<times> ('q, 'e) event_queue) option" where
  "queue_step into (OpAdd lock_ok ev) q = (let (r, q') = queue_add lock_ok ev q in Some (ObsAdd r, q'))"
| "queue_step into (OpRequeue lock_ok b) q = (let (r, q') = requeue_batch lock_ok b q in Some (ObsReconcile r, q'))"
| "queue_step into (OpTakeAll lock_ok) q = (let (bs, q') = take_all_batches lock_ok q in Some (ObsTaken bs, q'))"
| "queue_step into (OpTakeNext lock_ok) q =
     (let (b, q') = take_next_batch lock_ok q in Some (ObsTaken (opt_to_list b), q'))"
| "queue_step into (OpReconcile drain_ok lock_ok) q =
     (case reconcile_batching into drain_ok lock_ok q of
        None \<Rightarrow> None
      | Some (r, q') \<Rightarrow> Some (ObsReconcile r, q'))"

text \<open>The events of the queue, and the accounts of a run: put in, taken out, reported as dropped.\<close>

definition stored :: "('q \<Rightarrow> 'e) \<Rightarrow> ('q, 'e) event_queue \<Rightarrow> 'e multiset" where
  "stored into q =
     mset (map (into \<circ> snd) (concat (eq_pending_shards q))) + mset (concat (map eb_events (eq_batches q)))"

fun op_input :: "('q \<Rightarrow> 'e) \<Rightarrow> ('q, 'e) queue_op \<Rightarrow> 'e multiset" where
  "op_input into (OpAdd lock_ok ev) = (if lock_ok then {#into ev#} else {#})"
| "op_input into (OpRequeue lock_ok b) = mset (eb_events b)"
| "op_input into _ = {#}"

fun obs_taken :: "'e queue_obs \<Rightarrow> 'e multiset" where
  "obs_taken (ObsTaken bs) = mset (concat (map eb_events bs))"
| "obs_taken _ = {#}"

fun obs_dropped :: "'e queue_obs \<Rightarrow> u64" where
  "obs_dropped (ObsAdd (NeedsFlushAndDropped n)) = n"
| "obs_dropped (ObsReconcile (DroppedEvents n)) = n"
| "obs_dropped _ = 0"

section \<open>Batches\<close>

lemma create_batches_some:
  assumes "create_batches b es = Some r"
  shows "b = 0 \<longrightarrow> es = []"
  by (rule create_batches.raw_induct [where P = "\<lambda>b es r. b = 0 \<longrightarrow> es = []", OF _ assms])
    (fastforce simp: bind_eq_Some_conv Let_def split: if_splits)

lemma create_batches_diverges: "es \<noteq> [] \<Longrightarrow> create_batches 0 es = None"
  using create_batches_some [of 0 es] by (cases "create_batches 0 es") auto

lemma create_batches_total:
  assumes "0 < b"
  shows "\<exists>bs. create_batches b es = Some bs \<and> concat (map eb_events bs) = es \<and>
    (\<forall>x\<in>set bs. eb_events x \<noteq> [] \<and> length (eb_events x) \<le> b \<and> eb_attempts x = 0)"
proof (induction es rule: length_induct)
  case (1 es)
  show ?case
  proof (cases "es = []")
    case True
    then show ?thesis by (subst create_batches.simps) simp
  next
    case False
    let ?n = "min b (length es)"
    from False assms have "length (drop ?n es) < length es" by simp
    with 1 obtain bs where bs: "create_batches b (drop ?n es) = Some bs" "concat (map eb_events bs) = drop ?n es"
      "\<forall>x\<in>set bs. eb_events x \<noteq> [] \<and> length (eb_events x) \<le> b \<and> eb_attempts x = 0" by blast
    with False assms show ?thesis by (subst create_batches.simps) (simp add: Let_def eb_new_def)
  qed
qed

lemma clamp_batches_spec:
  assumes "clamp_batches limit bs = (n, kept)"
  shows "\<exists>gone. bs = gone @ kept \<and> n = of_nat (length (concat (map eb_events gone))) \<and> length kept \<le> limit"
  using assms
proof (induction bs arbitrary: n)
  case (Cons b bs)
  show ?case
  proof (cases "Suc (length bs) \<le> limit")
    case True
    with Cons.prems have "n = 0" "kept = b # bs" by simp_all
    with True show ?thesis by (intro exI [of _ "[]"]) simp
  next
    case False
    obtain m where m: "clamp_batches limit bs = (m, kept)" "n = of_nat (length (eb_events b)) + m"
      using Cons.prems False by (cases "clamp_batches limit bs") simp
    from Cons.IH [OF m(1)] obtain gone where "bs = gone @ kept" "m = of_nat (length (concat (map eb_events gone)))"
      "length kept \<le> limit" by blast
    with m False show ?thesis by (intro exI [of _ "b # gone"]) simp
  qed
qed simp

section \<open>Conservation of events\<close>

lemma mset_concat_update:
  "i < length xss \<Longrightarrow> mset (concat (xss[i := ys])) + mset (xss ! i) = mset (concat xss) + mset ys"
proof (induction xss arbitrary: i)
  case (Cons xs xss)
  show ?case
  proof (cases i)
    case (Suc j)
    with Cons.prems Cons.IH [of j] have "count (mset (concat (xss[j := ys])) + mset (xss ! j)) x
        = count (mset (concat xss) + mset ys) x" for x by simp
    then show ?thesis using Suc by (intro multiset_eqI) simp
  qed simp
qed simp

lemma length_concat_update:
  "i < length xss \<Longrightarrow> length (concat (xss[i := ys])) + length (xss ! i) = length (concat xss) + length ys"
  using arg_cong [OF mset_concat_update, of i xss size ys] by (simp add: size_mset [symmetric] del: size_mset)

text \<open>What every operation keeps: shards exist, batches have a size, the counter counts the pending events.\<close>

definition queue_ok :: "('q, 'e) event_queue \<Rightarrow> bool" where
  "queue_ok q \<longleftrightarrow> eq_pending_shards q \<noteq> [] \<and> 0 < eq_batch_size q \<and>
     eq_pending_count q = length (concat (eq_pending_shards q))"

text \<open>The account of one operation of the queue.\<close>

abbreviation conserves ::
    "('q \<Rightarrow> 'e) \<Rightarrow> 'e multiset \<Rightarrow> ('q, 'e) event_queue \<Rightarrow> 'e queue_obs \<Rightarrow> ('q, 'e) event_queue \<Rightarrow> bool" where
  "conserves into ins q ob q' \<equiv>
     balanced (stored into q + ins) (stored into q' + obs_taken ob) (obs_dropped ob)"

lemma conservesI:
  assumes "stored into q + ins = stored into q' + obs_taken ob + lost" "obs_dropped ob = of_nat (size lost)"
  shows "conserves into ins q ob q'"
  using assms by (simp add: balancedI)

lemma shard_index: "queue_ok q \<Longrightarrow> unat (eq_next_shard q) mod length (eq_pending_shards q) < length (eq_pending_shards q)"
  by (simp add: queue_ok_def)

lemma add_cases:
  assumes "queue_ok q" "queue_add True ev q = (r, q')"
  defines "i \<equiv> unat (eq_next_shard q) mod length (eq_pending_shards q)"
  obtains (kept) "eq_pending_shards q' = (eq_pending_shards q)[i := eq_pending_shards q ! i @ [(eq_next_seq q, ev)]]"
      "eq_pending_count q' = eq_pending_count q + 1" "r = AddNoop \<or> r = NeedsFlush"
      "eq_pending_count q + 1 \<le> eq_max_pending_events q \<or> eq_pending_shards q ! i = []"
  | (dropped) d rest where "eq_pending_shards q ! i = d # rest"
      "eq_pending_shards q' = (eq_pending_shards q)[i := rest @ [(eq_next_seq q, ev)]]"
      "eq_pending_count q' = eq_pending_count q" "r = NeedsFlushAndDropped 1"
proof (cases "eq_max_pending_events q < eq_pending_count q + 1 \<and> eq_pending_shards q ! i \<noteq> []")
  case True
  then obtain d rest where "eq_pending_shards q ! i = d # rest" by (cases "eq_pending_shards q ! i") auto
  with True assms(2) show thesis by (intro dropped) (auto simp: queue_add_def i_def Let_def)
next
  case False
  with assms(2) show thesis
    by (intro kept) (auto simp: queue_add_def i_def Let_def split: if_splits)
qed

lemma add_frame:
  assumes "queue_add lock_ok ev q = (r, q')"
  shows "eq_batches q' = eq_batches q" "eq_batch_size q' = eq_batch_size q"
    "eq_max_pending_batches q' = eq_max_pending_batches q" "eq_max_pending_events q' = eq_max_pending_events q"
    "length (eq_pending_shards q') = length (eq_pending_shards q)"
  using assms by (auto simp: queue_add_def Let_def split: if_splits)

lemma add_conserves:
  assumes "queue_ok q" "queue_add lock_ok ev q = (r, q')"
  shows "queue_ok q'" "conserves into (op_input into (OpAdd lock_ok ev)) q (ObsAdd r) q'"
proof -
  let ?i = "unat (eq_next_shard q) mod length (eq_pending_shards q)"
  have i: "?i < length (eq_pending_shards q)" using assms(1) by (rule shard_index)
  have "queue_ok q' \<and> conserves into (op_input into (OpAdd lock_ok ev)) q (ObsAdd r) q'"
  proof (cases lock_ok)
    case False
    then show ?thesis using assms by (auto simp: queue_add_def queue_ok_def stored_def intro: balanced_exact)
  next
    case True
    then have add: "queue_add True ev q = (r, q')" using assms(2) by simp
    note frame = add_frame [OF add]
    from assms(1) add show ?thesis
    proof (cases rule: add_cases)
      case kept
      have m: "mset (concat (eq_pending_shards q')) = add_mset (eq_next_seq q, ev) (mset (concat (eq_pending_shards q)))"
        using mset_concat_update [OF i, of "eq_pending_shards q ! ?i @ [(eq_next_seq q, ev)]"] kept(1) by simp
      have "length (concat (eq_pending_shards q')) = length (concat (eq_pending_shards q)) + 1"
        using arg_cong [OF m, of size] by simp
      then have ok: "queue_ok q'" using kept frame assms(1) by (auto simp: queue_ok_def)
      have "stored into q + {#into ev#} = stored into q' + obs_taken (ObsAdd r) + {#}"
        using arg_cong [OF m, of "image_mset (into \<circ> snd)"] frame(1) by (simp add: stored_def)
      moreover have "obs_dropped (ObsAdd r) = of_nat (size {#})" using kept(3) by auto
      ultimately have "conserves into {#into ev#} q (ObsAdd r) q'" by (rule conservesI)
      with ok True show ?thesis by simp
    next
      case (dropped d rest)
      have m: "add_mset d (mset (concat (eq_pending_shards q'))) = add_mset (eq_next_seq q, ev) (mset (concat (eq_pending_shards q)))"
        using mset_concat_update [OF i, of "rest @ [(eq_next_seq q, ev)]"] dropped by simp
      have "length (concat (eq_pending_shards q')) = length (concat (eq_pending_shards q))"
        using arg_cong [OF m, of size] by simp
      then have ok: "queue_ok q'" using dropped frame assms(1) by (auto simp: queue_ok_def)
      have "stored into q + {#into ev#} = stored into q' + obs_taken (ObsAdd r) + {#into (snd d)#}"
        using arg_cong [OF m, of "image_mset (into \<circ> snd)"] frame(1) by (simp add: stored_def)
      moreover have "obs_dropped (ObsAdd r) = of_nat (size {#into (snd d)#})" using dropped(4) by simp
      ultimately have "conserves into {#into ev#} q (ObsAdd r) q'" by (rule conservesI)
      with ok True show ?thesis by simp
    qed
  qed
  then show "queue_ok q'" "conserves into (op_input into (OpAdd lock_ok ev)) q (ObsAdd r) q'" by auto
qed

lemma requeue_conserves:
  assumes "queue_ok q" "requeue_batch lock_ok b q = (r, q')"
  shows "queue_ok q' \<and> conserves into (mset (eb_events b)) q (ObsReconcile r) q'"
proof (cases "r = ReconcileSuccess")
  case True
  with assms(2) have "q' = q\<lparr>eq_batches := eq_batches q @ [b]\<rparr>"
    by (auto simp: requeue_batch_def Let_def split: if_splits)
  then have "stored into q + mset (eb_events b) = stored into q' + obs_taken (ObsReconcile r) + {#}"
    by (simp add: stored_def)
  from conservesI [OF this] \<open>q' = _\<close> assms(1) True show ?thesis by (simp add: queue_ok_def)
next
  case False
  with assms(2) have "q' = q" "r = DroppedEvents (of_nat (length (eb_events b)))"
    by (auto simp: requeue_batch_def Let_def split: if_splits)
  with assms(1) balanced_lost [of "stored into q" "mset (eb_events b)"] show ?thesis by simp
qed

lemma take_all_conserves:
  assumes "queue_ok q" "take_all_batches lock_ok q = (bs, q')"
  shows "queue_ok q' \<and> conserves into {#} q (ObsTaken bs) q'"
  using assms by (auto simp: take_all_batches_def queue_ok_def stored_def split: if_splits)

lemma take_next_conserves:
  assumes "queue_ok q" "take_next_batch lock_ok q = (b, q')"
  shows "queue_ok q' \<and> conserves into {#} q (ObsTaken (opt_to_list b)) q'"
  using assms
  by (auto simp: take_next_batch_def queue_ok_def stored_def opt_to_list_def ac_simps
      split: if_splits list.splits)

lemma drain_pending:
  assumes "queue_ok q" "take_all_pending_events True q = (es, q')"
  shows "mset es = image_mset snd (mset (concat (eq_pending_shards q)))" "concat (eq_pending_shards q') = []"
    "eq_pending_count q' = 0" "eq_batches q' = eq_batches q" "eq_batch_size q' = eq_batch_size q"
    "length (eq_pending_shards q') = length (eq_pending_shards q)"
  using assms by (auto simp: take_all_pending_events_def Let_def queue_ok_def)

lemma partition_concat:
  "mset (concat (map f (filter P bs))) + mset (concat (map f (filter (\<lambda>b. \<not> P b) bs))) = mset (concat (map f bs))"
  by (induction bs) (simp_all add: ac_simps)

text \<open>
  Reconciling always ends when batches have a size. It loses events without reporting them in one
  case only: the pending events were drained and the lock of the batches was not obtained.
\<close>

lemma reconcile_conserves:
  assumes "queue_ok q"
  shows "\<exists>r q'. reconcile_batching into drain_ok lock_ok q = Some (r, q') \<and> queue_ok q' \<and>
    (r \<noteq> LockFailure \<longrightarrow> conserves into {#} q (ObsReconcile r) q')"
proof -
  obtain es q1 where drain: "take_all_pending_events drain_ok q = (es, q1)"
    by (cases "take_all_pending_events drain_ok q")
  have ok: "queue_ok q1"
    using drain assms by (cases drain_ok) (auto simp: take_all_pending_events_def queue_ok_def Let_def)
  show ?thesis
  proof (cases "es = [] \<or> \<not> lock_ok")
    case True
    have "conserves into {#} q (ObsReconcile ReconcileSuccess) q1" if "es = []"
    proof (cases drain_ok)
      case False
      with drain show ?thesis by (auto simp: take_all_pending_events_def)
    next
      case d: True
      note dr = drain_pending [OF assms drain [unfolded eqTrueI [OF d]]]
      have "mset (concat (eq_pending_shards q)) = {#}" using dr(1) that by simp
      then have "concat (eq_pending_shards q) = []" by (simp only: mset_zero_iff)
      with dr(2,4) have "stored into q + {#} = stored into q1 + obs_taken (ObsReconcile ReconcileSuccess) + {#}"
        by (simp only: stored_def obs_taken.simps) simp
      then show ?thesis by (rule conservesI) simp
    qed
    with True drain ok show ?thesis by (cases "es = []") (simp_all add: reconcile_batching_def)
  next
    case False
    then have "drain_ok" using drain by (cases drain_ok) (simp_all add: take_all_pending_events_def)
    note d = drain_pending [OF assms drain [unfolded eqTrueI [OF this]]]
    let ?full = "filter (\<lambda>b. eq_batch_size q \<le> length (eb_events b)) (eq_batches q)"
    let ?part = "filter (\<lambda>b. \<not> eq_batch_size q \<le> length (eb_events b)) (eq_batches q)"
    let ?pending = "map into es @ concat (map eb_events ?part)"
    obtain new where new: "create_batches (eq_batch_size q) ?pending = Some new" "concat (map eb_events new) = ?pending"
      using create_batches_total [of "eq_batch_size q" ?pending] assms by (auto simp: queue_ok_def)
    obtain n kept where clamp: "clamp_batches (eq_max_pending_batches q) (?full @ new) = (n, kept)"
      by (cases "clamp_batches (eq_max_pending_batches q) (?full @ new)")
    let ?r = "if 0 < n then DroppedEvents n else ReconcileSuccess"
    let ?q = "q1\<lparr>eq_batches := kept\<rparr>"
    have run: "reconcile_batching into drain_ok lock_ok q = Some (?r, ?q)"
      using False drain new(1) clamp d(4) by (simp add: reconcile_batching_def)
    from clamp_batches_spec [OF clamp] obtain gone where gone: "?full @ new = gone @ kept"
      "n = of_nat (length (concat (map eb_events gone)))" by blast
    let ?lost = "mset (concat (map eb_events gone))"
    have "stored into q = image_mset into (mset es) + mset (concat (map eb_events ?part)) + mset (concat (map eb_events ?full))"
      unfolding d(1) stored_def
        partition_concat [of eb_events "\<lambda>b. eq_batch_size q \<le> length (eb_events b)" "eq_batches q", symmetric]
      by (simp add: multiset.map_comp ac_simps)
    also have "\<dots> = mset (concat (map eb_events (?full @ new)))" using new(2) by (simp add: ac_simps)
    also have "\<dots> = mset (concat (map eb_events kept)) + ?lost" unfolding gone(1) by (simp add: ac_simps)
    finally have "stored into q + {#} = stored into ?q + obs_taken (ObsReconcile ?r) + ?lost"
      using d(2) by (simp add: stored_def)
    moreover have "obs_dropped (ObsReconcile ?r) = of_nat (size ?lost)"
      using gone(2) by (auto simp: word_gt_0 simp del: length_concat)
    ultimately have "conserves into {#} q (ObsReconcile ?r) ?q" by (rule conservesI)
    moreover have "queue_ok ?q" using ok by (simp add: queue_ok_def)
    ultimately show ?thesis using run by blast
  qed
qed

definition silent_loss :: "'e queue_obs \<Rightarrow> bool" where
  "silent_loss ob \<longleftrightarrow> ob = ObsReconcile LockFailure"

lemma queue_step_ok:
  assumes "queue_ok q"
  shows "\<exists>ob q'. queue_step into a q = Some (ob, q') \<and> queue_ok q' \<and>
    (\<not> silent_loss ob \<longrightarrow> conserves into (op_input into a) q ob q')"
proof (cases a)
  case (OpAdd lock_ok ev)
  obtain r q' where "queue_add lock_ok ev q = (r, q')" by (cases "queue_add lock_ok ev q")
  with add_conserves [OF assms this] OpAdd show ?thesis by simp
next
  case (OpRequeue lock_ok b)
  obtain r q' where "requeue_batch lock_ok b q = (r, q')" by (cases "requeue_batch lock_ok b q")
  with requeue_conserves [OF assms this] OpRequeue show ?thesis by simp
next
  case (OpTakeAll lock_ok)
  obtain bs q' where "take_all_batches lock_ok q = (bs, q')" by (cases "take_all_batches lock_ok q")
  with take_all_conserves [OF assms this] OpTakeAll show ?thesis by simp
next
  case (OpTakeNext lock_ok)
  obtain b q' where "take_next_batch lock_ok q = (b, q')" by (cases "take_next_batch lock_ok q")
  with take_next_conserves [OF assms this] OpTakeNext show ?thesis by simp
next
  case (OpReconcile drain_ok lock_ok)
  with reconcile_conserves [OF assms, of into drain_ok lock_ok] show ?thesis by (auto simp: silent_loss_def)
qed

interpretation queue: accounting "queue_step into" queue_ok "stored into" "\<lambda>a _. op_input into a" obs_taken obs_dropped
    silent_loss for into
proof unfold_locales
  fix q :: "('a, 'b) event_queue" and a ob q'
  assume ok: "queue_ok q"
  then show "\<exists>ob q'. queue_step into a q = Some (ob, q')" using queue_step_ok by blast
  assume "queue_step into a q = Some (ob, q')"
  with queue_step_ok [OF ok, of into a] show "queue_ok q'"
    "\<not> silent_loss ob \<Longrightarrow> conserves into (op_input into a) q ob q'" by simp_all
qed

lemma eq_new_ok: "0 < b \<Longrightarrow> queue_ok (eq_new b m)"
  by (simp add: queue_ok_def eq_new_def Let_def word_gt_0 unat_eq_0 flip: unat_gt_0)

lemma eq_new_sel:
  "eq_batches (eq_new b m) = []" "eq_batch_size (eq_new b m) = unat b" "eq_max_pending_batches (eq_new b m) = unat m"
  "eq_pending_count (eq_new b m) = 0" "eq_next_seq (eq_new b m) = 0" "eq_max_pending_events (eq_new b m) = unat b * unat m"
  by (simp_all add: eq_new_def Let_def)

lemma eq_new_stored [simp]: "stored into (eq_new b m) = {#}"
  by (simp add: stored_def eq_new_def Let_def)

section \<open>Bounds\<close>

text \<open>
  An add beyond the capacity evicts an event unless its shard was empty, so the overshoot is at most
  the number of shards in use; a requeue checks the number of batches before it adds one.
\<close>

definition used_shards :: "('q, 'e) event_queue \<Rightarrow> nat" where
  "used_shards q = length (filter (\<lambda>s. s \<noteq> []) (eq_pending_shards q))"

definition queue_bounded :: "nat \<Rightarrow> nat \<Rightarrow> ('q, 'e) event_queue \<Rightarrow> bool" where
  "queue_bounded max_events max_batches q \<longleftrightarrow>
     eq_max_pending_events q = max_events \<and> eq_max_pending_batches q = max_batches \<and>
     length (eq_pending_shards q) \<le> PENDING_SHARD_COUNT \<and>
     eq_pending_count q \<le> max_events + used_shards q \<and> length (eq_batches q) \<le> max_batches + 1"

lemma length_filter_update:
  "i < length xs \<Longrightarrow> length (filter P (xs[i := y])) + (if P (xs ! i) then 1 else 0)
    = length (filter P xs) + (if P y then 1 else 0)"
proof (induction xs arbitrary: i)
  case (Cons x xs)
  then show ?case by (cases i) (fastforce split: if_splits)+
qed simp

lemma used_shards_update:
  assumes "i < length (eq_pending_shards q)" "eq_pending_shards q' = (eq_pending_shards q)[i := ys]" "ys \<noteq> []"
  shows "used_shards q' = used_shards q + (if eq_pending_shards q ! i = [] then 1 else 0)"
  using length_filter_update [OF assms(1), of "\<lambda>s. s \<noteq> []" ys] assms(2,3) by (simp add: used_shards_def split: if_splits)

lemma add_bounded:
  assumes "queue_ok q" "queue_bounded m n q" "queue_add lock_ok ev q = (r, q')"
  shows "queue_bounded m n q'"
proof (cases lock_ok)
  case False
  with assms(2,3) show ?thesis by (auto simp: queue_add_def queue_bounded_def used_shards_def)
next
  case True
  note frame = add_frame [OF assms(3)] and i = shard_index [OF assms(1)]
  from assms(1) assms(3) [unfolded eqTrueI [OF True]] show ?thesis
  proof (cases rule: add_cases)
    case kept
    with used_shards_update [OF i kept(1)] assms(2) frame show ?thesis by (auto simp: queue_bounded_def)
  next
    case (dropped d rest)
    with used_shards_update [OF i dropped(2)] assms(2) frame show ?thesis by (simp add: queue_bounded_def)
  qed
qed

lemma drain_frame:
  assumes "take_all_pending_events locks_ok q = (es, q')"
  shows "eq_max_pending_events q' = eq_max_pending_events q" "eq_max_pending_batches q' = eq_max_pending_batches q"
    "eq_batches q' = eq_batches q" "length (eq_pending_shards q') = length (eq_pending_shards q)"
    "eq_next_seq q' = eq_next_seq q"
  using assms by (auto simp: take_all_pending_events_def Let_def split: if_splits)

lemma drain_bounded:
  assumes "queue_ok q" "queue_bounded m n q" "take_all_pending_events locks_ok q = (es, q')"
  shows "queue_bounded m n q'"
proof (cases locks_ok)
  case True
  then show ?thesis
    using assms drain_frame [OF assms(3)] drain_pending(3) [OF assms(1)] by (simp add: queue_bounded_def)
qed (use assms in \<open>simp add: take_all_pending_events_def\<close>)

lemma reconcile_bounded:
  assumes "queue_ok q" "queue_bounded m n q" "reconcile_batching into drain_ok lock_ok q = Some (r, q')"
  shows "queue_bounded m n q'"
proof -
  obtain es q1 where drain: "take_all_pending_events drain_ok q = (es, q1)"
    by (cases "take_all_pending_events drain_ok q")
  note b = drain_bounded [OF assms(1,2) drain] and f = drain_frame [OF drain]
  have "q' = q1 \<or> (\<exists>kept. q' = q1\<lparr>eq_batches := kept\<rparr> \<and> length kept \<le> eq_max_pending_batches q)"
    using assms(3) drain clamp_batches_spec
    by (auto simp: reconcile_batching_def Let_def split: if_splits option.splits prod.splits; blast)
  with b f show ?thesis by (auto simp: queue_bounded_def used_shards_def)
qed

lemma queue_step_bounded:
  assumes "queue_ok q" "queue_bounded m n q" "queue_step into a q = Some (ob, q')"
  shows "queue_bounded m n q'"
proof (cases a)
  case (OpRequeue lock_ok b)
  with assms show ?thesis
    by (auto simp: requeue_batch_def queue_bounded_def used_shards_def Let_def split: if_splits)
next
  case (OpTakeNext lock_ok)
  with assms show ?thesis
    by (auto simp: take_next_batch_def queue_bounded_def used_shards_def split: if_splits list.splits)
next
  case (OpTakeAll lock_ok)
  with assms show ?thesis
    by (auto simp: take_all_batches_def queue_bounded_def used_shards_def split: if_splits)
qed (use assms add_bounded [OF assms(1,2)] reconcile_bounded [OF assms(1,2)] in
    \<open>auto split: prod.splits option.splits\<close>)

section \<open>Order\<close>

text \<open>
  The abstract queue: the pending events in the order of their sequence numbers. Sequence numbers
  in use are distinct and below the next one as long as the counter has not wrapped.
\<close>

definition pending_in_order :: "('q, 'e) event_queue \<Rightarrow> (u64 \<times> 'q) list" where
  "pending_in_order q = sort_key (\<lambda>e. unat (fst e)) (concat (eq_pending_shards q))"

definition seq_ok :: "('q, 'e) event_queue \<Rightarrow> bool" where
  "seq_ok q \<longleftrightarrow> distinct (map fst (concat (eq_pending_shards q))) \<and>
     (\<forall>e\<in>set (concat (eq_pending_shards q)). unat (fst e) < unat (eq_next_seq q))"

lemma sort_key_remove:
  fixes key :: "'a \<Rightarrow> nat"
  assumes "mset xs = add_mset d (mset ys)" "inj_on key (set xs)"
  shows "sort_key key ys = remove1 d (sort_key key xs)"
proof (rule sort_key_inj_key_eq)
  show "mset ys = mset (remove1 d (sort_key key xs))" using assms(1) by simp
  have "set ys \<subseteq> set xs" using arg_cong [OF assms(1), of set_mset] by auto
  with assms(2) show "inj_on key (set ys)" by (rule inj_on_subset)
  have "sorted (map key (remove1 d zs))" if "sorted (map key zs)" for zs
    using that sorted_wrt_filter
    by (induction zs) (auto dest: notin_set_remove1 in_set_remove1 [THEN iffD1] set_remove1_subset [THEN subsetD])
  then show "sorted (map key (remove1 d (sort_key key xs)))" by simp
qed

lemma sort_key_last:
  fixes key :: "'a \<Rightarrow> nat"
  assumes "mset xs = add_mset e (mset ys)" "inj_on key (set xs)" "\<And>y. y \<in> set ys \<Longrightarrow> key y < key e"
  shows "sort_key key xs = sort_key key ys @ [e]"
  by (rule sort_key_inj_key_eq)
    (use assms in \<open>auto simp: sorted_append intro: less_imp_le\<close>)

text \<open>The unstamped capacity: the counter may take one more step without wrapping.\<close>

lemma next_seq_unat: "unat (eq_next_seq q) < 2 ^ 64 - 1 \<Longrightarrow> unat (eq_next_seq q + 1) = unat (eq_next_seq q) + 1"
  using unat_add_lem [of "eq_next_seq q" 1] by simp

lemma seq_inj:
  assumes "seq_ok q"
  shows "inj_on (\<lambda>e. unat (fst e)) (insert (eq_next_seq q, ev) (set (concat (eq_pending_shards q))))"
proof -
  have "inj_on fst (set (concat (eq_pending_shards q)))"
    using assms by (simp add: seq_ok_def distinct_map del: set_concat)
  then have "inj_on (\<lambda>e. unat (fst e)) (set (concat (eq_pending_shards q)))"
    by (auto simp: inj_on_def word_unat_eq_iff simp del: set_concat)
  moreover have "unat (fst e) \<noteq> unat (eq_next_seq q)" if "e \<in> set (concat (eq_pending_shards q))" for e
    using assms that by (auto simp: seq_ok_def simp del: set_concat)
  ultimately show ?thesis by (force simp: inj_on_insert simp del: set_concat)
qed

lemma seq_distinctI:
  assumes "inj_on (\<lambda>e. unat (fst e)) (set xs)" "distinct xs"
  shows "distinct (map fst xs)"
proof -
  have "inj_on fst (set xs)" using assms(1) by (auto simp: inj_on_def)
  with assms(2) show ?thesis by (simp add: distinct_map)
qed

lemma order_step:
  fixes q q' :: "('q, 'e) event_queue"
  assumes "seq_ok q" "unat (eq_next_seq q) < 2 ^ 64 - 1" "eq_next_seq q' = eq_next_seq q + 1"
    and m: "mset (concat (eq_pending_shards q')) = add_mset (eq_next_seq q, ev) (mset keep)"
    and keep: "set keep \<subseteq> set (concat (eq_pending_shards q))" "distinct keep"
  shows "seq_ok q' \<and> pending_in_order q' = sort_key (\<lambda>e. unat (fst e)) keep @ [(eq_next_seq q, ev)]"
proof -
  let ?e = "(eq_next_seq q, ev)" and ?new = "concat (eq_pending_shards q')"
  have below: "unat (fst e) < unat (eq_next_seq q)" if "e \<in> set keep" for e
    using assms(1) keep(1) that by (auto simp: seq_ok_def simp del: set_concat)
  then have fresh: "?e \<notin> set keep" by fastforce
  have new: "set ?new = insert ?e (set keep)" using arg_cong [OF m, of set_mset] by (simp del: set_concat)
  have inj: "inj_on (\<lambda>e. unat (fst e)) (set ?new)"
    by (rule inj_on_subset [OF seq_inj [OF assms(1), of ev]]) (use new keep(1) in blast)
  have "distinct (?e # keep)" using fresh keep(2) by simp
  then have "distinct ?new" using mset_eq_imp_distinct_iff [of ?new "?e # keep"] m by simp
  with inj have "distinct (map fst ?new)" by (rule seq_distinctI)
  moreover have "\<forall>e\<in>set ?new. unat (fst e) < unat (eq_next_seq q')"
    unfolding new assms(3) next_seq_unat [OF assms(2)] using below by (auto intro: less_SucI)
  ultimately have "seq_ok q'" unfolding seq_ok_def by blast
  moreover have "pending_in_order q' = sort_key (\<lambda>e. unat (fst e)) keep @ [?e]"
    unfolding pending_in_order_def by (rule sort_key_last [OF m inj]) (use below in simp)
  ultimately show ?thesis by blast
qed

lemma order_set: "set (pending_in_order q) = set (concat (eq_pending_shards q))"
  by (simp add: pending_in_order_def)

lemma order_remove:
  assumes "seq_ok q" "d \<in> set (concat (eq_pending_shards q))"
  shows "sort_key (\<lambda>e. unat (fst e)) (remove1 d (concat (eq_pending_shards q))) = remove1 d (pending_in_order q)"
  unfolding pending_in_order_def
proof (rule sort_key_remove)
  show "mset (concat (eq_pending_shards q)) = add_mset d (mset (remove1 d (concat (eq_pending_shards q))))"
    using assms(2) by (simp del: set_concat)
  show "inj_on (\<lambda>e. unat (fst e)) (set (concat (eq_pending_shards q)))"
    by (rule inj_on_subset [OF seq_inj [OF assms(1)]]) blast
qed

lemma add_order:
  assumes "queue_ok q" "seq_ok q" "unat (eq_next_seq q) < 2 ^ 64 - 1" "queue_add True ev q = (r, q')"
  shows "seq_ok q' \<and>
    (if r = NeedsFlushAndDropped 1
     then \<exists>d\<in>set (pending_in_order q). pending_in_order q' = remove1 d (pending_in_order q) @ [(eq_next_seq q, ev)]
     else pending_in_order q' = pending_in_order q @ [(eq_next_seq q, ev)])"
proof -
  let ?i = "unat (eq_next_shard q) mod length (eq_pending_shards q)"
  let ?e = "(eq_next_seq q, ev)" and ?old = "concat (eq_pending_shards q)" and ?new = "concat (eq_pending_shards q')"
  have i: "?i < length (eq_pending_shards q)" using assms(1) by (rule shard_index)
  have seq: "eq_next_seq q' = eq_next_seq q + 1" using assms(4) by (auto simp: queue_add_def Let_def split: if_splits)
  note step = order_step [OF assms(2,3) seq]
  have dist: "distinct ?old" using assms(2) by (simp add: seq_ok_def distinct_map)
  from assms(1,4) show ?thesis
  proof (cases rule: add_cases)
    case kept
    have "mset ?new = add_mset ?e (mset ?old)"
      using mset_concat_update [OF i, of "eq_pending_shards q ! ?i @ [?e]"] kept(1) by simp
    from step [OF this subset_refl dist] have "seq_ok q' \<and> pending_in_order q' = pending_in_order q @ [?e]"
      by (simp only: pending_in_order_def)
    moreover have "r \<noteq> NeedsFlushAndDropped 1" using kept(3) by auto
    ultimately show ?thesis by (simp only: if_False simp_thms)
  next
    case (dropped d rest)
    have d: "d \<in> set ?old" using nth_mem [OF i] unfolding dropped(1) set_concat by (rule UN_I) simp
    then have "unat (fst d) < unat (eq_next_seq q)" using assms(2) unfolding seq_ok_def by blast
    then have ne: "d \<noteq> ?e" by auto
    have "add_mset d (mset ?new) = add_mset ?e (mset ?old)"
      using mset_concat_update [OF i, of "rest @ [?e]"] dropped(1,2) by simp
    from arg_cong [OF this, of "\<lambda>M. M - {#d#}"] have "mset ?new = add_mset ?e (mset ?old) - {#d#}" by simp
    also have "\<dots> = add_mset ?e (mset (remove1 d ?old))" using ne by simp
    finally have m: "mset ?new = add_mset ?e (mset (remove1 d ?old))" .
    have "seq_ok q' \<and> pending_in_order q' = remove1 d (pending_in_order q) @ [?e]"
      using step [OF m set_remove1_subset distinct_remove1 [OF dist]] unfolding order_remove [OF assms(2) d] .
    moreover have "d \<in> set (pending_in_order q)" using d by (simp only: order_set)
    moreover have "r = NeedsFlushAndDropped 1" by (fact dropped(4))
    ultimately show ?thesis by (simp only: if_True simp_thms) (rule bexI, rule refl)
  qed
qed

lemma eq_new_seq_ok: "seq_ok (eq_new b m)" "pending_in_order (eq_new b m) = []"
  by (simp_all add: seq_ok_def pending_in_order_def eq_new_def Let_def)

text \<open>Adding within the capacity: every event is kept, in the order of the calls.\<close>

definition add_all :: "'q list \<Rightarrow> ('q, 'e) event_queue \<Rightarrow> ('q, 'e) event_queue" where
  "add_all evs q = foldl (\<lambda>q ev. snd (queue_add True ev q)) q evs"

definition roomy :: "nat \<Rightarrow> ('q, 'e) event_queue \<Rightarrow> bool" where
  "roomy n q \<longleftrightarrow> queue_ok q \<and> seq_ok q \<and> eq_pending_count q + n \<le> eq_max_pending_events q \<and>
     unat (eq_next_seq q) + n < 2 ^ 64"

lemma roomy_step:
  assumes "roomy (Suc n) q" "queue_add True ev q = (r, q')"
  shows "roomy n q'" "map snd (pending_in_order q') = map snd (pending_in_order q) @ [ev]" "r \<noteq> NeedsFlushAndDropped 1"
proof -
  have q: "queue_ok q" "seq_ok q" "unat (eq_next_seq q) < 2 ^ 64 - 1" "eq_pending_count q < eq_max_pending_events q"
    using assms(1) by (simp_all add: roomy_def)
  have r: "r \<noteq> NeedsFlushAndDropped 1" and count: "eq_pending_count q' = eq_pending_count q + 1"
    and seq: "eq_next_seq q' = eq_next_seq q + 1"
    using q(4) assms(2) by (auto simp: queue_add_def Let_def split: if_splits)
  show "r \<noteq> NeedsFlushAndDropped 1" by (fact r)
  note order = add_order [OF q(1-3) assms(2)]
  with r show "map snd (pending_in_order q') = map snd (pending_in_order q) @ [ev]" by simp
  show "roomy n q'"
    using order add_conserves(1) [OF q(1) assms(2)] add_frame [OF assms(2)] count seq assms(1) next_seq_unat [OF q(3)]
    by (simp add: roomy_def)
qed

lemma add_all_in_order:
  "roomy (length evs) q \<Longrightarrow> queue_ok (add_all evs q) \<and>
    map snd (pending_in_order (add_all evs q)) = map snd (pending_in_order q) @ evs \<and>
    eq_batches (add_all evs q) = eq_batches q \<and> eq_batch_size (add_all evs q) = eq_batch_size q \<and>
    eq_max_pending_batches (add_all evs q) = eq_max_pending_batches q"
proof (induction evs arbitrary: q)
  case (Cons ev evs)
  obtain r q' where add: "queue_add True ev q = (r, q')" by (cases "queue_add True ev q")
  have step: "add_all (ev # evs) q = add_all evs q'" by (simp add: add_all_def add)
  have "roomy (Suc (length evs)) q" using Cons.prems by simp
  from roomy_step [OF this add] Cons.IH [of q'] add_frame [OF add] show ?case by (simp add: step)
qed (simp add: add_all_def roomy_def)

lemma create_batches_count:
  assumes "create_batches b es = Some bs" "length es \<le> b * m"
  shows "length bs \<le> m"
  using assms
proof (induction m arbitrary: es bs)
  case 0
  then show ?case by (simp add: create_batches.simps)
next
  case (Suc m)
  show ?case
  proof (cases "es = []")
    case False
    let ?rest = "drop (min b (length es)) es"
    obtain bs' where "create_batches b ?rest = Some bs'" "bs = eb_new (take (min b (length es)) es) # bs'"
      using Suc.prems(1) False by (subst (asm) create_batches.simps) (auto simp: Let_def bind_eq_Some_conv)
    moreover from this Suc.IH [of ?rest bs'] Suc.prems(2) have "length bs' \<le> m" by (auto simp: min_def split: if_splits)
    ultimately show ?thesis by simp
  qed (use Suc.prems in \<open>simp add: create_batches.simps\<close>)
qed

lemma clamp_batches_few: "length bs \<le> limit \<Longrightarrow> clamp_batches limit bs = (0, bs)"
  by (cases bs) simp_all

section \<open>Properties\<close>

text \<open>
  C17: no event disappears. In every run of a queue, whatever the interleaving and whatever locks
  time out, as long as no reconcile fails on the lock of the batches: the events added and requeued
  are those the queue still holds, those handed out and those lost, and the number of the lost ones is
  the sum of what the calls reported as dropped. Every run returns.
\<close>

theorem event_queue_conserves:
  assumes "0 < b"
  shows "\<exists>obs q. run_steps (queue_step into) ops (eq_new b m) = Some (obs, q) \<and>
    (list_ex silent_loss obs \<or>
     balanced (sum_list (map (op_input into) ops)) (stored into q + sum_list (map obs_taken obs))
       (sum_list (map obs_dropped obs)))"
proof -
  have ok: "queue_ok (eq_new b m)" using assms by (rule eq_new_ok)
  obtain obs q where run: "run_steps (queue_step into) ops (eq_new b m) = Some (obs, q)"
    using queue.run_returns [OF ok] by blast
  with queue.run_balanced [OF ok run] run_steps_length [OF run] show ?thesis by (auto simp: map2_fst)
qed

theorem event_queue_conserves_witness:
  "\<exists>obs q. run_steps (queue_step (\<lambda>n :: nat. n)) [OpAdd True 1, OpReconcile True True, OpTakeNext True] (eq_new 10 1)
     = Some (obs, q) \<and>
   (list_ex silent_loss obs \<or>
    balanced (sum_list (map (op_input (\<lambda>n :: nat. n)) [OpAdd True 1, OpReconcile True True, OpTakeNext True]))
      (stored (\<lambda>n. n) q + sum_list (map obs_taken obs)) (sum_list (map obs_dropped obs)))"
  by (rule event_queue_conserves) simp

text \<open>
  C19: the queue is bounded. In every state a run reaches, at most sixteen more events are pending
  than the configured capacity, and at most one more batch waits than configured.
\<close>

theorem event_queue_bounded:
  assumes "0 < b" "run_steps (queue_step into) ops (eq_new b m) = Some (obs, q)"
  shows "eq_pending_count q \<le> unat b * unat m + 16 \<and> length (eq_batches q) \<le> unat m + 1 \<and>
    eq_pending_count q = length (concat (eq_pending_shards q))"
proof -
  have ok: "queue_ok (eq_new b m)" using assms(1) by (rule eq_new_ok)
  have "queue_bounded (unat b * unat m) (unat m) (eq_new b m)"
    by (simp add: queue_bounded_def eq_new_def Let_def)
  then have bounded: "queue_bounded (unat b * unat m) (unat m) q"
    by (rule queue.run_invariant [OF ok assms(2)]) (rule queue_step_bounded)
  have "queue_ok q" using queue.run_returns [OF ok, of into ops] assms(2) by simp
  moreover have "used_shards q \<le> length (eq_pending_shards q)" by (simp add: used_shards_def)
  ultimately show ?thesis using bounded by (simp add: queue_bounded_def queue_ok_def)
qed

theorem event_queue_bounded_witness:
  "\<exists>obs q. run_steps (queue_step (\<lambda>n :: nat. n)) [OpAdd True 1] (eq_new 10 1) = Some (obs, q) \<and>
     eq_pending_count q \<le> unat (10 :: u32) * unat (1 :: u32) + 16"
proof -
  have ten: "(0 :: u32) < 10" by simp
  obtain obs q where run: "run_steps (queue_step (\<lambda>n :: nat. n)) [OpAdd True 1] (eq_new 10 1) = Some (obs, q)"
    using queue.run_returns [OF eq_new_ok [OF ten], of "\<lambda>n. n" "[OpAdd True 1]"] by blast
  with event_queue_bounded [OF ten run] show ?thesis by blast
qed



text \<open>
  Cutting events into batches ends exactly when the batch size is positive or there is no event:
  with batch size zero the loop takes nothing out and runs forever.
\<close>

theorem create_batches_terminates_iff:
  "create_batches b es \<noteq> None \<longleftrightarrow> 0 < b \<or> es = []"
proof
  assume "create_batches b es \<noteq> None"
  then show "0 < b \<or> es = []" using create_batches_diverges [of es] by (metis gr_zeroI)
next
  assume "0 < b \<or> es = []"
  then show "create_batches b es \<noteq> None"
  proof
    assume "0 < b"
    with create_batches_total [of b es] show ?thesis by auto
  qed (simp add: create_batches.simps)
qed

end
