(* ===== verification/Queued_Events.thy ===== *)
theory Queued_Events
  imports Exposure_Sampling Api_Types
begin

text \<open>
  Events on their way to the log: the event itself (\<open>src/statsig-rust/src/event_logging/statsig_event.rs\<close>,
  \<open>statsig_event_internal.rs\<close>), the operations that enqueue one and the queued forms they take
  (\<open>event_queue/queued_event.rs\<close> and the \<open>queued_*.rs\<close> beside it).

  An operation tells the sampler what it exposes and becomes a queued event with the decision; the
  queued event becomes the logged one when batches are cut. The clock is an argument.
\<close>

section \<open>Events\<close>

record statsig_event =
  ev_event_name :: string
  ev_value :: "json option"
  ev_metadata :: "(string, json) HashMap option"
  ev_statsig_metadata :: "(string, json) HashMap option"

record statsig_event_internal =
  sv_event_data :: statsig_event
  sv_user :: loggable_user
  sv_time :: u64
  sv_secondary_exposures :: "secondary_exposure list option"

abbreviation GATE_EXPOSURE_EVENT_NAME :: string where "GATE_EXPOSURE_EVENT_NAME \<equiv> ''statsig::gate_exposure''"
abbreviation CONFIG_EXPOSURE_EVENT_NAME :: string where "CONFIG_EXPOSURE_EVENT_NAME \<equiv> ''statsig::config_exposure''"
abbreviation LAYER_EXPOSURE_EVENT_NAME :: string where "LAYER_EXPOSURE_EVENT_NAME \<equiv> ''statsig::layer_exposure''"
abbreviation STATSIG_LOG_LINE_EVENT_NAME :: string where "STATSIG_LOG_LINE_EVENT_NAME \<equiv> ''statsig::log_line''"
abbreviation DIAGNOSTICS_EVENT :: string where "DIAGNOSTICS_EVENT \<equiv> ''statsig::diagnostics''"

definition string_metadata_to_value_metadata :: "(string, string) HashMap \<Rightarrow> (string, json) HashMap" where
  "string_metadata_to_value_metadata m = map (\<lambda>(k, v). (k, JString v)) m"

text \<open>The list without duplicates that the sources build here is not what they return.\<close>

definition secondary_exposure_keys_to_expos :: "secondary_exposure list option \<Rightarrow> secondary_exposure list option" where
  "secondary_exposure_keys_to_expos es = es"

definition sei_new ::
    "u64 \<Rightarrow> loggable_user \<Rightarrow> statsig_event \<Rightarrow> secondary_exposure list option \<Rightarrow> statsig_event_internal" where
  "sei_new time user event secondary_exposures =
     \<lparr>sv_event_data = event, sv_user = user, sv_time = time,
      sv_secondary_exposures = secondary_exposure_keys_to_expos secondary_exposures\<rparr>"

definition new_custom_event_with_typed_metadata ::
    "u64 \<Rightarrow> loggable_user \<Rightarrow> string \<Rightarrow> json option \<Rightarrow> (string, json) HashMap option \<Rightarrow> statsig_event_internal" where
  "new_custom_event_with_typed_metadata now user event_name val metadata =
     sei_new now user \<lparr>ev_event_name = event_name, ev_value = val, ev_metadata = metadata, ev_statsig_metadata = None\<rparr> None"

definition new_custom_event ::
    "u64 \<Rightarrow> loggable_user \<Rightarrow> string \<Rightarrow> json option \<Rightarrow> (string, string) HashMap option \<Rightarrow> statsig_event_internal" where
  "new_custom_event now user event_name val metadata =
     sei_new now user \<lparr>ev_event_name = event_name, ev_value = val,
       ev_metadata = map_option string_metadata_to_value_metadata metadata, ev_statsig_metadata = None\<rparr> None"

definition new_diagnostic_event :: "u64 \<Rightarrow> (string, string) HashMap \<Rightarrow> statsig_event_internal" where
  "new_diagnostic_event now metadata =
     \<lparr>sv_event_data = \<lparr>ev_event_name = DIAGNOSTICS_EVENT, ev_value = None,
        ev_metadata = Some (string_metadata_to_value_metadata metadata), ev_statsig_metadata = None\<rparr>,
      sv_user = loggable_null, sv_time = now, sv_secondary_exposures = None\<rparr>"

text \<open>A map of numbers always serialises.\<close>

definition new_non_exposed_checks_event :: "ext \<Rightarrow> u64 \<Rightarrow> (string, u64) HashMap \<Rightarrow> statsig_event_internal" where
  "new_non_exposed_checks_event x now checks =
     \<lparr>sv_event_data = \<lparr>ev_event_name = ''statsig::non_exposed_checks'', ev_value = None,
        ev_metadata = Some (string_metadata_to_value_metadata
          [(''checks'', x_json_to_string x (JObject (map (\<lambda>(k, n). (k, u64_json n)) checks)))]),
        ev_statsig_metadata = None\<rparr>,
      sv_user = loggable_null, sv_time = now, sv_secondary_exposures = None\<rparr>"

text \<open>The level is given by its status and its debug name, the kind of SDK is an argument.\<close>

definition new_statsig_log_line_event ::
    "string \<Rightarrow> u64 \<Rightarrow> loggable_user \<Rightarrow> string \<times> string \<Rightarrow> string option \<Rightarrow> (string, string) HashMap option \<Rightarrow> u64 option \<Rightarrow>
     statsig_event_internal" where
  "new_statsig_log_line_event sdk_type now user level val metadata timestamp_override =
     (let m = hm_insert ''log_level'' (snd level) (hm_insert ''source'' sdk_type
                (hm_insert ''status'' (fst level) (opt_default [] metadata)))
      in \<lparr>sv_event_data = \<lparr>ev_event_name = STATSIG_LOG_LINE_EVENT_NAME, ev_value = map_option JString val,
            ev_metadata = Some (string_metadata_to_value_metadata m), ev_statsig_metadata = None\<rparr>,
          sv_user = user, sv_time = opt_default now timestamp_override, sv_secondary_exposures = None\<rparr>)"

definition is_exposure_event :: "statsig_event_internal \<Rightarrow> bool" where
  "is_exposure_event e \<longleftrightarrow> ev_event_name (sv_event_data e) = GATE_EXPOSURE_EVENT_NAME \<or>
     ev_event_name (sv_event_data e) = CONFIG_EXPOSURE_EVENT_NAME \<or> ev_event_name (sv_event_data e) = LAYER_EXPOSURE_EVENT_NAME"

definition is_diagnostic_event :: "statsig_event_internal \<Rightarrow> bool" where
  "is_diagnostic_event e \<longleftrightarrow> ev_event_name (sv_event_data e) = DIAGNOSTICS_EVENT"

section \<open>Metadata\<close>

definition u64_to_string :: "'a::len word \<Rightarrow> string" where
  "u64_to_string n = nat_to_string (unat n)"

definition try_add :: "string \<Rightarrow> string option \<Rightarrow> (string, string) HashMap \<Rightarrow> (string, string) HashMap" where
  "try_add key val m = (case val of Some s \<Rightarrow> hm_insert key s m | None \<Rightarrow> m)"

definition get_metadata_with_details :: "evaluation_details \<Rightarrow> (string, string) HashMap" where
  "get_metadata_with_details d =
     try_add ''receivedAt'' (map_option u64_to_string (ed_received_at d))
       (try_add ''lcut'' (map_option u64_to_string (ed_lcut d)) (hm_insert ''reason'' (ed_reason d) []))"

datatype exposure_trigger = Auto | ManualTrigger

definition add_manual :: "exposure_trigger \<Rightarrow> (string, string) HashMap \<Rightarrow> (string, string) HashMap" where
  "add_manual trigger m = (if trigger = ManualTrigger then hm_insert ''isManualExposure'' ''true'' m else m)"

definition exposure_event :: "string \<Rightarrow> (string, string) HashMap \<Rightarrow> evt_sampling_decision \<Rightarrow> statsig_event" where
  "exposure_event event_name m decision =
     \<lparr>ev_event_name = event_name, ev_value = None, ev_metadata = Some (string_metadata_to_value_metadata m),
      ev_statsig_metadata = Some (get_statsig_metadata_with_sampling_decision decision)\<rparr>"

section \<open>Gate exposures\<close>

record enqueue_gate_expo_op =
  go_user :: statsig_user_internal
  go_queried_gate_name :: string
  go_evaluation :: "gate_evaluation option"
  go_details :: evaluation_details
  go_trigger :: exposure_trigger
  go_exposure_time :: u64

record queued_gate_exposure_event =
  qg_user :: loggable_user
  qg_gate_name :: string
  qg_value :: bool
  qg_rule_id :: string
  qg_secondary_exposures :: "secondary_exposure list option"
  qg_evaluation_details :: evaluation_details
  qg_version :: "u32 option"
  qg_exposure_trigger :: exposure_trigger
  qg_sampling_decision :: evt_sampling_decision
  qg_override_config_name :: "string option"
  qg_exposure_time :: u64

text \<open>Borrowed and owned evaluations give the same.\<close>

definition extract_from_cow ::
    "gate_evaluation option \<Rightarrow> string \<times> string \<times> bool \<times> u32 option \<times> string option \<times> secondary_exposure list option" where
  "extract_from_cow moo =
     (case moo of
        None \<Rightarrow> ([], [], False, None, None, None)
      | Some e \<Rightarrow>
          (be_name (ge_base e), be_rule_id (ge_base e), ge_value e, Option.bind (be_exposure_info (ge_base e)) xi_version,
           Option.bind (be_exposure_info (ge_base e)) xi_override_config_name, Some (be_secondary_exposures (ge_base e))))"

definition gate_op_queued :: "enqueue_gate_expo_op \<Rightarrow> evt_sampling_decision \<Rightarrow> queued_gate_exposure_event" where
  "gate_op_queued g decision =
     (let (gate_name, rule_id, val, version, override_config_name, secondary_exposures) = extract_from_cow (go_evaluation g)
      in \<lparr>qg_user = to_loggable (go_user g), qg_gate_name = gate_name, qg_value = val, qg_rule_id = rule_id,
          qg_secondary_exposures = secondary_exposures, qg_evaluation_details = go_details g, qg_version = version,
          qg_exposure_trigger = go_trigger g, qg_sampling_decision = decision,
          qg_override_config_name = override_config_name, qg_exposure_time = go_exposure_time g\<rparr>)"

definition gate_op_exposure :: "ext \<Rightarrow> enqueue_gate_expo_op \<Rightarrow> exposure" where
  "gate_op_exposure x g =
     \<lparr>ex_key = sk_new x (map_option ge_base (go_evaluation g)) (su_data (go_user g))
        (bool_u64 (case go_evaluation g of Some e \<Rightarrow> ge_value e | None \<Rightarrow> False)) (Option.bind (go_evaluation g) ge_id_type),
      ex_rule_id = (case go_evaluation g of Some e \<Rightarrow> be_rule_id (ge_base e) | None \<Rightarrow> []),
      ex_extra_info = Option.bind (go_evaluation g) (\<lambda>e. be_exposure_info (ge_base e))\<rparr>"

definition queued_gate_event :: "queued_gate_exposure_event \<Rightarrow> statsig_event_internal" where
  "queued_gate_event q =
     (let m = get_metadata_with_details (qg_evaluation_details q);
          m = hm_insert ''gate'' (qg_gate_name q) m;
          m = hm_insert ''gateValue'' (bool_to_string (qg_value q)) m;
          m = hm_insert ''ruleID'' (qg_rule_id q) m;
          m = add_manual (qg_exposure_trigger q) m;
          m = try_add ''configVersion'' (map_option u64_to_string (qg_version q)) m;
          m = try_add ''overrideConfigName'' (qg_override_config_name q) m
      in sei_new (qg_exposure_time q) (qg_user q) (exposure_event GATE_EXPOSURE_EVENT_NAME m (qg_sampling_decision q))
           (qg_secondary_exposures q))"

section \<open>Config exposures\<close>

record enqueue_config_expo_op =
  co_op_user :: statsig_user_internal
  co_op_config :: dynamic_config_value
  co_op_trigger :: exposure_trigger
  co_op_exposure_time :: u64

record queued_config_exposure_event =
  qc_user :: loggable_user
  qc_config_name :: string
  qc_rule_id :: string
  qc_rule_passed :: "bool option"
  qc_secondary_exposures :: "secondary_exposure list option"
  qc_evaluation_details :: evaluation_details
  qc_version :: "u32 option"
  qc_exposure_trigger :: exposure_trigger
  qc_sampling_decision :: evt_sampling_decision
  qc_override_config_name :: "string option"
  qc_exposure_time :: u64

definition config_op_queued :: "enqueue_config_expo_op \<Rightarrow> evt_sampling_decision \<Rightarrow> queued_config_exposure_event" where
  "config_op_queued c decision =
     (let config = co_op_config c;
          evaluation = dc_evaluation config;
          info = Option.bind evaluation (\<lambda>e. be_exposure_info (ce_base e))
      in \<lparr>qc_user = to_loggable (co_op_user c), qc_config_name = dc_name config, qc_rule_id = dc_rule_id config,
          qc_rule_passed = map_option ce_passed evaluation,
          qc_secondary_exposures = map_option (\<lambda>e. be_secondary_exposures (ce_base e)) evaluation,
          qc_evaluation_details = dc_details config, qc_version = Option.bind info xi_version,
          qc_exposure_trigger = co_op_trigger c, qc_sampling_decision = decision,
          qc_override_config_name = Option.bind info xi_override_config_name, qc_exposure_time = co_op_exposure_time c\<rparr>)"

definition config_op_exposure :: "ext \<Rightarrow> enqueue_config_expo_op \<Rightarrow> exposure" where
  "config_op_exposure x c =
     (let config = co_op_config c; evaluation = dc_evaluation config
      in \<lparr>ex_key = sk_new x (map_option ce_base evaluation) (su_data (co_op_user c))
            (bool_u64 (case evaluation of Some e \<Rightarrow> ce_passed e | None \<Rightarrow> False)) (Option.bind evaluation ce_id_type),
          ex_rule_id = dc_rule_id config,
          ex_extra_info = Option.bind evaluation (\<lambda>e. be_exposure_info (ce_base e))\<rparr>)"

definition queued_config_event :: "queued_config_exposure_event \<Rightarrow> statsig_event_internal" where
  "queued_config_event q =
     (let m = get_metadata_with_details (qc_evaluation_details q);
          m = hm_insert ''config'' (qc_config_name q) m;
          m = hm_insert ''ruleID'' (qc_rule_id q) m;
          m = try_add ''configVersion'' (map_option u64_to_string (qc_version q)) m;
          m = try_add ''rulePassed'' (map_option bool_to_string (qc_rule_passed q)) m;
          m = add_manual (qc_exposure_trigger q) m;
          m = try_add ''overrideConfigName'' (qc_override_config_name q) m
      in sei_new (qc_exposure_time q) (qc_user q) (exposure_event CONFIG_EXPOSURE_EVENT_NAME m (qc_sampling_decision q))
           (Some (opt_default [] (qc_secondary_exposures q))))"

section \<open>Experiment exposures\<close>

record enqueue_experiment_expo_op =
  xo_user :: statsig_user_internal
  xo_experiment :: experiment_value
  xo_trigger :: exposure_trigger
  xo_exposure_time :: u64

record queued_experiment_exposure_event =
  qx_user :: loggable_user
  qx_experiment_name :: string
  qx_rule_id :: string
  qx_secondary_exposures :: "secondary_exposure list option"
  qx_evaluation_details :: evaluation_details
  qx_version :: "u32 option"
  qx_exposure_trigger :: exposure_trigger
  qx_sampling_decision :: evt_sampling_decision
  qx_override_config_name :: "string option"
  qx_exposure_time :: u64

definition experiment_op_queued :: "enqueue_experiment_expo_op \<Rightarrow> evt_sampling_decision \<Rightarrow> queued_experiment_exposure_event" where
  "experiment_op_queued e decision =
     (let xp = xo_experiment e;
          evaluation = xp_evaluation xp;
          info = Option.bind evaluation (\<lambda>v. be_exposure_info (xe_base v))
      in \<lparr>qx_user = to_loggable (xo_user e), qx_experiment_name = xp_name xp, qx_rule_id = xp_rule_id xp,
          qx_secondary_exposures = map_option (\<lambda>v. be_secondary_exposures (xe_base v)) evaluation,
          qx_evaluation_details = xp_details xp, qx_version = Option.bind info xi_version,
          qx_exposure_trigger = xo_trigger e, qx_sampling_decision = decision,
          qx_override_config_name = Option.bind info xi_override_config_name, qx_exposure_time = xo_exposure_time e\<rparr>)"

definition experiment_op_exposure :: "ext \<Rightarrow> enqueue_experiment_expo_op \<Rightarrow> exposure" where
  "experiment_op_exposure x e =
     (let xp = xo_experiment e; evaluation = xp_evaluation xp
      in \<lparr>ex_key = sk_new x (map_option xe_base evaluation) (su_data (xo_user e))
            (bool_u64 (case evaluation of Some v \<Rightarrow> xe_is_user_in_experiment v = Some True | None \<Rightarrow> False))
            (Some (xp_id_type xp)),
          ex_rule_id = xp_rule_id xp,
          ex_extra_info = Option.bind evaluation (\<lambda>v. be_exposure_info (xe_base v))\<rparr>)"

definition queued_experiment_event :: "queued_experiment_exposure_event \<Rightarrow> statsig_event_internal" where
  "queued_experiment_event q =
     (let m = get_metadata_with_details (qx_evaluation_details q);
          m = hm_insert ''config'' (qx_experiment_name q) m;
          m = hm_insert ''ruleID'' (qx_rule_id q) m;
          m = try_add ''configVersion'' (map_option u64_to_string (qx_version q)) m;
          m = add_manual (qx_exposure_trigger q) m;
          m = try_add ''overrideConfigName'' (qx_override_config_name q) m
      in sei_new (qx_exposure_time q) (qx_user q) (exposure_event CONFIG_EXPOSURE_EVENT_NAME m (qx_sampling_decision q))
           (Some (opt_default [] (qx_secondary_exposures q))))"

section \<open>Layer parameter exposures\<close>

text \<open>Referenced and owned layers give the same.\<close>

record enqueue_layer_param_expo_op =
  lo_exposure_time :: u64
  lo_layer :: layer_value
  lo_parameter_name :: string
  lo_trigger :: exposure_trigger

record queued_layer_param_exposure_event =
  ql_user :: loggable_user
  ql_layer_name :: string
  ql_rule_id :: string
  ql_parameter_name :: string
  ql_secondary_exposures :: "secondary_exposure list option"
  ql_evaluation_details :: evaluation_details
  ql_version :: "u32 option"
  ql_exposure_trigger :: exposure_trigger
  ql_sampling_decision :: evt_sampling_decision
  ql_override_config_name :: "string option"
  ql_is_explicit :: bool
  ql_allocated_experiment :: "string option"
  ql_exposure_time :: u64

definition get_layer_exposure_info :: "layer_value \<Rightarrow> extra_exposure_info option" where
  "get_layer_exposure_info l =
     opt_else (Option.bind (ly_evaluation l) (\<lambda>e. be_exposure_info (le_base e))) (ly_exposure_info l)"

definition extract_exposure_info ::
    "layer_value \<Rightarrow> string \<Rightarrow> bool \<times> string option \<times> secondary_exposure list option \<times> u32 option \<times> string option" where
  "extract_exposure_info l parameter_name =
     (case ly_evaluation l of
        None \<Rightarrow> (False, None, None, None, None)
      | Some e \<Rightarrow>
          (let is_explicit = explicit_contains (le_explicit_parameters e) parameter_name;
               (version, override_config_name) =
                 (case get_layer_exposure_info l of
                    Some i \<Rightarrow> (xi_version i, xi_override_config_name i)
                  | None \<Rightarrow> (ly_version l, None))
           in if is_explicit
              then (True, le_allocated_experiment_name e, Some (be_secondary_exposures (le_base e)), version, override_config_name)
              else (False, None, le_undelegated_secondary_exposures e, version, override_config_name)))"

definition layer_op_rule_id :: "layer_value \<Rightarrow> string \<Rightarrow> string" where
  "layer_op_rule_id l param_name =
     (case ly_parameter_rule_ids l of
        Some rule_ids \<Rightarrow> opt_default (ly_rule_id l) (hm_get rule_ids param_name)
      | None \<Rightarrow> ly_rule_id l)"

definition layer_op_queued :: "enqueue_layer_param_expo_op \<Rightarrow> evt_sampling_decision \<Rightarrow> queued_layer_param_exposure_event" where
  "layer_op_queued op decision =
     (let l = lo_layer op;
          (is_explicit, allocated_experiment, secondary_exposures, version, override_config_name) =
            extract_exposure_info l (lo_parameter_name op)
      in \<lparr>ql_user = ly_user l, ql_layer_name = ly_name l, ql_rule_id = layer_op_rule_id l (lo_parameter_name op),
          ql_parameter_name = lo_parameter_name op, ql_secondary_exposures = secondary_exposures,
          ql_evaluation_details = ly_details l, ql_version = version, ql_exposure_trigger = lo_trigger op,
          ql_sampling_decision = decision, ql_override_config_name = override_config_name, ql_is_explicit = is_explicit,
          ql_allocated_experiment = allocated_experiment, ql_exposure_time = lo_exposure_time op\<rparr>)"

definition layer_op_exposure :: "ext \<Rightarrow> enqueue_layer_param_expo_op \<Rightarrow> exposure" where
  "layer_op_exposure x op =
     (let l = lo_layer op
      in \<lparr>ex_key = sk_new x (map_option le_base (ly_evaluation l)) (lu_data (ly_user l))
            (x_ahash_str x (lo_parameter_name op)) (Option.bind (ly_evaluation l) le_id_type),
          ex_rule_id = ly_rule_id l, ex_extra_info = get_layer_exposure_info l\<rparr>)"

definition queued_layer_event :: "queued_layer_param_exposure_event \<Rightarrow> statsig_event_internal" where
  "queued_layer_event q =
     (let m = get_metadata_with_details (ql_evaluation_details q);
          m = hm_insert ''config'' (ql_layer_name q) m;
          m = hm_insert ''ruleID'' (ql_rule_id q) m;
          m = hm_insert ''allocatedExperiment'' (opt_default [] (ql_allocated_experiment q)) m;
          m = hm_insert ''parameterName'' (ql_parameter_name q) m;
          m = hm_insert ''isExplicitParameter'' (bool_to_string (ql_is_explicit q)) m;
          m = try_add ''configVersion'' (map_option u64_to_string (ql_version q)) m;
          m = add_manual (ql_exposure_trigger q) m;
          m = try_add ''overrideConfigName'' (ql_override_config_name q) m
      in sei_new (ql_exposure_time q) (ql_user q) (exposure_event LAYER_EXPOSURE_EVENT_NAME m (ql_sampling_decision q))
           (Some (opt_default [] (ql_secondary_exposures q))))"

section \<open>Exposures of a result\<close>

datatype user_loggable_or_internal = Loggable loggable_user | Internal statsig_user_internal

record exposure_data =
  xd_event_name :: string
  xd_spec_name :: string
  xd_rule_id :: "string option"
  xd_exposure_time :: u64
  xd_trigger :: exposure_trigger
  xd_evaluation_details :: evaluation_details
  xd_secondary_exposures :: "secondary_exposure list option"
  xd_undelegated_secondary_exposures :: "secondary_exposure list option"
  xd_version :: "u32 option"
  xd_override_spec_name :: "string option"
  xd_exposure_info :: "extra_exposure_info option"
  xd_gate_value :: "bool option"
  xd_rule_passed :: "bool option"
  xd_is_user_in_experiment :: "bool option"
  xd_parameter_name :: "string option"
  xd_explicit_params :: "explicit_parameters option"
  xd_allocated_experiment :: "string option"

record enqueue_exposure_op =
  eo_user :: user_loggable_or_internal
  eo_data :: exposure_data

definition exposure_op_new ::
    "u64 \<Rightarrow> string \<Rightarrow> user_loggable_or_internal \<Rightarrow> string \<Rightarrow> exposure_trigger \<Rightarrow> evaluation_details \<Rightarrow> evaluator_result option \<Rightarrow>
     enqueue_exposure_op" where
  "exposure_op_new now event_name user spec_name trigger details res =
     (let data = \<lparr>xd_event_name = event_name, xd_spec_name = spec_name, xd_rule_id = None, xd_exposure_time = now,
            xd_trigger = trigger, xd_evaluation_details = details, xd_secondary_exposures = None,
            xd_undelegated_secondary_exposures = None, xd_version = None, xd_override_spec_name = None,
            xd_exposure_info = None, xd_gate_value = None, xd_rule_passed = None, xd_is_user_in_experiment = None,
            xd_parameter_name = None, xd_explicit_params = None, xd_allocated_experiment = None\<rparr>
      in \<lparr>eo_user = user,
          eo_data = (case res of
             None \<Rightarrow> data
           | Some r \<Rightarrow> data\<lparr>xd_exposure_info := Some (result_to_extra_exposure_info r), xd_rule_id := er_rule_id r,
               xd_version := er_version r, xd_override_spec_name := er_override_config_name r,
               xd_secondary_exposures := Some (er_secondary_exposures r)\<rparr>)\<rparr>)"

definition gate_exposure ::
    "u64 \<Rightarrow> statsig_user_internal \<Rightarrow> string \<Rightarrow> exposure_trigger \<Rightarrow> evaluation_details \<Rightarrow> evaluator_result option \<Rightarrow>
     enqueue_exposure_op" where
  "gate_exposure now user spec_name trigger details res =
     (let gate_value = (case res of Some r \<Rightarrow> er_bool_value r | None \<Rightarrow> False);
          op = exposure_op_new now GATE_EXPOSURE_EVENT_NAME (Internal user) spec_name trigger details res
      in op\<lparr>eo_data := (eo_data op)\<lparr>xd_gate_value := Some gate_value\<rparr>\<rparr>)"

definition dynamic_config_exposure ::
    "u64 \<Rightarrow> statsig_user_internal \<Rightarrow> string \<Rightarrow> exposure_trigger \<Rightarrow> evaluation_details \<Rightarrow> evaluator_result option \<Rightarrow>
     enqueue_exposure_op" where
  "dynamic_config_exposure now user spec_name trigger details res =
     (let rule_passed = (case res of Some r \<Rightarrow> er_bool_value r | None \<Rightarrow> False);
          op = exposure_op_new now CONFIG_EXPOSURE_EVENT_NAME (Internal user) spec_name trigger details res
      in op\<lparr>eo_data := (eo_data op)\<lparr>xd_rule_passed := Some rule_passed\<rparr>\<rparr>)"

definition experiment_exposure ::
    "u64 \<Rightarrow> statsig_user_internal \<Rightarrow> string \<Rightarrow> exposure_trigger \<Rightarrow> evaluation_details \<Rightarrow> evaluator_result option \<Rightarrow>
     enqueue_exposure_op" where
  "experiment_exposure now user spec_name trigger details res =
     (let in_experiment = (case res of Some r \<Rightarrow> er_is_experiment_group r | None \<Rightarrow> False);
          op = exposure_op_new now CONFIG_EXPOSURE_EVENT_NAME (Internal user) spec_name trigger details res
      in op\<lparr>eo_data := (eo_data op)\<lparr>xd_is_user_in_experiment := Some in_experiment\<rparr>\<rparr>)"

definition layer_param_exposure ::
    "u64 \<Rightarrow> statsig_user_internal \<Rightarrow> string \<Rightarrow> string \<Rightarrow> exposure_trigger \<Rightarrow> evaluation_details \<Rightarrow> evaluator_result option \<Rightarrow>
     enqueue_exposure_op" where
  "layer_param_exposure now user spec_name parameter_name trigger details res =
     (let allocated_experiment = Option.bind res er_config_delegate;
          explicit_params = Option.bind res er_explicit_parameters;
          undelegated = Option.bind res er_undelegated_secondary_exposures;
          res1 = map_option (\<lambda>r. r\<lparr>er_undelegated_secondary_exposures := None\<rparr>) res;
          op = exposure_op_new now LAYER_EXPOSURE_EVENT_NAME (Internal user) spec_name trigger details res1
      in op\<lparr>eo_data := (eo_data op)\<lparr>xd_parameter_name := Some parameter_name, xd_explicit_params := explicit_params,
           xd_allocated_experiment := allocated_experiment, xd_undelegated_secondary_exposures := undelegated\<rparr>\<rparr>)"

definition layer_param_exposure_from_partial_raw ::
    "u64 \<Rightarrow> string \<Rightarrow> exposure_trigger \<Rightarrow> partial_layer_raw \<Rightarrow> enqueue_exposure_op" where
  "layer_param_exposure_from_partial_raw now parameter_name trigger raw =
     \<lparr>eo_user = Loggable (pl_user raw),
      eo_data = \<lparr>xd_event_name = LAYER_EXPOSURE_EVENT_NAME, xd_spec_name = pl_name raw,
        xd_rule_id = opt_else (Option.bind (pl_parameter_rule_ids raw) (\<lambda>ids. hm_get ids parameter_name)) (pl_rule_id raw),
        xd_exposure_time = now, xd_trigger = trigger, xd_evaluation_details = pl_details raw,
        xd_secondary_exposures = pl_secondary_exposures raw,
        xd_undelegated_secondary_exposures = pl_undelegated_secondary_exposures raw,
        xd_version = ed_version (pl_details raw), xd_override_spec_name = None, xd_exposure_info = pl_exposure_info raw,
        xd_gate_value = None, xd_rule_passed = None, xd_is_user_in_experiment = None,
        xd_parameter_name = Some parameter_name, xd_explicit_params = pl_explicit_parameters raw,
        xd_allocated_experiment = pl_allocated_experiment_name raw\<rparr>\<rparr>"

record queued_exposure_event =
  qe_user :: loggable_user
  qe_sampling_decision :: evt_sampling_decision
  qe_data :: exposure_data

definition exposure_op_queued :: "enqueue_exposure_op \<Rightarrow> evt_sampling_decision \<Rightarrow> queued_exposure_event" where
  "exposure_op_queued op decision =
     \<lparr>qe_user = (case eo_user op of Loggable u \<Rightarrow> u | Internal u \<Rightarrow> to_loggable u), qe_sampling_decision = decision,
      qe_data = eo_data op\<rparr>"

definition exposure_op_additional_hash :: "ext \<Rightarrow> exposure_data \<Rightarrow> u64" where
  "exposure_op_additional_hash x d =
     (case xd_gate_value d of
        Some b \<Rightarrow> bool_u64 b
      | None \<Rightarrow>
          (case xd_rule_passed d of
             Some b \<Rightarrow> bool_u64 b
           | None \<Rightarrow>
               (case xd_is_user_in_experiment d of
                  Some b \<Rightarrow> bool_u64 b
                | None \<Rightarrow> opt_interned_hash x (xd_parameter_name d))))"

definition exposure_op_exposure :: "ext \<Rightarrow> enqueue_exposure_op \<Rightarrow> exposure" where
  "exposure_op_exposure x op =
     (let d = eo_data op;
          u = (case eo_user op of Loggable lu \<Rightarrow> lu_data lu | Internal su \<Rightarrow> su_data su)
      in \<lparr>ex_key = \<lparr>sk_spec_name_hash = interned_hash x (xd_spec_name d), sk_rule_id_hash = opt_interned_hash x (xd_rule_id d),
            sk_user_values_hash = create_exposure_dedupe_user_hash x u None,
            sk_additional_hash = exposure_op_additional_hash x d\<rparr>,
          ex_rule_id = opt_default [] (xd_rule_id d), ex_extra_info = xd_exposure_info d\<rparr>)"

definition should_use_undelegated_secondary_exposures :: "exposure_data \<Rightarrow> bool" where
  "should_use_undelegated_secondary_exposures d =
     (if xd_event_name d \<noteq> LAYER_EXPOSURE_EVENT_NAME then False
      else case xd_parameter_name d of
          None \<Rightarrow> False
        | Some p \<Rightarrow> \<not> (case xd_explicit_params d of Some ps \<Rightarrow> explicit_contains ps p | None \<Rightarrow> False))"

definition try_add_gate_fields :: "exposure_data \<Rightarrow> (string, string) HashMap \<Rightarrow> (string, string) HashMap" where
  "try_add_gate_fields d m =
     (if xd_event_name d \<noteq> GATE_EXPOSURE_EVENT_NAME then m
      else hm_insert ''gateValue'' (bool_to_string (xd_gate_value d = Some True)) (hm_insert ''gate'' (xd_spec_name d) m))"

definition try_add_config_fields :: "exposure_data \<Rightarrow> (string, string) HashMap \<Rightarrow> (string, string) HashMap" where
  "try_add_config_fields d m =
     (if xd_event_name d \<noteq> CONFIG_EXPOSURE_EVENT_NAME then m
      else try_add ''rulePassed'' (map_option bool_to_string (xd_rule_passed d)) (hm_insert ''config'' (xd_spec_name d) m))"

text \<open>Also whether the undelegated exposures are to be used.\<close>

definition try_add_layer_fields :: "exposure_data \<Rightarrow> (string, string) HashMap \<Rightarrow> (string, string) HashMap \<times> bool" where
  "try_add_layer_fields d m =
     (if xd_event_name d \<noteq> LAYER_EXPOSURE_EVENT_NAME then (m, False)
      else
        (let param_name = opt_default [] (xd_parameter_name d);
             is_explicit = (case xd_explicit_params d of Some ps \<Rightarrow> explicit_contains ps param_name | None \<Rightarrow> False);
             m = hm_insert ''config'' (xd_spec_name d) m;
             m = hm_insert ''parameterName'' param_name m;
             m = hm_insert ''isExplicitParameter'' (bool_to_string is_explicit) m
         in if is_explicit then (hm_insert ''allocatedExperiment'' (opt_default [] (xd_allocated_experiment d)) m, False)
            else (hm_insert ''allocatedExperiment'' [] m, True)))"

definition add_eval_details :: "evaluation_details \<Rightarrow> (string, string) HashMap \<Rightarrow> (string, string) HashMap" where
  "add_eval_details ed m =
     try_add ''receivedAt'' (map_option u64_to_string (ed_received_at ed))
       (try_add ''lcut'' (map_option u64_to_string (ed_lcut ed)) (hm_insert ''reason'' (ed_reason ed) m))"

definition queued_exposure_to_event :: "queued_exposure_event \<Rightarrow> statsig_event_internal" where
  "queued_exposure_to_event q =
     (let d = qe_data q;
          m = try_add_gate_fields d [];
          m = try_add_config_fields d m;
          (m, undelegated) = try_add_layer_fields d m;
          m = add_eval_details (xd_evaluation_details d) m;
          m = hm_insert ''ruleID'' (opt_default [] (xd_rule_id d)) m;
          m = try_add ''configVersion'' (map_option u64_to_string (xd_version d)) m;
          m = add_manual (xd_trigger d) m;
          m = try_add ''overrideConfigName'' (xd_override_spec_name d) m
      in sei_new (xd_exposure_time d) (qe_user q) (exposure_event (xd_event_name d) m (qe_sampling_decision q))
           (if undelegated then xd_undelegated_secondary_exposures d else xd_secondary_exposures d))"

section \<open>Secondary exposures logged on their own\<close>

record enqueue_secondary_op =
  so_user :: loggable_user
  so_secondary_exposure :: secondary_exposure
  so_exposure_time :: u64

record queued_secondary_event =
  qs_user :: loggable_user
  qs_secondary_exposure :: secondary_exposure
  qs_exposure_time :: u64
  qs_sampling_decision :: evt_sampling_decision

definition secondary_op_queued :: "enqueue_secondary_op \<Rightarrow> evt_sampling_decision \<Rightarrow> queued_secondary_event" where
  "secondary_op_queued op decision =
     \<lparr>qs_user = so_user op, qs_secondary_exposure = so_secondary_exposure op, qs_exposure_time = so_exposure_time op,
      qs_sampling_decision = decision\<rparr>"

definition secondary_op_exposure :: "ext \<Rightarrow> enqueue_secondary_op \<Rightarrow> exposure" where
  "secondary_op_exposure x op =
     (let e = so_secondary_exposure op
      in \<lparr>ex_key = \<lparr>sk_spec_name_hash = interned_hash x (se_gate e), sk_rule_id_hash = interned_hash x (se_rule_id e),
            sk_user_values_hash = create_exposure_dedupe_user_hash x (lu_data (so_user op)) None,
            sk_additional_hash = bool_u64 (se_gate_value e = ''true'')\<rparr>,
          ex_rule_id = se_rule_id e, ex_extra_info = None\<rparr>)"

definition queued_secondary_to_event :: "queued_secondary_event \<Rightarrow> statsig_event_internal" where
  "queued_secondary_to_event q =
     (let e = qs_secondary_exposure q
      in sei_new (qs_exposure_time q) (qs_user q)
           (exposure_event GATE_EXPOSURE_EVENT_NAME
             [(''gate'', se_gate e), (''gateValue'', se_gate_value e), (''ruleID'', se_rule_id e)] (qs_sampling_decision q))
           (Some []))"

section \<open>Operations and queued events\<close>

datatype enqueue_operation =
    EnqueueExposure enqueue_exposure_op
  | EnqueuePassthrough statsig_event_internal
  | EnqueueGateExpo enqueue_gate_expo_op
  | EnqueueConfigExpo enqueue_config_expo_op
  | EnqueueExperimentExpo enqueue_experiment_expo_op
  | EnqueueLayerParamExpo enqueue_layer_param_expo_op
  | EnqueueSecondary enqueue_secondary_op

datatype queued_event =
    QExposure queued_exposure_event
  | QPassthrough statsig_event_internal
  | QGateExposure queued_gate_exposure_event
  | QConfigExposure queued_config_exposure_event
  | QExperimentExposure queued_experiment_exposure_event
  | QLayerParamExposure queued_layer_param_exposure_event
  | QSecondaryExposureAsPrimary queued_secondary_event

fun as_exposure :: "ext \<Rightarrow> enqueue_operation \<Rightarrow> exposure option" where
  "as_exposure x (EnqueueExposure op) = Some (exposure_op_exposure x op)"
| "as_exposure x (EnqueuePassthrough e) = None"
| "as_exposure x (EnqueueGateExpo op) = Some (gate_op_exposure x op)"
| "as_exposure x (EnqueueConfigExpo op) = Some (config_op_exposure x op)"
| "as_exposure x (EnqueueExperimentExpo op) = Some (experiment_op_exposure x op)"
| "as_exposure x (EnqueueLayerParamExpo op) = Some (layer_op_exposure x op)"
| "as_exposure x (EnqueueSecondary op) = Some (secondary_op_exposure x op)"

fun into_queued_event :: "enqueue_operation \<Rightarrow> evt_sampling_decision \<Rightarrow> queued_event" where
  "into_queued_event (EnqueueExposure op) d = QExposure (exposure_op_queued op d)"
| "into_queued_event (EnqueuePassthrough e) d = QPassthrough e"
| "into_queued_event (EnqueueGateExpo op) d = QGateExposure (gate_op_queued op d)"
| "into_queued_event (EnqueueConfigExpo op) d = QConfigExposure (config_op_queued op d)"
| "into_queued_event (EnqueueExperimentExpo op) d = QExperimentExposure (experiment_op_queued op d)"
| "into_queued_event (EnqueueLayerParamExpo op) d = QLayerParamExposure (layer_op_queued op d)"
| "into_queued_event (EnqueueSecondary op) d = QSecondaryExposureAsPrimary (secondary_op_queued op d)"

fun into_statsig_event_internal :: "queued_event \<Rightarrow> statsig_event_internal" where
  "into_statsig_event_internal (QExposure e) = queued_exposure_to_event e"
| "into_statsig_event_internal (QPassthrough e) = e"
| "into_statsig_event_internal (QGateExposure e) = queued_gate_event e"
| "into_statsig_event_internal (QConfigExposure e) = queued_config_event e"
| "into_statsig_event_internal (QExperimentExposure e) = queued_experiment_event e"
| "into_statsig_event_internal (QLayerParamExposure e) = queued_layer_event e"
| "into_statsig_event_internal (QSecondaryExposureAsPrimary e) = queued_secondary_to_event e"

fun exposure_time :: "queued_event \<Rightarrow> u64 option" where
  "exposure_time (QExposure e) = Some (xd_exposure_time (qe_data e))"
| "exposure_time (QGateExposure e) = Some (qg_exposure_time e)"
| "exposure_time (QConfigExposure e) = Some (qc_exposure_time e)"
| "exposure_time (QExperimentExposure e) = Some (qx_exposure_time e)"
| "exposure_time (QLayerParamExposure e) = Some (ql_exposure_time e)"
| "exposure_time (QSecondaryExposureAsPrimary e) = Some (qs_exposure_time e)"
| "exposure_time (QPassthrough e) = None"

fun user_for_secondary_exposures :: "queued_event \<Rightarrow> loggable_user option" where
  "user_for_secondary_exposures (QExposure e) = Some (qe_user e)"
| "user_for_secondary_exposures (QGateExposure e) = Some (qg_user e)"
| "user_for_secondary_exposures (QConfigExposure e) = Some (qc_user e)"
| "user_for_secondary_exposures (QExperimentExposure e) = Some (qx_user e)"
| "user_for_secondary_exposures (QLayerParamExposure e) = Some (ql_user e)"
| "user_for_secondary_exposures (QSecondaryExposureAsPrimary e) = Some (qs_user e)"
| "user_for_secondary_exposures (QPassthrough e) = None"

text \<open>What is taken, and what is left in its place.\<close>

fun take_non_empty_secondary_exposures ::
    "secondary_exposure list option \<Rightarrow> secondary_exposure list \<times> secondary_exposure list option" where
  "take_non_empty_secondary_exposures None = ([], None)"
| "take_non_empty_secondary_exposures (Some es) = (es, Some [])"

fun take_secondary_exposures_for_primary_logging :: "queued_event \<Rightarrow> secondary_exposure list \<times> queued_event" where
  "take_secondary_exposures_for_primary_logging (QExposure e) =
     (if should_use_undelegated_secondary_exposures (qe_data e)
      then (let (es, rest) = take_non_empty_secondary_exposures (xd_undelegated_secondary_exposures (qe_data e))
            in (es, QExposure (e\<lparr>qe_data := (qe_data e)\<lparr>xd_undelegated_secondary_exposures := rest\<rparr>\<rparr>)))
      else (let (es, rest) = take_non_empty_secondary_exposures (xd_secondary_exposures (qe_data e))
            in (es, QExposure (e\<lparr>qe_data := (qe_data e)\<lparr>xd_secondary_exposures := rest\<rparr>\<rparr>))))"
| "take_secondary_exposures_for_primary_logging (QGateExposure e) =
     (let (es, rest) = take_non_empty_secondary_exposures (qg_secondary_exposures e)
      in (es, QGateExposure (e\<lparr>qg_secondary_exposures := rest\<rparr>)))"
| "take_secondary_exposures_for_primary_logging (QConfigExposure e) =
     (let (es, rest) = take_non_empty_secondary_exposures (qc_secondary_exposures e)
      in (es, QConfigExposure (e\<lparr>qc_secondary_exposures := rest\<rparr>)))"
| "take_secondary_exposures_for_primary_logging (QExperimentExposure e) =
     (let (es, rest) = take_non_empty_secondary_exposures (qx_secondary_exposures e)
      in (es, QExperimentExposure (e\<lparr>qx_secondary_exposures := rest\<rparr>)))"
| "take_secondary_exposures_for_primary_logging (QLayerParamExposure e) =
     (let (es, rest) = take_non_empty_secondary_exposures (ql_secondary_exposures e)
      in (es, QLayerParamExposure (e\<lparr>ql_secondary_exposures := rest\<rparr>)))"
| "take_secondary_exposures_for_primary_logging (QPassthrough e) = ([], QPassthrough e)"
| "take_secondary_exposures_for_primary_logging (QSecondaryExposureAsPrimary e) = ([], QSecondaryExposureAsPrimary e)"

section \<open>Properties\<close>

lemma hm_get_try_add [simp]:
  "hm_get (try_add key v m) k = (if k = key then opt_else v (hm_get m k) else hm_get m k)"
  by (simp add: try_add_def opt_else_def split: option.splits)

lemma hm_get_add_manual [simp]:
  "hm_get (add_manual tr m) k = (if k = ''isManualExposure'' \<and> tr = ManualTrigger then Some ''true'' else hm_get m k)"
  by (simp add: add_manual_def)

lemma hm_get_value_metadata [simp]:
  "hm_get (string_metadata_to_value_metadata m) k = map_option JString (hm_get m k)"
  by (induction m) (auto simp: string_metadata_to_value_metadata_def hm_get_Cons)

text \<open>The exposures an event carries, and the event without them.\<close>

definition carried :: "statsig_event_internal \<Rightarrow> secondary_exposure list" where
  "carried e = opt_default [] (sv_secondary_exposures e)"

definition bare :: "statsig_event_internal \<Rightarrow> statsig_event_internal" where
  "bare e = e\<lparr>sv_secondary_exposures := None\<rparr>"

text \<open>An exposure of a layer names its parameter, as every constructor of one sees to.\<close>

fun names_parameter :: "queued_event \<Rightarrow> bool" where
  "names_parameter (QExposure e) \<longleftrightarrow> xd_event_name (qe_data e) \<noteq> LAYER_EXPOSURE_EVENT_NAME \<or> xd_parameter_name (qe_data e) \<noteq> None"
| "names_parameter _ \<longleftrightarrow> True"

lemma take_non_empty_conserves:
  "take_non_empty_secondary_exposures v = (es, rest) \<Longrightarrow> opt_default [] v = es \<and> opt_default [] rest = []"
  by (cases v) auto

lemma layer_fields_undelegated:
  "names_parameter (QExposure e) \<Longrightarrow>
   snd (try_add_layer_fields (qe_data e) m) = should_use_undelegated_secondary_exposures (qe_data e)"
  by (auto simp: try_add_layer_fields_def should_use_undelegated_secondary_exposures_def Let_def split: option.splits)

lemma layer_fields_ignore_exposures:
  "try_add_layer_fields (d\<lparr>xd_undelegated_secondary_exposures := v\<rparr>) m = try_add_layer_fields d m"
  "try_add_layer_fields (d\<lparr>xd_secondary_exposures := v\<rparr>) m = try_add_layer_fields d m"
  by (simp_all add: try_add_layer_fields_def Let_def)

lemma undelegated_ignores_exposures [simp]:
  "should_use_undelegated_secondary_exposures (d\<lparr>xd_undelegated_secondary_exposures := v\<rparr>) = should_use_undelegated_secondary_exposures d"
  "should_use_undelegated_secondary_exposures (d\<lparr>xd_secondary_exposures := v\<rparr>) = should_use_undelegated_secondary_exposures d"
  by (simp_all add: should_use_undelegated_secondary_exposures_def split: option.splits)

lemma carried_exposure:
  assumes "names_parameter (QExposure e)"
  shows "carried (queued_exposure_to_event e) =
    opt_default [] (if should_use_undelegated_secondary_exposures (qe_data e) then xd_undelegated_secondary_exposures (qe_data e)
      else xd_secondary_exposures (qe_data e))"
  using layer_fields_undelegated [OF assms]
  by (simp add: queued_exposure_to_event_def carried_def sei_new_def secondary_exposure_keys_to_expos_def Let_def split_def)

lemma bare_exposure:
  "bare (queued_exposure_to_event (e\<lparr>qe_data := (qe_data e)\<lparr>xd_undelegated_secondary_exposures := v\<rparr>\<rparr>)) = bare (queued_exposure_to_event e)"
  "bare (queued_exposure_to_event (e\<lparr>qe_data := (qe_data e)\<lparr>xd_secondary_exposures := v\<rparr>\<rparr>)) = bare (queued_exposure_to_event e)"
  by (simp_all add: queued_exposure_to_event_def bare_def sei_new_def Let_def split_def layer_fields_ignore_exposures
      try_add_gate_fields_def try_add_config_fields_def)

lemmas queued_event_defs = queued_gate_event_def queued_config_event_def queued_experiment_event_def queued_layer_event_def
  sei_new_def secondary_exposure_keys_to_expos_def carried_def bare_def Let_def

text \<open>
  Logging secondary exposures on their own neither loses nor doubles one. What is taken out of a
  queued event is exactly what the event would have carried; the event left carries none of it and is
  otherwise unchanged. An event from which nothing can be taken keeps what it has.
\<close>

theorem secondary_exposures_moved_once:
  assumes "take_secondary_exposures_for_primary_logging q = (es, q')" "names_parameter q"
  shows "es @ carried (into_statsig_event_internal q') = carried (into_statsig_event_internal q) \<and>
    (es = [] \<or> carried (into_statsig_event_internal q') = []) \<and>
    bare (into_statsig_event_internal q') = bare (into_statsig_event_internal q)"
proof (cases q)
  case (QExposure e)
  let ?d = "qe_data e"
  show ?thesis
  proof (cases "should_use_undelegated_secondary_exposures ?d")
    case True
    then obtain rest where rest: "take_non_empty_secondary_exposures (xd_undelegated_secondary_exposures ?d) = (es, rest)"
        "q' = QExposure (e\<lparr>qe_data := ?d\<lparr>xd_undelegated_secondary_exposures := rest\<rparr>\<rparr>)"
      using assms(1) QExposure by (auto simp: Let_def split: prod.splits)
    then show ?thesis using rest QExposure True assms(2) take_non_empty_conserves [OF rest(1)]
      by (simp add: carried_exposure bare_exposure)
  next
    case False
    then obtain rest where rest: "take_non_empty_secondary_exposures (xd_secondary_exposures ?d) = (es, rest)"
        "q' = QExposure (e\<lparr>qe_data := ?d\<lparr>xd_secondary_exposures := rest\<rparr>\<rparr>)"
      using assms(1) QExposure by (auto simp: Let_def split: prod.splits)
    then show ?thesis using rest QExposure False assms(2) take_non_empty_conserves [OF rest(1)]
      by (simp add: carried_exposure bare_exposure)
  qed
qed (use assms(1) in \<open>auto simp: queued_event_defs dest!: take_non_empty_conserves split: prod.splits\<close>)

definition sample_user :: statsig_user_internal where
  "sample_user = \<lparr>su_data = ud_default, su_statsig = None\<rparr>"

definition sample_details :: evaluation_details where
  "sample_details = details_recognized SrcNetwork 7 None er_default"

definition sample_result :: evaluator_result where
  "sample_result = er_default\<lparr>er_rule_id := Some ''r1'', er_bool_value := True,
     er_secondary_exposures := [\<lparr>se_gate = ''g'', se_gate_value = ''true'', se_rule_id = ''r''\<rparr>]\<rparr>"

theorem secondary_exposures_moved_once_witness:
  "let q = into_queued_event (EnqueueExposure (gate_exposure 5 sample_user ''gate'' Auto sample_details (Some sample_result))) ForceSampled;
       (es, q') = take_secondary_exposures_for_primary_logging q
   in length es = 1 \<and> carried (into_statsig_event_internal q') = []"
proof -
  let ?q = "into_queued_event (EnqueueExposure (gate_exposure 5 sample_user ''gate'' Auto sample_details (Some sample_result))) ForceSampled"
  obtain es q' where take: "take_secondary_exposures_for_primary_logging ?q = (es, q')"
    by (cases "take_secondary_exposures_for_primary_logging ?q")
  have "names_parameter ?q" by (simp add: exposure_op_queued_def gate_exposure_def exposure_op_new_def sample_result_def)
  from secondary_exposures_moved_once [OF take this] have "carried (into_statsig_event_internal q') = [] \<or> es = []" by blast
  moreover have "length es = 1"
    using take by (auto simp: exposure_op_queued_def gate_exposure_def exposure_op_new_def sample_result_def
        should_use_undelegated_secondary_exposures_def)
  ultimately show ?thesis using take by auto
qed

text \<open>
  A gate checked through the native interface and the same gate exposed by its result are logged
  alike: the same event name, time, user and exposures, and the same metadata under every key. This
  needs a rule id without suffix, since the exposure by result leaves the suffix out.
\<close>

theorem gate_exposure_paths_agree:
  assumes "er_rule_id_suffix r = None"
    and "e1 = into_statsig_event_internal (into_queued_event (EnqueueGateExpo
      \<lparr>go_user = u, go_queried_gate_name = n, go_evaluation = Some (fst (result_to_gate_eval n r)), go_details = d,
       go_trigger = tr, go_exposure_time = now\<rparr>) dec)"
    and "e2 = into_statsig_event_internal (into_queued_event (EnqueueExposure (gate_exposure now u n tr d (Some r))) dec)"
  shows "sv_user e1 = sv_user e2 \<and> sv_time e1 = sv_time e2 \<and> carried e1 = carried e2 \<and>
    ev_event_name (sv_event_data e1) = ev_event_name (sv_event_data e2) \<and>
    ev_statsig_metadata (sv_event_data e1) = ev_statsig_metadata (sv_event_data e2) \<and>
    (\<exists>m1 m2. ev_metadata (sv_event_data e1) = Some m1 \<and> ev_metadata (sv_event_data e2) = Some m2 \<and> hm_get m1 = hm_get m2)"
  unfolding assms(2,3)
  using assms(1)
  by (auto simp: fun_eq_iff queued_event_defs gate_op_queued_def extract_from_cow_def exposure_event_def gate_exposure_def
      exposure_op_new_def exposure_op_queued_def queued_exposure_to_event_def try_add_gate_fields_def try_add_config_fields_def
      try_add_layer_fields_def get_metadata_with_details_def add_eval_details_def result_to_gate_eval_def result_to_base_eval_def
      result_to_extra_exposure_info_def create_suffixed_rule_id_def get_exposure_name_if_not_hashed_def opt_default_def)

theorem gate_exposure_paths_agree_witness:
  "carried (into_statsig_event_internal (into_queued_event (EnqueueGateExpo
      \<lparr>go_user = sample_user, go_queried_gate_name = ''gate'', go_evaluation = Some (fst (result_to_gate_eval ''gate'' sample_result)),
       go_details = sample_details, go_trigger = Auto, go_exposure_time = 5\<rparr>) ForceSampled)) =
   carried (into_statsig_event_internal (into_queued_event (EnqueueExposure
      (gate_exposure 5 sample_user ''gate'' Auto sample_details (Some sample_result))) ForceSampled))"
  using gate_exposure_paths_agree [OF _ refl refl, of sample_result] by (simp add: sample_result_def er_default_def)

end
