(* ===== verification/Flush_Interval.thy ===== *)
theory Flush_Interval
  imports Prelude
begin

text \<open>
  The interval between scheduled flushes of the event logger, which backs off after failures and
  recovers after successes: \<open>src/statsig-rust/src/event_logging/flush_interval.rs\<close>, with the constants of
  \<open>event_logger_constants.rs\<close>, which the environment can override, and the kinds of flush of
  \<open>flush_type.rs\<close>. The clock is an argument; times and intervals are words of 64 bits and wrap as they do in
  a release build.
\<close>

section \<open>Constants\<close>

type_synonym env_vars = "string \<Rightarrow> string option"

abbreviation TICK_INTERVAL_MS :: u64 where "TICK_INTERVAL_MS \<equiv> 1000"
abbreviation MIN_FLUSH_INTERVAL_MS :: u64 where "MIN_FLUSH_INTERVAL_MS \<equiv> 1000"
abbreviation MAX_LOG_EVENT_RETRIES :: u8 where "MAX_LOG_EVENT_RETRIES \<equiv> 5"
abbreviation MAX_FLUSH_INTERVAL_MS :: u64 where "MAX_FLUSH_INTERVAL_MS \<equiv> 60000"

definition env_u64 :: "env_vars \<Rightarrow> string \<Rightarrow> u64 \<Rightarrow> u64" where
  "env_u64 env var deflt =
     (let env_var = (case env var of Some s \<Rightarrow> s | None \<Rightarrow> [])
      in if env_var = [] then deflt
         else case parse_uint (2 ^ 64 - 1) env_var of Some n \<Rightarrow> of_nat n | None \<Rightarrow> deflt)"

definition tick_interval_ms :: "env_vars \<Rightarrow> u64" where
  "tick_interval_ms env = env_u64 env ''STATSIG_TEST_OVERRIDE_TICK_INTERVAL_MS'' TICK_INTERVAL_MS"

definition min_flush_interval_ms :: "env_vars \<Rightarrow> u64" where
  "min_flush_interval_ms env = env_u64 env ''STATSIG_TEST_OVERRIDE_MIN_FLUSH_INTERVAL_MS'' MIN_FLUSH_INTERVAL_MS"

definition max_flush_interval_ms :: "env_vars \<Rightarrow> u64" where
  "max_flush_interval_ms env = env_u64 env ''STATSIG_TEST_OVERRIDE_MAX_FLUSH_INTERVAL_MS'' MAX_FLUSH_INTERVAL_MS"

definition max_log_event_retries :: "env_vars \<Rightarrow> u8" where
  "max_log_event_retries env =
     (let env_var = (case env ''STATSIG_TEST_OVERRIDE_MAX_LOG_EVENT_RETRIES'' of Some s \<Rightarrow> s | None \<Rightarrow> [])
      in if env_var = [] then MAX_LOG_EVENT_RETRIES
         else case parse_uint 255 env_var of Some n \<Rightarrow> of_nat n | None \<Rightarrow> MAX_LOG_EVENT_RETRIES)"

section \<open>Kinds of flush\<close>

datatype flush_type = ScheduledMaxTime | ScheduledFullBatch | FlushLimit | FlushManual | FlushShutdown

fun flush_type_to_string :: "flush_type \<Rightarrow> string" where
  "flush_type_to_string ScheduledMaxTime = ''scheduled:max_time''"
| "flush_type_to_string ScheduledFullBatch = ''scheduled:full_batch''"
| "flush_type_to_string FlushLimit = ''limit''"
| "flush_type_to_string FlushManual = ''manual''"
| "flush_type_to_string FlushShutdown = ''shutdown''"

section \<open>The interval\<close>

record flush_interval =
  fi_current_flush_interval_ms :: u64
  fi_last_scheduled_flush_attempt_time :: u64

definition fi_new :: "env_vars \<Rightarrow> u64 \<Rightarrow> flush_interval" where
  "fi_new env now =
     \<lparr>fi_current_flush_interval_ms = min_flush_interval_ms env, fi_last_scheduled_flush_attempt_time = now\<rparr>"

definition get_current_flush_interval_ms :: "flush_interval \<Rightarrow> u64" where
  "get_current_flush_interval_ms f = fi_current_flush_interval_ms f"

definition mark_scheduled_flush_attempt :: "u64 \<Rightarrow> flush_interval \<Rightarrow> flush_interval" where
  "mark_scheduled_flush_attempt now f = f\<lparr>fi_last_scheduled_flush_attempt_time := now\<rparr>"

definition adjust_for_success :: "env_vars \<Rightarrow> flush_interval \<Rightarrow> flush_interval" where
  "adjust_for_success env f =
     (let current = fi_current_flush_interval_ms f;
          min_interval = min_flush_interval_ms env;
          adjusted = max (current div 2) min_interval
      in if current = min_interval then f else f\<lparr>fi_current_flush_interval_ms := adjusted\<rparr>)"

definition adjust_for_failure :: "env_vars \<Rightarrow> flush_interval \<Rightarrow> flush_interval" where
  "adjust_for_failure env f =
     (let current = fi_current_flush_interval_ms f;
          adjusted = min (current * 2) (max_flush_interval_ms env)
      in f\<lparr>fi_current_flush_interval_ms := adjusted\<rparr>)"

definition has_cooled_from_most_recent_failure :: "u64 \<Rightarrow> flush_interval \<Rightarrow> bool" where
  "has_cooled_from_most_recent_failure now f \<longleftrightarrow>
     fi_last_scheduled_flush_attempt_time f + fi_current_flush_interval_ms f < now"

definition has_waited_max_allowed_interval :: "env_vars \<Rightarrow> u64 \<Rightarrow> flush_interval \<Rightarrow> bool" where
  "has_waited_max_allowed_interval env now f \<longleftrightarrow>
     fi_last_scheduled_flush_attempt_time f + max_flush_interval_ms env < now"

definition has_completely_recovered_from_backoff :: "env_vars \<Rightarrow> flush_interval \<Rightarrow> bool" where
  "has_completely_recovered_from_backoff env f \<longleftrightarrow> fi_current_flush_interval_ms f \<le> min_flush_interval_ms env"

section \<open>Backing off and recovering\<close>

text \<open>The settings under which the arithmetic does not wrap.\<close>

definition sane_interval_bounds :: "env_vars \<Rightarrow> bool" where
  "sane_interval_bounds env \<longleftrightarrow> 0 < min_flush_interval_ms env \<and> min_flush_interval_ms env \<le> max_flush_interval_ms env \<and>
     unat (max_flush_interval_ms env) < 2 ^ 63"

definition interval_in_range :: "env_vars \<Rightarrow> flush_interval \<Rightarrow> bool" where
  "interval_in_range env f \<longleftrightarrow> min_flush_interval_ms env \<le> fi_current_flush_interval_ms f \<and>
     fi_current_flush_interval_ms f \<le> max_flush_interval_ms env"

lemma unat_double: "unat (w :: u64) < 2 ^ 63 \<Longrightarrow> unat (w * 2) = 2 * unat w"
  by (simp add: unat_word_ariths)

lemma unat_half: "unat ((w :: u64) div 2) = unat w div 2"
  by (simp add: unat_div)

lemma unat_max_u64: "unat (max a b :: u64) = max (unat a) (unat b)"
  by (simp add: max_def word_le_nat_alt)

lemma unat_min_u64: "unat (min a b :: u64) = min (unat a) (unat b)"
  by (simp add: min_def word_le_nat_alt)

lemmas interval_arith = unat_double unat_half unat_max_u64 unat_min_u64 word_le_nat_alt word_less_nat_alt

lemma adjust_for_success_unat:
  assumes "interval_in_range env f"
  shows "unat (fi_current_flush_interval_ms (adjust_for_success env f)) =
    max (unat (fi_current_flush_interval_ms f) div 2) (unat (min_flush_interval_ms env))"
  using assms by (auto simp: adjust_for_success_def Let_def interval_arith interval_in_range_def)

lemma adjust_for_failure_unat:
  assumes "sane_interval_bounds env" "interval_in_range env f"
  shows "unat (fi_current_flush_interval_ms (adjust_for_failure env f)) =
    min (2 * unat (fi_current_flush_interval_ms f)) (unat (max_flush_interval_ms env))"
  using assms by (simp add: adjust_for_failure_def Let_def interval_arith sane_interval_bounds_def interval_in_range_def)

text \<open>What a flush does to the interval: an adjustment, or the mark of a scheduled attempt.\<close>

datatype interval_op = Succeeded | Failed | Attempted u64

fun interval_step :: "env_vars \<Rightarrow> interval_op \<Rightarrow> flush_interval \<Rightarrow> flush_interval" where
  "interval_step env Succeeded f = adjust_for_success env f"
| "interval_step env Failed f = adjust_for_failure env f"
| "interval_step env (Attempted now) f = mark_scheduled_flush_attempt now f"

lemma interval_step_in_range:
  assumes "sane_interval_bounds env" "interval_in_range env f"
  shows "interval_in_range env (interval_step env a f)"
proof (cases a)
  case Succeeded
  then show ?thesis using assms adjust_for_success_unat [OF assms(2)]
    by (auto simp: interval_in_range_def word_le_nat_alt sane_interval_bounds_def)
next
  case Failed
  then show ?thesis using assms adjust_for_failure_unat [OF assms]
    by (auto simp: interval_in_range_def word_le_nat_alt sane_interval_bounds_def)
next
  case (Attempted now)
  then show ?thesis using assms(2) by (simp add: interval_in_range_def mark_scheduled_flush_attempt_def)
qed

lemma interval_run_in_range:
  assumes "sane_interval_bounds env" "interval_in_range env f"
  shows "interval_in_range env (fold (interval_step env) ops f)"
  using assms by (induction ops arbitrary: f) (simp_all add: interval_step_in_range)

lemma fi_new_in_range: "sane_interval_bounds env \<Longrightarrow> interval_in_range env (fi_new env now)"
  by (simp add: fi_new_def interval_in_range_def sane_interval_bounds_def)

text \<open>Successes halve the interval until it is the minimum, whatever attempts are marked in between.\<close>

lemma successes_halve:
  assumes "sane_interval_bounds env" "interval_in_range env f" "Failed \<notin> set ops"
  shows "unat (fi_current_flush_interval_ms (fold (interval_step env) ops f)) =
    max (unat (fi_current_flush_interval_ms f) div 2 ^ length (filter (\<lambda>a. a = Succeeded) ops)) (unat (min_flush_interval_ms env))"
  using assms(2,3)
proof (induction ops arbitrary: f)
  case Nil
  then show ?case by (simp add: interval_in_range_def word_le_nat_alt)
next
  case (Cons a ops)
  let ?n = "length (filter (\<lambda>a. a = Succeeded) ops)" and ?min = "unat (min_flush_interval_ms env)"
  have IH: "unat (fi_current_flush_interval_ms (fold (interval_step env) ops (interval_step env a f))) =
      max (unat (fi_current_flush_interval_ms (interval_step env a f)) div 2 ^ ?n) ?min"
    using Cons.IH [OF interval_step_in_range [OF assms(1) Cons.prems(1)]] Cons.prems(2) by simp
  show ?case
  proof (cases a)
    case Succeeded
    have "max (max m ?min div 2 ^ ?n) ?min = max (m div 2 ^ ?n) ?min" for m :: nat
      by (cases "m \<le> ?min") (simp_all add: max_def order.trans [OF div_le_dividend])
    then show ?thesis using IH Succeeded adjust_for_success_unat [OF Cons.prems(1)] by (simp add: div_mult2_eq)
  next
    case (Attempted now)
    then show ?thesis using IH by (simp add: mark_scheduled_flush_attempt_def)
  qed (use Cons.prems(2) in simp)
qed

section \<open>Properties\<close>

text \<open>
  The interval always lies between the configured minimum and maximum, whatever the outcomes of
  the flushes, when the bounds are in order and doubling does not wrap.
\<close>

theorem flush_interval_bounded:
  assumes "sane_interval_bounds env"
  shows "interval_in_range env (fold (interval_step env) ops (fi_new env now))"
  using assms fi_new_in_range interval_run_in_range by blast

lemma default_bounds: "sane_interval_bounds (\<lambda>_. None)"
  by (simp add: sane_interval_bounds_def min_flush_interval_ms_def max_flush_interval_ms_def env_u64_def)

theorem flush_interval_bounded_witness:
  "interval_in_range (\<lambda>_. None) (fold (interval_step (\<lambda>_. None)) [Failed, Failed, Succeeded] (fi_new (\<lambda>_. None) 0))"
  by (rule flush_interval_bounded [OF default_bounds])

text \<open>
  The logger recovers. From whatever state a run of flushes has led to, after as many successful
  flushes as there are doublings from the minimum to the maximum, with no failure among them, limit
  flushes are allowed again.
\<close>

theorem flush_interval_recovers:
  assumes "sane_interval_bounds env"
    and "unat (max_flush_interval_ms env) < unat (min_flush_interval_ms env) * 2 ^ n"
    and "Failed \<notin> set later" "n \<le> length (filter (\<lambda>a. a = Succeeded) later)"
  shows "has_completely_recovered_from_backoff env (fold (interval_step env) (earlier @ later) (fi_new env now))"
proof -
  define f where "f = fold (interval_step env) earlier (fi_new env now)"
  define k where "k = length (filter (\<lambda>a. a = Succeeded) later)"
  have f: "interval_in_range env f" unfolding f_def using assms(1) by (intro interval_run_in_range fi_new_in_range)
  have "unat (fi_current_flush_interval_ms f) \<le> unat (max_flush_interval_ms env)"
    using f by (simp add: interval_in_range_def word_le_nat_alt)
  also have "\<dots> < unat (min_flush_interval_ms env) * 2 ^ n" by (rule assms(2))
  also have "\<dots> \<le> unat (min_flush_interval_ms env) * 2 ^ k" using assms(4) k_def by (simp add: power_increasing)
  finally have "unat (fi_current_flush_interval_ms f) div 2 ^ k < unat (min_flush_interval_ms env)"
    by (simp add: less_mult_imp_div_less)
  then show ?thesis using successes_halve [OF assms(1) f assms(3)] k_def
    by (simp add: has_completely_recovered_from_backoff_def word_le_nat_alt f_def)
qed

text \<open>With the default bounds six successes are enough, here after ten failures.\<close>

theorem flush_interval_recovers_witness:
  "has_completely_recovered_from_backoff (\<lambda>_. None)
     (fold (interval_step (\<lambda>_. None)) (replicate 10 Failed @ replicate 6 Succeeded) (fi_new (\<lambda>_. None) 0))"
  by (rule flush_interval_recovers [OF default_bounds, where n = 6])
    (simp_all add: min_flush_interval_ms_def max_flush_interval_ms_def env_u64_def)

end
