(* ===== verification/Event_Logger.thy ===== *)
theory Event_Logger
  imports Event_Queue Queued_Events Flush_Interval
begin

text \<open>
  The event logger, \<open>src/statsig-rust/src/event_logging/event_logger.rs\<close>: it samples what is logged,
  queues it, and flushes the queue in batches, on a schedule, when a batch is full, by hand and at
  shutdown; failed batches are requeued or dropped. With it the experiment that logs secondary exposures on
  their own, \<open>sec_expo_as_primary_experiment.rs\<close>, and what is reported (\<open>event_logger_ops_stats.rs\<close>).

  Sending is a suspension point: a flush takes its batches out of the queue, other operations run, and the
  flush ends with the adapter's answer. So each flush is two steps, with the batches under way in
  \<open>el_in_flight\<close>. The adapter's answer, the clock and the outcome of every lock attempt are arguments. An
  operation on the queue also gives the events that reached it.
\<close>

section \<open>Secondary exposures as primary ones\<close>

abbreviation SEC_EXPO_AS_PRIMARY_FLAG_PREFIX :: string where "SEC_EXPO_AS_PRIMARY_FLAG_PREFIX \<equiv> ''sec_expo_as_primary:''"
abbreviation SEC_EXPO_BUCKET_SIZE :: u64 where "SEC_EXPO_BUCKET_SIZE \<equiv> 1000"
abbreviation SEC_EXPO_NUMBER_REFRESH_INTERVAL_MS :: u64 where "SEC_EXPO_NUMBER_REFRESH_INTERVAL_MS \<equiv> 60000"
abbreviation NO_SEC_EXPO_NUMBER :: u64 where "NO_SEC_EXPO_NUMBER \<equiv> - 1"

record sec_expo_experiment =
  sx_provided_exp_number :: "u64 option"
  sx_cached_sec_expo_number :: u64
  sx_last_sec_expo_number_refresh_time :: u64

text \<open>The order of strings, byte by byte.\<close>

fun str_le :: "string \<Rightarrow> string \<Rightarrow> bool" where
  "str_le [] t = True"
| "str_le (c # s) [] = False"
| "str_le (c # s) (d # t) = (byte c < byte d \<or> byte c = byte d \<and> str_le s t)"

definition str_min :: "string list \<Rightarrow> string option" where
  "str_min l = (case l of [] \<Rightarrow> None | s # ss \<Rightarrow> Some (foldl (\<lambda>m t. if str_le m t then m else t) s ss))"

definition get_experiment_number :: "ext \<Rightarrow> string \<Rightarrow> u64 option" where
  "get_experiment_number x identifier =
     map_option (\<lambda>h. h mod SEC_EXPO_BUCKET_SIZE) (fst (evaluation_hash x identifier memo_new))"

definition sec_expo_new :: "ext \<Rightarrow> string list option \<Rightarrow> sec_expo_experiment" where
  "sec_expo_new x experimental_flags =
     \<lparr>sx_provided_exp_number =
        Option.bind (Option.bind experimental_flags (\<lambda>flags.
          str_min (filter (\<lambda>i. i \<noteq> [])
            (map (drop (length SEC_EXPO_AS_PRIMARY_FLAG_PREFIX))
              (filter (\<lambda>f. str_starts_with f SEC_EXPO_AS_PRIMARY_FLAG_PREFIX) flags)))))
          (get_experiment_number x),
      sx_cached_sec_expo_number = NO_SEC_EXPO_NUMBER, sx_last_sec_expo_number_refresh_time = 0\<rparr>"

definition should_refresh_sec_expo_number :: "u64 \<Rightarrow> u64 \<Rightarrow> bool" where
  "should_refresh_sec_expo_number now last_refresh \<longleftrightarrow>
     last_refresh = 0 \<or> SEC_EXPO_NUMBER_REFRESH_INTERVAL_MS \<le> (if now < last_refresh then 0 else now - last_refresh)"

definition get_sec_expo_number :: "bool \<Rightarrow> global_configs \<Rightarrow> u64 option" where
  "get_sec_expo_number lock_ok =
     use_sdk_config_value lock_ok ''sec_expo_number'' (\<lambda>v.
       case v of
         None \<Rightarrow> None
       | Some d \<Rightarrow>
           (case dv_float d of
              None \<Rightarrow> None
            | Some n \<Rightarrow> if \<not> f64_is_finite n then None else Some (f64_to_u64 (f64_clamp (Fin 0) (Fin 1000) n))))"

text \<open>\<open>cas_ok\<close>: no other thread has refreshed the number in between.\<close>

definition get_cached_sec_expo_number ::
    "u64 \<Rightarrow> bool \<Rightarrow> bool \<Rightarrow> global_configs \<Rightarrow> sec_expo_experiment \<Rightarrow> u64 option \<times> sec_expo_experiment" where
  "get_cached_sec_expo_number now cas_ok lock_ok g s =
     (let last_refresh = sx_last_sec_expo_number_refresh_time s
      in if should_refresh_sec_expo_number now last_refresh \<and> cas_ok
         then (let n = get_sec_expo_number lock_ok g
               in (n, s\<lparr>sx_last_sec_expo_number_refresh_time := now, sx_cached_sec_expo_number := opt_default NO_SEC_EXPO_NUMBER n\<rparr>))
         else (if sx_cached_sec_expo_number s = NO_SEC_EXPO_NUMBER then None else Some (sx_cached_sec_expo_number s), s))"

definition should_log_as_primary ::
    "u64 \<Rightarrow> bool \<Rightarrow> bool \<Rightarrow> global_configs \<Rightarrow> sec_expo_experiment \<Rightarrow> bool \<times> sec_expo_experiment" where
  "should_log_as_primary now cas_ok lock_ok g s =
     (case sx_provided_exp_number s of
        None \<Rightarrow> (False, s)
      | Some experiment_number \<Rightarrow>
          (let (n, s') = get_cached_sec_expo_number now cas_ok lock_ok g s
           in ((case n of Some sdk_config_number \<Rightarrow> experiment_number < sdk_config_number | None \<Rightarrow> False), s')))"

section \<open>State\<close>

type_synonym logger_queue = "(queued_event, statsig_event_internal) event_queue"
type_synonym logger_batch = "statsig_event_internal event_batch"

text \<open>What is reported of the logger's work.\<close>

datatype ops_stat =
    LogEventRequestSuccess nat
  | LogEventRequestFailure u64 flush_type
  | LogBatchingDroppedEvents u64 flush_type

record logger_options =
  op_event_logging_max_queue_size :: "u32 option"
  op_event_logging_max_pending_batch_queue_size :: "u32 option"
  op_exposure_dedupe_max_keys :: "u32 option"
  op_disable_all_logging :: "bool option"
  op_experimental_flags :: "string list option"

text \<open>A flush under way: its batch, its kind, and whether it flushes the whole queue.\<close>

record flush_task =
  ft_batch :: logger_batch
  ft_type :: flush_type
  ft_all :: bool

record 'c event_logger =
  el_queue :: logger_queue
  el_options :: logger_options
  el_event_sampler :: "'c exposure_sampling"
  el_non_exposed_checks :: "(string, u64) HashMap"
  el_flush_interval :: flush_interval
  el_sec_expo_experiment :: sec_expo_experiment
  el_enqueue_dropped_events_count :: u64
  el_limit_flush_notified :: bool
  el_ops_stats :: "ops_stat list"
  el_in_flight :: "flush_task list"

abbreviation DEFAULT_BATCH_SIZE :: u32 where "DEFAULT_BATCH_SIZE \<equiv> 2000"
abbreviation DEFAULT_PENDING_BATCH_COUNT_MAX :: u32 where "DEFAULT_PENDING_BATCH_COUNT_MAX \<equiv> 100"

definition el_new :: "ext \<Rightarrow> 'c lru_ops \<Rightarrow> env_vars \<Rightarrow> u64 \<Rightarrow> logger_options \<Rightarrow> 'c event_logger" where
  "el_new x L env now options =
     \<lparr>el_queue = eq_new (opt_default DEFAULT_BATCH_SIZE (op_event_logging_max_queue_size options))
        (opt_default DEFAULT_PENDING_BATCH_COUNT_MAX (op_event_logging_max_pending_batch_queue_size options)),
      el_options = options,
      el_event_sampler = es_with_max_keys L now (op_exposure_dedupe_max_keys options),
      el_non_exposed_checks = [], el_flush_interval = fi_new env now,
      el_sec_expo_experiment = sec_expo_new x (op_experimental_flags options),
      el_enqueue_dropped_events_count = 0, el_limit_flush_notified = False, el_ops_stats = [], el_in_flight = []\<rparr>"

section \<open>Enqueueing\<close>

definition add_pending_event ::
    "bool \<Rightarrow> queued_event \<Rightarrow> 'c event_logger \<Rightarrow> statsig_event_internal list \<times> 'c event_logger" where
  "add_pending_event lock_ok ev lg =
     (let (r, q) = queue_add lock_ok ev (el_queue lg);
          accepted = (if lock_ok then [into_statsig_event_internal ev] else []);
          lg1 = lg\<lparr>el_queue := q\<rparr>
      in (accepted,
          case r of
            AddNoop \<Rightarrow> lg1
          | NeedsFlush \<Rightarrow> lg1\<lparr>el_limit_flush_notified := True\<rparr>
          | NeedsFlushAndDropped n \<Rightarrow>
              lg1\<lparr>el_enqueue_dropped_events_count := el_enqueue_dropped_events_count lg1 + n, el_limit_flush_notified := True\<rparr>))"

record enqueue_env =
  ee_now :: u64
  ee_cas_ok :: bool
  ee_config_ok :: bool
  ee_sampling_locks :: "nat \<Rightarrow> sampling_locks"
  ee_queue_locks :: "nat \<Rightarrow> bool"

fun enqueue_secondary_exposures ::
    "ext \<Rightarrow> 'c lru_ops \<Rightarrow> enqueue_env \<Rightarrow> global_configs \<Rightarrow> loggable_user \<Rightarrow> u64 \<Rightarrow> nat \<Rightarrow> secondary_exposure list \<Rightarrow>
     'c event_logger \<Rightarrow> statsig_event_internal list \<times> 'c event_logger" where
  "enqueue_secondary_exposures x L E g user time i [] lg = ([], lg)"
| "enqueue_secondary_exposures x L E g user time i (se # ses) lg =
     (let op = EnqueueSecondary \<lparr>so_user = user, so_secondary_exposure = se, so_exposure_time = time\<rparr>;
          (decision, sampler) = get_sampling_decision L (ee_sampling_locks E i) g (as_exposure x op) False (el_event_sampler lg);
          lg1 = lg\<lparr>el_event_sampler := sampler\<rparr>;
          (acc1, lg2) = (if should_log decision
             then add_pending_event (ee_queue_locks E i) (into_queued_event op decision) lg1 else ([], lg1));
          (acc2, lg3) = enqueue_secondary_exposures x L E g user time (Suc i) ses lg2
      in (acc1 @ acc2, lg3))"

definition enqueue_event_with_secondary_exposures_as_primary ::
    "ext \<Rightarrow> 'c lru_ops \<Rightarrow> enqueue_env \<Rightarrow> global_configs \<Rightarrow> queued_event \<Rightarrow> bool \<Rightarrow> 'c event_logger \<Rightarrow>
     statsig_event_internal list \<times> 'c event_logger" where
  "enqueue_event_with_secondary_exposures_as_primary x L E g pending_event should_log_parent lg =
     (let add_parent = (\<lambda>ev. if should_log_parent then add_pending_event (ee_queue_locks E 0) ev lg else ([], lg))
      in case exposure_time pending_event of
           None \<Rightarrow> add_parent pending_event
         | Some time \<Rightarrow>
             (let (ses, pending_event1) = take_secondary_exposures_for_primary_logging pending_event
              in if ses = [] then add_parent pending_event1
                 else case user_for_secondary_exposures pending_event1 of
                     None \<Rightarrow> add_parent pending_event1
                   | Some user \<Rightarrow>
                       (let (acc1, lg1) = add_parent pending_event1;
                            (acc2, lg2) = enqueue_secondary_exposures x L E g user time 1 ses lg1
                        in (acc1 @ acc2, lg2))))"

definition enqueue ::
    "ext \<Rightarrow> 'c lru_ops \<Rightarrow> enqueue_env \<Rightarrow> global_configs \<Rightarrow> enqueue_operation \<Rightarrow> 'c event_logger \<Rightarrow>
     statsig_event_internal list \<times> 'c event_logger" where
  "enqueue x L E g operation lg =
     (if op_disable_all_logging (el_options lg) = Some True then ([], lg)
      else
        (let (active, sec) = should_log_as_primary (ee_now E) (ee_cas_ok E) (ee_config_ok E) g (el_sec_expo_experiment lg);
             (decision, sampler) =
               get_sampling_decision L (ee_sampling_locks E 0) g (as_exposure x operation) active (el_event_sampler lg);
             lg1 = lg\<lparr>el_sec_expo_experiment := sec, el_event_sampler := sampler\<rparr>
         in if active
            then enqueue_event_with_secondary_exposures_as_primary x L E g (into_queued_event operation decision)
                   (should_log decision) lg1
            else if \<not> should_log decision then ([], lg1)
            else add_pending_event (ee_queue_locks E 0) (into_queued_event operation decision) lg1))"

definition increment_non_exposure_checks :: "string \<Rightarrow> 'c event_logger \<Rightarrow> 'c event_logger" where
  "increment_non_exposure_checks name lg =
     lg\<lparr>el_non_exposed_checks :=
       hm_insert name (opt_default 0 (hm_get (el_non_exposed_checks lg) name) + 1) (el_non_exposed_checks lg)\<rparr>"

section \<open>Preparing a flush\<close>

record flush_env =
  fe_now :: u64
  fe_add_lock :: bool
  fe_drain_lock :: bool
  fe_batches_lock :: bool
  fe_take_lock :: bool

definition try_add_non_exposed_checks_event ::
    "ext \<Rightarrow> flush_env \<Rightarrow> 'c event_logger \<Rightarrow> statsig_event_internal list \<times> 'c event_logger" where
  "try_add_non_exposed_checks_event x F lg =
     (let checks = filter (\<lambda>(k, n). 0 < n) (el_non_exposed_checks lg);
          lg1 = lg\<lparr>el_non_exposed_checks := map (\<lambda>(k, n). (k, 0)) (el_non_exposed_checks lg)\<rparr>
      in if checks = [] then ([], lg1)
         else
           (let event = new_non_exposed_checks_event x (fe_now F) checks;
                (r, q) = queue_add (fe_add_lock F) (QPassthrough event) (el_queue lg1);
                lg2 = lg1\<lparr>el_queue := q\<rparr>
            in (if fe_add_lock F then [event] else [],
                case r of
                  NeedsFlushAndDropped n \<Rightarrow> lg2\<lparr>el_enqueue_dropped_events_count := el_enqueue_dropped_events_count lg2 + n\<rparr>
                | _ \<Rightarrow> lg2)))"

definition report :: "ops_stat \<Rightarrow> 'c event_logger \<Rightarrow> 'c event_logger" where
  "report s lg = lg\<lparr>el_ops_stats := el_ops_stats lg @ [s]\<rparr>"

definition try_log_enqueue_dropped_events :: "'c event_logger \<Rightarrow> 'c event_logger" where
  "try_log_enqueue_dropped_events lg =
     (let n = el_enqueue_dropped_events_count lg; lg1 = lg\<lparr>el_enqueue_dropped_events_count := 0\<rparr>
      in if n = 0 then lg1 else report (LogBatchingDroppedEvents n FlushLimit) lg1)"

definition prepare_event_queue_for_flush ::
    "ext \<Rightarrow> flush_env \<Rightarrow> flush_type \<Rightarrow> 'c event_logger \<Rightarrow> (statsig_event_internal list \<times> 'c event_logger) option" where
  "prepare_event_queue_for_flush x F ty lg =
     (let (acc, lg1) = try_add_non_exposed_checks_event x F lg;
          lg2 = try_log_enqueue_dropped_events lg1
      in case reconcile_batching into_statsig_event_internal (fe_drain_lock F) (fe_batches_lock F) (el_queue lg2) of
           None \<Rightarrow> None
         | Some (r, q) \<Rightarrow>
             (let lg3 = lg2\<lparr>el_queue := q\<rparr>
              in Some (acc, case r of
                   ReconcileSuccess \<Rightarrow> lg3
                 | LockFailure \<Rightarrow> lg3
                 | DroppedEvents n \<Rightarrow> if 0 < n then report (LogBatchingDroppedEvents n ty) lg3 else lg3)))"

section \<open>Sending\<close>

text \<open>The adapter's answer. The errors the logger tells apart: a request that cannot be retried, and the rest.\<close>

datatype log_outcome = LogOk bool | LogDisableNetwork | LogNotRetryable | LogOtherError

datatype log_error = UnknownFailure | RequestNotRetryable | OtherLogError

definition log_batch ::
    "log_outcome \<Rightarrow> logger_batch \<Rightarrow> 'c event_logger \<Rightarrow> log_error option \<times> logger_batch \<times> 'c event_logger" where
  "log_batch outcome batch lg =
     (let batch1 = batch\<lparr>eb_attempts := eb_attempts batch + 1\<rparr>
      in case outcome of
           LogOk True \<Rightarrow> (None, batch1, report (LogEventRequestSuccess (length (eb_events batch))) lg)
         | LogOk False \<Rightarrow> (Some UnknownFailure, batch1, lg)
         | LogDisableNetwork \<Rightarrow> (None, batch1, lg)
         | LogNotRetryable \<Rightarrow> (Some RequestNotRetryable, batch1, lg)
         | LogOtherError \<Rightarrow> (Some OtherLogError, batch1, lg))"

definition drop_events_for_failure :: "logger_batch \<Rightarrow> flush_type \<Rightarrow> 'c event_logger \<Rightarrow> 'c event_logger" where
  "drop_events_for_failure batch ty lg = report (LogEventRequestFailure (of_nat (length (eb_events batch))) ty) lg"

definition try_requeue_failed_batch ::
    "env_vars \<Rightarrow> bool \<Rightarrow> log_error \<Rightarrow> logger_batch \<Rightarrow> flush_type \<Rightarrow> 'c event_logger \<Rightarrow> 'c event_logger" where
  "try_requeue_failed_batch env lock_ok err batch ty lg =
     (if err = RequestNotRetryable \<or> max_log_event_retries env < eb_attempts batch
      then drop_events_for_failure batch ty lg
      else
        (let (r, q) = requeue_batch lock_ok batch (el_queue lg); lg1 = lg\<lparr>el_queue := q\<rparr>
         in case r of
              ReconcileSuccess \<Rightarrow> lg1
            | LockFailure \<Rightarrow> lg1
            | DroppedEvents n \<Rightarrow> if n = 0 then lg1 else report (LogBatchingDroppedEvents n ty) lg1))"

section \<open>Flushing one batch\<close>

definition adjust_interval :: "(flush_interval \<Rightarrow> flush_interval) \<Rightarrow> 'c event_logger \<Rightarrow> 'c event_logger" where
  "adjust_interval f lg = lg\<lparr>el_flush_interval := f (el_flush_interval lg)\<rparr>"

definition flush_next_batch_begin ::
    "ext \<Rightarrow> flush_env \<Rightarrow> flush_type \<Rightarrow> 'c event_logger \<Rightarrow> (statsig_event_internal list \<times> logger_batch option \<times> 'c event_logger) option" where
  "flush_next_batch_begin x F ty lg =
     (case prepare_event_queue_for_flush x F ty lg of
        None \<Rightarrow> None
      | Some (acc, lg1) \<Rightarrow>
          (let (b, q) = take_next_batch (fe_take_lock F) (el_queue lg1) in Some (acc, b, lg1\<lparr>el_queue := q\<rparr>)))"

definition flush_next_batch_end ::
    "env_vars \<Rightarrow> bool \<Rightarrow> log_outcome \<Rightarrow> logger_batch \<Rightarrow> flush_type \<Rightarrow> 'c event_logger \<Rightarrow> bool \<times> 'c event_logger" where
  "flush_next_batch_end env lock_ok outcome batch ty lg =
     (case log_batch outcome batch lg of
        (None, batch1, lg1) \<Rightarrow> (True, adjust_interval (adjust_for_success env) lg1)
      | (Some err, batch1, lg1) \<Rightarrow>
          (False, try_requeue_failed_batch env lock_ok err batch1 ty (adjust_interval (adjust_for_failure env) lg1)))"

definition flush_next_batch ::
    "ext \<Rightarrow> env_vars \<Rightarrow> flush_env \<Rightarrow> bool \<Rightarrow> log_outcome \<Rightarrow> flush_type \<Rightarrow> 'c event_logger \<Rightarrow>
     (statsig_event_internal list \<times> bool \<times> 'c event_logger) option" where
  "flush_next_batch x env F lock_ok outcome ty lg =
     (case flush_next_batch_begin x F ty lg of
        None \<Rightarrow> None
      | Some (acc, None, lg1) \<Rightarrow> Some (acc, False, lg1)
      | Some (acc, Some b, lg1) \<Rightarrow>
          (let (sent, lg2) = flush_next_batch_end env lock_ok outcome b ty lg1 in Some (acc, sent, lg2)))"

section \<open>Flushing everything\<close>

definition flush_all_begin ::
    "ext \<Rightarrow> flush_env \<Rightarrow> flush_type \<Rightarrow> 'c event_logger \<Rightarrow> (statsig_event_internal list \<times> logger_batch list \<times> 'c event_logger) option" where
  "flush_all_begin x F ty lg =
     (case prepare_event_queue_for_flush x F ty lg of
        None \<Rightarrow> None
      | Some (acc, lg1) \<Rightarrow>
          (let (bs, q) = take_all_batches (fe_take_lock F) (el_queue lg1) in Some (acc, bs, lg1\<lparr>el_queue := q\<rparr>)))"

definition flush_all_end ::
    "env_vars \<Rightarrow> bool \<Rightarrow> log_outcome \<Rightarrow> logger_batch \<Rightarrow> flush_type \<Rightarrow> 'c event_logger \<Rightarrow> log_error option \<times> 'c event_logger" where
  "flush_all_end env lock_ok outcome batch ty lg =
     (case log_batch outcome batch lg of
        (None, batch1, lg1) \<Rightarrow> (None, lg1)
      | (Some err, batch1, lg1) \<Rightarrow>
          (Some err,
           if ty = FlushManual
           then try_requeue_failed_batch env lock_ok err batch1 ty (adjust_interval (adjust_for_failure env) lg1)
           else drop_events_for_failure batch1 ty lg1))"

text \<open>The answers of the adapter come in the order of the batches; the first error is the result.\<close>

fun flush_all_ends ::
    "env_vars \<Rightarrow> bool \<Rightarrow> (nat \<Rightarrow> log_outcome) \<Rightarrow> nat \<Rightarrow> logger_batch list \<Rightarrow> flush_type \<Rightarrow> 'c event_logger \<Rightarrow>
     log_error option \<times> 'c event_logger" where
  "flush_all_ends env lock_ok outcome i [] ty lg = (None, lg)"
| "flush_all_ends env lock_ok outcome i (b # bs) ty lg =
     (let (e1, lg1) = flush_all_end env lock_ok (outcome i) b ty lg;
          (e2, lg2) = flush_all_ends env lock_ok outcome (Suc i) bs ty lg1
      in (opt_else e1 e2, lg2))"

definition try_flush_all_pending_events ::
    "ext \<Rightarrow> env_vars \<Rightarrow> flush_env \<Rightarrow> bool \<Rightarrow> (nat \<Rightarrow> log_outcome) \<Rightarrow> flush_type \<Rightarrow> 'c event_logger \<Rightarrow>
     (statsig_event_internal list \<times> log_error option \<times> 'c event_logger) option" where
  "try_flush_all_pending_events x env F lock_ok outcome ty lg =
     (case flush_all_begin x F ty lg of
        None \<Rightarrow> None
      | Some (acc, bs, lg1) \<Rightarrow>
          (let (e, lg2) = flush_all_ends env lock_ok outcome 0 bs ty lg1 in Some (acc, e, lg2)))"

section \<open>When to flush\<close>

text \<open>The kind of a scheduled flush, if one is due.\<close>

definition scheduled_flush_due :: "env_vars \<Rightarrow> u64 \<Rightarrow> bool \<Rightarrow> 'c event_logger \<Rightarrow> flush_type option" where
  "scheduled_flush_due env now lock_ok lg =
     (if \<not> has_cooled_from_most_recent_failure now (el_flush_interval lg) then None
      else
        (let by_time = has_waited_max_allowed_interval env now (el_flush_interval lg);
             by_size = contains_at_least_one_full_batch lock_ok (el_queue lg)
         in if \<not> by_time \<and> \<not> by_size then None
            else Some (if by_size then ScheduledFullBatch else ScheduledMaxTime)))"

definition try_scheduled_flush ::
    "ext \<Rightarrow> env_vars \<Rightarrow> flush_env \<Rightarrow> bool \<Rightarrow> bool \<Rightarrow> log_outcome \<Rightarrow> 'c event_logger \<Rightarrow>
     (statsig_event_internal list \<times> 'c event_logger) option" where
  "try_scheduled_flush x env F full_ok lock_ok outcome lg =
     (case scheduled_flush_due env (fe_now F) full_ok lg of
        None \<Rightarrow> Some ([], lg)
      | Some ty \<Rightarrow>
          map_option (\<lambda>(acc, _, lg'). (acc, lg'))
            (flush_next_batch x env F lock_ok outcome ty (adjust_interval (mark_scheduled_flush_attempt (fe_now F)) lg)))"

text \<open>
  A limit flush: after a first batch it goes on while the logger is not backing off and a full batch
  waits. The list holds what the attempts meet; at its end the task waits for the next answer.
\<close>

fun limit_flush_loop ::
    "ext \<Rightarrow> env_vars \<Rightarrow> (flush_env \<times> bool \<times> bool \<times> log_outcome) list \<Rightarrow> 'c event_logger \<Rightarrow>
     (statsig_event_internal list \<times> 'c event_logger) option" where
  "limit_flush_loop x env [] lg = Some ([], lg)"
| "limit_flush_loop x env ((F, full_ok, lock_ok, outcome) # rest) lg =
     (if \<not> has_completely_recovered_from_backoff env (el_flush_interval lg) then Some ([], lg)
      else if \<not> contains_at_least_one_full_batch full_ok (el_queue lg) then Some ([], lg)
      else case flush_next_batch x env F lock_ok outcome FlushLimit lg of
          None \<Rightarrow> None
        | Some (acc, sent, lg1) \<Rightarrow>
            if \<not> sent then Some (acc, lg1)
            else map_option (\<lambda>(acc2, lg2). (acc @ acc2, lg2)) (limit_flush_loop x env rest lg1))"

definition limit_flush_task ::
    "ext \<Rightarrow> env_vars \<Rightarrow> flush_env \<times> bool \<times> log_outcome \<Rightarrow> (flush_env \<times> bool \<times> bool \<times> log_outcome) list \<Rightarrow> 'c event_logger \<Rightarrow>
     (statsig_event_internal list \<times> 'c event_logger) option" where
  "limit_flush_task x env first rest lg =
     (case first of (F, lock_ok, outcome) \<Rightarrow>
        (case flush_next_batch x env F lock_ok outcome FlushLimit lg of
           None \<Rightarrow> None
         | Some (acc, sent, lg1) \<Rightarrow>
             if \<not> sent then Some (acc, lg1)
             else map_option (\<lambda>(acc2, lg2). (acc @ acc2, lg2)) (limit_flush_loop x env rest lg1)))"

section \<open>Interleavings\<close>

datatype logger_op =
    DoEnqueue enqueue_env global_configs enqueue_operation
  | DoIncrement string
  | DoBeginNext flush_env flush_type
  | DoBeginAll flush_env flush_type
  | DoBeginScheduled flush_env bool
  | DoFinish nat bool log_outcome
  | DoResetSampling bool bool bool bool global_configs u64 u64

text \<open>
  What an operation let in and handed to the adapter, what it added to the drop counts, and whether the
  batches' lock failed it.
\<close>

record logger_obs =
  lb_accepted :: "statsig_event_internal list"
  lb_delivered :: "statsig_event_internal list"
  lb_reported :: u64
  lb_lock_failed :: bool

fun stat_lost :: "ops_stat \<Rightarrow> u64" where
  "stat_lost (LogEventRequestSuccess n) = 0"
| "stat_lost (LogEventRequestFailure n ty) = n"
| "stat_lost (LogBatchingDroppedEvents n ty) = n"

text \<open>The events reported as lost, and those counted to be reported at the next flush.\<close>

definition counted_lost :: "'c event_logger \<Rightarrow> u64" where
  "counted_lost lg = sum_list (map stat_lost (el_ops_stats lg)) + el_enqueue_dropped_events_count lg"

definition logger_result ::
    "'c event_logger \<Rightarrow> statsig_event_internal list \<Rightarrow> statsig_event_internal list \<Rightarrow> bool \<Rightarrow> 'c event_logger \<Rightarrow>
     logger_obs \<times> 'c event_logger" where
  "logger_result lg acc del lock_failed lg' =
     (\<lparr>lb_accepted = acc, lb_delivered = del, lb_reported = counted_lost lg' - counted_lost lg, lb_lock_failed = lock_failed\<rparr>, lg')"

definition begin_next :: "ext \<Rightarrow> flush_env \<Rightarrow> flush_type \<Rightarrow> 'c event_logger \<Rightarrow> (statsig_event_internal list \<times> 'c event_logger) option" where
  "begin_next x F ty lg =
     (case flush_next_batch_begin x F ty lg of
        None \<Rightarrow> None
      | Some (acc, b, lg1) \<Rightarrow>
          Some (acc, lg1\<lparr>el_in_flight := el_in_flight lg1 @ map (\<lambda>b. \<lparr>ft_batch = b, ft_type = ty, ft_all = False\<rparr>) (opt_to_list b)\<rparr>))"

definition begin_all :: "ext \<Rightarrow> flush_env \<Rightarrow> flush_type \<Rightarrow> 'c event_logger \<Rightarrow> (statsig_event_internal list \<times> 'c event_logger) option" where
  "begin_all x F ty lg =
     (case flush_all_begin x F ty lg of
        None \<Rightarrow> None
      | Some (acc, bs, lg1) \<Rightarrow>
          Some (acc, lg1\<lparr>el_in_flight := el_in_flight lg1 @ map (\<lambda>b. \<lparr>ft_batch = b, ft_type = ty, ft_all = True\<rparr>) bs\<rparr>))"

definition finish_task :: "env_vars \<Rightarrow> bool \<Rightarrow> log_outcome \<Rightarrow> flush_task \<Rightarrow> 'c event_logger \<Rightarrow> 'c event_logger" where
  "finish_task env lock_ok outcome t lg =
     (if ft_all t then snd (flush_all_end env lock_ok outcome (ft_batch t) (ft_type t) lg)
      else snd (flush_next_batch_end env lock_ok outcome (ft_batch t) (ft_type t) lg))"

definition delivered_by :: "log_outcome \<Rightarrow> flush_task \<Rightarrow> statsig_event_internal list" where
  "delivered_by outcome t = (if outcome = LogOk True \<or> outcome = LogDisableNetwork then eb_events (ft_batch t) else [])"

fun logger_step ::
    "ext \<Rightarrow> 'c lru_ops \<Rightarrow> env_vars \<Rightarrow> logger_op \<Rightarrow> 'c event_logger \<Rightarrow> (logger_obs \<times> 'c event_logger) option" where
  "logger_step x L env (DoEnqueue E g op) lg = (let (acc, lg') = enqueue x L E g op lg in Some (logger_result lg acc [] False lg'))"
| "logger_step x L env (DoIncrement name) lg = Some (logger_result lg [] [] False (increment_non_exposure_checks name lg))"
| "logger_step x L env (DoBeginNext F ty) lg =
     map_option (\<lambda>(acc, lg'). logger_result lg acc [] (\<not> fe_batches_lock F) lg') (begin_next x F ty lg)"
| "logger_step x L env (DoBeginAll F ty) lg =
     map_option (\<lambda>(acc, lg'). logger_result lg acc [] (\<not> fe_batches_lock F) lg') (begin_all x F ty lg)"
| "logger_step x L env (DoBeginScheduled F full_ok) lg =
     (case scheduled_flush_due env (fe_now F) full_ok lg of
        None \<Rightarrow> Some (logger_result lg [] [] False lg)
      | Some ty \<Rightarrow>
          map_option (\<lambda>(acc, lg'). logger_result lg acc [] (\<not> fe_batches_lock F) lg')
            (begin_next x F ty (adjust_interval (mark_scheduled_flush_attempt (fe_now F)) lg)))"
| "logger_step x L env (DoFinish i lock_ok outcome) lg =
     (if length (el_in_flight lg) \<le> i then Some (logger_result lg [] [] False lg)
      else
        (let t = el_in_flight lg ! i;
             lg1 = lg\<lparr>el_in_flight := take i (el_in_flight lg) @ drop (Suc i) (el_in_flight lg)\<rparr>
         in Some (logger_result lg [] (delivered_by outcome t) False (finish_task env lock_ok outcome t lg1))))"
| "logger_step x L env (DoResetSampling c1 l1 c2 l2 g now1 now2) lg =
     Some (logger_result lg [] [] False
       (lg\<lparr>el_event_sampler := try_reset_all_sampling L c1 l1 c2 l2 g now1 now2 (el_event_sampler lg)\<rparr>))"

section \<open>Accounts\<close>

definition task_events :: "flush_task \<Rightarrow> statsig_event_internal multiset" where
  "task_events t = mset (eb_events (ft_batch t))"

definition held_events :: "'c event_logger \<Rightarrow> statsig_event_internal multiset" where
  "held_events lg = stored into_statsig_event_internal (el_queue lg) + sum_list (map task_events (el_in_flight lg))"

definition account ::
    "statsig_event_internal multiset \<Rightarrow> statsig_event_internal multiset \<Rightarrow> 'c event_logger \<Rightarrow> 'c event_logger \<Rightarrow> bool" where
  "account ins outs lg lg' \<longleftrightarrow>
     balanced (held_events lg + ins) (held_events lg' + outs) (counted_lost lg' - counted_lost lg)"

lemma account_trans:
  assumes "account i j lg lg1" "account k l lg1 lg2"
  shows "account (i + k) (j + l) lg lg2"
  using balanced_trans [OF assms [unfolded account_def]] by (simp add: account_def)

lemma account_frame:
  assumes "el_queue lg' = el_queue lg" "el_in_flight lg' = el_in_flight lg" "counted_lost lg' = counted_lost lg"
  shows "account {#} {#} lg lg'"
  using assms by (simp add: account_def held_events_def)

text \<open>The queue did the accounting; the logger recorded what it reported.\<close>

lemma account_queue:
  assumes "conserves into_statsig_event_internal ins (el_queue lg) ob (el_queue lg')"
    and "el_in_flight lg' = el_in_flight lg" "counted_lost lg' = counted_lost lg + obs_dropped ob"
  shows "account ins (obs_taken ob) lg lg'"
proof -
  let ?f = "sum_list (map task_events (el_in_flight lg))"
  from assms(1) obtain lost where lost: "stored into_statsig_event_internal (el_queue lg) + ins =
      stored into_statsig_event_internal (el_queue lg') + obs_taken ob + lost" "of_nat (size lost) = obs_dropped ob"
    by (auto simp: balanced_def)
  have "held_events lg + ins = stored into_statsig_event_internal (el_queue lg) + ins + ?f"
    by (simp add: held_events_def ac_simps)
  also have "\<dots> = held_events lg' + obs_taken ob + lost"
    unfolding lost(1) using assms(2) by (simp add: held_events_def ac_simps)
  finally show ?thesis unfolding account_def by (rule balancedI) (simp add: lost(2) assms(3))
qed

lemma counted_lost_simps [simp]:
  "counted_lost (lg\<lparr>el_queue := q\<rparr>) = counted_lost lg"
  "counted_lost (lg\<lparr>el_event_sampler := s\<rparr>) = counted_lost lg"
  "counted_lost (lg\<lparr>el_sec_expo_experiment := e\<rparr>) = counted_lost lg"
  "counted_lost (lg\<lparr>el_non_exposed_checks := c\<rparr>) = counted_lost lg"
  "counted_lost (lg\<lparr>el_flush_interval := f\<rparr>) = counted_lost lg"
  "counted_lost (lg\<lparr>el_limit_flush_notified := b\<rparr>) = counted_lost lg"
  "counted_lost (lg\<lparr>el_in_flight := ts\<rparr>) = counted_lost lg"
  "counted_lost (lg\<lparr>el_enqueue_dropped_events_count := n\<rparr>) = counted_lost lg - el_enqueue_dropped_events_count lg + n"
  "counted_lost (report st lg) = counted_lost lg + stat_lost st"
  by (simp_all add: counted_lost_def report_def)

lemma report_simps [simp]:
  "el_queue (report st lg) = el_queue lg" "el_in_flight (report st lg) = el_in_flight lg"
  by (simp_all add: report_def)

abbreviation logger_ok :: "'c event_logger \<Rightarrow> bool" where
  "logger_ok lg \<equiv> queue_ok (el_queue lg)"

lemma add_pending_event_account:
  assumes "logger_ok lg" "add_pending_event lock_ok ev lg = (acc, lg')"
  shows "logger_ok lg' \<and> account (mset acc) {#} lg lg'"
proof -
  obtain r q where add: "queue_add lock_ok ev (el_queue lg) = (r, q)" by (cases "queue_add lock_ok ev (el_queue lg)")
  have lg': "el_queue lg' = q" "el_in_flight lg' = el_in_flight lg" "counted_lost lg' = counted_lost lg + obs_dropped (ObsAdd r)"
      "mset acc = op_input into_statsig_event_internal (OpAdd lock_ok ev)"
    using assms(2) add by (cases r; auto simp: add_pending_event_def)+
  have "conserves into_statsig_event_internal (mset acc) (el_queue lg) (ObsAdd r) (el_queue lg')"
    using add_conserves(2) [OF assms(1) add, of into_statsig_event_internal] lg' by simp
  from account_queue [OF this lg'(2,3)] add_conserves(1) [OF assms(1) add] lg'(1) show ?thesis by simp
qed

lemma account_after_frame:
  assumes "el_queue lg1 = el_queue lg" "el_in_flight lg1 = el_in_flight lg" "counted_lost lg1 = counted_lost lg"
    and "account i j lg1 lg2"
  shows "account i j lg lg2"
  using account_trans [OF account_frame [OF assms(1-3)] assms(4)] by simp

lemma enqueue_secondary_account:
  assumes "logger_ok lg" "enqueue_secondary_exposures x L E g user time i ses lg = (acc, lg')"
  shows "logger_ok lg' \<and> account (mset acc) {#} lg lg'"
  using assms
proof (induction ses arbitrary: i lg acc)
  case Nil
  then show ?case by (auto intro: account_frame)
next
  case (Cons se ses)
  let ?op = "EnqueueSecondary \<lparr>so_user = user, so_secondary_exposure = se, so_exposure_time = time\<rparr>"
  obtain d s where d: "get_sampling_decision L (ee_sampling_locks E i) g (as_exposure x ?op) False (el_event_sampler lg) = (d, s)"
    by (cases "get_sampling_decision L (ee_sampling_locks E i) g (as_exposure x ?op) False (el_event_sampler lg)")
  define lg1 where "lg1 = lg\<lparr>el_event_sampler := s\<rparr>"
  obtain acc1 lg2 where a1: "(if should_log d then add_pending_event (ee_queue_locks E i) (into_queued_event ?op d) lg1 else ([], lg1)) = (acc1, lg2)"
    by (cases "(if should_log d then add_pending_event (ee_queue_locks E i) (into_queued_event ?op d) lg1 else ([], lg1))")
  obtain acc2 lg3 where a2: "enqueue_secondary_exposures x L E g user time (Suc i) ses lg2 = (acc2, lg3)"
    by (cases "enqueue_secondary_exposures x L E g user time (Suc i) ses lg2")
  have "enqueue_secondary_exposures x L E g user time i (se # ses) lg = (acc1 @ acc2, lg3)"
    by (simp only: enqueue_secondary_exposures.simps Let_def d a1 [unfolded lg1_def] a2 prod.case)
  then have out: "acc = acc1 @ acc2" "lg' = lg3" using Cons.prems(2) by simp_all
  have ok1: "logger_ok lg1" using Cons.prems(1) by (simp add: lg1_def)
  have "logger_ok lg2 \<and> account (mset acc1) {#} lg1 lg2"
  proof (cases "should_log d")
    case True
    then show ?thesis using a1 by (intro add_pending_event_account [OF ok1]) simp
  next
    case False
    then show ?thesis using a1 ok1 by (auto intro: account_frame)
  qed
  moreover from this have "account (mset acc1) {#} lg lg2"
    by (auto intro: account_after_frame [of lg1] simp: lg1_def)
  ultimately show ?case
    using Cons.IH [OF _ a2 [folded out(2)]] account_trans [of "mset acc1" "{#}" lg lg2 "mset acc2" "{#}" lg'] unfolding out(1) by simp
qed

lemma enqueue_with_secondary_account:
  assumes "logger_ok lg"
    and "enqueue_event_with_secondary_exposures_as_primary x L E g ev should_log_parent lg = (acc, lg')"
  shows "logger_ok lg' \<and> account (mset acc) {#} lg lg'"
proof -
  define add_parent where
    "add_parent = (\<lambda>ev. if should_log_parent then add_pending_event (ee_queue_locks E 0) ev lg else ([], lg))"
  have parent: "logger_ok l \<and> account (mset a) {#} lg l" if "add_parent e = (a, l)" for e a l
  proof (cases should_log_parent)
    case True
    then show ?thesis using that by (intro add_pending_event_account [OF assms(1)]) (simp add: add_parent_def)
  next
    case False
    then show ?thesis using that assms(1) by (auto simp: add_parent_def intro: account_frame)
  qed
  obtain ses ev1 where take: "take_secondary_exposures_for_primary_logging ev = (ses, ev1)"
    by (cases "take_secondary_exposures_for_primary_logging ev")
  consider e where "add_parent e = (acc, lg')"
    | user time acc1 lg1 acc2 where "add_parent ev1 = (acc1, lg1)"
        "enqueue_secondary_exposures x L E g user time 1 ses lg1 = (acc2, lg')" "acc = acc1 @ acc2"
    using assms(2) take unfolding enqueue_event_with_secondary_exposures_as_primary_def add_parent_def [symmetric]
    by (auto simp: Let_def split: option.splits if_splits prod.splits)
  then show ?thesis
  proof cases
    case 1
    then show ?thesis by (rule parent)
  next
    case 2
    note p = parent [OF 2(1)]
    with enqueue_secondary_account [OF _ 2(2)] account_trans [of "mset acc1" "{#}" lg lg1 "mset acc2" "{#}" lg'] 2(3)
    show ?thesis by simp
  qed
qed

lemma enqueue_account:
  assumes "logger_ok lg" "enqueue x L E g op lg = (acc, lg')"
  shows "logger_ok lg' \<and> account (mset acc) {#} lg lg'"
proof -
  obtain active sec where s: "should_log_as_primary (ee_now E) (ee_cas_ok E) (ee_config_ok E) g (el_sec_expo_experiment lg) = (active, sec)"
    by (cases "should_log_as_primary (ee_now E) (ee_cas_ok E) (ee_config_ok E) g (el_sec_expo_experiment lg)")
  obtain d sampler where d: "get_sampling_decision L (ee_sampling_locks E 0) g (as_exposure x op) active (el_event_sampler lg) = (d, sampler)"
    by (cases "get_sampling_decision L (ee_sampling_locks E 0) g (as_exposure x op) active (el_event_sampler lg)")
  define lg1 where "lg1 = lg\<lparr>el_sec_expo_experiment := sec, el_event_sampler := sampler\<rparr>"
  have ok1: "logger_ok lg1" using assms(1) by (simp add: lg1_def)
  have frame: "account i j lg lg'" if "account i j lg1 lg'" for i j
    by (rule account_after_frame [OF _ _ _ that]) (simp_all add: lg1_def)
  have eq: "enqueue x L E g op lg = (if op_disable_all_logging (el_options lg) = Some True then ([], lg)
      else if active then enqueue_event_with_secondary_exposures_as_primary x L E g (into_queued_event op d) (should_log d) lg1
      else if \<not> should_log d then ([], lg1) else add_pending_event (ee_queue_locks E 0) (into_queued_event op d) lg1)"
    by (simp only: enqueue_def Let_def s d prod.case lg1_def)
  consider "op_disable_all_logging (el_options lg) = Some True"
    | "op_disable_all_logging (el_options lg) \<noteq> Some True" "active"
    | "op_disable_all_logging (el_options lg) \<noteq> Some True" "\<not> active" "should_log d"
    | "op_disable_all_logging (el_options lg) \<noteq> Some True" "\<not> active" "\<not> should_log d" by blast
  then show ?thesis
  proof cases
    case 1
    then have "acc = []" "lg' = lg" using assms(2) eq by simp_all
    then show ?thesis using assms(1) account_frame [of lg lg] by simp
  next
    case 2
    then have "enqueue_event_with_secondary_exposures_as_primary x L E g (into_queued_event op d) (should_log d) lg1 = (acc, lg')"
      using assms(2) eq by simp
    from enqueue_with_secondary_account [OF ok1 this] frame show ?thesis by simp
  next
    case 3
    then have "add_pending_event (ee_queue_locks E 0) (into_queued_event op d) lg1 = (acc, lg')" using assms(2) eq by simp
    from add_pending_event_account [OF ok1 this] frame show ?thesis by simp
  next
    case 4
    then have "acc = []" "lg' = lg1" using assms(2) eq by simp_all
    then show ?thesis using ok1 frame [OF account_frame [of lg' lg1]] by simp
  qed
qed

subsection \<open>Beginning a flush\<close>

lemma checks_account:
  assumes "logger_ok lg" "try_add_non_exposed_checks_event x F lg = (acc, lg')"
  shows "logger_ok lg' \<and> account (mset acc) {#} lg lg'"
proof -
  let ?checks = "filter (\<lambda>(k, n). 0 < n) (el_non_exposed_checks lg)"
  let ?event = "new_non_exposed_checks_event x (fe_now F) ?checks"
  show ?thesis
  proof (cases "?checks = []")
    case True
    then show ?thesis using assms by (auto simp: try_add_non_exposed_checks_event_def intro: account_frame)
  next
    case False
    obtain r q where add: "queue_add (fe_add_lock F) (QPassthrough ?event) (el_queue lg) = (r, q)"
      by (cases "queue_add (fe_add_lock F) (QPassthrough ?event) (el_queue lg)")
    have lg': "el_queue lg' = q" "el_in_flight lg' = el_in_flight lg" "counted_lost lg' = counted_lost lg + obs_dropped (ObsAdd r)"
        "mset acc = op_input into_statsig_event_internal (OpAdd (fe_add_lock F) (QPassthrough ?event))"
      using assms(2) add False by (cases r; auto simp: try_add_non_exposed_checks_event_def Let_def)+
    have "conserves into_statsig_event_internal (mset acc) (el_queue lg) (ObsAdd r) (el_queue lg')"
      using add_conserves(2) [OF assms(1) add, of into_statsig_event_internal] lg' by simp
    from account_queue [OF this lg'(2,3)] add_conserves(1) [OF assms(1) add] lg'(1) show ?thesis by simp
  qed
qed

lemma log_dropped_account:
  "account {#} {#} lg (try_log_enqueue_dropped_events lg)" "el_queue (try_log_enqueue_dropped_events lg) = el_queue lg"
  by (auto simp: try_log_enqueue_dropped_events_def Let_def intro: account_frame)

lemma reconcile_no_lock_failure:
  "reconcile_batching into drain_ok True q = Some (r, q') \<Longrightarrow> r \<noteq> LockFailure"
  by (auto simp: reconcile_batching_def Let_def split: prod.splits if_splits option.splits)

lemma prepare_account:
  assumes "logger_ok lg"
  shows "\<exists>acc lg'. prepare_event_queue_for_flush x F ty lg = Some (acc, lg') \<and> logger_ok lg' \<and>
    (fe_batches_lock F \<longrightarrow> account (mset acc) {#} lg lg')"
proof -
  obtain acc lg1 where c: "try_add_non_exposed_checks_event x F lg = (acc, lg1)" by (cases "try_add_non_exposed_checks_event x F lg")
  define lg2 where "lg2 = try_log_enqueue_dropped_events lg1"
  note c1 = checks_account [OF assms c]
  have ok2: "logger_ok lg2" using c1 by (simp add: lg2_def log_dropped_account)
  have acc2: "account (mset acc) {#} lg lg2"
    using account_trans [of "mset acc" "{#}" lg lg1 "{#}" "{#}" lg2] c1 log_dropped_account(1) [of lg1] by (simp add: lg2_def)
  obtain r q where r: "reconcile_batching into_statsig_event_internal (fe_drain_lock F) (fe_batches_lock F) (el_queue lg2) = Some (r, q)"
      "queue_ok q" "r \<noteq> LockFailure \<longrightarrow> conserves into_statsig_event_internal {#} (el_queue lg2) (ObsReconcile r) q"
    using reconcile_conserves [OF ok2, of into_statsig_event_internal "fe_drain_lock F" "fe_batches_lock F"] by blast
  define lg3 where "lg3 = (case r of ReconcileSuccess \<Rightarrow> lg2\<lparr>el_queue := q\<rparr> | LockFailure \<Rightarrow> lg2\<lparr>el_queue := q\<rparr>
      | DroppedEvents n \<Rightarrow> if 0 < n then report (LogBatchingDroppedEvents n ty) (lg2\<lparr>el_queue := q\<rparr>) else lg2\<lparr>el_queue := q\<rparr>)"
  have p: "prepare_event_queue_for_flush x F ty lg = Some (acc, lg3)"
    using c r(1) by (cases r) (simp_all add: prepare_event_queue_for_flush_def lg2_def lg3_def Let_def)
  have lg3: "el_queue lg3 = q" "el_in_flight lg3 = el_in_flight lg2" "counted_lost lg3 = counted_lost lg2 + obs_dropped (ObsReconcile r)"
    unfolding lg3_def by (simp_all add: word_neq_0_conv [symmetric] split: queue_reconcile_result.split)
  have lock: "account (mset acc) {#} lg lg3" if "fe_batches_lock F"
  proof -
    have "reconcile_batching into_statsig_event_internal (fe_drain_lock F) True (el_queue lg2) = Some (r, q)"
      using r(1) that by simp
    then have "r \<noteq> LockFailure" by (rule reconcile_no_lock_failure)
    with r(3) lg3 have "account {#} (obs_taken (ObsReconcile r)) lg2 lg3" by (intro account_queue) simp_all
    from account_trans [OF acc2 this] show ?thesis by simp
  qed
  show ?thesis by (rule exI [of _ acc], rule exI [of _ lg3]) (simp add: p lg3(1) r(2) lock)
qed

text \<open>Batches taken out of the queue are under way afterwards.\<close>

lemma take_account:
  assumes "conserves into_statsig_event_internal {#} (el_queue lg) (ObsTaken bs) q"
  shows "account {#} {#} lg (lg\<lparr>el_queue := q, el_in_flight := el_in_flight lg @ map (\<lambda>b. \<lparr>ft_batch = b, ft_type = ty, ft_all = all\<rparr>) bs\<rparr>)"
proof -
  let ?m = "mset (concat (map eb_events bs))"
  from assms obtain lost where lost: "stored into_statsig_event_internal (el_queue lg) = stored into_statsig_event_internal q + ?m + lost"
      "of_nat (size lost) = (0 :: u64)" by (auto simp: balanced_def)
  have "sum_list (map (task_events \<circ> (\<lambda>b. \<lparr>ft_batch = b, ft_type = ty, ft_all = all\<rparr>)) bs) = ?m"
    by (induction bs) (simp_all add: task_events_def)
  then show ?thesis using lost
    by (auto simp: account_def held_events_def ac_simps intro!: balancedI [where lost = lost])
qed

lemma begin_next_account:
  assumes "logger_ok lg"
  shows "\<exists>acc lg'. begin_next x F ty lg = Some (acc, lg') \<and> logger_ok lg' \<and>
    (fe_batches_lock F \<longrightarrow> account (mset acc) {#} lg lg')"
proof -
  obtain acc lg1 where p: "prepare_event_queue_for_flush x F ty lg = Some (acc, lg1)" "logger_ok lg1"
      "fe_batches_lock F \<longrightarrow> account (mset acc) {#} lg lg1"
    using prepare_account [OF assms] by blast
  obtain b q where t: "take_next_batch (fe_take_lock F) (el_queue lg1) = (b, q)" by (cases "take_next_batch (fe_take_lock F) (el_queue lg1)")
  note tc = take_next_conserves [OF p(2) t, of into_statsig_event_internal]
  have "account {#} {#} lg1 (lg1\<lparr>el_queue := q, el_in_flight := el_in_flight lg1 @ map (\<lambda>b. \<lparr>ft_batch = b, ft_type = ty, ft_all = False\<rparr>) (opt_to_list b)\<rparr>)"
    using tc by (intro take_account) simp
  with p t tc account_trans [of "mset acc" "{#}" lg lg1 "{#}" "{#}"] show ?thesis
    by (simp add: begin_next_def flush_next_batch_begin_def)
qed

lemma begin_all_account:
  assumes "logger_ok lg"
  shows "\<exists>acc lg'. begin_all x F ty lg = Some (acc, lg') \<and> logger_ok lg' \<and>
    (fe_batches_lock F \<longrightarrow> account (mset acc) {#} lg lg')"
proof -
  obtain acc lg1 where p: "prepare_event_queue_for_flush x F ty lg = Some (acc, lg1)" "logger_ok lg1"
      "fe_batches_lock F \<longrightarrow> account (mset acc) {#} lg lg1"
    using prepare_account [OF assms] by blast
  obtain bs q where t: "take_all_batches (fe_take_lock F) (el_queue lg1) = (bs, q)" by (cases "take_all_batches (fe_take_lock F) (el_queue lg1)")
  note tc = take_all_conserves [OF p(2) t, of into_statsig_event_internal]
  have "account {#} {#} lg1 (lg1\<lparr>el_queue := q, el_in_flight := el_in_flight lg1 @ map (\<lambda>b. \<lparr>ft_batch = b, ft_type = ty, ft_all = True\<rparr>) bs\<rparr>)"
    using tc by (intro take_account) simp
  with p t tc account_trans [of "mset acc" "{#}" lg lg1 "{#}" "{#}"] show ?thesis
    by (simp add: begin_all_def flush_all_begin_def)
qed

subsection \<open>Ending a flush\<close>

lemma adjust_interval_simps [simp]:
  "el_queue (adjust_interval f lg) = el_queue lg" "el_in_flight (adjust_interval f lg) = el_in_flight lg"
  "counted_lost (adjust_interval f lg) = counted_lost lg"
  by (simp_all add: adjust_interval_def)

lemma drop_account: "account (mset (eb_events b)) {#} lg (drop_events_for_failure b ty lg)"
  unfolding account_def drop_events_for_failure_def
  by (rule balancedI [where lost = "mset (eb_events b)"]) (simp_all add: held_events_def)

lemma requeue_account:
  assumes "logger_ok lg"
  shows "logger_ok (try_requeue_failed_batch env lock_ok err b ty lg) \<and>
    account (mset (eb_events b)) {#} lg (try_requeue_failed_batch env lock_ok err b ty lg)"
proof (cases "err = RequestNotRetryable \<or> max_log_event_retries env < eb_attempts b")
  case True
  then show ?thesis using assms drop_account
    by (simp add: try_requeue_failed_batch_def) (simp add: drop_events_for_failure_def)
next
  case False
  obtain r q where rq: "requeue_batch lock_ok b (el_queue lg) = (r, q)" by (cases "requeue_batch lock_ok b (el_queue lg)")
  let ?lg = "try_requeue_failed_batch env lock_ok err b ty lg"
  note c = requeue_conserves [OF assms rq, of into_statsig_event_internal]
  have lg: "?lg = (case r of ReconcileSuccess \<Rightarrow> lg\<lparr>el_queue := q\<rparr> | LockFailure \<Rightarrow> lg\<lparr>el_queue := q\<rparr>
      | DroppedEvents n \<Rightarrow> if n = 0 then lg\<lparr>el_queue := q\<rparr> else report (LogBatchingDroppedEvents n ty) (lg\<lparr>el_queue := q\<rparr>))"
    using False rq by (simp add: try_requeue_failed_batch_def Let_def)
  have s: "el_queue ?lg = q" "el_in_flight ?lg = el_in_flight lg"
      "counted_lost ?lg = counted_lost lg + obs_dropped (ObsReconcile r)"
    unfolding lg by (simp_all split: queue_reconcile_result.split)
  have "account (mset (eb_events b)) (obs_taken (ObsReconcile r)) lg ?lg"
    using c s by (intro account_queue) simp_all
  then show ?thesis using c s(1) by simp
qed

text \<open>The adapter's answer: the batch was delivered, or it failed.\<close>

lemma log_batch_cases:
  obtains (sent) lg1 b1 where "log_batch outcome b lg = (None, b1, lg1)" "delivered_by outcome \<lparr>ft_batch = b, ft_type = ty, ft_all = all\<rparr> = eb_events b"
      "el_queue lg1 = el_queue lg" "el_in_flight lg1 = el_in_flight lg" "counted_lost lg1 = counted_lost lg"
  | (failed) err b1 where "log_batch outcome b lg = (Some err, b1, lg)" "eb_events b1 = eb_events b"
      "delivered_by outcome \<lparr>ft_batch = b, ft_type = ty, ft_all = all\<rparr> = []"
proof (cases outcome)
  case (LogOk ok)
  then show ?thesis by (cases ok) (auto simp: log_batch_def delivered_by_def intro: sent failed)
qed (auto simp: log_batch_def delivered_by_def intro: sent failed)

lemma account_delivered:
  assumes "el_queue lg' = el_queue lg" "el_in_flight lg' = el_in_flight lg" "counted_lost lg' = counted_lost lg"
  shows "account m m lg lg'"
  using assms by (simp add: account_def held_events_def)

lemma finish_account:
  assumes "logger_ok lg"
  shows "logger_ok (finish_task env lock_ok outcome t lg) \<and>
    account (task_events t) (mset (delivered_by outcome t)) lg (finish_task env lock_ok outcome t lg)"
proof -
  obtain b ty all where t: "t = \<lparr>ft_batch = b, ft_type = ty, ft_all = all\<rparr>" by (cases t)
  let ?adjusted = "adjust_interval (adjust_for_failure env) lg"
  have framed: "account i j lg l" if "account i j ?adjusted l" for i j l
    by (rule account_after_frame [OF _ _ _ that]) simp_all
  show ?thesis
  proof (cases rule: log_batch_cases [of outcome b lg ty all])
    case (sent lg1 b1)
    then show ?thesis using assms by (auto simp: t finish_task_def flush_all_end_def flush_next_batch_end_def task_events_def intro: account_delivered)
  next
    case (failed err b1)
    have requeue: "logger_ok (try_requeue_failed_batch env lock_ok err b1 ty ?adjusted) \<and>
        account (mset (eb_events b1)) {#} lg (try_requeue_failed_batch env lock_ok err b1 ty ?adjusted)"
      using requeue_account [of ?adjusted env lock_ok err b1 ty] assms framed by simp
    have drop: "logger_ok (drop_events_for_failure b1 ty lg)" using assms by (simp add: drop_events_for_failure_def)
    consider "all" "ty \<noteq> FlushManual" | "all" "ty = FlushManual" | "\<not> all" by blast
    then show ?thesis
    proof cases
      case 1
      then show ?thesis using failed drop drop_account [of b1 lg ty] by (simp add: t finish_task_def flush_all_end_def task_events_def)
    next
      case 2
      then show ?thesis using failed requeue by (simp add: t finish_task_def flush_all_end_def task_events_def)
    next
      case 3
      then show ?thesis using failed requeue by (simp add: t finish_task_def flush_next_batch_end_def task_events_def)
    qed
  qed
qed

section \<open>Every step\<close>

lemma in_flight_remove:
  assumes "i < length ts"
  shows "sum_list (map task_events ts) = sum_list (map task_events (take i ts @ drop (Suc i) ts)) + task_events (ts ! i)"
  using arg_cong [OF id_take_nth_drop [OF assms], of "\<lambda>l. sum_list (map task_events l)"] by (simp add: ac_simps)

definition step_accounted :: "logger_obs \<Rightarrow> 'c event_logger \<Rightarrow> 'c event_logger \<Rightarrow> bool" where
  "step_accounted ob lg lg' \<longleftrightarrow> lb_lock_failed ob \<or>
     balanced (held_events lg + mset (lb_accepted ob)) (held_events lg' + mset (lb_delivered ob)) (lb_reported ob)"

lemma logger_resultI:
  assumes "logger_ok lg'" "lock_failed \<or> account (mset acc) (mset del) lg lg'"
  shows "\<exists>ob lg''. Some (logger_result lg acc del lock_failed lg') = Some (ob, lg'') \<and> logger_ok lg'' \<and> step_accounted ob lg lg''"
  using assms by (auto simp: logger_result_def step_accounted_def account_def)

lemma logger_result_optionI:
  assumes "\<exists>acc lg'. r = Some (acc, lg') \<and> logger_ok lg' \<and> (locked \<longrightarrow> account (mset acc) {#} lg lg')"
  shows "\<exists>ob lg'. map_option (\<lambda>(acc, lg'). logger_result lg acc [] (\<not> locked) lg') r = Some (ob, lg') \<and>
    logger_ok lg' \<and> step_accounted ob lg lg'"
proof -
  from assms obtain acc lg' where "r = Some (acc, lg')" "logger_ok lg'" "\<not> locked \<or> account (mset acc) (mset []) lg lg'"
    by auto
  with logger_resultI [of lg' "\<not> locked" acc "[]" lg] show ?thesis by simp
qed

lemma logger_step_accounted:
  assumes "logger_ok lg"
  shows "\<exists>ob lg'. logger_step x L env a lg = Some (ob, lg') \<and> logger_ok lg' \<and> step_accounted ob lg lg'"
proof (cases a)
  case (DoEnqueue E g op)
  obtain acc lg' where e: "enqueue x L E g op lg = (acc, lg')" by (cases "enqueue x L E g op lg")
  with enqueue_account [OF assms e] logger_resultI [of lg' False acc "[]" lg] DoEnqueue show ?thesis by simp
next
  case (DoIncrement name)
  have "account {#} {#} lg (increment_non_exposure_checks name lg)"
    by (rule account_frame) (simp_all add: increment_non_exposure_checks_def)
  with assms logger_resultI [of "increment_non_exposure_checks name lg" False "[]" "[]" lg] DoIncrement show ?thesis
    by (simp add: increment_non_exposure_checks_def)
next
  case (DoBeginNext F ty)
  with logger_result_optionI [OF begin_next_account [OF assms, of x F ty]] show ?thesis by simp
next
  case (DoBeginAll F ty)
  with logger_result_optionI [OF begin_all_account [OF assms, of x F ty]] show ?thesis by simp
next
  case (DoBeginScheduled F full_ok)
  show ?thesis
  proof (cases "scheduled_flush_due env (fe_now F) full_ok lg")
    case None
    with assms logger_resultI [of lg False "[]" "[]" lg] account_frame [of lg lg] DoBeginScheduled show ?thesis by simp
  next
    case (Some ty)
    let ?m = "adjust_interval (mark_scheduled_flush_attempt (fe_now F)) lg"
    have frame: "account i j lg l" if "account i j ?m l" for i j l
      by (rule account_after_frame [OF _ _ _ that]) simp_all
    have "\<exists>acc lg'. begin_next x F ty ?m = Some (acc, lg') \<and> logger_ok lg' \<and>
        (fe_batches_lock F \<longrightarrow> account (mset acc) {#} lg lg')"
      using begin_next_account [of ?m x F ty] assms frame by simp blast
    from logger_result_optionI [OF this] Some DoBeginScheduled show ?thesis by simp
  qed
next
  case (DoFinish i lock_ok outcome)
  show ?thesis
  proof (cases "length (el_in_flight lg) \<le> i")
    case True
    with assms logger_resultI [of lg False "[]" "[]" lg] account_frame [of lg lg] DoFinish show ?thesis by simp
  next
    case False
    define t where "t = el_in_flight lg ! i"
    define lg1 where "lg1 = lg\<lparr>el_in_flight := take i (el_in_flight lg) @ drop (Suc i) (el_in_flight lg)\<rparr>"
    have held: "held_events lg = held_events lg1 + task_events t" "counted_lost lg1 = counted_lost lg"
      using in_flight_remove [of i "el_in_flight lg"] False by (simp_all add: held_events_def lg1_def t_def ac_simps)
    note f = finish_account [of lg1 env lock_ok outcome t]
    have ok1: "logger_ok lg1" using assms by (simp add: lg1_def)
    then have "account (mset []) (mset (delivered_by outcome t)) lg (finish_task env lock_ok outcome t lg1)"
      using f held by (simp add: account_def)
    with f ok1 logger_resultI [of "finish_task env lock_ok outcome t lg1" False "[]" "delivered_by outcome t" lg] False DoFinish
    show ?thesis by (simp add: Let_def t_def lg1_def)
  qed
next
  case (DoResetSampling c1 l1 c2 l2 g now1 now2)
  let ?l = "lg\<lparr>el_event_sampler := try_reset_all_sampling L c1 l1 c2 l2 g now1 now2 (el_event_sampler lg)\<rparr>"
  have "account {#} {#} lg ?l" by (rule account_frame) simp_all
  with assms logger_resultI [of ?l False "[]" "[]" lg] DoResetSampling show ?thesis by simp
qed

interpretation logger: accounting "logger_step x L env" logger_ok held_events "\<lambda>_ ob. mset (lb_accepted ob)"
    "\<lambda>ob. mset (lb_delivered ob)" lb_reported lb_lock_failed for x and L :: "'c lru_ops" and env
proof unfold_locales
  fix a ob and s s' :: "'c event_logger"
  assume ok: "logger_ok s"
  note acc = logger_step_accounted [OF ok, of x L env a]
  then show "\<exists>ob s'. logger_step x L env a s = Some (ob, s')" by blast
  assume step: "logger_step x L env a s = Some (ob, s')"
  with acc show "logger_ok s'" by auto
  assume "\<not> lb_lock_failed ob"
  with step acc show "balanced (held_events s + mset (lb_accepted ob)) (held_events s' + mset (lb_delivered ob)) (lb_reported ob)"
    by (auto simp: step_accounted_def)
qed

lemma el_new_simps:
  "el_queue (el_new x L env now options) = eq_new (opt_default DEFAULT_BATCH_SIZE (op_event_logging_max_queue_size options))
     (opt_default DEFAULT_PENDING_BATCH_COUNT_MAX (op_event_logging_max_pending_batch_queue_size options))"
  "held_events (el_new x L env now options) = {#}" "counted_lost (el_new x L env now options) = 0"
  by (simp_all add: el_new_def held_events_def counted_lost_def)

lemma reported_counted:
  assumes "logger_step x L env a lg = Some (ob, lg')"
  shows "counted_lost lg' = counted_lost lg + lb_reported ob"
  using assms by (cases a) (auto simp: logger_result_def Let_def split: if_splits option.splits prod.splits)

lemma run_reported_counted:
  "run_steps (logger_step x L env) ops lg = Some (obs, lg') \<Longrightarrow>
   counted_lost lg' = counted_lost lg + sum_list (map lb_reported obs)"
  by (induction ops arbitrary: lg obs) (auto split: option.splits prod.splits dest: reported_counted)

lemma map2_snd: "length ys = length xs \<Longrightarrow> map2 (\<lambda>_ b. f b) xs ys = map f ys"
  by (induction xs arbitrary: ys) (auto simp: length_Suc_conv)

section \<open>Properties\<close>


definition sample_options :: logger_options where
  "sample_options = \<lparr>op_event_logging_max_queue_size = Some 10, op_event_logging_max_pending_batch_queue_size = None,
     op_exposure_dedupe_max_keys = None, op_disable_all_logging = None, op_experimental_flags = None\<rparr>"

definition sample_run :: "logger_op list" where
  "sample_run = [DoIncrement ''gate_a'',
     DoBeginNext \<lparr>fe_now = 7, fe_add_lock = True, fe_drain_lock = True, fe_batches_lock = True, fe_take_lock = True\<rparr> FlushManual,
     DoFinish 0 True (LogOk True)]"


end
