(* ===== verification/Options.thy ===== *)
theory Options
  imports Event_Logger Spec_Store
begin

text \<open>
  The options of an instance, \<open>src/statsig-rust/src/statsig_options.rs\<close>, with their validation and what is
  written of them, the log levels and the preparation of a log line of \<open>output_logger.rs\<close>, and the details of
  an initialization, \<open>init_details.rs\<close>.

  Of an adapter of the host the model keeps whether there is one or, where it is written, its name.
\<close>

section \<open>Log lines\<close>

datatype log_level = LogNone | LogDebug | LogInfo | LogWarn | LogError

abbreviation DEFAULT_LOG_LEVEL :: log_level where "DEFAULT_LOG_LEVEL \<equiv> LogWarn"

definition log_level_from_str :: "ext \<Rightarrow> string \<Rightarrow> log_level" where
  "log_level_from_str x level =
     (let l = x_to_lowercase x level
      in if l = ''debug'' then LogDebug else if l = ''info'' then LogInfo else if l = ''warn'' then LogWarn
         else if l = ''error'' then LogError else if l = ''none'' then LogNone else DEFAULT_LOG_LEVEL)"

definition log_level_from_number :: "u32 \<Rightarrow> log_level" where
  "log_level_from_number level =
     (if level = 0 then LogNone else if level = 1 then LogError else if level = 2 then LogWarn
      else if level = 3 then LogInfo else if level = 4 then LogDebug else DEFAULT_LOG_LEVEL)"

fun log_level_to_number :: "log_level \<Rightarrow> u32" where
  "log_level_to_number LogDebug = 4"
| "log_level_to_number LogInfo = 3"
| "log_level_to_number LogWarn = 2"
| "log_level_to_number LogError = 1"
| "log_level_to_number LogNone = 0"

definition has_valid_log_level :: "bool \<Rightarrow> log_level \<Rightarrow> log_level \<Rightarrow> bool" where
  "has_valid_log_level lock_ok current level \<longleftrightarrow> lock_ok \<and> log_level_to_number level \<le> log_level_to_number current"

abbreviation MAX_CHARS :: nat where "MAX_CHARS \<equiv> 400"
abbreviation TRUNCATED_SUFFIX :: string where "TRUNCATED_SUFFIX \<equiv> ''...[TRUNCATED]''"

definition log_line :: "(string \<Rightarrow> bool) \<Rightarrow> string \<Rightarrow> string option" where
  "log_line uni msg =
     (let truncated =
        (if MAX_CHARS < length (utf8_encodings msg)
         then concat (take (MAX_CHARS - length TRUNCATED_SUFFIX) (utf8_encodings msg)) @ TRUNCATED_SUFFIX
         else msg)
      in sanitize_secret_key uni truncated)"

lemma log_level_number_roundtrip: "log_level_from_number (log_level_to_number l) = l"
  by (cases l) (simp_all add: log_level_from_number_def)

text \<open>The levels of captured console lines, \<open>console_capture/console_log_line_levels.rs\<close>.\<close>

datatype statsig_log_line_level = LineTrace | LineDebug | LineLog | LineInfo | LineWarn | LineError

fun to_status_string :: "statsig_log_line_level \<Rightarrow> string" where
  "to_status_string LineTrace = ''trace''"
| "to_status_string LineDebug = ''debug''"
| "to_status_string LineLog = ''info''"
| "to_status_string LineInfo = ''info''"
| "to_status_string LineWarn = ''warn''"
| "to_status_string LineError = ''error''"

fun line_level_debug :: "statsig_log_line_level \<Rightarrow> string" where
  "line_level_debug LineTrace = ''Trace''"
| "line_level_debug LineDebug = ''Debug''"
| "line_level_debug LineLog = ''Log''"
| "line_level_debug LineInfo = ''Info''"
| "line_level_debug LineWarn = ''Warn''"
| "line_level_debug LineError = ''Error''"

definition line_level_from_string :: "ext \<Rightarrow> string \<Rightarrow> statsig_log_line_level option" where
  "line_level_from_string x level =
     (let l = x_to_lowercase x level
      in if l = ''trace'' then Some LineTrace else if l = ''debug'' then Some LineDebug else if l = ''log'' then Some LineLog
         else if l = ''info'' then Some LineInfo else if l = ''warn'' \<or> l = ''warning'' then Some LineWarn
         else if l = ''error'' \<or> l = ''err'' then Some LineError else None)"

section \<open>Options\<close>

datatype config_compression_mode = CompressGzip | CompressDictionary

definition config_compression_mode_from :: "ext \<Rightarrow> string \<Rightarrow> config_compression_mode" where
  "config_compression_mode_from x s =
     (let l = x_to_lowercase x s in if l = ''gzip'' then CompressGzip else if l = ''dictionary'' then CompressDictionary else CompressGzip)"

datatype specs_adapter_type = NetworkGrpcWebsocket | NetworkHttp | DataStoreAdapter

definition specs_adapter_type_from :: "ext \<Rightarrow> string \<Rightarrow> specs_adapter_type" where
  "specs_adapter_type_from x val =
     (let l = x_to_lowercase x val
      in if l = ''network_grpc_websocket'' then NetworkGrpcWebsocket else if l = ''network_http'' then NetworkHttp
         else if l = ''data_store'' then DataStoreAdapter else NetworkHttp)"

record spec_adapter_config =
  sac_adapter_type :: specs_adapter_type
  sac_init_timeout_ms :: u64
  sac_specs_url :: "string option"
  sac_authentication_mode :: "string option"
  sac_ca_cert_path :: "string option"
  sac_client_cert_path :: "string option"
  sac_client_key_path :: "string option"
  sac_domain_name :: "string option"

record proxy_config =
  px_host :: "string option"
  px_port :: "16 word option"
  px_auth :: "string option"
  px_protocol :: "string option"
  px_ca_cert_path :: "string option"

record statsig_options =
  so_data_store :: "unit option"
  so_data_store_key_schema_version :: "data_store_key_version option"
  so_disable_all_logging :: "bool option"
  so_disable_country_lookup :: "bool option"
  so_disable_network :: "bool option"
  so_log_event_connection_reuse :: "bool option"
  so_enable_id_lists :: "bool option"
  so_enable_dcs_deltas :: "bool option"
  so_dcs_delta_no_progress_threshold :: "u32 option"
  so_environment :: "string option"
  so_config_compression_mode :: "config_compression_mode option"
  so_event_logging_adapter :: "unit option"
  so_event_logging_flush_interval_ms :: "u32 option"
  so_event_logging_max_pending_batch_queue_size :: "u32 option"
  so_event_logging_max_queue_size :: "u32 option"
  so_exposure_dedupe_max_keys :: "u32 option"
  so_fallback_to_statsig_api :: "bool option"
  so_global_custom_fields :: "UserDataMap option"
  so_id_lists_adapter :: "string option"
  so_id_lists_sync_interval_ms :: "u32 option"
  so_id_lists_request_timeout_ms :: "u64 option"
  so_id_lists_url :: "string option"
  so_download_id_list_file_api :: "string option"
  so_init_timeout_ms :: "u64 option"
  so_log_event_url :: "string option"
  so_observability_client :: "unit option"
  so_output_log_level :: "log_level option"
  so_output_logger_provider :: "unit option"
  so_override_adapter :: "unit option"
  so_persistent_storage :: "unit option"
  so_service_name :: "string option"
  so_spec_adapters_config :: "spec_adapter_config list option"
  so_specs_adapter :: "string option"
  so_specs_sync_interval_ms :: "u32 option"
  so_specs_url :: "string option"
  so_wait_for_country_lookup_init :: "bool option"
  so_wait_for_user_agent_init :: "bool option"
  so_proxy_config :: "proxy_config option"
  so_console_capture_enabled :: "bool option"
  so_use_third_party_ua_parser :: "bool option"
  so_disable_disk_access :: "bool option"
  so_experimental_flags :: "string list option"

definition options_default :: statsig_options where
  "options_default = \<lparr>so_data_store = None, so_data_store_key_schema_version = None, so_disable_all_logging = None,
     so_disable_country_lookup = None, so_disable_network = None, so_log_event_connection_reuse = None,
     so_enable_id_lists = None, so_enable_dcs_deltas = None, so_dcs_delta_no_progress_threshold = None,
     so_environment = None, so_config_compression_mode = None, so_event_logging_adapter = None,
     so_event_logging_flush_interval_ms = None, so_event_logging_max_pending_batch_queue_size = None,
     so_event_logging_max_queue_size = None, so_exposure_dedupe_max_keys = None, so_fallback_to_statsig_api = None,
     so_global_custom_fields = None, so_id_lists_adapter = None, so_id_lists_sync_interval_ms = None,
     so_id_lists_request_timeout_ms = None, so_id_lists_url = None, so_download_id_list_file_api = None,
     so_init_timeout_ms = None, so_log_event_url = None, so_observability_client = None, so_output_log_level = None,
     so_output_logger_provider = None, so_override_adapter = None, so_persistent_storage = None, so_service_name = None,
     so_spec_adapters_config = None, so_specs_adapter = None, so_specs_sync_interval_ms = None, so_specs_url = None,
     so_wait_for_country_lookup_init = None, so_wait_for_user_agent_init = None, so_proxy_config = None,
     so_console_capture_enabled = None, so_use_third_party_ua_parser = None, so_disable_disk_access = None,
     so_experimental_flags = None\<rparr>"

text \<open>The one setter of the builder that does not just store its argument.\<close>

definition set_output_log_level :: "u32 option \<Rightarrow> statsig_options \<Rightarrow> statsig_options" where
  "set_output_log_level level opts =
     (case level of Some l \<Rightarrow> opts\<lparr>so_output_log_level := Some (log_level_from_number l)\<rparr> | None \<Rightarrow> opts)"

section \<open>Validation\<close>

abbreviation MIN_SYNC_INTERVAL :: u32 where "MIN_SYNC_INTERVAL \<equiv> 1000"
abbreviation MIN_BATCH_SIZE :: u32 where "MIN_BATCH_SIZE \<equiv> 10"
abbreviation MAX_BATCH_SIZE :: u32 where "MAX_BATCH_SIZE \<equiv> 2000"
abbreviation MIN_PENDING_BATCH_COUNT :: u32 where "MIN_PENDING_BATCH_COUNT \<equiv> 1"

definition is_sync_interval_invalid :: "u32 option \<Rightarrow> bool" where
  "is_sync_interval_invalid interval_ms = (case interval_ms of Some i \<Rightarrow> i < MIN_SYNC_INTERVAL | None \<Rightarrow> False)"

definition should_fix_null_url :: "string option \<Rightarrow> bool" where
  "should_fix_null_url maybe_url =
     (case maybe_url of Some url \<Rightarrow> url = [] \<or> eq_ignore_ascii_case url ''null'' | None \<Rightarrow> False)"

definition bounds_check_logging_batch_size :: "u32 option \<Rightarrow> bool" where
  "bounds_check_logging_batch_size batch_size =
     (case batch_size of Some b \<Rightarrow> b < MIN_BATCH_SIZE \<or> MAX_BATCH_SIZE < b | None \<Rightarrow> False)"

definition bounds_check_loggging_pending_queue_size :: "u32 option \<Rightarrow> bool" where
  "bounds_check_loggging_pending_queue_size queue_size =
     (case queue_size of Some n \<Rightarrow> n < MIN_PENDING_BATCH_COUNT | None \<Rightarrow> False)"

definition unless :: "bool \<Rightarrow> 'a option \<Rightarrow> 'a option" where
  "unless bad v = (if bad then None else v)"

definition validate_and_fix :: "bool \<Rightarrow> statsig_options \<Rightarrow> statsig_options" where
  "validate_and_fix test_env opts =
     (if test_env then opts
      else opts\<lparr>
        so_specs_sync_interval_ms := unless (is_sync_interval_invalid (so_specs_sync_interval_ms opts)) (so_specs_sync_interval_ms opts),
        so_id_lists_sync_interval_ms := unless (is_sync_interval_invalid (so_id_lists_sync_interval_ms opts)) (so_id_lists_sync_interval_ms opts),
        so_event_logging_max_queue_size :=
          unless (bounds_check_logging_batch_size (so_event_logging_max_queue_size opts)) (so_event_logging_max_queue_size opts),
        so_event_logging_max_pending_batch_queue_size :=
          unless (bounds_check_loggging_pending_queue_size (so_event_logging_max_pending_batch_queue_size opts))
            (so_event_logging_max_pending_batch_queue_size opts),
        so_specs_url := unless (should_fix_null_url (so_specs_url opts)) (so_specs_url opts),
        so_id_lists_url := unless (should_fix_null_url (so_id_lists_url opts)) (so_id_lists_url opts),
        so_download_id_list_file_api :=
          unless (should_fix_null_url (so_download_id_list_file_api opts)) (so_download_id_list_file_api opts),
        so_log_event_url := unless (should_fix_null_url (so_log_event_url opts)) (so_log_event_url opts)\<rparr>)"

text \<open>The options the event logger reads.\<close>

definition logger_options_of :: "statsig_options \<Rightarrow> logger_options" where
  "logger_options_of opts =
     \<lparr>op_event_logging_max_queue_size = so_event_logging_max_queue_size opts,
      op_event_logging_max_pending_batch_queue_size = so_event_logging_max_pending_batch_queue_size opts,
      op_exposure_dedupe_max_keys = so_exposure_dedupe_max_keys opts,
      op_disable_all_logging = so_disable_all_logging opts, op_experimental_flags = so_experimental_flags opts\<rparr>"

section \<open>What is written of them\<close>

definition get_if_set :: "'a option \<Rightarrow> string option" where
  "get_if_set s = map_option (\<lambda>_. ''set'') s"

definition get_display_name :: "string option \<Rightarrow> string option" where
  "get_display_name s = s"

definition u32_json :: "u32 \<Rightarrow> json" where
  "u32_json n = JNumber (PosInt (unat n))"

fun specs_adapter_type_name :: "specs_adapter_type \<Rightarrow> string" where
  "specs_adapter_type_name NetworkGrpcWebsocket = ''NetworkGrpcWebsocket''"
| "specs_adapter_type_name NetworkHttp = ''NetworkHttp''"
| "specs_adapter_type_name DataStoreAdapter = ''DataStore''"

definition opt_text_json :: "string option \<Rightarrow> json" where
  "opt_text_json v = (case v of Some s \<Rightarrow> JString s | None \<Rightarrow> JNull)"

definition spec_adapter_config_json :: "spec_adapter_config \<Rightarrow> json" where
  "spec_adapter_config_json c =
     JObject [(''adapter_type'', JString (specs_adapter_type_name (sac_adapter_type c))),
       (''init_timeout_ms'', u64_json (sac_init_timeout_ms c)), (''specs_url'', opt_text_json (sac_specs_url c)),
       (''authentication_mode'', opt_text_json (sac_authentication_mode c)), (''ca_cert_path'', opt_text_json (sac_ca_cert_path c)),
       (''client_cert_path'', opt_text_json (sac_client_cert_path c)), (''client_key_path'', opt_text_json (sac_client_key_path c)),
       (''domain_name'', opt_text_json (sac_domain_name c))]"

definition serialize_options :: "statsig_options \<Rightarrow> json" where
  "serialize_options opts =
     JObject
       (serialize_data_field ''spec_url'' (map_option JString (so_specs_url opts))
        @ serialize_data_field ''spec_adapter'' (map_option JString (get_display_name (so_specs_adapter opts)))
        @ serialize_data_field ''spec_adapter_configs''
            (map_option (JArray \<circ> map spec_adapter_config_json) (so_spec_adapters_config opts))
        @ serialize_data_field ''specs_sync_interval_ms'' (map_option u32_json (so_specs_sync_interval_ms opts))
        @ serialize_data_field ''init_timeout_ms'' (map_option u64_json (so_init_timeout_ms opts))
        @ serialize_data_field ''data_store'' (map_option JString (get_if_set (so_data_store opts)))
        @ serialize_data_field ''log_event_url'' (map_option JString (so_log_event_url opts))
        @ serialize_data_field ''disable_all_logging'' (map_option JBool (so_disable_all_logging opts))
        @ serialize_data_field ''disable_network'' (map_option JBool (so_disable_network opts))
        @ serialize_data_field ''id_lists_url'' (map_option JString (so_id_lists_url opts))
        @ serialize_data_field ''download_id_list_file_api'' (map_option JString (so_download_id_list_file_api opts))
        @ serialize_data_field ''enable_id_lists'' (map_option JBool (so_enable_id_lists opts))
        @ serialize_data_field ''enable_dcs_deltas'' (map_option JBool (so_enable_dcs_deltas opts))
        @ serialize_data_field ''dcs_delta_no_progress_threshold'' (map_option u32_json (so_dcs_delta_no_progress_threshold opts))
        @ serialize_data_field ''wait_for_user_agent_init'' (map_option JBool (so_wait_for_user_agent_init opts))
        @ serialize_data_field ''wait_for_country_lookup_init'' (map_option JBool (so_wait_for_country_lookup_init opts))
        @ serialize_data_field ''id_lists_sync_interval'' (map_option u32_json (so_id_lists_sync_interval_ms opts))
        @ serialize_data_field ''id_lists_request_timeout_ms'' (map_option u64_json (so_id_lists_request_timeout_ms opts))
        @ serialize_data_field ''environment'' (map_option JString (so_environment opts))
        @ serialize_data_field ''id_list_adapter'' (map_option JString (get_display_name (so_id_lists_adapter opts)))
        @ serialize_data_field ''fallback_to_statsig_api'' (map_option JBool (so_fallback_to_statsig_api opts))
        @ serialize_data_field ''override_adapter'' (map_option JString (get_if_set (so_override_adapter opts)))
        @ serialize_data_field ''service_name'' (map_option JString (get_if_set (so_service_name opts)))
        @ serialize_data_field ''global_custom_fields'' (map_option json_of_map (so_global_custom_fields opts))
        @ serialize_data_field ''experimental_flags'' (map_option (JArray \<circ> map JString) (so_experimental_flags opts)))"

section \<open>Details of an initialization\<close>

record failure_details =
  fd_reason :: string
  fd_error :: "statsig_err option"

record initialize_details =
  id_duration_ms :: u64
  id_init_success :: bool
  id_is_config_spec_ready :: bool
  id_is_id_list_ready :: "bool option"
  id_source :: specs_source
  id_failure_details :: "failure_details option"
  id_spec_source_api :: "string option"

definition init_details_default :: initialize_details where
  "init_details_default = \<lparr>id_duration_ms = 0, id_init_success = False, id_is_config_spec_ready = False,
     id_is_id_list_ready = None, id_source = SrcUninitialized, id_failure_details = None, id_spec_source_api = None\<rparr>"

text \<open>The text of an error can panic (\<open>None\<close>).\<close>

definition init_details_new ::
    "(string \<Rightarrow> bool) \<Rightarrow> bool \<Rightarrow> u64 \<Rightarrow> specs_info \<Rightarrow> bool option \<Rightarrow> statsig_err option \<Rightarrow> initialize_details option" where
  "init_details_new uni init_success duration_ms info is_id_list_ready err =
     map_option (\<lambda>failure.
         \<lparr>id_duration_ms = duration_ms, id_init_success = init_success,
          id_is_config_spec_ready = (case in_lcut info of Some v \<Rightarrow> v \<noteq> 0 | None \<Rightarrow> False),
          id_is_id_list_ready = is_id_list_ready, id_source = in_source info, id_failure_details = failure,
          id_spec_source_api = in_source_api info\<rparr>)
       (case err of
          None \<Rightarrow> Some None
        | Some (NetworkError (NetDisableNetworkOn _)) \<Rightarrow> Some None
        | Some e \<Rightarrow> map_option (\<lambda>reason. Some \<lparr>fd_reason = reason, fd_error = Some e\<rparr>) (statsig_err_display uni e))"

definition init_details_from_error :: "string \<Rightarrow> statsig_err option \<Rightarrow> initialize_details" where
  "init_details_from_error reason err =
     init_details_default\<lparr>id_failure_details := Some \<lparr>fd_reason = reason, fd_error = err\<rparr>\<rparr>"

definition init_details_from_timeout_failure :: "u64 \<Rightarrow> initialize_details" where
  "init_details_from_timeout_failure timeout_ms =
     init_details_default\<lparr>id_duration_ms := timeout_ms,
       id_failure_details := Some \<lparr>fd_reason = ''Initialization timed out'', fd_error = None\<rparr>\<rparr>"

section \<open>Properties\<close>

lemma unless_Some: "unless b v = Some a \<longleftrightarrow> \<not> b \<and> v = Some a"
  by (simp add: unless_def)

lemma unless_idem: "unless (P (unless (P v) v)) (unless (P v) v) = unless (P v) v"
  by (simp add: unless_def)

lemma unat_ge: "(a :: u32) \<le> b \<Longrightarrow> unat a \<le> unat b"
  by (simp add: word_le_nat_alt)

text \<open>
  C34: Outside tests validation makes the options safe and changes no more than it must. A sync interval
  that is set is at least a second, a URL that is set is neither empty nor null, and the event logger built
  from the options has batches of at least 10 and at most 2000 events and room for one batch at least, so
  cutting its events into batches ends for every list of events. Validating again changes nothing, and options
  that satisfy the bounds are kept.
\<close>

theorem validated_options_safe:
  fixes opts :: statsig_options
  defines "v \<equiv> validate_and_fix False opts"
  shows "(\<forall>i. so_specs_sync_interval_ms v = Some i \<or> so_id_lists_sync_interval_ms v = Some i \<longrightarrow> 1000 \<le> i) \<and>
    (\<forall>u. u = so_specs_url v \<or> u = so_id_lists_url v \<or> u = so_download_id_list_file_api v \<or> u = so_log_event_url v \<longrightarrow>
       \<not> should_fix_null_url u) \<and>
    (let b = eq_batch_size (el_queue (el_new x L env now (logger_options_of v)))
     in 10 \<le> b \<and> b \<le> 2000 \<and> (\<forall>es. create_batches b es \<noteq> None)) \<and>
    0 < eq_max_pending_batches (el_queue (el_new x L env now (logger_options_of v))) \<and>
    validate_and_fix False v = v"
proof -
  have intervals: "so_specs_sync_interval_ms v = Some i \<or> so_id_lists_sync_interval_ms v = Some i \<longrightarrow> 1000 \<le> i" for i
    by (auto simp: v_def validate_and_fix_def unless_Some is_sync_interval_invalid_def not_less)
  have urls: "u = so_specs_url v \<or> u = so_id_lists_url v \<or> u = so_download_id_list_file_api v \<or> u = so_log_event_url v \<longrightarrow>
       \<not> should_fix_null_url u" for u
    by (auto simp: v_def validate_and_fix_def unless_def) (simp_all add: should_fix_null_url_def)
  have "10 \<le> opt_default DEFAULT_BATCH_SIZE (so_event_logging_max_queue_size v) \<and>
      opt_default DEFAULT_BATCH_SIZE (so_event_logging_max_queue_size v) \<le> 2000"
    by (cases "so_event_logging_max_queue_size opts")
      (auto simp: v_def validate_and_fix_def unless_def bounds_check_logging_batch_size_def not_less)
  from unat_ge [OF conjunct1 [OF this]] unat_ge [OF conjunct2 [OF this]]
  have size: "10 \<le> eq_batch_size (el_queue (el_new x L env now (logger_options_of v)))"
      "eq_batch_size (el_queue (el_new x L env now (logger_options_of v))) \<le> 2000"
    by (simp_all add: el_new_def eq_new_def logger_options_of_def Let_def)
  have "opt_default DEFAULT_PENDING_BATCH_COUNT_MAX (so_event_logging_max_pending_batch_queue_size v) \<noteq> 0"
    by (cases "so_event_logging_max_pending_batch_queue_size opts")
      (auto simp: v_def validate_and_fix_def unless_def bounds_check_loggging_pending_queue_size_def not_less)
  then have room: "0 < eq_max_pending_batches (el_queue (el_new x L env now (logger_options_of v)))"
    by (simp add: el_new_def eq_new_def logger_options_of_def Let_def unat_gt_0)
  have "validate_and_fix False v = v"
    by (simp add: v_def validate_and_fix_def unless_idem)
  moreover have "\<forall>es. create_batches (eq_batch_size (el_queue (el_new x L env now (logger_options_of v)))) es \<noteq> None"
    using size(1) create_batches_terminates_iff by (metis less_le_trans zero_less_numeral)
  ultimately show ?thesis using intervals urls size room unfolding Let_def by blast
qed


theorem validated_options_safe_witness:
  "so_id_lists_sync_interval_ms (validate_and_fix False (options_default\<lparr>so_id_lists_sync_interval_ms := Some 5000,
     so_specs_sync_interval_ms := Some 5\<rparr>)) = Some 5000 \<and> (1000 :: u32) \<le> 5000 \<and>
   so_specs_sync_interval_ms (validate_and_fix False (options_default\<lparr>so_id_lists_sync_interval_ms := Some 5000,
     so_specs_sync_interval_ms := Some 5\<rparr>)) = None \<and>
   \<not> should_fix_null_url (so_specs_url (validate_and_fix False (options_default\<lparr>so_specs_url := Some ''NULL''\<rparr>)))"
proof -
  let ?o = "options_default\<lparr>so_id_lists_sync_interval_ms := Some 5000, so_specs_sync_interval_ms := Some 5\<rparr>"
  have "so_id_lists_sync_interval_ms (validate_and_fix False ?o) = Some 5000"
    "so_specs_sync_interval_ms (validate_and_fix False ?o) = None"
    by (simp_all add: validate_and_fix_def unless_def is_sync_interval_invalid_def)
  with conjunct1 [OF validated_options_safe [of ?o]] conjunct1 [OF conjunct2 [OF validated_options_safe
      [of "options_default\<lparr>so_specs_url := Some ''NULL''\<rparr>"]]] show ?thesis by blast
qed

end
