(* ===== verification/Statsig_Instance.thy ===== *)
theory Statsig_Instance
  imports Evaluation Persistent_Values Event_Emitter Options
begin

text \<open>
  An instance of the library, the struct \<open>Statsig\<close> of \<open>src/statsig-rust/src/statsig.rs\<close>: its state, the
  contexts it evaluates in, the evaluation of a spec with its details, and its initialization.

  The override adapter is the one of the library, which is used unless the host provides its own. What an
  operation meets besides the state (whether a lock is obtained, the clock, random numbers, the tables of
  countries and user agents, the storage of the host) is the environment of the call. A condition on the group
  of an experiment calls the instance again; the group this nested call gives is the part \<open>av_reenter\<close> of the
  environment. Errors and metrics reported to the observability client are not part of the state. The value
  \<open>None\<close> of a call means that it panics or does not end.
\<close>

section \<open>State and environment\<close>

record ('c, 's) statsig =
  sg_sdk_key :: string
  sg_options :: statsig_options
  sg_event_logger :: "'c event_logger"
  sg_overrides :: override_store
  sg_spec_store :: spec_store
  sg_hashing :: memo_sha256
  sg_environment :: "UserDataMap option"
  sg_fallback_environment :: "UserDataMap option"
  sg_storage :: 's
  sg_event_emitter :: sdk_event_emitter
  sg_calls :: "(string \<times> sdk_event) list"
  sg_background_tasks_started :: bool
  sg_initialize_details :: initialize_details

record ('c, 's) api_env =
  av_ext :: ext
  av_unicode :: "string \<Rightarrow> bool"
  av_lru :: "'c lru_ops"
  av_storage :: "'s storage_ops option"
  av_read :: bool
  av_sticky_read :: bool
  av_reeval_read :: "sticky_rule_filter \<Rightarrow> bool"
  av_override_lock :: bool
  av_now :: u64
  av_enqueue :: enqueue_env
  av_fuel :: nat
  av_reenter :: "user_data \<Rightarrow> string \<Rightarrow> bool \<Rightarrow> string option"
  av_country_lock :: bool
  av_country_table :: "country_lookup_data option"
  av_user_agent :: "statsig_user_internal \<Rightarrow> dynamic_string option \<Rightarrow> bool \<Rightarrow> dynamic_value option \<times> string option"
  av_clock :: "nat \<Rightarrow> i64"
  av_random :: "nat \<Rightarrow> f64"

definition tier_environment :: "ext \<Rightarrow> string \<Rightarrow> UserDataMap" where
  "tier_environment x tier = [(''tier'', dv_from_string x tier)]"

text \<open>
  A new instance. The key for the data store can panic. The state of the host's storage and the remote
  configuration for the key, which all instances with this key share, are arguments.
\<close>

definition statsig_new ::
    "ext \<Rightarrow> 'c lru_ops \<Rightarrow> env_vars \<Rightarrow> bool \<Rightarrow> u64 \<Rightarrow> string \<Rightarrow> statsig_options option \<Rightarrow> global_configs \<Rightarrow> 's \<Rightarrow>
     ('c, 's) statsig option" where
  "statsig_new x L env test_env now sdk_key options g storage =
     (let opts = (case options of Some v \<Rightarrow> validate_and_fix test_env v | None \<Rightarrow> options_default)
      in map_option (\<lambda>data_store_key.
            \<lparr>sg_sdk_key = sdk_key, sg_options = opts, sg_event_logger = el_new x L env now (logger_options_of opts),
             sg_overrides = os_new, sg_spec_store = ss_new data_store_key (so_data_store opts \<noteq> None) g,
             sg_hashing = memo_new, sg_environment = map_option (tier_environment x) (so_environment opts),
             sg_fallback_environment = None, sg_storage = storage, sg_event_emitter = emitter_default, sg_calls = [],
             sg_background_tasks_started = False, sg_initialize_details = init_details_default\<rparr>)
          (get_data_store_key x RulesetsV2 sdk_key (so_data_store_key_schema_version opts)))"

abbreviation spec_data :: "('c, 's) statsig \<Rightarrow> spec_store_data" where
  "spec_data st \<equiv> ss_data (sg_spec_store st)"

definition instance_of :: "('c, 's) statsig \<Rightarrow> statsig_instance" where
  "instance_of st =
     \<lparr>si_environment = sg_environment st, si_fallback_environment = sg_fallback_environment st,
      si_global_custom = so_global_custom_fields (sg_options st)\<rparr>"

definition internalize_user :: "('c, 's) statsig \<Rightarrow> user_data \<Rightarrow> statsig_user_internal" where
  "internalize_user st user = \<lparr>su_data = user, su_statsig = Some (instance_of st)\<rparr>"

definition should_user_third_party_parser :: "('c, 's) statsig \<Rightarrow> bool" where
  "should_user_third_party_parser st = opt_default False (so_use_third_party_ua_parser (sg_options st))"

section \<open>Logging and emitting\<close>

definition log_op :: "('c, 's) api_env \<Rightarrow> enqueue_operation \<Rightarrow> ('c, 's) statsig \<Rightarrow> ('c, 's) statsig" where
  "log_op A operation st =
     st\<lparr>sg_event_logger := snd (enqueue (av_ext A) (av_lru A) (av_enqueue A) (ss_global_configs (sg_spec_store st)) operation
          (sg_event_logger st))\<rparr>"

definition count_check :: "string \<Rightarrow> ('c, 's) statsig \<Rightarrow> ('c, 's) statsig" where
  "count_check name st = st\<lparr>sg_event_logger := increment_non_exposure_checks name (sg_event_logger st)\<rparr>"

definition emit_event :: "sdk_event \<Rightarrow> ('c, 's) statsig \<Rightarrow> ('c, 's) statsig" where
  "emit_event e st = st\<lparr>sg_calls := sg_calls st @ emit e (sg_event_emitter st)\<rparr>"

section \<open>Contexts\<close>

definition create_standard_eval_context ::
    "('c, 's) api_env \<Rightarrow> ('c, 's) statsig \<Rightarrow> statsig_user_internal \<Rightarrow> spec_store_data \<Rightarrow> dynamic_value option \<Rightarrow>
     override_adapter option \<Rightarrow> bool \<Rightarrow> eval_env" where
  "create_standard_eval_context A st user d app_id override_adapter disable_exposure_logging =
     \<lparr>en_ext = av_ext A, en_user = user, en_specs_data = sd_values d, en_id_list_resolver = MapLookup (sd_id_lists d),
      en_app_id = app_id, en_override_adapter = override_adapter,
      en_third_party_parser = should_user_third_party_parser st, en_statsig = Some (av_reenter A),
      en_disable_exposure_logging = disable_exposure_logging, en_only_evaluate_targeting = False,
      en_only_evaluate_overrides = False, en_country_lock = av_country_lock A, en_country_table = av_country_table A,
      en_user_agent = av_user_agent A, en_now = av_clock A, en_random = av_random A\<rparr>"

definition adapter_of :: "('c, 's) api_env \<Rightarrow> ('c, 's) statsig \<Rightarrow> override_adapter option" where
  "adapter_of A st = Some (local_override_adapter (av_ext A) (av_override_lock A) (sg_overrides st))"

definition create_gcir_eval_context ::
    "('c, 's) api_env \<Rightarrow> ('c, 's) statsig \<Rightarrow> statsig_user_internal \<Rightarrow> spec_store_data \<Rightarrow> bool option \<Rightarrow> dynamic_value option \<Rightarrow> eval_env" where
  "create_gcir_eval_context A st user d include_local_overrides app_id =
     (create_standard_eval_context A st user d app_id
        (if include_local_overrides = Some True then adapter_of A st else None) True)\<lparr>en_statsig := None\<rparr>"

definition standard_context :: "('c, 's) api_env \<Rightarrow> ('c, 's) statsig \<Rightarrow> statsig_user_internal \<Rightarrow> bool \<Rightarrow> eval_env" where
  "standard_context A st user disable =
     create_standard_eval_context A st user (spec_data st) (sr_app_id (sd_values (spec_data st))) (adapter_of A st) disable"

section \<open>Evaluation\<close>

definition evaluate_with_details ::
    "eval_env \<Rightarrow> nat \<Rightarrow> spec_store_data \<Rightarrow> string \<Rightarrow> spec_type \<Rightarrow> evaluation_details ev" where
  "evaluate_with_details en fuel d spec_name spec_type =
     ev_bind (evaluate en fuel spec_name spec_type) (\<lambda>recognition.
       ev_get (\<lambda>s.
         if recognition = Unrecognized
         then details_unrecognized (sd_source d) (sr_time (sd_values d)) (sd_time_received_at d)
         else case er_override_reason (st_result s) of
             Some reason \<Rightarrow>
               details_recognized_but_overridden (sr_time (sd_values d)) (sd_time_received_at d) reason (er_version (st_result s))
           | None \<Rightarrow> details_recognized (sd_source d) (sr_time (sd_values d)) (sd_time_received_at d) (st_result s)))"

definition evaluate_spec_raw ::
    "('c, 's) api_env \<Rightarrow> statsig_user_internal \<Rightarrow> string \<Rightarrow> spec_type \<Rightarrow> bool option \<Rightarrow> ('c, 's) statsig \<Rightarrow>
     ((evaluation_details \<times> evaluator_result option) \<times> ('c, 's) statsig) option" where
  "evaluate_spec_raw A user spec_name spec_type disable_exposure_logging st =
     (if \<not> av_read A then Some ((details_unrecognized_no_data, None), st)
      else case evaluate_with_details (standard_context A st user (opt_default False disable_exposure_logging)) (av_fuel A)
                  (spec_data st) spec_name spec_type (st_new (sg_hashing st)) of
          Ok eval_details s \<Rightarrow> Some ((eval_details, Some (st_result s)), st\<lparr>sg_hashing := st_hash s\<rparr>)
        | Err e s \<Rightarrow>
            map_option (\<lambda>text. ((details_error text, None), st\<lparr>sg_hashing := st_hash s\<rparr>)) (statsig_err_display (av_unicode A) e)
        | Panic \<Rightarrow> None
        | OutOfFuel \<Rightarrow> None)"

definition api_evaluate_spec ::
    "('c, 's) api_env \<Rightarrow> statsig_user_internal \<Rightarrow> string \<Rightarrow> (evaluation_details \<Rightarrow> 't) \<Rightarrow> (evaluator_result \<Rightarrow> evaluation_details \<Rightarrow> 't) \<Rightarrow>
     spec_type \<Rightarrow> bool option \<Rightarrow> ('c, 's) statsig \<Rightarrow> ('t \<times> ('c, 's) statsig) option" where
  "api_evaluate_spec A user spec_name make_empty_result make_result spec_type disable_exposure_logging st =
     (if \<not> av_read A then Some (make_empty_result details_unrecognized_no_data, st)
      else case evaluate_with_details (standard_context A st user (opt_default False disable_exposure_logging)) (av_fuel A)
                  (spec_data st) spec_name spec_type (st_new (sg_hashing st)) of
          Ok eval_details s \<Rightarrow> Some (make_result (st_result s) eval_details, st\<lparr>sg_hashing := st_hash s\<rparr>)
        | Err e s \<Rightarrow>
            map_option (\<lambda>text. (make_empty_result (details_error text), st\<lparr>sg_hashing := st_hash s\<rparr>)) (statsig_err_display (av_unicode A) e)
        | Panic \<Rightarrow> None
        | OutOfFuel \<Rightarrow> None)"

text \<open>
  The evaluation of the targeting rules or of the override rules alone, for a kept assignment. The cache of
  hashes it fills is not kept, which no result depends on.
\<close>

definition evaluate_rule_filter_bool ::
    "('c, 's) api_env \<Rightarrow> ('c, 's) statsig \<Rightarrow> statsig_user_internal \<Rightarrow> string \<Rightarrow> spec_type \<Rightarrow> sticky_rule_filter \<Rightarrow> bool option" where
  "evaluate_rule_filter_bool A st user spec_name spec_type rule_filter =
     (let en = standard_context A st user True;
          en1 = (case rule_filter of
              FilterTargeting \<Rightarrow> en\<lparr>en_only_evaluate_targeting := True\<rparr>
            | FilterOverrides \<Rightarrow> en\<lparr>en_only_evaluate_overrides := True\<rparr>)
      in case evaluate en1 (av_fuel A) spec_name spec_type (st_new (sg_hashing st)) of
           Ok _ s \<Rightarrow> Some (er_bool_value (st_result s))
         | Err _ _ \<Rightarrow> Some False
         | Panic \<Rightarrow> None
         | OutOfFuel \<Rightarrow> None)"

definition reeval_sticky_rule_filter ::
    "('c, 's) api_env \<Rightarrow> ('c, 's) statsig \<Rightarrow> statsig_user_internal \<Rightarrow> string \<Rightarrow> spec_type \<Rightarrow> sticky_rule_filter \<Rightarrow> bool option" where
  "reeval_sticky_rule_filter A st user spec_name spec_type rule_filter =
     (if \<not> av_reeval_read A rule_filter then Some False
      else evaluate_rule_filter_bool A st user spec_name spec_type rule_filter)"

lemma api_evaluate_spec_via_raw:
  "api_evaluate_spec A user name mk0 mk ty dis st =
     map_option (\<lambda>((details, r), st1). (case r of Some res \<Rightarrow> mk res details | None \<Rightarrow> mk0 details, st1))
       (evaluate_spec_raw A user name ty dis st)"
  by (simp add: api_evaluate_spec_def evaluate_spec_raw_def map_option.compositionality comp_def split: outcome.splits)

lemma evaluate_spec_raw_frame:
  "evaluate_spec_raw A user name ty dis st = Some (r, st1) \<Longrightarrow> \<exists>h. st1 = st\<lparr>sg_hashing := h\<rparr>"
  by (auto simp: evaluate_spec_raw_def split: if_splits outcome.splits intro: exI [of _ "sg_hashing st"])

section \<open>Initialization\<close>

text \<open>
  What the adapters do when they are started, and what the initialization meets: the result of starting the
  specs adapter and the id lists adapter with what they do to the spec store, and the results of scheduling
  their background tasks. When the time limit comes first, the initialization stops where it waits, and the
  spec store it has left is given.
\<close>

record init_env =
  ie_unicode :: "string \<Rightarrow> bool"
  ie_ext :: ext
  ie_source_lock :: "nat \<Rightarrow> bool"
  ie_specs_start :: "spec_store \<Rightarrow> (statsig_err + unit) \<times> spec_store"
  ie_id_lists_start :: "(spec_store \<Rightarrow> (statsig_err + unit) \<times> spec_store) option"
  ie_specs_schedule :: "statsig_err + unit"
  ie_id_lists_schedule :: "statsig_err + unit"
  ie_read :: "nat \<Rightarrow> bool"
  ie_duration :: u64
  ie_details_lock :: bool
  ie_timed_out :: "spec_store option"
  ie_spawn :: "statsig_err + unit"

definition is_ok :: "'e + 'a \<Rightarrow> bool" where
  "is_ok r = (case r of Inr _ \<Rightarrow> True | Inl _ \<Rightarrow> False)"

definition start_background_tasks :: "init_env \<Rightarrow> ('c, 's) statsig \<Rightarrow> bool \<times> ('c, 's) statsig" where
  "start_background_tasks I st =
     (if sg_background_tasks_started st then (True, st)
      else
        (let success1 = (ie_id_lists_start I = None \<or> is_ok (ie_id_lists_schedule I));
             success = (success1 \<and> is_ok (ie_specs_schedule I))
         in (success, st\<lparr>sg_background_tasks_started := True\<rparr>)))"

definition set_default_environment_from_server :: "ext \<Rightarrow> bool \<Rightarrow> ('c, 's) statsig \<Rightarrow> ('c, 's) statsig" where
  "set_default_environment_from_server x lock_ok st =
     (if \<not> lock_ok then st
      else case sr_default_environment (sd_values (spec_data st)) of
          Some default_env \<Rightarrow> st\<lparr>sg_fallback_environment := Some (tier_environment x default_env)\<rparr>
        | None \<Rightarrow> st)"

definition initialize_impl_with_details ::
    "init_env \<Rightarrow> ('c, 's) statsig \<Rightarrow> (initialize_details \<times> ('c, 's) statsig) option" where
  "initialize_impl_with_details I st =
     (let store1 = set_source (ie_source_lock I 0) SrcLoading (sg_spec_store st);
          (init_res, store2) = ie_specs_start I store1;
          store3 = (if is_ok init_res then store2 else set_source (ie_source_lock I 1) SrcNoValues store2);
          (id_list_ready, store4) =
            (case ie_id_lists_start I of
               None \<Rightarrow> (None, store3)
             | Some start \<Rightarrow> (let (r, s) = start store3 in (Some (is_ok r), s)));
          spec_info = get_current_specs_info (ie_read I 0) store4;
          st1 = set_default_environment_from_server (ie_ext I) (ie_read I 1) (st\<lparr>sg_spec_store := store4\<rparr>);
          err = (case init_res of Inl e \<Rightarrow> Some e | Inr _ \<Rightarrow> None);
          (success, st2) = start_background_tasks I st1
      in map_option (\<lambda>details. (details, st2))
           (init_details_new (ie_unicode I) success (ie_duration I) spec_info id_list_ready err))"

definition apply_timeout_to_init ::
    "init_env \<Rightarrow> u64 \<Rightarrow> ('c, 's) statsig \<Rightarrow> ((statsig_err + initialize_details) \<times> ('c, 's) statsig) option" where
  "apply_timeout_to_init I timeout_ms st =
     (case ie_timed_out I of
        None \<Rightarrow> map_option (\<lambda>(details, st1). (Inr details, st1)) (initialize_impl_with_details I st)
      | Some store \<Rightarrow>
          (let st1 = st\<lparr>sg_spec_store := store\<rparr>
           in case ie_spawn I of
                Inl e \<Rightarrow> Some (Inl e, st1)
              | Inr _ \<Rightarrow> Some (Inr (init_details_from_timeout_failure timeout_ms), snd (start_background_tasks I st1))))"

definition initialize_with_details ::
    "init_env \<Rightarrow> ('c, 's) statsig \<Rightarrow> ((statsig_err + initialize_details) \<times> ('c, 's) statsig) option" where
  "initialize_with_details I st =
     map_option (\<lambda>(init_details, st1).
         (init_details,
          case init_details of
            Inr details \<Rightarrow> if ie_details_lock I then st1\<lparr>sg_initialize_details := details\<rparr> else st1
          | Inl _ \<Rightarrow> st1))
       (case so_init_timeout_ms (sg_options st) of
          Some timeout_ms \<Rightarrow> apply_timeout_to_init I timeout_ms st
        | None \<Rightarrow> map_option (\<lambda>(details, st1). (Inr details, st1)) (initialize_impl_with_details I st))"

definition statsig_initialize :: "init_env \<Rightarrow> ('c, 's) statsig \<Rightarrow> ((statsig_err + unit) \<times> ('c, 's) statsig) option" where
  "statsig_initialize I st =
     map_option (\<lambda>(res, st1).
         (case res of
            Inl e \<Rightarrow> Inl e
          | Inr details \<Rightarrow>
              (case id_failure_details details of
                 Some failure \<Rightarrow> Inl (case fd_error failure of Some e \<Rightarrow> e | None \<Rightarrow> InitializationError (fd_reason failure))
               | None \<Rightarrow> Inr ()), st1))
       (initialize_with_details I st)"

definition get_initialize_details :: "bool \<Rightarrow> ('c, 's) statsig \<Rightarrow> initialize_details" where
  "get_initialize_details lock_ok st =
     (if lock_ok then sg_initialize_details st
      else init_details_from_error ''Failed to lock initialize_details''
             (Some (LockFailureError ''Failed to lock initialize_details'')))"

definition is_initialized :: "bool \<Rightarrow> ('c, 's) statsig \<Rightarrow> bool" where
  "is_initialized lock_ok st \<longleftrightarrow> lock_ok \<and> id_init_success (sg_initialize_details st)"

text \<open>
  What the initialization reports depends on the background tasks alone: when the specs adapter could not
  be started the store is marked as having no values, \<open>initialize\<close> gives the error, and the instance counts as
  initialized all the same.
\<close>

lemma initialize_reports_failure:
  assumes "ie_specs_start I (set_source (ie_source_lock I 0) SrcLoading (sg_spec_store st)) = (Inl e, store)"
    and "ie_source_lock I 1" "ie_id_lists_start I = None" "ie_specs_schedule I = Inr ()"
    and "ie_details_lock I" "ie_timed_out I = None" "statsig_err_display (ie_unicode I) e = Some text" "\<nexists>t. e = NetworkError (NetDisableNetworkOn t)"
  shows "\<exists>st1. statsig_initialize I st = Some (Inl e, st1) \<and> is_initialized True st1 \<and> sd_source (spec_data st1) = SrcNoValues"
proof -
  have failure: "init_details_new (ie_unicode I) success (ie_duration I) info ready (Some e) =
      Some \<lparr>id_duration_ms = ie_duration I, id_init_success = success,
        id_is_config_spec_ready = (case in_lcut info of Some v \<Rightarrow> v \<noteq> 0 | None \<Rightarrow> False), id_is_id_list_ready = ready,
        id_source = in_source info, id_failure_details = Some \<lparr>fd_reason = text, fd_error = Some e\<rparr>,
        id_spec_source_api = in_source_api info\<rparr>" for success info ready
    using assms(7,8) by (auto simp: init_details_new_def split: statsig_err.splits network_error.splits)
  show ?thesis using assms(1-6)
    by (simp add: statsig_initialize_def initialize_with_details_def apply_timeout_to_init_def initialize_impl_with_details_def is_ok_def failure
        start_background_tasks_def is_initialized_def set_default_environment_from_server_def set_source_def Let_def split: option.splits)
qed

end
