(* ===== verification/Statsig_Api.thy ===== *)
theory Statsig_Api
  imports Statsig_Instance
begin

text \<open>
  The methods of \<open>src/statsig-rust/src/statsig.rs\<close> that a host calls: gates, dynamic configs, experiments,
  layers, parameter stores (with \<open>ParameterStore\<close> of \<open>statsig_types.rs\<close>), custom events, overrides and the lists of
  names, for native callers and, under the names \<open>use_raw_...\<close>, for the bindings. A callback of a raw method gives
  the raw value.
\<close>

section \<open>Custom events\<close>

definition log_event ::
    "('c, 's) api_env \<Rightarrow> user_data \<Rightarrow> string \<Rightarrow> string option \<Rightarrow> (string, string) HashMap option \<Rightarrow> ('c, 's) statsig \<Rightarrow> ('c, 's) statsig" where
  "log_event A user event_name val metadata st =
     log_op A (EnqueuePassthrough (new_custom_event (av_now A) (to_loggable (internalize_user st user)) event_name
       (map_option JString val) metadata)) st"

definition log_event_with_number ::
    "('c, 's) api_env \<Rightarrow> user_data \<Rightarrow> string \<Rightarrow> f64 option \<Rightarrow> (string, string) HashMap option \<Rightarrow> ('c, 's) statsig \<Rightarrow> ('c, 's) statsig" where
  "log_event_with_number A user event_name val metadata st =
     log_op A (EnqueuePassthrough (new_custom_event (av_now A) (to_loggable (internalize_user st user)) event_name
       (map_option json_of_f64 val) metadata)) st"

definition log_event_with_typed_metadata ::
    "('c, 's) api_env \<Rightarrow> user_data \<Rightarrow> string \<Rightarrow> string option \<Rightarrow> (string, json) HashMap option \<Rightarrow> ('c, 's) statsig \<Rightarrow> ('c, 's) statsig" where
  "log_event_with_typed_metadata A user event_name val metadata st =
     log_op A (EnqueuePassthrough (new_custom_event_with_typed_metadata (av_now A) (to_loggable (internalize_user st user))
       event_name (map_option JString val) metadata)) st"

definition log_event_with_number_and_typed_metadata ::
    "('c, 's) api_env \<Rightarrow> user_data \<Rightarrow> string \<Rightarrow> f64 option \<Rightarrow> (string, json) HashMap option \<Rightarrow> ('c, 's) statsig \<Rightarrow> ('c, 's) statsig" where
  "log_event_with_number_and_typed_metadata A user event_name val metadata st =
     log_op A (EnqueuePassthrough (new_custom_event_with_typed_metadata (av_now A) (to_loggable (internalize_user st user))
       event_name (map_option json_of_f64 val) metadata)) st"

definition forward_log_line_event ::
    "string \<Rightarrow> ('c, 's) api_env \<Rightarrow> user_data \<Rightarrow> statsig_log_line_level \<Rightarrow> string option \<Rightarrow> (string, string) HashMap option \<Rightarrow>
     ('c, 's) statsig \<Rightarrow> ('c, 's) statsig" where
  "forward_log_line_event sdk_type A user level val metadata st =
     log_op A (EnqueuePassthrough (new_statsig_log_line_event sdk_type (av_now A) (to_loggable (internalize_user st user))
       (to_status_string level, line_level_debug level) val metadata None)) st"

definition identify :: "('c, 's) api_env \<Rightarrow> user_data \<Rightarrow> ('c, 's) statsig \<Rightarrow> ('c, 's) statsig" where
  "identify A user st =
     log_op A (EnqueuePassthrough (new_custom_event (av_now A) (to_loggable (internalize_user st user)) ''statsig::identify'' None None)) st"

section \<open>Gates\<close>

definition get_gate_evaluation ::
    "('c, 's) api_env \<Rightarrow> statsig_user_internal \<Rightarrow> string \<Rightarrow> bool option \<Rightarrow> ('c, 's) statsig \<Rightarrow>
     ((evaluation_details \<times> gate_evaluation option) \<times> ('c, 's) statsig) option" where
  "get_gate_evaluation A user gate_name disable st =
     api_evaluate_spec A user gate_name (\<lambda>eval_details. (eval_details, None))
       (\<lambda>res eval_details. (eval_details, Some (fst (result_to_gate_eval gate_name res)))) Gate disable st"

definition gate_expo :: "('c, 's) api_env \<Rightarrow> statsig_user_internal \<Rightarrow> string \<Rightarrow> gate_evaluation option \<Rightarrow> evaluation_details \<Rightarrow> enqueue_operation" where
  "gate_expo A user gate_name evaluation details =
     EnqueueGateExpo \<lparr>go_user = user, go_queried_gate_name = gate_name, go_evaluation = evaluation, go_details = details,
       go_trigger = Auto, go_exposure_time = av_now A\<rparr>"

text \<open>A check is counted when its exposure is disabled and logged otherwise.\<close>

definition count_or_log :: "('c, 's) api_env \<Rightarrow> bool \<Rightarrow> string \<Rightarrow> enqueue_operation \<Rightarrow> ('c, 's) statsig \<Rightarrow> ('c, 's) statsig" where
  "count_or_log A disable name operation st = (if disable then count_check name st else log_op A operation st)"

definition check_gate_with_options ::
    "('c, 's) api_env \<Rightarrow> user_data \<Rightarrow> string \<Rightarrow> feature_gate_evaluation_options \<Rightarrow> ('c, 's) statsig \<Rightarrow> (bool \<times> ('c, 's) statsig) option" where
  "check_gate_with_options A user gate_name options st =
     (let user_internal = internalize_user st user; disable = go_disable_exposure_logging options
      in map_option (\<lambda>((details, evaluation), st1).
           (let val = (case evaluation of Some e \<Rightarrow> ge_value e | None \<Rightarrow> False);
                rule_id = (case evaluation of Some e \<Rightarrow> be_rule_id (ge_base e) | None \<Rightarrow> []);
                st2 = count_or_log A disable gate_name (gate_expo A user_internal gate_name evaluation details) st1
            in (val, emit_event (gate_evaluated gate_name rule_id val (ed_reason details)) st2)))
         (get_gate_evaluation A user_internal gate_name (Some disable) st))"

definition check_gate where
  "check_gate A user gate_name = check_gate_with_options A user gate_name \<lparr>go_disable_exposure_logging = False\<rparr>"

definition get_feature_gate_with_options ::
    "('c, 's) api_env \<Rightarrow> user_data \<Rightarrow> string \<Rightarrow> feature_gate_evaluation_options \<Rightarrow> ('c, 's) statsig \<Rightarrow> (feature_gate \<times> ('c, 's) statsig) option" where
  "get_feature_gate_with_options A user gate_name options st =
     (let user_internal = internalize_user st user; disable = go_disable_exposure_logging options
      in map_option (\<lambda>((details, evaluation), st1).
           (let st2 = count_or_log A disable gate_name (gate_expo A user_internal gate_name evaluation details) st1;
                gate = make_feature_gate gate_name evaluation details
            in (gate, emit_event (gate_evaluated gate_name (fg_rule_id gate) (fg_value gate) (ed_reason (fg_details gate))) st2)))
         (get_gate_evaluation A user_internal gate_name (Some disable) st))"

definition get_feature_gate where
  "get_feature_gate A user gate_name = get_feature_gate_with_options A user gate_name \<lparr>go_disable_exposure_logging = False\<rparr>"

definition manually_log_gate_exposure :: "('c, 's) api_env \<Rightarrow> user_data \<Rightarrow> string \<Rightarrow> ('c, 's) statsig \<Rightarrow> ('c, 's) statsig option" where
  "manually_log_gate_exposure A user gate_name st =
     (let user_internal = internalize_user st user
      in map_option (\<lambda>((details, evaluation), st1).
           log_op A (EnqueueExposure (gate_exposure (av_now A) user_internal gate_name ManualTrigger details evaluation)) st1)
         (evaluate_spec_raw A user_internal gate_name Gate None st))"

definition fields_needed :: "spec_type \<Rightarrow> ('c, 's) api_env \<Rightarrow> string \<Rightarrow> ('c, 's) statsig \<Rightarrow> string list" where
  "fields_needed ty A name st = get_fields_used_for_entity (av_read A) name ty (sg_spec_store st)"

definition get_fields_needed_for_gate where "get_fields_needed_for_gate = fields_needed Gate"

definition use_raw_feature_gate_with_options ::
    "('c, 's) api_env \<Rightarrow> user_data \<Rightarrow> string \<Rightarrow> feature_gate_evaluation_options \<Rightarrow> ('c, 's) statsig \<Rightarrow>
     (feature_gate_raw \<times> ('c, 's) statsig) option" where
  "use_raw_feature_gate_with_options A user gate_name options st =
     (let user_internal = internalize_user st user
      in map_option (\<lambda>((details, evaluation), st1).
           (let raw = result_to_gate_raw gate_name details evaluation;
                st2 = emit_event (gate_evaluated_parts gate_name (ed_reason details) evaluation) st1
            in (raw, count_or_log A (go_disable_exposure_logging options) gate_name
                 (EnqueueExposure (gate_exposure (av_now A) user_internal gate_name Auto details evaluation)) st2)))
         (evaluate_spec_raw A user_internal gate_name Gate None st))"

section \<open>Dynamic configs\<close>

definition get_dynamic_config_impl ::
    "('c, 's) api_env \<Rightarrow> statsig_user_internal \<Rightarrow> string \<Rightarrow> bool option \<Rightarrow> ('c, 's) statsig \<Rightarrow>
     (dynamic_config_value \<times> ('c, 's) statsig) option" where
  "get_dynamic_config_impl A user config_name disable st =
     api_evaluate_spec A user config_name (\<lambda>eval_details. make_dynamic_config config_name None eval_details)
       (\<lambda>res eval_details. make_dynamic_config config_name (Some (fst (result_to_dynamic_config_eval config_name res))) eval_details)
       DynamicConfig disable st"

definition get_dynamic_config_with_options ::
    "('c, 's) api_env \<Rightarrow> user_data \<Rightarrow> string \<Rightarrow> dynamic_config_evaluation_options \<Rightarrow> ('c, 's) statsig \<Rightarrow>
     (dynamic_config_value \<times> ('c, 's) statsig) option" where
  "get_dynamic_config_with_options A user config_name options st =
     (let user_internal = internalize_user st user; disable = co_disable_exposure_logging options
      in map_option (\<lambda>(config, st1).
           (config, emit_event (dynamic_config_evaluated config)
              (count_or_log A disable config_name
                (EnqueueConfigExpo \<lparr>co_op_user = user_internal, co_op_config = config, co_op_trigger = Auto,
                   co_op_exposure_time = av_now A\<rparr>) st1)))
         (get_dynamic_config_impl A user_internal config_name (Some disable) st))"

definition get_dynamic_config where
  "get_dynamic_config A user config_name = get_dynamic_config_with_options A user config_name \<lparr>co_disable_exposure_logging = False\<rparr>"

definition get_fields_needed_for_dynamic_config where "get_fields_needed_for_dynamic_config = fields_needed DynamicConfig"

definition manually_log_dynamic_config_exposure ::
    "('c, 's) api_env \<Rightarrow> user_data \<Rightarrow> string \<Rightarrow> ('c, 's) statsig \<Rightarrow> ('c, 's) statsig option" where
  "manually_log_dynamic_config_exposure A user config_name st =
     (let user_internal = internalize_user st user
      in map_option (\<lambda>((details, evaluation), st1).
           log_op A (EnqueueExposure (dynamic_config_exposure (av_now A) user_internal config_name ManualTrigger details evaluation)) st1)
         (evaluate_spec_raw A user_internal config_name DynamicConfig None st))"

definition use_raw_dynamic_config_with_options ::
    "('c, 's) api_env \<Rightarrow> user_data \<Rightarrow> string \<Rightarrow> dynamic_config_evaluation_options \<Rightarrow> ('c, 's) statsig \<Rightarrow>
     (dynamic_config_raw \<times> ('c, 's) statsig) option" where
  "use_raw_dynamic_config_with_options A user config_name options st =
     (let user_internal = internalize_user st user; disable = co_disable_exposure_logging options
      in map_option (\<lambda>((details, evaluation), st1).
           (let raw = result_to_dynamic_config_raw config_name details evaluation;
                st2 = emit_event (dynamic_config_evaluated_parts config_name (ed_reason details) evaluation) st1
            in (raw, count_or_log A disable config_name
                 (EnqueueExposure (dynamic_config_exposure (av_now A) user_internal config_name Auto details evaluation)) st2)))
         (evaluate_spec_raw A user_internal config_name DynamicConfig (Some disable) st))"

section \<open>Experiments\<close>

definition get_experiment_impl ::
    "('c, 's) api_env \<Rightarrow> statsig_user_internal \<Rightarrow> string \<Rightarrow> bool option \<Rightarrow> ('c, 's) statsig \<Rightarrow>
     (experiment_value \<times> ('c, 's) statsig) option" where
  "get_experiment_impl A user experiment_name disable st =
     api_evaluate_spec A user experiment_name (\<lambda>eval_details. make_experiment experiment_name None eval_details)
       (\<lambda>res eval_details. make_experiment experiment_name (Some (fst (result_to_experiment_eval experiment_name None res))) eval_details)
       Experiment disable st"

text \<open>In the model a re-evaluation that panics counts as one that gives false.\<close>

definition experiment_reeval :: "('c, 's) api_env \<Rightarrow> ('c, 's) statsig \<Rightarrow> statsig_user_internal \<Rightarrow> sticky_reeval" where
  "experiment_reeval A st user = (\<lambda>name ty rule_filter. opt_default False (reeval_sticky_rule_filter A st user name ty rule_filter))"

definition layer_reeval :: "('c, 's) api_env \<Rightarrow> ('c, 's) statsig \<Rightarrow> statsig_user_internal \<Rightarrow> sticky_reeval" where
  "layer_reeval A st user = (\<lambda>name ty rule_filter. opt_default False (evaluate_rule_filter_bool A st user name ty rule_filter))"

definition get_experiment_with_options ::
    "('c, 's) api_env \<Rightarrow> user_data \<Rightarrow> string \<Rightarrow> experiment_evaluation_options \<Rightarrow> ('c, 's) statsig \<Rightarrow>
     (experiment_value \<times> ('c, 's) statsig) option" where
  "get_experiment_with_options A user experiment_name options st =
     (let user_internal = internalize_user st user; disable = xo_disable_exposure_logging options
      in map_option (\<lambda>(xp0, st1).
           (let (xp, storage) = try_apply_sticky_value_to_experiment (av_ext A) (av_storage A) (av_now A) user options xp0
                  (experiment_reeval A st1 user_internal) (sg_storage st1);
                st2 = count_or_log A disable experiment_name
                  (EnqueueExperimentExpo \<lparr>xo_user = user_internal, xo_experiment = xp, xo_trigger = Auto,
                     xo_exposure_time = av_now A\<rparr>) (st1\<lparr>sg_storage := storage\<rparr>)
            in (xp, emit_event (experiment_evaluated xp) st2)))
         (get_experiment_impl A user_internal experiment_name (Some disable) st))"

definition get_experiment where
  "get_experiment A user experiment_name = get_experiment_with_options A user experiment_name
     \<lparr>xo_disable_exposure_logging = False, xo_user_persisted_values = None, xo_enforce_overrides = False, xo_enforce_targeting = False\<rparr>"

definition get_fields_needed_for_experiment where "get_fields_needed_for_experiment = fields_needed Experiment"

definition manually_log_experiment_exposure ::
    "('c, 's) api_env \<Rightarrow> user_data \<Rightarrow> string \<Rightarrow> ('c, 's) statsig \<Rightarrow> ('c, 's) statsig option" where
  "manually_log_experiment_exposure A user experiment_name st =
     (let user_internal = internalize_user st user
      in map_option (\<lambda>((details, evaluation), st1).
           log_op A (EnqueueExposure (experiment_exposure (av_now A) user_internal experiment_name ManualTrigger details evaluation)) st1)
         (evaluate_spec_raw A user_internal experiment_name Experiment None st))"

definition use_raw_experiment_with_options ::
    "('c, 's) api_env \<Rightarrow> user_data \<Rightarrow> string \<Rightarrow> experiment_evaluation_options \<Rightarrow> ('c, 's) statsig \<Rightarrow>
     (experiment_raw \<times> ('c, 's) statsig) option" where
  "use_raw_experiment_with_options A user experiment_name options st =
     (let user_internal = internalize_user st user; disable = xo_disable_exposure_logging options
      in map_option (\<lambda>((details0, evaluation0), st1).
           (let ((evaluation, details), storage) = try_apply_sticky_value_to_raw_experiment (av_ext A) (av_storage A) (av_now A) user
                  options details0 evaluation0 (experiment_reeval A st1 user_internal) (sg_storage st1);
                raw = result_to_experiment_raw experiment_name details evaluation;
                st2 = emit_event (experiment_evaluated_parts experiment_name (ed_reason details) evaluation) (st1\<lparr>sg_storage := storage\<rparr>)
            in (raw, count_or_log A disable experiment_name
                 (EnqueueExposure (dynamic_config_exposure (av_now A) user_internal experiment_name Auto details evaluation)) st2)))
         (evaluate_spec_raw A user_internal experiment_name Experiment (Some disable) st))"

text \<open>Lookups in the configuration, without a user.\<close>

definition use_dynamic_config_spec ::
    "('c, 's) api_env \<Rightarrow> string \<Rightarrow> ((spec_store_data \<times> spec option) option \<Rightarrow> 't) \<Rightarrow> ('c, 's) statsig \<Rightarrow> 't" where
  "use_dynamic_config_spec A config_name callback st =
     (if \<not> av_read A then callback None
      else callback (Some (spec_data st, hm_get (sr_dynamic_configs (sd_values (spec_data st))) config_name)))"

record experiment_groups_result =
  gr_is_experiment_active :: "bool option"
  gr_groups :: "experiment_group list"

definition get_experiment_groups :: "('c, 's) api_env \<Rightarrow> string \<Rightarrow> ('c, 's) statsig \<Rightarrow> experiment_groups_result" where
  "get_experiment_groups A experiment_name st =
     use_dynamic_config_spec A experiment_name (\<lambda>lookup.
       (let none_result = \<lparr>gr_is_experiment_active = None, gr_groups = []\<rparr>
        in case lookup of
             Some (_, Some spec) \<Rightarrow>
               if sp_entity spec \<noteq> ''experiment'' then none_result
               else \<lparr>gr_is_experiment_active = Some (opt_default False (sp_is_active spec)),
                     gr_groups = map experiment_group_from_rule (filter (\<lambda>r. ru_is_experiment_group r = Some True) (sp_rules spec))\<rparr>
           | _ \<Rightarrow> none_result)) st"

definition experiment_from_rule_match :: "string \<Rightarrow> spec option \<Rightarrow> rule option \<Rightarrow> evaluation_details \<Rightarrow> experiment_value" where
  "experiment_from_rule_match experiment_name spec rule details =
     (case (spec, rule) of
        (Some s, Some r) \<Rightarrow>
          (let group = experiment_group_from_rule r
           in \<lparr>xp_name = experiment_name, xp_value = eg_return_value group, xp_rule_id = eg_rule_id group,
               xp_id_type = eg_id_type group, xp_group_name = ru_group_name r, xp_details = details,
               xp_is_experiment_active = opt_default False (sp_is_active s), xp_evaluation = None\<rparr>)
      | _ \<Rightarrow> make_experiment experiment_name None details)"

definition get_experiment_by_rule_match_impl ::
    "('c, 's) api_env \<Rightarrow> string \<Rightarrow> (rule \<Rightarrow> bool) \<Rightarrow> (spec option \<Rightarrow> rule option \<Rightarrow> evaluation_details \<Rightarrow> 't) \<Rightarrow> ('c, 's) statsig \<Rightarrow> 't" where
  "get_experiment_by_rule_match_impl A experiment_name rule_predicate result_factory st =
     use_dynamic_config_spec A experiment_name (\<lambda>lookup.
       case lookup of
         None \<Rightarrow> result_factory None None (details_error ''Failed to acquire read lock for spec store data'')
       | Some (d, None) \<Rightarrow>
           result_factory None None (details_unrecognized (sd_source d) (sr_time (sd_values d)) (sd_time_received_at d))
       | Some (d, Some spec) \<Rightarrow>
           (case find rule_predicate (sp_rules spec) of
              Some r \<Rightarrow>
                result_factory (Some spec) (Some r)
                  (details_recognized_without_eval_result (sd_source d) (sr_time (sd_values d)) (sd_time_received_at d))
            | None \<Rightarrow>
                result_factory None None (details_unrecognized (sd_source d) (sr_time (sd_values d)) (sd_time_received_at d)))) st"

definition get_experiment_by_group_name_impl where
  "get_experiment_by_group_name_impl A experiment_name group_name result_factory st =
     get_experiment_by_rule_match_impl A experiment_name (\<lambda>r. ru_group_name r = Some group_name) result_factory st"

definition get_experiment_by_group_id_advanced_impl where
  "get_experiment_by_group_id_advanced_impl A experiment_name rule_id result_factory st =
     get_experiment_by_rule_match_impl A experiment_name (\<lambda>r. ru_id r = rule_id) result_factory st"

definition get_experiment_by_group_name :: "('c, 's) api_env \<Rightarrow> string \<Rightarrow> string \<Rightarrow> ('c, 's) statsig \<Rightarrow> experiment_value" where
  "get_experiment_by_group_name A experiment_name group_name st =
     get_experiment_by_group_name_impl A experiment_name group_name (experiment_from_rule_match experiment_name) st"

definition get_experiment_by_group_id_advanced :: "('c, 's) api_env \<Rightarrow> string \<Rightarrow> string \<Rightarrow> ('c, 's) statsig \<Rightarrow> experiment_value" where
  "get_experiment_by_group_id_advanced A experiment_name group_id st =
     get_experiment_by_group_id_advanced_impl A experiment_name group_id (experiment_from_rule_match experiment_name) st"

definition get_raw_experiment_by_group_name :: "('c, 's) api_env \<Rightarrow> string \<Rightarrow> string \<Rightarrow> ('c, 's) statsig \<Rightarrow> experiment_raw" where
  "get_raw_experiment_by_group_name A experiment_name group_name st =
     get_experiment_by_group_name_impl A experiment_name group_name (rule_to_experiment_raw experiment_name) st"

definition get_raw_experiment_by_group_id_advanced :: "('c, 's) api_env \<Rightarrow> string \<Rightarrow> string \<Rightarrow> ('c, 's) statsig \<Rightarrow> experiment_raw" where
  "get_raw_experiment_by_group_id_advanced A experiment_name group_id st =
     get_experiment_by_group_id_advanced_impl A experiment_name group_id (rule_to_experiment_raw experiment_name) st"

section \<open>Layers\<close>

definition get_layer_impl ::
    "('c, 's) api_env \<Rightarrow> statsig_user_internal \<Rightarrow> string \<Rightarrow> layer_evaluation_options \<Rightarrow> ('c, 's) statsig \<Rightarrow>
     (layer_value \<times> ('c, 's) statsig) option" where
  "get_layer_impl A user layer_name options st =
     (let disable = lo_disable_exposure_logging options;
          st0 = (if disable then count_check layer_name st else st)
      in map_option (\<lambda>(layer0, st1).
           (let (layer, st2) =
              (if av_storage A \<noteq> None \<and> av_sticky_read A
               then (let (l, storage) = try_apply_sticky_value_to_layer (av_ext A) (av_storage A) (av_now A) (su_data user) options
                           (sd_values (spec_data st1)) layer0 (layer_reeval A st1 user) (sg_storage st1)
                     in (l, st1\<lparr>sg_storage := storage\<rparr>))
               else (layer0, st1))
            in (layer, emit_event (layer_evaluated layer) st2)))
         (api_evaluate_spec A user layer_name
            (\<lambda>eval_details. make_layer (to_loggable user) layer_name None eval_details False disable)
            (\<lambda>res eval_details. make_layer (to_loggable user) layer_name (Some (fst (result_to_layer_eval layer_name res))) eval_details
               True disable)
            Layer (Some disable) st0))"

definition get_layer_with_options ::
    "('c, 's) api_env \<Rightarrow> user_data \<Rightarrow> string \<Rightarrow> layer_evaluation_options \<Rightarrow> ('c, 's) statsig \<Rightarrow>
     (layer_value \<times> ('c, 's) statsig) option" where
  "get_layer_with_options A user layer_name options st = get_layer_impl A (internalize_user st user) layer_name options st"

definition get_layer where
  "get_layer A user layer_name = get_layer_with_options A user layer_name
     \<lparr>lo_disable_exposure_logging = False, lo_user_persisted_values = None, lo_enforce_overrides = False, lo_enforce_targeting = False\<rparr>"

definition get_fields_needed_for_layer where "get_fields_needed_for_layer = fields_needed Layer"

definition manually_log_layer_parameter_exposure ::
    "('c, 's) api_env \<Rightarrow> user_data \<Rightarrow> string \<Rightarrow> string \<Rightarrow> ('c, 's) statsig \<Rightarrow> ('c, 's) statsig option" where
  "manually_log_layer_parameter_exposure A user layer_name parameter_name st =
     (let user_internal = internalize_user st user
      in map_option (\<lambda>((details, evaluation), st1).
           log_op A (EnqueueExposure (layer_param_exposure (av_now A) user_internal layer_name parameter_name ManualTrigger details evaluation)) st1)
         (evaluate_spec_raw A user_internal layer_name Layer None st))"

definition use_raw_layer_with_options ::
    "('c, 's) api_env \<Rightarrow> user_data \<Rightarrow> string \<Rightarrow> layer_evaluation_options \<Rightarrow> ('c, 's) statsig \<Rightarrow> (layer_raw \<times> ('c, 's) statsig) option" where
  "use_raw_layer_with_options A user layer_name options st =
     (let user_internal = internalize_user st user; disable = lo_disable_exposure_logging options
      in map_option (\<lambda>((details0, evaluation0), st1).
           (let ((evaluation, details), st2) =
              (if av_storage A \<noteq> None \<and> av_sticky_read A
               then (let (r, storage) = try_apply_sticky_value_to_raw_layer (av_ext A) (av_storage A) (av_now A) user options
                           (sd_values (spec_data st1)) details0 evaluation0 (layer_reeval A st1 user_internal) (sg_storage st1)
                     in (r, st1\<lparr>sg_storage := storage\<rparr>))
               else ((evaluation0, details0), st1));
                raw = result_to_layer_raw user_internal layer_name disable details evaluation;
                st3 = emit_event (layer_evaluated_parts layer_name (ed_reason details) evaluation) st2
            in (raw, if disable then count_check layer_name st3 else st3)))
         (evaluate_spec_raw A user_internal layer_name Layer (Some disable) st))"

definition log_layer_param_exposure_with_layer ::
    "('c, 's) api_env \<Rightarrow> layer_value \<Rightarrow> string \<Rightarrow> ('c, 's) statsig \<Rightarrow> ('c, 's) statsig" where
  "log_layer_param_exposure_with_layer A layer parameter_name st =
     (if ly_disable_exposure layer then count_check (ly_name layer) st
      else log_op A (EnqueueLayerParamExpo \<lparr>lo_exposure_time = av_now A, lo_layer = layer, lo_parameter_name = parameter_name,
             lo_trigger = Auto\<rparr>) st)"

definition log_layer_param_exposure_from_partial_raw ::
    "('c, 's) api_env \<Rightarrow> partial_layer_raw \<Rightarrow> string \<Rightarrow> ('c, 's) statsig \<Rightarrow> ('c, 's) statsig" where
  "log_layer_param_exposure_from_partial_raw A raw param_name st =
     (if pl_disable_exposure raw then count_check (pl_name raw) st
      else log_op A (EnqueueExposure (layer_param_exposure_from_partial_raw (av_now A) param_name Auto raw)) st)"

text \<open>Reading a parameter of a layer logs as the value says (\<open>log_param_exposure\<close>).\<close>

definition apply_layer_log :: "('c, 's) api_env \<Rightarrow> layer_value \<Rightarrow> layer_log \<Rightarrow> ('c, 's) statsig \<Rightarrow> ('c, 's) statsig" where
  "apply_layer_log A layer entry st =
     (case entry of
        NoLog \<Rightarrow> st
      | CountNonExposed name \<Rightarrow> count_check name st
      | LogParamExposure param_name \<Rightarrow>
          log_op A (EnqueueLayerParamExpo \<lparr>lo_exposure_time = av_now A, lo_layer = layer, lo_parameter_name = param_name,
            lo_trigger = Auto\<rparr>) st)"

end
