(* ===== verification/Statsig_Stores.thy ===== *)
theory Statsig_Stores
  imports Statsig_Api
begin

text \<open>
  The rest of the interface of \<open>src/statsig-rust/src/statsig.rs\<close>: parameter stores and the reading of their
  parameters (\<open>ParameterStore\<close> of \<open>statsig_types.rs\<close>), bandits, local overrides, the lists of names, and the shared
  instance.
\<close>

section \<open>Parameter stores\<close>

record parameter_store_value =
  pv_name :: string
  pv_details :: evaluation_details
  pv_parameters :: "(string, parameter) HashMap"
  pv_options :: parameter_store_evaluation_options

fun collect_parameters :: "(string \<times> json) list \<Rightarrow> (string, parameter) HashMap \<Rightarrow> (string, parameter) HashMap" where
  "collect_parameters [] m = m"
| "collect_parameters ((param_name, param_value) # ps) m =
     collect_parameters ps (case parameter_from_json param_value of Some p \<Rightarrow> hm_insert param_name p m | None \<Rightarrow> m)"

definition api_get_parameter_store_override ::
    "('c, 's) api_env \<Rightarrow> user_data \<Rightarrow> string \<Rightarrow> ('c, 's) statsig \<Rightarrow> (evaluator_result \<times> (string, parameter) HashMap) option" where
  "api_get_parameter_store_override A user store_name st =
     (case adapter_of A st of
        None \<Rightarrow> None
      | Some adapter \<Rightarrow>
          (let (found, res) = oa_parameter_store adapter user store_name er_default
           in if \<not> found then None
              else Some (res,
                (case er_json_value res of
                   None \<Rightarrow> []
                 | Some json_value \<Rightarrow> (case dr_get_json json_value of None \<Rightarrow> [] | Some m \<Rightarrow> collect_parameters m [])))))"

definition get_parameter_store_with_user_and_options ::
    "('c, 's) api_env \<Rightarrow> user_data option \<Rightarrow> string \<Rightarrow> parameter_store_evaluation_options \<Rightarrow> ('c, 's) statsig \<Rightarrow>
     parameter_store_value \<times> ('c, 's) statsig" where
  "get_parameter_store_with_user_and_options A user store_name options st =
     (let st1 = count_check store_name st;
          d = spec_data st1;
          time = sr_time (sd_values d);
          store = (\<lambda>parameters details. \<lparr>pv_name = store_name, pv_details = details, pv_parameters = parameters, pv_options = options\<rparr>);
          unrecognized = store [] (details_unrecognized (sd_source d) time (sd_time_received_at d))
      in (if \<not> av_read A then store [] details_unrecognized_no_data
          else case Option.bind user (\<lambda>u. api_get_parameter_store_override A u store_name st1) of
              Some (res, parameters) \<Rightarrow>
                store parameters (details_recognized_but_overridden time (sd_time_received_at d)
                  (opt_default ''Override'' (er_override_reason res)) (er_version res))
            | None \<Rightarrow>
                (case sr_param_stores (sd_values d) of
                   None \<Rightarrow> unrecognized
                 | Some stores \<Rightarrow>
                     (case hm_get stores store_name of
                        Some s \<Rightarrow> store (ps_parameters s) (details_recognized (sd_source d) time (sd_time_received_at d) er_default)
                      | None \<Rightarrow> unrecognized)), st1))"

fun str_insert :: "string \<Rightarrow> string list \<Rightarrow> string list" where
  "str_insert s [] = [s]"
| "str_insert s (t # ts) = (if str_le s t then s # t # ts else t # str_insert s ts)"

definition get_parameter_names :: "parameter_store_value \<Rightarrow> string list" where
  "get_parameter_names ps = foldr str_insert (hm_keys (pv_parameters ps)) []"

text \<open>
  Reading a parameter. How a JSON value is read as the type asked for is an argument. A parameter taken from
  a config, experiment or layer is read as an optional value, for which null is a value that is missing.
\<close>

definition de_opt :: "(json \<Rightarrow> 'a option) \<Rightarrow> json \<Rightarrow> 'a option option" where
  "de_opt de j = (if j = JNull then Some None else map_option Some (de j))"

definition store_get_opt ::
    "(json \<Rightarrow> 'a option) \<Rightarrow> ('c, 's) api_env \<Rightarrow> parameter_store_value \<Rightarrow> user_data \<Rightarrow> string \<Rightarrow> ('c, 's) statsig \<Rightarrow>
     ('a option \<times> ('c, 's) statsig) option" where
  "store_get_opt de A ps user param_name st =
     (case hm_get (pv_parameters ps) param_name of
        None \<Rightarrow> Some (None, st)
      | Some (StaticValueParameter _ _ _ val) \<Rightarrow> Some (de val, st)
      | Some (GateParameter _ _ _ gate_name pass_value fail_value) \<Rightarrow>
          map_option (\<lambda>(res, st1). (de (if res then pass_value else fail_value), st1))
            (check_gate_with_options A user gate_name (gate_options_from_store (pv_options ps)) st)
      | Some (DynamicConfigParameter _ _ _ config_name p) \<Rightarrow>
          map_option (\<lambda>(res, st1). (Option.bind (config_get_opt (de_opt de) (dc_value res) p) id, st1))
            (get_dynamic_config_with_options A user config_name (config_options_from_store (pv_options ps)) st)
      | Some (ExperimentParameter _ _ _ experiment_name p) \<Rightarrow>
          map_option (\<lambda>(res, st1). (Option.bind (config_get_opt (de_opt de) (xp_value res) p) id, st1))
            (get_experiment_with_options A user experiment_name (experiment_options_from_store (pv_options ps)) st)
      | Some (LayerParameter _ _ _ layer_name p) \<Rightarrow>
          map_option (\<lambda>(res, st1).
              (let (val, entry) = layer_get_opt (de_opt de) res p
               in (Option.bind val id, apply_layer_log A res entry st1)))
            (get_layer_with_options A user layer_name (layer_options_from_store (pv_options ps)) st))"

definition store_get ::
    "(json \<Rightarrow> 'a option) \<Rightarrow> ('c, 's) api_env \<Rightarrow> parameter_store_value \<Rightarrow> user_data \<Rightarrow> string \<Rightarrow> 'a \<Rightarrow> ('c, 's) statsig \<Rightarrow>
     ('a \<times> ('c, 's) statsig) option" where
  "store_get de A ps user param_name fallback st =
     map_option (\<lambda>(v, st1). (opt_default fallback v, st1)) (store_get_opt de A ps user param_name st)"

definition de_bool :: "json \<Rightarrow> json option" where
  "de_bool j = (case j of JBool _ \<Rightarrow> Some j | _ \<Rightarrow> None)"

definition de_number :: "json \<Rightarrow> json option" where
  "de_number j = (case j of JNumber _ \<Rightarrow> Some j | _ \<Rightarrow> None)"

definition de_string :: "json \<Rightarrow> json option" where
  "de_string j = (case j of JString _ \<Rightarrow> Some j | _ \<Rightarrow> None)"

definition de_array :: "json \<Rightarrow> json option" where
  "de_array j = (case j of JArray _ \<Rightarrow> Some j | _ \<Rightarrow> None)"

definition de_object :: "json \<Rightarrow> json option" where
  "de_object j = (case j of JObject _ \<Rightarrow> Some j | _ \<Rightarrow> None)"

definition store_get_json_value ::
    "('c, 's) api_env \<Rightarrow> parameter_store_value \<Rightarrow> user_data \<Rightarrow> string \<Rightarrow> json option \<Rightarrow> ('c, 's) statsig \<Rightarrow>
     (json \<times> ('c, 's) statsig) option" where
  "store_get_json_value A ps user param_name fallback st =
     (case fallback of
        None \<Rightarrow> store_get Some A ps user param_name JNull st
      | Some JNull \<Rightarrow> store_get Some A ps user param_name JNull st
      | Some (JBool b) \<Rightarrow> store_get de_bool A ps user param_name (JBool b) st
      | Some (JNumber n) \<Rightarrow> store_get de_number A ps user param_name (JNumber n) st
      | Some (JString s) \<Rightarrow> store_get de_string A ps user param_name (JString s) st
      | Some (JArray a) \<Rightarrow> store_get de_array A ps user param_name (JArray a) st
      | Some (JObject m) \<Rightarrow> store_get de_object A ps user param_name (JObject m) st)"

definition get_parameter_from_store ::
    "(json \<Rightarrow> 'a option) \<Rightarrow> ('c, 's) api_env \<Rightarrow> user_data \<Rightarrow> string \<Rightarrow> string \<Rightarrow> 'a option \<Rightarrow> parameter_store_evaluation_options option \<Rightarrow>
     ('c, 's) statsig \<Rightarrow> ('a option \<times> ('c, 's) statsig) option" where
  "get_parameter_from_store de A user store_name param_name fallback options st =
     (let (store, st1) = get_parameter_store_with_user_and_options A (Some user) store_name
            (opt_default \<lparr>po_disable_exposure_logging = False\<rparr> options) st
      in case fallback of
           Some f \<Rightarrow> map_option (\<lambda>(v, st2). (Some v, st2)) (store_get de A store user param_name f st1)
         | None \<Rightarrow> store_get_opt de A store user param_name st1)"

definition get_parameter_names_from_store ::
    "('c, 's) api_env \<Rightarrow> user_data \<Rightarrow> string \<Rightarrow> ('c, 's) statsig \<Rightarrow> string list \<times> ('c, 's) statsig" where
  "get_parameter_names_from_store A user store_name st =
     (let (store, st1) = get_parameter_store_with_user_and_options A (Some user) store_name
            \<lparr>po_disable_exposure_logging = False\<rparr> st
      in (get_parameter_names store, st1))"

definition get_parameter_store_with_options where
  "get_parameter_store_with_options A store_name options = get_parameter_store_with_user_and_options A None store_name options"

definition get_parameter_store where
  "get_parameter_store A store_name = get_parameter_store_with_options A store_name \<lparr>po_disable_exposure_logging = False\<rparr>"

definition get_parameter_store_for_user where
  "get_parameter_store_for_user A user store_name =
     get_parameter_store_with_user_and_options A (Some user) store_name \<lparr>po_disable_exposure_logging = False\<rparr>"

text \<open>The readers for one type; an integer is read from a number that is one.\<close>

fun de_f64 :: "json \<Rightarrow> f64 option" where
  "de_f64 (JNumber n) = json_as_f64 n"
| "de_f64 _ = None"

fun de_i64 :: "json \<Rightarrow> i64 option" where
  "de_i64 (JNumber (PosInt n)) = (if n < 2 ^ 63 then Some (int n) else None)"
| "de_i64 (JNumber (NegInt i)) = Some i"
| "de_i64 _ = None"

definition get_string_parameter_from_store where
  "get_string_parameter_from_store A = get_parameter_from_store (\<lambda>j. case j of JString s \<Rightarrow> Some s | _ \<Rightarrow> None) A"

definition get_boolean_parameter_from_store where
  "get_boolean_parameter_from_store A = get_parameter_from_store (\<lambda>j. case j of JBool b \<Rightarrow> Some b | _ \<Rightarrow> None) A"

definition get_float_parameter_from_store where
  "get_float_parameter_from_store A = get_parameter_from_store de_f64 A"

definition get_integer_parameter_from_store where
  "get_integer_parameter_from_store A = get_parameter_from_store de_i64 A"

definition get_array_parameter_from_store where
  "get_array_parameter_from_store A = get_parameter_from_store (\<lambda>j. case j of JArray a \<Rightarrow> Some a | _ \<Rightarrow> None) A"

definition get_object_parameter_from_store where
  "get_object_parameter_from_store A = get_parameter_from_store (\<lambda>j. case j of JObject m \<Rightarrow> Some m | _ \<Rightarrow> None) A"

section \<open>Bandits\<close>

definition get_cmab_ranked_groups ::
    "(cmab_group list \<Rightarrow> cmab_group list) \<Rightarrow> ('c, 's) api_env \<Rightarrow> user_data \<Rightarrow> string \<Rightarrow> ('c, 's) statsig \<Rightarrow>
     (cmab_ranked_group list \<times> ('c, 's) statsig) option" where
  "get_cmab_ranked_groups shuffle A user cmab_name st =
     (let st1 = count_check cmab_name st; en = standard_context A st1 (internalize_user st1 user) True
      in if \<not> av_read A then Some ([], st1)
         else case get_cmab_ranked_list en (evaluate en (av_fuel A)) shuffle cmab_name (st_new (sg_hashing st1)) of
             Ok groups s \<Rightarrow> Some (groups, st1\<lparr>sg_hashing := st_hash s\<rparr>)
           | _ \<Rightarrow> None)"

definition log_cmab_exposure_for_group ::
    "('c, 's) api_env \<Rightarrow> user_data \<Rightarrow> string \<Rightarrow> string \<Rightarrow> ('c, 's) statsig \<Rightarrow> ('c, 's) statsig option" where
  "log_cmab_exposure_for_group A user cmab_name group_id st =
     (let user_internal = internalize_user st user
      in map_option (\<lambda>(xp, st1).
           log_op A (EnqueueExperimentExpo \<lparr>xo_user = user_internal, xo_experiment = xp\<lparr>xp_rule_id := group_id\<rparr>,
             xo_trigger = ManualTrigger, xo_exposure_time = av_now A\<rparr>) st1)
         (get_experiment_impl A user_internal cmab_name None st))"

section \<open>Overrides\<close>

definition with_overrides :: "(override_store \<Rightarrow> override_store) \<Rightarrow> ('c, 's) statsig \<Rightarrow> ('c, 's) statsig" where
  "with_overrides f st = st\<lparr>sg_overrides := f (sg_overrides st)\<rparr>"

definition api_override_gate where
  "api_override_gate A gate_name val i st = with_overrides (override_gate (av_override_lock A) gate_name val i) st"

definition api_override_dynamic_config where
  "api_override_dynamic_config A config_name m i st =
     with_overrides (override_dynamic_config (av_override_lock A) (av_ext A) config_name m i) st"

definition api_override_layer where
  "api_override_layer A layer_name m i st = with_overrides (override_layer (av_override_lock A) (av_ext A) layer_name m i) st"

definition api_override_parameter_store where
  "api_override_parameter_store A param_name m i st =
     with_overrides (override_parameter_store (av_override_lock A) param_name m i) st"

definition api_override_experiment where
  "api_override_experiment A experiment_name m i st =
     with_overrides (override_experiment (av_override_lock A) (av_ext A) experiment_name m i) st"

definition api_override_experiment_by_group_name where
  "api_override_experiment_by_group_name A experiment_name group_name i st =
     with_overrides (override_experiment_by_group_name (av_override_lock A) experiment_name group_name i) st"

definition api_remove_gate_override where
  "api_remove_gate_override A gate_name i st = with_overrides (remove_gate_override (av_override_lock A) gate_name i) st"

definition api_remove_dynamic_config_override where
  "api_remove_dynamic_config_override A config_name i st =
     with_overrides (remove_dynamic_config_override (av_override_lock A) config_name i) st"

definition api_remove_experiment_override where
  "api_remove_experiment_override A experiment_name i st =
     with_overrides (remove_experiment_override (av_override_lock A) experiment_name i) st"

definition api_remove_layer_override where
  "api_remove_layer_override A layer_name i st = with_overrides (remove_layer_override (av_override_lock A) layer_name i) st"

definition api_remove_parameter_store_override where
  "api_remove_parameter_store_override A store_name i st =
     with_overrides (remove_parameter_store_override (av_override_lock A) store_name i) st"

definition api_remove_all_overrides where
  "api_remove_all_overrides A st = with_overrides (remove_all_overrides (av_override_lock A)) st"

section \<open>Lists of names\<close>

definition list_of :: "string \<Rightarrow> string \<Rightarrow> ('c, 's) api_env \<Rightarrow> ('c, 's) statsig \<Rightarrow> string list" where
  "list_of top_level_key entity_type A st =
     unperformant_keys_entity_filter (av_read A) top_level_key entity_type (sg_spec_store st)"

definition get_feature_gate_list where "get_feature_gate_list = list_of ''feature_gates'' ''feature_gate''"

definition get_dynamic_config_list where "get_dynamic_config_list = list_of ''dynamic_configs'' ''dynamic_config''"

definition get_experiment_list where "get_experiment_list = list_of ''dynamic_configs'' ''experiment''"

definition get_autotune_list where "get_autotune_list = list_of ''dynamic_configs'' ''autotune''"

definition get_parameter_store_list where "get_parameter_store_list = list_of ''param_stores'' ''*''"

definition get_layer_list where "get_layer_list = list_of ''layer_configs'' ''*''"

section \<open>The shared instance\<close>

abbreviation ERROR_SDK_KEY :: string where "ERROR_SDK_KEY \<equiv> ''__STATSIG_ERROR_SDK_KEY__''"

definition shared :: "bool \<Rightarrow> (string \<Rightarrow> 'i) \<Rightarrow> 'i option \<Rightarrow> 'i" where
  "shared lock_ok new_instance s =
     (if \<not> lock_ok then new_instance ERROR_SDK_KEY
      else case s of Some statsig \<Rightarrow> statsig | None \<Rightarrow> new_instance ERROR_SDK_KEY)"

definition new_shared :: "bool \<Rightarrow> 'i \<Rightarrow> 'i option \<Rightarrow> (statsig_err + 'i) \<times> 'i option" where
  "new_shared lock_ok new_instance s =
     (if \<not> lock_ok then (Inl (SharedInstanceFailure ''Statsig::new_shared() mutex error: Failed to lock SHARED_INSTANCE''), s)
      else if s \<noteq> None
      then (Inl (SharedInstanceFailure
        ''Statsig shared instance already exists. Call Statsig::remove_shared() before creating a new instance.''), s)
      else (Inr new_instance, Some new_instance))"

definition remove_shared :: "bool \<Rightarrow> 'i option \<Rightarrow> 'i option" where
  "remove_shared lock_ok s = (if lock_ok then None else s)"

definition has_shared_instance :: "bool \<Rightarrow> 'i option \<Rightarrow> bool" where
  "has_shared_instance lock_ok s \<longleftrightarrow> lock_ok \<and> s \<noteq> None"

end
