(* ===== verification/Api_Contract.thy ===== *)
theory Api_Contract
  imports Statsig_Stores
begin

text \<open>
  What the interface promises: the ways to read a gate agree, a disabled exposure is counted and nothing is
  logged, and overrides decide what is read.
\<close>

section \<open>What a call leaves alone\<close>

lemma log_op_frame [simp]:
  "sg_spec_store (log_op A op st) = sg_spec_store st" "sg_overrides (log_op A op st) = sg_overrides st"
  "sg_storage (log_op A op st) = sg_storage st" "sg_hashing (log_op A op st) = sg_hashing st"
  "sg_calls (log_op A op st) = sg_calls st" "sg_event_emitter (log_op A op st) = sg_event_emitter st"
  by (simp_all add: log_op_def)

lemma count_check_frame [simp]:
  "sg_spec_store (count_check n st) = sg_spec_store st" "sg_overrides (count_check n st) = sg_overrides st"
  "sg_storage (count_check n st) = sg_storage st" "sg_hashing (count_check n st) = sg_hashing st"
  "sg_calls (count_check n st) = sg_calls st" "sg_event_emitter (count_check n st) = sg_event_emitter st"
  "sg_event_logger (count_check n st) = increment_non_exposure_checks n (sg_event_logger st)"
  by (simp_all add: count_check_def)

lemma emit_event_frame [simp]:
  "sg_spec_store (emit_event e st) = sg_spec_store st" "sg_overrides (emit_event e st) = sg_overrides st"
  "sg_storage (emit_event e st) = sg_storage st" "sg_hashing (emit_event e st) = sg_hashing st"
  "sg_event_logger (emit_event e st) = sg_event_logger st"
  "(emit_event e st)\<lparr>sg_calls := c\<rparr> = st\<lparr>sg_calls := c\<rparr>"
  by (simp_all add: emit_event_def)

lemma count_or_log_frame [simp]:
  "sg_spec_store (count_or_log A b n op st) = sg_spec_store st" "sg_overrides (count_or_log A b n op st) = sg_overrides st"
  "sg_storage (count_or_log A b n op st) = sg_storage st"
  "count_or_log A True n op st = count_check n st"
  by (simp_all add: count_or_log_def)

text \<open>The state that only the cache of hashes can tell from the one before.\<close>

definition same_but_hashes :: "('c, 's) statsig \<Rightarrow> ('c, 's) statsig \<Rightarrow> bool" where
  "same_but_hashes st st1 \<longleftrightarrow> (\<exists>h. st1 = st\<lparr>sg_hashing := h\<rparr>)"

lemma same_but_hashes_frame:
  "same_but_hashes st st1 \<Longrightarrow> sg_event_logger st1 = sg_event_logger st \<and> sg_spec_store st1 = sg_spec_store st \<and>
     sg_overrides st1 = sg_overrides st \<and> sg_storage st1 = sg_storage st \<and> sg_calls st1 = sg_calls st"
  by (auto simp: same_but_hashes_def)

lemma api_evaluate_spec_frame:
  "api_evaluate_spec A user name mk0 mk ty dis st = Some (r, st1) \<Longrightarrow> same_but_hashes st st1"
  by (auto simp: api_evaluate_spec_via_raw same_but_hashes_def dest!: evaluate_spec_raw_frame)

lemma evaluation_frames:
  "get_gate_evaluation A user n dis st = Some (r1, st1) \<Longrightarrow> same_but_hashes st st1"
  "get_dynamic_config_impl A user n dis st = Some (r2, st1) \<Longrightarrow> same_but_hashes st st1"
  "get_experiment_impl A user n dis st = Some (r3, st1) \<Longrightarrow> same_but_hashes st st1"
  "evaluate_spec_raw A user n ty dis st = Some (r4, st1) \<Longrightarrow> same_but_hashes st st1"
  unfolding get_gate_evaluation_def get_dynamic_config_impl_def get_experiment_impl_def
  by (auto dest: api_evaluate_spec_frame evaluate_spec_raw_frame simp: same_but_hashes_def)

section \<open>Gates\<close>

lemma gate_evaluation_via_raw:
  "get_gate_evaluation A user n dis st =
     map_option (\<lambda>((details, r), st1). ((details, map_option (\<lambda>res. fst (result_to_gate_eval n res)) r), st1))
       (evaluate_spec_raw A user n Gate dis st)"
  unfolding get_gate_evaluation_def api_evaluate_spec_via_raw
  by (rule arg_cong [where f = "\<lambda>f. map_option f _"]) (auto split: option.splits)

lemma gate_value_of_result: "ge_value (fst (result_to_gate_eval n r)) = er_bool_value r"
  by (simp add: result_to_gate_eval_def result_to_base_eval_def Let_def split_def)



section \<open>Disabled exposures\<close>

definition only_counted :: "string \<Rightarrow> ('c, 's) statsig \<Rightarrow> ('t \<times> ('c, 's) statsig) option \<Rightarrow> bool" where
  "only_counted n st res \<longleftrightarrow>
     (case res of
        None \<Rightarrow> True
      | Some (_, st1) \<Rightarrow> sg_event_logger st1 = increment_non_exposure_checks n (sg_event_logger st) \<and>
          sg_spec_store st1 = sg_spec_store st \<and> sg_overrides st1 = sg_overrides st)"

lemma only_counted_map:
  assumes "\<And>r st1. res = Some (r, st1) \<Longrightarrow> same_but_hashes st st1" "\<And>r st1. only_counted n st1 (Some (f (r, st1)))"
  shows "only_counted n st (map_option f res)"
proof (cases res)
  case (Some p)
  obtain r st1 where p: "p = (r, st1)" by force
  from same_but_hashes_frame [OF assms(1) [OF Some [unfolded p]]] assms(2) [of st1 r] show ?thesis
    by (auto simp: Some p only_counted_def split: prod.splits)
qed (simp add: only_counted_def)

lemma only_counted_Some [simp]:
  "only_counted n st (Some (v, emit_event e st1)) = only_counted n st (Some (v, st1))"
  "only_counted n st (Some (v, count_check n (emit_event e (st\<lparr>sg_storage := s\<rparr>))))"
  "only_counted n st (Some (v, count_check n (emit_event e st)))"
  "only_counted n st (Some (v, count_check n (st\<lparr>sg_storage := s\<rparr>)))"
  "only_counted n st (Some (v, count_check n st))"
  by (simp_all add: only_counted_def)

lemma gate_only_counted:
  "only_counted n st (check_gate_with_options A user n \<lparr>go_disable_exposure_logging = True\<rparr> st)"
  "only_counted n st (get_feature_gate_with_options A user n \<lparr>go_disable_exposure_logging = True\<rparr> st)"
  unfolding check_gate_with_options_def get_feature_gate_with_options_def Let_def
  by (rule only_counted_map, erule evaluation_frames, simp add: split_def)+

lemma config_only_counted:
  "only_counted n st (get_dynamic_config_with_options A user n \<lparr>co_disable_exposure_logging = True\<rparr> st)"
  unfolding get_dynamic_config_with_options_def Let_def
  by (rule only_counted_map, erule evaluation_frames, simp)

lemma experiment_only_counted:
  assumes "xo_disable_exposure_logging opts"
  shows "only_counted n st (get_experiment_with_options A user n opts st)"
  unfolding get_experiment_with_options_def Let_def
  by (rule only_counted_map, erule evaluation_frames) (simp add: assms split_def)

lemma raw_only_counted:
  assumes "xo_disable_exposure_logging xopts"
  shows "only_counted n st (use_raw_feature_gate_with_options A user n \<lparr>go_disable_exposure_logging = True\<rparr> st)"
    "only_counted n st (use_raw_dynamic_config_with_options A user n \<lparr>co_disable_exposure_logging = True\<rparr> st)"
    "only_counted n st (use_raw_experiment_with_options A user n xopts st)"
  unfolding use_raw_feature_gate_with_options_def use_raw_dynamic_config_with_options_def use_raw_experiment_with_options_def Let_def
  by (rule only_counted_map, erule evaluation_frames, simp add: assms split_def)+

lemma raw_layer_only_counted:
  assumes "lo_disable_exposure_logging opts"
  shows "only_counted n st (use_raw_layer_with_options A user n opts st)"
  unfolding use_raw_layer_with_options_def Let_def
  by (rule only_counted_map, erule evaluation_frames) (simp add: assms split_def split: if_split)

lemma layer_only_counted:
  assumes "lo_disable_exposure_logging opts"
  shows "only_counted n st (get_layer_with_options A user n opts st)"
proof (cases "api_evaluate_spec A (internalize_user st user) n
            (\<lambda>eval_details. make_layer (to_loggable (internalize_user st user)) n None eval_details False True)
            (\<lambda>res eval_details. make_layer (to_loggable (internalize_user st user)) n (Some (fst (result_to_layer_eval n res)))
               eval_details True True)
            Layer (Some True) (count_check n st)")
  case None
  then show ?thesis by (simp add: get_layer_with_options_def get_layer_impl_def assms only_counted_def)
next
  case (Some p)
  obtain l st1 where p: "p = (l, st1)" by force
  from same_but_hashes_frame [OF api_evaluate_spec_frame [OF Some [unfolded p]]] show ?thesis
    by (simp add: get_layer_with_options_def get_layer_impl_def assms Some p only_counted_def split_def Let_def)
qed


section \<open>Overrides\<close>

lemma overridden_gate_evaluates:
  assumes "av_fuel A = Suc f" "av_override_lock A" "hm_get (os_gate (sg_overrides st)) n = None"
  shows "evaluate (standard_context A (api_override_gate A n v None st) user dis) (av_fuel A) n Gate (st_new h) =
    Ok Recognized ((st_new h)\<lparr>st_result := mark_result_as_override (er_default\<lparr>er_bool_value := v\<rparr>)\<rparr>)"
  using table_override_without_id [OF assms(3)] assms(1,2)
  by (simp add: evaluate_body_def get_gate_override_def override_gate_def with_lock_def try_shortcuts_def try_apply_override_def ev_simps filter_active_def standard_context_def
      create_standard_eval_context_def adapter_of_def local_override_adapter_def api_override_gate_def with_overrides_def st_new_def)



lemma collect_parameters_get:
  "hm_wf m \<Longrightarrow> hm_get (collect_parameters (map (\<lambda>(k, p). (k, parameter_to_json p)) m) acc) k =
     (case hm_get m k of Some p \<Rightarrow> Some p | None \<Rightarrow> hm_get acc k)"
proof (induction m arbitrary: acc)
  case (Cons q m)
  obtain a b where q: "q = (a, b)" by force
  have wf: "hm_wf m" "hm_get m a = None"
    using Cons.prems by (auto simp: q hm_wf_def hm_get_def map_of_eq_None_iff)
  show ?case using wf(2) Cons.IH [OF wf(1)] by (auto simp: q parameter_from_to_json hm_get_Cons split: option.splits)
qed simp

lemma hm_get_map_values: "hm_get (map (\<lambda>(k, v). (k, f v)) m) k = map_option f (hm_get m k)"
  by (induction m) (auto simp: hm_get_Cons)

lemma hm_wf_map_values: "hm_wf (map (\<lambda>(k, v). (k, f v)) m) = hm_wf m"
proof -
  have "map fst (map (\<lambda>(k, v). (k, f v)) m) = map fst m" by (induction m) auto
  then show ?thesis by (simp only: hm_wf_def)
qed

text \<open>
  A parameter store that is overridden with plain values gives them back: the value set under a name is the
  value the store reads there for every user, although on its way it is written as a parameter, kept as JSON and
  parsed again. A name that was not set has no value. Reading it counts one unexposed check of the store.
\<close>

theorem parameter_store_override_read_back:
  assumes "av_override_lock A" "av_read A" "hm_wf m" "hm_get (os_parameter_store (sg_overrides st)) n = None"
    and "\<And>v. hm_get m k = Some v \<Longrightarrow> parameter_from_json v = None"
  shows "get_parameter_from_store Some A user n k None opts (api_override_parameter_store A n m None st) =
    Some (hm_get m k, count_check n (api_override_parameter_store A n m None st))"
proof -
  let ?params = "map (\<lambda>(k, j). (k, parameter_of_value j)) m"
  have wf: "hm_wf ?params" using assms(3) by (simp add: hm_wf_map_values)
  have found: "api_get_parameter_store_override A user n (count_check n (api_override_parameter_store A n m None st)) =
      Some (mark_result_as_override (er_default\<lparr>er_json_value :=
              Some (dr_from_map (av_ext A) (map (\<lambda>(k, p). (k, parameter_to_json p)) ?params))\<rparr>),
            collect_parameters (map (\<lambda>(k, p). (k, parameter_to_json p)) ?params) [])"
    using table_override_without_id [OF assms(4)] assms(1)
    by (simp add: api_get_parameter_store_override_def adapter_of_def local_override_adapter_def api_override_parameter_store_def
        with_overrides_def override_parameter_store_def with_lock_def get_parameter_store_override_def mark_result_as_override_def
        dr_get_json_def dr_from_map_def)
  have get: "hm_get (collect_parameters (map (\<lambda>(k, p). (k, parameter_to_json p)) ?params) []) k =
      map_option parameter_of_value (hm_get m k)"
    using collect_parameters_get [OF wf, of "[]" k] by (simp add: hm_get_map_values split: option.splits)
  show ?thesis
  proof (cases "hm_get m k")
    case None
    with get show ?thesis using assms(2)
      by (simp add: get_parameter_from_store_def get_parameter_store_with_user_and_options_def found store_get_opt_def Let_def)
  next
    case (Some v)
    with get assms(5) show ?thesis using assms(2)
      by (simp add: get_parameter_from_store_def get_parameter_store_with_user_and_options_def found store_get_opt_def Let_def
          parameter_of_value_def)
  qed
qed


section \<open>A sample instance\<close>

definition sample_api_env :: "bool \<Rightarrow> (exposure_sampling_key list \<times> nat, unit) api_env" where
  "sample_api_env read = \<lparr>av_ext = sample_ext, av_unicode = (\<lambda>_. True), av_lru = list_lru, av_storage = None, av_read = read,
     av_sticky_read = True, av_reeval_read = (\<lambda>_. True), av_override_lock = True, av_now = 5,
     av_enqueue = \<lparr>ee_now = 5, ee_cas_ok = True, ee_config_ok = True, ee_sampling_locks = (\<lambda>_. all_locks), ee_queue_locks = (\<lambda>_. True)\<rparr>,
     av_fuel = 301, av_reenter = (\<lambda>_ _ _. None), av_country_lock = True, av_country_table = None,
     av_user_agent = (\<lambda>_ _ _. (None, None)), av_clock = (\<lambda>_. 0), av_random = (\<lambda>_. Fin 0)\<rparr>"

definition sample_statsig :: "(exposure_sampling_key list \<times> nat, unit) statsig" where
  "sample_statsig = \<lparr>sg_sdk_key = ''k'', sg_options = options_default,
     sg_event_logger = el_new sample_ext list_lru (\<lambda>_. None) 0 (logger_options_of options_default),
     sg_overrides = os_new, sg_spec_store = ss_new [] False gc_new, sg_hashing = memo_new, sg_environment = None,
     sg_fallback_environment = None, sg_storage = (), sg_event_emitter = emitter_default, sg_calls = [],
     sg_background_tasks_started = False, sg_initialize_details = init_details_default\<rparr>"



theorem parameter_store_override_read_back_witness:
  "get_parameter_from_store Some (sample_api_env True) ud_default ''p'' ''a'' None None
     (api_override_parameter_store (sample_api_env True) ''p'' [(''a'', JBool True)] None sample_statsig) =
   Some (Some (JBool True), count_check ''p''
     (api_override_parameter_store (sample_api_env True) ''p'' [(''a'', JBool True)] None sample_statsig))"
proof -
  have "get_parameter_from_store Some (sample_api_env True) ud_default ''p'' ''a'' None None
      (api_override_parameter_store (sample_api_env True) ''p'' [(''a'', JBool True)] None sample_statsig) =
    Some (hm_get [(''a'', JBool True)] ''a'', count_check ''p''
      (api_override_parameter_store (sample_api_env True) ''p'' [(''a'', JBool True)] None sample_statsig))"
    by (rule parameter_store_override_read_back)
      (simp_all add: sample_api_env_def sample_statsig_def os_new_def hm_wf_def hm_get_Cons parameter_from_json_def
        parse_static_def parse_gate_param_def parse_named_param_def struct_fields_def split: if_splits)
  then show ?thesis by (simp add: hm_get_Cons)
qed

end
