(* ===== verification/Diagnostics.thy ===== *)
theory Diagnostics
  imports Options
begin

text \<open>
  The diagnostics of the library, \<open>src/statsig-rust/src/sdk_diagnostics/\<close>, and the events the components send to
  its observers, \<open>src/statsig-rust/src/observability/\<close>: markers, their collection by context and the event they
  become, the metrics of the host's observability client, and the captured console lines.

  A component's calls of \<open>OpsStatsForInstance\<close> are the events it sends, in order. The channel that carries them
  to the observers is not modelled; an observer handles one event at a time.
\<close>

section \<open>Markers\<close>

datatype key_type = KeyInitialize | KeyOverall | KeyDownloadConfigSpecs | KeyGetIDList | KeyGetIDListSources

datatype step_type = StepProcess | StepNetworkRequest

datatype action_type = ActionStart | ActionEnd

record marker =
  mk_key :: key_type
  mk_action :: action_type
  mk_timestamp :: u64
  mk_attempt :: "nat option"
  mk_config_name :: "string option"
  mk_error :: "(string, string) HashMap option"
  mk_id_list_count :: "u32 option"
  mk_marker_id :: "string option"
  mk_message :: "string option"
  mk_sdk_region :: "string option"
  mk_status_code :: "nat option"
  mk_step :: "step_type option"
  mk_success :: "bool option"
  mk_url :: "string option"
  mk_evaluation_details :: "evaluation_details option"
  mk_config_spec_ready :: "bool option"
  mk_source :: "string option"
  mk_content_type :: "string option"

definition marker_new :: "u64 \<Rightarrow> key_type \<Rightarrow> action_type \<Rightarrow> step_type option \<Rightarrow> marker" where
  "marker_new now key action step =
     \<lparr>mk_key = key, mk_action = action, mk_timestamp = now, mk_attempt = None, mk_config_name = None, mk_error = None,
      mk_id_list_count = None, mk_marker_id = None, mk_message = None, mk_sdk_region = None, mk_status_code = None,
      mk_step = step, mk_success = None, mk_url = None, mk_evaluation_details = None, mk_config_spec_ready = None,
      mk_source = None, mk_content_type = None\<rparr>"

text \<open>The count is kept when it fits 32 bits.\<close>

definition with_id_list_count :: "nat \<Rightarrow> marker \<Rightarrow> marker" where
  "with_id_list_count n m = (if n \<le> 2 ^ 32 - 1 then m\<lparr>mk_id_list_count := Some (of_nat n)\<rparr> else m)"

fun key_type_json :: "key_type \<Rightarrow> json" where
  "key_type_json KeyInitialize = JString ''initialize''"
| "key_type_json KeyOverall = JString ''overall''"
| "key_type_json KeyDownloadConfigSpecs = JString ''download_config_specs''"
| "key_type_json KeyGetIDList = JString ''get_id_list''"
| "key_type_json KeyGetIDListSources = JString ''get_id_list_sources''"

fun key_type_debug :: "key_type \<Rightarrow> string" where
  "key_type_debug KeyInitialize = ''Initialize''"
| "key_type_debug KeyOverall = ''Overall''"
| "key_type_debug KeyDownloadConfigSpecs = ''DownloadConfigSpecs''"
| "key_type_debug KeyGetIDList = ''GetIDList''"
| "key_type_debug KeyGetIDListSources = ''GetIDListSources''"

fun step_type_json :: "step_type \<Rightarrow> json" where
  "step_type_json StepProcess = JString ''process''"
| "step_type_json StepNetworkRequest = JString ''network_request''"

fun action_type_json :: "action_type \<Rightarrow> json" where
  "action_type_json ActionStart = JString ''start''"
| "action_type_json ActionEnd = JString ''end''"

definition nat_json :: "nat \<Rightarrow> json" where
  "nat_json n = JNumber (PosInt n)"

definition nullable :: "('a \<Rightarrow> json) \<Rightarrow> 'a option \<Rightarrow> json" where
  "nullable f v = (case v of Some a \<Rightarrow> f a | None \<Rightarrow> JNull)"

definition evaluation_details_json :: "evaluation_details \<Rightarrow> json" where
  "evaluation_details_json d =
     JObject [(''reason'', JString (ed_reason d)), (''lcut'', nullable u64_json (ed_lcut d)),
       (''received_at'', nullable u64_json (ed_received_at d)), (''version'', nullable u32_json (ed_version d))]"

definition string_map_json :: "(string, string) HashMap \<Rightarrow> json" where
  "string_map_json m = JObject (map (\<lambda>(k, v). (k, JString v)) m)"

definition marker_json :: "marker \<Rightarrow> json" where
  "marker_json m =
     JObject ([(''key'', key_type_json (mk_key m)), (''action'', action_type_json (mk_action m)), (''timestamp'', u64_json (mk_timestamp m))]
       @ serialize_data_field ''attempt'' (map_option nat_json (mk_attempt m))
       @ serialize_data_field ''configName'' (map_option JString (mk_config_name m))
       @ serialize_data_field ''error'' (map_option string_map_json (mk_error m))
       @ serialize_data_field ''idListCount'' (map_option u32_json (mk_id_list_count m))
       @ serialize_data_field ''markerID'' (map_option JString (mk_marker_id m))
       @ serialize_data_field ''message'' (map_option JString (mk_message m))
       @ serialize_data_field ''sdkRegion'' (map_option JString (mk_sdk_region m))
       @ serialize_data_field ''statusCode'' (map_option nat_json (mk_status_code m))
       @ serialize_data_field ''step'' (map_option step_type_json (mk_step m))
       @ serialize_data_field ''success'' (map_option JBool (mk_success m))
       @ serialize_data_field ''url'' (map_option JString (mk_url m))
       @ serialize_data_field ''evaluationDetails'' (map_option evaluation_details_json (mk_evaluation_details m))
       @ serialize_data_field ''configSpecReady'' (map_option JBool (mk_config_spec_ready m))
       @ serialize_data_field ''source'' (map_option JString (mk_source m))
       @ serialize_data_field ''contentType'' (map_option JString (mk_content_type m)))"

section \<open>Errors as JSON\<close>

text \<open>The derived serialisation: the name of the variant with its fields, a variant without fields as its name.\<close>

definition tagged :: "string \<Rightarrow> json \<Rightarrow> json" where
  "tagged variant body = JObject [(variant, body)]"

fun network_error_json :: "network_error \<Rightarrow> json" where
  "network_error_json (NetShutdownError url) = tagged ''ShutdownError'' (JString url)"
| "network_error_json (NetDisableNetworkOn url) = tagged ''DisableNetworkOn'' (JString url)"
| "network_error_json (NetSerializationError url s) = tagged ''SerializationError'' (JArray [JString url, JString s])"
| "network_error_json (NetRequestFailed url status message) =
     tagged ''RequestFailed'' (JArray [JString url, nullable nat_json status, JString message])"
| "network_error_json (NetRetriesExhausted url status attempts message) =
     tagged ''RetriesExhausted'' (JArray [JString url, nullable nat_json status, nat_json attempts, JString message])"
| "network_error_json (NetRequestNotRetryable url status message) =
     tagged ''RequestNotRetryable'' (JArray [JString url, nullable nat_json status, JString message])"

fun statsig_err_json :: "statsig_err \<Rightarrow> json" where
  "statsig_err_json StackOverflowError = JString ''StackOverflowError''"
| "statsig_err_json IdListsAdapterFailedToInsertIdList = JString ''IdListsAdapterFailedToInsertIdList''"
| "statsig_err_json BytesNotImplemented = JString ''BytesNotImplemented''"
| "statsig_err_json TaskShutdownFailure = JString ''TaskShutdownFailure''"
| "statsig_err_json (NetworkError e) = tagged ''NetworkError'' (network_error_json e)"
| "statsig_err_json (JsonParseError t m) = tagged ''JsonParseError'' (JArray [JString t, JString m])"
| "statsig_err_json (ProtobufParseError t m) = tagged ''ProtobufParseError'' (JArray [JString t, JString m])"
| "statsig_err_json (LockFailureError m) = tagged ''LockFailure'' (JString m)"
| "statsig_err_json (CustomError m) = tagged ''CustomError'' (JString m)"
| "statsig_err_json (ThreadFailure m) = tagged ''ThreadFailure'' (JString m)"
| "statsig_err_json (SharedInstanceFailure m) = tagged ''SharedInstanceFailure'' (JString m)"
| "statsig_err_json (ObservabilityClientFailure m) = tagged ''ObservabilityClientFailure'' (JString m)"
| "statsig_err_json (UnstartedAdapter m) = tagged ''UnstartedAdapter'' (JString m)"
| "statsig_err_json (SpecsAdapterSkipPoll m) = tagged ''SpecsAdapterSkipPoll'' (JString m)"
| "statsig_err_json (DataStoreFailure m) = tagged ''DataStoreFailure'' (JString m)"
| "statsig_err_json (GrpcError m) = tagged ''GrpcError'' (JString m)"
| "statsig_err_json (SerializationError m) = tagged ''SerializationError'' (JString m)"
| "statsig_err_json (ChecksumFailure m) = tagged ''ChecksumFailure'' (JString m)"
| "statsig_err_json (ZstdDictCompressionError m) = tagged ''ZstdDictCompressionError'' (JString m)"
| "statsig_err_json (GzipError m) = tagged ''GzipError'' (JString m)"
| "statsig_err_json (ZstdError m) = tagged ''ZstdError'' (JString m)"
| "statsig_err_json (FileError m) = tagged ''FileError'' (JString m)"
| "statsig_err_json (LogEventError m) = tagged ''LogEventError'' (JString m)"
| "statsig_err_json (EvaluationError m) = tagged ''EvaluationError'' (JString m)"
| "statsig_err_json (InitializationError m) = tagged ''InitializationError'' (JString m)"
| "statsig_err_json (ShutdownFailure m) = tagged ''ShutdownFailure'' (JString m)"
| "statsig_err_json (InvalidOperation m) = tagged ''InvalidOperation'' (JString m)"
| "statsig_err_json (ScheduleFailure m) = tagged ''ScheduleFailure'' (JString m)"
| "statsig_err_json (GCIRError m) = tagged ''GCIRError'' (JString m)"

section \<open>Events for the observers\<close>

datatype context_type = CtxInitialize | CtxConfigSync | CtxUnknown

fun context_type_display :: "context_type \<Rightarrow> string" where
  "context_type_display CtxInitialize = ''initialize''"
| "context_type_display CtxConfigSync = ''config_sync''"
| "context_type_display CtxUnknown = ''unknown''"

datatype metric_type = MetricIncrement | MetricGauge | MetricDist

record observability_event =
  ob_metric_type :: metric_type
  ob_metric_name :: string
  ob_value :: f64
  ob_tags :: "(string, string) HashMap option"

record error_boundary_event =
  eb_tag :: string
  eb_info :: string
  eb_exception :: string
  eb_dedupe_key :: "string option"
  eb_bypass_dedupe :: bool
  eb_extra :: "(string, string) HashMap option"

record diagnostics_event =
  de_marker :: "marker option"
  de_context :: "context_type option"
  de_key :: "key_type option"
  de_should_enqueue :: bool

record console_capture_event =
  cc_level :: string
  cc_payload :: "string list"
  cc_timestamp :: u64
  cc_user :: loggable_user
  cc_stack_trace :: "string option"

datatype ops_stats_event =
    OpsObservability observability_event
  | OpsSDKError error_boundary_event
  | OpsDiagnostics diagnostics_event
  | OpsConsoleCapture console_capture_event

definition observability_new_event ::
    "metric_type \<Rightarrow> string \<Rightarrow> f64 \<Rightarrow> (string, string) HashMap option \<Rightarrow> ops_stats_event" where
  "observability_new_event kind metric_name val tags =
     OpsObservability \<lparr>ob_metric_type = kind, ob_metric_name = metric_name, ob_value = val, ob_tags = tags\<rparr>"

definition ops_add_marker :: "marker \<Rightarrow> context_type option \<Rightarrow> ops_stats_event" where
  "ops_add_marker m ctx = OpsDiagnostics \<lparr>de_marker = Some m, de_context = ctx, de_key = None, de_should_enqueue = False\<rparr>"

definition ops_set_diagnostics_context :: "context_type \<Rightarrow> ops_stats_event" where
  "ops_set_diagnostics_context ctx =
     OpsDiagnostics \<lparr>de_marker = None, de_context = Some ctx, de_key = None, de_should_enqueue = False\<rparr>"

definition ops_enqueue_diagnostics_event :: "key_type option \<Rightarrow> context_type option \<Rightarrow> ops_stats_event" where
  "ops_enqueue_diagnostics_event key ctx =
     OpsDiagnostics \<lparr>de_marker = None, de_context = ctx, de_key = key, de_should_enqueue = True\<rparr>"

definition ops_log_checksum_validation_result :: "bool \<Rightarrow> ops_stats_event" where
  "ops_log_checksum_validation_result is_success =
     observability_new_event MetricIncrement ''deltas_checksum_validation.count'' (Fin 1)
       (Some [(''result'', if is_success then ''success'' else ''failure'')])"

definition ops_enqueue_console_capture_event ::
    "string \<Rightarrow> string list \<Rightarrow> u64 \<Rightarrow> loggable_user \<Rightarrow> string option \<Rightarrow> ops_stats_event" where
  "ops_enqueue_console_capture_event level payload timestamp user stack_trace =
     OpsConsoleCapture \<lparr>cc_level = level, cc_payload = payload, cc_timestamp = timestamp, cc_user = user, cc_stack_trace = stack_trace\<rparr>"

text \<open>The error every component reports this way, \<open>log_error_to_statsig_and_console\<close>, without the log line.\<close>

definition ops_log_error :: "ext \<Rightarrow> string \<Rightarrow> statsig_err \<Rightarrow> ops_stats_event" where
  "ops_log_error x tag err =
     OpsSDKError \<lparr>eb_tag = tag, eb_info = x_json_to_string x (statsig_err_json err), eb_exception = statsig_err_name err, eb_dedupe_key = None,
       eb_bypass_dedupe = False, eb_extra = None\<rparr>"

section \<open>The observability client of the host\<close>

datatype client_call =
    ClientIncrement string f64 "(string, string) HashMap option"
  | ClientGauge string f64 "(string, string) HashMap option"
  | ClientDist string f64 "(string, string) HashMap option"
  | ClientError string string

definition HIGH_CARDINALITY_TAGS :: "string list" where
  "HIGH_CARDINALITY_TAGS = [''lcut'', ''prev_lcut'']"

text \<open>What the client's \<open>should_enable_high_cardinality_for_this_tag\<close> says of a tag is an argument.\<close>

fun client_handle_event :: "(string \<Rightarrow> bool option) \<Rightarrow> ops_stats_event \<Rightarrow> client_call list" where
  "client_handle_event enable (OpsObservability e) =
     (let tags = map_option (filter (\<lambda>(k, _). if k \<in> set HIGH_CARDINALITY_TAGS then enable k = Some True else True)) (ob_tags e);
          metric_name = ''statsig.sdk.'' @ ob_metric_name e
      in case ob_metric_type e of
           MetricIncrement \<Rightarrow> [ClientIncrement metric_name (ob_value e) tags]
         | MetricGauge \<Rightarrow> [ClientGauge metric_name (ob_value e) tags]
         | MetricDist \<Rightarrow> [ClientDist metric_name (ob_value e) tags])"
| "client_handle_event enable (OpsSDKError e) =
     [ClientError (eb_tag e) (eb_info e),
      ClientIncrement ''statsig.sdk.sdk_exceptions_count'' (Fin 1) (Some [(''tag'', eb_tag e), (''exception'', eb_exception e)])]"
| "client_handle_event enable (OpsDiagnostics _) = []"
| "client_handle_event enable (OpsConsoleCapture _) = []"

section \<open>Collecting markers\<close>

abbreviation MAX_MARKER_COUNT :: nat where "MAX_MARKER_COUNT \<equiv> 50"

record diagnostics =
  dg_marker_map :: "(context_type, marker list) HashMap"
  dg_context :: context_type

definition diagnostics_new :: diagnostics where
  "diagnostics_new = \<lparr>dg_marker_map = [], dg_context = CtxInitialize\<rparr>"

definition set_context :: "bool \<Rightarrow> context_type \<Rightarrow> diagnostics \<Rightarrow> diagnostics" where
  "set_context lock_ok ctx d = (if lock_ok then d\<lparr>dg_context := ctx\<rparr> else d)"

definition get_markers :: "bool \<Rightarrow> context_type \<Rightarrow> diagnostics \<Rightarrow> marker list option" where
  "get_markers lock_ok ctx d = (if lock_ok then hm_get (dg_marker_map d) ctx else None)"

definition get_context :: "bool \<Rightarrow> context_type option \<Rightarrow> diagnostics \<Rightarrow> context_type" where
  "get_context lock_ok maybe_context d =
     (case maybe_context of Some c \<Rightarrow> c | None \<Rightarrow> if lock_ok then dg_context d else CtxUnknown)"

text \<open>Whether the locks of a call are obtained: of the context, then of the map, in the order of the call.\<close>

record diagnostics_locks =
  dl_set_context :: bool
  dl_add_context :: bool
  dl_add_map :: bool
  dl_enq_context :: bool
  dl_enq_get :: bool
  dl_enq_rates :: bool
  dl_enq_clear :: bool

definition add_marker :: "diagnostics_locks \<Rightarrow> context_type option \<Rightarrow> marker \<Rightarrow> diagnostics \<Rightarrow> diagnostics" where
  "add_marker K maybe_context m d =
     (let ctx = get_context (dl_add_context K) maybe_context d
      in if dl_add_map K
         then (let entry = opt_default [] (hm_get (dg_marker_map d) ctx)
               in d\<lparr>dg_marker_map := hm_insert ctx (if length entry < MAX_MARKER_COUNT then entry @ [m] else entry) (dg_marker_map d)\<rparr>)
         else d)"

definition clear_markers :: "bool \<Rightarrow> context_type \<Rightarrow> diagnostics \<Rightarrow> diagnostics" where
  "clear_markers lock_ok ctx d =
     (if lock_ok \<and> hm_contains (dg_marker_map d) ctx then d\<lparr>dg_marker_map := hm_insert ctx [] (dg_marker_map d)\<rparr> else d)"

abbreviation DEFAULT_SAMPLING_RATE :: f64 where "DEFAULT_SAMPLING_RATE \<equiv> Fin 100"

text \<open>The random number of \<open>rng.gen\<close>, from zero to one, is an argument.\<close>

definition check_sampling_rate :: "f64 \<Rightarrow> f64 option \<Rightarrow> bool" where
  "check_sampling_rate rnd sampling_rate =
     (let rand_value = f64_mul rnd (Fin MAX_SAMPLING_RATE)
      in case sampling_rate of Some r \<Rightarrow> f64_less rand_value r | None \<Rightarrow> f64_less rand_value DEFAULT_SAMPLING_RATE)"

definition should_sample_diagnostics :: "bool \<Rightarrow> global_configs \<Rightarrow> f64 \<Rightarrow> context_type \<Rightarrow> key_type option \<Rightarrow> bool" where
  "should_sample_diagnostics lock_ok g rnd ctx key =
     (if ctx = CtxInitialize then use_diagnostics_sampling_rate lock_ok ''initialize'' (check_sampling_rate rnd) g
      else if key = Some KeyGetIDListSources then use_diagnostics_sampling_rate lock_ok ''get_id_list'' (check_sampling_rate rnd) g
      else if key = Some KeyDownloadConfigSpecs then use_diagnostics_sampling_rate lock_ok ''dcs'' (check_sampling_rate rnd) g
      else check_sampling_rate rnd None)"

text \<open>Markers always serialise: every map in one has text keys.\<close>

definition format_diagnostics_metadata :: "ext \<Rightarrow> context_type \<Rightarrow> marker list \<Rightarrow> (string, string) HashMap" where
  "format_diagnostics_metadata x ctx markers =
     hm_insert ''markers'' (x_json_to_string x (JArray (map marker_json markers))) [(''context'', context_type_display ctx)]"

text \<open>The event given to the event logger, if any, and the diagnostics afterwards.\<close>

definition enqueue_diagnostics_event ::
    "ext \<Rightarrow> diagnostics_locks \<Rightarrow> global_configs \<Rightarrow> f64 \<Rightarrow> u64 \<Rightarrow> context_type option \<Rightarrow> key_type option \<Rightarrow> diagnostics \<Rightarrow>
     enqueue_operation option \<times> diagnostics" where
  "enqueue_diagnostics_event x K g rnd now maybe_context key d =
     (let ctx = get_context (dl_enq_context K) maybe_context d
      in case get_markers (dl_enq_get K) ctx d of
           None \<Rightarrow> (None, d)
         | Some markers \<Rightarrow>
             if markers = [] then (None, d)
             else if \<not> should_sample_diagnostics (dl_enq_rates K) g rnd ctx key then (None, clear_markers (dl_enq_clear K) ctx d)
             else (Some (EnqueuePassthrough (new_diagnostic_event now (format_diagnostics_metadata x ctx markers))),
                   clear_markers (dl_enq_clear K) ctx d))"

definition handle_diagnostics_event ::
    "ext \<Rightarrow> diagnostics_locks \<Rightarrow> global_configs \<Rightarrow> f64 \<Rightarrow> u64 \<Rightarrow> diagnostics_event \<Rightarrow> diagnostics \<Rightarrow>
     enqueue_operation option \<times> diagnostics" where
  "handle_diagnostics_event x K g rnd now event d =
     (let d1 = (case de_context event of Some ctx \<Rightarrow> set_context (dl_set_context K) ctx d | None \<Rightarrow> d);
          d2 = (case de_marker event of Some m \<Rightarrow> add_marker K (de_context event) m d1 | None \<Rightarrow> d1)
      in if de_should_enqueue event then enqueue_diagnostics_event x K g rnd now (de_context event) (de_key event) d2 else (None, d2))"

section \<open>Captured console lines\<close>

fun str_join :: "string \<Rightarrow> string list \<Rightarrow> string" where
  "str_join sep [] = []"
| "str_join sep [s] = s"
| "str_join sep (s # t # ts) = s @ sep @ str_join sep (t # ts)"

definition handle_console_capture_event :: "ext \<Rightarrow> string \<Rightarrow> u64 \<Rightarrow> console_capture_event \<Rightarrow> enqueue_operation option" where
  "handle_console_capture_event x sdk_type now event =
     map_option (\<lambda>level. EnqueuePassthrough (new_statsig_log_line_event sdk_type now (cc_user event)
         (to_status_string level, line_level_debug level) (Some (str_join '' '' (cc_payload event)))
         (map_option (\<lambda>trace. [(''trace'', trace)]) (cc_stack_trace event)) (Some (cc_timestamp event))))
       (line_level_from_string x (cc_level event))"

section \<open>Bounds\<close>

definition markers_bounded :: "diagnostics \<Rightarrow> bool" where
  "markers_bounded d \<longleftrightarrow> (\<forall>ctx ms. hm_get (dg_marker_map d) ctx = Some ms \<longrightarrow> length ms \<le> MAX_MARKER_COUNT)"

lemma add_marker_bounded: "markers_bounded d \<Longrightarrow> markers_bounded (add_marker K ctx m d)"
  unfolding markers_bounded_def add_marker_def Let_def opt_default_def
  by (auto simp: hm_get_insert split: option.splits) (metis le_neq_implies_less)

lemma clear_markers_bounded: "markers_bounded d \<Longrightarrow> markers_bounded (clear_markers ok ctx d)"
  by (simp add: markers_bounded_def clear_markers_def hm_get_insert)

lemma set_context_bounded: "markers_bounded d \<Longrightarrow> markers_bounded (set_context ok ctx d)"
  by (simp add: markers_bounded_def set_context_def)

lemmas diagnostics_bounded = add_marker_bounded clear_markers_bounded set_context_bounded

text \<open>
  However the observer's events come and whichever locks time out, no context ever holds more than fifty
  markers, so the event made of them is bounded as well.
\<close>

theorem handle_diagnostics_event_bounded:
  assumes "markers_bounded d"
  shows "markers_bounded (snd (handle_diagnostics_event x K g rnd now event d))"
  using assms
  by (auto simp: handle_diagnostics_event_def enqueue_diagnostics_event_def Let_def
      intro!: diagnostics_bounded split: option.splits)

text \<open>
  The markers of a context are the first fifty since it was last cleared, in the order they came: the later ones are
  dropped, not the earlier.
\<close>

lemma add_markers_keep_first:
  assumes "dl_add_map K" "hm_get (dg_marker_map d) ctx = Some old" "length old \<le> MAX_MARKER_COUNT"
  shows "hm_get (dg_marker_map (foldl (\<lambda>d m. add_marker K (Some ctx) m d) d ms)) ctx = Some (take MAX_MARKER_COUNT (old @ ms))"
  using assms
proof (induction ms arbitrary: d old)
  case (Cons m ms)
  let ?d = "add_marker K (Some ctx) m d"
  let ?entry = "if length old < MAX_MARKER_COUNT then old @ [m] else old"
  have "hm_get (dg_marker_map ?d) ctx = Some ?entry"
    using Cons.prems by (simp add: add_marker_def get_context_def Let_def hm_get_insert opt_default_def)
  moreover have "take MAX_MARKER_COUNT (?entry @ ms) = take MAX_MARKER_COUNT (old @ m # ms)"
    using Cons.prems(3) by (cases "MAX_MARKER_COUNT - length old") (auto intro!: arg_cong [where f = "\<lambda>n. take n ms"])
  ultimately show ?case using Cons.IH [of ?d ?entry] Cons.prems by simp
qed simp

end
