(* ===== verification/Network_Client.thy ===== *)
theory Network_Client
  imports Diagnostics
begin

text \<open>
  HTTP requests: the arguments and responses of \<open>src/statsig-rust/src/networking/http_types.rs\<close>, the client of
  \<open>network_client.rs\<close> with its retries, the metadata every request carries, \<open>statsig_metadata.rs\<close>, and the observer
  that reports exceptions over the network, \<open>observability/sdk_errors_observer.rs\<close>.

  What sends a request is a network provider of the host or a wrapper of the crate \<open>reqwest\<close>. It is a parameter,
  with the clock and the shutdown flags: a record of operations on a world of any type, so that nothing is assumed
  of what happens between two attempts. The trace of a request lists what was sent, the pauses and the events for
  the observers, in order.
\<close>

section \<open>Requests and responses\<close>

datatype http_method = GET | POST

record request_args =
  ra_url :: string
  ra_body :: "string option"
  ra_retries :: u32
  ra_headers :: "(string, string) HashMap option"
  ra_query_params :: "(string, string) HashMap option"
  ra_id_list_file_id :: "string option"
  ra_deltas_enabled :: bool
  ra_accept_gzip_response :: bool
  ra_timeout_ms :: u64
  ra_is_shutdown :: "nat option"
  ra_diagnostics_key :: "key_type option"
  ra_proxy_config :: "proxy_config option"
  ra_ca_cert_pem :: "string option"
  ra_disable_file_streaming :: "bool option"
  ra_log_event_connection_reuse :: bool

definition request_args_new :: request_args where
  "request_args_new = \<lparr>ra_url = [], ra_body = None, ra_retries = 0, ra_headers = None, ra_query_params = None,
     ra_id_list_file_id = None, ra_deltas_enabled = False, ra_accept_gzip_response = False, ra_timeout_ms = 0,
     ra_is_shutdown = None, ra_diagnostics_key = None, ra_proxy_config = None, ra_ca_cert_pem = None,
     ra_disable_file_streaming = None, ra_log_event_connection_reuse = False\<rparr>"

definition get_fully_qualified_url :: "request_args \<Rightarrow> string" where
  "get_fully_qualified_url args =
     (case ra_query_params args of
        None \<Rightarrow> ra_url args
      | Some params \<Rightarrow>
          (let query_params_str = str_join ''&'' (map (\<lambda>(k, v). k @ ''='' @ v) params)
           in if query_params_str \<noteq> [] then ra_url args @ ''?'' @ query_params_str else ra_url args))"

definition populate_headers :: "u64 \<Rightarrow> (string, string) HashMap \<Rightarrow> request_args \<Rightarrow> request_args" where
  "populate_headers now extra_headers args =
     (let headers = hm_insert ''STATSIG-CLIENT-TIME'' (u64_to_string now) (hm_extend extra_headers [])
      in args\<lparr>ra_headers := Some (case ra_headers args of Some my_headers \<Rightarrow> hm_extend headers my_headers | None \<Rightarrow> headers)\<rparr>)"

record http_response =
  hr_status_code :: "nat option"
  hr_data :: "response_data option"
  hr_error :: "string option"

abbreviation CLIENT_CONFIG_ERROR_PREFIX :: string where
  "CLIENT_CONFIG_ERROR_PREFIX \<equiv> [char_of (1 :: nat)] @ ''cfg-err'' @ [char_of (1 :: nat)]"

text \<open>The validation of \<open>String::from_utf8\<close>: no overlong forms, no surrogates, nothing above U+10FFFF.\<close>

definition in_range :: "nat \<Rightarrow> nat \<Rightarrow> char \<Rightarrow> bool" where
  "in_range lo hi c \<longleftrightarrow> lo \<le> of_char c \<and> of_char c \<le> hi"

abbreviation continuation :: "char \<Rightarrow> bool" where "continuation \<equiv> in_range 0x80 0xBF"

fun utf8_step :: "string \<Rightarrow> nat option" where
  "utf8_step (a # s) =
     (let b = of_char a :: nat
      in if b < 0x80 then Some 1
         else if 0xC2 \<le> b \<and> b \<le> 0xDF
         then (case s of c # _ \<Rightarrow> if continuation c then Some 2 else None | _ \<Rightarrow> None)
         else if 0xE0 \<le> b \<and> b \<le> 0xEF
         then (case s of c # d # _ \<Rightarrow>
                 if (if b = 0xE0 then in_range 0xA0 0xBF c else if b = 0xED then in_range 0x80 0x9F c else continuation c) \<and> continuation d
                 then Some 3 else None
               | _ \<Rightarrow> None)
         else if 0xF0 \<le> b \<and> b \<le> 0xF4
         then (case s of c # d # e # _ \<Rightarrow>
                 if (if b = 0xF0 then in_range 0x90 0xBF c else if b = 0xF4 then in_range 0x80 0x8F c else continuation c) \<and>
                   continuation d \<and> continuation e
                 then Some 4 else None
               | _ \<Rightarrow> None)
         else None)"
| "utf8_step [] = None"

function utf8_valid :: "string \<Rightarrow> bool" where
  "utf8_valid s = (if s = [] then True else case utf8_step s of Some n \<Rightarrow> utf8_valid (drop (max 1 n) s) | None \<Rightarrow> False)"
  by pat_completeness auto
termination
  by (relation "measure length") auto

declare utf8_valid.simps [simp del]

text \<open>The text of the error of \<open>from_utf8\<close> is an argument.\<close>

definition read_to_string :: "(string \<Rightarrow> string) \<Rightarrow> response_data \<Rightarrow> statsig_err + string" where
  "read_to_string utf8_error d =
     (if utf8_valid (rd_bytes d) then Inr (rd_bytes d) else Inl (JsonParseError ''ResponseData'' (utf8_error (rd_bytes d))))"

section \<open>Metadata\<close>

abbreviation SDK_VERSION :: string where "SDK_VERSION \<equiv> ''0.23.0''"

record statsig_metadata =
  sm_sdk_type :: string
  sm_sdk_version :: string
  sm_session_id :: string
  sm_os :: "string option"
  sm_arch :: "string option"
  sm_language_version :: "string option"
  sm_service_name :: "string option"

definition statsig_metadata_new :: "string \<Rightarrow> statsig_metadata" where
  "statsig_metadata_new uuid =
     \<lparr>sm_sdk_type = ''statsig-server-core'', sm_sdk_version = SDK_VERSION, sm_session_id = uuid, sm_os = None, sm_arch = None,
      sm_language_version = None, sm_service_name = None\<rparr>"

definition metadata_update_values :: "bool \<Rightarrow> string \<Rightarrow> string \<Rightarrow> string \<Rightarrow> string \<Rightarrow> statsig_metadata \<Rightarrow> statsig_metadata" where
  "metadata_update_values lock_ok sdk_type os arch language_version m =
     (if lock_ok
      then m\<lparr>sm_sdk_type := sdk_type, sm_os := Some os, sm_arch := Some arch, sm_language_version := Some language_version\<rparr>
      else m)"

definition metadata_update_service_name :: "bool \<Rightarrow> string option \<Rightarrow> statsig_metadata \<Rightarrow> statsig_metadata" where
  "metadata_update_service_name lock_ok service_name m = (if lock_ok then m\<lparr>sm_service_name := service_name\<rparr> else m)"

text \<open>A lock that times out gives fresh metadata, with a new session id.\<close>

definition get_metadata :: "bool \<Rightarrow> string \<Rightarrow> statsig_metadata \<Rightarrow> statsig_metadata" where
  "get_metadata lock_ok uuid m = (if lock_ok then m else statsig_metadata_new uuid)"

definition get_constant_request_headers :: "statsig_metadata \<Rightarrow> string \<Rightarrow> string option \<Rightarrow> (string, string) HashMap" where
  "get_constant_request_headers meta sdk_key service_name =
     [(''STATSIG-API-KEY'', sdk_key), (''STATSIG-SDK-TYPE'', sm_sdk_type meta), (''STATSIG-SDK-VERSION'', sm_sdk_version meta),
      (''STATSIG-SERVER-SESSION-ID'', sm_session_id meta), (''x-request-service'', opt_default ''unknown'' service_name)]"

definition metadata_json :: "statsig_metadata \<Rightarrow> (string \<times> json) list" where
  "metadata_json m =
     [(''sdkType'', JString (sm_sdk_type m)), (''sdkVersion'', JString (sm_sdk_version m)), (''sessionID'', JString (sm_session_id m))]
     @ serialize_data_field ''os'' (map_option JString (sm_os m))
     @ serialize_data_field ''arch'' (map_option JString (sm_arch m))
     @ serialize_data_field ''languageVersion'' (map_option JString (sm_language_version m))
     @ serialize_data_field ''service_name'' (map_option JString (sm_service_name m))"

definition get_with_log_event_extras :: "statsig_metadata \<Rightarrow> u64 \<Rightarrow> nat \<Rightarrow> nat \<Rightarrow> string \<Rightarrow> json" where
  "get_with_log_event_extras meta flushing_interval_ms batch_size max_pending_batches flush_kind =
     JObject (metadata_json meta @ [(''flushingIntervalMs'', u64_json flushing_interval_ms), (''batchSize'', nat_json batch_size),
       (''maxPendingBatches'', nat_json max_pending_batches), (''flushType'', JString flush_kind)])"

section \<open>The client\<close>

record network_client =
  nc_headers :: "(string, string) HashMap"
  nc_is_shutdown :: nat
  nc_disable_network :: bool
  nc_proxy_config :: "proxy_config option"
  nc_ca_cert_pem :: "string option"
  nc_silent_on_network_failure :: bool
  nc_disable_file_streaming :: bool
  nc_log_event_connection_reuse :: bool
  nc_loggable_sdk_key :: string

record 'w net =
  nt_send :: "http_method \<Rightarrow> request_args \<Rightarrow> 'w \<Rightarrow> http_response \<times> 'w"
  nt_provider :: "'w \<Rightarrow> bool"
  nt_flag :: "nat \<Rightarrow> 'w \<Rightarrow> bool"
  nt_set_flag :: "nat \<Rightarrow> 'w \<Rightarrow> 'w"
  nt_now :: "'w \<Rightarrow> u64 \<times> 'w"
  nt_sleep :: "u64 \<Rightarrow> 'w \<Rightarrow> 'w"
  nt_read_file :: "string \<Rightarrow> string option"

datatype net_effect =
    NetStat ops_stats_event
  | NetSent http_method request_args http_response
  | NetSlept u64
  | NetWarmed request_args

text \<open>The shutdown flag of the client is named by a number.\<close>

definition network_client_new ::
    "'w net \<Rightarrow> nat \<Rightarrow> string \<Rightarrow> (string, string) HashMap option \<Rightarrow> statsig_options option \<Rightarrow> 'w \<Rightarrow> network_client \<times> net_effect list" where
  "network_client_new N flag sdk_key headers options w =
     (let ca_cert_pem = Option.bind options (\<lambda>opts. Option.bind (so_proxy_config opts) (\<lambda>cfg.
            Option.bind (px_ca_cert_path cfg) (\<lambda>path. if path = [] then None else nt_read_file N path)));
          client = \<lparr>nc_headers = opt_default [] headers, nc_is_shutdown = flag,
            nc_disable_network = (case options of Some opts \<Rightarrow> opt_default False (so_disable_network opts) | None \<Rightarrow> False),
            nc_proxy_config = Option.bind options so_proxy_config, nc_ca_cert_pem = ca_cert_pem,
            nc_silent_on_network_failure = False,
            nc_disable_file_streaming = (case options of Some opts \<Rightarrow> opt_default False (so_disable_disk_access opts) | None \<Rightarrow> False),
            nc_log_event_connection_reuse =
              (case options of Some opts \<Rightarrow> opt_default False (so_log_event_connection_reuse opts) | None \<Rightarrow> False),
            nc_loggable_sdk_key = get_loggable_sdk_key sdk_key\<rparr>
      in (client,
          if \<not> nc_disable_network client \<and> nt_provider N w
          then [NetWarmed (request_args_new\<lparr>ra_proxy_config := nc_proxy_config client, ra_ca_cert_pem := nc_ca_cert_pem client\<rparr>)]
          else []))"

definition client_shutdown :: "'w net \<Rightarrow> network_client \<Rightarrow> 'w \<Rightarrow> 'w" where
  "client_shutdown N c = nt_set_flag N (nc_is_shutdown c)"

definition mute_network_error_log :: "network_client \<Rightarrow> network_client" where
  "mute_network_error_log c = c\<lparr>nc_silent_on_network_failure := True\<rparr>"

definition NON_RETRY_CODES :: "nat list" where
  "NON_RETRY_CODES = [400, 403, 413, 405, 429, 501]"

definition is_success_status :: "nat option \<Rightarrow> bool" where
  "is_success_status status \<longleftrightarrow> 200 \<le> opt_default 0 status \<and> opt_default 0 status < 300"

text \<open>The body of a failed response is quoted when it is ASCII.\<close>

definition get_error_message_for_status :: "nat option \<Rightarrow> response_data option \<Rightarrow> string" where
  "get_error_message_for_status status d =
     (if is_success_status status then []
      else
        (let message =
           (case d of
              Some d \<Rightarrow> (let s = (case read_to_string id d of Inr s \<Rightarrow> s | Inl _ \<Rightarrow> []) in if is_ascii s then s else [])
            | None \<Rightarrow> [])
         in case status of
              None \<Rightarrow> ''HTTP Error None: '' @ message
            | Some code \<Rightarrow>
                (case map_of [(400, ''Bad Request''), (401, ''Unauthorized''), (403, ''Forbidden''), (404, ''Not Found''),
                    (405, ''Method Not Allowed''), (406, ''Not Acceptable''), (408, ''Request Timeout''),
                    (500, ''Internal Server Error''), (502, ''Bad Gateway''), (503, ''Service Unavailable''),
                    (504, ''Gateway Timeout''), (0, ''Unknown Error'')] code of
                   None \<Rightarrow> ''HTTP Error '' @ nat_to_string code @ '': '' @ message
                 | Some generic_message \<Rightarrow>
                     if message = [] then generic_message else generic_message @ '': '' @ message)))"

section \<open>Latency metrics\<close>

definition is_latency_loggable_endpoint :: "string \<Rightarrow> bool" where
  "is_latency_loggable_endpoint endpoint \<longleftrightarrow>
     endpoint = ''download_config_specs'' \<or> endpoint = ''get_id_lists'' \<or> endpoint = ''download_id_list_file''"

definition get_version_and_endpoint_for_latency :: "string list \<Rightarrow> (nat \<times> string \<times> string) option" where
  "get_version_and_endpoint_for_latency segments =
     map_option (\<lambda>i. (i - 1, segments ! (i - 1), segments ! i))
       (find (\<lambda>i. is_latency_loggable_endpoint (segments ! i) \<and> i \<noteq> 0 \<and> is_version_segment (segments ! (i - 1)))
         [0..<length segments])"

definition url_segments :: "string \<Rightarrow> string \<times> string \<times> string list" where
  "url_segments url =
     (let (host_prefix, raw_path) = split_host_and_path url;
          normalized_path = dropWhile (\<lambda>c. c = CHR ''/'') (strip_query_and_fragment raw_path)
      in (host_prefix, normalized_path, filter (\<lambda>s. s \<noteq> []) (str_split (CHR ''/'') normalized_path)))"

definition should_log_network_request_latency :: "string \<Rightarrow> bool" where
  "should_log_network_request_latency url =
     (case url_segments url of (_, _, segments) \<Rightarrow> get_version_and_endpoint_for_latency segments \<noteq> None)"

definition trim_end_slashes :: "string \<Rightarrow> string" where
  "trim_end_slashes s = rev (dropWhile (\<lambda>c. c = CHR ''/'') (rev s))"

definition with_host_prefix :: "string \<Rightarrow> string \<Rightarrow> string" where
  "with_host_prefix host_prefix path = (if host_prefix = [] then path else host_prefix @ path)"

definition get_source_service_and_request_path :: "string \<Rightarrow> string \<times> string" where
  "get_source_service_and_request_path url =
     (case url_segments url of (host_prefix, normalized_path, segments) \<Rightarrow>
        (case get_version_and_endpoint_for_latency segments of
           Some (version_index, version_segment, endpoint_segment) \<Rightarrow>
             (trim_end_slashes (with_host_prefix host_prefix (str_join ''/'' (take version_index segments))),
              ''/'' @ version_segment @ ''/'' @ endpoint_segment)
         | None \<Rightarrow>
             (let fallback_request_path = concat (take 64 (utf8_encodings normalized_path))
              in (trim_end_slashes host_prefix, if fallback_request_path = [] then ''/'' else ''/'' @ fallback_request_path))))"

definition get_network_request_latency_tags :: "request_args \<Rightarrow> string \<Rightarrow> bool \<Rightarrow> string \<Rightarrow> (string, string) HashMap" where
  "get_network_request_latency_tags args status_code success loggable_sdk_key =
     (let (source_service, request_path) = get_source_service_and_request_path (ra_url args);
          tags = [(''request_path'', request_path), (''status_code'', status_code), (''is_success'', bool_to_string success),
            (''sdk_key'', loggable_sdk_key), (''source_service'', source_service),
            (''deltas_used'', bool_to_string (ra_deltas_enabled args))]
      in case ra_id_list_file_id args of
           Some file_id \<Rightarrow> if file_id \<noteq> [] then hm_insert ''id_list_file_id'' file_id tags else tags
         | None \<Rightarrow> tags)"

definition log_network_request_latency_to_ob ::
    "network_client \<Rightarrow> request_args \<Rightarrow> nat option \<Rightarrow> bool \<Rightarrow> f64 \<Rightarrow> net_effect list" where
  "log_network_request_latency_to_ob c args status success duration_ms =
     (if \<not> should_log_network_request_latency (ra_url args) then []
      else
        (let status_code = (case status of Some code \<Rightarrow> nat_to_string code | None \<Rightarrow> ''none'')
         in [NetStat (observability_new_event MetricDist ''network_request.latency'' duration_ms
               (Some (get_network_request_latency_tags args status_code success (nc_loggable_sdk_key c))))]))"

definition key_option_debug :: "key_type option \<Rightarrow> string" where
  "key_option_debug key = (case key of Some k \<Rightarrow> ''Some('' @ key_type_debug k @ '')'' | None \<Rightarrow> ''None'')"

definition log_warning :: "ext \<Rightarrow> network_client \<Rightarrow> network_error \<Rightarrow> request_args \<Rightarrow> net_effect list" where
  "log_warning x c error args =
     (if nc_silent_on_network_failure c then []
      else [NetStat (OpsSDKError \<lparr>eb_tag = ''NetworkClient'', eb_info = x_json_to_string x (network_error_json error),
        eb_exception = network_error_name error, eb_dedupe_key = Some (key_option_debug (ra_diagnostics_key args)),
        eb_bypass_dedupe = False, eb_extra = None\<rparr>)])"

section \<open>Making a request\<close>

text \<open>The arguments a request is sent with.\<close>

definition prepare_request :: "'w net \<Rightarrow> network_client \<Rightarrow> request_args \<Rightarrow> 'w \<Rightarrow> request_args \<times> 'w" where
  "prepare_request N c args w =
     (let (t1, w1) = nt_now N w;
          args1 = populate_headers t1 (nc_headers c) args;
          args2 = args1\<lparr>ra_disable_file_streaming := opt_else (ra_disable_file_streaming args1) (Some (nc_disable_file_streaming c)),
            ra_ca_cert_pem := opt_else (ra_ca_cert_pem args1) (nc_ca_cert_pem c),
            ra_log_event_connection_reuse := (ra_log_event_connection_reuse args1 \<or> nc_log_event_connection_reuse c)\<rparr>;
          merged = hm_extend (nc_headers c) (opt_default [] (ra_headers args2));
          (t2, w2) = nt_now N w1;
          args3 = args2\<lparr>ra_headers := Some (hm_insert ''STATSIG-CLIENT-TIME'' (u64_to_string t2) merged)\<rparr>
      in (args3\<lparr>ra_proxy_config := opt_else (nc_proxy_config c) (ra_proxy_config args3)\<rparr>, w2))"

definition start_marker :: "'w net \<Rightarrow> request_args \<Rightarrow> nat \<Rightarrow> 'w \<Rightarrow> net_effect list \<times> 'w" where
  "start_marker N args attempt w =
     (case ra_diagnostics_key args of
        Some key \<Rightarrow>
          (let (now, w1) = nt_now N w
           in ([NetStat (ops_add_marker ((marker_new now key ActionStart (Some StepNetworkRequest))
                  \<lparr>mk_attempt := Some attempt, mk_url := Some (ra_url args)\<rparr>) None)], w1))
      | None \<Rightarrow> ([], w))"

definition end_marker :: "'w net \<Rightarrow> request_args \<Rightarrow> nat \<Rightarrow> http_response \<Rightarrow> bool \<Rightarrow> string \<Rightarrow> 'w \<Rightarrow> net_effect list \<times> 'w" where
  "end_marker N args attempt resp success error_message w =
     (case ra_diagnostics_key args of
        Some key \<Rightarrow>
          (let (now, w1) = nt_now N w;
               error_map = (if error_message \<noteq> []
                 then Some [(''name'', ''NetworkError''), (''message'', error_message),
                   (''code'', status_display (hr_status_code resp))]
                 else None)
           in ([NetStat (ops_add_marker ((marker_new now key ActionEnd (Some StepNetworkRequest))
                  \<lparr>mk_attempt := Some attempt, mk_url := Some (ra_url args), mk_success := Some success,
                   mk_content_type := Option.bind (hr_data resp) (\<lambda>d. get_header_ref d ''content-type''),
                   mk_sdk_region := Option.bind (hr_data resp) (\<lambda>d. get_header_ref d ''x-statsig-region''),
                   mk_status_code := hr_status_code resp, mk_error := error_map\<rparr>) None)], w1))
      | None \<Rightarrow> ([], w))"

text \<open>The message of a response and whether it reports an unusable configuration of the client.\<close>

definition response_error :: "http_response \<Rightarrow> string \<times> bool" where
  "response_error resp =
     (let raw = (case hr_error resp of Some e \<Rightarrow> e | None \<Rightarrow> get_error_message_for_status (hr_status_code resp) (hr_data resp))
      in if str_starts_with raw CLIENT_CONFIG_ERROR_PREFIX
         then (drop (length CLIENT_CONFIG_ERROR_PREFIX) raw, True) else (raw, False))"

text \<open>What is done after a response: return it, give up, or try again.\<close>

datatype verdict = Return "network_error + http_response" | Retry

definition response_verdict :: "request_args \<Rightarrow> nat \<Rightarrow> http_response \<Rightarrow> verdict" where
  "response_verdict args attempt resp =
     (let (error_message, is_config_error) = response_error resp; status = hr_status_code resp
      in if is_success_status status then Return (Inr resp)
         else if is_config_error then Return (Inl (NetRequestNotRetryable (ra_url args) None error_message))
         else if opt_default 0 status \<in> set NON_RETRY_CODES
         then Return (Inl (NetRequestNotRetryable (ra_url args) status error_message))
         else if unat (ra_retries args) \<le> attempt
         then Return (Inl (NetRetriesExhausted (ra_url args) status (attempt + 1) error_message))
         else Retry)"

text \<open>
  The pause doubles with each attempt. The product is of 64 bits, as the release build computes it.
\<close>

definition backoff_ms :: "nat \<Rightarrow> u64" where
  "backoff_ms attempt = 2 ^ attempt * 100"

definition final_warning :: "ext \<Rightarrow> network_client \<Rightarrow> request_args \<Rightarrow> network_error + http_response \<Rightarrow> net_effect list" where
  "final_warning x c args r = (case r of Inl error \<Rightarrow> log_warning x c error args | Inr _ \<Rightarrow> [])"

text \<open>One attempt: the response, the effects and the world after the end marker.\<close>

definition send_once ::
    "'w net \<Rightarrow> network_client \<Rightarrow> http_method \<Rightarrow> request_args \<Rightarrow> nat \<Rightarrow> 'w \<Rightarrow> http_response \<times> net_effect list \<times> 'w" where
  "send_once N c kind args attempt w =
     (let (t0, w1) = nt_now N w;
          (resp, w2) = nt_send N kind args w1;
          (t1, w3) = nt_now N w2;
          success = is_success_status (hr_status_code resp);
          (marks, w4) = end_marker N args attempt resp success (fst (response_error resp)) w3
      in (resp,
          NetSent kind args resp #
          log_network_request_latency_to_ob c args (hr_status_code resp) success (nat_to_f64 (unat (t1 - t0))) @ marks, w4))"

function request_loop ::
    "ext \<Rightarrow> 'w net \<Rightarrow> network_client \<Rightarrow> nat \<Rightarrow> http_method \<Rightarrow> request_args \<Rightarrow> nat \<Rightarrow> 'w \<Rightarrow>
     (network_error + http_response) \<times> net_effect list \<times> 'w" where
  "request_loop x N c flag kind args attempt w =
     (let (marks, w1) = start_marker N args attempt w
      in if nt_flag N flag w1 then (Inl (NetShutdownError (ra_url args)), marks, w1)
         else if \<not> nt_provider N w1
         then (Inl (NetRequestFailed (ra_url args) None ''Failed to get a NetworkProvider instance''), marks, w1)
         else
           (let (resp, effects, w2) = send_once N c kind args attempt w1
            in case response_verdict args attempt resp of
                 Return r \<Rightarrow> (r, marks @ effects @ final_warning x c args r, w2)
               | Retry \<Rightarrow>
                   (let ms = backoff_ms (attempt + 1);
                        (r, effects', w3) = request_loop x N c flag kind args (attempt + 1) (nt_sleep N ms w2)
                    in (r, marks @ effects @ NetSlept ms # effects', w3))))"
  by pat_completeness auto
termination
  by (relation "measure (\<lambda>(x, N, c, flag, kind, args, attempt, w). unat (ra_retries args) - attempt)")
    (auto simp: response_verdict_def Let_def split: prod.splits if_splits)

declare request_loop.simps [simp del]

definition make_request ::
    "ext \<Rightarrow> 'w net \<Rightarrow> network_client \<Rightarrow> http_method \<Rightarrow> request_args \<Rightarrow> 'w \<Rightarrow>
     (network_error + http_response) \<times> net_effect list \<times> 'w" where
  "make_request x N c kind args w =
     (let flag = opt_default (nc_is_shutdown c) (ra_is_shutdown args)
      in if nc_disable_network c then (Inl (NetDisableNetworkOn (ra_url args)), [], w)
         else (let (args1, w1) = prepare_request N c args w in request_loop x N c flag kind args1 0 w1))"

definition client_get where
  "client_get x N c args w = make_request x N c GET args w"

definition client_post where
  "client_post x N c args body w = make_request x N c POST (args\<lparr>ra_body := body\<rparr>) w"

section \<open>Reporting exceptions\<close>

abbreviation MAX_SEEN_ERRORS :: nat where "MAX_SEEN_ERRORS \<equiv> 1000"

record sdk_errors_observer =
  eo_errors_aggregator :: "(string, u32) HashMap"
  eo_network_client :: network_client
  eo_statsig_options_logging_copy :: string
  eo_sdk_exception_url :: string

definition sdk_errors_observer_new ::
    "ext \<Rightarrow> 'w net \<Rightarrow> statsig_metadata \<Rightarrow> nat \<Rightarrow> string \<Rightarrow> statsig_options \<Rightarrow> 'w \<Rightarrow> sdk_errors_observer" where
  "sdk_errors_observer_new x N meta flag sdk_key options w =
     (let headers = hm_insert ''Content-Type'' ''application/json'' (get_constant_request_headers meta sdk_key (so_service_name options))
      in \<lparr>eo_errors_aggregator = [],
          eo_network_client = mute_network_error_log (fst (network_client_new N flag sdk_key (Some headers) (Some options) w)),
          eo_statsig_options_logging_copy = x_json_to_string x (serialize_options options),
          eo_sdk_exception_url = ''https://statsigapi.net/v1/sdk_exception''\<rparr>)"

definition error_boundary_json :: "error_boundary_event \<Rightarrow> (string \<times> json) list" where
  "error_boundary_json e =
     [(''tag'', JString (eb_tag e)), (''info'', JString (eb_info e)), (''exception'', JString (eb_exception e))]
     @ serialize_data_field ''dedupeKey'' (map_option JString (eb_dedupe_key e))
     @ [(''bypassDedupe'', JBool (eb_bypass_dedupe e))]
     @ serialize_data_field ''extra'' (map_option string_map_json (eb_extra e))"

text \<open>The indented form of JSON, \<open>to_string_pretty\<close>, is an argument.\<close>

definition log_exception ::
    "ext \<Rightarrow> 'w net \<Rightarrow> (json \<Rightarrow> string) \<Rightarrow> sdk_errors_observer \<Rightarrow> error_boundary_event \<Rightarrow> 'w \<Rightarrow> net_effect list \<times> 'w" where
  "log_exception x N pretty ob e w =
     (let body = pretty (JObject (error_boundary_json e @ [(''statsigOptions'', JString (eo_statsig_options_logging_copy ob))]))
      in snd (client_post x N (eo_network_client ob) (request_args_new\<lparr>ra_url := eo_sdk_exception_url ob\<rparr>) (Some body) w))"

definition dedupe_key_of :: "error_boundary_event \<Rightarrow> string" where
  "dedupe_key_of e = opt_default (eb_tag e @ '':'' @ eb_exception e) (eb_dedupe_key e)"

definition handle_eb_event ::
    "ext \<Rightarrow> 'w net \<Rightarrow> (json \<Rightarrow> string) \<Rightarrow> bool \<Rightarrow> error_boundary_event \<Rightarrow> sdk_errors_observer \<Rightarrow> 'w \<Rightarrow>
     sdk_errors_observer \<times> net_effect list \<times> 'w" where
  "handle_eb_event x N pretty lock_ok e ob w =
     (if \<not> lock_ok then (ob, [], w)
      else
        (let key = dedupe_key_of e;
             agg = (if MAX_SEEN_ERRORS \<le> length (eo_errors_aggregator ob) then [] else eo_errors_aggregator ob);
             n = opt_default 0 (hm_get agg key) + 1;
             ob1 = ob\<lparr>eo_errors_aggregator := hm_insert key n agg\<rparr>
         in if 1 < n \<and> \<not> eb_bypass_dedupe e then (ob1, [], w) else (ob1, log_exception x N pretty ob1 e w)))"

section \<open>Lemmas on headers\<close>

lemma hm_get_extend:
  "hm_wf new \<Longrightarrow> hm_get (hm_extend new m) k = (case hm_get new k of Some v \<Rightarrow> Some v | None \<Rightarrow> hm_get m k)"
proof (induction new arbitrary: m)
  case (Cons kv new)
  obtain k' v' where kv: "kv = (k', v')" by force
  have "hm_wf new" "k' \<notin> fst ` set new" using Cons.prems by (auto simp: hm_wf_def kv)
  moreover have "hm_get new k' = None" using calculation(2) by (auto simp: hm_get_def map_of_eq_None_iff)
  ultimately show ?case using Cons.IH [of "hm_insert k' v' m"] by (auto simp: hm_extend_def kv hm_get_Cons split: option.splits)
qed (simp add: hm_extend_def)

lemma hm_wf_extend: "hm_wf m \<Longrightarrow> hm_wf (hm_extend new m)"
  by (induction new arbitrary: m) (simp_all add: hm_extend_def)

lemma prepare_request_keeps:
  assumes "prepare_request N c args w = (args', w')"
  shows "ra_url args' = ra_url args \<and> ra_body args' = ra_body args \<and> ra_retries args' = ra_retries args \<and>
    ra_query_params args' = ra_query_params args \<and> ra_timeout_ms args' = ra_timeout_ms args"
  using assms by (auto simp: prepare_request_def populate_headers_def Let_def split: prod.splits)

lemma prepare_request_headers:
  assumes "prepare_request N c args w = (args', w')" "hm_wf (nc_headers c)" "hm_get (nc_headers c) k = Some v"
    and "k \<noteq> ''STATSIG-CLIENT-TIME''"
  shows "\<exists>h. ra_headers args' = Some h \<and> hm_get h k = Some v"
  using assms by (auto simp: prepare_request_def Let_def hm_get_extend split: prod.splits)

section \<open>The protocol of retries\<close>

fun sent :: "net_effect list \<Rightarrow> (http_method \<times> request_args \<times> http_response) list" where
  "sent [] = []"
| "sent (NetSent kind args resp # es) = (kind, args, resp) # sent es"
| "sent (NetStat _ # es) = sent es"
| "sent (NetSlept _ # es) = sent es"
| "sent (NetWarmed _ # es) = sent es"

fun pauses :: "net_effect list \<Rightarrow> u64 list" where
  "pauses [] = []"
| "pauses (NetSlept ms # es) = ms # pauses es"
| "pauses (NetSent _ _ _ # es) = pauses es"
| "pauses (NetStat _ # es) = pauses es"
| "pauses (NetWarmed _ # es) = pauses es"

lemma sent_append [simp]: "sent (es @ fs) = sent es @ sent fs"
  by (induction es rule: sent.induct) simp_all

lemma pauses_append [simp]: "pauses (es @ fs) = pauses es @ pauses fs"
  by (induction es rule: pauses.induct) simp_all

lemma marker_effects [simp]:
  "sent (fst (start_marker N args attempt w)) = []" "pauses (fst (start_marker N args attempt w)) = []"
  "sent (fst (end_marker N args attempt resp ok msg w)) = []" "pauses (fst (end_marker N args attempt resp ok msg w)) = []"
  by (simp_all add: start_marker_def end_marker_def Let_def split: option.splits prod.splits)

lemma latency_effects [simp]:
  "sent (log_network_request_latency_to_ob c args status ok ms) = []"
  "pauses (log_network_request_latency_to_ob c args status ok ms) = []"
  by (simp_all add: log_network_request_latency_to_ob_def Let_def)

lemma warning_effects [simp]: "sent (final_warning x c args r) = []" "pauses (final_warning x c args r) = []"
  by (simp_all add: final_warning_def log_warning_def split: sum.splits)

lemma send_once_effects:
  assumes "send_once N c kind args attempt w = (resp, es, w')"
  shows "sent es = [(kind, args, resp)]" "pauses es = []"
proof -
  obtain t0 w1 where 1: "nt_now N w = (t0, w1)" by force
  obtain resp2 w2 where 2: "nt_send N kind args w1 = (resp2, w2)" by force
  obtain t1 w3 where 3: "nt_now N w2 = (t1, w3)" by force
  show "sent es = [(kind, args, resp)]" "pauses es = []"
    using assms by (auto simp: send_once_def 1 2 3 Let_def split_def)
qed

lemma verdict_cases:
  "response_verdict args attempt resp = Return (Inr resp') \<Longrightarrow> resp' = resp \<and> is_success_status (hr_status_code resp)"
  "response_verdict args attempt resp = Retry \<Longrightarrow> \<not> is_success_status (hr_status_code resp) \<and> attempt < unat (ra_retries args)"
  "response_verdict args attempt resp = Return (Inl (NetRetriesExhausted u s n m)) \<Longrightarrow>
     n = attempt + 1 \<and> unat (ra_retries args) \<le> attempt"
  by (auto simp: response_verdict_def Let_def split: prod.splits if_splits)

definition protocol ::
    "http_method \<Rightarrow> request_args \<Rightarrow> nat \<Rightarrow> (network_error + http_response) \<Rightarrow> net_effect list \<Rightarrow> bool" where
  "protocol kind args attempt r trace \<longleftrightarrow>
     length (sent trace) \<le> unat (ra_retries args) - attempt + 1 \<and>
     (\<forall>(k, a, resp) \<in> set (sent trace). k = kind \<and> a = args) \<and>
     (\<forall>(k, a, resp) \<in> set (butlast (sent trace)). \<not> is_success_status (hr_status_code resp)) \<and>
     pauses trace = map (\<lambda>i. backoff_ms (attempt + Suc i)) [0..<length (pauses trace)] \<and>
     (\<forall>resp. r = Inr resp \<longrightarrow> sent trace \<noteq> [] \<and> resp = snd (snd (last (sent trace))) \<and> is_success_status (hr_status_code resp)) \<and>
     (\<forall>u s n m. r = Inl (NetRetriesExhausted u s n m) \<longrightarrow>
        n = attempt + length (sent trace) \<and> length (sent trace) = unat (ra_retries args) - attempt + 1)"

lemma protocol_nothing_sent:
  assumes "sent trace = []" "pauses trace = []" "\<And>resp. r \<noteq> Inr resp" "\<And>u s n m. r \<noteq> Inl (NetRetriesExhausted u s n m)"
  shows "protocol kind args attempt r trace"
  using assms by (simp add: protocol_def)

lemma protocol_returned:
  assumes "sent trace = [(kind, args, resp)]" "pauses trace = []" "response_verdict args attempt resp = Return r"
  shows "protocol kind args attempt r trace"
  using assms verdict_cases [of args attempt resp] by (auto simp: protocol_def)

lemma map_upt_Cons: "f 0 # map (\<lambda>i. f (Suc i)) [0..<n] = map f [0..<Suc n]"
  by (simp add: upt_conv_Cons map_Suc_upt [symmetric] del: upt_Suc)

lemma protocol_retried:
  assumes "protocol kind args (attempt + 1) r trace" "response_verdict args attempt resp = Retry"
    and "sent trace' = (kind, args, resp) # sent trace" "pauses trace' = backoff_ms (attempt + 1) # pauses trace"
  shows "protocol kind args attempt r trace'"
proof -
  have retry: "\<not> is_success_status (hr_status_code resp)" "attempt < unat (ra_retries args)"
    using verdict_cases(2) [OF assms(2)] by auto
  have "pauses trace' = map (\<lambda>i. backoff_ms (attempt + Suc i)) [0..<length (pauses trace')]"
    using assms(1,4) map_upt_Cons [of "\<lambda>i. backoff_ms (attempt + Suc i)" "length (pauses trace)"]
    by (simp add: protocol_def del: upt_Suc)
  then show ?thesis
    using assms(1,3) retry unfolding protocol_def by auto
qed

lemma request_loop_protocol:
  "request_loop x N c flag kind args attempt w = (r, trace, w') \<Longrightarrow> protocol kind args attempt r trace"
proof (induction x N c flag kind args attempt w arbitrary: r trace w' rule: request_loop.induct)
  case (1 x N c flag kind args attempt w)
  obtain marks w1 where marks: "start_marker N args attempt w = (marks, w1)" by force
  have quiet: "sent marks = []" "pauses marks = []" using marker_effects(1,2) [of N args attempt w] by (simp_all add: marks)
  obtain resp es w2 where once: "send_once N c kind args attempt w1 = (resp, es, w2)" using prod_cases3 by blast
  note es = send_once_effects [OF once]
  show ?case
  proof (cases "nt_flag N flag w1 \<or> \<not> nt_provider N w1")
    case True
    then show ?thesis
      using "1.prems" quiet by (intro protocol_nothing_sent) (auto simp: request_loop.simps [of x] marks split: if_splits)
  next
    case False
    show ?thesis
    proof (cases "response_verdict args attempt resp")
      case (Return r')
      with False "1.prems" have "r = r'" "trace = marks @ es @ final_warning x c args r'"
        by (auto simp: request_loop.simps [of x] marks once)
      then show ?thesis using Return quiet es by (intro protocol_returned [of trace kind args resp]) simp_all
    next
      case Retry
      obtain r2 es2 w3 where rec:
          "request_loop x N c flag kind args (attempt + 1) (nt_sleep N (backoff_ms (attempt + 1)) w2) = (r2, es2, w3)"
        using prod_cases3 by blast
      with False Retry "1.prems" have "r = r2" "trace = marks @ es @ NetSlept (backoff_ms (attempt + 1)) # es2"
        by (auto simp: request_loop.simps [of x N c flag kind args attempt w] marks once Let_def)
      moreover have "protocol kind args (attempt + 1) r2 es2"
        using "1.IH" [OF marks [symmetric] refl _ _ once [symmetric] refl refl Retry refl] rec False by (simp add: marks)
      ultimately show ?thesis using Retry quiet es by (intro protocol_retried [of kind args attempt r es2]) simp_all
    qed
  qed
qed

lemma make_request_protocol:
  assumes "make_request x N c kind args w = (r, trace, w')"
  shows "nc_disable_network c \<and> trace = [] \<and> r = Inl (NetDisableNetworkOn (ra_url args)) \<or>
    (\<exists>args1 w1. prepare_request N c args w = (args1, w1) \<and> protocol kind args1 0 r trace)"
  using assms
  by (auto simp: make_request_def Let_def split: if_splits prod.splits dest!: request_loop_protocol)

section \<open>Where a response comes from\<close>

text \<open>A result comes from the provider, for the prepared arguments.\<close>

lemma request_loop_response:
  "request_loop x N c flag kind args attempt w = (Inr resp, trace, w') \<Longrightarrow> \<exists>v. resp = fst (nt_send N kind args v)"
proof (induction x N c flag kind args attempt w arbitrary: trace w' rule: request_loop.induct)
  case (1 x N c flag kind args attempt w)
  obtain marks w1 where marks: "start_marker N args attempt w = (marks, w1)" by force
  obtain resp1 es w2 where once: "send_once N c kind args attempt w1 = (resp1, es, w2)" using prod_cases3 by blast
  have from_provider: "\<exists>v. resp1 = fst (nt_send N kind args v)"
    using once by (auto simp: send_once_def Let_def split: prod.splits) (metis fst_conv)
  have go: "\<not> nt_flag N flag w1" "nt_provider N w1"
    using "1.prems" by (auto simp: request_loop.simps [of x] marks split: if_splits)
  show ?case
  proof (cases "response_verdict args attempt resp1")
    case (Return r)
    with go "1.prems" have "r = Inr resp" by (simp add: request_loop.simps [of x] marks once)
    then show ?thesis using verdict_cases(1) [of args attempt resp1 resp] Return from_provider by auto
  next
    case Retry
    obtain r2 es2 w3 where rec:
        "request_loop x N c flag kind args (attempt + 1) (nt_sleep N (backoff_ms (attempt + 1)) w2) = (r2, es2, w3)"
      using prod_cases3 by blast
    with go Retry "1.prems" have "r2 = Inr resp"
      by (simp add: request_loop.simps [of x N c flag kind args attempt w] marks once Let_def)
    then show ?thesis
      using "1.IH" [OF marks [symmetric] refl _ _ once [symmetric] refl refl Retry refl] rec go by (simp add: marks)
  qed
qed

lemma make_request_response:
  assumes "make_request x N c kind args w = (Inr resp, trace, w')"
  obtains args1 w1 v where "prepare_request N c args w = (args1, w1)" "resp = fst (nt_send N kind args1 v)"
    "is_success_status (hr_status_code resp)"
proof -
  obtain args1 w1 where prep: "prepare_request N c args w = (args1, w1)" by force
  with assms have "request_loop x N c (opt_default (nc_is_shutdown c) (ra_is_shutdown args)) kind args1 0 w1 = (Inr resp, trace, w')"
    by (simp add: make_request_def split: if_splits)
  from request_loop_response [OF this] request_loop_protocol [OF this] prep that show ?thesis
    by (auto simp: protocol_def)
qed

text \<open>A header only the request has reaches the provider.\<close>

lemma prepare_request_own_header:
  assumes "prepare_request N c args w = (args1, w1)" "hm_wf (nc_headers c)" "hm_get (nc_headers c) k = None"
    and "k \<noteq> ''STATSIG-CLIENT-TIME''"
  shows "Option.bind (ra_headers args1) (\<lambda>h. hm_get h k) = Option.bind (ra_headers args) (\<lambda>h. hm_get h k)"
proof -
  have extend_nil: "hm_get (hm_extend (nc_headers c) []) k = None" using assms(2,3) by (simp add: hm_get_extend)
  have wf: "hm_wf (hm_insert ''STATSIG-CLIENT-TIME'' t (hm_extend (nc_headers c) []))" for t
    by (simp add: hm_wf_extend)
  show ?thesis
    using assms extend_nil wf
    by (auto simp: prepare_request_def populate_headers_def Let_def hm_get_extend opt_default_def split: prod.splits option.splits)
qed

text \<open>A network that answers every request at once.\<close>

lemma request_answered:
  assumes "\<not> nc_disable_network c" "\<And>f w. \<not> nt_flag N f w" "\<And>w. nt_provider N w" "\<And>w. nt_now N w = (t, w)"
    and "\<And>args w. nt_send N kind args w = (answer args, w)" "\<And>args. hr_status_code (answer args) = Some 200"
  shows "\<exists>trace. make_request x N c kind args w = (Inr (answer (fst (prepare_request N c args w))), trace, w)"
proof -
  obtain args1 w1 where prep: "prepare_request N c args w = (args1, w1)" by force
  then have w1: "w1 = w" by (auto simp: prepare_request_def assms(4) Let_def)
  have once: "\<exists>es. send_once N c kind args1 0 w = (answer args1, es, w)"
    by (simp add: send_once_def end_marker_def assms(4,5) Let_def split_def split: option.splits)
  obtain ms where marks: "start_marker N args1 0 w = (ms, w)"
    by (cases "ra_diagnostics_key args1") (simp_all add: start_marker_def assms(4))
  have "response_verdict args1 0 (answer args1) = Return (Inr (answer args1))"
    by (simp add: response_verdict_def assms(6) is_success_status_def opt_default_def split_def)
  with once have "\<exists>trace. request_loop x N c flag kind args1 0 w = (Inr (answer args1), trace, w)" for flag
    by (subst request_loop.simps) (auto simp: marks assms(2,3))
  then show ?thesis using assms(1) by (simp add: make_request_def prep w1)
qed

section \<open>Properties\<close>

text \<open>
  C37: A request ends after at most one attempt more than its retries, whatever the provider, the clock and the
  shutdown flag do. Every attempt is for the same method, URL and body and carries the headers of the client.
  Only the last attempt can have succeeded, and then its response is the result. The pauses are 200, 400, 800
  milliseconds and so on, and when the request fails for lack of retries, the error counts all the attempts,
  which are as many as allowed.
\<close>

theorem request_attempts_bounded:
  assumes "make_request x N c kind args w = (r, trace, w')" "hm_wf (nc_headers c)"
  shows "length (sent trace) \<le> unat (ra_retries args) + 1 \<and>
    (\<forall>(k, a, resp) \<in> set (sent trace). k = kind \<and> ra_url a = ra_url args \<and> ra_body a = ra_body args \<and>
       (\<forall>h v. hm_get (nc_headers c) h = Some v \<and> h \<noteq> ''STATSIG-CLIENT-TIME'' \<longrightarrow>
          (\<exists>hs. ra_headers a = Some hs \<and> hm_get hs h = Some v))) \<and>
    (\<forall>(k, a, resp) \<in> set (butlast (sent trace)). \<not> is_success_status (hr_status_code resp)) \<and>
    (\<forall>resp. r = Inr resp \<longrightarrow> sent trace \<noteq> [] \<and> resp = snd (snd (last (sent trace))) \<and> is_success_status (hr_status_code resp)) \<and>
    pauses trace = map (\<lambda>i. 2 ^ Suc i * 100) [0..<length (pauses trace)] \<and>
    (\<forall>u s n m. r = Inl (NetRetriesExhausted u s n m) \<longrightarrow>
       n = length (sent trace) \<and> length (sent trace) = unat (ra_retries args) + 1)"
  using make_request_protocol [OF assms(1)]
proof
  assume "nc_disable_network c \<and> trace = [] \<and> r = Inl (NetDisableNetworkOn (ra_url args))"
  then show ?thesis by simp
next
  assume "\<exists>args1 w1. prepare_request N c args w = (args1, w1) \<and> protocol kind args1 0 r trace"
  then obtain args1 w1 where prep: "prepare_request N c args w = (args1, w1)" and p: "protocol kind args1 0 r trace" by blast
  note keeps = prepare_request_keeps [OF prep]
  have all: "\<forall>(k, a, resp) \<in> set (sent trace). k = kind \<and> a = args1" using p unfolding protocol_def by blast
  have headers: "\<And>h v. hm_get (nc_headers c) h = Some v \<Longrightarrow> h \<noteq> ''STATSIG-CLIENT-TIME'' \<Longrightarrow>
      \<exists>hs. ra_headers args1 = Some hs \<and> hm_get hs h = Some v"
    by (rule prepare_request_headers [OF prep assms(2)])
  have 1: "\<forall>(k, a, resp) \<in> set (sent trace). k = kind \<and> ra_url a = ra_url args \<and> ra_body a = ra_body args \<and>
       (\<forall>h v. hm_get (nc_headers c) h = Some v \<and> h \<noteq> ''STATSIG-CLIENT-TIME'' \<longrightarrow>
          (\<exists>hs. ra_headers a = Some hs \<and> hm_get hs h = Some v))"
    using all keeps headers by (auto split: prod.splits)
  show ?thesis
    using p [unfolded protocol_def backoff_ms_def add_0 diff_zero] 1 unfolding keeps [THEN conjunct2, THEN conjunct2, THEN conjunct1]
    by blast
qed

text \<open>A server that fails at first and then answers.\<close>

definition flaky_net :: "nat net" where
  "flaky_net = \<lparr>nt_send = (\<lambda>kind args n. (\<lparr>hr_status_code = Some (if n = 0 then 503 else 200), hr_data = Some (from_bytes ''ok''),
       hr_error = None\<rparr>, n + 1)),
     nt_provider = (\<lambda>_. True), nt_flag = (\<lambda>_ _. False), nt_set_flag = (\<lambda>_ n. n), nt_now = (\<lambda>n. (0, n)),
     nt_sleep = (\<lambda>_ n. n), nt_read_file = (\<lambda>_. None)\<rparr>"

definition plain_client :: network_client where
  "plain_client = fst (network_client_new flaky_net 0 ''secret-key'' (Some [(''STATSIG-API-KEY'', ''secret-key'')]) None 0)"

definition one_retry :: request_args where
  "one_retry = request_args_new\<lparr>ra_url := ''https://a.b/v1/x'', ra_retries := 1\<rparr>"

lemma flaky_send:
  assumes "ra_diagnostics_key a = None"
  shows "\<exists>es. send_once flaky_net c GET a attempt n = (\<lparr>hr_status_code = Some (if n = 0 then 503 else 200),
      hr_data = Some (from_bytes ''ok''), hr_error = None\<rparr>, es, n + 1)"
  using assms by (simp add: send_once_def flaky_net_def end_marker_def Let_def)

lemma flaky_verdicts:
  "response_verdict a i \<lparr>hr_status_code = Some 200, hr_data = d, hr_error = None\<rparr>
     = Return (Inr \<lparr>hr_status_code = Some 200, hr_data = d, hr_error = None\<rparr>)"
  "i < unat (ra_retries a) \<Longrightarrow> response_verdict a i \<lparr>hr_status_code = Some 503, hr_data = Some (from_bytes ''ok''), hr_error = None\<rparr> = Retry"
proof -
  let ?r = "\<lparr>hr_status_code = Some 503, hr_data = Some (from_bytes ''ok''), hr_error = None\<rparr>"
  have ok: "is_success_status (Some 200)" "\<not> is_success_status (Some 503)" by (simp_all add: is_success_status_def opt_default_def)
  show "response_verdict a i \<lparr>hr_status_code = Some 200, hr_data = d, hr_error = None\<rparr>
     = Return (Inr \<lparr>hr_status_code = Some 200, hr_data = d, hr_error = None\<rparr>)"
    by (simp add: response_verdict_def ok split_def)
  have "hd (get_error_message_for_status (Some 503) d) = CHR ''S''" for d
    by (simp add: get_error_message_for_status_def ok Let_def)
  moreover have "str_starts_with s (b # t) \<Longrightarrow> hd s = b" for s t and b :: char
    by (auto simp: starts_with_iff)
  moreover have "char_of (1 :: nat) \<noteq> CHR ''S''" by (simp add: char_of_def)
  ultimately have "\<not> str_starts_with (get_error_message_for_status (Some 503) d) CLIENT_CONFIG_ERROR_PREFIX" for d
    by (metis append_Cons append_Nil)
  then have "\<not> snd (response_error ?r)"
    unfolding response_error_def Let_def by simp
  then show "i < unat (ra_retries a) \<Longrightarrow> response_verdict a i ?r = Retry"
    by (simp add: response_verdict_def ok NON_RETRY_CODES_def opt_default_def split_def)
qed

lemma flaky_start: "ra_diagnostics_key a = None \<Longrightarrow> start_marker N a i w = ([], w)"
  by (simp add: start_marker_def)

lemma flaky_loop:
  assumes "ra_diagnostics_key a = None" "ra_retries a = 1"
  shows "\<exists>trace. request_loop x flaky_net c flag GET a 0 0
     = (Inr \<lparr>hr_status_code = Some 200, hr_data = Some (from_bytes ''ok''), hr_error = None\<rparr>, trace, 2)"
proof -
  obtain es where 0: "send_once flaky_net c GET a 0 0 = (\<lparr>hr_status_code = Some 503,
      hr_data = Some (from_bytes ''ok''), hr_error = None\<rparr>, es, 1)" using flaky_send [OF assms(1), of c 0 0] by auto
  obtain fs where 1: "send_once flaky_net c GET a 1 1 = (\<lparr>hr_status_code = Some 200,
      hr_data = Some (from_bytes ''ok''), hr_error = None\<rparr>, fs, 2)" using flaky_send [OF assms(1), of c 1 1] by auto
  have w: "nt_flag flaky_net flag n = False" "nt_provider flaky_net n" "nt_sleep flaky_net ms n = n" for n ms
    by (simp_all add: flaky_net_def)
  have "request_loop x flaky_net c flag GET a 1 1
     = (Inr \<lparr>hr_status_code = Some 200, hr_data = Some (from_bytes ''ok''), hr_error = None\<rparr>, fs, 2)"
    by (subst request_loop.simps) (simp add: flaky_start [OF assms(1)] w 1 [simplified] flaky_verdicts final_warning_def)
  then show ?thesis
    by (subst request_loop.simps) (simp add: flaky_start [OF assms(1)] w 0 flaky_verdicts(2) assms(2) Let_def)
qed

lemma plain_client_on: "\<not> nc_disable_network plain_client"
  by (simp add: plain_client_def network_client_new_def Let_def)

lemma flaky_request:
  "\<exists>trace. make_request sample_ext flaky_net plain_client GET one_retry 0
     = (Inr \<lparr>hr_status_code = Some 200, hr_data = Some (from_bytes ''ok''), hr_error = None\<rparr>, trace, 2)"
proof -
  obtain a w where prep: "prepare_request flaky_net plain_client one_retry 0 = (a, w)" by force
  then have "ra_diagnostics_key a = None" "ra_retries a = 1" "w = 0"
    by (auto simp: prepare_request_def populate_headers_def one_retry_def request_args_new_def flaky_net_def Let_def)
  then show ?thesis using flaky_loop [of a sample_ext plain_client]
    by (simp add: make_request_def prep plain_client_on)
qed

lemma plain_client_headers: "nc_headers plain_client = [(''STATSIG-API-KEY'', ''secret-key'')]"
  by (simp add: plain_client_def network_client_new_def opt_default_def Let_def)

theorem request_attempts_bounded_witness:
  "\<exists>trace. make_request sample_ext flaky_net plain_client GET one_retry 0
     = (Inr \<lparr>hr_status_code = Some 200, hr_data = Some (from_bytes ''ok''), hr_error = None\<rparr>, trace, 2) \<and>
     length (sent trace) \<le> 2 \<and> sent trace \<noteq> []"
proof -
  obtain trace where t: "make_request sample_ext flaky_net plain_client GET one_retry 0
     = (Inr \<lparr>hr_status_code = Some 200, hr_data = Some (from_bytes ''ok''), hr_error = None\<rparr>, trace, 2)"
    using flaky_request by blast
  have "hm_wf (nc_headers plain_client)" by (simp add: plain_client_headers hm_wf_def)
  from request_attempts_bounded [OF t this] have "length (sent trace) \<le> unat (ra_retries one_retry) + 1" "sent trace \<noteq> []"
    by blast+
  then show ?thesis using t by (auto simp: one_retry_def)
qed

end
