(* ===== verification/Id_List_Sync.thy ===== *)
theory Id_List_Sync
  imports Network_Client
begin

text \<open>
  The adapter that keeps the id lists of the spec store in step with the server,
  \<open>src/statsig-rust/src/id_lists_adapter/statsig_http_id_lists_adapter.rs\<close>: the requests it builds, the manifest with
  its fallback, the choice of what to download, and a synchronisation as a whole.

  The listener of the adapter is the spec store. The reading of a manifest from JSON and the texts of two errors are
  parameters, and so is whether a lock is obtained in time.
\<close>

section \<open>The adapter\<close>

abbreviation STATSIG_CDN_URL :: string where "STATSIG_CDN_URL \<equiv> ''https://api.statsigcdn.com''"
abbreviation DEFAULT_CDN_ID_LISTS_MANIFEST_URL :: string where
  "DEFAULT_CDN_ID_LISTS_MANIFEST_URL \<equiv> ''https://api.statsigcdn.com/v1/get_id_lists''"
abbreviation DEFAULT_ID_LIST_SYNC_INTERVAL_MS :: u32 where "DEFAULT_ID_LIST_SYNC_INTERVAL_MS \<equiv> 60000"
abbreviation ID_LISTS_TAG :: string where "ID_LISTS_TAG \<equiv> ''StatsigHttpIdListsAdapter''"

record id_lists_adapter =
  ia_id_lists_manifest_url :: string
  ia_download_id_list_file_api :: "string option"
  ia_fallback_url :: "string option"
  ia_listener :: bool
  ia_network :: network_client
  ia_sync_interval_duration :: u32
  ia_request_timeout_ms :: u64

definition id_lists_default_cdn_url :: "string \<Rightarrow> string" where
  "id_lists_default_cdn_url sdk_key = DEFAULT_CDN_ID_LISTS_MANIFEST_URL @ ''/'' @ sdk_key @ ''.json''"

definition id_lists_adapter_new ::
    "'w net \<Rightarrow> statsig_metadata \<Rightarrow> nat \<Rightarrow> string \<Rightarrow> statsig_options \<Rightarrow> 'w \<Rightarrow> id_lists_adapter" where
  "id_lists_adapter_new N meta flag sdk_key options w =
     (let manifest_url = (case so_id_lists_url options of Some url \<Rightarrow> url | None \<Rightarrow> id_lists_default_cdn_url sdk_key)
      in \<lparr>ia_id_lists_manifest_url = manifest_url,
          ia_download_id_list_file_api = so_download_id_list_file_api options,
          ia_fallback_url =
            (if so_fallback_to_statsig_api options = Some True \<and> \<not> str_contains manifest_url DEFAULT_CDN_ID_LISTS_MANIFEST_URL
             then Some (id_lists_default_cdn_url sdk_key) else None),
          ia_listener = False,
          ia_network = fst (network_client_new N flag sdk_key
            (Some (get_constant_request_headers meta sdk_key (so_service_name options))) (Some options) w),
          ia_sync_interval_duration = opt_default DEFAULT_ID_LIST_SYNC_INTERVAL_MS (so_id_lists_sync_interval_ms options),
          ia_request_timeout_ms = opt_default 0 (so_id_lists_request_timeout_ms options)\<rparr>)"

text \<open>What the model takes from outside: the reader of the manifest and two texts.\<close>

record sync_texts =
  sy_parse_manifest :: "string \<Rightarrow> string + (string, id_list_metadata) HashMap"
  sy_utf8_error :: "string \<Rightarrow> string"
  sy_err_debug :: "statsig_err \<Rightarrow> string"

section \<open>The manifest\<close>

definition build_manifest_request_args :: "id_lists_adapter \<Rightarrow> request_args" where
  "build_manifest_request_args a =
     request_args_new\<lparr>ra_url := ia_id_lists_manifest_url a, ra_accept_gzip_response := True,
       ra_diagnostics_key := Some KeyGetIDListSources, ra_timeout_ms := ia_request_timeout_ms a\<rparr>"

definition is_cdn_url :: "id_lists_adapter \<Rightarrow> bool" where
  "is_cdn_url a = str_starts_with (ia_id_lists_manifest_url a) DEFAULT_CDN_ID_LISTS_MANIFEST_URL"

definition parse_response :: "sync_texts \<Rightarrow> response_data option \<Rightarrow> statsig_err + (string, id_list_metadata) HashMap" where
  "parse_response T response =
     (case response of
        None \<Rightarrow> Inl (JsonParseError ''IdListsResponse'' ''No ID List results from network'')
      | Some d \<Rightarrow>
          (case sy_parse_manifest T (rd_bytes d) of
             Inr manifest \<Rightarrow> Inr manifest
           | Inl text \<Rightarrow> Inl (JsonParseError ''IdListsResponse''
               (''Failed to parse JSON: '' @ ''Failed to parse JSON '' @ ''ResponseData'' @ '' - '' @ text))))"

type_synonym ('a, 'w) net_result = "(statsig_err + 'a) \<times> net_effect list \<times> 'w"

definition handle_fallback_request ::
    "ext \<Rightarrow> 'w net \<Rightarrow> id_lists_adapter \<Rightarrow> string \<Rightarrow> request_args \<Rightarrow> 'w \<Rightarrow> (http_response, 'w) net_result" where
  "handle_fallback_request x N a fallback_url args w =
     (case client_get x N (ia_network a) (args\<lparr>ra_url := fallback_url\<rparr>) w of
        (Inr response, es, w1) \<Rightarrow> (Inr response, es, w1)
      | (Inl e, es, w1) \<Rightarrow> (Inl (NetworkError e), es, w1))"

fun is_retries_exhausted :: "network_error \<Rightarrow> bool" where
  "is_retries_exhausted (NetRetriesExhausted _ _ _ _) = True"
| "is_retries_exhausted _ = False"

definition handle_manifest_network_error ::
    "ext \<Rightarrow> 'w net \<Rightarrow> sync_texts \<Rightarrow> id_lists_adapter \<Rightarrow> request_args \<Rightarrow> network_error \<Rightarrow> 'w \<Rightarrow>
     ((string, id_list_metadata) HashMap, 'w) net_result" where
  "handle_manifest_network_error x N T a args initial_err w =
     (if \<not> is_retries_exhausted initial_err then (Inl (NetworkError initial_err), [], w)
      else
        (case ia_fallback_url a of
           Some fallback_url \<Rightarrow>
             (case handle_fallback_request x N a fallback_url args w of
                (Inr response, es, w1) \<Rightarrow> (parse_response T (hr_data response), es, w1)
              | (Inl e, es, w1) \<Rightarrow> (Inl e, es, w1))
         | None \<Rightarrow> (Inl (NetworkError initial_err), [], w)))"

definition fetch_id_list_manifests_from_network ::
    "ext \<Rightarrow> 'w net \<Rightarrow> sync_texts \<Rightarrow> id_lists_adapter \<Rightarrow> 'w \<Rightarrow> ((string, id_list_metadata) HashMap, 'w) net_result" where
  "fetch_id_list_manifests_from_network x N T a w =
     (let args = build_manifest_request_args a;
          (result, es, w1) =
            (if is_cdn_url a then client_get x N (ia_network a) args w else client_post x N (ia_network a) args None w);
          (result2, es2, w2) =
            (case result of
               Inr response \<Rightarrow> (parse_response T (hr_data response), [], w1)
             | Inl initial_err \<Rightarrow> handle_manifest_network_error x N T a args initial_err w1);
          metric_name = (case result2 of Inr _ \<Rightarrow> ''id_list_manifest_download_success'' | Inl _ \<Rightarrow> ''id_list_manifest_download_failure'')
      in (result2, es @ es2 @ [NetStat (observability_new_event MetricIncrement metric_name (Fin 1) None)], w2))"

section \<open>One list\<close>

definition get_override_id_list_download_url :: "id_lists_adapter \<Rightarrow> string \<Rightarrow> string" where
  "get_override_id_list_download_url a list_url =
     (case ia_download_id_list_file_api a of
        None \<Rightarrow> list_url
      | Some override_api \<Rightarrow>
          (let (_, path) = split_host_and_path list_url
           in if path = [] then override_api else override_api @ ''/'' @ path))"

definition build_id_list_download_request_args ::
    "id_lists_adapter \<Rightarrow> string \<Rightarrow> nat \<Rightarrow> nat \<Rightarrow> string option \<Rightarrow> request_args" where
  "build_id_list_download_request_args a list_url start_index new_file_size id_list_file_id =
     (let url = get_override_id_list_download_url a list_url;
          (headers, query_params) =
            (if str_starts_with url STATSIG_CDN_URL
             then (None, Some [(''range'', nat_to_string start_index @ ''-'')])
             else (Some (hm_insert ''statsig-id-list-file-size'' (nat_to_string new_file_size)
                     [(''Range'', ''bytes='' @ nat_to_string start_index @ ''-'')]), None))
      in request_args_new\<lparr>ra_url := url, ra_headers := headers, ra_query_params := query_params,
           ra_id_list_file_id := id_list_file_id, ra_diagnostics_key := Some KeyGetIDList,
           ra_timeout_ms := ia_request_timeout_ms a\<rparr>)"

definition add_diagnostics_start_marker ::
    "'w net \<Rightarrow> key_type \<Rightarrow> step_type \<Rightarrow> nat option \<Rightarrow> string option \<Rightarrow> 'w \<Rightarrow> net_effect list \<times> 'w" where
  "add_diagnostics_start_marker N key step id_list_count url w =
     (let (now, w1) = nt_now N w;
          m = marker_new now key ActionStart (Some step);
          m1 = (case id_list_count of Some n \<Rightarrow> with_id_list_count n m | None \<Rightarrow> m);
          m2 = (case url of Some u \<Rightarrow> m1\<lparr>mk_url := Some u\<rparr> | None \<Rightarrow> m1)
      in ([NetStat (ops_add_marker m2 None)], w1))"

definition add_diagnostics_end_marker ::
    "'w net \<Rightarrow> key_type \<Rightarrow> step_type \<Rightarrow> bool \<Rightarrow> nat option \<Rightarrow> string option \<Rightarrow> 'w \<Rightarrow> net_effect list \<times> 'w" where
  "add_diagnostics_end_marker N key step success status_code url w =
     (let (now, w1) = nt_now N w;
          m = (marker_new now key ActionEnd (Some step))\<lparr>mk_success := Some success\<rparr>;
          m1 = (case status_code of Some c \<Rightarrow> m\<lparr>mk_status_code := Some c\<rparr> | None \<Rightarrow> m);
          m2 = (case url of Some u \<Rightarrow> m1\<lparr>mk_url := Some u\<rparr> | None \<Rightarrow> m1)
      in ([NetStat (ops_add_marker m2 None)], w1))"

definition read_id_list_body :: "sync_texts \<Rightarrow> response_data option \<Rightarrow> statsig_err + string" where
  "read_id_list_body T d =
     (case d of
        None \<Rightarrow> Inl (JsonParseError ''IdList'' ''No ID List changes from network'')
      | Some d \<Rightarrow>
          (case read_to_string (sy_utf8_error T) d of
             Inr s \<Rightarrow> Inr s
           | Inl err \<Rightarrow> Inl (JsonParseError ''IdList'' (''Failed to parse ID List changes: '' @ sy_err_debug T err))))"

definition fetch_individual_id_list_changes_from_network ::
    "ext \<Rightarrow> 'w net \<Rightarrow> sync_texts \<Rightarrow> id_lists_adapter \<Rightarrow> string \<Rightarrow> nat \<Rightarrow> nat \<Rightarrow> string option \<Rightarrow> 'w \<Rightarrow> (string, 'w) net_result" where
  "fetch_individual_id_list_changes_from_network x N T a list_url start_index new_file_size id_list_file_id w =
     (let args = build_id_list_download_request_args a list_url start_index new_file_size id_list_file_id
      in case client_get x N (ia_network a) args w of
           (Inl err, es, w1) \<Rightarrow> (Inl (NetworkError err), es, w1)
         | (Inr response, es, w1) \<Rightarrow>
             (let (starts, w2) = add_diagnostics_start_marker N KeyGetIDList StepProcess None (Some (ra_url args)) w1;
                  result = read_id_list_body T (hr_data response);
                  (ends, w3) = add_diagnostics_end_marker N KeyGetIDList StepProcess (\<not> isl result) None (Some (ra_url args)) w2
              in (result, es @ starts @ ends, w3)))"

section \<open>A synchronisation\<close>

record id_list_change_set =
  ic_new_metadata :: id_list_metadata
  ic_requires_download :: bool
  ic_range_start :: nat

definition change_set_of :: "(string, id_list_metadata) HashMap \<Rightarrow> string \<Rightarrow> id_list_metadata \<Rightarrow> id_list_change_set" where
  "change_set_of curr_manifest list_name entry =
     (let (requires_download, range_start) =
        (case hm_get curr_manifest list_name of
           Some current \<Rightarrow>
             if im_creation_time current < im_creation_time entry \<or> im_file_id entry \<noteq> im_file_id current then (True, 0)
             else if im_size current < im_size entry then (True, im_size current)
             else (False, 0)
         | None \<Rightarrow> (True, 0))
      in \<lparr>ic_new_metadata = entry, ic_requires_download = requires_download, ic_range_start = range_start\<rparr>)"

fun fetch_updates ::
    "ext \<Rightarrow> 'w net \<Rightarrow> sync_texts \<Rightarrow> id_lists_adapter \<Rightarrow> (string, id_list_change_set) HashMap \<Rightarrow>
     (string, id_list_update) HashMap \<Rightarrow> nat \<Rightarrow> 'w \<Rightarrow> ((string, id_list_update) HashMap, 'w) net_result \<times> nat" where
  "fetch_updates x N T a [] updates done_count w = ((Inr updates, [], w), done_count)"
| "fetch_updates x N T a ((list_name, ch) # changes) updates done_count w =
     (let meta = ic_new_metadata ch
      in if \<not> ic_requires_download ch
         then fetch_updates x N T a changes
                (hm_insert list_name \<lparr>iu_raw_changeset = None, iu_new_metadata = meta\<rparr> updates) done_count w
         else
           (case fetch_individual_id_list_changes_from_network x N T a (im_url meta) (ic_range_start ch) (im_size meta) (im_file_id meta) w of
              (Inl e, es, w1) \<Rightarrow> ((Inl e, es, w1), done_count)
            | (Inr raw, es, w1) \<Rightarrow>
                (case fetch_updates x N T a changes
                        (hm_insert list_name \<lparr>iu_raw_changeset = Some raw, iu_new_metadata = meta\<rparr> updates) (done_count + 1) w1 of
                   ((r, es', w2), n) \<Rightarrow> ((r, es @ es', w2), n))))"

definition log_id_lists_sync_overall_latency :: "'w net \<Rightarrow> u64 \<Rightarrow> bool \<Rightarrow> nat \<Rightarrow> 'w \<Rightarrow> net_effect list \<times> 'w" where
  "log_id_lists_sync_overall_latency N sync_start_ms manifest_success successful_number w =
     (let (now, w1) = nt_now N w
      in ([NetStat (observability_new_event MetricDist ''id_lists_sync_overall.latency''
             (nat_to_f64 (unat now - unat sync_start_ms))
             (Some [(''id_list_manifest_success'', bool_to_string manifest_success),
                    (''succeed_single_id_list_number'', nat_to_string successful_number)]))], w1))"

text \<open>
  Whether the locks are obtained: of the listener for the metadata and for the updates, of the store in each of the
  two calls.
\<close>

record sync_locks =
  yl_metadata :: bool
  yl_store_metadata :: bool
  yl_updates :: bool
  yl_store_updates :: bool

definition adapter_current_metadata ::
    "sync_locks \<Rightarrow> id_lists_adapter \<Rightarrow> spec_store \<Rightarrow> statsig_err + (string, id_list_metadata) HashMap" where
  "adapter_current_metadata K a st =
     (if \<not> yl_metadata K then Inl (LockFailureError ''Failed to acquire read lock on listener'')
      else if ia_listener a then Inr (get_current_id_list_metadata (yl_store_metadata K) st)
      else Inl (UnstartedAdapter ''Listener not set''))"

text \<open>The last step: the updates are given to the store. The store is \<open>None\<close> after a panic in an update.\<close>

definition deliver_updates ::
    "ext \<Rightarrow> sync_locks \<Rightarrow> id_lists_adapter \<Rightarrow> (string, id_list_update) HashMap \<Rightarrow> spec_store \<Rightarrow>
     (statsig_err + unit) \<times> net_effect list \<times> spec_store option" where
  "deliver_updates x K a updates st =
     (if \<not> yl_updates K
      then (let err = LockFailureError ''Failed to acquire read lock on listener''
            in (Inl err, [NetStat (ops_log_error x ID_LISTS_TAG err)], Some st))
      else if ia_listener a then (Inr (), [], did_receive_id_list_updates (yl_store_updates K) updates st)
      else (Inl (UnstartedAdapter ''Listener not set''), [], Some st))"

definition plan_changes ::
    "(string, id_list_metadata) HashMap \<Rightarrow> (string, id_list_metadata) HashMap \<Rightarrow> (string, id_list_change_set) HashMap" where
  "plan_changes curr_manifest new_manifest =
     foldl (\<lambda>changes (list_name, entry). hm_insert list_name (change_set_of curr_manifest list_name entry) changes) [] new_manifest"

definition sync_id_lists ::
    "ext \<Rightarrow> 'w net \<Rightarrow> sync_texts \<Rightarrow> sync_locks \<Rightarrow> id_lists_adapter \<Rightarrow> spec_store \<Rightarrow> 'w \<Rightarrow>
     (statsig_err + unit) \<times> net_effect list \<times> spec_store option \<times> 'w" where
  "sync_id_lists x N T K a st w =
     (let (sync_start_ms, w0) = nt_now N w
      in case fetch_id_list_manifests_from_network x N T a w0 of
           (Inl e, es, w1) \<Rightarrow>
             (let (lat, w2) = log_id_lists_sync_overall_latency N sync_start_ms False 0 w1 in (Inl e, es @ lat, Some st, w2))
         | (Inr new_manifest, es, w1) \<Rightarrow>
             (case adapter_current_metadata K a st of
                Inl e \<Rightarrow>
                  (let (lat, w2) = log_id_lists_sync_overall_latency N sync_start_ms True 0 w1 in (Inl e, es @ lat, Some st, w2))
              | Inr curr_manifest \<Rightarrow>
                  (let (starts, w2) = add_diagnostics_start_marker N KeyGetIDListSources StepProcess (Some (length new_manifest)) None w1
                   in case fetch_updates x N T a (plan_changes curr_manifest new_manifest) [] 0 w2 of
                        ((Inl e, fs, w3), n) \<Rightarrow>
                          (let (lat, w4) = log_id_lists_sync_overall_latency N sync_start_ms True n w3
                           in (Inl e, es @ starts @ fs @ lat, Some st, w4))
                      | ((Inr updates, fs, w3), n) \<Rightarrow>
                          (let (result, ds, st') = deliver_updates x K a updates st;
                               (ends, w4) = add_diagnostics_end_marker N KeyGetIDListSources StepProcess (\<not> isl result) None None w3;
                               (lat, w5) = log_id_lists_sync_overall_latency N sync_start_ms True n w4
                           in (result, es @ starts @ fs @ ds @ ends @ lat, st', w5)))))"

definition set_listener :: "ext \<Rightarrow> bool \<Rightarrow> id_lists_adapter \<Rightarrow> id_lists_adapter \<times> net_effect list" where
  "set_listener x lock_ok a =
     (if lock_ok then (a\<lparr>ia_listener := True\<rparr>, [])
      else (a, [NetStat (ops_log_error x ID_LISTS_TAG (LockFailureError ''Failed to acquire write lock on listener''))]))"

definition id_lists_adapter_start ::
    "ext \<Rightarrow> 'w net \<Rightarrow> sync_texts \<Rightarrow> bool \<Rightarrow> sync_locks \<Rightarrow> id_lists_adapter \<Rightarrow> spec_store \<Rightarrow> 'w \<Rightarrow>
     (statsig_err + unit) \<times> net_effect list \<times> spec_store option \<times> id_lists_adapter \<times> 'w" where
  "id_lists_adapter_start x N T lock_ok K a st w =
     (let (a1, es) = set_listener x lock_ok a;
          (r, fs, st', w1) = sync_id_lists x N T K a1 st w
      in (r, es @ NetStat (ops_set_diagnostics_context CtxInitialize) # fs, st', a1, w1))"

text \<open>One round of the background task. A disabled network ends it early and silently.\<close>

definition id_lists_run_background_sync ::
    "ext \<Rightarrow> 'w net \<Rightarrow> sync_texts \<Rightarrow> sync_locks \<Rightarrow> id_lists_adapter \<Rightarrow> spec_store \<Rightarrow> 'w \<Rightarrow> net_effect list \<times> spec_store option \<times> 'w" where
  "id_lists_run_background_sync x N T K a st w =
     (let (r, es, st', w1) = sync_id_lists x N T K a st w;
          before = NetStat (ops_set_diagnostics_context CtxConfigSync) # es
      in case r of
           Inl (NetworkError (NetDisableNetworkOn _)) \<Rightarrow> (before, st', w1)
         | _ \<Rightarrow> (before @ [NetStat (ops_enqueue_diagnostics_event (Some KeyGetIDListSources) (Some CtxConfigSync))], st', w1))"

section \<open>Incremental downloads\<close>

text \<open>Reading a file in two parts that meet at the end of a line reads the whole file.\<close>

abbreviation NL :: char where "NL \<equiv> CHR 0x0A"

definition line_boundary :: "string \<Rightarrow> bool" where
  "line_boundary s \<longleftrightarrow> s = [] \<or> last s = NL"

lemma str_split_append_sep: "str_split c (a @ c # b) = str_split c a @ str_split c b"
proof (induction a)
  case (Cons x a)
  show ?case
  proof (cases "x = c")
    case False
    obtain w ws where "str_split c a = w # ws" by (cases "str_split c a") auto
    with Cons False show ?thesis by simp
  qed (use Cons in simp)
qed simp

lemma str_lines_snoc_NL: "str_lines (a @ [NL]) = map strip_cr (str_split NL a)"
  by (simp add: str_lines_def str_split_append_sep Let_def)

lemma str_lines_append:
  assumes "line_boundary a"
  shows "str_lines (a @ b) = str_lines a @ str_lines b"
proof (cases "a = []")
  case True
  then show ?thesis by (simp add: str_lines_def)
next
  case False
  with assms obtain a' where a: "a = a' @ [NL]" by (metis append_butlast_last_id line_boundary_def)
  have "str_split NL (a @ b) = str_split NL a' @ str_split NL b" by (simp add: a str_split_append_sep)
  moreover have "str_split NL b \<noteq> []" by simp
  ultimately have "str_lines (a @ b) = map strip_cr (str_split NL a') @ str_lines b"
    by (simp add: str_lines_def butlast_append Let_def)
  then show ?thesis by (simp add: a str_lines_snoc_NL)
qed

lemma apply_changes_append:
  "apply_changes (cs @ ds) ids = Option.bind (apply_changes cs ids) (apply_changes ds)"
  by (induction cs arbitrary: ids) (auto split: option.splits)

text \<open>A list holds a file up to its size, which ends at a line.\<close>

definition mirrors :: "string \<Rightarrow> id_list \<Rightarrow> bool" where
  "mirrors file l \<longleftrightarrow> im_size (il_metadata l) \<le> length file \<and> line_boundary (take (im_size (il_metadata l)) file) \<and>
     apply_changes (str_lines (take (im_size (il_metadata l)) file)) {} = Some (il_ids l)"

text \<open>A list holds the whole file.\<close>

definition holds_file :: "string \<Rightarrow> id_list \<Rightarrow> bool" where
  "holds_file file l \<longleftrightarrow> im_size (il_metadata l) = length file \<and> apply_changes (str_lines file) {} = Some (il_ids l)"

lemma mirrors_extended:
  assumes "mirrors file l" "apply_changes (str_lines (drop (im_size (il_metadata l)) file)) (il_ids l) = Some ids"
  shows "apply_changes (str_lines file) {} = Some ids"
proof -
  let ?n = "im_size (il_metadata l)"
  have "str_lines file = str_lines (take ?n file) @ str_lines (drop ?n file)"
    using str_lines_append [of "take ?n file" "drop ?n file"] assms(1) by (simp add: mirrors_def)
  with assms show ?thesis by (simp add: apply_changes_append mirrors_def)
qed

text \<open>
  When the manifest's entry fits what the store has of a list: the same file grew, or a file that is not older
  replaced it.
\<close>

definition fits :: "string \<Rightarrow> id_list_metadata \<Rightarrow> id_list option \<Rightarrow> bool" where
  "fits file meta current \<longleftrightarrow> im_size meta = length file \<and>
     (case current of
        None \<Rightarrow> True
      | Some l \<Rightarrow>
          if im_file_id meta = im_file_id (il_metadata l)
          then im_creation_time meta \<le> im_creation_time (il_metadata l) \<and> mirrors file l
          else im_creation_time (il_metadata l) \<le> im_creation_time meta)"

definition update_for :: "(string, id_list_metadata) HashMap \<Rightarrow> string \<Rightarrow> string \<Rightarrow> id_list_metadata \<Rightarrow> id_list_update" where
  "update_for cur_man file n meta =
     (let ch = change_set_of cur_man n meta
      in \<lparr>iu_raw_changeset = (if ic_requires_download ch then Some (drop (ic_range_start ch) file) else None), iu_new_metadata = meta\<rparr>)"

lemma update_for_holds_file:
  assumes "fits file meta current" "hm_get cur_man n = map_option il_metadata current"
    and "updated_list (update_for cur_man file n meta) current = Some l"
  shows "holds_file file l"
proof (cases current)
  case None
  with assms show ?thesis
    by (auto simp: update_for_def change_set_of_def updated_list_def apply_update_def id_list_new_def holds_file_def fits_def
        Let_def split: option.splits)
next
  case (Some l0)
  let ?cur = "il_metadata l0"
  show ?thesis
  proof (cases "im_file_id meta = im_file_id ?cur")
    case False
    with assms Some show ?thesis
      by (auto simp: update_for_def change_set_of_def updated_list_def apply_update_def holds_file_def fits_def
          update_metadata_def Let_def split: option.splits)
  next
    case same: True
    with assms(1) Some have ct: "\<not> im_creation_time ?cur < im_creation_time meta" and m: "mirrors file l0" and sz: "im_size meta = length file"
      by (auto simp: fits_def)
    show ?thesis
    proof (cases "im_size ?cur < im_size meta")
      case True
      with assms(2,3) Some same ct obtain ids where ids:
          "apply_changes (str_lines (drop (im_size ?cur) file)) (il_ids l0) = Some ids"
          "l = \<lparr>il_metadata = ?cur\<lparr>im_size := im_size ?cur + (length file - im_size ?cur)\<rparr>, il_ids = ids\<rparr>"
        by (auto simp: update_for_def change_set_of_def updated_list_def apply_update_def Let_def split: option.splits)
      have "im_size ?cur \<le> length file" using m by (simp add: mirrors_def)
      then show ?thesis using mirrors_extended [OF m ids(1)] ids(2) by (simp add: holds_file_def)
    next
      case False
      with assms(2,3) Some same ct have "l = l0"
        by (simp add: update_for_def change_set_of_def updated_list_def apply_update_def Let_def)
      moreover have "im_size ?cur = length file" using False m sz by (simp add: mirrors_def)
      ultimately show ?thesis using m by (simp add: holds_file_def mirrors_def)
    qed
  qed
qed

section \<open>What a synchronisation downloads\<close>

text \<open>The range a request asks for, as either kind of server reads it.\<close>

definition requested_range :: "request_args \<Rightarrow> string option" where
  "requested_range args =
     (case Option.bind (ra_query_params args) (\<lambda>q. hm_get q ''range'') of
        Some t \<Rightarrow> Some t
      | None \<Rightarrow> map_option (drop (length ''bytes='')) (Option.bind (ra_headers args) (\<lambda>h. hm_get h ''Range'')))"

text \<open>The server has files and honours ranges whenever it answers at all.\<close>

definition serves_files :: "'w net \<Rightarrow> (string \<Rightarrow> string) \<Rightarrow> bool" where
  "serves_files N files \<longleftrightarrow>
     (\<forall>args w n d. requested_range args = Some (nat_to_string n @ ''-'') \<and>
        is_success_status (hr_status_code (fst (nt_send N GET args w))) \<and> hr_data (fst (nt_send N GET args w)) = Some d \<longrightarrow>
        rd_bytes d = drop n (files (ra_url args)))"

definition plain_headers :: "network_client \<Rightarrow> bool" where
  "plain_headers c \<longleftrightarrow> hm_wf (nc_headers c) \<and> hm_get (nc_headers c) ''Range'' = None"

lemma download_range: "requested_range (build_id_list_download_request_args a url start sz fid) = Some (nat_to_string start @ ''-'')"
  by (simp add: build_id_list_download_request_args_def requested_range_def request_args_new_def hm_get_Cons Let_def)

lemma prepared_range:
  assumes "prepare_request N c args w = (args1, w1)" "plain_headers c"
  shows "requested_range args1 = requested_range args" "ra_url args1 = ra_url args"
  using prepare_request_keeps [OF assms(1)] prepare_request_own_header [OF assms(1), of "''Range''"] assms(2)
  by (simp_all add: requested_range_def plain_headers_def split: option.splits)

lemma download_is_tail:
  assumes "fetch_individual_id_list_changes_from_network x N T a url start sz fid w = (Inr body, es, w')"
    and "serves_files N files" "plain_headers (ia_network a)"
  shows "body = drop start (files (get_override_id_list_download_url a url))"
proof -
  let ?args = "build_id_list_download_request_args a url start sz fid"
  from assms(1) obtain resp fs w1 d where g: "make_request x N (ia_network a) GET ?args w = (Inr resp, fs, w1)"
      and d: "hr_data resp = Some d" "body = rd_bytes d"
    by (auto simp: fetch_individual_id_list_changes_from_network_def client_get_def read_id_list_body_def read_to_string_def
        Let_def split: prod.splits sum.splits option.splits if_splits)
  obtain args1 w2 v where p: "prepare_request N (ia_network a) ?args w = (args1, w2)" "resp = fst (nt_send N GET args1 v)"
      "is_success_status (hr_status_code resp)"
    using make_request_response [OF g] by blast
  note r = prepared_range [OF p(1) assms(3)]
  have "rd_bytes d = drop start (files (ra_url args1))"
    using assms(2) d(1) p(2,3) r(1) download_range [of a url start sz fid] unfolding serves_files_def by metis
  moreover have "ra_url ?args = get_override_id_list_download_url a url"
    by (simp add: build_id_list_download_request_args_def Let_def)
  ultimately show ?thesis using r(2) d(2) by simp
qed

lemma fetch_updates_get:
  assumes "fetch_updates x N T a changes us k w = ((Inr us', es, w'), m)" "hm_wf changes" "hm_wf us"
    and "serves_files N files" "plain_headers (ia_network a)"
  shows "hm_wf us' \<and> hm_get us' n =
    (case hm_get changes n of
       None \<Rightarrow> hm_get us n
     | Some ch \<Rightarrow> Some \<lparr>iu_raw_changeset = (if ic_requires_download ch
          then Some (drop (ic_range_start ch) (files (get_override_id_list_download_url a (im_url (ic_new_metadata ch))))) else None),
          iu_new_metadata = ic_new_metadata ch\<rparr>)"
  using assms(1-3)
proof (induction changes arbitrary: us k w es w' m)
  case (Cons p changes)
  obtain nm ch where p: "p = (nm, ch)" by force
  have wf: "hm_wf changes" "hm_get changes nm = None"
    using Cons.prems(2) by (auto simp: p hm_wf_def hm_get_def map_of_eq_None_iff)
  show ?case
  proof (cases "ic_requires_download ch")
    case False
    with Cons.prems(1) have "fetch_updates x N T a changes
        (hm_insert nm \<lparr>iu_raw_changeset = None, iu_new_metadata = ic_new_metadata ch\<rparr> us) k w = ((Inr us', es, w'), m)"
      by (simp add: p Let_def)
    from Cons.IH [OF this wf(1)] Cons.prems(3) wf(2) False show ?thesis
      by (auto simp: p hm_get_Cons split: option.splits)
  next
    case True
    obtain r es1 w1 where f: "fetch_individual_id_list_changes_from_network x N T a (im_url (ic_new_metadata ch)) (ic_range_start ch)
        (im_size (ic_new_metadata ch)) (im_file_id (ic_new_metadata ch)) w = (r, es1, w1)"
      using prod_cases3 by blast
    with True Cons.prems(1) obtain raw where raw: "r = Inr raw" by (cases r) (simp_all add: p Let_def)
    obtain r2 es2 w2 m2 where rest: "fetch_updates x N T a changes
        (hm_insert nm \<lparr>iu_raw_changeset = Some raw, iu_new_metadata = ic_new_metadata ch\<rparr> us) (k + 1) w1 = ((r2, es2, w2), m2)"
      by (metis prod.collapse)
    with True Cons.prems(1) f raw have "r2 = Inr us'" by (simp add: p Let_def)
    with rest Cons.IH [OF _ wf(1)] Cons.prems(3) wf(2) True download_is_tail [OF f [unfolded raw] assms(4,5)] show ?thesis
      by (auto simp: p hm_get_Cons split: option.splits)
  qed
qed simp

lemma plan_changes_extend: "plan_changes cur_man man = hm_extend (map (\<lambda>(n, e). (n, change_set_of cur_man n e)) man) []"
proof -
  have "foldl (\<lambda>changes (n, e). hm_insert n (change_set_of cur_man n e) changes) m man =
      foldl (\<lambda>acc kv. hm_insert (fst kv) (snd kv) acc) m (map (\<lambda>(n, e). (n, change_set_of cur_man n e)) man)" for m
    by (induction man arbitrary: m) auto
  then show ?thesis by (simp add: plan_changes_def hm_extend_def)
qed

lemma plan_changes_get:
  assumes "hm_wf man"
  shows "hm_get (plan_changes cur_man man) n = map_option (change_set_of cur_man n) (hm_get man n)" "hm_wf (plan_changes cur_man man)"
proof -
  let ?m = "map (\<lambda>(n, e). (n, change_set_of cur_man n e)) man"
  have keys: "map fst ?m = map fst man" by (induction man) auto
  have "hm_get ?m n = map_option (change_set_of cur_man n) (hm_get man n)" by (induction man) (auto simp: hm_get_Cons)
  moreover have "hm_wf ?m" using keys assms by (simp only: hm_wf_def)
  ultimately show "hm_get (plan_changes cur_man man) n = map_option (change_set_of cur_man n) (hm_get man n)"
    by (simp add: plan_changes_extend hm_get_extend split: option.splits)
  show "hm_wf (plan_changes cur_man man)" by (simp add: plan_changes_extend hm_wf_extend)
qed

lemma update_lists_defined:
  assumes "update_lists us ls = Some ls'" "hm_get us n \<noteq> None \<or> hm_get ls n \<noteq> None"
  shows "hm_get ls' n \<noteq> None"
  using assms
proof (induction us arbitrary: ls)
  case (Cons p us)
  obtain k u where p: "p = (k, u)" by force
  from Cons.prems(1) obtain ls1 where u1: "update_one_list k u ls = Some ls1" "update_lists us ls1 = Some ls'"
    by (auto simp: p bind_eq_Some_conv)
  have "hm_get us n \<noteq> None \<or> hm_get ls1 n \<noteq> None"
    using Cons.prems(2) u1(1) by (auto simp: p hm_get_Cons update_one_list_def split: if_splits option.splits)
  with Cons.IH [OF u1(2)] show ?case by blast
qed simp

lemma current_metadata_get:
  "hm_get (get_current_id_list_metadata True st) n = map_option il_metadata (hm_get (sd_id_lists (ss_data st)) n)"
proof -
  have "hm_get (map (\<lambda>(k, l). (k, il_metadata l)) ls) n = map_option il_metadata (hm_get ls n)" for ls
    by (induction ls) (auto simp: hm_get_Cons)
  then show ?thesis by (simp add: get_current_id_list_metadata_def)
qed

lemma sync_id_lists_cases:
  assumes "sync_id_lists x N T K a st w = (r, es, st', w')"
    and "fetch_id_list_manifests_from_network x N T a (snd (nt_now N w)) = (fetched, fs, w1)"
  shows "(\<exists>e. r = Inl e) \<and> st' = Some st \<or>
    (\<exists>man cur_man us v gs v' n. fetched = Inr man \<and> r = Inr () \<and> adapter_current_metadata K a st = Inr cur_man \<and>
       fetch_updates x N T a (plan_changes cur_man man) [] 0 v = ((Inr us, gs, v'), n) \<and>
       yl_updates K \<and> ia_listener a \<and> st' = did_receive_id_list_updates (yl_store_updates K) us st)"
proof -
  obtain t0 w0 where now: "nt_now N w = (t0, w0)" by force
  show ?thesis
  proof (cases fetched)
    case (Inl e)
    with assms now show ?thesis by (auto simp: sync_id_lists_def Let_def split: prod.splits)
  next
    case man: (Inr man)
    show ?thesis
    proof (cases "adapter_current_metadata K a st")
      case (Inl e)
      with assms now man show ?thesis by (auto simp: sync_id_lists_def Let_def split: prod.splits)
    next
      case cur: (Inr cm)
      obtain ss w2 where start: "add_diagnostics_start_marker N KeyGetIDListSources StepProcess (Some (length man)) None w1 = (ss, w2)"
        by force
      obtain ru gs w3 n where f: "fetch_updates x N T a (plan_changes cm man) [] 0 w2 = ((ru, gs, w3), n)" by (metis prod.collapse)
      show ?thesis
      proof (cases ru)
        case (Inl e)
        with assms now man cur start f show ?thesis by (auto simp: sync_id_lists_def Let_def split: prod.splits)
      next
        case (Inr us)
        obtain r1 ds st1 where d: "deliver_updates x K a us st = (r1, ds, st1)" using prod_cases3 by blast
        with assms now man cur start f Inr have "r = r1" "st' = st1" by (auto simp: sync_id_lists_def Let_def split: prod.splits)
        with d have "(\<exists>e. r = Inl e) \<and> st' = Some st \<or>
            r = Inr () \<and> yl_updates K \<and> ia_listener a \<and> st' = did_receive_id_list_updates (yl_store_updates K) us st"
          by (auto simp: deliver_updates_def Let_def split: if_splits)
        then show ?thesis using man cur f Inr by blast
      qed
    qed
  qed
qed

section \<open>Properties\<close>

text \<open>
  C35: A synchronisation leaves the store with the server's lists, or as it was. When it fails, for whatever reason,
  no list has changed. When it succeeds, with the store's locks obtained, the store has exactly the lists the
  manifest names, and each holds the file the server has for it, although of a file that grew only the new part was
  downloaded. This is for a server that honours ranges and a manifest that fits the store: a list's file grew by
  whole lines, or one that is not older replaced it under another file id.
\<close>

theorem sync_mirrors_server:
  assumes "sync_id_lists x N T K a st w = (r, es, Some st', w')"
    and "fetch_id_list_manifests_from_network x N T a (snd (nt_now N w)) = (fetched, fs, w1)"
    and "serves_files N files" "plain_headers (ia_network a)" "yl_store_metadata K" "yl_store_updates K"
    and "\<And>man. fetched = Inr man \<Longrightarrow> hm_wf man"
    and "\<And>man n meta. fetched = Inr man \<Longrightarrow> hm_get man n = Some meta \<Longrightarrow>
      fits (files (get_override_id_list_download_url a (im_url meta))) meta (hm_get (sd_id_lists (ss_data st)) n)"
  shows "(\<exists>e. r = Inl e) \<and> st' = st \<or>
    (\<exists>man. fetched = Inr man \<and> r = Inr () \<and>
      (\<forall>n. case hm_get man n of
             None \<Rightarrow> hm_get (sd_id_lists (ss_data st')) n = None
           | Some meta \<Rightarrow> \<exists>l. hm_get (sd_id_lists (ss_data st')) n = Some l \<and>
               holds_file (files (get_override_id_list_download_url a (im_url meta))) l))"
  using sync_id_lists_cases [OF assms(1,2)]
proof
  assume "(\<exists>e. r = Inl e) \<and> Some st' = Some st"
  then show ?thesis by simp
next
  assume "\<exists>man cur_man us v gs v' n. fetched = Inr man \<and> r = Inr () \<and> adapter_current_metadata K a st = Inr cur_man \<and>
       fetch_updates x N T a (plan_changes cur_man man) [] 0 v = ((Inr us, gs, v'), n) \<and>
       yl_updates K \<and> ia_listener a \<and> Some st' = did_receive_id_list_updates (yl_store_updates K) us st"
  then obtain man cur_man us v gs v' m where man: "fetched = Inr man" and r: "r = Inr ()" and cur: "adapter_current_metadata K a st = Inr cur_man"
      and f: "fetch_updates x N T a (plan_changes cur_man man) [] 0 v = ((Inr us, gs, v'), m)"
      and st': "did_receive_id_list_updates True us st = Some st'"
    using assms(6) by auto
  note wf = assms(7) [OF man]
  have cm: "hm_get cur_man n = map_option il_metadata (hm_get (sd_id_lists (ss_data st)) n)" for n
    using cur assms(5) current_metadata_get [of st n] by (auto simp: adapter_current_metadata_def split: if_splits)
  have us: "hm_wf us" "hm_get us n = map_option (\<lambda>meta. update_for cur_man
      (files (get_override_id_list_download_url a (im_url meta))) n meta) (hm_get man n)" for n
    using fetch_updates_get [OF f plan_changes_get(2) [OF wf] hm_wf_Nil assms(3,4), of n] plan_changes_get(1) [OF wf, of cur_man n]
    by (auto simp: update_for_def change_set_of_def Let_def split: option.splits prod.splits)
  have lists: "hm_get (sd_id_lists (ss_data st')) n =
      (case hm_get us n of None \<Rightarrow> None | Some u \<Rightarrow> updated_list u (hm_get (sd_id_lists (ss_data st)) n))" for n
    using id_lists_follow_manifest [OF st' us(1), of n] by (simp add: updated_list_def split: option.splits)
  have "case hm_get man n of
             None \<Rightarrow> hm_get (sd_id_lists (ss_data st')) n = None
           | Some meta \<Rightarrow> \<exists>l. hm_get (sd_id_lists (ss_data st')) n = Some l \<and>
               holds_file (files (get_override_id_list_download_url a (im_url meta))) l" for n
  proof (cases "hm_get man n")
    case None
    then show ?thesis by (simp add: lists us)
  next
    case (Some meta)
    let ?file = "files (get_override_id_list_download_url a (im_url meta))"
    have "hm_get (sd_id_lists (ss_data st')) n \<noteq> None"
      using st' us(2) [of n] Some
      by (auto simp: did_receive_id_list_updates_def dest!: update_lists_defined [where n = n])
    then obtain l where l: "hm_get (sd_id_lists (ss_data st')) n = Some l" by blast
    then have "updated_list (update_for cur_man ?file n meta) (hm_get (sd_id_lists (ss_data st)) n) = Some l"
      by (simp add: lists us Some)
    from update_for_holds_file [OF assms(8) [OF man Some] cm this] show ?thesis using l Some by simp
  qed
  then show ?thesis using man r by blast
qed

text \<open>A server with one file, and a manifest that names it.\<close>

definition range_start_of :: "request_args \<Rightarrow> nat" where
  "range_start_of args = (case requested_range args of Some t \<Rightarrow> opt_default 0 (digits_val 0 (butlast t)) | None \<Rightarrow> 0)"

definition file_server :: "string \<Rightarrow> unit net" where
  "file_server file = \<lparr>nt_send = (\<lambda>kind args w.
       (\<lparr>hr_status_code = Some 200, hr_data = Some (from_bytes (drop (range_start_of args) file)), hr_error = None\<rparr>, w)),
     nt_provider = (\<lambda>_. True), nt_flag = (\<lambda>_ _. False), nt_set_flag = (\<lambda>_ w. w), nt_now = (\<lambda>w. (0, w)),
     nt_sleep = (\<lambda>_ w. w), nt_read_file = (\<lambda>_. None)\<rparr>"

definition sample_file :: string where
  "sample_file = ''+a'' @ [NL]"

definition sample_meta :: id_list_metadata where
  "sample_meta = \<lparr>im_name = ''l'', im_url = ''https://h/f'', im_file_id = Some ''f'', im_size = 3, im_creation_time = 1\<rparr>"

definition sample_texts :: sync_texts where
  "sample_texts = \<lparr>sy_parse_manifest = (\<lambda>_. Inr [(''l'', sample_meta)]), sy_utf8_error = id, sy_err_debug = (\<lambda>_. [])\<rparr>"

definition sample_adapter :: id_lists_adapter where
  "sample_adapter = (id_lists_adapter_new (file_server sample_file) (statsig_metadata_new []) 0 ''secret-k'' options_default ())
     \<lparr>ia_listener := True\<rparr>"

definition sync_locks_ok :: sync_locks where
  "sync_locks_ok = \<lparr>yl_metadata = True, yl_store_metadata = True, yl_updates = True, yl_store_updates = True\<rparr>"

lemma file_server_serves: "serves_files (file_server file) (\<lambda>_. file)"
  by (auto simp: serves_files_def file_server_def range_start_of_def from_bytes_def digits_val_nat_to_string opt_default_def)

lemma sample_adapter_facts:
  "plain_headers (ia_network sample_adapter)" "\<not> nc_disable_network (ia_network sample_adapter)"
  "ia_download_id_list_file_api sample_adapter = None" "ia_listener sample_adapter"
  by (simp_all add: sample_adapter_def id_lists_adapter_new_def network_client_new_def options_default_def plain_headers_def
      get_constant_request_headers_def opt_default_def hm_wf_def hm_get_Cons Let_def)

lemma file_server_answers:
  assumes "\<not> nc_disable_network c"
  shows "\<exists>trace. make_request x (file_server file) c kind args w = (Inr \<lparr>hr_status_code = Some 200,
     hr_data = Some (from_bytes (drop (range_start_of (fst (prepare_request (file_server file) c args w))) file)), hr_error = None\<rparr>, trace, w)"
  using assms by (intro request_answered [where t = 0]) (simp_all add: file_server_def)

lemma sample_manifest:
  "\<exists>es. fetch_id_list_manifests_from_network x (file_server file) sample_texts sample_adapter w = (Inr [(''l'', sample_meta)], es, w)"
proof -
  let ?N = "file_server file" and ?args = "build_manifest_request_args sample_adapter"
  obtain es1 where "client_get x ?N (ia_network sample_adapter) ?args w = (Inr \<lparr>hr_status_code = Some 200, hr_data = Some (from_bytes
      (drop (range_start_of (fst (prepare_request ?N (ia_network sample_adapter) ?args w))) file)), hr_error = None\<rparr>, es1, w)"
    using file_server_answers [OF sample_adapter_facts(2)] unfolding client_get_def by blast
  moreover have "is_cdn_url sample_adapter"
    by (simp add: is_cdn_url_def sample_adapter_def id_lists_adapter_new_def id_lists_default_cdn_url_def options_default_def
        str_starts_with_def Let_def)
  ultimately show ?thesis
    by (simp add: fetch_id_list_manifests_from_network_def parse_response_def sample_texts_def Let_def)
qed

lemma utf8_valid_ascii: "is_ascii s \<Longrightarrow> utf8_valid s"
proof (induction s)
  case (Cons c s)
  then show ?case by (subst utf8_valid.simps) (simp add: is_ascii_def)
qed (simp add: utf8_valid.simps)

lemma sample_download:
  assumes "is_ascii file"
  shows "\<exists>es. fetch_individual_id_list_changes_from_network x (file_server file) sample_texts sample_adapter url 0 sz fid w = (Inr file, es, w)"
proof -
  let ?N = "file_server file" and ?args = "build_id_list_download_request_args sample_adapter url 0 sz fid"
  obtain args1 w1 where prep: "prepare_request ?N (ia_network sample_adapter) ?args w = (args1, w1)" by (metis surj_pair)
  have "range_start_of args1 = 0"
    using prepared_range(1) [OF prep sample_adapter_facts(1)] download_range [of sample_adapter url 0 sz fid]
    by (simp add: range_start_of_def digits_val_nat_to_string opt_default_def)
  moreover obtain es1 where "client_get x ?N (ia_network sample_adapter) ?args w = (Inr \<lparr>hr_status_code = Some 200, hr_data = Some (from_bytes
      (drop (range_start_of args1) file)), hr_error = None\<rparr>, es1, w)"
    using file_server_answers [OF sample_adapter_facts(2)] prep unfolding client_get_def by (metis fst_conv)
  moreover have "nt_now ?N v = (0, v)" for v by (simp add: file_server_def)
  ultimately show ?thesis
    using utf8_valid_ascii [OF assms]
    by (simp add: fetch_individual_id_list_changes_from_network_def read_id_list_body_def read_to_string_def from_bytes_def
        add_diagnostics_start_marker_def add_diagnostics_end_marker_def Let_def)
qed

lemma sample_list: "apply_update \<lparr>iu_raw_changeset = Some sample_file, iu_new_metadata = sample_meta\<rparr> (id_list_new sample_meta)
   = Some \<lparr>il_metadata = sample_meta, il_ids = {''a''}\<rparr>"
proof -
  have "str_lines sample_file = [''+a'']" by code_simp
  moreover have "apply_change ''+a'' {} = Some {''a''}"
    by (simp add: apply_change_def str_trim_graphic graphic_def byte_def)
  ultimately show ?thesis
    by (simp add: apply_update_def id_list_new_def sample_meta_def sample_file_def Let_def)
qed

lemma sample_sync:
  "\<exists>es st'. sync_id_lists sample_ext (file_server sample_file) sample_texts sync_locks_ok sample_adapter (ss_new [] False gc_new) ()
     = (Inr (), es, Some st', ())"
proof -
  let ?N = "file_server sample_file"
  have "is_ascii sample_file" by (simp add: is_ascii_def sample_file_def)
  from sample_download [OF this] obtain ds where d: "fetch_individual_id_list_changes_from_network sample_ext ?N sample_texts sample_adapter
      ''https://h/f'' 0 3 (Some ''f'') () = (Inr sample_file, ds, ())" by blast
  obtain es where m: "fetch_id_list_manifests_from_network sample_ext ?N sample_texts sample_adapter () = (Inr [(''l'', sample_meta)], es, ())"
    using sample_manifest by blast
  have plan: "plan_changes (get_current_id_list_metadata True (ss_new [] False gc_new)) [(''l'', sample_meta)]
      = [(''l'', \<lparr>ic_new_metadata = sample_meta, ic_requires_download = True, ic_range_start = 0\<rparr>)]"
    by (simp add: plan_changes_def get_current_id_list_metadata_def ss_new_def change_set_of_def hm_insert_def)
  have "\<exists>st'. did_receive_id_list_updates True [(''l'', \<lparr>iu_raw_changeset = Some sample_file, iu_new_metadata = sample_meta\<rparr>)]
      (ss_new [] False gc_new) = Some st'"
    by (simp add: did_receive_id_list_updates_def ss_new_def update_one_list_def sample_list)
  moreover have "fetch_updates sample_ext ?N sample_texts sample_adapter
      [(''l'', \<lparr>ic_new_metadata = sample_meta, ic_requires_download = True, ic_range_start = 0\<rparr>)] [] 0 ()
      = ((Inr [(''l'', \<lparr>iu_raw_changeset = Some sample_file, iu_new_metadata = sample_meta\<rparr>)], ds, ()), 1)"
    using d by (simp add: sample_meta_def hm_insert_def)
  moreover have "adapter_current_metadata sync_locks_ok sample_adapter (ss_new [] False gc_new)
      = Inr (get_current_id_list_metadata True (ss_new [] False gc_new))"
    by (simp add: adapter_current_metadata_def sync_locks_ok_def sample_adapter_facts(4))
  ultimately show ?thesis
    by (simp add: sync_id_lists_def m plan deliver_updates_def sample_adapter_facts(4) sync_locks_ok_def Let_def split_def)
qed

theorem sync_mirrors_server_witness:
  "\<exists>es st' l. sync_id_lists sample_ext (file_server sample_file) sample_texts sync_locks_ok sample_adapter (ss_new [] False gc_new) ()
     = (Inr (), es, Some st', ()) \<and> hm_get (sd_id_lists (ss_data st')) ''l'' = Some l \<and> holds_file sample_file l"
proof -
  let ?N = "file_server sample_file" and ?st = "ss_new [] False gc_new"
  obtain es st' where s: "sync_id_lists sample_ext ?N sample_texts sync_locks_ok sample_adapter ?st () = (Inr (), es, Some st', ())"
    using sample_sync by blast
  obtain fs where m: "fetch_id_list_manifests_from_network sample_ext ?N sample_texts sample_adapter (snd (nt_now ?N ()))
      = (Inr [(''l'', sample_meta)], fs, ())"
    using sample_manifest by (metis old.unit.exhaust)
  have "(\<exists>e. (Inr () :: statsig_err + unit) = Inl e) \<and> st' = ?st \<or>
    (\<exists>man. (Inr [(''l'', sample_meta)] :: statsig_err + _) = Inr man \<and> (Inr () :: statsig_err + unit) = Inr () \<and>
      (\<forall>n. case hm_get man n of
             None \<Rightarrow> hm_get (sd_id_lists (ss_data st')) n = None
           | Some meta \<Rightarrow> \<exists>l. hm_get (sd_id_lists (ss_data st')) n = Some l \<and> holds_file sample_file l))"
  proof (rule sync_mirrors_server [OF s m file_server_serves])
    show "fits sample_file meta (hm_get (sd_id_lists (ss_data ?st)) n)"
      if "(Inr [(''l'', sample_meta)] :: statsig_err + _) = Inr man" "hm_get man n = Some meta" for man n meta
      using that by (auto simp: fits_def ss_new_def hm_get_Cons sample_meta_def sample_file_def split: if_splits)
  qed (auto simp: sample_adapter_facts sync_locks_ok_def hm_wf_def)
  then show ?thesis using s by (auto simp: hm_get_Cons split: option.splits if_splits)
qed

text \<open>
  A file whose creation time advances under the same file id is downloaded from its start, but not started over: the
  list's size doubles, its creation time stays, and the next synchronisation downloads the file again.
\<close>

theorem touched_file_downloaded_again:
  assumes "holds_file file l" "im_file_id meta = im_file_id (il_metadata l)" "im_creation_time (il_metadata l) < im_creation_time meta"
    and "hm_get cur_man n = Some (il_metadata l)" "updated_list (update_for cur_man file n meta) (Some l) = Some l'"
  shows "im_size (il_metadata l') = 2 * length file \<and> im_creation_time (il_metadata l') = im_creation_time (il_metadata l) \<and>
    ic_requires_download (change_set_of [(n, il_metadata l')] n meta)"
proof -
  have "change_set_of cur_man n meta = \<lparr>ic_new_metadata = meta, ic_requires_download = True, ic_range_start = 0\<rparr>"
    using assms(3,4) by (simp add: change_set_of_def)
  then have u: "update_for cur_man file n meta = \<lparr>iu_raw_changeset = Some file, iu_new_metadata = meta\<rparr>"
    by (simp add: update_for_def)
  obtain ids where "l' = \<lparr>il_metadata = (il_metadata l)\<lparr>im_size := im_size (il_metadata l) + length file\<rparr>, il_ids = ids\<rparr>"
    using assms(2,5) by (auto simp: u updated_list_def apply_update_def Let_def split: option.splits)
  then show ?thesis using assms(1-3) by (simp add: holds_file_def change_set_of_def hm_get_Cons)
qed

end
