(* ===== verification/Http_Specs.thy ===== *)
theory Http_Specs
  imports Network_Client
begin

text \<open>
  The adapter that downloads the configuration, \<open>src/statsig-rust/src/specs_adapter/statsig_http_specs_adapter.rs\<close>,
  with the format of a response, \<open>response_format.rs\<close>, and the metric of a synchronisation,
  \<open>config_spec_background_sync_metrics.rs\<close>.

  The listener is a record of the two operations of the trait \<open>SpecsUpdateListener\<close> on a state of any type. The locale
  \<open>monotone_listener\<close> states what the spec store promises as a listener; it is interpreted on the store's own update.
  The atomic counters of the adapter are fields of its state. Percent encoding, the texts of errors and the reader of
  the short form of a response are parameters.
\<close>

section \<open>Listeners\<close>

record 'l specs_listener =
  sl_receive :: "specs_update \<Rightarrow> 'l \<Rightarrow> (statsig_err + unit) \<times> 'l"
  sl_info :: "'l \<Rightarrow> specs_info"

text \<open>
  The spec store as a listener: the state counts the calls, so that the locks and clocks of each call may differ, and
  collects the effects.
\<close>

type_synonym store_state = "nat \<times> spec_store \<times> store_effect list"

definition store_listener :: "spec_parsers \<Rightarrow> (nat \<Rightarrow> update_env) \<Rightarrow> (nat \<Rightarrow> bool) \<Rightarrow> store_state specs_listener" where
  "store_listener P E info_ok =
     \<lparr>sl_receive = (\<lambda>u (n, st, effects).
        (case set_values P (E n) u st of (r, es, st1) \<Rightarrow> (r, (n + 1, st1, effects @ es)))),
      sl_info = (\<lambda>(n, st, _). get_current_specs_info (info_ok n) st)\<rparr>"

section \<open>Formats and metrics\<close>

datatype specs_response_format = RespJson | RespPlainText | RespProtobuf | RespUnknown

fun specs_response_format_str :: "specs_response_format \<Rightarrow> string" where
  "specs_response_format_str RespJson = ''json''"
| "specs_response_format_str RespPlainText = ''plain_text''"
| "specs_response_format_str RespProtobuf = ''protobuf''"
| "specs_response_format_str RespUnknown = ''unknown''"

definition is_response_protobuf :: "response_data \<Rightarrow> bool" where
  "is_response_protobuf d \<longleftrightarrow>
     map_option (\<lambda>s. str_contains s ''application/octet-stream'') (get_header_ref d ''content-type'') = Some True \<and>
     map_option (\<lambda>s. str_contains s ''statsig-br'') (get_header_ref d ''content-encoding'') = Some True"

definition get_specs_response_format :: "response_data \<Rightarrow> specs_response_format" where
  "get_specs_response_format d =
     (if is_response_protobuf d then RespProtobuf
      else
        (case get_header_ref d ''content-type'' of
           None \<Rightarrow> RespUnknown
         | Some ct \<Rightarrow>
             (let content_type = map ascii_lower_char ct
              in if str_contains content_type ''application/json'' \<or> str_contains content_type ''+json'' then RespJson
                 else if str_contains content_type ''text/plain'' then RespPlainText else RespUnknown)))"

definition log_config_sync_overall_latency ::
    "u64 \<Rightarrow> u64 \<Rightarrow> string \<Rightarrow> string \<Rightarrow> bool \<Rightarrow> bool \<Rightarrow> string \<Rightarrow> bool \<Rightarrow> net_effect" where
  "log_config_sync_overall_latency now sync_start_ms source_api response_format network_success process_success error deltas_used =
     NetStat (observability_new_event MetricDist ''config_sync_overall.latency'' (nat_to_f64 (unat now - unat sync_start_ms))
       (Some [(''source_api'', if source_api = ''datastore'' then source_api else get_api_from_url source_api),
              (''format'', response_format), (''error'', error), (''network_success'', bool_to_string network_success),
              (''process_success'', bool_to_string process_success), (''deltas_used'', bool_to_string deltas_used)]))"

section \<open>The adapter\<close>

abbreviation DEFAULT_SPECS_URL :: string where "DEFAULT_SPECS_URL \<equiv> ''https://api.statsigcdn.com/v2/download_config_specs''"
abbreviation DEFAULT_SYNC_INTERVAL_MS :: u32 where "DEFAULT_SYNC_INTERVAL_MS \<equiv> 10000"
abbreviation STATSIG_NETWORK_FALLBACK_THRESHOLD :: u32 where "STATSIG_NETWORK_FALLBACK_THRESHOLD \<equiv> 5"
abbreviation DEFAULT_DCS_DELTA_NO_PROGRESS_THRESHOLD :: u32 where "DEFAULT_DCS_DELTA_NO_PROGRESS_THRESHOLD \<equiv> 10"
abbreviation MIN_FORCED_FULL_RESYNC_INTERVAL_MS :: u64 where "MIN_FORCED_FULL_RESYNC_INTERVAL_MS \<equiv> 300000"
abbreviation DEFAULT_INIT_TIMEOUT_MS :: u64 where "DEFAULT_INIT_TIMEOUT_MS \<equiv> 3000"
abbreviation HTTP_SPECS_TAG :: string where "HTTP_SPECS_TAG \<equiv> ''StatsigHttpSpecsAdapter''"

record http_specs_adapter =
  ha_listener :: bool
  ha_network :: network_client
  ha_sdk_key :: string
  ha_specs_url :: string
  ha_fallback_url :: "string option"
  ha_init_timeout_ms :: u64
  ha_sync_interval_duration :: u32
  ha_allow_dcs_deltas :: bool
  ha_use_deltas_next_request :: bool
  ha_background_sync_failure_count :: u32
  ha_delta_no_progress_count :: u32
  ha_delta_no_progress_threshold :: u32
  ha_last_forced_full_resync_at_ms :: u64

definition http_specs_adapter_new ::
    "'w net \<Rightarrow> statsig_metadata \<Rightarrow> nat \<Rightarrow> string \<Rightarrow> statsig_options option \<Rightarrow> string option \<Rightarrow> 'w \<Rightarrow> http_specs_adapter" where
  "http_specs_adapter_new N meta flag sdk_key options override_url w =
     (let opts = opt_default options_default options;
          specs_url = (case override_url of Some url \<Rightarrow> url | None \<Rightarrow> opt_default DEFAULT_SPECS_URL (so_specs_url opts));
          enable_dcs_deltas = opt_default False (so_enable_dcs_deltas opts)
      in \<lparr>ha_listener = False,
          ha_network = fst (network_client_new N flag sdk_key
            (Some (get_constant_request_headers meta sdk_key (so_service_name opts))) (Some opts) w),
          ha_sdk_key = sdk_key, ha_specs_url = specs_url,
          ha_fallback_url =
            (if opt_default False (so_fallback_to_statsig_api opts) \<and> specs_url \<noteq> DEFAULT_SPECS_URL then Some DEFAULT_SPECS_URL else None),
          ha_init_timeout_ms = opt_default DEFAULT_INIT_TIMEOUT_MS (so_init_timeout_ms opts),
          ha_sync_interval_duration = opt_default DEFAULT_SYNC_INTERVAL_MS (so_specs_sync_interval_ms opts),
          ha_allow_dcs_deltas = enable_dcs_deltas, ha_use_deltas_next_request = enable_dcs_deltas,
          ha_background_sync_failure_count = 0, ha_delta_no_progress_count = 0,
          ha_delta_no_progress_threshold =
            opt_default DEFAULT_DCS_DELTA_NO_PROGRESS_THRESHOLD (so_dcs_delta_no_progress_threshold opts),
          ha_last_forced_full_resync_at_ms = 0\<rparr>)"

datatype specs_sync_trigger = TriggerInitial | TriggerBackground | TriggerManual

record http_texts =
  ht_percent_encode :: "string \<Rightarrow> string"
  ht_err_text :: "statsig_err \<Rightarrow> string"
  ht_no_updates :: "string \<Rightarrow> statsig_err + bool"

record network_response =
  nr_data :: response_data
  nr_loggable_api :: string
  nr_requested_deltas :: bool

definition construct_specs_url :: "string \<Rightarrow> string \<Rightarrow> string" where
  "construct_specs_url spec_url sdk_key = spec_url @ ''/'' @ sdk_key @ ''.json''"

definition get_request_args :: "http_texts \<Rightarrow> http_specs_adapter \<Rightarrow> specs_info \<Rightarrow> specs_sync_trigger \<Rightarrow> request_args" where
  "get_request_args T a info trigger =
     (let params0 = [(''supports_proto'', ''true'')];
          params1 = (case in_lcut info of Some lcut \<Rightarrow> if 0 < lcut then hm_insert ''sinceTime'' (u64_to_string lcut) params0 else params0
                     | None \<Rightarrow> params0);
          params2 = (case in_checksum info of Some cs \<Rightarrow> hm_insert ''checksum'' (ht_percent_encode T cs) params1 | None \<Rightarrow> params1);
          use_deltas = ha_use_deltas_next_request a;
          params3 = (if use_deltas then hm_insert ''accept_deltas'' ''true'' params2 else params2)
      in request_args_new\<lparr>ra_url := construct_specs_url (ha_specs_url a) (ha_sdk_key a),
           ra_retries := (if trigger = TriggerBackground then 3 else 0),
           ra_query_params := Some params3, ra_deltas_enabled := use_deltas, ra_accept_gzip_response := True,
           ra_diagnostics_key := Some KeyDownloadConfigSpecs,
           ra_timeout_ms := (if trigger = TriggerInitial \<and> 0 < ha_init_timeout_ms a then ha_init_timeout_ms a else 0),
           ra_headers := Some [(''statsig-supports-proto'', ''true''), (''accept-encoding'', ''statsig-br, gzip, deflate, br'')]\<rparr>)"

type_synonym ('a, 'w) request_result = "(network_error + 'a) \<times> net_effect list \<times> 'w"

definition handle_specs_request ::
    "ext \<Rightarrow> 'w net \<Rightarrow> http_specs_adapter \<Rightarrow> request_args \<Rightarrow> 'w \<Rightarrow> (response_data, 'w) request_result" where
  "handle_specs_request x N a args w =
     (case client_get x N (ha_network a) args w of
        (Inl e, es, w1) \<Rightarrow> (Inl e, es, w1)
      | (Inr response, es, w1) \<Rightarrow>
          (case hr_data response of
             Some d \<Rightarrow> (Inr d, es, w1)
           | None \<Rightarrow> (Inl (NetRequestFailed (ra_url args) None (opt_default ''No data in response'' (hr_error response))), es, w1)))"

definition fetch_specs_from_network ::
    "ext \<Rightarrow> 'w net \<Rightarrow> http_texts \<Rightarrow> http_specs_adapter \<Rightarrow> specs_info \<Rightarrow> specs_sync_trigger \<Rightarrow> 'w \<Rightarrow> (network_response, 'w) request_result" where
  "fetch_specs_from_network x N T a info trigger w =
     (let args = get_request_args T a info trigger
      in case handle_specs_request x N a args w of
           (Inr d, es, w1) \<Rightarrow> (Inr \<lparr>nr_data = d, nr_loggable_api = get_api_from_url (ra_url args),
             nr_requested_deltas = ra_deltas_enabled args\<rparr>, es, w1)
         | (Inl e, es, w1) \<Rightarrow> (Inl e, es, w1))"

definition specs_fallback_request ::
    "ext \<Rightarrow> 'w net \<Rightarrow> http_specs_adapter \<Rightarrow> request_args \<Rightarrow> 'w \<Rightarrow> (network_response, 'w) request_result" where
  "specs_fallback_request x N a args w =
     (case ha_fallback_url a of
        None \<Rightarrow> (Inl (NetRequestFailed (ra_url args) None ''No fallback URL''), [], w)
      | Some url \<Rightarrow>
          (let fallback_url = construct_specs_url url (ha_sdk_key a)
           in case handle_specs_request x N a (args\<lparr>ra_url := fallback_url\<rparr>) w of
                (Inr d, es, w1) \<Rightarrow> (Inr \<lparr>nr_data = d, nr_loggable_api = get_api_from_url fallback_url,
                  nr_requested_deltas = ra_deltas_enabled args\<rparr>, es, w1)
              | (Inl e, es, w1) \<Rightarrow> (Inl e, es, w1)))"

definition should_attempt_fallback ::
    "specs_sync_trigger \<Rightarrow> (statsig_err + unit) \<Rightarrow> http_specs_adapter \<Rightarrow> bool \<times> http_specs_adapter" where
  "should_attempt_fallback trigger result a =
     (if \<not> isl result \<or> ha_fallback_url a = None then (False, a)
      else if trigger \<noteq> TriggerBackground then (True, a)
      else
        (let failure_count = ha_background_sync_failure_count a + 1
         in (failure_count mod STATSIG_NETWORK_FALLBACK_THRESHOLD = 0, a\<lparr>ha_background_sync_failure_count := failure_count\<rparr>)))"

definition read_current_specs_info :: "'l specs_listener \<Rightarrow> bool \<Rightarrow> http_specs_adapter \<Rightarrow> 'l \<Rightarrow> specs_info" where
  "read_current_specs_info L lock_ok a l =
     (if \<not> lock_ok then specs_info_error else if ha_listener a then sl_info L l else specs_info_empty)"

definition get_listener_lcut :: "'l specs_listener \<Rightarrow> bool \<Rightarrow> http_specs_adapter \<Rightarrow> 'l \<Rightarrow> u64 option" where
  "get_listener_lcut L lock_ok a l = in_lcut (read_current_specs_info L lock_ok a l)"

section \<open>Stalled deltas\<close>

fun lcut_advanced :: "u64 option \<Rightarrow> u64 option \<Rightarrow> bool" where
  "lcut_advanced _ None = False"
| "lcut_advanced None (Some _) = True"
| "lcut_advanced (Some pre) (Some post) = (pre < post)"

definition forced_resync_due :: "u32 \<Rightarrow> u32 \<Rightarrow> u64 \<Rightarrow> u64 \<Rightarrow> u64 \<Rightarrow> bool" where
  "forced_resync_due n threshold last_forced_at_ms now_ms min_interval_ms =
     (if n < threshold then False
      else if last_forced_at_ms = 0 \<or> now_ms < last_forced_at_ms then True
      else min_interval_ms \<le> now_ms - last_forced_at_ms)"

fun is_network_error :: "statsig_err + unit \<Rightarrow> bool" where
  "is_network_error (Inl (NetworkError _)) = True"
| "is_network_error _ = False"

text \<open>The LCUT of the listener after the sync and the time are arguments.\<close>

definition maybe_force_full_resync_on_stalled_deltas ::
    "specs_sync_trigger \<Rightarrow> u64 option \<Rightarrow> u64 option \<Rightarrow> bool \<Rightarrow> bool \<Rightarrow> (statsig_err + unit) \<Rightarrow> u64 \<Rightarrow>
     http_specs_adapter \<Rightarrow> http_specs_adapter" where
  "maybe_force_full_resync_on_stalled_deltas trigger pre_lcut post_lcut requested_deltas had_updates result now_ms a =
     (if trigger \<noteq> TriggerBackground \<or> \<not> ha_allow_dcs_deltas a \<or> ha_delta_no_progress_threshold a = 0 then a
      else if \<not> requested_deltas then (if isl result then a else a\<lparr>ha_delta_no_progress_count := 0\<rparr>)
      else if is_network_error result then a
      else if \<not> had_updates then a\<lparr>ha_delta_no_progress_count := 0\<rparr>
      else if \<not> isl result \<and> lcut_advanced pre_lcut post_lcut then a\<lparr>ha_delta_no_progress_count := 0\<rparr>
      else
        (let n = ha_delta_no_progress_count a + 1; a1 = a\<lparr>ha_delta_no_progress_count := n\<rparr>
         in if \<not> forced_resync_due n (ha_delta_no_progress_threshold a) (ha_last_forced_full_resync_at_ms a) now_ms
                  MIN_FORCED_FULL_RESYNC_INTERVAL_MS
            then a1
            else a1\<lparr>ha_use_deltas_next_request := False, ha_last_forced_full_resync_at_ms := now_ms,
                    ha_delta_no_progress_count := 0\<rparr>))"

section \<open>A synchronisation\<close>

record process_spec_data_outcome =
  po_result :: "statsig_err + unit"
  po_had_updates :: bool

definition carries_updates :: "http_texts \<Rightarrow> response_data \<Rightarrow> bool" where
  "carries_updates T d =
     (if get_specs_response_format d = RespProtobuf then True
      else (case ht_no_updates T (rd_bytes d) of Inr has_updates \<Rightarrow> has_updates | Inl _ \<Rightarrow> True))"

fun is_checksum_failure :: "statsig_err + unit \<Rightarrow> bool" where
  "is_checksum_failure (Inl (ChecksumFailure _)) = True"
| "is_checksum_failure _ = False"

text \<open>Whether deltas are asked for next, after the listener's answer.\<close>

definition deltas_after :: "(statsig_err + unit) \<Rightarrow> bool \<Rightarrow> http_specs_adapter \<Rightarrow> http_specs_adapter" where
  "deltas_after result requested_deltas a =
     (if is_checksum_failure result then a\<lparr>ha_use_deltas_next_request := False\<rparr>
      else if \<not> isl result \<and> \<not> requested_deltas \<and> ha_allow_dcs_deltas a then a\<lparr>ha_use_deltas_next_request := True\<rparr>
      else a)"

definition process_spec_data ::
    "ext \<Rightarrow> 'w net \<Rightarrow> http_texts \<Rightarrow> 'l specs_listener \<Rightarrow> bool \<Rightarrow> (network_error + network_response) \<Rightarrow>
     http_specs_adapter \<Rightarrow> 'l \<Rightarrow> 'w \<Rightarrow> process_spec_data_outcome \<times> net_effect list \<times> http_specs_adapter \<times> 'l \<times> 'w" where
  "process_spec_data x N T L lock_ok response a l w =
     (case response of
        Inl e \<Rightarrow> (\<lparr>po_result = Inl (NetworkError e), po_had_updates = False\<rparr>, [], a, l, w)
      | Inr resp \<Rightarrow>
          (let had_updates = carries_updates T (nr_data resp);
               (received_at, w1) = nt_now N w;
               update = \<lparr>up_data = nr_data resp, up_source = SrcNetwork, up_received_at = received_at,
                 up_source_api = Some (nr_loggable_api resp)\<rparr>;
               (t1, w2) = nt_now N w1;
               starts = [NetStat (ops_add_marker (marker_new t1 KeyDownloadConfigSpecs ActionStart (Some StepProcess)) None)];
               (result, errs, l1) =
                 (if lock_ok
                  then if ha_listener a
                       then (case sl_receive L update l of (r, l1) \<Rightarrow> (r, [], l1))
                       else (Inl (UnstartedAdapter ''Listener not set''), [], l)
                  else (let err = LockFailureError ''Failed to acquire read lock on listener''
                        in (Inl err, [NetStat (ops_log_error x HTTP_SPECS_TAG err)], l)));
               a1 = deltas_after result (nr_requested_deltas resp) a;
               (t2, w3) = nt_now N w2;
               ends = [NetStat (ops_add_marker ((marker_new t2 KeyDownloadConfigSpecs ActionEnd (Some StepProcess))
                  \<lparr>mk_success := Some (\<not> isl result)\<rparr>) None)]
           in (\<lparr>po_result = result, po_had_updates = had_updates\<rparr>, starts @ errs @ ends, a1, l1, w3)))"

text \<open>What is known of the network for the metric: the API, the format, whether it answered, whether deltas were asked for.\<close>

record sync_summary =
  su_source_api :: string
  su_response_format :: specs_response_format
  su_network_success :: bool
  su_deltas_used :: bool

definition summary_of :: "http_specs_adapter \<Rightarrow> (network_error + network_response) \<Rightarrow> sync_summary" where
  "summary_of a response =
     (case response of
        Inr r \<Rightarrow> \<lparr>su_source_api = nr_loggable_api r, su_response_format = get_specs_response_format (nr_data r),
          su_network_success = True, su_deltas_used = nr_requested_deltas r\<rparr>
      | Inl _ \<Rightarrow> \<lparr>su_source_api = get_api_from_url (construct_specs_url (ha_specs_url a) (ha_sdk_key a)),
          su_response_format = RespUnknown, su_network_success = False, su_deltas_used = ha_use_deltas_next_request a\<rparr>)"

definition summary_after_fallback ::
    "http_specs_adapter \<Rightarrow> request_args \<Rightarrow> (network_error + network_response) \<Rightarrow> sync_summary \<Rightarrow> sync_summary" where
  "summary_after_fallback a fallback_args response s =
     (case response of
        Inr r \<Rightarrow> \<lparr>su_source_api = nr_loggable_api r, su_response_format = get_specs_response_format (nr_data r),
          su_network_success = True, su_deltas_used = nr_requested_deltas r\<rparr>
      | Inl _ \<Rightarrow>
          s\<lparr>su_source_api := (case ha_fallback_url a of
                Some url \<Rightarrow> get_api_from_url (construct_specs_url url (ha_sdk_key a)) | None \<Rightarrow> su_source_api s),
            su_network_success := False, su_deltas_used := ra_deltas_enabled fallback_args\<rparr>)"

record http_locks =
  hl_check :: bool
  hl_process :: bool
  hl_fallback :: bool
  hl_lcut :: bool

text \<open>The second attempt, at the fallback URL, with the data of the first.\<close>

definition try_fallback ::
    "ext \<Rightarrow> 'w net \<Rightarrow> http_texts \<Rightarrow> 'l specs_listener \<Rightarrow> http_locks \<Rightarrow> specs_info \<Rightarrow> specs_sync_trigger \<Rightarrow>
     process_spec_data_outcome \<Rightarrow> sync_summary \<Rightarrow> http_specs_adapter \<Rightarrow> 'l \<Rightarrow> 'w \<Rightarrow>
     process_spec_data_outcome \<times> sync_summary \<times> net_effect list \<times> http_specs_adapter \<times> 'l \<times> 'w" where
  "try_fallback x N T L K info trigger outcome s a l w =
     (let (attempt_fallback, a1) = should_attempt_fallback trigger (po_result outcome) a
      in if \<not> attempt_fallback then (outcome, s, [], a1, l, w)
         else
           (let args = get_request_args T a1 info trigger;
                (response, es, w1) = specs_fallback_request x N a1 args w;
                (outcome2, fs, a2, l2, w2) = process_spec_data x N T L (hl_fallback K) response a1 l w1
            in (outcome2, summary_after_fallback a1 args response s, es @ fs, a2, l2, w2)))"

definition manually_sync_specs ::
    "ext \<Rightarrow> 'w net \<Rightarrow> http_texts \<Rightarrow> 'l specs_listener \<Rightarrow> http_locks \<Rightarrow> specs_info \<Rightarrow> specs_sync_trigger \<Rightarrow>
     http_specs_adapter \<Rightarrow> 'l \<Rightarrow> 'w \<Rightarrow> (statsig_err + unit) \<times> net_effect list \<times> http_specs_adapter \<times> 'l \<times> 'w" where
  "manually_sync_specs x N T L K info trigger a l w =
     (if hl_check K \<and> \<not> ha_listener a then (Inl (UnstartedAdapter ''Listener not set''), [], a, l, w)
      else
        (let (sync_start_ms, w0) = nt_now N w;
             (response, es1, w1) = fetch_specs_from_network x N T a info trigger w0;
             (outcome1, es2, a2, l2, w2) = process_spec_data x N T L (hl_process K) response a l w1;
             (outcome, s, es3, a3, l3, w3) =
               try_fallback x N T L K info trigger outcome1 (summary_of a response) a2 l2 w2;
             result = po_result outcome;
             (now_ms, w4) = nt_now N w3;
             a4 = maybe_force_full_resync_on_stalled_deltas trigger (in_lcut info) (get_listener_lcut L (hl_lcut K) a3 l3)
                    (su_deltas_used s) (po_had_updates outcome) result now_ms a3;
             (now, w5) = nt_now N w4
         in (result,
             es1 @ es2 @ es3 @ [log_config_sync_overall_latency now sync_start_ms (su_source_api s)
               (specs_response_format_str (su_response_format s)) (su_network_success s) (\<not> is_network_error result)
               (case result of Inl e \<Rightarrow> ht_err_text T e | Inr _ \<Rightarrow> []) (su_deltas_used s)],
             a4, l3, w5)))"

definition http_specs_start where
  "http_specs_start x N T L K info_lock a l w =
     manually_sync_specs x N T L K (read_current_specs_info L info_lock a l) TriggerInitial a l w"

definition http_specs_initialize :: "bool \<Rightarrow> http_specs_adapter \<Rightarrow> http_specs_adapter" where
  "http_specs_initialize lock_ok a = (if lock_ok then a\<lparr>ha_listener := True\<rparr> else a)"

definition run_background_sync ::
    "ext \<Rightarrow> 'w net \<Rightarrow> http_texts \<Rightarrow> 'l specs_listener \<Rightarrow> http_locks \<Rightarrow> bool \<Rightarrow> http_specs_adapter \<Rightarrow> 'l \<Rightarrow> 'w \<Rightarrow>
     net_effect list \<times> http_specs_adapter \<times> 'l \<times> 'w" where
  "run_background_sync x N T L K info_lock a l w =
     (let (r, es, a1, l1, w1) =
            manually_sync_specs x N T L K (read_current_specs_info L info_lock a l) TriggerBackground a l w;
          before = NetStat (ops_set_diagnostics_context CtxConfigSync) # es
      in case r of
           Inl (NetworkError (NetDisableNetworkOn _)) \<Rightarrow> (before, a1, l1, w1)
         | _ \<Rightarrow> (before @ [NetStat (ops_enqueue_diagnostics_event (Some KeyDownloadConfigSpecs) (Some CtxConfigSync))], a1, l1, w1))"

section \<open>What listeners promise\<close>

text \<open>A listener whose configuration never goes back in time, and the adapter that feeds it.\<close>

locale monotone_listener =
  fixes L :: "'l specs_listener" and lcut :: "'l \<Rightarrow> u64"
  assumes receive_monotone: "lcut l \<le> lcut (snd (sl_receive L u l))"
begin

lemma process_monotone:
  assumes "process_spec_data x N T L ok response a l w = (outcome, es, a', l', w')"
  shows "lcut l \<le> lcut l'"
  using assms receive_monotone [of l]
  by (auto simp: process_spec_data_def Let_def split: sum.splits prod.splits if_splits) (metis snd_conv)

lemma fallback_monotone:
  assumes "try_fallback x N T L K info trigger outcome s a l w = (outcome', s', es, a', l', w')"
  shows "lcut l \<le> lcut l'"
  using assms by (auto simp: try_fallback_def Let_def split: prod.splits if_splits dest: process_monotone)

lemma sync_monotone:
  assumes "manually_sync_specs x N T L K info trigger a l w = (r, es, a', l', w')"
  shows "lcut l \<le> lcut l'"
proof (cases "hl_check K \<and> \<not> ha_listener a")
  case True
  then show ?thesis using assms by (simp add: manually_sync_specs_def)
next
  case False
  obtain t0 w0 where 0: "nt_now N w = (t0, w0)" by force
  obtain resp es1 w1 where 1: "fetch_specs_from_network x N T a info trigger w0 = (resp, es1, w1)" using prod_cases3 by blast
  obtain oc1 es2 a2 l2 w2 where 2: "process_spec_data x N T L (hl_process K) resp a l w1 = (oc1, es2, a2, l2, w2)"
    using prod_cases5 by blast
  obtain oc s es3 a3 l3 w3 where 3:
      "try_fallback x N T L K info trigger oc1 (summary_of a resp) a2 l2 w2 = (oc, s, es3, a3, l3, w3)"
    using prod_cases6 by blast
  have "l' = l3" using assms False by (simp add: manually_sync_specs_def 0 1 2 3 Let_def split: prod.splits)
  then show ?thesis using process_monotone [OF 2] fallback_monotone [OF 3] by simp
qed

end

lemma set_values_time_monotone:
  assumes "set_values P E u st = (r, effects, st')"
  shows "sr_time (sd_values (ss_data st)) \<le> sr_time (sd_values (ss_data st'))"
  using set_values_cases [OF assms]
proof
  assume "\<exists>next fmt. specs_update_prep P (ue_prep E) u st = Inr (HasUpdates next fmt) \<and>
       ss_data st' = (ss_data st)\<lparr>sd_source := up_source u, sd_values := next,
         sd_time_received_at := Some (ae_now (ue_apply E)), sd_source_api := up_source_api u\<rparr>"
  then show ?thesis
    using prep_has_updatesD [of P "ue_prep E" u st] accepted_not_older [of "ss_data st"] by auto
qed simp

definition store_lcut :: "store_state \<Rightarrow> u64" where
  "store_lcut = (\<lambda>(_, st, _). sr_time (sd_values (ss_data st)))"

interpretation store: monotone_listener "store_listener P E ok" store_lcut for P E ok
proof
  show "store_lcut l \<le> store_lcut (snd (sl_receive (store_listener P E ok) u l))" for l u
  proof -
    obtain n st fx where l: "l = (n, st, fx)" using prod_cases3 by blast
    obtain r es st1 where "set_values P (E n) u st = (r, es, st1)" using prod_cases3 by blast
    with set_values_time_monotone [OF this] show ?thesis by (simp add: l store_lcut_def store_listener_def)
  qed
qed

lemma process_without_listener:
  assumes "process_spec_data x N T L ok response a l w = (outcome, es, a', l', w')" "\<not> ha_listener a"
  shows "l' = l \<and> isl (po_result outcome) \<and> \<not> ha_listener a'"
  using assms by (auto simp: process_spec_data_def deltas_after_def Let_def split: sum.splits prod.splits if_splits)

lemma sync_without_listener:
  assumes "manually_sync_specs x N T L K info trigger a l w = (r, es, a', l', w')"
  shows "\<not> ha_listener a \<Longrightarrow> l' = l \<and> isl r"
proof -
  assume no: "\<not> ha_listener a"
  show ?thesis
  proof (cases "hl_check K")
    case True
    then show ?thesis using assms no by (auto simp: manually_sync_specs_def)
  next
    case False
    obtain t0 w0 where 0: "nt_now N w = (t0, w0)" by force
    obtain resp es1 w1 where 1: "fetch_specs_from_network x N T a info trigger w0 = (resp, es1, w1)" using prod_cases3 by blast
    obtain oc1 es2 a2 l2 w2 where 2: "process_spec_data x N T L (hl_process K) resp a l w1 = (oc1, es2, a2, l2, w2)"
      using prod_cases5 by blast
    obtain oc s es3 a3 l3 w3 where 3:
        "try_fallback x N T L K info trigger oc1 (summary_of a resp) a2 l2 w2 = (oc, s, es3, a3, l3, w3)"
      using prod_cases6 by blast
    have fin: "l' = l3" "r = po_result oc" using assms False by (simp_all add: manually_sync_specs_def 0 1 2 3 Let_def split: prod.splits)
    note first = process_without_listener [OF 2 no]
    have "\<not> ha_listener (snd (should_attempt_fallback trigger (po_result oc1) a2))"
      using first by (simp add: should_attempt_fallback_def Let_def)
    then have "l3 = l2 \<and> isl (po_result oc)"
      using 3 first by (auto simp: try_fallback_def Let_def split: prod.splits if_splits dest: process_without_listener)
    then show ?thesis using fin first by simp
  qed
qed

section \<open>Properties\<close>

text \<open>
  Downloading never takes the store back. Whatever the servers answer, at the first URL and at the fallback, and
  whichever locks time out, the time of the store's configuration does not decrease in a synchronisation, and an adapter
  whose listener is missing touches nothing.
\<close>

theorem specs_sync_monotone:
  assumes "manually_sync_specs x N T (store_listener P E ok) K info trigger a (n, st, fx) w = (r, es, a', (n', st', fx'), w')"
  shows "sr_time (sd_values (ss_data st)) \<le> sr_time (sd_values (ss_data st')) \<and>
    (\<not> ha_listener a \<longrightarrow> st' = st \<and> isl r)"
  using store.sync_monotone [OF assms] sync_without_listener [OF assms] by (auto simp: store_lcut_def)

text \<open>One background synchronisation that asked for deltas, as the adapter's counters see it.\<close>

definition delta_sync :: "u64 option \<times> u64 option \<times> (statsig_err + unit) \<times> u64 \<Rightarrow> http_specs_adapter \<Rightarrow> http_specs_adapter" where
  "delta_sync = (\<lambda>(pre, post, result, now) a.
     maybe_force_full_resync_on_stalled_deltas TriggerBackground pre post True True result now (deltas_after result True a))"

definition stalled :: "u64 option \<times> u64 option \<times> (statsig_err + unit) \<times> u64 \<Rightarrow> bool" where
  "stalled = (\<lambda>(pre, post, result, now). \<not> is_network_error result \<and> \<not> is_checksum_failure result \<and>
     \<not> (\<not> isl result \<and> lcut_advanced pre post))"

definition accepts_deltas :: "http_texts \<Rightarrow> http_specs_adapter \<Rightarrow> specs_info \<Rightarrow> bool" where
  "accepts_deltas T a info = (hm_get (opt_default [] (ra_query_params (get_request_args T a info TriggerBackground))) ''accept_deltas'' = Some ''true'')"

lemma accepts_deltas_iff: "accepts_deltas T a info \<longleftrightarrow> ha_use_deltas_next_request a"
  by (auto simp: accepts_deltas_def get_request_args_def Let_def opt_default_def hm_get_Cons split: option.splits)

lemma deltas_kept: "\<not> is_checksum_failure r \<Longrightarrow> deltas_after r True a = a"
  by (simp add: deltas_after_def)

lemma delta_sync_stalled:
  assumes "stalled s" "ha_allow_dcs_deltas a" "ha_delta_no_progress_threshold a \<noteq> 0"
  shows "delta_sync s a =
    (let n = ha_delta_no_progress_count a + 1
     in if forced_resync_due n (ha_delta_no_progress_threshold a) (ha_last_forced_full_resync_at_ms a) (snd (snd (snd s)))
             MIN_FORCED_FULL_RESYNC_INTERVAL_MS
        then a\<lparr>ha_use_deltas_next_request := False, ha_last_forced_full_resync_at_ms := snd (snd (snd s)), ha_delta_no_progress_count := 0\<rparr>
        else a\<lparr>ha_delta_no_progress_count := n\<rparr>)"
proof -
  obtain pre post r now where s: "s = (pre, post, r, now)" using prod_cases4 by blast
  show ?thesis
    using assms by (auto simp: s stalled_def delta_sync_def deltas_kept maybe_force_full_resync_on_stalled_deltas_def Let_def)
qed

lemma delta_sync_fields:
  assumes "stalled s" "ha_allow_dcs_deltas a" "ha_delta_no_progress_threshold a \<noteq> 0"
  shows "ha_allow_dcs_deltas (delta_sync s a)" "ha_delta_no_progress_threshold (delta_sync s a) = ha_delta_no_progress_threshold a"
  using assms by (simp_all add: delta_sync_stalled Let_def)

text \<open>Below the threshold a stalled synchronisation only counts.\<close>

lemma stalled_counts:
  assumes "\<forall>s \<in> set ss. stalled s" "ha_allow_dcs_deltas a"
    and "unat (ha_delta_no_progress_count a) + length ss < unat (ha_delta_no_progress_threshold a)"
  shows "foldl (\<lambda>a s. delta_sync s a) a ss = a\<lparr>ha_delta_no_progress_count := ha_delta_no_progress_count a + of_nat (length ss)\<rparr>"
  using assms
proof (induction ss arbitrary: a)
  case (Cons s ss)
  let ?c = "ha_delta_no_progress_count a" and ?t = "ha_delta_no_progress_threshold a"
  have t0: "?t \<noteq> 0" using Cons.prems(3) by (metis gr_implies_not_zero unsigned_0)
  have c1: "unat (?c + 1) = unat ?c + 1"
    using Cons.prems(3) unsigned_less [of ?t, where ?'a = nat] by (simp add: unat_word_ariths)
  have "?c + 1 < ?t" using c1 Cons.prems(3) by (simp add: word_less_nat_alt)
  then have step: "delta_sync s a = a\<lparr>ha_delta_no_progress_count := ?c + 1\<rparr>"
    using Cons.prems(1,2) t0 by (simp add: delta_sync_stalled forced_resync_due_def Let_def)
  have "foldl (\<lambda>a s. delta_sync s a) (delta_sync s a) ss = (delta_sync s a)\<lparr>ha_delta_no_progress_count :=
      ha_delta_no_progress_count (delta_sync s a) + of_nat (length ss)\<rparr>"
    using Cons.prems c1 by (intro Cons.IH) (simp_all add: step)
  then show ?case by (simp add: step add.assoc)
qed simp

text \<open>
  C38: A stalled delta stream recovers. When deltas keep arriving that do not advance the configuration, the adapter
  goes on asking for deltas until as many synchronisations in a row have stalled as the threshold says, and the one
  that reaches it makes the next request ask for the full configuration and starts the count over, unless a full
  download was forced less than five minutes ago.
\<close>

theorem stalled_deltas_recover:
  assumes "ha_allow_dcs_deltas a" "ha_use_deltas_next_request a" "ha_delta_no_progress_count a = 0"
    and "\<forall>s \<in> set ss. stalled s" "stalled (pre, post, result, now)"
    and "Suc (length ss) = unat (ha_delta_no_progress_threshold a)"
    and "ha_last_forced_full_resync_at_ms a = 0 \<or> now < ha_last_forced_full_resync_at_ms a \<or>
      MIN_FORCED_FULL_RESYNC_INTERVAL_MS \<le> now - ha_last_forced_full_resync_at_ms a"
  defines "before \<equiv> foldl (\<lambda>a s. delta_sync s a) a ss"
  shows "accepts_deltas T before info \<and> \<not> accepts_deltas T (delta_sync (pre, post, result, now) before) info \<and>
    ha_delta_no_progress_count (delta_sync (pre, post, result, now) before) = 0 \<and>
    ha_last_forced_full_resync_at_ms (delta_sync (pre, post, result, now) before) = now"
proof -
  have before: "before = a\<lparr>ha_delta_no_progress_count := of_nat (length ss)\<rparr>"
    using stalled_counts [OF assms(4,1)] assms(3,6) by (simp add: before_def)
  have "of_nat (Suc (length ss)) = ha_delta_no_progress_threshold a" unfolding assms(6) by simp
  then have reached: "of_nat (length ss) + 1 = ha_delta_no_progress_threshold a" by (simp add: add.commute)
  have "ha_delta_no_progress_threshold a \<noteq> 0" using assms(6) by (metis nat.distinct(1) unsigned_0)
  then have "delta_sync (pre, post, result, now) before = before\<lparr>ha_use_deltas_next_request := False,
      ha_last_forced_full_resync_at_ms := now, ha_delta_no_progress_count := 0\<rparr>"
    using assms(1,5,7) reached by (auto simp: delta_sync_stalled before forced_resync_due_def)
  then show ?thesis using assms(2) by (simp add: accepts_deltas_iff before)
qed

text \<open>An idle configuration, which has no updates, never forces a full download.\<close>

lemma idle_never_forces:
  "ha_use_deltas_next_request
     (maybe_force_full_resync_on_stalled_deltas trigger pre post requested False result now a) = ha_use_deltas_next_request a"
  by (simp add: maybe_force_full_resync_on_stalled_deltas_def)

definition delta_adapter :: http_specs_adapter where
  "delta_adapter = http_specs_adapter_new flaky_net (statsig_metadata_new []) 0 ''secret-k''
     (Some (options_default\<lparr>so_enable_dcs_deltas := Some True, so_dcs_delta_no_progress_threshold := Some 2\<rparr>)) None 0"

definition no_texts :: http_texts where
  "no_texts = \<lparr>ht_percent_encode = id, ht_err_text = (\<lambda>_. []), ht_no_updates = (\<lambda>_. Inr True)\<rparr>"

lemma delta_adapter_fields:
  "ha_allow_dcs_deltas delta_adapter" "ha_use_deltas_next_request delta_adapter" "ha_delta_no_progress_count delta_adapter = 0"
  "ha_delta_no_progress_threshold delta_adapter = 2" "ha_last_forced_full_resync_at_ms delta_adapter = 0" "\<not> ha_listener delta_adapter"
  by (simp_all add: delta_adapter_def http_specs_adapter_new_def opt_default_def Let_def)

theorem stalled_deltas_recover_witness:
  "\<not> accepts_deltas no_texts (delta_sync (Some 5, Some 5, Inr (), 1000) (delta_sync (Some 5, Some 5, Inr (), 0) delta_adapter)) specs_info_empty"
proof -
  have "\<forall>s \<in> set [(Some 5, Some 5, Inr (), 0)]. stalled s" "stalled (Some 5, Some 5, Inr (), 1000)" by (simp_all add: stalled_def)
  from stalled_deltas_recover [OF delta_adapter_fields(1-3) this, of no_texts specs_info_empty] delta_adapter_fields(4,5)
  show ?thesis by simp
qed

definition locks_free :: update_env where
  "locks_free = \<lparr>ue_prep = True, ue_apply = locks_ok, ue_notify = True, ue_notify_now = 0\<rparr>"

theorem specs_sync_monotone_witness:
  "\<exists>r es a' n' st' fx' w'. manually_sync_specs sample_ext flaky_net no_texts (store_listener length_parsers (\<lambda>_. locks_free) (\<lambda>_. True))
     \<lparr>hl_check = True, hl_process = True, hl_fallback = True, hl_lcut = True\<rparr> specs_info_empty TriggerBackground
     (http_specs_initialize True delta_adapter) (0, ss_new [] False gc_new, []) 0 = (r, es, a', (n', st', fx'), w') \<and>
     sr_time (sd_values (ss_data (ss_new [] False gc_new))) \<le> sr_time (sd_values (ss_data st'))"
proof -
  let ?sync = "manually_sync_specs sample_ext flaky_net no_texts (store_listener length_parsers (\<lambda>_. locks_free) (\<lambda>_. True))
     \<lparr>hl_check = True, hl_process = True, hl_fallback = True, hl_lcut = True\<rparr> specs_info_empty TriggerBackground
     (http_specs_initialize True delta_adapter) (0, ss_new [] False gc_new, []) 0"
  obtain r es a' n' st' fx' w' where s: "?sync = (r, es, a', (n', st', fx'), w')" by (metis prod_cases3)
  with specs_sync_monotone [OF s] show ?thesis by blast
qed

end
