(* ===== verification/Specs_Adapters.thy ===== *)
theory Specs_Adapters
  imports Http_Specs
begin

text \<open>
  The other sources of the configuration, \<open>src/statsig-rust/src/specs_adapter/\<close>: the bootstrap adapter, the data store of
  the host with its two cached forms, the local file, and the adapter that tries several in order. The listener is that of
  \<open>Http_Specs\<close>. The data store, the file system and the adapter for gRPC are parameters.
\<close>

section \<open>Bootstrap\<close>

record bootstrap_adapter =
  ba_data :: string
  ba_listener :: bool

definition bootstrap_new :: "string \<Rightarrow> bootstrap_adapter" where
  "bootstrap_new s = \<lparr>ba_data = s, ba_listener = False\<rparr>"

definition bootstrap_initialize :: "bool \<Rightarrow> bootstrap_adapter \<Rightarrow> bootstrap_adapter" where
  "bootstrap_initialize lock_ok a = (if lock_ok then a\<lparr>ba_listener := True\<rparr> else a)"

definition bootstrap_push_update ::
    "'l specs_listener \<Rightarrow> bool \<Rightarrow> bool \<Rightarrow> u64 \<Rightarrow> bootstrap_adapter \<Rightarrow> 'l \<Rightarrow> (statsig_err + unit) \<times> 'l" where
  "bootstrap_push_update L data_ok listener_ok now a l =
     (if \<not> data_ok then (Inl (LockFailureError ''Failed to acquire read lock on data''), l)
      else if \<not> listener_ok then (Inl (LockFailureError ''Failed to acquire read lock on listener''), l)
      else if ba_listener a
      then sl_receive L \<lparr>up_data = from_bytes (ba_data a), up_source = SrcBootstrap, up_received_at = now, up_source_api = None\<rparr> l
      else (Inl (UnstartedAdapter ''Listener not set''), l))"

definition bootstrap_set_data ::
    "'l specs_listener \<Rightarrow> bool \<Rightarrow> bool \<Rightarrow> bool \<Rightarrow> u64 \<Rightarrow> string \<Rightarrow> bootstrap_adapter \<Rightarrow> 'l \<Rightarrow>
     (statsig_err + unit) \<times> bootstrap_adapter \<times> 'l" where
  "bootstrap_set_data L write_ok data_ok listener_ok now s a l =
     (if \<not> write_ok then (Inl (LockFailureError ''Failed to acquire write lock on data''), a, l)
      else
        (let a1 = a\<lparr>ba_data := s\<rparr>
         in case bootstrap_push_update L data_ok listener_ok now a1 l of (r, l1) \<Rightarrow> (r, a1, l1)))"

definition bootstrap_start where
  "bootstrap_start = bootstrap_push_update"

section \<open>Data store\<close>

text \<open>Reading from the data store of the host; its answer holds a value or not.\<close>

record 'd data_store_reads =
  dr_initialize :: "'d \<Rightarrow> (statsig_err + unit) \<times> 'd"
  dr_get :: "string \<Rightarrow> 'd \<Rightarrow> (statsig_err + string option) \<times> 'd"
  dr_get_bytes :: "string \<Rightarrow> 'd \<Rightarrow> (statsig_err + string option) \<times> 'd"
  dr_support_polling :: "'d \<Rightarrow> bool"

record data_store_adapter =
  da_cache_keys :: data_store_cache_keys
  da_sync_interval :: u32
  da_listener :: bool

definition data_store_adapter_new :: "string \<Rightarrow> statsig_options option \<Rightarrow> data_store_adapter" where
  "data_store_adapter_new data_store_key options =
     \<lparr>da_cache_keys = from_selected_key data_store_key,
      da_sync_interval = opt_default DEFAULT_SYNC_INTERVAL_MS (so_specs_sync_interval_ms (opt_default options_default options)),
      da_listener = False\<rparr>"

record cached_specs =
  cs_result :: "string option"
  cs_is_protobuf :: bool

definition cached_specs_from_bytes_response :: "string option \<Rightarrow> bool \<Rightarrow> cached_specs option" where
  "cached_specs_from_bytes_response response is_protobuf =
     map_option (\<lambda>r. \<lparr>cs_result = Some r, cs_is_protobuf = is_protobuf\<rparr>) response"

definition cached_specs_from_string_response :: "string option \<Rightarrow> cached_specs" where
  "cached_specs_from_string_response response = \<lparr>cs_result = response, cs_is_protobuf = False\<rparr>"

definition load_cached_specs_bytes ::
    "'d data_store_reads \<Rightarrow> string \<Rightarrow> bool \<Rightarrow> 'd \<Rightarrow> (statsig_err + cached_specs option) \<times> 'd" where
  "load_cached_specs_bytes R key is_protobuf d =
     (case dr_get_bytes R key d of
        (Inl e, d1) \<Rightarrow> (Inl e, d1)
      | (Inr response, d1) \<Rightarrow> (Inr (cached_specs_from_bytes_response response is_protobuf), d1))"

definition load_cached_specs_string ::
    "'d data_store_reads \<Rightarrow> data_store_adapter \<Rightarrow> 'd \<Rightarrow> (statsig_err + cached_specs) \<times> 'd" where
  "load_cached_specs_string R a d =
     (case dr_get R (dk_plain_text (da_cache_keys a)) d of
        (Inl e, d1) \<Rightarrow> (Inl e, d1)
      | (Inr response, d1) \<Rightarrow> (Inr (cached_specs_from_string_response response), d1))"

definition load_statsig_br_cache ::
    "'d data_store_reads \<Rightarrow> data_store_adapter \<Rightarrow> 'd \<Rightarrow> (statsig_err + cached_specs option) \<times> 'd" where
  "load_statsig_br_cache R a d =
     (case load_cached_specs_bytes R (dk_statsig_br (da_cache_keys a)) True d of
        (Inr update, d1) \<Rightarrow> (Inr update, d1)
      | (Inl e, d1) \<Rightarrow>
          if e = BytesNotImplemented
          then (case load_cached_specs_string R a d1 of (Inr c, d2) \<Rightarrow> (Inr (Some c), d2) | (Inl e, d2) \<Rightarrow> (Inl e, d2))
          else (Inr None, d1))"

definition load_plain_text_cache ::
    "'d data_store_reads \<Rightarrow> data_store_adapter \<Rightarrow> 'd \<Rightarrow> (statsig_err + cached_specs) \<times> 'd" where
  "load_plain_text_cache R a d =
     (case load_cached_specs_bytes R (dk_plain_text (da_cache_keys a)) False d of
        (Inr (Some update), d1) \<Rightarrow> (Inr update, d1)
      | (Inr None, d1) \<Rightarrow> (Inr \<lparr>cs_result = None, cs_is_protobuf = False\<rparr>, d1)
      | (Inl e, d1) \<Rightarrow> if e = BytesNotImplemented then load_cached_specs_string R a d1 else (Inl e, d1))"

definition load_cached_specs ::
    "'d data_store_reads \<Rightarrow> data_store_adapter \<Rightarrow> 'd \<Rightarrow> (statsig_err + cached_specs) \<times> 'd" where
  "load_cached_specs R a d =
     (case load_statsig_br_cache R a d of
        (Inl e, d1) \<Rightarrow> (Inl e, d1)
      | (Inr (Some update), d1) \<Rightarrow> (Inr update, d1)
      | (Inr None, d1) \<Rightarrow> load_plain_text_cache R a d1)"

definition binary_specs_response_data_from_bytes :: "string \<Rightarrow> response_data" where
  "binary_specs_response_data_from_bytes bytes =
     \<lparr>rd_bytes = bytes, rd_headers = Some [(''content-type'', ''application/octet-stream''), (''content-encoding'', ''statsig-br'')]\<rparr>"

definition specs_response_data_from_cache :: "string \<Rightarrow> bool \<Rightarrow> response_data" where
  "specs_response_data_from_cache bytes is_protobuf =
     (if is_protobuf then binary_specs_response_data_from_bytes bytes else from_bytes bytes)"

definition send_specs_update_to_listener ::
    "'l specs_listener \<Rightarrow> u64 \<Rightarrow> cached_specs \<Rightarrow> 'l \<Rightarrow> (statsig_err + unit) \<times> string \<times> 'l" where
  "send_specs_update_to_listener L now c l =
     (let d = specs_response_data_from_cache (opt_default [] (cs_result c)) (cs_is_protobuf c)
      in case sl_receive L \<lparr>up_data = d, up_source = SrcAdapter ''DataStore'', up_received_at = now, up_source_api = Some ''datastore''\<rparr> l of
           (r, l1) \<Rightarrow> (r, specs_response_format_str (get_specs_response_format d), l1))"

definition log_data_store_sync_result ::
    "(statsig_err \<Rightarrow> string) \<Rightarrow> u64 \<Rightarrow> u64 \<Rightarrow> string \<Rightarrow> (statsig_err + unit) \<Rightarrow> net_effect" where
  "log_data_store_sync_result err_text now sync_start_ms fmt result =
     log_config_sync_overall_latency now sync_start_ms ''datastore'' fmt False (\<not> isl result)
       (case result of Inl e \<Rightarrow> err_text e | Inr _ \<Rightarrow> []) False"

text \<open>The times read in a call: at its start, for the update and for the metric.\<close>

record sync_times =
  tm_start :: u64
  tm_received :: u64
  tm_end :: u64

definition data_store_start ::
    "(statsig_err \<Rightarrow> string) \<Rightarrow> 'd data_store_reads \<Rightarrow> 'l specs_listener \<Rightarrow> bool \<Rightarrow> sync_times \<Rightarrow> data_store_adapter \<Rightarrow>
     'l \<Rightarrow> 'd \<Rightarrow> (statsig_err + unit) \<times> net_effect list \<times> 'l \<times> 'd" where
  "data_store_start err_text R L lock_ok t a l d =
     (case dr_initialize R d of
        (Inl e, d1) \<Rightarrow> (Inl e, [], l, d1)
      | (Inr _, d1) \<Rightarrow>
          (case load_cached_specs R a d1 of
             (Inl e, d2) \<Rightarrow> (Inl e, [], l, d2)
           | (Inr update, d2) \<Rightarrow>
               if cs_result update = None then (Inl (DataStoreFailure ''Empty result''), [], l, d2)
               else if \<not> lock_ok then (Inl (UnstartedAdapter ''Failed to acquire read lock on listener''), [], l, d2)
               else if \<not> da_listener a then (Inl (UnstartedAdapter ''Listener not set''), [], l, d2)
               else
                 (case send_specs_update_to_listener L (tm_received t) update l of
                    (r, fmt, l1) \<Rightarrow> (r, [log_data_store_sync_result err_text (tm_end t) (tm_start t) fmt r], l1, d2))))"

definition data_store_initialize :: "bool \<Rightarrow> data_store_adapter \<Rightarrow> data_store_adapter" where
  "data_store_initialize lock_ok a = (if lock_ok then a\<lparr>da_listener := True\<rparr> else a)"

text \<open>Unlike the start, a round of the background task sends an empty result on.\<close>

definition execute_background_sync_impl ::
    "(statsig_err \<Rightarrow> string) \<Rightarrow> 'd data_store_reads \<Rightarrow> 'l specs_listener \<Rightarrow> bool \<Rightarrow> sync_times \<Rightarrow> data_store_adapter \<Rightarrow>
     'l \<Rightarrow> 'd \<Rightarrow> net_effect list \<times> 'l \<times> 'd" where
  "execute_background_sync_impl err_text R L lock_ok t a l d =
     (case load_cached_specs R a d of
        (Inl e, d1) \<Rightarrow> ([], l, d1)
      | (Inr update, d1) \<Rightarrow>
          if \<not> lock_ok \<or> \<not> da_listener a then ([], l, d1)
          else
            (case send_specs_update_to_listener L (tm_received t) update l of
               (r, fmt, l1) \<Rightarrow> ([log_data_store_sync_result err_text (tm_end t) (tm_start t) fmt r], l1, d1)))"

definition data_store_schedule :: "'d data_store_reads \<Rightarrow> 'd \<Rightarrow> statsig_err + unit" where
  "data_store_schedule R d =
     (if \<not> dr_support_polling R d then Inl (SpecsAdapterSkipPoll ''StatsigDataStoreSpecAdapter'') else Inr ())"

section \<open>Local file\<close>

text \<open>The file system: whether the file is there, its bytes or the text of an error, and writing.\<close>

record 'f file_ops =
  fo_exists :: "string \<Rightarrow> 'f \<Rightarrow> bool"
  fo_read :: "string \<Rightarrow> 'f \<Rightarrow> string + string"
  fo_write :: "string \<Rightarrow> string \<Rightarrow> 'f \<Rightarrow> 'f"

record local_file_adapter =
  lf_file_path :: string
  lf_listener :: bool
  lf_http_adapter :: http_specs_adapter

definition local_file_new ::
    "'w net \<Rightarrow> statsig_metadata \<Rightarrow> nat \<Rightarrow> string \<Rightarrow> string \<Rightarrow> string option \<Rightarrow> bool \<Rightarrow> bool \<Rightarrow> 'w \<Rightarrow> local_file_adapter" where
  "local_file_new N meta flag sdk_key output_directory specs_url fallback_to_statsig_api disable_network w =
     \<lparr>lf_file_path = output_directory @ ''/'' @ djb2 sdk_key @ ''_specs.json'', lf_listener = False,
      lf_http_adapter = http_specs_adapter_new N meta flag sdk_key (Some (options_default\<lparr>so_specs_url := specs_url,
        so_disable_network := Some disable_network, so_fallback_to_statsig_api := Some fallback_to_statsig_api\<rparr>)) None w\<rparr>"

text \<open>Reading a full response from JSON is a parameter.\<close>

definition read_specs_from_file ::
    "'f file_ops \<Rightarrow> (string \<Rightarrow> string) \<Rightarrow> (string \<Rightarrow> specs_response option) \<Rightarrow> local_file_adapter \<Rightarrow> 'f \<Rightarrow>
     statsig_err + specs_response option" where
  "read_specs_from_file F utf8_error parse_full a f =
     (if \<not> fo_exists F (lf_file_path a) f then Inr None
      else
        (case fo_read F (lf_file_path a) f of
           Inl e \<Rightarrow> Inl (FileError e)
         | Inr bytes \<Rightarrow> if utf8_valid bytes then Inr (parse_full bytes) else Inl (FileError (utf8_error bytes))))"

definition fetch_and_write_to_file ::
    "ext \<Rightarrow> 'w net \<Rightarrow> http_texts \<Rightarrow> 'f file_ops \<Rightarrow> (string \<Rightarrow> string) \<Rightarrow> (string \<Rightarrow> specs_response option) \<Rightarrow>
     local_file_adapter \<Rightarrow> 'f \<Rightarrow> 'w \<Rightarrow> (statsig_err + unit) \<times> net_effect list \<times> 'f \<times> 'w" where
  "fetch_and_write_to_file x N T F utf8_error parse_full a f w =
     (let specs_info = (case read_specs_from_file F utf8_error parse_full a f of
            Inr (Some specs) \<Rightarrow> \<lparr>in_lcut = Some (sr_time specs), in_checksum = sr_checksum specs,
              in_source = SrcAdapter ''FileBased'', in_source_api = None\<rparr>
          | _ \<Rightarrow> specs_info_empty)
      in case fetch_specs_from_network x N T (lf_http_adapter a) specs_info TriggerManual w of
           (Inl e, es, w1) \<Rightarrow> (Inl (NetworkError e), es, f, w1)
         | (Inr response, es, w1) \<Rightarrow>
             (case read_to_string utf8_error (nr_data response) of
                Inl e \<Rightarrow> (Inl (SerializationError (ht_err_text T e)), es, f, w1)
              | Inr body \<Rightarrow>
                  (Inr (), es,
                   (case parse_full body of
                      Some parsed \<Rightarrow> if sr_has_updates parsed then fo_write F (lf_file_path a) body f else f
                    | None \<Rightarrow> f), w1)))"

definition resync_from_file ::
    "'f file_ops \<Rightarrow> 'l specs_listener \<Rightarrow> bool \<Rightarrow> u64 \<Rightarrow> local_file_adapter \<Rightarrow> 'f \<Rightarrow> 'l \<Rightarrow> (statsig_err + unit) \<times> 'l" where
  "resync_from_file F L lock_ok now a f l =
     (case fo_read F (lf_file_path a) f of
        Inl e \<Rightarrow> (Inl (FileError e), l)
      | Inr bytes \<Rightarrow>
          if \<not> lock_ok then (Inl (LockFailureError ''Failed to acquire read lock on listener''), l)
          else if lf_listener a
          then sl_receive L \<lparr>up_data = from_bytes bytes, up_source = SrcAdapter ''FileBased'', up_received_at = now, up_source_api = None\<rparr> l
          else (Inl (UnstartedAdapter ''Listener not set''), l))"

section \<open>Several adapters\<close>

text \<open>The adapter for gRPC, of a feature, is made from its configuration.\<close>

datatype specs_source_adapter = AdHttp http_specs_adapter | AdDataStore data_store_adapter | AdGrpc spec_adapter_config

definition new_from_config ::
    "'w net \<Rightarrow> statsig_metadata \<Rightarrow> nat \<Rightarrow> bool \<Rightarrow> string \<Rightarrow> string \<Rightarrow> spec_adapter_config list \<Rightarrow> statsig_options \<Rightarrow> 'w \<Rightarrow>
     specs_source_adapter list" where
  "new_from_config N meta flag with_grpc sdk_key data_store_key configs options w =
     concat (map (\<lambda>config. case sac_adapter_type config of
         NetworkGrpcWebsocket \<Rightarrow> if with_grpc then [AdGrpc config] else []
       | NetworkHttp \<Rightarrow> [AdHttp (http_specs_adapter_new N meta flag sdk_key (Some options) (sac_specs_url config) w)]
       | DataStoreAdapter \<Rightarrow>
           if so_data_store options \<noteq> None then [AdDataStore (data_store_adapter_new data_store_key (Some options))] else []) configs)"

definition new_from_data_store ::
    "'w net \<Rightarrow> statsig_metadata \<Rightarrow> nat \<Rightarrow> string \<Rightarrow> string \<Rightarrow> statsig_options \<Rightarrow> 'w \<Rightarrow> specs_source_adapter list" where
  "new_from_data_store N meta flag sdk_key data_store_key options w =
     [AdDataStore (data_store_adapter_new data_store_key (Some options)),
      AdHttp (http_specs_adapter_new N meta flag sdk_key (Some options) None w)]"

text \<open>The adapters are started in order until one succeeds.\<close>

fun customized_start ::
    "('a \<Rightarrow> 's \<Rightarrow> (statsig_err + unit) \<times> 'a \<times> 's) \<Rightarrow> 'a list \<Rightarrow> 's \<Rightarrow> (statsig_err + unit) \<times> 'a list \<times> 's" where
  "customized_start start [] s = (Inl (UnstartedAdapter ''Failed to start any adapters''), [], s)"
| "customized_start start (a # adapters) s =
     (case start a s of
        (Inr _, a1, s1) \<Rightarrow> (Inr (), a1 # adapters, s1)
      | (Inl _, a1, s1) \<Rightarrow>
          (case customized_start start adapters s1 of (r, adapters1, s2) \<Rightarrow> (r, a1 # adapters1, s2)))"

fun customized_schedule :: "('a \<Rightarrow> 's \<Rightarrow> (statsig_err + unit) \<times> 's) \<Rightarrow> 'a list \<Rightarrow> 's \<Rightarrow> (statsig_err + unit) \<times> 's" where
  "customized_schedule schedule [] s = (Inr (), s)"
| "customized_schedule schedule (a # adapters) s =
     (case schedule a s of
        (Inr _, s1) \<Rightarrow> (Inr (), s1)
      | (Inl _, s1) \<Rightarrow> customized_schedule schedule adapters s1)"

text \<open>What one adapter needs of its surroundings, and what a start changes.\<close>

record ('l, 'd, 'w) start_env =
  sn_ext :: ext
  sn_net :: "'w net"
  sn_texts :: http_texts
  sn_listener :: "'l specs_listener"
  sn_reads :: "'d data_store_reads"
  sn_locks :: http_locks
  sn_info_lock :: bool
  sn_store_lock :: bool
  sn_times :: sync_times
  sn_grpc :: "spec_adapter_config \<Rightarrow> 'l \<Rightarrow> (statsig_err + unit) \<times> 'l"

type_synonym ('l, 'd, 'w) start_state = "net_effect list \<times> 'l \<times> 'd \<times> 'w"

fun start_adapter ::
    "('l, 'd, 'w) start_env \<Rightarrow> specs_source_adapter \<Rightarrow> ('l, 'd, 'w) start_state \<Rightarrow>
     (statsig_err + unit) \<times> specs_source_adapter \<times> ('l, 'd, 'w) start_state" where
  "start_adapter V (AdHttp a) (es, l, d, w) =
     (case http_specs_start (sn_ext V) (sn_net V) (sn_texts V) (sn_listener V) (sn_locks V) (sn_info_lock V) a l w of
        (r, fs, a1, l1, w1) \<Rightarrow> (r, AdHttp a1, (es @ fs, l1, d, w1)))"
| "start_adapter V (AdDataStore a) (es, l, d, w) =
     (case data_store_start (ht_err_text (sn_texts V)) (sn_reads V) (sn_listener V) (sn_store_lock V) (sn_times V) a l d of
        (r, fs, l1, d1) \<Rightarrow> (r, AdDataStore a, (es @ fs, l1, d1, w)))"
| "start_adapter V (AdGrpc config) (es, l, d, w) =
     (case sn_grpc V config l of (r, l1) \<Rightarrow> (r, AdGrpc config, (es, l1, d, w)))"

section \<open>No source takes the store back\<close>

context monotone_listener
begin

lemma bootstrap_push_monotone: "lcut l \<le> lcut (snd (bootstrap_push_update L b1 b2 now a l))"
  by (simp add: bootstrap_push_update_def receive_monotone)

lemma bootstrap_set_data_monotone: "lcut l \<le> lcut (snd (snd (bootstrap_set_data L b0 b1 b2 now s a l)))"
  using bootstrap_push_monotone [of l b1 b2 now "a\<lparr>ba_data := s\<rparr>"]
  by (auto simp: bootstrap_set_data_def Let_def split: prod.splits)

lemma send_update_monotone: "lcut l \<le> lcut (snd (snd (send_specs_update_to_listener L now c l)))"
  using receive_monotone [of l] by (simp add: send_specs_update_to_listener_def Let_def split: prod.splits) (metis snd_conv)

lemma data_store_start_monotone: "lcut l \<le> lcut (fst (snd (snd (data_store_start err_text R L ok t a l d))))"
  using send_update_monotone [of l "tm_received t"]
  by (auto simp: data_store_start_def split: prod.splits sum.splits) (metis snd_conv)

lemma data_store_sync_monotone: "lcut l \<le> lcut (fst (snd (execute_background_sync_impl err_text R L ok t a l d)))"
  using send_update_monotone [of l "tm_received t"]
  by (auto simp: execute_background_sync_impl_def split: prod.splits sum.splits) (metis snd_conv)

lemma resync_monotone: "lcut l \<le> lcut (snd (resync_from_file F L ok now a f l))"
  by (simp add: resync_from_file_def receive_monotone split: sum.splits)

lemma start_adapter_monotone:
  assumes "sn_listener V = L" "\<And>c l. lcut l \<le> lcut (snd (sn_grpc V c l))"
    and "start_adapter V ad (es, l, d, w) = (r, ad', (es', l', d', w'))"
  shows "lcut l \<le> lcut l'"
proof (cases ad)
  case (AdHttp a)
  then show ?thesis using assms(3) by (auto simp: http_specs_start_def assms(1) split: prod.splits dest: sync_monotone)
next
  case (AdDataStore a)
  then show ?thesis
    using assms(1,3) data_store_start_monotone [of l "ht_err_text (sn_texts V)" "sn_reads V" "sn_store_lock V" "sn_times V" a d]
    by (auto split: prod.splits)
next
  case (AdGrpc c)
  then show ?thesis using assms(3) assms(2) [of l c] by (auto split: prod.splits)
qed

lemma customized_start_monotone:
  assumes "sn_listener V = L" "\<And>c l. lcut l \<le> lcut (snd (sn_grpc V c l))"
    and "customized_start (start_adapter V) ads (es, l, d, w) = (r, ads', (es', l', d', w'))"
  shows "lcut l \<le> lcut l'"
  using assms(3)
proof (induction ads arbitrary: es l d w ads' r)
  case (Cons ad ads)
  obtain r1 ad1 es1 l1 d1 w1 where s: "start_adapter V ad (es, l, d, w) = (r1, ad1, (es1, l1, d1, w1))" by (metis prod_cases6)
  note first = start_adapter_monotone [OF assms(1,2) s]
  show ?case
  proof (cases r1)
    case (Inr u)
    then show ?thesis using Cons.prems first by (simp add: s)
  next
    case (Inl e)
    obtain r2 ads2 s2 where rest: "customized_start (start_adapter V) ads (es1, l1, d1, w1) = (r2, ads2, s2)" using prod_cases3 by blast
    with Cons.prems s Inl have "s2 = (es', l', d', w')" by simp
    with Cons.IH [of es1 l1 d1 w1 r2 ads2] rest first show ?thesis by simp
  qed
qed simp

end

text \<open>The adapters behind the first that starts are left alone, and the start fails only if every one fails.\<close>

lemma customized_start_stops:
  assumes "customized_start start ads s = (r, ads', s')"
  shows "length ads' = length ads \<and>
    (r = Inr () \<longrightarrow> (\<exists>i < length ads. drop (Suc i) ads' = drop (Suc i) ads)) \<and>
    (isl r \<longrightarrow> r = Inl (UnstartedAdapter ''Failed to start any adapters''))"
  using assms
proof (induction ads arbitrary: s ads' r s')
  case (Cons a ads)
  obtain r1 a1 s1 where 1: "start a s = (r1, a1, s1)" using prod_cases3 by blast
  obtain r2 ads2 s2 where 2: "customized_start start ads s1 = (r2, ads2, s2)" using prod_cases3 by blast
  show ?case
  proof (cases r1)
    case (Inr u)
    then show ?thesis using Cons.prems 1 by auto
  next
    case (Inl e)
    with Cons.prems 1 2 have r: "r = r2" "ads' = a1 # ads2" by auto
    from Cons.IH [OF 2] show ?thesis
    proof (elim conjE, intro conjI impI)
      assume *: "r2 = Inr () \<longrightarrow> (\<exists>i < length ads. drop (Suc i) ads2 = drop (Suc i) ads)" "r = Inr ()"
      then obtain i where "i < length ads" "drop (Suc i) ads2 = drop (Suc i) ads" using r by auto
      then show "\<exists>i < length (a # ads). drop (Suc i) ads' = drop (Suc i) (a # ads)"
        using r by (intro exI [of _ "Suc i"]) simp
    qed (use r in auto)
  qed
qed simp

section \<open>Properties\<close>


definition silent_store :: "unit data_store_reads" where
  "silent_store = \<lparr>dr_initialize = (\<lambda>d. (Inr (), d)), dr_get = (\<lambda>_ d. (Inr None, d)), dr_get_bytes = (\<lambda>_ d. (Inr None, d)),
     dr_support_polling = (\<lambda>_. False)\<rparr>"

definition sample_env :: "(store_state, unit, nat) start_env" where
  "sample_env = \<lparr>sn_ext = sample_ext, sn_net = flaky_net, sn_texts = no_texts,
     sn_listener = store_listener length_parsers (\<lambda>_. locks_free) (\<lambda>_. True), sn_reads = silent_store,
     sn_locks = \<lparr>hl_check = True, hl_process = True, hl_fallback = True, hl_lcut = True\<rparr>, sn_info_lock = True,
     sn_store_lock = True, sn_times = \<lparr>tm_start = 0, tm_received = 0, tm_end = 0\<rparr>,
     sn_grpc = (\<lambda>_ l. (Inl (GrpcError []), l))\<rparr>"


section \<open>The cache in the data store\<close>

text \<open>A store of the host that supports bytes: writing changes one key, reading gives the value of a key.\<close>

definition byte_store_laws :: "'d data_store_ops \<Rightarrow> 'd data_store_reads \<Rightarrow> ('d \<Rightarrow> string \<rightharpoonup> string) \<Rightarrow> bool" where
  "byte_store_laws W R view \<longleftrightarrow>
     (\<forall>k v t d. \<exists>d'. do_set_bytes W k v t d = (Inr (), d') \<and> view d' = (view d)(k \<mapsto> v)) \<and>
     (\<forall>k d. dr_get_bytes R k d = (Inr (view d k), d))"

lemma load_from_byte_store:
  assumes "byte_store_laws W R view"
  shows "load_cached_specs R a d = (Inr
    (case view d (dk_statsig_br (da_cache_keys a)) of
       Some bytes \<Rightarrow> \<lparr>cs_result = Some bytes, cs_is_protobuf = True\<rparr>
     | None \<Rightarrow> \<lparr>cs_result = view d (dk_plain_text (da_cache_keys a)), cs_is_protobuf = False\<rparr>), d)"
  using assms
  by (auto simp: byte_store_laws_def load_cached_specs_def load_statsig_br_cache_def load_plain_text_cache_def
      load_cached_specs_bytes_def cached_specs_from_bytes_response_def split: option.splits)

lemma write_to_byte_store:
  assumes "byte_store_laws W R view"
  shows "view (write_specs_to_data_store is_utf8 W key bytes now p d) = (view d)(key \<mapsto> bytes)"
proof -
  obtain d' where "do_set_bytes W key bytes (Some now) d = (Inr (), d')" "view d' = (view d)(key \<mapsto> bytes)"
    using assms unfolding byte_store_laws_def by blast
  then show ?thesis by (simp add: write_specs_to_data_store_def)
qed


text \<open>
  A binary form that is in the data store hides a newer text: after a JSON response has been written, the adapter still
  loads the old binary one.
\<close>

theorem stale_binary_cache_preferred:
  assumes "byte_store_laws W R view" "view d (dk_statsig_br (da_cache_keys a)) = Some old"
    and "dk_plain_text (da_cache_keys a) \<noteq> dk_statsig_br (da_cache_keys a)"
  shows "fst (load_cached_specs R a (write_specs_to_data_store is_utf8 W (dk_plain_text (da_cache_keys a)) new now False d))
    = Inr \<lparr>cs_result = Some old, cs_is_protobuf = True\<rparr>"
  using assms by (simp add: load_from_byte_store [OF assms(1)] write_to_byte_store [OF assms(1)])

definition map_store_writes :: "(string \<rightharpoonup> string) data_store_ops" where
  "map_store_writes = \<lparr>do_set_bytes = (\<lambda>k v _ m. (Inr (), m(k \<mapsto> v))), do_set = (\<lambda>k v _ m. (Inr (), m(k \<mapsto> v)))\<rparr>"

definition map_store_reads :: "(string \<rightharpoonup> string) data_store_reads" where
  "map_store_reads = \<lparr>dr_initialize = (\<lambda>m. (Inr (), m)), dr_get = (\<lambda>k m. (Inr (m k), m)), dr_get_bytes = (\<lambda>k m. (Inr (m k), m)),
     dr_support_polling = (\<lambda>_. True)\<rparr>"


end
