(* ===== verification/Client_Init.thy ===== *)
theory Client_Init
  imports Init_Types Statsig_Instance Network_Client
begin

text \<open>
  The response that initializes a client SDK, \<open>src/statsig-rust/src/gcir\<close>: its options, the filters by entity
  and by app, the loop over the specs of one kind (\<open>gcir_process_iter\<close>), the processors of gates, configs,
  layers and parameter stores in their three formats, and the assembly of the responses
  (\<open>gcir_formatter.rs\<close>, \<open>initialize_response.rs\<close> and its siblings).

  Everything runs in one context, whose state is that of the evaluator. The hashes that the context
  collects for the checksum, the memo of hashed exposure names and the tables a factory closes over are
  passed along.
\<close>

section \<open>Options\<close>

datatype gcir_response_format = Initialize | InitializeWithSecondaryExposureMapping | InitializeV2

definition gcir_format_from_string :: "string \<Rightarrow> gcir_response_format option" where
  "gcir_format_from_string input =
     (if input = ''v1'' then Some Initialize
      else if input = ''v2'' then Some InitializeWithSecondaryExposureMapping
      else if input = ''init_v2'' then Some InitializeV2
      else None)"

record client_init_options =
  io_hash_algorithm :: "hash_algorithm option"
  io_client_sdk_key :: "string option"
  io_target_app_id :: "string option"
  io_include_local_overrides :: "bool option"
  io_feature_gate_filter :: "string set option"
  io_experiment_filter :: "string set option"
  io_dynamic_config_filter :: "string set option"
  io_layer_filter :: "string set option"
  io_param_store_filter :: "string set option"
  io_response_format :: "gcir_response_format option"
  io_remove_id_type :: "bool option"
  io_remove_default_value_gates :: "bool option"
  io_previous_response_hash :: "string option"
  io_remove_experiments_in_layers :: "bool option"

definition client_init_options_default :: client_init_options where
  "client_init_options_default =
     \<lparr>io_hash_algorithm = Some Djb2, io_client_sdk_key = None, io_target_app_id = None, io_include_local_overrides = Some False,
      io_feature_gate_filter = None, io_experiment_filter = None, io_dynamic_config_filter = None, io_layer_filter = None,
      io_param_store_filter = None, io_response_format = None, io_remove_id_type = Some False,
      io_remove_default_value_gates = Some False, io_previous_response_hash = None,
      io_remove_experiments_in_layers = Some False\<rparr>"

definition get_hash_algorithm :: "client_init_options \<Rightarrow> hash_algorithm" where
  "get_hash_algorithm op = opt_default Djb2 (io_hash_algorithm op)"

text \<open>An empty text means unset.\<close>

definition get_target_app_id :: "client_init_options \<Rightarrow> string option" where
  "get_target_app_id op =
     (case io_target_app_id op of Some t \<Rightarrow> (if t = [] then None else Some t) | None \<Rightarrow> None)"

abbreviation wants_hash :: "client_init_options \<Rightarrow> bool" where
  "wants_hash op \<equiv> io_previous_response_hash op \<noteq> None"

section \<open>Filters\<close>

definition select_app_id_for_gcir :: "ext \<Rightarrow> client_init_options \<Rightarrow> specs_response \<Rightarrow> dynamic_value option" where
  "select_app_id_for_gcir x op dcs_values =
     (case get_target_app_id op of
        Some target_app_id \<Rightarrow> Some (dv_from_string x target_app_id)
      | None \<Rightarrow>
          (case io_client_sdk_key op of
             None \<Rightarrow> sr_app_id dcs_values
           | Some client_sdk_key \<Rightarrow>
               (let app_id = (case sr_sdk_keys_to_app_ids dcs_values of
                      Some m \<Rightarrow> hm_get m client_sdk_key | None \<Rightarrow> sr_app_id dcs_values)
                in case sr_hashed_sdk_keys_to_app_ids dcs_values of
                     Some m \<Rightarrow> hm_get m (hash_util_hash x client_sdk_key Djb2) | None \<Rightarrow> app_id)))"

definition should_filter_config_for_app :: "string list option \<Rightarrow> dynamic_value option \<Rightarrow> client_init_options \<Rightarrow> bool" where
  "should_filter_config_for_app target_app_ids app_id op =
     (if io_client_sdk_key op = None \<and> get_target_app_id op = None then False
      else case app_id of
          None \<Rightarrow> False
        | Some v \<Rightarrow>
            (case dv_string v of
               None \<Rightarrow> False
             | Some string_app_id \<Rightarrow>
                 (case target_app_ids of
                    None \<Rightarrow> True
                  | Some ids \<Rightarrow> \<not> list_ex (\<lambda>i. i = ds_value string_app_id) ids)))"

definition should_filter_spec_for_app :: "spec \<Rightarrow> dynamic_value option \<Rightarrow> client_init_options \<Rightarrow> bool" where
  "should_filter_spec_for_app sp app_id op = should_filter_config_for_app (sp_target_app_ids sp) app_id op"

abbreviation excludes :: "string set option \<Rightarrow> string \<Rightarrow> bool" where
  "excludes f name \<equiv> (case f of Some ns \<Rightarrow> name \<notin> ns | None \<Rightarrow> False)"

definition should_filter_entity :: "spec \<Rightarrow> string \<Rightarrow> client_init_options \<Rightarrow> bool" where
  "should_filter_entity sp name op =
     (if sp_entity sp = ''feature_gate'' then excludes (io_feature_gate_filter op) name
      else if sp_entity sp = ''experiment'' then excludes (io_experiment_filter op) name
      else if sp_entity sp = ''dynamic_config'' then excludes (io_dynamic_config_filter op) name
      else if sp_entity sp = ''layer'' then excludes (io_layer_filter op) name
      else False)"

section \<open>Exposures\<close>

type_synonym name_memo = "(string, string) HashMap"

text \<open>Drops exposures seen before and hashes the names of the gates, each name once.\<close>

fun loop_filter_n_hash ::
    "ext \<Rightarrow> hash_algorithm \<Rightarrow> string set \<Rightarrow> secondary_exposure list \<Rightarrow> name_memo \<Rightarrow> secondary_exposure list \<times> name_memo" where
  "loop_filter_n_hash x alg seen [] memo = ([], memo)"
| "loop_filter_n_hash x alg seen (expo # exposures) memo =
     (let expo_key = get_dedupe_key expo
      in if expo_key \<in> seen then loop_filter_n_hash x alg seen exposures memo
         else
           (let (hash, memo1) =
              (case hm_get memo (se_gate expo) of
                 Some hash \<Rightarrow> (hash, memo)
               | None \<Rightarrow> (let hash = hash_util_hash x (se_gate expo) alg in (hash, hm_insert (se_gate expo) hash memo)));
                (rest, memo2) = loop_filter_n_hash x alg (insert expo_key seen) exposures memo1
            in (expo\<lparr>se_gate := hash\<rparr> # rest, memo2)))"

definition hash_exposures_of_result :: "ext \<Rightarrow> hash_algorithm \<Rightarrow> evaluator_result \<Rightarrow> name_memo \<Rightarrow> evaluator_result \<times> name_memo" where
  "hash_exposures_of_result x alg r memo =
     (let (es, memo1) =
        (if er_secondary_exposures r \<noteq> [] then loop_filter_n_hash x alg {} (er_secondary_exposures r) memo else ([], memo));
          (us, memo2) =
        (case er_undelegated_secondary_exposures r of
           Some u \<Rightarrow> (let (u1, m) = loop_filter_n_hash x alg {} u memo1 in (Some u1, m))
         | None \<Rightarrow> (None, memo1))
      in (r\<lparr>er_secondary_exposures := es, er_undelegated_secondary_exposures := us\<rparr>, memo2))"

definition stringify_sec_exposures ::
    "ext \<Rightarrow> secondary_exposure list \<Rightarrow> (string, secondary_exposure) HashMap \<Rightarrow> (string, secondary_exposure) HashMap" where
  "stringify_sec_exposures x exposures resulting =
     foldl (\<lambda>m e. hm_insert (hash_util_hash x (exposure_text e) Djb2) e m) resulting exposures"

section \<open>The loop over specs\<close>

text \<open>\<open>sort_by\<close> on the bytes of the names.\<close>

fun insert_name :: "string \<Rightarrow> string list \<Rightarrow> string list" where
  "insert_name n [] = [n]"
| "insert_name n (m # ms) = (if str_le n m then n # m # ms else m # insert_name n ms)"

definition sort_names :: "string list \<Rightarrow> string list" where
  "sort_names ns = foldr insert_name ns []"

type_synonym ('t, 'g) eval_factory = "string \<Rightarrow> string \<Rightarrow> evaluator_result \<Rightarrow> 'g \<Rightarrow> 't \<times> evaluator_result \<times> 'g"

record ('t, 'g) gcir_acc =
  ga_results :: "(string, 't) HashMap"
  ga_hashes :: "u64 list"
  ga_memo :: name_memo
  ga_tables :: 'g

definition is_removed_default_gate :: "client_init_options \<Rightarrow> spec \<Rightarrow> evaluator_result \<Rightarrow> bool" where
  "is_removed_default_gate op sp r \<longleftrightarrow>
     opt_default False (io_remove_default_value_gates op) \<and> sp_entity sp = ''feature_gate'' \<and>
     er_rule_id r = Some ''default'' \<and> \<not> er_bool_value r \<and> er_secondary_exposures r = []"

definition is_removed_layer_experiment :: "client_init_options \<Rightarrow> spec \<Rightarrow> evaluator_result \<Rightarrow> bool" where
  "is_removed_layer_experiment op sp r \<longleftrightarrow>
     sp_entity sp = ''experiment'' \<and> opt_default False (io_remove_experiments_in_layers op) \<and> er_is_in_layer r"

definition is_skipped_spec :: "eval_env \<Rightarrow> client_init_options \<Rightarrow> string \<Rightarrow> spec \<Rightarrow> bool" where
  "is_skipped_spec en op name sp \<longleftrightarrow>
     sp_entity sp = ''segment'' \<or> sp_entity sp = ''holdout'' \<or> should_filter_entity sp name op \<or>
     should_filter_spec_for_app sp (en_app_id en) op"

text \<open>The part of a round after the evaluation: hashing of the names, the conversion and its checksum.\<close>

definition gcir_record ::
    "eval_env \<Rightarrow> client_init_options \<Rightarrow> ('t, 'g) eval_factory \<Rightarrow> ('t \<Rightarrow> string \<Rightarrow> u64) \<Rightarrow> string \<Rightarrow> string \<Rightarrow>
     ('t, 'g) gcir_acc \<Rightarrow> ('t, 'g) gcir_acc ev" where
  "gcir_record en op factory create_hash entity name acc s =
     (let hashed_name = hash_util_hash (en_ext en) name (get_hash_algorithm op);
          (r1, memo) = hash_exposures_of_result (en_ext en) (get_hash_algorithm op) (st_result s) (ga_memo acc);
          (eval, r2, tables) = factory entity hashed_name r1 (ga_tables acc)
      in Ok \<lparr>ga_results = hm_insert hashed_name eval (ga_results acc),
             ga_hashes = (if wants_hash op then ga_hashes acc @ [create_hash eval name] else ga_hashes acc),
             ga_memo = memo, ga_tables = tables\<rparr> (s\<lparr>st_result := r2\<rparr>))"

definition gcir_process_spec ::
    "eval_env \<Rightarrow> nat \<Rightarrow> client_init_options \<Rightarrow> (spec \<Rightarrow> spec_type) \<Rightarrow> ('t, 'g) eval_factory \<Rightarrow> ('t \<Rightarrow> string \<Rightarrow> u64) \<Rightarrow>
     (string, spec) HashMap \<Rightarrow> string \<Rightarrow> ('t, 'g) gcir_acc \<Rightarrow> ('t, 'g) gcir_acc ev" where
  "gcir_process_spec en fuel op get_spec_type factory create_hash specs_map name acc =
     (case hm_get specs_map name of
        None \<Rightarrow> ev_return acc
      | Some sp \<Rightarrow>
          if is_skipped_spec en op name sp then ev_return acc
          else
            ev_bind reset_result (\<lambda>_.
            ev_bind (evaluate en fuel name (get_spec_type sp)) (\<lambda>_.
            ev_bind (ev_get st_result) (\<lambda>r.
              if is_removed_default_gate op sp r \<or> is_removed_layer_experiment op sp r then ev_return acc
              else gcir_record en op factory create_hash (sp_entity sp) name acc))))"

fun gcir_process_names ::
    "eval_env \<Rightarrow> nat \<Rightarrow> client_init_options \<Rightarrow> (spec \<Rightarrow> spec_type) \<Rightarrow> ('t, 'g) eval_factory \<Rightarrow> ('t \<Rightarrow> string \<Rightarrow> u64) \<Rightarrow>
     (string, spec) HashMap \<Rightarrow> string list \<Rightarrow> ('t, 'g) gcir_acc \<Rightarrow> ('t, 'g) gcir_acc ev" where
  "gcir_process_names en fuel op get_spec_type factory create_hash specs_map [] acc = ev_return acc"
| "gcir_process_names en fuel op get_spec_type factory create_hash specs_map (name # names) acc =
     ev_bind (gcir_process_spec en fuel op get_spec_type factory create_hash specs_map name acc)
       (gcir_process_names en fuel op get_spec_type factory create_hash specs_map names)"

text \<open>The results with the memo, the tables and the context's hashes afterwards.\<close>

definition gcir_process_iter ::
    "eval_env \<Rightarrow> nat \<Rightarrow> client_init_options \<Rightarrow> (spec \<Rightarrow> spec_type) \<Rightarrow> ('t, 'g) eval_factory \<Rightarrow> ('t \<Rightarrow> string \<Rightarrow> u64) \<Rightarrow>
     (string, spec) HashMap \<Rightarrow> name_memo \<Rightarrow> 'g \<Rightarrow> u64 list \<Rightarrow> ((string, 't) HashMap \<times> name_memo \<times> 'g \<times> u64 list) ev" where
  "gcir_process_iter en fuel op get_spec_type factory create_hash specs_map memo tables gcir_hashes =
     (let ks = hm_keys specs_map; names = (if wants_hash op then sort_names ks else ks)
      in ev_bind (gcir_process_names en fuel op get_spec_type factory create_hash specs_map names
             \<lparr>ga_results = [], ga_hashes = [], ga_memo = memo, ga_tables = tables\<rparr>)
         (\<lambda>acc. ev_return (ga_results acc, ga_memo acc, ga_tables acc,
            if wants_hash op then gcir_hashes @ [x_hash_one (en_ext en) (ga_hashes acc)] else gcir_hashes)))"

section \<open>Gates\<close>

definition drop_id_type :: "client_init_options \<Rightarrow> bool" where
  "drop_id_type op = opt_default False (io_remove_id_type op)"

definition get_gate_spec_type :: "spec \<Rightarrow> spec_type" where
  "get_gate_spec_type sp = Gate"

definition gate_factory :: "client_init_options \<Rightarrow> (gate_evaluation, 'g) eval_factory" where
  "gate_factory op entity hashed_name r g =
     (let (res, r1) = result_to_gate_eval hashed_name r
      in (if drop_id_type op then res\<lparr>ge_id_type := None\<rparr> else res, r1, g))"

definition get_gate_evaluations ::
    "eval_env \<Rightarrow> nat \<Rightarrow> client_init_options \<Rightarrow> name_memo \<Rightarrow> u64 list \<Rightarrow>
     ((string, gate_evaluation) HashMap \<times> name_memo \<times> unit \<times> u64 list) ev" where
  "get_gate_evaluations en fuel op memo gcir_hashes =
     gcir_process_iter en fuel op get_gate_spec_type (gate_factory op) (gate_evaluation_hash (en_ext en))
       (sr_feature_gates (en_specs_data en)) memo () gcir_hashes"

type_synonym exposure_map = "(string, secondary_exposure) HashMap"

definition gate_factory_v2 :: "ext \<Rightarrow> client_init_options \<Rightarrow> (gate_evaluation_v2, exposure_map) eval_factory" where
  "gate_factory_v2 x op entity hashed_name r exposures =
     (let exposures1 = stringify_sec_exposures x (er_secondary_exposures r) exposures;
          (res, r1) = result_to_gate_eval_v2 x hashed_name r
      in (if drop_id_type op then res\<lparr>g2_id_type := None\<rparr> else res, r1, exposures1))"

definition get_gate_evaluations_v2 ::
    "eval_env \<Rightarrow> nat \<Rightarrow> client_init_options \<Rightarrow> name_memo \<Rightarrow> exposure_map \<Rightarrow> u64 list \<Rightarrow>
     ((string, gate_evaluation_v2) HashMap \<times> name_memo \<times> exposure_map \<times> u64 list) ev" where
  "get_gate_evaluations_v2 en fuel op memo exposures gcir_hashes =
     gcir_process_iter en fuel op get_gate_spec_type (gate_factory_v2 (en_ext en) op) (gate_evaluation_v2_hash (en_ext en))
       (sr_feature_gates (en_specs_data en)) memo exposures gcir_hashes"

text \<open>The tables of the third format: exposures, and values.\<close>

type_synonym init_tables = "exposure_table \<times> value_table"

definition gate_factory_init_v2 :: "ext \<Rightarrow> client_init_options \<Rightarrow> (gate_evaluation_init_v2, init_tables) eval_factory" where
  "gate_factory_init_v2 x op entity hashed_name r tables =
     (let (res, r1, t) = result_to_gate_eval_init_v2 x r (fst tables)
      in (if drop_id_type op then res\<lparr>gi_id_type := None\<rparr> else res, r1, (t, snd tables)))"

definition get_gate_evaluations_init_v2 ::
    "eval_env \<Rightarrow> nat \<Rightarrow> client_init_options \<Rightarrow> init_tables \<Rightarrow> u64 list \<Rightarrow>
     ((string, gate_evaluation_init_v2) HashMap \<times> name_memo \<times> init_tables \<times> u64 list) ev" where
  "get_gate_evaluations_init_v2 en fuel op tables gcir_hashes =
     gcir_process_iter en fuel op get_gate_spec_type (gate_factory_init_v2 (en_ext en) op)
       (gate_evaluation_init_v2_hash (en_ext en)) (sr_feature_gates (en_specs_data en)) [] tables gcir_hashes"

section \<open>Configs and experiments\<close>

definition get_dynamic_config_type :: "spec \<Rightarrow> spec_type" where
  "get_dynamic_config_type sp = (if sp_entity sp = ''dynamic_config'' then DynamicConfig else Experiment)"

text \<open>
  One round of the loops over the contextual bandits. An error of the evaluation is ignored. The third
  format does not hash the exposures (\<open>hash_expos\<close>), and no round adds to the checksum.
\<close>

definition cmab_record ::
    "eval_env \<Rightarrow> client_init_options \<Rightarrow> bool \<Rightarrow> ('t, 'g) eval_factory \<Rightarrow> string \<Rightarrow>
     (string, 't) HashMap \<times> name_memo \<times> 'g \<Rightarrow> ((string, 't) HashMap \<times> name_memo \<times> 'g) ev" where
  "cmab_record en op hash_expos factory config_name acc s =
     (let (results, memo, tables) = acc;
          hashed_name = hash_util_hash (en_ext en) config_name (get_hash_algorithm op);
          (r1, memo1) = (if hash_expos
             then hash_exposures_of_result (en_ext en) (get_hash_algorithm op) (st_result s) memo else (st_result s, memo));
          (eval, r2, tables1) = factory ''autotune'' hashed_name r1 tables
      in Ok (hm_insert hashed_name eval results, memo1, tables1) (s\<lparr>st_result := r2\<rparr>))"

definition gcir_process_cmab ::
    "eval_env \<Rightarrow> nat \<Rightarrow> client_init_options \<Rightarrow> bool \<Rightarrow> ('t, 'g) eval_factory \<Rightarrow> (string, cmab_config) HashMap \<Rightarrow> string \<Rightarrow>
     (string, 't) HashMap \<times> name_memo \<times> 'g \<Rightarrow> ((string, 't) HashMap \<times> name_memo \<times> 'g) ev" where
  "gcir_process_cmab en fuel op hash_expos factory cmab_configs config_name acc =
     (if excludes (io_experiment_filter op) config_name then ev_return acc
      else if should_filter_config_for_app
          (case hm_get cmab_configs config_name of Some c \<Rightarrow> cb_target_app_ids c | None \<Rightarrow> None) (en_app_id en) op
      then ev_return acc
      else
        ev_bind reset_result (\<lambda>_.
        ev_bind (ev_match (evaluate en fuel config_name Experiment) (\<lambda>_. ev_return ()) (ev_return ())) (\<lambda>_.
          cmab_record en op hash_expos factory config_name acc)))"

fun gcir_process_cmabs ::
    "eval_env \<Rightarrow> nat \<Rightarrow> client_init_options \<Rightarrow> bool \<Rightarrow> ('t, 'g) eval_factory \<Rightarrow> (string, cmab_config) HashMap \<Rightarrow> string list \<Rightarrow>
     (string, 't) HashMap \<times> name_memo \<times> 'g \<Rightarrow> ((string, 't) HashMap \<times> name_memo \<times> 'g) ev" where
  "gcir_process_cmabs en fuel op hash_expos factory cmab_configs [] acc = ev_return acc"
| "gcir_process_cmabs en fuel op hash_expos factory cmab_configs (n # ns) acc =
     ev_bind (gcir_process_cmab en fuel op hash_expos factory cmab_configs n acc)
       (gcir_process_cmabs en fuel op hash_expos factory cmab_configs ns)"

text \<open>The specs of the configs, and then the bandits.\<close>

definition process_configs ::
    "eval_env \<Rightarrow> nat \<Rightarrow> client_init_options \<Rightarrow> bool \<Rightarrow> ('t, 'g) eval_factory \<Rightarrow> ('t \<Rightarrow> string \<Rightarrow> u64) \<Rightarrow>
     name_memo \<Rightarrow> 'g \<Rightarrow> u64 list \<Rightarrow> ((string, 't) HashMap \<times> name_memo \<times> 'g \<times> u64 list) ev" where
  "process_configs en fuel op hash_expos factory create_hash memo tables gcir_hashes =
     ev_bind (gcir_process_iter en fuel op get_dynamic_config_type factory create_hash
         (sr_dynamic_configs (en_specs_data en)) memo tables gcir_hashes) (\<lambda>(results, memo1, tables1, gcir_hashes1).
       case sr_cmab_configs (en_specs_data en) of
         None \<Rightarrow> ev_return (results, memo1, tables1, gcir_hashes1)
       | Some cmab_configs \<Rightarrow>
           ev_bind (gcir_process_cmabs en fuel op hash_expos factory cmab_configs (hm_keys cmab_configs) (results, memo1, tables1))
             (\<lambda>(results1, memo2, tables2). ev_return (results1, memo2, tables2, gcir_hashes1)))"

definition config_factory :: "client_init_options \<Rightarrow> (any_config_evaluation, 'g) eval_factory" where
  "config_factory op entity hashed_name r g =
     (if entity = ''dynamic_config''
      then (let (res, r1) = result_to_dynamic_config_eval hashed_name r
            in (ConfigDynamicConfig (if drop_id_type op then res\<lparr>ce_id_type := None\<rparr> else res), r1, g))
      else (let (evaluation, r1) = result_to_experiment_eval hashed_name (Some entity) r;
                e1 = (if drop_id_type op then evaluation\<lparr>xe_id_type := None\<rparr> else evaluation)
            in (ConfigExperiment (e1\<lparr>xe_undelegated_secondary_exposures := None\<rparr>), r1, g)))"

definition get_dynamic_config_evaluations ::
    "eval_env \<Rightarrow> nat \<Rightarrow> client_init_options \<Rightarrow> name_memo \<Rightarrow> u64 list \<Rightarrow>
     ((string, any_config_evaluation) HashMap \<times> name_memo \<times> unit \<times> u64 list) ev" where
  "get_dynamic_config_evaluations en fuel op memo gcir_hashes =
     process_configs en fuel op True (config_factory op) (any_config_evaluation_hash (en_ext en)) memo () gcir_hashes"

definition config_factory_v2 :: "ext \<Rightarrow> client_init_options \<Rightarrow> (any_config_evaluation_v2, exposure_map) eval_factory" where
  "config_factory_v2 x op entity hashed_name r exposures =
     (let exposures1 = stringify_sec_exposures x (er_secondary_exposures r) exposures
      in if entity = ''dynamic_config''
         then (let (res, r1) = result_to_dynamic_config_eval_v2 x hashed_name r
               in (ConfigDynamicConfigV2 (if drop_id_type op then res\<lparr>c2_id_type := None\<rparr> else res), r1, exposures1))
         else (let (evaluation, r1) = result_to_experiment_eval_v2 x hashed_name (Some entity) r;
                   e1 = evaluation\<lparr>x2_undelegated_secondary_exposures := None\<rparr>
               in (ConfigExperimentV2 (if drop_id_type op then e1\<lparr>x2_id_type := None\<rparr> else e1), r1, exposures1)))"

definition get_dynamic_config_evaluations_v2 ::
    "eval_env \<Rightarrow> nat \<Rightarrow> client_init_options \<Rightarrow> name_memo \<Rightarrow> exposure_map \<Rightarrow> u64 list \<Rightarrow>
     ((string, any_config_evaluation_v2) HashMap \<times> name_memo \<times> exposure_map \<times> u64 list) ev" where
  "get_dynamic_config_evaluations_v2 en fuel op memo exposures gcir_hashes =
     process_configs en fuel op True (config_factory_v2 (en_ext en) op) (any_config_evaluation_v2_hash (en_ext en))
       memo exposures gcir_hashes"

definition config_factory_init_v2 :: "ext \<Rightarrow> client_init_options \<Rightarrow> (any_config_evaluation_init_v2, init_tables) eval_factory" where
  "config_factory_init_v2 x op entity hashed_name r tables =
     (let (t, vt) = tables
      in if entity = ''dynamic_config''
         then (let (res, r1, t1, vt1) = result_to_dynamic_config_eval_init_v2 x r t vt
               in (ConfigDynamicConfigInitV2 (if drop_id_type op then res\<lparr>ci_id_type := None\<rparr> else res), r1, (t1, vt1)))
         else (let (evaluation, r1, t1, vt1) = result_to_experiment_eval_init_v2 x (Some entity) r t vt
               in (ConfigExperimentInitV2 (if drop_id_type op then evaluation\<lparr>ei_id_type := None\<rparr> else evaluation), r1, (t1, vt1))))"

definition get_dynamic_config_evaluations_init_v2 ::
    "eval_env \<Rightarrow> nat \<Rightarrow> client_init_options \<Rightarrow> init_tables \<Rightarrow> u64 list \<Rightarrow>
     ((string, any_config_evaluation_init_v2) HashMap \<times> name_memo \<times> init_tables \<times> u64 list) ev" where
  "get_dynamic_config_evaluations_init_v2 en fuel op tables gcir_hashes =
     process_configs en fuel op False (config_factory_init_v2 (en_ext en) op) (any_config_evaluation_init_v2_hash (en_ext en))
       [] tables gcir_hashes"

section \<open>Layers\<close>

definition get_layer_spec_type :: "spec \<Rightarrow> spec_type" where
  "get_layer_spec_type sp = Layer"

definition try_hash_allocated_experiment_name :: "ext \<Rightarrow> client_init_options \<Rightarrow> string option \<Rightarrow> string option" where
  "try_hash_allocated_experiment_name x op name = map_option (\<lambda>n. hash_util_hash x n (get_hash_algorithm op)) name"

definition layer_factory :: "ext \<Rightarrow> client_init_options \<Rightarrow> (layer_evaluation, 'g) eval_factory" where
  "layer_factory x op entity hashed_name r g =
     (let (eval, r1) = result_to_layer_eval hashed_name r;
          e1 = eval\<lparr>le_allocated_experiment_name := try_hash_allocated_experiment_name x op (le_allocated_experiment_name eval)\<rparr>
      in (if drop_id_type op then e1\<lparr>le_id_type := None\<rparr> else e1, r1, g))"

definition get_layer_evaluations ::
    "eval_env \<Rightarrow> nat \<Rightarrow> client_init_options \<Rightarrow> name_memo \<Rightarrow> u64 list \<Rightarrow>
     ((string, layer_evaluation) HashMap \<times> name_memo \<times> unit \<times> u64 list) ev" where
  "get_layer_evaluations en fuel op memo gcir_hashes =
     gcir_process_iter en fuel op get_layer_spec_type (layer_factory (en_ext en) op) (layer_evaluation_hash (en_ext en))
       (sr_layer_configs (en_specs_data en)) memo () gcir_hashes"

definition layer_factory_v2 :: "ext \<Rightarrow> client_init_options \<Rightarrow> (layer_evaluation_v2, exposure_map) eval_factory" where
  "layer_factory_v2 x op entity hashed_name r exposures =
     (let exposures1 = stringify_sec_exposures x (er_secondary_exposures r) exposures;
          exposures2 = (case er_undelegated_secondary_exposures r of
              Some u \<Rightarrow> stringify_sec_exposures x u exposures1 | None \<Rightarrow> exposures1);
          (eval, r1) = result_to_layer_eval_v2 x hashed_name r;
          e1 = eval\<lparr>l2_allocated_experiment_name := try_hash_allocated_experiment_name x op (l2_allocated_experiment_name eval)\<rparr>
      in (if drop_id_type op then e1\<lparr>l2_id_type := None\<rparr> else e1, r1, exposures2))"

definition get_layer_evaluations_v2 ::
    "eval_env \<Rightarrow> nat \<Rightarrow> client_init_options \<Rightarrow> name_memo \<Rightarrow> exposure_map \<Rightarrow> u64 list \<Rightarrow>
     ((string, layer_evaluation_v2) HashMap \<times> name_memo \<times> exposure_map \<times> u64 list) ev" where
  "get_layer_evaluations_v2 en fuel op memo exposures gcir_hashes =
     gcir_process_iter en fuel op get_layer_spec_type (layer_factory_v2 (en_ext en) op) (layer_evaluation_v2_hash (en_ext en))
       (sr_layer_configs (en_specs_data en)) memo exposures gcir_hashes"

definition layer_factory_init_v2 :: "ext \<Rightarrow> client_init_options \<Rightarrow> (layer_evaluation_init_v2, init_tables) eval_factory" where
  "layer_factory_init_v2 x op entity hashed_name r tables =
     (let (eval, r1, t, vt) = result_to_layer_eval_init_v2 x r (fst tables) (snd tables);
          e1 = eval\<lparr>li_allocated_experiment_name := try_hash_allocated_experiment_name x op (li_allocated_experiment_name eval)\<rparr>
      in (if drop_id_type op then e1\<lparr>li_id_type := None\<rparr> else e1, r1, (t, vt)))"

definition get_layer_evaluations_init_v2 ::
    "eval_env \<Rightarrow> nat \<Rightarrow> client_init_options \<Rightarrow> init_tables \<Rightarrow> u64 list \<Rightarrow>
     ((string, layer_evaluation_init_v2) HashMap \<times> name_memo \<times> init_tables \<times> u64 list) ev" where
  "get_layer_evaluations_init_v2 en fuel op tables gcir_hashes =
     gcir_process_iter en fuel op get_layer_spec_type (layer_factory_init_v2 (en_ext en) op)
       (layer_evaluation_init_v2_hash (en_ext en)) (sr_layer_configs (en_specs_data en)) [] tables gcir_hashes"

section \<open>Parameter stores\<close>

text \<open>A parameter under its name, with the name of what it refers to hashed.\<close>

fun exported_parameter :: "ext \<Rightarrow> hash_algorithm \<Rightarrow> string \<Rightarrow> parameter \<Rightarrow> parameter" where
  "exported_parameter x alg param_name (StaticValueParameter n rt pt v) = StaticValueParameter (Some param_name) rt pt v"
| "exported_parameter x alg param_name (GateParameter n rt pt gate pass fail) =
     GateParameter (Some param_name) rt pt (hash_util_hash x gate alg) pass fail"
| "exported_parameter x alg param_name (DynamicConfigParameter n rt pt config param) =
     DynamicConfigParameter (Some param_name) rt pt (hash_util_hash x config alg) param"
| "exported_parameter x alg param_name (ExperimentParameter n rt pt experiment param) =
     ExperimentParameter (Some param_name) rt pt (hash_util_hash x experiment alg) param"
| "exported_parameter x alg param_name (LayerParameter n rt pt layer param) =
     LayerParameter (Some param_name) rt pt (hash_util_hash x layer alg) param"

definition get_parameters_from_store :: "ext \<Rightarrow> parameter_store \<Rightarrow> hash_algorithm \<Rightarrow> (string, parameter) HashMap" where
  "get_parameters_from_store x store hash_used =
     foldl (\<lambda>m (param_name, param). hm_insert param_name (exported_parameter x hash_used param_name param) m) []
       (ps_parameters store)"

fun export_stores ::
    "eval_env \<Rightarrow> client_init_options \<Rightarrow> (string \<times> parameter_store) list \<Rightarrow> (string, (string, parameter) HashMap) HashMap \<Rightarrow> u64 list \<Rightarrow>
     (string, (string, parameter) HashMap) HashMap \<times> u64 list" where
  "export_stores en op [] param_stores hash_array = (param_stores, hash_array)"
| "export_stores en op ((name, store) # stores) param_stores hash_array =
     (if should_filter_config_for_app (ps_target_app_ids store) (en_app_id en) op then export_stores en op stores param_stores hash_array
      else if excludes (io_param_store_filter op) name then export_stores en op stores param_stores hash_array
      else export_stores en op stores
        (hm_insert (hash_util_hash (en_ext en) name (get_hash_algorithm op))
           (get_parameters_from_store (en_ext en) store (get_hash_algorithm op)) param_stores)
        (if wants_hash op then hash_array @ [parameter_store_hash (en_ext en) store name] else hash_array))"

definition get_serializeable_param_stores ::
    "eval_env \<Rightarrow> client_init_options \<Rightarrow> u64 list \<Rightarrow> (string, (string, parameter) HashMap) HashMap \<times> u64 list" where
  "get_serializeable_param_stores en op gcir_hashes =
     (case sr_param_stores (en_specs_data en) of
        None \<Rightarrow> ([], if wants_hash op then gcir_hashes @ [0] else gcir_hashes)
      | Some stores \<Rightarrow>
          (let (param_stores, hash_array) = export_stores en op stores [] []
           in (param_stores, if wants_hash op then gcir_hashes @ [x_hash_one (en_ext en) hash_array] else gcir_hashes)))"

end
