(* ===== verification/Client_Init_Response.thy ===== *)
theory Client_Init_Response
  imports Client_Init
begin

text \<open>
  The assembly of the client initialize responses, \<open>src/statsig-rust/src/gcir/gcir_formatter.rs\<close>, with the types of
  \<open>initialize_response.rs\<close>, \<open>initialize_evaluations_response.rs\<close> and \<open>initialize_v2_response.rs\<close>, and the methods of
  \<open>statsig.rs\<close> that give them to the host.
\<close>

section \<open>Session replay\<close>

record gcir_session_replay_info =
  rr_can_record_session :: "bool option"
  rr_session_recording_rate :: "f64 option"
  rr_recording_blocked :: "bool option"
  rr_passes_targeting :: "bool option"
  rr_event_triggers :: "(string, session_replay_trigger) HashMap option"
  rr_exposure_triggers :: "(string, session_replay_trigger) HashMap option"
  rr_privacy_settings :: "session_replay_privacy_setting option"

definition no_session_replay :: gcir_session_replay_info where
  "no_session_replay = \<lparr>rr_can_record_session = None, rr_session_recording_rate = None, rr_recording_blocked = None,
     rr_passes_targeting = None, rr_event_triggers = None, rr_exposure_triggers = None, rr_privacy_settings = None\<rparr>"

definition session_replay_info_hash :: "ext \<Rightarrow> gcir_session_replay_info \<Rightarrow> u64" where
  "session_replay_info_hash x i =
     x_hash_one x [opt_bool_to_hashable (rr_can_record_session i), opt_bool_to_hashable (rr_recording_blocked i),
       opt_bool_to_hashable (rr_passes_targeting i)]"

definition session_replay_trigger_hash :: "ext \<Rightarrow> session_replay_trigger \<Rightarrow> string \<Rightarrow> u64" where
  "session_replay_trigger_hash x t name =
     x_hash_one x ([interned_hash x name, opt_bool_to_hashable (rt_passes_sampling t)] @
       (case rt_values t of Some vs \<Rightarrow> map (interned_hash x) vs | None \<Rightarrow> []))"

definition sampled_trigger :: "f64 \<Rightarrow> session_replay_trigger \<Rightarrow> session_replay_trigger" where
  "sampled_trigger random trigger =
     \<lparr>rt_sampling_rate = None, rt_values = rt_values trigger,
      rt_passes_sampling = map_option (\<lambda>rate. f64_le random rate) (rt_sampling_rate trigger)\<rparr>"

text \<open>The triggers under the given form of their key, and what they add to the checksum.\<close>

definition sampled_triggers ::
    "ext \<Rightarrow> client_init_options \<Rightarrow> (string \<Rightarrow> string) \<Rightarrow> f64 \<Rightarrow> (string, session_replay_trigger) HashMap option \<Rightarrow>
     (string, session_replay_trigger) HashMap option \<times> u64 list" where
  "sampled_triggers x op key_of random triggers =
     (case triggers of
        None \<Rightarrow> (None, [])
      | Some ts \<Rightarrow>
          (Some (foldl (\<lambda>m (key, t). hm_insert (key_of key) (sampled_trigger random t) m) [] ts),
           if wants_hash op then map (\<lambda>(key, t). session_replay_trigger_hash x (sampled_trigger random t) key) ts else []))"

definition replay_targeting :: "eval_env \<Rightarrow> nat \<Rightarrow> string option \<Rightarrow> gcir_session_replay_info \<Rightarrow> gcir_session_replay_info ev" where
  "replay_targeting en fuel targeting_gate info =
     (case targeting_gate of
        None \<Rightarrow> ev_return info
      | Some gate_name \<Rightarrow>
          ev_match (evaluate en fuel gate_name Gate)
            (\<lambda>_. ev_bind ev_bool (\<lambda>b.
               ev_return (if b then info\<lparr>rr_passes_targeting := Some True\<rparr>
                          else info\<lparr>rr_passes_targeting := Some False, rr_can_record_session := Some False\<rparr>)))
            (ev_return (info\<lparr>rr_passes_targeting := Some False, rr_can_record_session := Some False\<rparr>)))"

definition replay_sampling :: "f64 \<Rightarrow> f64 option \<Rightarrow> gcir_session_replay_info \<Rightarrow> gcir_session_replay_info" where
  "replay_sampling random sampling_rate info =
     (case sampling_rate of
        None \<Rightarrow> info
      | Some rate \<Rightarrow>
          (let i1 = info\<lparr>rr_session_recording_rate := Some rate\<rparr>
           in if f64_less rate random then i1\<lparr>rr_can_record_session := Some False\<rparr> else i1))"

definition get_session_replay_info ::
    "eval_env \<Rightarrow> nat \<Rightarrow> client_init_options \<Rightarrow> u64 list \<Rightarrow> (gcir_session_replay_info \<times> u64 list) ev" where
  "get_session_replay_info en fuel op gcir_hashes =
     (case sr_session_replay_info (en_specs_data en) of
        None \<Rightarrow> ev_return (no_session_replay, gcir_hashes @ [0])
      | Some d \<Rightarrow>
          (let i0 = no_session_replay\<lparr>rr_recording_blocked := ri_recording_blocked d,
                 rr_can_record_session := Some (ri_recording_blocked d \<noteq> Some True)\<rparr>
           in ev_bind (replay_targeting en fuel (ri_targeting_gate d) i0) (\<lambda>i1.
              ev_bind (ev_random en) (\<lambda>random.
                (let x = en_ext en;
                     i2 = replay_sampling random (ri_sampling_rate d) i1;
                     (events, event_hashes) = sampled_triggers x op (\<lambda>k. k) random (ri_event_triggers d);
                     (exposures, exposure_hashes) =
                       sampled_triggers x op (\<lambda>k. hash_util_hash x k (get_hash_algorithm op)) random (ri_exposure_triggers d);
                     i3 = i2\<lparr>rr_event_triggers := events, rr_exposure_triggers := exposures\<rparr>;
                     combined = [session_replay_info_hash x i3, x_hash_one x event_hashes, x_hash_one x exposure_hashes]
                 in ev_return (i3\<lparr>rr_privacy_settings := ri_privacy_settings d\<rparr>,
                      if wants_hash op then gcir_hashes @ [x_hash_one x combined] else gcir_hashes))))))"

section \<open>Responses\<close>

record evaluated_keys =
  ek_user_id :: "string option"
  ek_custom_ids :: "(string, string) HashMap option"

definition evaluated_keys_default :: evaluated_keys where
  "evaluated_keys_default = \<lparr>ek_user_id = None, ek_custom_ids = None\<rparr>"

definition evaluated_keys_from_user :: "user_data \<Rightarrow> evaluated_keys" where
  "evaluated_keys_from_user user =
     \<lparr>ek_user_id = (case ud_user_id user of
          None \<Rightarrow> None
        | Some u \<Rightarrow> (case dv_string u of None \<Rightarrow> None | Some s \<Rightarrow> (if ds_value s = [] then None else Some (ds_value s)))),
      ek_custom_ids = (case ud_custom_ids user of
          None \<Rightarrow> None
        | Some c \<Rightarrow>
            (let ids = foldl (\<lambda>m (key, v). hm_insert key (case dv_string v of Some s \<Rightarrow> ds_value s | None \<Rightarrow> []) m) [] c
             in if ids = [] then None else Some ids))\<rparr>"

text \<open>The fields the three responses share; the default of a loggable user is the one of the empty user.\<close>

record init_response_base =
  ir_time :: u64
  ir_has_updates :: bool
  ir_hash_used :: string
  ir_user :: loggable_user
  ir_sdk_info :: "(string, string) HashMap"
  ir_sdk_params :: "(string, string) HashMap"
  ir_evaluated_keys :: evaluated_keys
  ir_param_stores :: "(string, (string, parameter) HashMap) HashMap"
  ir_session_replay :: gcir_session_replay_info
  ir_pa_hash :: "string option"

record initialize_response = init_response_base +
  ir_feature_gates :: "(string, gate_evaluation) HashMap"
  ir_dynamic_configs :: "(string, any_config_evaluation) HashMap"
  ir_layer_configs :: "(string, layer_evaluation) HashMap"
  ir_full_checksum :: "string option"

record initialize_evaluations_response = init_response_base +
  ie_feature_gates :: "(string, gate_evaluation_v2) HashMap"
  ie_dynamic_configs :: "(string, any_config_evaluation_v2) HashMap"
  ie_layer_configs :: "(string, layer_evaluation_v2) HashMap"
  ie_exposures :: exposure_map

record initialize_v2_response = init_response_base +
  iv_feature_gates :: "(string, gate_evaluation_init_v2) HashMap"
  iv_dynamic_configs :: "(string, any_config_evaluation_init_v2) HashMap"
  iv_layer_configs :: "(string, layer_evaluation_init_v2) HashMap"
  iv_exposures :: exposure_map
  iv_values :: "(string, dynamic_returnable) HashMap"
  iv_response_format :: string

definition blank_base :: "loggable_user \<Rightarrow> string option \<Rightarrow> init_response_base" where
  "blank_base user pa_hash =
     \<lparr>ir_time = 0, ir_has_updates = False, ir_hash_used = [], ir_user = user, ir_sdk_info = [], ir_sdk_params = [],
      ir_evaluated_keys = evaluated_keys_default, ir_param_stores = [], ir_session_replay = no_session_replay,
      ir_pa_hash = pa_hash\<rparr>"

definition blank_v1 :: "statsig_user_internal \<Rightarrow> initialize_response" where
  "blank_v1 user =
     init_response_base.extend (blank_base (to_loggable user) (get_hashed_private_attributes (su_data user)))
       (initialize_response.fields [] [] [] None)"

definition loggable_default :: loggable_user where
  "loggable_default = \<lparr>lu_data = ud_default, lu_environment = None, lu_global_custom = None\<rparr>"

definition blank_without_user :: initialize_response where
  "blank_without_user = init_response_base.extend (blank_base loggable_default None) (initialize_response.fields [] [] [] None)"

definition blank_v2 :: "statsig_user_internal \<Rightarrow> initialize_evaluations_response" where
  "blank_v2 user =
     init_response_base.extend (blank_base (to_loggable user) None) (initialize_evaluations_response.fields [] [] [] [])"

definition blank_init_v2 :: "statsig_user_internal \<Rightarrow> initialize_v2_response" where
  "blank_init_v2 user =
     init_response_base.extend (blank_base (to_loggable user) None) (initialize_v2_response.fields [] [] [] [] [] ''init-v2'')"

section \<open>The three formats\<close>

definition get_sdk_info :: "statsig_metadata \<Rightarrow> (string, string) HashMap" where
  "get_sdk_info meta =
     [(''sdkType'', sm_sdk_type meta), (''sdkVersion'', sm_sdk_version meta), (''sessionId'', sm_session_id meta)]"

definition response_base ::
    "eval_env \<Rightarrow> statsig_metadata \<Rightarrow> client_init_options \<Rightarrow> (string, (string, parameter) HashMap) HashMap \<Rightarrow>
     gcir_session_replay_info \<Rightarrow> init_response_base" where
  "response_base en meta op param_stores replay =
     \<lparr>ir_time = sr_time (en_specs_data en), ir_has_updates = True, ir_hash_used = hash_algorithm_to_string (get_hash_algorithm op),
      ir_user = to_loggable (en_user en), ir_sdk_info = get_sdk_info meta, ir_sdk_params = [],
      ir_evaluated_keys = evaluated_keys_from_user (su_data (en_user en)), ir_param_stores = param_stores,
      ir_session_replay = replay, ir_pa_hash = get_hashed_private_attributes (su_data (en_user en))\<rparr>"

definition full_response_hash :: "ext \<Rightarrow> u64 list \<Rightarrow> string" where
  "full_response_hash x gcir_hashes = u64_to_string (x_hash_one x gcir_hashes)"

definition generate_v1_format :: "eval_env \<Rightarrow> nat \<Rightarrow> statsig_metadata \<Rightarrow> client_init_options \<Rightarrow> initialize_response ev" where
  "generate_v1_format en fuel meta op =
     ev_bind (get_gate_evaluations en fuel op [] []) (\<lambda>(gates, memo1, _, gh1).
     ev_bind (get_dynamic_config_evaluations en fuel op memo1 gh1) (\<lambda>(configs, memo2, _, gh2).
     ev_bind (get_layer_evaluations en fuel op memo2 gh2) (\<lambda>(layers, _, _, gh3).
       (let (param_stores, gh4) = get_serializeable_param_stores en op gh3
        in ev_bind (get_session_replay_info en fuel op gh4) (\<lambda>(replay, gh5).
             (let respond = (\<lambda>checksum. init_response_base.extend (response_base en meta op param_stores replay)
                     (initialize_response.fields gates configs layers checksum))
              in case io_previous_response_hash op of
                   None \<Rightarrow> ev_return (respond None)
                 | Some previous_full_hash \<Rightarrow>
                     (let new_full_hash = full_response_hash (en_ext en) gh5
                      in if previous_full_hash = new_full_hash then ev_return blank_without_user
                         else ev_return (respond (Some new_full_hash)))))))))"

definition generate_v2_format ::
    "eval_env \<Rightarrow> nat \<Rightarrow> statsig_metadata \<Rightarrow> client_init_options \<Rightarrow> initialize_evaluations_response ev" where
  "generate_v2_format en fuel meta op =
     (let (param_stores, gh1) = get_serializeable_param_stores en op []
      in ev_bind (get_session_replay_info en fuel op gh1) (\<lambda>(replay, gh2).
         ev_bind (get_gate_evaluations_v2 en fuel op [] [] gh2) (\<lambda>(gates, memo1, expos1, gh3).
         ev_bind (get_dynamic_config_evaluations_v2 en fuel op memo1 expos1 gh3) (\<lambda>(configs, memo2, expos2, gh4).
         ev_bind (get_layer_evaluations_v2 en fuel op memo2 expos2 gh4) (\<lambda>(layers, _, expos3, _).
           ev_return (init_response_base.extend (response_base en meta op param_stores replay)
             (initialize_evaluations_response.fields gates configs layers expos3)))))))"

definition generate_init_v2_format ::
    "eval_env \<Rightarrow> nat \<Rightarrow> statsig_metadata \<Rightarrow> client_init_options \<Rightarrow> initialize_v2_response ev" where
  "generate_init_v2_format en fuel meta op =
     (let (param_stores, gh1) = get_serializeable_param_stores en op []
      in ev_bind (get_session_replay_info en fuel op gh1) (\<lambda>(replay, gh2).
         ev_bind (get_gate_evaluations_init_v2 en fuel op (table_empty, table_empty) gh2) (\<lambda>(gates, _, tables1, gh3).
         ev_bind (get_dynamic_config_evaluations_init_v2 en fuel op tables1 gh3) (\<lambda>(configs, _, tables2, gh4).
         ev_bind (get_layer_evaluations_init_v2 en fuel op tables2 gh4) (\<lambda>(layers, _, tables3, _).
           ev_return (init_response_base.extend (response_base en meta op param_stores replay)
             (initialize_v2_response.fields gates configs layers (it_entries (fst tables3)) (it_entries (snd tables3))
                ''init-v2'')))))))"

section \<open>The methods of an instance\<close>

definition gcir_context :: "('c, 's) api_env \<Rightarrow> ('c, 's) statsig \<Rightarrow> statsig_user_internal \<Rightarrow> client_init_options \<Rightarrow> eval_env" where
  "gcir_context A st user op =
     create_gcir_eval_context A st user (spec_data st) (io_include_local_overrides op)
       (select_app_id_for_gcir (av_ext A) op (sd_values (spec_data st)))"

text \<open>A response, or the blank one after an error, whose text is logged and may panic.\<close>

definition response_or_blank ::
    "('c, 's) api_env \<Rightarrow> ('c, 's) statsig \<Rightarrow> 't ev \<Rightarrow> 't \<Rightarrow> ('t \<times> ('c, 's) statsig) option" where
  "response_or_blank A st generate blank =
     (case generate (st_new (sg_hashing st)) of
        Ok response s \<Rightarrow> Some (response, st\<lparr>sg_hashing := st_hash s\<rparr>)
      | Err e s \<Rightarrow> map_option (\<lambda>_. (blank, st\<lparr>sg_hashing := st_hash s\<rparr>)) (statsig_err_display (av_unicode A) e)
      | Panic \<Rightarrow> None
      | OutOfFuel \<Rightarrow> None)"

definition get_client_init_response_with_options ::
    "('c, 's) api_env \<Rightarrow> statsig_metadata \<Rightarrow> user_data \<Rightarrow> client_init_options \<Rightarrow> ('c, 's) statsig \<Rightarrow>
     (initialize_response \<times> ('c, 's) statsig) option" where
  "get_client_init_response_with_options A meta user op st =
     (let user_internal = internalize_user st user
      in if \<not> av_read A then Some (blank_v1 user_internal, st)
         else response_or_blank A st (generate_v1_format (gcir_context A st user_internal op) (av_fuel A) meta op)
                (blank_v1 user_internal))"

definition get_client_init_response ::
    "('c, 's) api_env \<Rightarrow> statsig_metadata \<Rightarrow> user_data \<Rightarrow> ('c, 's) statsig \<Rightarrow> (initialize_response \<times> ('c, 's) statsig) option" where
  "get_client_init_response A meta user st = get_client_init_response_with_options A meta user client_init_options_default st"

text \<open>The serialisers of serde; one that fails gives the empty text.\<close>

record init_serializers =
  iz_v1 :: "initialize_response \<Rightarrow> string option"
  iz_v2 :: "initialize_evaluations_response \<Rightarrow> string option"
  iz_init_v2 :: "initialize_v2_response \<Rightarrow> string option"

definition get_client_init_response_as_string ::
    "('c, 's) api_env \<Rightarrow> init_serializers \<Rightarrow> statsig_metadata \<Rightarrow> user_data \<Rightarrow> ('c, 's) statsig \<Rightarrow> (string \<times> ('c, 's) statsig) option" where
  "get_client_init_response_as_string A Z meta user st =
     map_option (\<lambda>(r, st1). (opt_default [] (iz_v1 Z r), st1)) (get_client_init_response A meta user st)"

definition stringify_gcir_response ::
    "('c, 's) api_env \<Rightarrow> ('c, 's) statsig \<Rightarrow> ('t \<Rightarrow> string option) \<Rightarrow> 't ev \<Rightarrow> 't \<Rightarrow> (string \<times> ('c, 's) statsig) option" where
  "stringify_gcir_response A st serialize generate fallback =
     map_option (\<lambda>(r, st1). (opt_default [] (serialize r), st1)) (response_or_blank A st generate fallback)"

definition get_client_init_response_with_options_as_string ::
    "('c, 's) api_env \<Rightarrow> init_serializers \<Rightarrow> statsig_metadata \<Rightarrow> user_data \<Rightarrow> client_init_options \<Rightarrow> ('c, 's) statsig \<Rightarrow>
     (string \<times> ('c, 's) statsig) option" where
  "get_client_init_response_with_options_as_string A Z meta user op st =
     (let user_internal = internalize_user st user; en = gcir_context A st user_internal op; fuel = av_fuel A
      in if \<not> av_read A then Some ([], st)
         else case io_response_format op of
             Some InitializeWithSecondaryExposureMapping \<Rightarrow>
               stringify_gcir_response A st (iz_v2 Z) (generate_v2_format en fuel meta op) (blank_v2 user_internal)
           | Some InitializeV2 \<Rightarrow>
               stringify_gcir_response A st (iz_init_v2 Z) (generate_init_v2_format en fuel meta op) (blank_init_v2 user_internal)
           | _ \<Rightarrow> stringify_gcir_response A st (iz_v1 Z) (generate_v1_format en fuel meta op) (blank_v1 user_internal))"

end
