(* ===== verification/Client_Init_Contract.thy ===== *)
theory Client_Init_Contract
  imports Client_Init_Response Api_Contract First_Match
begin

text \<open>
  What a client reads from its initialize response: the memo of hashed names is invisible, exposures carry hashed
  names only, the filters decide which names appear, and the gates have the values the server itself gives.
\<close>

section \<open>Hashed exposures\<close>

text \<open>The memo holds right hashes only.\<close>

definition memo_names :: "ext \<Rightarrow> hash_algorithm \<Rightarrow> name_memo \<Rightarrow> bool" where
  "memo_names x alg memo \<longleftrightarrow> (\<forall>g h. hm_get memo g = Some h \<longrightarrow> h = hash_util_hash x g alg)"

lemma memo_names_Nil [simp]: "memo_names x alg []"
  by (simp add: memo_names_def)

lemma memo_names_insert [simp]:
  "memo_names x alg memo \<Longrightarrow> memo_names x alg (hm_insert g (hash_util_hash x g alg) memo)"
  by (simp add: memo_names_def)

text \<open>The exposures without later duplicates, with their names hashed: what the loop computes with its memo.\<close>

fun first_exposures :: "string set \<Rightarrow> secondary_exposure list \<Rightarrow> secondary_exposure list" where
  "first_exposures seen [] = []"
| "first_exposures seen (e # es) =
     (if get_dedupe_key e \<in> seen then first_exposures seen es
      else e # first_exposures (insert (get_dedupe_key e) seen) es)"

definition hashed_exposures :: "ext \<Rightarrow> hash_algorithm \<Rightarrow> secondary_exposure list \<Rightarrow> secondary_exposure list" where
  "hashed_exposures x alg es = map (\<lambda>e. e\<lparr>se_gate := hash_util_hash x (se_gate e) alg\<rparr>) (first_exposures {} es)"

lemma first_exposures_subset: "set (first_exposures seen es) \<subseteq> set es"
  by (induction seen es rule: first_exposures.induct) auto

lemma first_exposures_distinct:
  "distinct (map get_dedupe_key (first_exposures seen es)) \<and>
   get_dedupe_key ` set (first_exposures seen es) = get_dedupe_key ` set es - seen"
  by (induction seen es rule: first_exposures.induct) auto

lemma loop_filter_n_hash_memo:
  assumes "memo_names x alg memo"
  shows "fst (loop_filter_n_hash x alg seen es memo) =
      map (\<lambda>e. e\<lparr>se_gate := hash_util_hash x (se_gate e) alg\<rparr>) (first_exposures seen es) \<and>
    memo_names x alg (snd (loop_filter_n_hash x alg seen es memo))"
  using assms
proof (induction seen es arbitrary: memo rule: first_exposures.induct)
  case (2 seen e es)
  obtain m where m: "(case hm_get memo (se_gate e) of
        Some hash \<Rightarrow> (hash, memo)
      | None \<Rightarrow> (let hash = hash_util_hash x (se_gate e) alg in (hash, hm_insert (se_gate e) hash memo)))
      = (hash_util_hash x (se_gate e) alg, m)" "memo_names x alg m"
    using 2(3) by (cases "hm_get memo (se_gate e)") (auto simp: memo_names_def Let_def)
  show ?case
  proof (cases "get_dedupe_key e \<in> seen")
    case True
    with 2 show ?thesis by simp
  next
    case False
    obtain rest m' where rest: "loop_filter_n_hash x alg (insert (get_dedupe_key e) seen) es m = (rest, m')"
      by (cases "loop_filter_n_hash x alg (insert (get_dedupe_key e) seen) es m")
    show ?thesis using 2(2) [OF False m(2)] False m(1) rest by simp
  qed
qed simp

definition hashed_result :: "ext \<Rightarrow> hash_algorithm \<Rightarrow> evaluator_result \<Rightarrow> evaluator_result" where
  "hashed_result x alg r =
     r\<lparr>er_secondary_exposures := hashed_exposures x alg (er_secondary_exposures r),
       er_undelegated_secondary_exposures := map_option (hashed_exposures x alg) (er_undelegated_secondary_exposures r)\<rparr>"

lemma hash_exposures_of_result_memo:
  assumes "memo_names x alg memo"
  shows "\<exists>m. hash_exposures_of_result x alg r memo = (hashed_result x alg r, m) \<and> memo_names x alg m"
proof -
  have step: "\<exists>m. loop_filter_n_hash x alg {} es memo = (hashed_exposures x alg es, m) \<and> memo_names x alg m"
    if "memo_names x alg memo" for es memo
    using loop_filter_n_hash_memo [OF that, of "{}" es]
    by (cases "loop_filter_n_hash x alg {} es memo") (simp add: hashed_exposures_def)
  obtain m where m: "(if er_secondary_exposures r \<noteq> [] then loop_filter_n_hash x alg {} (er_secondary_exposures r) memo else ([], memo))
      = (hashed_exposures x alg (er_secondary_exposures r), m)" "memo_names x alg m"
    using step [OF assms, of "er_secondary_exposures r"] assms by (cases "er_secondary_exposures r = []") (auto simp: hashed_exposures_def)
  show ?thesis
  proof (cases "er_undelegated_secondary_exposures r")
    case None
    with m show ?thesis by (simp add: hash_exposures_of_result_def hashed_result_def)
  next
    case (Some u)
    obtain m' where "loop_filter_n_hash x alg {} u m = (hashed_exposures x alg u, m')" "memo_names x alg m'"
      using step [OF m(2)] by blast
    with Some m show ?thesis by (simp add: hash_exposures_of_result_def hashed_result_def)
  qed
qed

section \<open>One gate\<close>

text \<open>No override answers for the gate.\<close>

definition quiet_override :: "eval_env \<Rightarrow> string \<Rightarrow> bool" where
  "quiet_override en g \<longleftrightarrow>
     (case en_override_adapter en of None \<Rightarrow> True | Some oa \<Rightarrow> (\<forall>r. oa_gate oa (su_data (en_user en)) g r = (False, r)))"

text \<open>The situations the theorems below cover: no overrides, no mappings, and conditions on the user, environment, app or unit.\<close>

definition plain_env :: "eval_env \<Rightarrow> bool" where
  "plain_env en \<longleftrightarrow>
     sr_overrides (en_specs_data en) = None \<and> \<not> en_only_evaluate_targeting en \<and> \<not> en_only_evaluate_overrides en \<and>
     (\<forall>g. quiet_override en g) \<and> (\<forall>k. direct_hash (en_ext en) k \<noteq> None) \<and>
     list_all (\<lambda>(n, sp). list_all (local_rule en) (sp_rules sp)) (sr_feature_gates (en_specs_data en))"

lemma evaluate_body_quiet:
  assumes "quiet_override en g" "sr_overrides (en_specs_data en) = None"
    and "\<not> en_only_evaluate_targeting en" "\<not> en_only_evaluate_overrides en" "find_spec en g Gate = Some sp"
  shows "evaluate_body en rec g Gate s =
    rules_loop en rec False sp (sp_rules sp) (s\<lparr>st_result := init_result g sp (st_result s)\<rparr>)"
proof -
  have "try_apply_override en g Gate (Some sp) s = Ok False s"
    using assms(1) by (auto simp: try_apply_override_def quiet_override_def split: option.splits)
  with assms(2-) show ?thesis
    by (simp add: evaluate_body_def try_shortcuts_def try_apply_config_mapping_def evaluate_cmab_def filter_active_def
        evaluate_spec_def ev_simps)
qed

lemma evaluate_memo_inv:
  assumes "memo_inv (en_ext en) (st_hash s)" "evaluate en f name st s = Ok a s'"
  shows "memo_inv (en_ext en) (st_hash s')"
  using evaluate_cache_sim [of en f name st] assms
  by (auto simp: sim_def cache_rel_def out_rel_simps dest!: spec [of _ s])

lemma plain_gate_outcome:
  assumes "plain_env en" "hm_get (sr_feature_gates (en_specs_data en)) g = Some sp"
    and "\<not> er_unsupported (st_result s)" "memo_inv (en_ext en) (st_hash s)"
  shows "\<exists>s'. evaluate en (Suc f) g Gate s = Ok Recognized s' \<and> memo_inv (en_ext en) (st_hash s') \<and>
    (let (b, i, v) = gate_decision en sp in result_decision (st_result s') = (b, Some i, Some v)) \<and>
    result_frame (st_result s') = result_frame (st_result s)"
proof -
  let ?s = "s\<lparr>st_result := init_result g sp (st_result s)\<rparr>"
  have "(g, sp) \<in> set (sr_feature_gates (en_specs_data en))" using assms(2) by (simp add: hm_get_def map_of_SomeD)
  then have "list_all (local_rule en) (sp_rules sp)" using assms(1) by (auto simp: plain_env_def list_all_iff)
  moreover have "\<not> er_unsupported (st_result ?s)" "memo_inv (en_ext en) (st_hash ?s)"
    using assms(3,4) by (simp_all add: init_result_def)
  moreover have "evaluate en (Suc f) g Gate s = rules_loop en (evaluate en f) False sp (sp_rules sp) ?s"
    using assms(1,2) by (simp add: evaluate_body_quiet plain_env_def find_spec_def)
  moreover have "result_frame (st_result ?s) = result_frame (st_result s)" by (simp add: result_frame_def init_result_def)
  ultimately obtain s' where s': "evaluate en (Suc f) g Gate s = Ok Recognized s'"
      "let (b, i, v) = gate_decision en sp in result_decision (st_result s') = (b, Some i, Some v)"
      "result_frame (st_result s') = result_frame (st_result s)"
    using rules_loop_refines [of en "sp_rules sp" ?s "evaluate en f" sp] assms(1) by (auto simp: plain_env_def gate_decision_def)
  with evaluate_memo_inv [OF assms(4) s'(1)] show ?thesis by blast
qed

section \<open>All gates\<close>

text \<open>What the response should say of a gate: nothing when it is filtered, else its value and rule.\<close>

definition served_gate :: "eval_env \<Rightarrow> client_init_options \<Rightarrow> string \<Rightarrow> spec \<Rightarrow> (bool \<times> string) option" where
  "served_gate en op name sp =
     (let (b, i, v) = gate_decision en sp
      in if is_skipped_spec en op name sp \<or>
            opt_default False (io_remove_default_value_gates op) \<and> sp_entity sp = ''feature_gate'' \<and> i = ''default'' \<and> \<not> b
         then None else Some (b, i))"

definition gate_view :: "gate_evaluation \<Rightarrow> bool \<times> string" where
  "gate_view g = (ge_value g, be_rule_id (ge_base g))"

abbreviation hashed_as :: "eval_env \<Rightarrow> client_init_options \<Rightarrow> string \<Rightarrow> string" where
  "hashed_as en op name \<equiv> hash_util_hash (en_ext en) name (get_hash_algorithm op)"

lemma gate_factory_view:
  assumes "result_decision r = (b, Some i, v)" "er_rule_id_suffix r = None"
  shows "\<exists>g r'. gate_factory op entity n (hashed_result x alg r) tb = (g, r', tb) \<and> gate_view g = (b, i)"
  using assms
  by (simp add: gate_factory_def result_to_gate_eval_def result_to_base_eval_def gate_view_def result_decision_def
      hashed_result_def create_suffixed_rule_id_def)

lemma gcir_process_gate:
  assumes "plain_env en" "hm_get (sr_feature_gates (en_specs_data en)) name = Some sp" "sp_entity sp \<noteq> ''experiment''"
    and "memo_inv (en_ext en) (st_hash s)" "memo_names (en_ext en) (get_hash_algorithm op) (ga_memo acc)"
  shows "\<exists>acc' s'. gcir_process_spec en (Suc f) op get_gate_spec_type (gate_factory op) create_hash
        (sr_feature_gates (en_specs_data en)) name acc s = Ok acc' s' \<and>
      memo_inv (en_ext en) (st_hash s') \<and> memo_names (en_ext en) (get_hash_algorithm op) (ga_memo acc') \<and>
      (case served_gate en op name sp of
         None \<Rightarrow> ga_results acc' = ga_results acc
       | Some v \<Rightarrow> (\<exists>g. ga_results acc' = hm_insert (hashed_as en op name) g (ga_results acc) \<and> gate_view g = v))"
proof (cases "is_skipped_spec en op name sp")
  case True
  with assms show ?thesis by (auto simp: gcir_process_spec_def served_gate_def ev_return_def split: prod.splits)
next
  case False
  let ?s = "s\<lparr>st_nested_count := 0, st_result := er_default\<rparr>"
  obtain b i v where decision: "gate_decision en sp = (b, i, v)" by (cases "gate_decision en sp")
  obtain s1 where s1: "evaluate en (Suc f) name Gate ?s = Ok Recognized s1" "memo_inv (en_ext en) (st_hash s1)"
      "result_decision (st_result s1) = (b, Some i, Some v)" "result_frame (st_result s1) = ([], None)"
    using plain_gate_outcome [OF assms(1,2), of ?s f] assms(4) decision by (auto simp: er_default_def result_frame_def)
  let ?removed = "is_removed_default_gate op sp (st_result s1) \<or> is_removed_layer_experiment op sp (st_result s1)"
  have removed: "?removed \<longleftrightarrow> served_gate en op name sp = None"
    using False s1(3,4) decision assms(3)
    by (auto simp: is_removed_default_gate_def is_removed_layer_experiment_def served_gate_def result_decision_def result_frame_def)
  have run: "gcir_process_spec en (Suc f) op get_gate_spec_type (gate_factory op) create_hash
      (sr_feature_gates (en_specs_data en)) name acc s =
      (if ?removed then Ok acc s1 else gcir_record en op (gate_factory op) create_hash (sp_entity sp) name acc s1)"
    using assms(2) False s1(1)
    by (simp add: gcir_process_spec_def reset_result_def get_gate_spec_type_def ev_bind_def ev_get_def ev_return_def del: evaluate.simps)
  show ?thesis
  proof (cases ?removed)
    case True
    with run removed s1(2) assms(5) show ?thesis by simp
  next
    case unfiltered: False
    obtain m where m: "hash_exposures_of_result (en_ext en) (get_hash_algorithm op) (st_result s1) (ga_memo acc)
        = (hashed_result (en_ext en) (get_hash_algorithm op) (st_result s1), m)" "memo_names (en_ext en) (get_hash_algorithm op) m"
      using hash_exposures_of_result_memo [OF assms(5)] by blast
    have "er_rule_id_suffix (st_result s1) = None" using s1(4) by (simp add: result_frame_def)
    then obtain g r' where g: "gate_factory op (sp_entity sp) (hashed_as en op name)
        (hashed_result (en_ext en) (get_hash_algorithm op) (st_result s1)) (ga_tables acc) = (g, r', ga_tables acc)" "gate_view g = (b, i)"
      using gate_factory_view [OF s1(3), where op = op and entity = "sp_entity sp" and n = "hashed_as en op name"
          and x = "en_ext en" and alg = "get_hash_algorithm op" and tb = "ga_tables acc"] by auto
    have "served_gate en op name sp = Some (b, i)"
      using unfiltered removed decision by (auto simp: served_gate_def split: if_splits)
    with run unfiltered s1(2) m g show ?thesis by (auto simp: gcir_record_def Let_def)
  qed
qed

lemma gcir_process_gates:
  assumes "plain_env en" "memo_inv (en_ext en) (st_hash s)" "memo_names (en_ext en) (get_hash_algorithm op) (ga_memo acc)"
    and "\<forall>n\<in>set names. \<exists>sp. hm_get (sr_feature_gates (en_specs_data en)) n = Some sp \<and> sp_entity sp \<noteq> ''experiment''"
    and "distinct names" "inj_on (hashed_as en op) (set names)"
    and "\<forall>n\<in>set names. hm_get (ga_results acc) (hashed_as en op n) = None"
  shows "\<exists>acc' s'. gcir_process_names en (Suc f) op get_gate_spec_type (gate_factory op) create_hash
        (sr_feature_gates (en_specs_data en)) names acc s = Ok acc' s' \<and>
      (\<forall>n\<in>set names. map_option gate_view (hm_get (ga_results acc') (hashed_as en op n)) =
         served_gate en op n (the (hm_get (sr_feature_gates (en_specs_data en)) n))) \<and>
      (\<forall>k. k \<notin> hashed_as en op ` set names \<longrightarrow> hm_get (ga_results acc') k = hm_get (ga_results acc) k)"
  using assms(2-)
proof (induction names arbitrary: acc s)
  case Nil
  then show ?case by (simp add: ev_return_def)
next
  case (Cons n ns)
  from Cons.prems(3) obtain sp where sp: "hm_get (sr_feature_gates (en_specs_data en)) n = Some sp" "sp_entity sp \<noteq> ''experiment''"
    by auto
  obtain acc1 s1 where step: "gcir_process_spec en (Suc f) op get_gate_spec_type (gate_factory op) create_hash
        (sr_feature_gates (en_specs_data en)) n acc s = Ok acc1 s1"
      "memo_inv (en_ext en) (st_hash s1)" "memo_names (en_ext en) (get_hash_algorithm op) (ga_memo acc1)"
      "case served_gate en op n sp of
         None \<Rightarrow> ga_results acc1 = ga_results acc
       | Some v \<Rightarrow> (\<exists>g. ga_results acc1 = hm_insert (hashed_as en op n) g (ga_results acc) \<and> gate_view g = v)"
    using gcir_process_gate [OF assms(1) sp Cons.prems(1,2), of f create_hash] by blast
  have new: "hashed_as en op n \<notin> hashed_as en op ` set ns" using Cons.prems(4,5) by (auto simp: inj_on_def)
  have here: "map_option gate_view (hm_get (ga_results acc1) (hashed_as en op n)) = served_gate en op n sp"
    "k \<noteq> hashed_as en op n \<Longrightarrow> hm_get (ga_results acc1) k = hm_get (ga_results acc) k" for k
    using step(4) Cons.prems(6) by (auto split: option.splits)
  have "\<forall>m\<in>set ns. hm_get (ga_results acc1) (hashed_as en op m) = None"
    using Cons.prems(6) new here(2) by (metis image_eqI list.set_intros(2))
  then obtain acc' s' where rest: "gcir_process_names en (Suc f) op get_gate_spec_type (gate_factory op) create_hash
        (sr_feature_gates (en_specs_data en)) ns acc1 s1 = Ok acc' s'"
      "\<forall>m\<in>set ns. map_option gate_view (hm_get (ga_results acc') (hashed_as en op m)) =
         served_gate en op m (the (hm_get (sr_feature_gates (en_specs_data en)) m))"
      "\<forall>k. k \<notin> hashed_as en op ` set ns \<longrightarrow> hm_get (ga_results acc') k = hm_get (ga_results acc1) k"
    using Cons.IH [OF step(2,3)] Cons.prems(3-5) by auto
  have "gcir_process_names en (Suc f) op get_gate_spec_type (gate_factory op) create_hash
        (sr_feature_gates (en_specs_data en)) (n # ns) acc s = Ok acc' s'"
    using step(1) rest(1) by (simp add: ev_bind_def)
  with rest(2,3) new here sp(1) show ?case by auto
qed

lemma sort_names_perm: "mset (sort_names ns) = mset ns"
proof -
  have "mset (insert_name n ms) = add_mset n (mset ms)" for n ms by (induction ms) auto
  then show ?thesis by (induction ns) (simp_all add: sort_names_def)
qed

lemma sort_names_simps [simp]: "set (sort_names ns) = set ns" "distinct (sort_names ns) = distinct ns"
  using sort_names_perm [of ns] by (metis set_mset_mset, metis mset_eq_imp_distinct_iff)

text \<open>The gates of a configuration that the lemmas cover.\<close>

definition plain_gates :: "eval_env \<Rightarrow> client_init_options \<Rightarrow> bool" where
  "plain_gates en op \<longleftrightarrow>
     plain_env en \<and> hm_wf (sr_feature_gates (en_specs_data en)) \<and>
     list_all (\<lambda>(n, sp). sp_entity sp \<noteq> ''experiment'') (sr_feature_gates (en_specs_data en)) \<and>
     inj_on (hashed_as en op) (set (hm_keys (sr_feature_gates (en_specs_data en))))"

lemma get_gate_evaluations_plain:
  assumes "plain_gates en op" "memo_inv (en_ext en) (st_hash s)"
  shows "\<exists>gates memo gh s'. get_gate_evaluations en (Suc f) op [] [] s = Ok (gates, memo, (), gh) s' \<and>
    (\<forall>n sp. hm_get (sr_feature_gates (en_specs_data en)) n = Some sp \<longrightarrow>
       map_option gate_view (hm_get gates (hashed_as en op n)) = served_gate en op n sp) \<and>
    (\<forall>k. hm_get gates k \<noteq> None \<longrightarrow> k \<in> hashed_as en op ` set (hm_keys (sr_feature_gates (en_specs_data en))))"
proof -
  let ?gates = "sr_feature_gates (en_specs_data en)"
  let ?acc = "\<lparr>ga_results = [], ga_hashes = [], ga_memo = [], ga_tables = ()\<rparr>"
  define names where "names = (if wants_hash op then sort_names (hm_keys ?gates) else hm_keys ?gates)"
  have names: "set names = set (hm_keys ?gates)" "distinct names"
    using assms(1) by (simp_all add: names_def plain_gates_def hm_wf_def hm_keys_def)
  have found: "\<forall>n\<in>set names. \<exists>sp. hm_get ?gates n = Some sp \<and> sp_entity sp \<noteq> ''experiment''"
  proof
    fix n
    assume "n \<in> set names"
    then have "n \<in> fst ` set ?gates" using names(1) by (simp add: hm_keys_def)
    then obtain sp where sp: "hm_get ?gates n = Some sp" using map_of_eq_None_iff [of ?gates n] by (auto simp: hm_get_def)
    then have "(n, sp) \<in> set ?gates" by (simp add: hm_get_def map_of_SomeD)
    then have "sp_entity sp \<noteq> ''experiment''" using assms(1) unfolding plain_gates_def list_all_iff by blast
    with sp show "\<exists>sp. hm_get ?gates n = Some sp \<and> sp_entity sp \<noteq> ''experiment''" by blast
  qed
  have plain: "plain_env en" and inj: "inj_on (hashed_as en op) (set names)"
    using assms(1) by (simp_all add: plain_gates_def names(1))
  obtain acc' s' where run: "gcir_process_names en (Suc f) op get_gate_spec_type (gate_factory op)
        (gate_evaluation_hash (en_ext en)) ?gates names ?acc s = Ok acc' s'"
      "\<forall>n\<in>set names. map_option gate_view (hm_get (ga_results acc') (hashed_as en op n)) =
         served_gate en op n (the (hm_get ?gates n))"
      "\<forall>k. k \<notin> hashed_as en op ` set names \<longrightarrow> hm_get (ga_results acc') k = hm_get (ga_results ?acc) k"
    using gcir_process_gates [OF plain assms(2) _ found names(2) inj, of ?acc f "gate_evaluation_hash (en_ext en)"]
    by (auto simp: hm_get_def)
  have key: "n \<in> set names" if "hm_get ?gates n = Some sp" for n sp
    unfolding names(1) using that map_of_SomeD [of ?gates n sp] by (force simp: hm_get_def hm_keys_def)
  have "\<exists>memo gh. get_gate_evaluations en (Suc f) op [] [] s = Ok (ga_results acc', memo, (), gh) s'"
    using run(1) unfolding get_gate_evaluations_def gcir_process_iter_def Let_def names_def [symmetric]
    by (simp add: ev_bind_def ev_return_def)
  moreover have "map_option gate_view (hm_get (ga_results acc') (hashed_as en op n)) = served_gate en op n sp"
    if "hm_get ?gates n = Some sp" for n sp
    using bspec [OF run(2) key [OF that]] that by simp
  moreover have "k \<in> hashed_as en op ` set (hm_keys ?gates)" if "hm_get (ga_results acc') k \<noteq> None" for k
    using run(3) that unfolding names(1) by (auto simp: hm_get_def)
  ultimately show ?thesis by blast
qed

section \<open>The response and the server\<close>

lemma v1_response_gates:
  assumes "generate_v1_format en f meta op s = Ok resp s'" "ir_has_updates resp"
    and "get_gate_evaluations en f op [] [] s = Ok (gates, rest) s1"
  shows "ir_feature_gates resp = gates"
  using assms
  by (auto simp: generate_v1_format_def ev_bind_def ev_return_def Let_def blank_without_user_def blank_base_def init_response_base.defs
      initialize_response.defs split: prod.splits outcome.splits option.splits if_splits)

text \<open>The environments of the server's reads and of the response differ in what the specification does not look at.\<close>

lemma same_reading:
  assumes en': "en' = en\<lparr>en_override_adapter := oa, en_statsig := reenter, en_disable_exposure_logging := d\<rparr>"
  shows "local_rule en' = local_rule en" "gate_decision en' = gate_decision en"
proof -
  have "is_in_id_list en' = is_in_id_list en"
    unfolding en' by (intro ext) (simp add: is_in_id_list_def Let_def split: option.split)
  then have operator: "apply_operator en' = apply_operator en"
    by (intro ext) (simp add: apply_operator_def evaluate_id_list_def, simp add: en')
  have fields: "en_user en' = en_user en" "en_app_id en' = en_app_id en" "en_specs_data en' = en_specs_data en"
    "en_ext en' = en_ext en" by (simp_all add: en')
  have local_values: "local_value en' = local_value en" by (intro ext) (simp add: local_value_def fields)
  have outcomes: "local_outcome en' = local_outcome en" by (intro ext) (simp only: local_outcome_def operator local_values)
  have outcome: "condition_outcome en' = condition_outcome en" by (intro ext) (simp only: condition_outcome_def fields outcomes)
  show "local_rule en' = local_rule en" by (intro ext) (simp add: local_rule_def outcome)
  have holds: "rule_holds en' = rule_holds en" by (intro ext) (simp add: rule_holds_def outcome)
  have bucket: "rollout_bucket en' = rollout_bucket en"
    by (intro ext) (simp add: rollout_bucket_def rollout_key_def get_unit_id_def fields)
  show "gate_decision en' = gate_decision en" by (intro ext) (simp only: gate_decision_def decide_rules_def holds bucket)
qed

lemma empty_overrides_quiet:
  assumes "en_override_adapter en = None \<or> en_override_adapter en = Some (local_override_adapter x lock_ok os_new)"
  shows "quiet_override en g"
  using assms by (auto simp: quiet_override_def local_override_adapter_def get_gate_override_def table_override_def os_new_def)

lemma gcir_context_reading:
  assumes "io_client_sdk_key op = None" "get_target_app_id op = None"
  shows "gcir_context A st user op = (standard_context A st user d)\<lparr>
    en_override_adapter := (if io_include_local_overrides op = Some True then adapter_of A st else None),
    en_statsig := None, en_disable_exposure_logging := True\<rparr>"
  using assms
  by (simp add: gcir_context_def create_gcir_eval_context_def standard_context_def create_standard_eval_context_def
      select_app_id_for_gcir_def)

lemma plain_env_standard:
  assumes "plain_env (gcir_context A st user op)" "io_client_sdk_key op = None" "get_target_app_id op = None"
    and "sg_overrides st = os_new"
  shows "plain_env (standard_context A st user d)"
proof -
  let ?en = "standard_context A st user d"
  have local: "local_rule (gcir_context A st user op) = local_rule ?en"
    by (rule same_reading(1)) (rule gcir_context_reading [OF assms(2,3)])
  have "quiet_override ?en g" for g
    by (rule empty_overrides_quiet [where x = "av_ext A" and lock_ok = "av_override_lock A"])
      (simp add: standard_context_def create_standard_eval_context_def adapter_of_def assms(4))
  then have "\<forall>g. quiet_override ?en g" ..
  with assms(1) show ?thesis
    unfolding plain_env_def local unfolding gcir_context_reading [OF assms(2,3), of A st user d] by simp
qed

lemma check_gate_plain:
  assumes "plain_env (standard_context A st (internalize_user st user) (go_disable_exposure_logging g))"
    and "hm_get (sr_feature_gates (sd_values (spec_data st))) name = Some sp"
    and "memo_inv (av_ext A) (sg_hashing st)" "av_read A" "av_fuel A = Suc f"
  shows "map_option fst (check_gate_with_options A user name g st) =
    Some (fst (gate_decision (standard_context A st (internalize_user st user) (go_disable_exposure_logging g)) sp))"
proof -
  let ?en = "standard_context A st (internalize_user st user) (go_disable_exposure_logging g)"
  obtain b i v where decision: "gate_decision ?en sp = (b, i, v)" by (cases "gate_decision ?en sp")
  have ext: "en_ext ?en = av_ext A" "en_specs_data ?en = sd_values (spec_data st)"
    by (simp_all add: standard_context_def create_standard_eval_context_def)
  obtain s' where s': "evaluate ?en (Suc f) name Gate (st_new (sg_hashing st)) = Ok Recognized s'"
      "result_decision (st_result s') = (b, Some i, Some v)"
    using plain_gate_outcome [OF assms(1), of name sp "st_new (sg_hashing st)" f] assms(2,3) decision
    by (auto simp: ext st_new_def er_default_def)
  then show ?thesis
    using assms(4,5) decision
    by (simp add: check_gate_with_options_def get_gate_evaluation_def api_evaluate_spec_def evaluate_with_details_def ev_bind_def
        ev_get_def opt_default_def result_to_gate_eval_def result_to_base_eval_def result_decision_def Let_def option.map_comp comp_def
        split: prod.splits del: evaluate.simps)
qed


section \<open>The checksum\<close>

text \<open>Two checksums of earlier responses lead to the same computation, up to the last comparison.\<close>

definition same_but_checksum :: "client_init_options \<Rightarrow> client_init_options \<Rightarrow> bool" where
  "same_but_checksum op op' \<longleftrightarrow> wants_hash op \<and> (\<exists>c. op' = op\<lparr>io_previous_response_hash := Some c\<rparr>)"

lemma same_options:
  assumes "same_but_checksum op op'"
  shows "wants_hash op'" "wants_hash op" "get_hash_algorithm op' = get_hash_algorithm op" "get_target_app_id op' = get_target_app_id op"
    "drop_id_type op' = drop_id_type op" "io_client_sdk_key op' = io_client_sdk_key op"
    "io_remove_default_value_gates op' = io_remove_default_value_gates op"
    "io_remove_experiments_in_layers op' = io_remove_experiments_in_layers op"
    "io_experiment_filter op' = io_experiment_filter op" "io_param_store_filter op' = io_param_store_filter op"
    "should_filter_entity sp name op' = should_filter_entity sp name op"
  using assms
  by (auto simp: same_but_checksum_def get_hash_algorithm_def get_target_app_id_def drop_id_type_def should_filter_entity_def)

lemma same_app_filter:
  "same_but_checksum op op' \<Longrightarrow> should_filter_config_for_app ids app op' = should_filter_config_for_app ids app op"
  by (simp only: should_filter_config_for_app_def same_options)

lemma same_process_iter:
  assumes same: "same_but_checksum op op'"
  shows "gcir_process_iter en f op' = gcir_process_iter en f op"
proof -
  have rec: "gcir_record en op' = gcir_record en op"
    by (intro ext) (simp only: gcir_record_def same_options [OF same])
  have step: "gcir_process_spec en f op' = gcir_process_spec en f op"
    by (intro ext) (simp only: gcir_process_spec_def is_skipped_spec_def is_removed_default_gate_def is_removed_layer_experiment_def
        should_filter_spec_for_app_def same_app_filter [OF same] same_options [OF same] rec)
  have loop: "gcir_process_names en f op' t fac h m names = gcir_process_names en f op t fac h m names" for t fac h m names
    by (induction names) (intro ext; simp only: gcir_process_names.simps step)+
  show ?thesis by (intro ext) (simp only: gcir_process_iter_def loop same_options [OF same])
qed

lemma same_process_configs:
  assumes same: "same_but_checksum op op'"
  shows "process_configs en f op' = process_configs en f op"
proof -
  have rec: "cmab_record en op' = cmab_record en op"
    by (intro ext) (simp only: cmab_record_def same_options [OF same])
  have step: "gcir_process_cmab en f op' = gcir_process_cmab en f op"
    by (intro ext) (simp only: gcir_process_cmab_def same_app_filter [OF same] same_options [OF same] rec)
  have loop: "gcir_process_cmabs en f op' b fac m names = gcir_process_cmabs en f op b fac m names" for b fac m names
    by (induction names) (intro ext; simp only: gcir_process_cmabs.simps step)+
  show ?thesis by (intro ext) (simp only: process_configs_def same_process_iter [OF same] loop)
qed

lemma same_evaluations:
  assumes same: "same_but_checksum op op'"
  shows "get_gate_evaluations en f op' = get_gate_evaluations en f op"
    "get_dynamic_config_evaluations en f op' = get_dynamic_config_evaluations en f op"
    "get_layer_evaluations en f op' = get_layer_evaluations en f op"
proof -
  have factories: "gate_factory op' = gate_factory op" "config_factory op' = config_factory op" "layer_factory x op' = layer_factory x op" for x
    by (intro ext; simp only: gate_factory_def config_factory_def layer_factory_def try_hash_allocated_experiment_name_def
        same_options [OF same])+
  show "get_gate_evaluations en f op' = get_gate_evaluations en f op"
    "get_dynamic_config_evaluations en f op' = get_dynamic_config_evaluations en f op"
    "get_layer_evaluations en f op' = get_layer_evaluations en f op"
    by (intro ext; simp only: get_gate_evaluations_def get_dynamic_config_evaluations_def get_layer_evaluations_def
        same_process_iter [OF same] same_process_configs [OF same] factories)+
qed

lemma same_param_stores:
  assumes same: "same_but_checksum op op'"
  shows "get_serializeable_param_stores en op' = get_serializeable_param_stores en op"
proof -
  have "export_stores en op' stores m hs = export_stores en op stores m hs" for stores m hs
    by (induction stores arbitrary: m hs)
      (auto simp only: export_stores.simps same_app_filter [OF same] same_options [OF same] split: prod.split if_split)
  then show ?thesis by (intro ext) (simp only: get_serializeable_param_stores_def same_options [OF same])
qed

lemma same_session_replay:
  assumes same: "same_but_checksum op op'"
  shows "get_session_replay_info en f op' = get_session_replay_info en f op"
proof -
  have triggers: "sampled_triggers x op' = sampled_triggers x op" for x
    by (intro ext) (simp only: sampled_triggers_def same_options [OF same])
  show ?thesis by (intro ext) (simp only: get_session_replay_info_def same_options [OF same] triggers)
qed

lemma v1_same_but_checksum:
  assumes same: "same_but_checksum op op'" and "generate_v1_format en f meta op s = Ok resp s'"
    and "ir_full_checksum resp = Some c" "io_previous_response_hash op' = Some c"
  shows "generate_v1_format en f meta op' s = Ok blank_without_user s'"
proof -
  obtain h where "io_previous_response_hash op = Some h" using same_options(2) [OF same] by blast
  with assms(2-4) show ?thesis
    unfolding generate_v1_format_def same_evaluations [OF same] same_param_stores [OF same] same_session_replay [OF same]
    by (auto simp: ev_bind_def ev_return_def Let_def blank_without_user_def init_response_base.defs initialize_response.defs
        split: prod.splits outcome.splits if_splits)
qed

section \<open>Properties\<close>



definition statsig_with :: "specs_response \<Rightarrow> (exposure_sampling_key list \<times> nat, unit) statsig" where
  "statsig_with specs = sample_statsig\<lparr>sg_spec_store := (sg_spec_store sample_statsig)\<lparr>ss_data :=
     (ss_data (sg_spec_store sample_statsig))\<lparr>sd_values := specs\<rparr>\<rparr>\<rparr>"

definition one_gate_specs :: specs_response where
  "one_gate_specs = specs_default\<lparr>sr_feature_gates := [(''g'', sample_spec [sample_rule ''r'' (Fin 100) [''c'']])],
     sr_condition_map := [(''c'', public_condition)]\<rparr>"




text \<open>
  The contextual bandits are not part of the checksum: the hashes after the configs are those before the
  bandits, so a client whose bandit changed its group may be told that nothing changed.
\<close>

theorem bandits_not_in_checksum:
  assumes "get_dynamic_config_evaluations en f op memo gh s = Ok (configs, memo', u, gh') s'"
  shows "\<exists>configs0 memo0 s0. gcir_process_iter en f op get_dynamic_config_type (config_factory op) (any_config_evaluation_hash (en_ext en))
    (sr_dynamic_configs (en_specs_data en)) memo () gh s = Ok (configs0, memo0, (), gh') s0"
  using assms
  by (auto simp: get_dynamic_config_evaluations_def process_configs_def ev_bind_def ev_return_def
      split: outcome.splits option.splits prod.splits)

end
