(* ===== verification/Proto_Specs.thy ===== *)
theory Proto_Specs
  imports Network_Client Persistent_Values
begin

text \<open>
  The configuration as a stream of protocol buffer messages:
  \<open>src/statsig-rust/src/specs_response/proto_specs.rs\<close>, the reader of length-delimited messages in
  \<open>proto_stream_reader.rs\<close>, and the messages of \<open>statsig_config_specs.rs\<close>. The decoders of the crates prost, serde
  and brotli are arguments; the decompressor gives the bytes in chunks, of the sizes it likes, and ends with the
  end of the stream or an error.
\<close>

section \<open>Messages\<close>

text \<open>The enumerations, with their numbers on the wire.\<close>

datatype specs_envelope_kind =
    KindUnknown | KindDone | KindTopLevel | KindFeatureGate | KindDynamicConfig | KindLayerConfig | KindParamStore
  | KindCondition | KindDeletions | KindChecksums | KindCopyPrev

datatype pb_condition_type =
    CtUnknown | CtPublic | CtFailGate | CtPassGate | CtUaBased | CtIpBased | CtUserField | CtEnvironmentField
  | CtCurrentTime | CtUserBucket | CtTargetApp | CtUnitId

datatype pb_operator =
    OpUnknown | OpGt | OpGte | OpLt | OpLte | OpVersionGt | OpVersionGte | OpVersionLt | OpVersionLte | OpVersionEq
  | OpVersionNeq | OpAny | OpNone | OpStrStartsWithAny | OpStrEndsWithAny | OpStrContainsAny | OpStrContainsNone
  | OpAnyCaseSensitive | OpNoneCaseSensitive | OpStrMatches | OpBefore | OpAfter | OpOn | OpEq | OpNeq
  | OpInSegmentList | OpNotInSegmentList | OpArrayContainsAny | OpArrayContainsNone | OpArrayContainsAll
  | OpNotArrayContainsAll | OpEncodedAny

datatype known_id_type = KnownUnknown | KnownUserId | KnownStableId

datatype entity_type =
    EntityUnknown | EntityFeatureGate | EntityDynamicConfig | EntityAutotune | EntityExperiment | EntityLayer
  | EntitySegment | EntityHoldout

definition enum_try_from :: "'e list \<Rightarrow> int \<Rightarrow> 'e option" where
  "enum_try_from es i = (if 0 \<le> i \<and> nat i < length es then Some (es ! nat i) else None)"

definition envelope_kinds :: "specs_envelope_kind list" where
  "envelope_kinds = [KindUnknown, KindDone, KindTopLevel, KindFeatureGate, KindDynamicConfig, KindLayerConfig, KindParamStore,
     KindCondition, KindDeletions, KindChecksums, KindCopyPrev]"

definition condition_types :: "pb_condition_type list" where
  "condition_types = [CtUnknown, CtPublic, CtFailGate, CtPassGate, CtUaBased, CtIpBased, CtUserField, CtEnvironmentField,
     CtCurrentTime, CtUserBucket, CtTargetApp, CtUnitId]"

definition pb_operators :: "pb_operator list" where
  "pb_operators = [OpUnknown, OpGt, OpGte, OpLt, OpLte, OpVersionGt, OpVersionGte, OpVersionLt, OpVersionLte, OpVersionEq,
     OpVersionNeq, OpAny, OpNone, OpStrStartsWithAny, OpStrEndsWithAny, OpStrContainsAny, OpStrContainsNone,
     OpAnyCaseSensitive, OpNoneCaseSensitive, OpStrMatches, OpBefore, OpAfter, OpOn, OpEq, OpNeq,
     OpInSegmentList, OpNotInSegmentList, OpArrayContainsAny, OpArrayContainsNone, OpArrayContainsAll,
     OpNotArrayContainsAll, OpEncodedAny]"

definition known_id_types :: "known_id_type list" where
  "known_id_types = [KnownUnknown, KnownUserId, KnownStableId]"

definition entity_types :: "entity_type list" where
  "entity_types = [EntityUnknown, EntityFeatureGate, EntityDynamicConfig, EntityAutotune, EntityExperiment, EntityLayer,
     EntitySegment, EntityHoldout]"

record specs_envelope =
  sn_kind :: int
  sn_name :: string
  sn_checksum :: string
  sn_data :: "string option"

record specs_top_level =
  tl_has_updates :: bool
  tl_time :: u64
  tl_company_id :: string
  tl_response_format :: string
  tl_checksum :: string
  tl_rest :: string

datatype pb_any_value =
    AnyString string | AnyBool bool | AnyInt64 i64 | AnyUint64 u64 | AnyDouble f64 | AnyRaw string

datatype pb_return_value = ReturnBool bool | ReturnRaw string

datatype pb_id_type = KnownIdType int | CustomIdType string

text \<open>
  A message inside another may be missing, and its own oneof field may be, too. The field \<open>is_control_group\<close> of a rule is not
  read. A sampling rate has single precision, all of whose values are values of \<open>f64\<close>.
\<close>

record pb_rule =
  pr_name :: string
  pr_pass_percentage :: u32
  pr_id :: string
  pr_salt :: "string option"
  pr_conditions :: "string list"
  pr_id_type :: "pb_id_type option option"
  pr_return_value :: "pb_return_value option option"
  pr_group_name :: "string option"
  pr_config_delegate :: "string option"
  pr_is_experiment_group :: "bool option"
  pr_sampling_rate :: "f64 option"
  pr_pass_percentage_float :: "f64 option"

record pb_spec =
  px_salt :: string
  px_enabled :: bool
  px_default_value :: "pb_return_value option option"
  px_entity :: int
  px_id_type :: "pb_id_type option option"
  px_version :: u32
  px_rules :: "pb_rule list"
  px_is_active :: "bool option"
  px_explicit_parameters :: "string list"
  px_has_shared_params :: "bool option"
  px_target_app_ids :: "string list"
  px_use_new_layer_eval :: "bool option"
  px_forward_all_exposures :: "bool option"
  px_fields_used :: "string list"

record pb_condition =
  pc_condition_type :: int
  pc_id_type :: "pb_id_type option option"
  pc_target_value :: "pb_any_value option option"
  pc_operator :: "int option"
  pc_field :: "string option"
  pc_additional_values :: "string option"

record deletions =
  dl_dynamic_configs :: "string list"
  dl_feature_gates :: "string list"
  dl_layer_configs :: "string list"
  dl_experiment_to_layer :: "string list"
  dl_condition_map :: "string list"
  dl_sdk_configs :: "string list"
  dl_param_stores :: "string list"
  dl_cmab_configs :: "string list"
  dl_override_rules :: "string list"
  dl_overrides :: "string list"

section \<open>Arguments\<close>

text \<open>
  What other crates decode; an error carries its text. \<open>po_copy_partial\<close> is the way of a configuration through JSON
  to its top level. The preloaded values are those of the interned store.
\<close>

record proto_ops =
  po_decode_length :: "string \<Rightarrow> string + nat"
  po_length_delimiter_len :: "nat \<Rightarrow> nat"
  po_envelope :: "string \<Rightarrow> string + specs_envelope"
  po_top_level :: "string \<Rightarrow> string + specs_top_level"
  po_spec :: "string \<Rightarrow> string + pb_spec"
  po_condition :: "string \<Rightarrow> string + pb_condition"
  po_deletions :: "string \<Rightarrow> string + deletions"
  po_checksums :: "string \<Rightarrow> string + (string, u64) HashMap"
  po_partial :: "string \<Rightarrow> string + specs_response_partial"
  po_copy_partial :: "specs_response \<Rightarrow> string + specs_response_partial"
  po_param_store :: "string \<Rightarrow> string + parameter_store"
  po_additional_values :: "string \<Rightarrow> string + (string, string) HashMap"
  po_json :: "string \<Rightarrow> string + json"
  po_returnable :: "string \<Rightarrow> string + dynamic_returnable"
  po_unknown_enum :: "int \<Rightarrow> string"
  po_f32_text :: "f64 \<Rightarrow> string"

record preloads =
  pl_feature_gate :: "string \<Rightarrow> spec option"
  pl_dynamic_config :: "string \<Rightarrow> spec option"
  pl_layer_config :: "string \<Rightarrow> spec option"
  pl_evaluator_value :: "string \<Rightarrow> memo_value option"
  pl_returnable :: "string \<Rightarrow> dynamic_returnable option"

definition map_decode_err :: "string \<Rightarrow> string \<Rightarrow> statsig_err" where
  "map_decode_err tag e = ProtobufParseError (''proto::'' @ tag) e"

definition map_unknown_enum_value :: "proto_ops \<Rightarrow> string \<Rightarrow> int \<Rightarrow> statsig_err" where
  "map_unknown_enum_value Q tag i = ProtobufParseError (''proto::'' @ tag) (''Unknown enum value: '' @ po_unknown_enum Q i)"

definition map_serde_json_err :: "string \<Rightarrow> string \<Rightarrow> statsig_err" where
  "map_serde_json_err tag e = ProtobufParseError (''proto::'' @ tag) e"

text \<open>The operator \<open>?\<close> on a result, and \<open>map_err\<close>.\<close>

definition res_bind :: "'e + 'a \<Rightarrow> ('a \<Rightarrow> 'e + 'b) \<Rightarrow> 'e + 'b" where
  "res_bind r f = (case r of Inl e \<Rightarrow> Inl e | Inr a \<Rightarrow> f a)"

definition map_err :: "('d \<Rightarrow> 'e) \<Rightarrow> 'd + 'a \<Rightarrow> 'e + 'a" where
  "map_err f r = (case r of Inl d \<Rightarrow> Inl (f d) | Inr a \<Rightarrow> Inr a)"

definition res_enum :: "proto_ops \<Rightarrow> string \<Rightarrow> 'e list \<Rightarrow> int \<Rightarrow> statsig_err + 'e" where
  "res_enum Q tag es i = (case enum_try_from es i of Some k \<Rightarrow> Inr k | None \<Rightarrow> Inl (map_unknown_enum_value Q tag i))"

section \<open>The stream\<close>

record proto_stream =
  pt_buf :: string
  pt_chunks :: "string list"
  pt_error :: "string option"

definition sample_current_buf :: "string \<Rightarrow> string" where
  "sample_current_buf buf = (let s = take 100 buf in if utf8_valid s then s else [])"

datatype 'a read_outcome = ReadOk 'a proto_stream | ReadErr statsig_err proto_stream | ReadPanic

text \<open>A read of the decompressor: the next chunk, nothing at the end, or the error.\<close>

definition decompressor_read :: "proto_stream \<Rightarrow> string + string \<times> proto_stream" where
  "decompressor_read r =
     (case pt_chunks r of
        c # cs \<Rightarrow> Inr (c, r\<lparr>pt_chunks := cs\<rparr>)
      | [] \<Rightarrow> (case pt_error r of Some e \<Rightarrow> Inl e | None \<Rightarrow> Inr ([], r)))"

function read_length_delimiter :: "proto_ops \<Rightarrow> proto_stream \<Rightarrow> nat read_outcome" where
  "read_length_delimiter Q r =
     (case po_decode_length Q (pt_buf r) of
        Inr data_len \<Rightarrow> ReadOk (po_length_delimiter_len Q data_len + data_len) r
      | Inl e \<Rightarrow>
          if 10 \<le> length (pt_buf r) then ReadErr (ProtobufParseError ''DecodeLengthDelimiter'' e) r
          else
            (case decompressor_read r of
               Inl e \<Rightarrow> ReadErr (ProtobufParseError ''ReadLengthDelimiter'' e) r
             | Inr (chunk, r1) \<Rightarrow>
                 if chunk = []
                 then ReadErr (ProtobufParseError ''ReadLengthDelimiter'' ''unexpected EOF while reading length delimiter'') r1
                 else read_length_delimiter Q (r1\<lparr>pt_buf := pt_buf r1 @ chunk\<rparr>)))"
  by pat_completeness auto
termination
  by (relation "measure (\<lambda>(Q, r). length (pt_chunks r))")
    (auto simp: decompressor_read_def split: list.splits option.splits)

text \<open>
  Filling the buffer. At the end of the stream the buffer is too short, and splitting it there panics.
\<close>

function fill_buffer :: "nat \<Rightarrow> proto_stream \<Rightarrow> string read_outcome" where
  "fill_buffer required_len r =
     (if required_len \<le> length (pt_buf r)
      then ReadOk (take required_len (pt_buf r)) (r\<lparr>pt_buf := drop required_len (pt_buf r)\<rparr>)
      else
        (case decompressor_read r of
           Inl e \<Rightarrow> ReadErr (ProtobufParseError ''BrotliDecompressorRead'' e) r
         | Inr (chunk, r1) \<Rightarrow>
             if chunk = [] then ReadPanic else fill_buffer required_len (r1\<lparr>pt_buf := pt_buf r1 @ chunk\<rparr>)))"
  by pat_completeness auto
termination
  by (relation "measure (\<lambda>(n, r). length (pt_chunks r))")
    (auto simp: decompressor_read_def split: list.splits option.splits)

declare read_length_delimiter.simps [simp del] fill_buffer.simps [simp del]

definition read_next_delimited_proto :: "proto_ops \<Rightarrow> proto_stream \<Rightarrow> string read_outcome" where
  "read_next_delimited_proto Q r =
     (case read_length_delimiter Q r of
        ReadOk required_len r1 \<Rightarrow> fill_buffer required_len r1
      | ReadErr e r1 \<Rightarrow> ReadErr e r1
      | ReadPanic \<Rightarrow> ReadPanic)"

section \<open>Conversions\<close>

definition validate_envelope_data :: "string \<Rightarrow> string option \<Rightarrow> statsig_err + string" where
  "validate_envelope_data envelope_tag data =
     (case data of
        Some d \<Rightarrow> Inr d
      | None \<Rightarrow> Inl (ProtobufParseError ''SpecsEnvelope'' (''No data in '' @ envelope_tag @ '' envelope'')))"

fun operator_from_pb :: "pb_operator \<Rightarrow> statsig_err + string" where
  "operator_from_pb OpUnknown = Inl (ProtobufParseError ''proto::Operator'' ''Unknown operator'')"
| "operator_from_pb OpEq = Inr ''eq''"
| "operator_from_pb OpNeq = Inr ''neq''"
| "operator_from_pb OpGt = Inr ''gt''"
| "operator_from_pb OpGte = Inr ''gte''"
| "operator_from_pb OpLte = Inr ''lte''"
| "operator_from_pb OpLt = Inr ''lt''"
| "operator_from_pb OpAny = Inr ''any''"
| "operator_from_pb OpNone = Inr ''none''"
| "operator_from_pb OpStrStartsWithAny = Inr ''str_starts_with_any''"
| "operator_from_pb OpStrEndsWithAny = Inr ''str_ends_with_any''"
| "operator_from_pb OpStrContainsAny = Inr ''str_contains_any''"
| "operator_from_pb OpStrContainsNone = Inr ''str_contains_none''"
| "operator_from_pb OpStrMatches = Inr ''str_matches''"
| "operator_from_pb OpAnyCaseSensitive = Inr ''any_case_sensitive''"
| "operator_from_pb OpNoneCaseSensitive = Inr ''none_case_sensitive''"
| "operator_from_pb OpBefore = Inr ''before''"
| "operator_from_pb OpAfter = Inr ''after''"
| "operator_from_pb OpOn = Inr ''on''"
| "operator_from_pb OpInSegmentList = Inr ''in_segment_list''"
| "operator_from_pb OpNotInSegmentList = Inr ''not_in_segment_list''"
| "operator_from_pb OpArrayContainsAny = Inr ''array_contains_any''"
| "operator_from_pb OpArrayContainsNone = Inr ''array_contains_none''"
| "operator_from_pb OpArrayContainsAll = Inr ''array_contains_all''"
| "operator_from_pb OpNotArrayContainsAll = Inr ''not_array_contains_all''"
| "operator_from_pb OpVersionGt = Inr ''version_gt''"
| "operator_from_pb OpVersionGte = Inr ''version_gte''"
| "operator_from_pb OpVersionLt = Inr ''version_lt''"
| "operator_from_pb OpVersionLte = Inr ''version_lte''"
| "operator_from_pb OpVersionEq = Inr ''version_eq''"
| "operator_from_pb OpVersionNeq = Inr ''version_neq''"
| "operator_from_pb OpEncodedAny = Inr ''encoded_any''"

fun condition_type_from_pb :: "pb_condition_type \<Rightarrow> statsig_err + string" where
  "condition_type_from_pb CtUnknown = Inl (ProtobufParseError ''proto::ConditionType'' ''Unknown condition type'')"
| "condition_type_from_pb CtCurrentTime = Inr ''current_time''"
| "condition_type_from_pb CtPublic = Inr ''public''"
| "condition_type_from_pb CtFailGate = Inr ''fail_gate''"
| "condition_type_from_pb CtPassGate = Inr ''pass_gate''"
| "condition_type_from_pb CtUaBased = Inr ''ua_based''"
| "condition_type_from_pb CtIpBased = Inr ''ip_based''"
| "condition_type_from_pb CtUserField = Inr ''user_field''"
| "condition_type_from_pb CtEnvironmentField = Inr ''environment_field''"
| "condition_type_from_pb CtUserBucket = Inr ''user_bucket''"
| "condition_type_from_pb CtTargetApp = Inr ''target_app''"
| "condition_type_from_pb CtUnitId = Inr ''unit_id''"

definition to_legacy_type :: "entity_type \<Rightarrow> string" where
  "to_legacy_type e =
     (if e \<in> {EntityFeatureGate, EntityHoldout, EntitySegment} then ''feature_gate''
      else if e \<in> {EntityDynamicConfig, EntityAutotune, EntityExperiment, EntityLayer} then ''dynamic_config''
      else ''unknown'')"

fun to_string_type :: "entity_type \<Rightarrow> statsig_err + string" where
  "to_string_type EntityFeatureGate = Inr ''feature_gate''"
| "to_string_type EntityDynamicConfig = Inr ''dynamic_config''"
| "to_string_type EntityAutotune = Inr ''autotune''"
| "to_string_type EntityExperiment = Inr ''experiment''"
| "to_string_type EntityLayer = Inr ''layer''"
| "to_string_type EntitySegment = Inr ''segment''"
| "to_string_type EntityHoldout = Inr ''holdout''"
| "to_string_type EntityUnknown = Inl (ProtobufParseError ''proto::EntityType'' ''Expected entity type to be known'')"

definition known_id_type_name :: "proto_ops \<Rightarrow> int \<Rightarrow> statsig_err + string" where
  "known_id_type_name Q i =
     res_bind (res_enum Q ''KnownIdType'' known_id_types i) (\<lambda>k.
       case k of
         KnownUserId \<Rightarrow> Inr ''userID''
       | KnownStableId \<Rightarrow> Inr ''stableID''
       | KnownUnknown \<Rightarrow> Inl (ProtobufParseError ''proto::KnownIdType'' ''Expected ID type to be known''))"

definition id_type_from_pb :: "proto_ops \<Rightarrow> pb_id_type option option \<Rightarrow> statsig_err + string" where
  "id_type_from_pb Q id_type =
     (case id_type of
        Some (Some (KnownIdType i)) \<Rightarrow> known_id_type_name Q i
      | Some (Some (CustomIdType s)) \<Rightarrow> Inr s
      | _ \<Rightarrow> Inr [])"

definition id_type_from_pb_to_dynamic_string :: "ext \<Rightarrow> proto_ops \<Rightarrow> pb_id_type option option \<Rightarrow> statsig_err + dynamic_string" where
  "id_type_from_pb_to_dynamic_string x Q id_type =
     (case id_type of
        Some (Some (KnownIdType i)) \<Rightarrow> res_bind (known_id_type_name Q i) (\<lambda>n. Inr (ds_from_string x n))
      | Some (Some (CustomIdType s)) \<Rightarrow> Inr (ds_from_string x s)
      | _ \<Rightarrow> Inr \<lparr>ds_value = [], ds_lowercased = [], ds_hash = 0\<rparr>)"

definition return_value_from_pb :: "proto_ops \<Rightarrow> preloads \<Rightarrow> pb_return_value option option \<Rightarrow> statsig_err + dynamic_returnable" where
  "return_value_from_pb Q pre return_value =
     (case return_value of
        None \<Rightarrow> Inr dr_empty
      | Some None \<Rightarrow> Inl (ProtobufParseError ''proto::ReturnValue'' ''No return value'')
      | Some (Some (ReturnBool b)) \<Rightarrow> Inr (dr_from_bool b)
      | Some (Some (ReturnRaw bytes)) \<Rightarrow>
          (case pl_returnable pre bytes of
             Some returnable \<Rightarrow> Inr returnable
           | None \<Rightarrow> map_err (map_serde_json_err ''ReturnValue'') (po_returnable Q bytes)))"

text \<open>A non-negative whole number; the cast to \<open>u64\<close> saturates.\<close>

definition sampling_rate_from_pb :: "proto_ops \<Rightarrow> f64 option \<Rightarrow> statsig_err + u64 option" where
  "sampling_rate_from_pb Q sampling_rate =
     (case sampling_rate of
        None \<Rightarrow> Inr None
      | Some r \<Rightarrow>
          if \<not> (case r of Fin q \<Rightarrow> 0 \<le> q \<and> of_int \<lfloor>q\<rfloor> = q | _ \<Rightarrow> False)
          then Inl (ProtobufParseError ''proto::Rule''
            (''Expected sampling rate to be a non-negative whole number, got '' @ po_f32_text Q r))
          else Inr (Some (f64_to_u64 r)))"

definition rule_from_pb :: "ext \<Rightarrow> proto_ops \<Rightarrow> preloads \<Rightarrow> pb_rule \<Rightarrow> statsig_err + rule" where
  "rule_from_pb x Q pre r =
     res_bind (id_type_from_pb_to_dynamic_string x Q (pr_id_type r)) (\<lambda>id_type.
     res_bind (sampling_rate_from_pb Q (pr_sampling_rate r)) (\<lambda>sampling_rate.
     res_bind (return_value_from_pb Q pre (pr_return_value r)) (\<lambda>return_value.
       Inr \<lparr>ru_name = pr_name r,
            ru_pass_percentage = opt_default (nat_to_f64 (unat (pr_pass_percentage r))) (pr_pass_percentage_float r),
            ru_return_value = return_value, ru_id = pr_id r, ru_salt = pr_salt r, ru_conditions = pr_conditions r,
            ru_id_type = id_type, ru_group_name = pr_group_name r, ru_config_delegate = pr_config_delegate r,
            ru_is_experiment_group = pr_is_experiment_group r, ru_sampling_rate = sampling_rate\<rparr>)))"

fun rules_from_pb :: "ext \<Rightarrow> proto_ops \<Rightarrow> preloads \<Rightarrow> pb_rule list \<Rightarrow> statsig_err + rule list" where
  "rules_from_pb x Q pre [] = Inr []"
| "rules_from_pb x Q pre (r # rs) =
     res_bind (rule_from_pb x Q pre r) (\<lambda>rule. res_bind (rules_from_pb x Q pre rs) (\<lambda>rules. Inr (rule # rules)))"

definition some_unless_empty :: "'a list \<Rightarrow> 'a list option" where
  "some_unless_empty l = (if l = [] then None else Some l)"

definition spec_from_pb :: "ext \<Rightarrow> proto_ops \<Rightarrow> preloads \<Rightarrow> string \<Rightarrow> pb_spec \<Rightarrow> statsig_err + spec" where
  "spec_from_pb x Q pre checksum s =
     res_bind (res_enum Q ''EntityType'' entity_types (px_entity s)) (\<lambda>entity.
     res_bind (rules_from_pb x Q pre (px_rules s)) (\<lambda>rules.
     res_bind (id_type_from_pb Q (px_id_type s)) (\<lambda>id_type.
     res_bind (to_string_type entity) (\<lambda>entity_text.
     res_bind (return_value_from_pb Q pre (px_default_value s)) (\<lambda>default_value.
       Inr \<lparr>sp_checksum = Some checksum, sp_type = to_legacy_type entity, sp_salt = px_salt s, sp_default_value = default_value,
            sp_enabled = px_enabled s, sp_rules = rules, sp_id_type = id_type,
            sp_explicit_parameters = some_unless_empty (px_explicit_parameters s), sp_entity = entity_text,
            sp_has_shared_params = px_has_shared_params s, sp_is_active = px_is_active s, sp_version = Some (px_version s),
            sp_target_app_ids = some_unless_empty (px_target_app_ids s), sp_forward_all_exposures = px_forward_all_exposures s,
            sp_fields_used = some_unless_empty (px_fields_used s), sp_use_new_layer_eval = px_use_new_layer_eval s\<rparr>)))))"

fun any_value_to_json_value :: "proto_ops \<Rightarrow> pb_any_value option option \<Rightarrow> statsig_err + json option" where
  "any_value_to_json_value Q (Some (Some (AnyBool b))) = Inr (Some (JBool b))"
| "any_value_to_json_value Q (Some (Some (AnyRaw bytes))) =
     res_bind (map_err (map_serde_json_err ''AnyValue'') (po_json Q bytes)) (\<lambda>j. Inr (Some j))"
| "any_value_to_json_value Q (Some (Some (AnyString s))) = Inr (Some (JString s))"
| "any_value_to_json_value Q (Some (Some (AnyDouble d))) = Inr (Some (json_of_f64 d))"
| "any_value_to_json_value Q (Some (Some (AnyInt64 i))) = Inr (Some (JNumber (if 0 \<le> i then PosInt (nat i) else NegInt i)))"
| "any_value_to_json_value Q (Some (Some (AnyUint64 u))) = Inr (Some (JNumber (PosInt (unat u))))"
| "any_value_to_json_value Q _ = Inr None"

definition target_value_from_pb :: "ext \<Rightarrow> proto_ops \<Rightarrow> preloads \<Rightarrow> pb_any_value option option \<Rightarrow> statsig_err + memo_value option" where
  "target_value_from_pb x Q pre target_value =
     (case (case target_value of Some (Some (AnyRaw raw)) \<Rightarrow> pl_evaluator_value pre raw | _ \<Rightarrow> None) of
        Some evaluator_value \<Rightarrow> Inr (Some evaluator_value)
      | None \<Rightarrow> res_bind (any_value_to_json_value Q target_value) (\<lambda>j. Inr (map_option (mv_from_json x) j)))"

definition additional_values_from_pb :: "proto_ops \<Rightarrow> string option \<Rightarrow> statsig_err + (string, string) HashMap option" where
  "additional_values_from_pb Q vs =
     (case vs of
        None \<Rightarrow> Inr None
      | Some bytes \<Rightarrow> res_bind (map_err (map_serde_json_err ''AdditionalValues'') (po_additional_values Q bytes)) (\<lambda>m. Inr (Some m)))"

definition pb_operator_text :: "proto_ops \<Rightarrow> int option \<Rightarrow> statsig_err + string option" where
  "pb_operator_text Q operator =
     (case operator of
        None \<Rightarrow> Inr None
      | Some i \<Rightarrow> res_bind (res_enum Q ''Operator'' pb_operators i) (\<lambda>k. res_bind (operator_from_pb k) (\<lambda>t. Inr (Some t))))"

definition condition_from_pb :: "ext \<Rightarrow> proto_ops \<Rightarrow> preloads \<Rightarrow> pb_condition \<Rightarrow> statsig_err + condition" where
  "condition_from_pb x Q pre v =
     res_bind (res_enum Q ''ConditionType'' condition_types (pc_condition_type v)) (\<lambda>ct.
     res_bind (condition_type_from_pb ct) (\<lambda>condition_type.
     res_bind (target_value_from_pb x Q pre (pc_target_value v)) (\<lambda>target_value.
     res_bind (pb_operator_text Q (pc_operator v)) (\<lambda>operator.
     res_bind (additional_values_from_pb Q (pc_additional_values v)) (\<lambda>additional_values.
     res_bind (id_type_from_pb_to_dynamic_string x Q (pc_id_type v)) (\<lambda>id_type.
       Inr (condition_deserialize x
         \<lparr>co_type = condition_type, co_target_value = target_value, co_operator = operator,
          co_field = map_option (ds_from_string x) (pc_field v), co_additional_values = additional_values, co_id_type = id_type,
          co_checksum = None\<rparr>)))))))"

section \<open>Envelopes\<close>

text \<open>
  A spec whose checksum is the one announced is taken from the preloaded specs or from the current configuration;
  otherwise it is decoded.
\<close>

definition handle_individual_spec_update ::
    "ext \<Rightarrow> proto_ops \<Rightarrow> preloads \<Rightarrow> string \<Rightarrow> (string \<Rightarrow> spec option) \<Rightarrow> specs_envelope \<Rightarrow> (string, spec) HashMap \<Rightarrow>
     (string, spec) HashMap \<Rightarrow> statsig_err + (string, spec) HashMap" where
  "handle_individual_spec_update x Q pre tag preload_fetcher envelope existing_map new_map =
     (let name = sn_name envelope; announced = (\<lambda>sp. sp_checksum sp = Some (sn_checksum envelope));
          decode = res_bind (validate_envelope_data tag (sn_data envelope)) (\<lambda>data.
            res_bind (map_err (map_decode_err tag) (po_spec Q data)) (\<lambda>pb.
            res_bind (spec_from_pb x Q pre (sn_checksum envelope) pb) (\<lambda>sp. Inr (hm_insert name sp new_map))));
          from_existing = (case hm_get existing_map name of
              Some sp \<Rightarrow> (if announced sp then Inr (hm_insert name sp new_map) else decode)
            | None \<Rightarrow> decode)
      in case preload_fetcher name of
           Some sp \<Rightarrow> (if announced sp then Inr (hm_insert name sp new_map) else from_existing)
         | None \<Rightarrow> from_existing)"

definition handle_feature_gate_update ::
    "ext \<Rightarrow> proto_ops \<Rightarrow> preloads \<Rightarrow> specs_envelope \<Rightarrow> specs_response \<Rightarrow> specs_response \<Rightarrow> statsig_err + specs_response" where
  "handle_feature_gate_update x Q pre envelope existing self =
     res_bind (handle_individual_spec_update x Q pre ''FeatureGate'' (pl_feature_gate pre) envelope (sr_feature_gates existing)
         (sr_feature_gates self))
       (\<lambda>m. Inr (self\<lparr>sr_feature_gates := m\<rparr>))"

definition handle_dynamic_config_update ::
    "ext \<Rightarrow> proto_ops \<Rightarrow> preloads \<Rightarrow> specs_envelope \<Rightarrow> specs_response \<Rightarrow> specs_response \<Rightarrow> statsig_err + specs_response" where
  "handle_dynamic_config_update x Q pre envelope existing self =
     res_bind (handle_individual_spec_update x Q pre ''DynamicConfig'' (pl_dynamic_config pre) envelope (sr_dynamic_configs existing)
         (sr_dynamic_configs self))
       (\<lambda>m. Inr (self\<lparr>sr_dynamic_configs := m\<rparr>))"

definition handle_layer_config_update ::
    "ext \<Rightarrow> proto_ops \<Rightarrow> preloads \<Rightarrow> specs_envelope \<Rightarrow> specs_response \<Rightarrow> specs_response \<Rightarrow> statsig_err + specs_response" where
  "handle_layer_config_update x Q pre envelope existing self =
     res_bind (handle_individual_spec_update x Q pre ''LayerConfig'' (pl_layer_config pre) envelope (sr_layer_configs existing)
         (sr_layer_configs self))
       (\<lambda>m. Inr (self\<lparr>sr_layer_configs := m\<rparr>))"

definition populate_top_level_from_envelope :: "proto_ops \<Rightarrow> specs_top_level \<Rightarrow> specs_response \<Rightarrow> statsig_err + specs_response" where
  "populate_top_level_from_envelope Q top_level self =
     res_bind (map_err (map_serde_json_err ''SpecsResponsePartial'') (po_partial Q (tl_rest top_level))) (\<lambda>partial.
       Inr ((merge_from_partial self partial)\<lparr>sr_checksum := Some (tl_checksum top_level), sr_time := tl_time top_level,
         sr_has_updates := tl_has_updates top_level, sr_response_format := Some (tl_response_format top_level),
         sr_company_id := Some (tl_company_id top_level)\<rparr>))"

definition handle_top_level_update :: "proto_ops \<Rightarrow> specs_envelope \<Rightarrow> specs_response \<Rightarrow> statsig_err + specs_response" where
  "handle_top_level_update Q envelope self =
     res_bind (validate_envelope_data ''TopLevel'' (sn_data envelope)) (\<lambda>data.
     res_bind (map_err (map_decode_err ''SpecsTopLevel'') (po_top_level Q data)) (\<lambda>top_level.
       populate_top_level_from_envelope Q top_level self))"

definition insert_param_store :: "string \<Rightarrow> parameter_store \<Rightarrow> specs_response \<Rightarrow> specs_response" where
  "insert_param_store name store self = self\<lparr>sr_param_stores := Some (hm_insert name store (opt_default [] (sr_param_stores self)))\<rparr>"

definition handle_param_store_update ::
    "proto_ops \<Rightarrow> specs_envelope \<Rightarrow> specs_response \<Rightarrow> specs_response \<Rightarrow> statsig_err + specs_response" where
  "handle_param_store_update Q envelope existing self =
     (let name = sn_name envelope;
          decode = res_bind (validate_envelope_data ''ParamStore'' (sn_data envelope)) (\<lambda>data.
            res_bind (map_err (map_serde_json_err ''ParameterStore'') (po_param_store Q data)) (\<lambda>store.
              Inr (insert_param_store name (store\<lparr>ps_checksum := Some (sn_checksum envelope)\<rparr>) self)))
      in case (case sr_param_stores existing of Some m \<Rightarrow> hm_get m name | None \<Rightarrow> None) of
           Some store \<Rightarrow>
             (if ps_checksum store = Some (sn_checksum envelope) then Inr (insert_param_store name store self) else decode)
         | None \<Rightarrow> decode)"

definition handle_condition_update ::
    "ext \<Rightarrow> proto_ops \<Rightarrow> preloads \<Rightarrow> specs_envelope \<Rightarrow> specs_response \<Rightarrow> specs_response \<Rightarrow> statsig_err + specs_response" where
  "handle_condition_update x Q pre envelope existing self =
     (let name = sn_name envelope;
          put = (\<lambda>c. self\<lparr>sr_condition_map := hm_insert name c (sr_condition_map self)\<rparr>);
          decode = res_bind (validate_envelope_data ''Condition'' (sn_data envelope)) (\<lambda>data.
            res_bind (map_err (map_decode_err ''Condition'') (po_condition Q data)) (\<lambda>pb.
            res_bind (condition_from_pb x Q pre pb) (\<lambda>c. Inr (put (c\<lparr>co_checksum := Some (sn_checksum envelope)\<rparr>)))))
      in case hm_get (sr_condition_map existing) name of
           Some c \<Rightarrow> (if co_checksum c = Some (sn_checksum envelope) then Inr (put c) else decode)
         | None \<Rightarrow> decode)"

definition remove_names :: "string list \<Rightarrow> (string, 'v) HashMap \<Rightarrow> (string, 'v) HashMap" where
  "remove_names names m = foldl (\<lambda>m n. hm_remove n m) m names"

definition apply_deletions :: "deletions \<Rightarrow> specs_response \<Rightarrow> specs_response" where
  "apply_deletions d self = self\<lparr>
     sr_dynamic_configs := remove_names (dl_dynamic_configs d) (sr_dynamic_configs self),
     sr_feature_gates := remove_names (dl_feature_gates d) (sr_feature_gates self),
     sr_layer_configs := remove_names (dl_layer_configs d) (sr_layer_configs self),
     sr_experiment_to_layer := remove_names (dl_experiment_to_layer d) (sr_experiment_to_layer self),
     sr_condition_map := remove_names (dl_condition_map d) (sr_condition_map self),
     sr_sdk_configs := map_option (remove_names (dl_sdk_configs d)) (sr_sdk_configs self),
     sr_param_stores := map_option (remove_names (dl_param_stores d)) (sr_param_stores self),
     sr_cmab_configs := map_option (remove_names (dl_cmab_configs d)) (sr_cmab_configs self),
     sr_override_rules := map_option (remove_names (dl_override_rules d)) (sr_override_rules self),
     sr_overrides := map_option (remove_names (dl_overrides d)) (sr_overrides self)\<rparr>"

definition handle_deletions_update :: "proto_ops \<Rightarrow> specs_envelope \<Rightarrow> specs_response \<Rightarrow> statsig_err + specs_response" where
  "handle_deletions_update Q envelope self =
     res_bind (validate_envelope_data ''Deletions'' (sn_data envelope)) (\<lambda>data.
     res_bind (map_err (map_decode_err ''RulesetsResponseDeletions'') (po_deletions Q data)) (\<lambda>d. Inr (apply_deletions d self)))"

definition handle_copy_prev_update :: "proto_ops \<Rightarrow> specs_response \<Rightarrow> specs_response \<Rightarrow> statsig_err + specs_response" where
  "handle_copy_prev_update Q existing self =
     res_bind (map_err (map_serde_json_err ''SpecsResponsePartial'') (po_copy_partial Q existing)) (\<lambda>partial.
       Inr ((merge_from_partial self partial)\<lparr>sr_checksum := sr_checksum existing, sr_company_id := sr_company_id existing,
         sr_time := sr_time existing, sr_has_updates := sr_has_updates existing, sr_response_format := sr_response_format existing,
         sr_dynamic_configs := sr_dynamic_configs existing, sr_feature_gates := sr_feature_gates existing,
         sr_layer_configs := sr_layer_configs existing, sr_condition_map := sr_condition_map existing,
         sr_param_stores := sr_param_stores existing\<rparr>))"

section \<open>Checksums\<close>

definition checksum_to_u32 :: "string option \<Rightarrow> u32 option" where
  "checksum_to_u32 checksum = (case checksum of None \<Rightarrow> None | Some t \<Rightarrow> map_option of_nat (parse_uint (2 ^ 32 - 1) t))"

definition sum_checksums :: "string option list \<Rightarrow> u64" where
  "sum_checksums cs = foldl (\<lambda>acc c. acc + ucast (opt_default 0 (checksum_to_u32 c))) 0 cs"

definition validate_field_checksum :: "string \<Rightarrow> (string, u64) HashMap \<Rightarrow> u64 \<Rightarrow> statsig_err + unit" where
  "validate_field_checksum field field_checksums computed =
     (case hm_get field_checksums field of
        None \<Rightarrow> Inl (ProtobufParseError ''proto::RulesetsChecksums'' (''Missing checksum for '' @ field))
      | Some expected \<Rightarrow>
          if expected \<noteq> computed
          then Inl (ProtobufParseError ''proto::RulesetsChecksums'' (''Checksum mismatch for '' @ field @ '': expected ''
            @ u64_to_string expected @ '', got '' @ u64_to_string computed))
          else Inr ())"

definition computed_checksums :: "specs_response \<Rightarrow> (string \<times> u64) list" where
  "computed_checksums self =
     [(''condition_map'', sum_checksums (map co_checksum (hm_values (sr_condition_map self)))),
      (''dynamic_configs'', sum_checksums (map sp_checksum (hm_values (sr_dynamic_configs self)))),
      (''feature_gates'', sum_checksums (map sp_checksum (hm_values (sr_feature_gates self)))),
      (''layer_configs'', sum_checksums (map sp_checksum (hm_values (sr_layer_configs self)))),
      (''param_stores'', sum_checksums (map ps_checksum (case sr_param_stores self of Some m \<Rightarrow> hm_values m | None \<Rightarrow> [])))]"

fun validate_checksums :: "(string, u64) HashMap \<Rightarrow> (string \<times> u64) list \<Rightarrow> statsig_err + unit" where
  "validate_checksums field_checksums [] = Inr ()"
| "validate_checksums field_checksums ((field, computed) # rest) =
     res_bind (validate_field_checksum field field_checksums computed) (\<lambda>_. validate_checksums field_checksums rest)"

definition handle_checksums_update :: "proto_ops \<Rightarrow> specs_envelope \<Rightarrow> specs_response \<Rightarrow> statsig_err + unit" where
  "handle_checksums_update Q envelope self =
     res_bind (validate_envelope_data ''Checksums'' (sn_data envelope)) (\<lambda>data.
     res_bind (map_err (map_decode_err ''RulesetsChecksums'') (po_checksums Q data)) (\<lambda>field_checksums.
       validate_checksums field_checksums (computed_checksums self)))"

section \<open>The whole message\<close>

datatype proto_effect = ProtoError statsig_err | ChecksumValidated bool

datatype proto_outcome = ProtoResult "statsig_err + specs_response" "proto_effect list" | ProtoPanic | ProtoOutOfFuel

definition consume_errors :: "(statsig_err + specs_response) \<Rightarrow> specs_response \<Rightarrow> specs_response \<times> proto_effect list" where
  "consume_errors r self = (case r of Inr s \<Rightarrow> (s, []) | Inl e \<Rightarrow> (self, [ProtoError e]))"

text \<open>One envelope: go on with a configuration, or end.\<close>

datatype envelope_step = GoOn specs_response "proto_effect list" | EndWith "statsig_err + specs_response" "proto_effect list"

definition go_on :: "specs_response \<times> proto_effect list \<Rightarrow> envelope_step" where
  "go_on p = GoOn (fst p) (snd p)"

definition apply_envelope ::
    "ext \<Rightarrow> proto_ops \<Rightarrow> preloads \<Rightarrow> (statsig_err \<Rightarrow> string) \<Rightarrow> specs_response \<Rightarrow> specs_envelope_kind \<Rightarrow> specs_envelope \<Rightarrow>
     specs_response \<Rightarrow> envelope_step" where
  "apply_envelope x Q pre disp current_specs kind env next_specs =
     (case kind of
        KindDone \<Rightarrow> EndWith (Inr next_specs) []
      | KindTopLevel \<Rightarrow> go_on (consume_errors (handle_top_level_update Q env next_specs) next_specs)
      | KindFeatureGate \<Rightarrow> go_on (consume_errors (handle_feature_gate_update x Q pre env current_specs next_specs) next_specs)
      | KindDynamicConfig \<Rightarrow> go_on (consume_errors (handle_dynamic_config_update x Q pre env current_specs next_specs) next_specs)
      | KindLayerConfig \<Rightarrow> go_on (consume_errors (handle_layer_config_update x Q pre env current_specs next_specs) next_specs)
      | KindParamStore \<Rightarrow> go_on (consume_errors (handle_param_store_update Q env current_specs next_specs) next_specs)
      | KindCondition \<Rightarrow> go_on (consume_errors (handle_condition_update x Q pre env current_specs next_specs) next_specs)
      | KindDeletions \<Rightarrow> go_on (consume_errors (handle_deletions_update Q env next_specs) next_specs)
      | KindChecksums \<Rightarrow>
          (case handle_checksums_update Q env next_specs of
             Inr _ \<Rightarrow> GoOn next_specs [ChecksumValidated True]
           | Inl e \<Rightarrow>
               EndWith (Inl (ChecksumFailure (''Failed to apply protobuf checksums update: '' @ disp e))) [ChecksumValidated False])
      | KindCopyPrev \<Rightarrow> go_on (consume_errors (handle_copy_prev_update Q current_specs next_specs) next_specs)
      | KindUnknown \<Rightarrow> EndWith (Inl (ProtobufParseError ''proto::SpecsEnvelope'' ''Unknown envelope kind'')) [])"

text \<open>A message that does not decode is logged and skipped.\<close>

definition apply_message ::
    "ext \<Rightarrow> proto_ops \<Rightarrow> preloads \<Rightarrow> (statsig_err \<Rightarrow> string) \<Rightarrow> specs_response \<Rightarrow> string \<Rightarrow> specs_response \<Rightarrow> envelope_step" where
  "apply_message x Q pre disp current_specs msg next_specs =
     (case po_envelope Q msg of
        Inl e \<Rightarrow> GoOn next_specs [ProtoError (map_decode_err ''SpecsEnvelope'' e)]
      | Inr env \<Rightarrow>
          (case res_enum Q ''SpecsEnvelopeKind'' envelope_kinds (sn_kind env) of
             Inl e \<Rightarrow> GoOn next_specs [ProtoError e]
           | Inr kind \<Rightarrow> apply_envelope x Q pre disp current_specs kind env next_specs))"

definition read_error :: "(statsig_err \<Rightarrow> string) \<Rightarrow> statsig_err \<Rightarrow> nat \<Rightarrow> proto_stream \<Rightarrow> statsig_err" where
  "read_error disp e parsed r =
     ProtobufParseError ''SpecsEnvelope''
       (''Error reading next delimited proto: '' @ disp e @ CHR 0x0A # replicate 20 (CHR '' '') @ CHR 0x0A #
        '' Previous Parsed Envelope Count: '' @ nat_to_string parsed @ CHR 0x0A # replicate 20 (CHR '' '') @ CHR 0x0A #
        '' Current Buffer Sample: '' @ sample_current_buf (pt_buf r))"

fun prefix_effects :: "proto_effect list \<Rightarrow> proto_outcome \<Rightarrow> proto_outcome" where
  "prefix_effects es (ProtoResult r es') = ProtoResult r (es @ es')"
| "prefix_effects es ProtoPanic = ProtoPanic"
| "prefix_effects es ProtoOutOfFuel = ProtoOutOfFuel"

fun envelope_loop ::
    "ext \<Rightarrow> proto_ops \<Rightarrow> preloads \<Rightarrow> (statsig_err \<Rightarrow> string) \<Rightarrow> specs_response \<Rightarrow> nat \<Rightarrow> nat \<Rightarrow> proto_stream \<Rightarrow> specs_response \<Rightarrow>
     proto_outcome" where
  "envelope_loop x Q pre disp current_specs 0 parsed r next_specs = ProtoOutOfFuel"
| "envelope_loop x Q pre disp current_specs (Suc fuel) parsed r next_specs =
     (case read_next_delimited_proto Q r of
        ReadPanic \<Rightarrow> ProtoPanic
      | ReadErr e r1 \<Rightarrow> (let err = read_error disp e parsed r1 in ProtoResult (Inl err) [ProtoError err])
      | ReadOk msg r1 \<Rightarrow>
          (case apply_message x Q pre disp current_specs msg next_specs of
             EndWith result es \<Rightarrow> ProtoResult result es
           | GoOn next1 es \<Rightarrow> prefix_effects es (envelope_loop x Q pre disp current_specs fuel (parsed + 1) r1 next1)))"

text \<open>Every message takes at least a byte, so the bytes of the stream bound the rounds.\<close>

definition deserialize_protobuf ::
    "ext \<Rightarrow> proto_ops \<Rightarrow> preloads \<Rightarrow> (statsig_err \<Rightarrow> string) \<Rightarrow> specs_response \<Rightarrow> specs_response \<Rightarrow> string list \<Rightarrow> string option \<Rightarrow>
     proto_outcome" where
  "deserialize_protobuf x Q pre disp current_specs next_specs chunks stream_error =
     (if \<not> specs_is_empty next_specs
      then ProtoResult (Inl (ProtobufParseError ''SpecsResponseFull'' ''Next specs are not empty'')) []
      else envelope_loop x Q pre disp current_specs (Suc (length (concat chunks))) 0
             \<lparr>pt_buf = [], pt_chunks = chunks, pt_error = stream_error\<rparr> next_specs)"

end
