(* ===== verification/Proto_Contract.thy ===== *)
theory Proto_Contract
  imports Proto_Specs
begin

text \<open>
  What reading a stream of protocol buffer messages gives: the list of messages in the bytes, whatever the sizes of
  the chunks, folded from the first to the one that ends it. Of the delimiters of prost the laws of a
  varint are used: what is decoded from the start of a text does not change when the text goes on, a text of ten bytes
  decodes or never will, and a delimiter has at least one byte.
\<close>

section \<open>Messages in a text\<close>

definition delimiter_laws :: "proto_ops \<Rightarrow> bool" where
  "delimiter_laws Q \<longleftrightarrow>
     (\<forall>b s n. po_decode_length Q b = Inr n \<longrightarrow> po_decode_length Q (b @ s) = Inr n) \<and>
     (\<forall>b s e. po_decode_length Q b = Inl e \<and> 10 \<le> length b \<longrightarrow> isl (po_decode_length Q (b @ s))) \<and>
     (\<forall>n. 0 < po_length_delimiter_len Q n)"

definition message_len :: "proto_ops \<Rightarrow> string \<Rightarrow> nat option" where
  "message_len Q b =
     (case po_decode_length Q b of Inl e \<Rightarrow> None | Inr n \<Rightarrow> Some (po_length_delimiter_len Q n + n))"

definition next_message :: "proto_ops \<Rightarrow> string \<Rightarrow> (string \<times> string) option" where
  "next_message Q b =
     (case message_len Q b of None \<Rightarrow> None | Some k \<Rightarrow> if k \<le> length b then Some (take k b, drop k b) else None)"

text \<open>The messages in a text, at most as many as the fuel.\<close>

fun messages :: "proto_ops \<Rightarrow> nat \<Rightarrow> string \<Rightarrow> string list" where
  "messages Q 0 b = []"
| "messages Q (Suc fuel) b = (case next_message Q b of None \<Rightarrow> [] | Some (m, rest) \<Rightarrow> m # messages Q fuel rest)"

lemma message_len_pos: "delimiter_laws Q \<Longrightarrow> message_len Q b = Some k \<Longrightarrow> 0 < k"
  by (auto simp: delimiter_laws_def message_len_def split: sum.splits)

lemma message_len_append: "delimiter_laws Q \<Longrightarrow> message_len Q b = Some k \<Longrightarrow> message_len Q (b @ s) = Some k"
  unfolding delimiter_laws_def message_len_def by (auto split: sum.splits)

lemma message_len_append_None:
  assumes "delimiter_laws Q" "message_len Q b = None" "10 \<le> length b"
  shows "message_len Q (b @ s) = None"
proof -
  obtain e where "po_decode_length Q b = Inl e" using assms(2) by (auto simp: message_len_def split: sum.splits)
  with assms(1,3) have "isl (po_decode_length Q (b @ s))" unfolding delimiter_laws_def by blast
  then show ?thesis by (auto simp: message_len_def split: sum.splits)
qed

lemma next_message_shorter: "delimiter_laws Q \<Longrightarrow> next_message Q b = Some (m, rest) \<Longrightarrow> length rest < length b"
  by (auto simp: next_message_def dest: message_len_pos split: option.splits if_splits)

section \<open>Reading them\<close>

text \<open>The bytes still to come, and a stream that ends without an error.\<close>

definition pending :: "proto_stream \<Rightarrow> string" where
  "pending r = pt_buf r @ concat (pt_chunks r)"

definition sound_stream :: "proto_stream \<Rightarrow> bool" where
  "sound_stream r \<longleftrightarrow> [] \<notin> set (pt_chunks r) \<and> pt_error r = None"

lemma sound_read:
  assumes "sound_stream r"
  obtains (chunk) c r1 where "decompressor_read r = Inr (c, r1)" "c \<noteq> []" "sound_stream (r1\<lparr>pt_buf := pt_buf r1 @ c\<rparr>)"
      "pending (r1\<lparr>pt_buf := pt_buf r1 @ c\<rparr>) = pending r" "pt_buf r1 = pt_buf r" "length (pt_chunks r1) < length (pt_chunks r)"
  | (eof) "decompressor_read r = Inr ([], r)" "pt_chunks r = []"
proof (cases "pt_chunks r")
  case Nil
  with assms show ?thesis by (intro eof) (auto simp: decompressor_read_def sound_stream_def)
next
  case (Cons c cs)
  with assms show ?thesis
    by (intro chunk [of c "r\<lparr>pt_chunks := cs\<rparr>"]) (auto simp: decompressor_read_def sound_stream_def pending_def)
qed

lemma read_length_delimiter_pending:
  assumes "delimiter_laws Q" "sound_stream r"
  shows "(case message_len Q (pending r) of
      Some k \<Rightarrow> (\<exists>r1. read_length_delimiter Q r = ReadOk k r1 \<and> sound_stream r1 \<and> pending r1 = pending r)
    | None \<Rightarrow> (\<exists>e r1. read_length_delimiter Q r = ReadErr e r1))"
  using assms(2)
proof (induction "length (pt_chunks r)" arbitrary: r rule: less_induct)
  case less
  show ?case
  proof (cases "po_decode_length Q (pt_buf r)")
    case (Inr n)
    then have "message_len Q (pt_buf r) = Some (po_length_delimiter_len Q n + n)" by (simp add: message_len_def)
    then have "message_len Q (pending r) = Some (po_length_delimiter_len Q n + n)"
      unfolding pending_def by (rule message_len_append [OF assms(1)])
    with Inr less.prems show ?thesis by (subst read_length_delimiter.simps) simp
  next
    case (Inl e)
    show ?thesis
    proof (cases "10 \<le> length (pt_buf r)")
      case True
      have "message_len Q (pt_buf r) = None" using Inl by (simp add: message_len_def)
      then have "message_len Q (pending r) = None" unfolding pending_def by (rule message_len_append_None [OF assms(1) _ True])
      with Inl True show ?thesis by (subst read_length_delimiter.simps) simp
    next
      case False
      from less.prems show ?thesis
      proof (cases rule: sound_read)
        case (chunk c r1)
        have step: "read_length_delimiter Q r = read_length_delimiter Q (r1\<lparr>pt_buf := pt_buf r1 @ c\<rparr>)"
          using Inl False chunk(1,2) by (subst read_length_delimiter.simps) simp
        show ?thesis using less.hyps [OF _ chunk(3), unfolded chunk(4)] chunk(6) unfolding step by simp
      next
        case eof
        have "message_len Q (pending r) = None" using Inl eof(2) by (simp add: message_len_def pending_def)
        with Inl False eof(1) show ?thesis by (subst read_length_delimiter.simps) simp
      qed
    qed
  qed
qed

lemma fill_buffer_pending:
  assumes "sound_stream r"
  shows "if k \<le> length (pending r)
    then \<exists>r1. fill_buffer k r = ReadOk (take k (pending r)) r1 \<and> sound_stream r1 \<and> pending r1 = drop k (pending r)
    else fill_buffer k r = ReadPanic"
  using assms
proof (induction "length (pt_chunks r)" arbitrary: r rule: less_induct)
  case less
  show ?case
  proof (cases "k \<le> length (pt_buf r)")
    case True
    with less.prems show ?thesis by (subst (1 2) fill_buffer.simps) (simp add: pending_def sound_stream_def)
  next
    case False
    from less.prems show ?thesis
    proof (cases rule: sound_read)
      case (chunk c r1)
      have step: "fill_buffer k r = fill_buffer k (r1\<lparr>pt_buf := pt_buf r1 @ c\<rparr>)"
        using False chunk(1,2) by (subst fill_buffer.simps) simp
      show ?thesis using less.hyps [OF _ chunk(3), unfolded chunk(4)] chunk(6) unfolding step by simp
    next
      case eof
      with False have "\<not> k \<le> length (pending r)" by (simp add: pending_def)
      moreover have "fill_buffer k r = ReadPanic" using False eof(1) by (subst fill_buffer.simps) simp
      ultimately show ?thesis by simp
    qed
  qed
qed

lemma read_next_pending:
  assumes "delimiter_laws Q" "sound_stream r"
  shows "case next_message Q (pending r) of
      Some (m, rest) \<Rightarrow> (\<exists>r1. read_next_delimited_proto Q r = ReadOk m r1 \<and> sound_stream r1 \<and> pending r1 = rest)
    | None \<Rightarrow> (if message_len Q (pending r) = None then \<exists>e r1. read_next_delimited_proto Q r = ReadErr e r1
               else read_next_delimited_proto Q r = ReadPanic)"
proof (cases "message_len Q (pending r)")
  case None
  with read_length_delimiter_pending [OF assms] show ?thesis by (auto simp: next_message_def read_next_delimited_proto_def)
next
  case (Some k)
  with read_length_delimiter_pending [OF assms] obtain r1 where r1: "read_length_delimiter Q r = ReadOk k r1" "sound_stream r1"
      "pending r1 = pending r" by auto
  with fill_buffer_pending [OF r1(2), of k, unfolded r1(3)] Some show ?thesis
    by (simp add: next_message_def read_next_delimited_proto_def)
qed

section \<open>Folding them\<close>

fun apply_messages ::
    "ext \<Rightarrow> proto_ops \<Rightarrow> preloads \<Rightarrow> (statsig_err \<Rightarrow> string) \<Rightarrow> specs_response \<Rightarrow> string list \<Rightarrow> specs_response \<Rightarrow>
     ((statsig_err + specs_response) \<times> proto_effect list) option" where
  "apply_messages x Q pre disp current_specs [] next_specs = None"
| "apply_messages x Q pre disp current_specs (m # ms) next_specs =
     (case apply_message x Q pre disp current_specs m next_specs of
        EndWith result es \<Rightarrow> Some (result, es)
      | GoOn next1 es \<Rightarrow> map_option (\<lambda>(r, es'). (r, es @ es')) (apply_messages x Q pre disp current_specs ms next1))"

lemma envelope_loop_messages:
  assumes "delimiter_laws Q" "sound_stream r" "length (pending r) < fuel"
  shows "case apply_messages x Q pre disp current_specs (messages Q fuel (pending r)) next_specs of
      Some (result, es) \<Rightarrow> envelope_loop x Q pre disp current_specs fuel parsed r next_specs = ProtoResult result es
    | None \<Rightarrow> envelope_loop x Q pre disp current_specs fuel parsed r next_specs = ProtoPanic \<or>
        (\<exists>e es. envelope_loop x Q pre disp current_specs fuel parsed r next_specs = ProtoResult (Inl e) es)"
  using assms(2,3)
proof (induction fuel arbitrary: r parsed next_specs)
  case (Suc fuel)
  show ?case
  proof (cases "next_message Q (pending r)")
    case None
    with read_next_pending [OF assms(1) Suc.prems(1)] show ?thesis by (auto simp: Let_def split: if_splits)
  next
    case (Some mr)
    then obtain m rest where mr: "next_message Q (pending r) = Some (m, rest)" by (cases mr) auto
    then obtain r1 where r1: "read_next_delimited_proto Q r = ReadOk m r1" "sound_stream r1" "pending r1 = rest"
      using read_next_pending [OF assms(1) Suc.prems(1)] by auto
    have "length (pending r1) < fuel" using next_message_shorter [OF assms(1) mr] r1(3) Suc.prems(2) by simp
    note IH = Suc.IH [OF r1(2) this]
    show ?thesis
    proof (cases "apply_message x Q pre disp current_specs m next_specs")
      case (GoOn next1 es)
      show ?thesis using IH [of "parsed + 1" next1] mr r1 GoOn by (auto split: option.splits)
    next
      case (EndWith result es)
      with mr r1 show ?thesis by simp
    qed
  qed
qed simp

lemma deserialize_messages:
  assumes "delimiter_laws Q" "[] \<notin> set chunks"
  shows "case apply_messages x Q pre disp current_specs (messages Q (Suc (length (concat chunks))) (concat chunks)) specs_default of
      Some (result, es) \<Rightarrow> deserialize_protobuf x Q pre disp current_specs specs_default chunks None = ProtoResult result es
    | None \<Rightarrow> deserialize_protobuf x Q pre disp current_specs specs_default chunks None = ProtoPanic \<or>
        (\<exists>e es. deserialize_protobuf x Q pre disp current_specs specs_default chunks None = ProtoResult (Inl e) es)"
proof -
  let ?r = "\<lparr>pt_buf = [], pt_chunks = chunks, pt_error = None\<rparr>"
  have "sound_stream ?r" "pending ?r = concat chunks" using assms(2) by (simp_all add: sound_stream_def pending_def)
  note loop = envelope_loop_messages [OF assms(1) this(1), of "Suc (length (concat chunks))" x pre disp current_specs 0 specs_default,
      unfolded this(2)]
  have "specs_is_empty specs_default" using specs_reset_is_empty by (simp add: specs_reset_def)
  then have run: "deserialize_protobuf x Q pre disp current_specs specs_default chunks None =
      envelope_loop x Q pre disp current_specs (Suc (length (concat chunks))) 0 ?r specs_default"
    by (simp add: deserialize_protobuf_def)
  show ?thesis unfolding run by (rule loop) simp
qed

lemma deserialize_accepted:
  assumes "delimiter_laws Q" "[] \<notin> set chunks"
  shows "deserialize_protobuf x Q pre disp current_specs specs_default chunks None = ProtoResult (Inr v) es \<longleftrightarrow>
    apply_messages x Q pre disp current_specs (messages Q (Suc (length (concat chunks))) (concat chunks)) specs_default = Some (Inr v, es)"
  using deserialize_messages [OF assms, of x pre disp current_specs] by (auto split: option.splits prod.splits)

section \<open>Envelopes in a message\<close>

definition message_envelope :: "proto_ops \<Rightarrow> string \<Rightarrow> (specs_envelope_kind \<times> specs_envelope) option" where
  "message_envelope Q m =
     (case po_envelope Q m of
        Inl _ \<Rightarrow> None
      | Inr env \<Rightarrow> map_option (\<lambda>k. (k, env)) (enum_try_from envelope_kinds (sn_kind env)))"

lemma apply_message_envelope:
  "apply_message x Q pre disp current_specs m next_specs =
     (case message_envelope Q m of
        Some (kind, env) \<Rightarrow> apply_envelope x Q pre disp current_specs kind env next_specs
      | None \<Rightarrow> GoOn next_specs [ProtoError (case po_envelope Q m of
            Inl e \<Rightarrow> map_decode_err ''SpecsEnvelope'' e
          | Inr env \<Rightarrow> map_unknown_enum_value Q ''SpecsEnvelopeKind'' (sn_kind env))])"
  by (auto simp: apply_message_def message_envelope_def res_enum_def split: sum.splits option.splits)

lemmas envelope_simps = apply_envelope_def go_on_def consume_errors_def

text \<open>Only the message that says so ends the stream with a configuration, and it changes nothing.\<close>

lemma apply_envelope_end:
  "apply_envelope x Q pre disp current_specs kind env next_specs = EndWith (Inr v) es \<Longrightarrow> kind = KindDone \<and> v = next_specs"
  by (auto simp: envelope_simps split: specs_envelope_kind.splits sum.splits)

lemma apply_messages_end:
  assumes "apply_messages x Q pre disp current_specs (ms @ m # rest) next_specs = Some (Inr v, es)"
    and "\<forall>m\<in>set ms. \<forall>env. message_envelope Q m \<noteq> Some (KindDone, env)"
  shows "\<exists>next1 es1 es2. es = es1 @ es2 \<and> apply_messages x Q pre disp current_specs (m # rest) next1 = Some (Inr v, es2)"
  using assms
proof (induction ms arbitrary: next_specs es)
  case (Cons a ms)
  show ?case
  proof (cases "apply_message x Q pre disp current_specs a next_specs")
    case (GoOn next1 es1)
    with Cons.prems(1) obtain es2 where "apply_messages x Q pre disp current_specs (ms @ m # rest) next1 = Some (Inr v, es2)" "es = es1 @ es2"
      by auto
    then show ?thesis using Cons.IH [of next1 es2] Cons.prems(2) by (metis append.assoc list.set_intros(2))
  next
    case (EndWith result es1)
    with Cons.prems have "apply_message x Q pre disp current_specs a next_specs = EndWith (Inr v) es1" by simp
    then obtain env where "message_envelope Q a = Some (KindDone, env)"
      by (auto simp: apply_message_envelope dest: apply_envelope_end split: option.splits)
    with Cons.prems(2) show ?thesis by auto
  qed
next
  case Nil
  then show ?case by (metis append_Nil)
qed

lemma validate_checksums_sound:
  "validate_checksums expected cs = Inr () \<Longrightarrow> (f, c) \<in> set cs \<Longrightarrow> hm_get expected f = Some c"
  by (induction expected cs rule: validate_checksums.induct)
    (auto simp: res_bind_def validate_field_checksum_def split: sum.splits option.splits if_splits)

lemma checksums_before_done:
  assumes "message_envelope Q mc = Some (KindChecksums, cenv)" "sn_data cenv = Some data" "po_checksums Q data = Inr expected"
    and "message_envelope Q md = Some (KindDone, denv)"
    and "apply_messages x Q pre disp current_specs (mc # md # rest) next_specs = Some (Inr v, es)"
  shows "validate_checksums expected (computed_checksums v) = Inr ()"
proof -
  have "handle_checksums_update Q cenv next_specs = validate_checksums expected (computed_checksums next_specs)"
    using assms(2,3) by (simp add: handle_checksums_update_def res_bind_def validate_envelope_data_def map_err_def)
  with assms(1,4,5) show ?thesis
    by (auto simp: apply_message_envelope envelope_simps split: sum.splits)
qed

section \<open>Deltas\<close>

text \<open>A message that says something of a gate: its spec, or that it is deleted.\<close>

definition touches_gate :: "proto_ops \<Rightarrow> string \<Rightarrow> string \<Rightarrow> bool" where
  "touches_gate Q n m \<longleftrightarrow>
     (case message_envelope Q m of
        Some (KindFeatureGate, env) \<Rightarrow> sn_name env = n
      | Some (KindDeletions, env) \<Rightarrow>
          (case sn_data env of
             Some data \<Rightarrow> (case po_deletions Q data of Inr d \<Rightarrow> n \<in> set (dl_feature_gates d) | Inl _ \<Rightarrow> False)
           | None \<Rightarrow> False)
      | _ \<Rightarrow> False)"

lemma hm_get_remove_names: "hm_get (remove_names ns m) n = (if n \<in> set ns then None else hm_get m n)"
  unfolding remove_names_def by (induction ns arbitrary: m) auto

lemma handle_individual_frame:
  assumes "handle_individual_spec_update x Q pre tag fetch env existing m = Inr m'" "sn_name env \<noteq> n"
  shows "hm_get m' n = hm_get m n"
  using assms
  by (auto simp: handle_individual_spec_update_def Let_def res_bind_def split: option.splits if_splits sum.splits)

lemmas handler_defs = handle_top_level_update_def populate_top_level_from_envelope_def handle_feature_gate_update_def
  handle_dynamic_config_update_def handle_layer_config_update_def handle_param_store_update_def insert_param_store_def
  handle_condition_update_def handle_deletions_update_def handle_copy_prev_update_def

lemma apply_envelope_untouched:
  assumes "apply_envelope x Q pre disp current_specs kind env next_specs = GoOn next1 es"
    and "message_envelope Q m = Some (kind, env)" "\<not> touches_gate Q n m"
    and "hm_get (sr_feature_gates next_specs) n = hm_get (sr_feature_gates current_specs) n"
  shows "hm_get (sr_feature_gates next1) n = hm_get (sr_feature_gates current_specs) n"
  using assms
  by (cases kind)
    (auto simp: envelope_simps handler_defs touches_gate_def merge_from_partial_def apply_deletions_def hm_get_remove_names
      res_bind_def map_err_def validate_envelope_data_def Let_def dest: handle_individual_frame
      split: sum.splits option.splits if_splits)

lemma apply_messages_untouched:
  assumes "apply_messages x Q pre disp current_specs ms next_specs = Some (Inr v, es)"
    and "\<forall>m\<in>set ms. \<not> touches_gate Q n m"
    and "hm_get (sr_feature_gates next_specs) n = hm_get (sr_feature_gates current_specs) n"
  shows "hm_get (sr_feature_gates v) n = hm_get (sr_feature_gates current_specs) n"
  using assms
proof (induction ms arbitrary: next_specs es)
  case (Cons m ms)
  show ?case
  proof (cases "apply_message x Q pre disp current_specs m next_specs")
    case (GoOn next1 es1)
    have "hm_get (sr_feature_gates next1) n = hm_get (sr_feature_gates current_specs) n"
      using GoOn Cons.prems(2,3) apply_envelope_untouched [of x Q pre disp current_specs _ _ next_specs next1 es1 m n]
      by (auto simp: apply_message_envelope split: option.splits)
    with GoOn Cons.prems Cons.IH [of next1] show ?thesis by auto
  next
    case (EndWith result es1)
    then show ?thesis using Cons.prems(1,3)
      by (auto simp: apply_message_envelope dest!: apply_envelope_end split: option.splits)
  qed
qed simp

section \<open>What the stream promises\<close>


text \<open>
  C13: A delta leaves alone what it does not name. When the stream copies the previous configuration first and no message of it
  is a spec of the gate or a deletion with its name, the gate in the configuration read is the gate of the current configuration.
\<close>

theorem delta_keeps_untouched_gates:
  assumes "delimiter_laws Q" "[] \<notin> set chunks"
    and "messages Q (Suc (length (concat chunks))) (concat chunks) = m # ms"
    and "message_envelope Q m = Some (KindCopyPrev, env)" "po_copy_partial Q current_specs = Inr partial"
    and "\<forall>m\<in>set ms. \<not> touches_gate Q n m"
    and "deserialize_protobuf x Q pre disp current_specs specs_default chunks None = ProtoResult (Inr v) es"
  shows "hm_get (sr_feature_gates v) n = hm_get (sr_feature_gates current_specs) n"
proof -
  from assms(7) have "apply_messages x Q pre disp current_specs (m # ms) specs_default = Some (Inr v, es)"
    unfolding deserialize_accepted [OF assms(1,2)] assms(3) .
  then obtain next1 es1 where "apply_messages x Q pre disp current_specs ms next1 = Some (Inr v, es1)"
      "sr_feature_gates next1 = sr_feature_gates current_specs"
    using assms(4,5) by (auto simp: apply_message_envelope envelope_simps handle_copy_prev_update_def res_bind_def map_err_def)
  then show ?thesis using apply_messages_untouched [OF _ assms(6)] by auto
qed

text \<open>A stream that ends inside a message: the reader splits its buffer past the end.\<close>

theorem truncated_stream_panics:
  assumes "delimiter_laws Q" "[] \<notin> set chunks" "message_len Q (concat chunks) = Some k" "length (concat chunks) < k"
  shows "deserialize_protobuf x Q pre disp current_specs specs_default chunks None = ProtoPanic"
proof -
  let ?r = "\<lparr>pt_buf = [], pt_chunks = chunks, pt_error = None\<rparr>"
  have r: "sound_stream ?r" "pending ?r = concat chunks" using assms(2) by (simp_all add: sound_stream_def pending_def)
  have "next_message Q (concat chunks) = None" using assms(3,4) by (simp add: next_message_def)
  with read_next_pending [OF assms(1) r(1), unfolded r(2)] assms(3) have "read_next_delimited_proto Q ?r = ReadPanic" by simp
  moreover have "specs_is_empty specs_default" using specs_reset_is_empty by (simp add: specs_reset_def)
  ultimately show ?thesis by (simp add: deserialize_protobuf_def)
qed

section \<open>Updates of the store\<close>

text \<open>Parsers whose protocol buffers are read by the stream reader from the chunks of the decompressor.\<close>

definition reads_protobuf ::
    "spec_parsers \<Rightarrow> ext \<Rightarrow> proto_ops \<Rightarrow> preloads \<Rightarrow> (statsig_err \<Rightarrow> string) \<Rightarrow> (string \<Rightarrow> string list) \<Rightarrow> bool" where
  "reads_protobuf P x Q pre disp brotli \<longleftrightarrow>
     (\<forall>current_specs next_specs bytes r es.
        deserialize_protobuf x Q pre disp current_specs next_specs (brotli bytes) None = ProtoResult r es \<longrightarrow>
        pa_protobuf P current_specs next_specs bytes = r)"

lemma apply_messages_done:
  "m \<in> set ms \<Longrightarrow> message_envelope Q m = Some (KindDone, env) \<Longrightarrow>
   apply_messages x Q pre disp current_specs ms next_specs \<noteq> None"
  by (induction ms arbitrary: next_specs)
    (auto simp: apply_message_envelope apply_envelope_def split: envelope_step.splits)

lemma parsed_checksums_match:
  assumes "delimiter_laws Q" "[] \<notin> set (brotli bytes)" "reads_protobuf P x Q pre disp brotli"
    and "messages Q (Suc (length (concat (brotli bytes)))) (concat (brotli bytes)) = ms @ mc # md # rest"
    and "\<forall>m\<in>set ms. \<forall>env. message_envelope Q m \<noteq> Some (KindDone, env)"
    and "message_envelope Q mc = Some (KindChecksums, cenv)" "sn_data cenv = Some data" "po_checksums Q data = Inr expected"
    and "message_envelope Q md = Some (KindDone, denv)"
    and "pa_protobuf P current_specs specs_default bytes = Inr v" "(f, c) \<in> set (computed_checksums v)"
  shows "hm_get expected f = Some c"
proof -
  have "apply_messages x Q pre disp current_specs (ms @ mc # md # rest) specs_default \<noteq> None"
    by (rule apply_messages_done [of md, OF _ assms(9)]) simp
  then obtain r es where fold: "apply_messages x Q pre disp current_specs (ms @ mc # md # rest) specs_default = Some (r, es)"
    by auto
  with deserialize_messages [OF assms(1,2), of x pre disp current_specs]
  have "deserialize_protobuf x Q pre disp current_specs specs_default (brotli bytes) None = ProtoResult r es"
    unfolding assms(4) by simp
  with assms(3,10) have "r = Inr v" unfolding reads_protobuf_def by metis
  with fold obtain next1 es2 where "apply_messages x Q pre disp current_specs (mc # md # rest) next1 = Some (Inr v, es2)"
    using apply_messages_end [OF _ assms(5)] by blast
  from validate_checksums_sound [OF checksums_before_done [OF assms(6-9) this] assms(11)] show ?thesis .
qed

text \<open>
  C12: The store takes no configuration that its stream's checksums contradict. When the stream of a protocol buffer update ends with the
  expected checksums and the message that ends it, an update either leaves the data of the store as it is, or
  puts a configuration there for each of whose five tables the sum of the checksums is the one expected, whatever was
  skipped, copied, reused or deleted on the way.
\<close>

theorem store_takes_verified_updates:
  assumes "delimiter_laws Q" "[] \<notin> set (brotli (rd_bytes (up_data u)))" "reads_protobuf P x Q pre disp brotli"
    and "get_spec_response_format u = FormatProtobuf"
    and "bytes = concat (brotli (rd_bytes (up_data u)))"
    and "messages Q (Suc (length bytes)) bytes = ms @ mc # md # rest"
    and "\<forall>m\<in>set ms. \<forall>env. message_envelope Q m \<noteq> Some (KindDone, env)"
    and "message_envelope Q mc = Some (KindChecksums, cenv)" "sn_data cenv = Some data" "po_checksums Q data = Inr expected"
    and "message_envelope Q md = Some (KindDone, denv)"
    and "set_values P E u st = (r, effects, st')"
  shows "ss_data st' = ss_data st \<or>
    (\<forall>(f, c)\<in>set (computed_checksums (sd_values (ss_data st'))). hm_get expected f = Some c)"
  using set_values_cases [OF assms(12)]
proof (elim disjE exE conjE)
  fix nx fmt
  assume prep: "specs_update_prep P (ue_prep E) u st = Inr (HasUpdates nx fmt)"
    and d: "ss_data st' = (ss_data st)\<lparr>sd_source := up_source u, sd_values := nx,
         sd_time_received_at := Some (ae_now (ue_apply E)), sd_source_api := up_source_api u\<rparr>"
  from prep_has_updatesD [OF prep] assms(4) have "pa_protobuf P (sd_values (ss_data st)) specs_default (rd_bytes (up_data u)) = Inr nx"
    by (auto simp: deserialize_specs_data_def)
  from parsed_checksums_match [OF assms(1-3) assms(6)[unfolded assms(5)] assms(7-11) this]
  show ?thesis by (auto simp: d)
qed simp

section \<open>An example\<close>

text \<open>Messages of two bytes, their length and their kind; the only spec is the gate \<open>g\<close> with the checksum 7.\<close>

definition byte_length :: "string \<Rightarrow> string + nat" where
  "byte_length b = (case b of [] \<Rightarrow> Inl ''empty'' | c # _ \<Rightarrow> (if of_char c < (128::nat) then Inr (of_char c) else Inl ''long''))"

definition byte_envelope :: "string \<Rightarrow> string + specs_envelope" where
  "byte_envelope m =
     (case m of
        [_, k] \<Rightarrow> Inr \<lparr>sn_kind = int (of_char k), sn_name = ''g'', sn_checksum = ''7'', sn_data = Some []\<rparr>
      | _ \<Rightarrow> Inl ''envelope'')"

definition byte_spec :: pb_spec where
  "byte_spec = \<lparr>px_salt = [], px_enabled = True, px_default_value = None, px_entity = 1, px_id_type = None, px_version = 1, px_rules = [],
     px_is_active = None, px_explicit_parameters = [], px_has_shared_params = None, px_target_app_ids = [],
     px_use_new_layer_eval = None, px_forward_all_exposures = None, px_fields_used = []\<rparr>"

definition byte_checksums :: "(string, u64) HashMap" where
  "byte_checksums = [(''condition_map'', 0), (''dynamic_configs'', 0), (''feature_gates'', 7), (''layer_configs'', 0), (''param_stores'', 0)]"

definition empty_partial :: specs_response_partial where
  "empty_partial = specs_response_partial.truncate specs_default"

definition byte_ops :: proto_ops where
  "byte_ops = \<lparr>po_decode_length = byte_length, po_length_delimiter_len = (\<lambda>_. 1), po_envelope = byte_envelope,
     po_top_level = (\<lambda>_. Inr \<lparr>tl_has_updates = True, tl_time = 5, tl_company_id = [], tl_response_format = [], tl_checksum = [], tl_rest = []\<rparr>),
     po_spec = (\<lambda>_. Inr byte_spec), po_condition = (\<lambda>_. Inl []), po_deletions = (\<lambda>_. Inl []), po_checksums = (\<lambda>_. Inr byte_checksums),
     po_partial = (\<lambda>_. Inr empty_partial), po_copy_partial = (\<lambda>_. Inr empty_partial), po_param_store = (\<lambda>_. Inl []),
     po_additional_values = (\<lambda>_. Inl []), po_json = (\<lambda>_. Inl []), po_returnable = (\<lambda>_. Inl []), po_unknown_enum = (\<lambda>_. []),
     po_f32_text = (\<lambda>_. [])\<rparr>"

definition no_preloads :: preloads where
  "no_preloads = \<lparr>pl_feature_gate = (\<lambda>_. None), pl_dynamic_config = (\<lambda>_. None), pl_layer_config = (\<lambda>_. None),
     pl_evaluator_value = (\<lambda>_. None), pl_returnable = (\<lambda>_. None)\<rparr>"

definition byte_message :: "nat \<Rightarrow> string" where
  "byte_message k = [CHR 0x01, char_of k]"

definition byte_gate :: spec where
  "byte_gate = \<lparr>sp_checksum = Some ''7'', sp_type = ''feature_gate'', sp_salt = [], sp_default_value = dr_empty, sp_enabled = True,
     sp_rules = [], sp_id_type = [], sp_explicit_parameters = None, sp_entity = ''feature_gate'', sp_has_shared_params = None,
     sp_is_active = None, sp_version = Some 1, sp_target_app_ids = None, sp_forward_all_exposures = None, sp_fields_used = None,
     sp_use_new_layer_eval = None\<rparr>"

definition byte_top :: specs_response where
  "byte_top = specs_default\<lparr>sr_checksum := Some [], sr_time := 5, sr_has_updates := True, sr_response_format := Some [],
     sr_company_id := Some []\<rparr>"

definition byte_result :: specs_response where
  "byte_result = byte_top\<lparr>sr_feature_gates := hm_insert ''g'' byte_gate []\<rparr>"

lemma byte_ops_simps:
  "po_copy_partial byte_ops c = Inr empty_partial" "po_checksums byte_ops d = Inr byte_checksums"
  by (simp_all add: byte_ops_def)

lemma byte_laws: "delimiter_laws byte_ops"
  by (auto simp: delimiter_laws_def byte_ops_def byte_length_def split: list.splits if_splits)

lemma next_byte_message: "next_message byte_ops (byte_message k @ rest) = Some (byte_message k, rest)"
  by (simp add: next_message_def message_len_def byte_ops_def byte_length_def byte_message_def)

lemma byte_messages: "length ks < fuel \<Longrightarrow> messages byte_ops fuel (concat (map byte_message ks)) = map byte_message ks"
proof (induction ks arbitrary: fuel)
  case Nil
  then show ?case by (cases fuel) (simp_all add: next_message_def message_len_def byte_ops_def byte_length_def)
next
  case (Cons k ks)
  then show ?case by (cases fuel) (simp_all add: next_byte_message)
qed

lemma length_byte_messages [simp]: "length (concat (map byte_message ks)) = 2 * length ks"
  by (induction ks) (simp_all add: byte_message_def)

lemma byte_chunks:
  "concat chunks = concat (map byte_message ks) \<Longrightarrow>
   messages byte_ops (Suc (length (concat chunks))) (concat chunks) = map byte_message ks"
  by (simp add: byte_messages del: messages.simps)

lemma byte_message_envelope:
  "k < 256 \<Longrightarrow> message_envelope byte_ops (byte_message k) =
     map_option (\<lambda>kind. (kind, \<lparr>sn_kind = int k, sn_name = ''g'', sn_checksum = ''7'', sn_data = Some []\<rparr>)) (enum_try_from envelope_kinds (int k))"
  by (simp add: message_envelope_def byte_ops_def byte_envelope_def byte_message_def)

lemma byte_gate_read:
  "hm_get (sr_feature_gates existing) ''g'' = None \<Longrightarrow>
   handle_feature_gate_update x byte_ops no_preloads \<lparr>sn_kind = 3, sn_name = ''g'', sn_checksum = ''7'', sn_data = Some []\<rparr> existing self =
     Inr (self\<lparr>sr_feature_gates := hm_insert ''g'' byte_gate (sr_feature_gates self)\<rparr>)"
  by (simp add: handle_feature_gate_update_def handle_individual_spec_update_def spec_from_pb_def res_enum_def byte_spec_def entity_types_def
      enum_try_from_def byte_ops_def no_preloads_def res_bind_def map_err_def validate_envelope_data_def id_type_from_pb_def
      return_value_from_pb_def some_unless_empty_def to_legacy_type_def byte_gate_def)

lemma byte_copy_read:
  "handle_copy_prev_update byte_ops existing self =
     Inr (existing\<lparr>sr_app_id := None, sr_cmab_configs := None, sr_default_environment := None, sr_diagnostics := None,
       sr_experiment_to_layer := [], sr_hashed_sdk_keys_to_app_ids := None, sr_id_lists := None, sr_override_rules := None,
       sr_overrides := None, sr_sdk_configs := None, sr_sdk_flags := None, sr_sdk_keys_to_app_ids := None,
       sr_session_replay_info := None, sr_auto_capture_settings := None, sr_gcir_config := None\<rparr>)"
  by (simp add: handle_copy_prev_update_def byte_ops_def res_bind_def map_err_def merge_from_partial_def empty_partial_def
      specs_response_partial.defs specs_default_def)

lemma byte_top_read:
  "handle_top_level_update byte_ops \<lparr>sn_kind = 2, sn_name = ''g'', sn_checksum = ''7'', sn_data = Some []\<rparr> specs_default = Inr byte_top"
  by (simp add: handle_top_level_update_def populate_top_level_from_envelope_def byte_ops_def res_bind_def map_err_def
      validate_envelope_data_def byte_top_def merge_from_partial_def empty_partial_def specs_response_partial.defs specs_default_def)

lemma byte_checksums_read:
  "handle_checksums_update byte_ops \<lparr>sn_kind = 9, sn_name = ''g'', sn_checksum = ''7'', sn_data = Some []\<rparr> byte_result = Inr ()"
  by (simp add: handle_checksums_update_def byte_ops_def res_bind_def map_err_def validate_envelope_data_def computed_checksums_def
      byte_result_def byte_top_def byte_gate_def specs_default_def sum_checksums_def checksum_to_u32_def byte_checksums_def
      validate_field_checksum_def hm_values_def parse_uint_def hm_get_Cons digit_val_def hm_insert_def)


lemma byte_stream_state:
  "byte_top\<lparr>sr_feature_gates := hm_insert ''g'' byte_gate (sr_feature_gates byte_top)\<rparr> = byte_result"
  "hm_get (sr_feature_gates specs_default) n = None"
  by (simp_all add: byte_result_def byte_top_def specs_default_def)

lemma byte_stream_read:
  "apply_messages x byte_ops no_preloads disp specs_default (map byte_message [2, 3, 9, 1]) specs_default =
     Some (Inr byte_result, [ChecksumValidated True])"
  by (simp add: apply_message_envelope byte_message_envelope enum_try_from_def envelope_kinds_def envelope_simps byte_top_read byte_gate_read
      byte_checksums_read byte_stream_state)


text \<open>A delta of the gate \<open>g\<close>, for a configuration with a gate \<open>h\<close>.\<close>

definition byte_current :: specs_response where
  "byte_current = specs_default\<lparr>sr_feature_gates := [(''h'', byte_gate)]\<rparr>"

theorem delta_keeps_untouched_gates_witness:
  "\<exists>v es. deserialize_protobuf sample_ext byte_ops no_preloads (\<lambda>_. []) byte_current specs_default
       [concat (map byte_message [10, 3, 1])] None = ProtoResult (Inr v) es \<and>
     hm_get (sr_feature_gates v) ''h'' = Some byte_gate \<and> hm_get (sr_feature_gates v) ''g'' \<noteq> None"
proof -
  let ?chunks = "[concat (map byte_message [10, 3, 1])]"
  have "concat ?chunks = concat (map byte_message [10, 3, 1])" by simp
  note m = byte_chunks [OF this]
  have ne: "[] \<notin> set ?chunks" by (simp add: byte_message_def)
  obtain v es where fold: "apply_messages sample_ext byte_ops no_preloads (\<lambda>_. []) byte_current (map byte_message [10, 3, 1]) specs_default =
      Some (Inr v, es)" and g: "hm_get (sr_feature_gates v) ''g'' \<noteq> None"
    by (simp add: apply_message_envelope byte_message_envelope enum_try_from_def envelope_kinds_def envelope_simps
        byte_copy_read byte_gate_read byte_current_def hm_get_Cons)
  from fold have run: "deserialize_protobuf sample_ext byte_ops no_preloads (\<lambda>_. []) byte_current specs_default ?chunks None = ProtoResult (Inr v) es"
    unfolding deserialize_accepted [OF byte_laws ne] m .
  have "hm_get (sr_feature_gates v) ''h'' = hm_get (sr_feature_gates byte_current) ''h''"
    by (rule delta_keeps_untouched_gates [OF byte_laws ne _ _ _ _ run, of "byte_message 10" "map byte_message [3, 1]"])
      (use m in \<open>simp_all add: byte_message_envelope enum_try_from_def envelope_kinds_def touches_gate_def byte_ops_simps del: messages.simps\<close>)
  with run g show ?thesis by (auto simp: byte_current_def hm_get_Cons)
qed

definition byte_parsers :: spec_parsers where
  "byte_parsers = \<lparr>pa_json = (\<lambda>_ _. Inl BytesNotImplemented),
     pa_protobuf = (\<lambda>cur nx bytes. case deserialize_protobuf sample_ext byte_ops no_preloads (\<lambda>_. []) cur nx [bytes] None of
        ProtoResult r es \<Rightarrow> r | _ \<Rightarrow> Inl BytesNotImplemented),
     pa_no_updates = (\<lambda>_. Inr True)\<rparr>"

definition byte_update :: specs_update where
  "byte_update = \<lparr>up_data = \<lparr>rd_bytes = concat (map byte_message [2, 3, 9, 1]),
       rd_headers = Some [(''content-type'', ''application/octet-stream''), (''content-encoding'', ''statsig-br'')]\<rparr>,
     up_source = SrcNetwork, up_received_at = 0, up_source_api = None\<rparr>"

theorem store_takes_verified_updates_witness:
  "\<exists>r effects st'. set_values byte_parsers \<lparr>ue_prep = True, ue_apply = locks_ok, ue_notify = True, ue_notify_now = 9\<rparr> byte_update
       (ss_new [] False gc_new) = (r, effects, st') \<and> sd_values (ss_data st') = byte_result \<and>
     (\<forall>(f, c)\<in>set (computed_checksums (sd_values (ss_data st'))). hm_get byte_checksums f = Some c)"
proof -
  let ?E = "\<lparr>ue_prep = True, ue_apply = locks_ok, ue_notify = True, ue_notify_now = 9\<rparr>"
  let ?bytes = "concat (map byte_message [2, 3, 9, 1])"
  obtain r effects st' where s: "set_values byte_parsers ?E byte_update (ss_new [] False gc_new) = (r, effects, st')" by (metis prod_cases3)
  have fmt: "get_spec_response_format byte_update = FormatProtobuf"
    by (simp add: get_spec_response_format_def byte_update_def get_header_ref_def hm_get_Cons str_starts_with_def)
  have "concat [?bytes] = ?bytes" by simp
  note m = byte_chunks [OF this]
  have ne: "[] \<notin> set [?bytes]" by (simp add: byte_message_def)
  have reads: "reads_protobuf byte_parsers sample_ext byte_ops no_preloads (\<lambda>_. []) (\<lambda>b. [b])"
    by (simp add: reads_protobuf_def byte_parsers_def)
  have "deserialize_protobuf sample_ext byte_ops no_preloads (\<lambda>_. []) specs_default specs_default [?bytes] None =
      ProtoResult (Inr byte_result) [ChecksumValidated True]"
    unfolding deserialize_accepted [OF byte_laws ne] m by (rule byte_stream_read)
  with fmt have "specs_update_prep byte_parsers True byte_update (ss_new [] False gc_new) = Inr (HasUpdates byte_result FormatProtobuf)"
    by (simp add: specs_update_prep_def deserialize_specs_data_def byte_parsers_def byte_update_def ss_new_def are_current_values_newer_def
        byte_result_def byte_top_def specs_default_def)
  with s have v: "sd_values (ss_data st') = byte_result"
    by (auto simp: set_values_def specs_update_apply_def locks_ok_def Let_def split: prod.splits)
  have "ss_data st' = ss_data (ss_new [] False gc_new) \<or>
      (\<forall>(f, c)\<in>set (computed_checksums (sd_values (ss_data st'))). hm_get byte_checksums f = Some c)"
    by (rule store_takes_verified_updates [where brotli = "\<lambda>b. [b]" and u = byte_update and ms = "map byte_message [2, 3]" and
          mc = "byte_message 9" and md = "byte_message 1" and data = "[]" and
          cenv = "\<lparr>sn_kind = 9, sn_name = ''g'', sn_checksum = ''7'', sn_data = Some []\<rparr>", OF byte_laws _ reads fmt refl _ _ _ _ _ _ s])
      (use m ne in \<open>simp_all add: byte_update_def byte_message_envelope enum_try_from_def envelope_kinds_def byte_ops_simps del: messages.simps\<close>)
  moreover have "ss_data st' \<noteq> ss_data (ss_new [] False gc_new)" using v by (auto simp: ss_new_def byte_result_def byte_top_def specs_default_def)
  ultimately show ?thesis using s v by blast
qed

end
