(* ===== verification/User_Agent.thy ===== *)
theory User_Agent
  imports Options Evaluator
begin

text \<open>
  The parser of user agents, \<open>src/statsig-rust/src/evaluation/user_agent_parsing/\<close>: the window over the words
  (\<open>statsig_uaparser/window_iter.rs\<close>), the tokenizer (\<open>tokenizer.rs\<close>), the reading of operating system and browser
  (\<open>ua_parser.rs\<close>), and the choice between this parser and the one of the crate uaparser, which is an argument.
\<close>

section \<open>Strings\<close>

text \<open>\<open>split\<close> at a set of characters, \<open>split_once\<close>, \<open>split_terminator\<close> and \<open>trim_matches\<close>.\<close>

fun split_any :: "char set \<Rightarrow> string \<Rightarrow> string list" where
  "split_any C [] = [[]]"
| "split_any C (x # xs) =
     (if x \<in> C then [] # split_any C xs else case split_any C xs of [] \<Rightarrow> [[x]] | w # ws \<Rightarrow> (x # w) # ws)"

fun split_once_any :: "char set \<Rightarrow> string \<Rightarrow> (string \<times> string) option" where
  "split_once_any C [] = None"
| "split_once_any C (x # xs) = (if x \<in> C then Some ([], xs) else map_option (\<lambda>(a, b). (x # a, b)) (split_once_any C xs))"

definition split_terminator_any :: "char set \<Rightarrow> string \<Rightarrow> string list" where
  "split_terminator_any C s = (let ws = split_any C s in if last ws = [] then butlast ws else ws)"

definition trim_matches :: "(char \<Rightarrow> bool) \<Rightarrow> string \<Rightarrow> string" where
  "trim_matches p s = rev (dropWhile p (rev (dropWhile p s)))"

text \<open>The part before the first occurrence of a pattern.\<close>

fun before_pattern :: "string \<Rightarrow> string \<Rightarrow> string" where
  "before_pattern p [] = []"
| "before_pattern p (c # cs) = (if str_starts_with (c # cs) p then [] else c # before_pattern p cs)"

definition is_digit :: "char \<Rightarrow> bool" where
  "is_digit c \<longleftrightarrow> c \<in> set ''0123456789''"

section \<open>The window\<close>

record window_iter =
  wi_iter :: "string list"
  wi_window :: "string list"

text \<open>The words after the window, and the next of them put at its end, when there is one.\<close>

definition window_push :: "window_iter \<Rightarrow> window_iter" where
  "window_push win =
     (case wi_iter win of [] \<Rightarrow> win | word # words \<Rightarrow> win\<lparr>wi_iter := words, wi_window := wi_window win @ [word]\<rparr>)"

definition window_new :: "string \<Rightarrow> window_iter" where
  "window_new input = (window_push ^^ 4) \<lparr>wi_iter = split_any (set '';'' \<union> set '' '') input, wi_window = []\<rparr>"

definition nth_opt :: "'a list \<Rightarrow> nat \<Rightarrow> 'a option" where
  "nth_opt xs i = (if i < length xs then Some (xs ! i) else None)"

definition get_window :: "window_iter \<Rightarrow> string option \<times> string option \<times> string option \<times> string option" where
  "get_window win = (nth_opt (wi_window win) 0, nth_opt (wi_window win) 1, nth_opt (wi_window win) 2, nth_opt (wi_window win) 3)"

primrec slide_window_by :: "nat \<Rightarrow> window_iter \<Rightarrow> window_iter" where
  "slide_window_by 0 win = win"
| "slide_window_by (Suc n) win = slide_window_by n (window_push (win\<lparr>wi_window := tl (wi_window win)\<rparr>))"

definition window_is_empty :: "window_iter \<Rightarrow> bool" where
  "window_is_empty win \<longleftrightarrow> wi_window win = []"

section \<open>Tokens\<close>

record token =
  tk_position :: nat
  tk_tag :: string
  tk_version :: "string option"

record tokenizer_result =
  tr_position :: nat
  tr_tokens :: "token list"
  tr_possible_os_token :: "token option"
  tr_possible_browser_token :: "token option"
  tr_linux_hint :: bool
  tr_ios_hint :: bool
  tr_macos_hint :: bool
  tr_windows_hint :: bool
  tr_mobile_hint :: bool
  tr_safari_hint :: bool
  tr_playstation_hint :: bool
  tr_huawei_hint :: bool
  tr_cfnetwork_hint :: bool
  tr_crawler_hint :: bool
  tr_bot_detected :: bool

definition tokenizer_result_default :: tokenizer_result where
  "tokenizer_result_default = \<lparr>tr_position = 0, tr_tokens = [], tr_possible_os_token = None, tr_possible_browser_token = None,
     tr_linux_hint = False, tr_ios_hint = False, tr_macos_hint = False, tr_windows_hint = False, tr_mobile_hint = False,
     tr_safari_hint = False, tr_playstation_hint = False, tr_huawei_hint = False, tr_cfnetwork_hint = False,
     tr_crawler_hint = False, tr_bot_detected = False\<rparr>"

definition token_here :: "string \<Rightarrow> string option \<Rightarrow> tokenizer_result \<Rightarrow> token" where
  "token_here tag version r = \<lparr>tk_position = tr_position r, tk_tag = tag, tk_version = version\<rparr>"

definition add_tag :: "string \<Rightarrow> string option \<Rightarrow> tokenizer_result \<Rightarrow> tokenizer_result" where
  "add_tag tag version r = r\<lparr>tr_tokens := tr_tokens r @ [token_here tag version r], tr_position := tr_position r + 1\<rparr>"

definition add_possible_os_tag_impl :: "string \<Rightarrow> string option \<Rightarrow> tokenizer_result \<Rightarrow> tokenizer_result" where
  "add_possible_os_tag_impl tag version r =
     (if tr_possible_os_token r \<noteq> None then r
      else if version = None then r
      else r\<lparr>tr_possible_os_token := Some (token_here tag version r)\<rparr>)"

definition add_possible_browser_tag_impl :: "string \<Rightarrow> string option \<Rightarrow> tokenizer_result \<Rightarrow> tokenizer_result" where
  "add_possible_browser_tag_impl tag version r =
     (if version = None then r else r\<lparr>tr_possible_browser_token := Some (token_here tag version r)\<rparr>)"

definition add_possible_os_and_browser_tag :: "string \<Rightarrow> string option \<Rightarrow> tokenizer_result \<Rightarrow> tokenizer_result" where
  "add_possible_os_and_browser_tag tag version r =
     add_tag tag version (add_possible_browser_tag_impl tag version (add_possible_os_tag_impl tag version r))"

definition add_possible_os_tag :: "string \<Rightarrow> string option \<Rightarrow> tokenizer_result \<Rightarrow> tokenizer_result" where
  "add_possible_os_tag tag version r = add_tag tag version (add_possible_os_tag_impl tag version r)"

definition add_possible_os_tag_override_existing :: "string \<Rightarrow> string option \<Rightarrow> tokenizer_result \<Rightarrow> tokenizer_result" where
  "add_possible_os_tag_override_existing tag version r = r\<lparr>tr_possible_os_token := Some (token_here tag version r)\<rparr>"

definition add_possible_browser_tag :: "string \<Rightarrow> string option \<Rightarrow> tokenizer_result \<Rightarrow> tokenizer_result" where
  "add_possible_browser_tag tag version r = add_tag tag version (add_possible_browser_tag_impl tag version r)"

definition add_possible_browser_tag_for_bot :: "string \<Rightarrow> string option \<Rightarrow> tokenizer_result \<Rightarrow> tokenizer_result" where
  "add_possible_browser_tag_for_bot tag version r =
     (if tr_bot_detected r then r
      else r\<lparr>tr_bot_detected := True, tr_possible_browser_token := Some (token_here tag version r)\<rparr>)"

definition trim_invalid_chars :: "string option \<Rightarrow> string option" where
  "trim_invalid_chars s =
     (case map_option (trim_matches (\<lambda>c. c \<in> set ''();,+_'' \<or> c = CHR 0x22)) s of
        Some [] \<Rightarrow> None | Some t \<Rightarrow> Some t | None \<Rightarrow> None)"

definition starts_with_number :: "string option \<Rightarrow> bool" where
  "starts_with_number s = (case s of Some (c # cs) \<Rightarrow> is_digit c | _ \<Rightarrow> False)"

text \<open>A version, when the word is one, and how far the window slides for it.\<close>

definition consume_if_numeric :: "string option \<Rightarrow> string option \<times> nat" where
  "consume_if_numeric tag = (if starts_with_number tag then (tag, 1) else (None, 0))"

definition take_until_non_numeric :: "string \<Rightarrow> string" where
  "take_until_non_numeric s = takeWhile is_digit s"

section \<open>Versions\<close>

record version =
  vn_major :: "string option"
  vn_minor :: "string option"
  vn_patch :: "string option"
  vn_patch_minor :: "string option"

definition version_default :: version where
  "version_default = \<lparr>vn_major = None, vn_minor = None, vn_patch = None, vn_patch_minor = None\<rparr>"

definition version_major :: "string \<Rightarrow> version" where
  "version_major major = \<lparr>vn_major = Some major, vn_minor = None, vn_patch = None, vn_patch_minor = None\<rparr>"

definition windows_version :: "string \<Rightarrow> string" where
  "windows_version version =
     (if version = ''5.1'' then ''XP''
      else if version = ''5.2'' then ''XP''
      else if version = ''6.0'' then ''Vista''
      else if version = ''6.1'' then ''7''
      else if version = ''6.3'' then ''8.1''
      else if version = ''10.0'' then ''10''
      else ''0.0.0'')"

definition get_version :: "token \<Rightarrow> version option" where
  "get_version t =
     (case tk_version t of
        None \<Rightarrow> Some (version_major ''0.0.0'')
      | Some version \<Rightarrow>
          if tk_tag t = ''Windows'' then Some (version_major (windows_version version))
          else
            (let parts = split_terminator_any (set ''_,.'') version;
                 v = \<lparr>vn_major = nth_opt parts 0, vn_minor = map_option take_until_non_numeric (nth_opt parts 1),
                      vn_patch = nth_opt parts 2, vn_patch_minor = None\<rparr>
             in if tk_tag t \<in> {''YaBrowser'', ''Opera'', ''NetFront NX''} then Some v
                else Some (v\<lparr>vn_patch_minor := nth_opt parts 3\<rparr>)))"

definition get_version_string :: "version \<Rightarrow> string option" where
  "get_version_string v =
     (case vn_major v of
        None \<Rightarrow> None
      | Some major \<Rightarrow>
          let part = (\<lambda>p. case p of Some t \<Rightarrow> CHR ''.'' # t | None \<Rightarrow> [])
          in Some (major @ part (vn_minor v) @ part (vn_patch v) @ part (vn_patch_minor v)))"

section \<open>The tokenizer\<close>

text \<open>
  One round, for the words of the window: how far it slides the window and what it makes of the result. The window is read
  once in a round, so the slides of a round add up. The words are tried in the order of the code: first the names of systems
  and devices, then the rest, a product with its version.
\<close>

definition product_of :: "string \<Rightarrow> string \<times> string option" where
  "product_of cur =
     (let parts = split_once_any (set ''/;:'') cur
      in (opt_default cur (trim_invalid_chars (map_option fst parts)), trim_invalid_chars (map_option snd parts)))"

definition ios_instead_of_macos :: "tokenizer_result \<Rightarrow> tokenizer_result" where
  "ios_instead_of_macos r =
     (case tr_possible_os_token r of
        Some os_token \<Rightarrow> if tk_tag os_token = ''Mac OS X'' then add_possible_os_tag_override_existing ''iOS'' None r else r
      | None \<Rightarrow> r)"

definition is_bot_tag :: "string \<Rightarrow> bool" where
  "is_bot_tag tag \<longleftrightarrow>
     str_contains tag ''Bot'' \<or> str_contains tag ''bot'' \<or> str_contains tag ''crawler'' \<or> str_contains tag ''Crawler''"

definition product_step :: "string \<Rightarrow> tokenizer_result \<Rightarrow> tokenizer_result" where
  "product_step cur r =
     (let (tag, version) = product_of cur
      in if tag = ''Kindle'' then add_possible_os_and_browser_tag ''Kindle'' version r
         else if tag = ''FxiOS'' then add_possible_browser_tag ''Firefox iOS'' version r
         else if tag = ''EdgiOS'' then add_possible_browser_tag ''Edge Mobile'' version (ios_instead_of_macos r)
         else if tag = ''CriOS'' then
           add_possible_browser_tag ''Chrome Mobile iOS'' version (ios_instead_of_macos (r\<lparr>tr_ios_hint := True\<rparr>))
         else if tag = ''GSA'' then add_possible_browser_tag ''Google'' version r
         else if tag = ''YisouSpider'' then add_possible_browser_tag ''YisouSpider'' version r
         else if tag = ''Edg'' \<or> tag = ''Edge'' then add_tag ''Edge'' version r
         else if tag = ''OPR'' then add_tag ''Opera'' version r
         else if tag = ''SamsungBrowser'' then add_possible_browser_tag ''Samsung Internet'' version r
         else if tag = ''HuaweiBrowser'' then add_tag ''HuaweiBrowser'' version (r\<lparr>tr_huawei_hint := True\<rparr>)
         else if tag = ''ChatGPT-User'' then add_possible_browser_tag ''ChatGPT-User'' version r
         else if tag = ''OAI-SearchBot'' then add_possible_browser_tag ''OAI-SearchBot'' version r
         else if tag = ''NX'' then add_possible_browser_tag ''NetFront NX'' version r
         else if tag = ''Electron'' then add_possible_browser_tag ''Electron'' version r
         else if tag = ''IEMobile'' then add_possible_browser_tag ''IE Mobile'' version r
         else if is_bot_tag tag then add_possible_browser_tag_for_bot tag version r
         else if tag = ''Mobile'' then add_tag ''Mobile'' version (r\<lparr>tr_mobile_hint := True\<rparr>)
         else if tag = ''Safari'' then add_tag ''Safari'' version (r\<lparr>tr_safari_hint := True\<rparr>)
         else if tag = ''CFNetwork'' then r\<lparr>tr_cfnetwork_hint := True, tr_ios_hint := True\<rparr>
         else if str_contains tag ''crawler'' \<or> (case version of Some v \<Rightarrow> str_contains v ''crawler'' | None \<Rightarrow> False)
         then r\<lparr>tr_crawler_hint := True\<rparr>
         else if tag = ''OculusBrowser'' then add_possible_os_tag_override_existing ''Android'' None r
         else add_tag tag version r)"

text \<open>The word after a device's name in the same word, up to the name's next occurrence.\<close>

definition device_version :: "string \<Rightarrow> string \<Rightarrow> string option" where
  "device_version name cur = trim_invalid_chars (Some (before_pattern name (drop (length name) cur)))"

definition tagged_os :: "string \<Rightarrow> nat \<Rightarrow> string option \<times> nat \<Rightarrow> tokenizer_result \<Rightarrow> nat \<times> tokenizer_result" where
  "tagged_os tag slides cn r = (snd cn + slides, add_possible_os_tag tag (fst cn) r)"

definition system_step ::
    "string \<Rightarrow> string option \<Rightarrow> string option \<Rightarrow> string option \<Rightarrow> tokenizer_result \<Rightarrow> (nat \<times> tokenizer_result) option" where
  "system_step cur next1 next2 next3 r =
     (if str_starts_with cur ''AppleTV'' then Some (1, add_tag ''ATV OS X'' None r)
      else if cur = ''like'' \<and> next1 = Some ''Mac'' \<and> next2 = Some ''OS'' then Some (3, r)
      else if cur = ''Mac'' \<and> next1 = Some ''OS'' \<and> next2 = Some ''X'' then
        Some (tagged_os ''Mac OS X'' 2 (consume_if_numeric next3) (r\<lparr>tr_macos_hint := True\<rparr>))
      else if cur = ''Mac'' \<and> next1 = Some ''OS'' then
        Some (tagged_os ''Mac OS X'' 2 (consume_if_numeric next2) (r\<lparr>tr_macos_hint := True\<rparr>))
      else if cur = ''iOS'' then
        Some (apsnd (\<lambda>r. r\<lparr>tr_ios_hint := True\<rparr>) (tagged_os ''iOS'' 1 (consume_if_numeric next1) r))
      else if cur = ''iPhone'' \<and> next1 = Some ''OS'' then Some (tagged_os ''iOS'' 1 (consume_if_numeric next2) r)
      else if cur = ''iPadOS'' then
        Some (apsnd (\<lambda>r. r\<lparr>tr_ios_hint := True\<rparr>) (tagged_os ''iOS'' 1 (consume_if_numeric next1) r))
      else if str_starts_with cur ''iPad'' then
        Some (0, add_tag ''iPad'' (device_version ''iPad'' cur) (r\<lparr>tr_ios_hint := True\<rparr>))
      else if str_starts_with cur ''iPhone'' then
        Some (0, add_tag ''iPhone'' (device_version ''iPhone'' cur) (r\<lparr>tr_ios_hint := True\<rparr>))
      else if str_starts_with cur ''Apple-iPhone7C2'' then Some (0, add_tag ''iPhone'' None (r\<lparr>tr_ios_hint := True\<rparr>))
      else if cur = ''CPU'' \<and> next1 = Some ''OS'' then
        (let (v, n) = consume_if_numeric next2 in Some (n + 1, add_tag ''CPU OS'' v r))
      else if cur = ''CrOS'' then
        (case consume_if_numeric next1 of
           (None, _) \<Rightarrow> Some (tagged_os ''Chrome OS'' 1 (consume_if_numeric next2) r)
         | cn \<Rightarrow> Some (tagged_os ''Chrome OS'' 0 cn r))
      else if cur = ''CrKey'' then Some (0, add_possible_os_tag ''Chromecast'' None r)
      else if cur = ''PlayStation'' then Some (0, add_tag ''PlayStation'' None (r\<lparr>tr_playstation_hint := True\<rparr>))
      else if cur = ''Android'' then Some (tagged_os ''Android'' 0 (consume_if_numeric next1) r)
      else if cur = ''Windows'' \<and> next1 = Some ''Phone'' then Some (tagged_os ''Windows Phone'' 1 (consume_if_numeric next2) r)
      else if str_starts_with cur ''Windows'' then
        (let r1 = r\<lparr>tr_windows_hint := True\<rparr>
         in if next1 = Some ''NT'' then
              (case consume_if_numeric next2 of
                 (None, n) \<Rightarrow> Some (tagged_os ''Windows'' 0 (None, n) r1)
               | cn \<Rightarrow> Some (tagged_os ''Windows'' 1 cn r1))
            else if (case next1 of Some s \<Rightarrow> str_starts_with s ''XP'' | None \<Rightarrow> False) then
              Some (tagged_os ''Windows'' 1 (Some ''XP'', 0) r1)
            else Some (tagged_os ''Windows'' 0 (consume_if_numeric next1) r1))
      else if cur = ''MSIE'' then (let (v, n) = consume_if_numeric next1 in Some (n, add_possible_browser_tag ''IE'' v r))
      else if cur = ''Yahoo!'' \<and> next1 = Some ''Slurp'' then Some (1, add_tag ''Yahoo! Slurp'' None r)
      else if cur = ''Red'' \<and> next1 = Some ''Hat'' then Some (1, add_possible_os_tag ''Red Hat'' None r)
      else if cur = ''Ubuntu'' then Some (tagged_os ''Ubuntu'' 0 (consume_if_numeric next1) r)
      else if cur = ''Mobile'' then Some (0, add_tag ''Mobile'' None (r\<lparr>tr_mobile_hint := True\<rparr>))
      else if cur = ''Linux'' \<or> cur = ''linux'' then Some (0, add_tag ''Linux'' None (r\<lparr>tr_linux_hint := True\<rparr>))
      else if cur = ''Nintendo'' \<and> next1 = Some ''3DS'' then Some (1, add_tag ''NetFront NX'' None r)
      else None)"

text \<open>The rounds that skip a word slide by one and go on, which is what every round does at its end.\<close>

definition other_step ::
    "string \<Rightarrow> string option \<Rightarrow> string option \<Rightarrow> tokenizer_result \<Rightarrow> nat \<times> tokenizer_result" where
  "other_step cur next1 next2 r =
     (if cur = ''like'' \<or> length cur \<le> 2 then (0, r)
      else if cur = ''Better'' \<and> next1 = Some ''Uptime'' \<and> next2 = Some ''Bot'' then
        (0, add_possible_browser_tag_for_bot ''Better Uptime Bot'' None r)
      else if cur = ''Radius'' \<and> next1 = Some ''Compilance'' \<and> next2 = Some ''Bot'' then
        (0, add_possible_browser_tag_for_bot ''Radius Compilance Bot'' None r)
      else if cur = ''AdsBot-Google-Mobile'' then (0, add_possible_browser_tag_for_bot ''AdsBot-Google'' None r)
      else if cur = ''Uptime'' \<and> next1 = Some ''Monitoring'' \<and> next2 = Some ''Bot'' then
        (0, add_possible_browser_tag_for_bot ''Uptime Monitoring Bot'' None r)
      else (0, product_step cur r))"

definition tokenizer_step ::
    "string option \<times> string option \<times> string option \<times> string option \<Rightarrow> tokenizer_result \<Rightarrow> nat \<times> tokenizer_result" where
  "tokenizer_step w r =
     (let (w0, w1, w2, w3) = w;
          next1 = trim_invalid_chars w1; next2 = trim_invalid_chars w2; next3 = trim_invalid_chars w3
      in case trim_invalid_chars w0 of
           None \<Rightarrow> (0, r)
         | Some cur \<Rightarrow>
             (case system_step cur next1 next2 next3 r of
                Some nr \<Rightarrow> nr
              | None \<Rightarrow> other_step cur next1 next2 r))"

text \<open>The words of a window, those in it and those to come, become fewer with every slide.\<close>

definition window_words :: "window_iter \<Rightarrow> string list" where
  "window_words win = wi_window win @ wi_iter win"

lemma window_words_push [simp]: "window_words (window_push win) = window_words win"
  by (simp add: window_words_def window_push_def split: list.splits)

lemma slide_shorter: "length (window_words (slide_window_by n win)) \<le> length (window_words win)"
proof (induction n arbitrary: win)
  case (Suc n)
  have "length (window_words (win\<lparr>wi_window := tl (wi_window win)\<rparr>)) \<le> length (window_words win)" by (simp add: window_words_def)
  with Suc [of "window_push (win\<lparr>wi_window := tl (wi_window win)\<rparr>)"] show ?case by simp
qed simp

function tokenizer_loop :: "window_iter \<Rightarrow> tokenizer_result \<Rightarrow> tokenizer_result" where
  "tokenizer_loop win r =
     (if window_is_empty win then r
      else (let (n, r1) = tokenizer_step (get_window win) r in tokenizer_loop (slide_window_by (n + 1) win) r1))"
  by pat_completeness auto
termination
proof (relation "measure (\<lambda>(win, r). length (window_words win))")
  fix win :: window_iter and p :: "nat \<times> tokenizer_result" and n r1 and r :: tokenizer_result
  assume "\<not> window_is_empty win"
  then have "length (window_words (win\<lparr>wi_window := tl (wi_window win)\<rparr>)) < length (window_words win)"
    by (cases "wi_window win") (auto simp: window_words_def window_is_empty_def)
  then show "((slide_window_by (n + 1) win, r1), win, r) \<in> measure (\<lambda>(win, r). length (window_words win))"
    using slide_shorter [of n "window_push (win\<lparr>wi_window := tl (wi_window win)\<rparr>)"] by simp
qed simp

declare tokenizer_loop.simps [simp del]

definition tokenizer_run :: "string \<Rightarrow> tokenizer_result" where
  "tokenizer_run input = tokenizer_loop (window_new input) tokenizer_result_default"

section \<open>Operating system and browser\<close>

record parser_result =
  ua_name :: string
  ua_version :: version

definition create_res :: "string \<Rightarrow> version option \<Rightarrow> parser_result" where
  "create_res name v = \<lparr>ua_name = name, ua_version = opt_default version_default v\<rparr>"

definition os_of_token :: "tokenizer_result \<Rightarrow> token \<Rightarrow> parser_result option" where
  "os_of_token r t =
     (if tk_tag t = ''ATV OS X'' then Some (create_res ''ATV OS X'' None)
      else if tk_tag t = ''iPhone OS'' \<or> tk_tag t = ''iOS'' then Some (create_res ''iOS'' (get_version t))
      else if tk_tag t = ''CPU OS'' \<and> tr_ios_hint r then Some (create_res ''iOS'' (get_version t))
      else if tk_tag t = ''Version'' \<and> tr_ios_hint r \<and> tr_macos_hint r then Some (create_res ''iOS'' (get_version t))
      else if tk_tag t = ''CFNetwork'' then Some (create_res ''iOS'' None)
      else if tk_tag t = ''Android'' then Some (create_res (tk_tag t) (get_version t))
      else if str_starts_with (tk_tag t) ''Android'' then Some (create_res ''Android'' None)
      else if tk_tag t = ''Chromecast'' then Some (create_res ''Chromecast'' None)
      else if tk_tag t = ''Red Hat'' then Some (create_res ''Red Hat'' None)
      else if tk_tag t = ''Kindle'' then Some (create_res ''Kindle'' (get_version t))
      else if tk_tag t = ''Ubuntu'' then Some (create_res ''Ubuntu'' (get_version t))
      else None)"

fun os_loop :: "tokenizer_result \<Rightarrow> token list \<Rightarrow> parser_result option" where
  "os_loop r [] = None"
| "os_loop r (t # ts) = (case os_of_token r t of Some p \<Rightarrow> Some p | None \<Rightarrow> os_loop r ts)"

definition parse_os :: "string \<Rightarrow> parser_result" where
  "parse_os agent =
     (let r = tokenizer_run agent
      in case tr_possible_os_token r of
           Some t \<Rightarrow> create_res (tk_tag t) (get_version t)
         | None \<Rightarrow>
             (case os_loop r (tr_tokens r) of
                Some p \<Rightarrow> p
              | None \<Rightarrow>
                  if tr_ios_hint r then create_res ''iOS'' None
                  else if tr_macos_hint r then create_res ''Mac OS X'' None
                  else if tr_windows_hint r then create_res ''Windows'' None
                  else if tr_linux_hint r then create_res ''Linux'' None
                  else create_res ''Other'' None))"

text \<open>The loop over the tokens: an answer, or the tokens of Android, Chrome and the version met.\<close>

record browser_tokens =
  bt_android :: "token option"
  bt_chrome :: "token option"
  bt_version :: "token option"

fun browser_loop :: "tokenizer_result \<Rightarrow> browser_tokens \<Rightarrow> token list \<Rightarrow> parser_result + browser_tokens" where
  "browser_loop r b [] = Inr b"
| "browser_loop r b (t # ts) =
     (if tk_tag t = ''Firefox'' then
        Inl (create_res (if tr_mobile_hint r then ''Firefox Mobile'' else ''Firefox'') (get_version t))
      else if tk_tag t = ''Android'' then browser_loop r (b\<lparr>bt_android := Some t\<rparr>) ts
      else if tk_tag t = ''Version'' then browser_loop r (b\<lparr>bt_version := Some t\<rparr>) ts
      else if tk_tag t = ''Yahoo! Slurp'' then Inl (create_res ''Yahoo! Slurp'' None)
      else if tk_tag t = ''Silk'' then
        Inl (if tr_playstation_hint r then create_res ''NetFront NX'' None else create_res ''Amazon Silk'' (get_version t))
      else if tk_tag t = ''NetFront NX'' then Inl (create_res ''NetFront NX'' (get_version t))
      else if tk_tag t = ''YaBrowser'' then Inl (create_res ''Yandex Browser'' (get_version t))
      else if tk_tag t = ''Edge'' \<and> tr_mobile_hint r then Inl (create_res ''Edge Mobile'' (get_version t))
      else if tk_tag t = ''Edge'' then Inl (create_res ''Edge'' (get_version t))
      else if tk_tag t = ''Opera'' then
        Inl (create_res (if tr_mobile_hint r then ''Opera Mobile'' else ''Opera'') (get_version t))
      else if tk_tag t = ''Chrome'' then browser_loop r (b\<lparr>bt_chrome := Some t\<rparr>) ts
      else if tk_tag t = ''axios'' then Inl (create_res ''axios'' (get_version t))
      else if tk_tag t = ''HeadlessChrome'' then Inl (create_res ''HeadlessChrome'' (get_version t))
      else browser_loop r b ts)"

definition browser_of_chrome :: "tokenizer_result \<Rightarrow> browser_tokens \<Rightarrow> token \<Rightarrow> parser_result" where
  "browser_of_chrome r b t =
     (if bt_version b \<noteq> None then create_res ''Chrome Mobile WebView'' (get_version t)
      else if tr_mobile_hint r \<and> tk_version t \<noteq> None \<and> \<not> tr_huawei_hint r then create_res ''Chrome Mobile'' (get_version t)
      else
        (case (if tk_version t = None then bt_android b else None) of
           Some a \<Rightarrow> create_res ''Android'' (get_version a)
         | None \<Rightarrow> create_res ''Chrome'' (get_version t)))"

definition browser_of_hints :: "tokenizer_result \<Rightarrow> browser_tokens \<Rightarrow> parser_result" where
  "browser_of_hints r b =
     (case (if tr_cfnetwork_hint r then tr_tokens r else []) of
        t # ts \<Rightarrow>
          if tk_tag t = ''NetworkingExtension'' then create_res ''CFNetwork'' (Option.bind (nth_opt (t # ts) 1) get_version)
          else create_res (tk_tag t) (get_version t)
      | [] \<Rightarrow>
          if tr_safari_hint r then
            create_res (if tr_mobile_hint r \<and> \<not> tr_macos_hint r then ''Mobile Safari'' else ''Safari'')
              (Option.bind (bt_version b) get_version)
          else if tr_ios_hint r then create_res ''Mobile Safari UI/WKWebView'' None
          else if tr_crawler_hint r then create_res ''crawler'' None
          else create_res ''Other'' None)"

definition parse_browser :: "string \<Rightarrow> parser_result" where
  "parse_browser agent =
     (let r = tokenizer_run agent
      in case tr_possible_browser_token r of
           Some t \<Rightarrow> create_res (tk_tag t) (get_version t)
         | None \<Rightarrow>
             (case browser_loop r \<lparr>bt_android = None, bt_chrome = None, bt_version = None\<rparr> (tr_tokens r) of
                Inl p \<Rightarrow> p
              | Inr b \<Rightarrow>
                  (case bt_chrome b of
                     Some t \<Rightarrow> browser_of_chrome r b t
                   | None \<Rightarrow>
                       (case bt_android b of
                          Some t \<Rightarrow> create_res ''Android'' (get_version t)
                        | None \<Rightarrow> browser_of_hints r b))))"

section \<open>Values for the evaluator\<close>

definition first_party_value :: "string \<Rightarrow> string \<Rightarrow> string option" where
  "first_party_value field user_agent =
     (let version = (\<lambda>p. opt_default ''0.0.0'' (get_version_string (ua_version p)))
      in if field \<in> {''os_name'', ''osname''} then Some (ua_name (parse_os user_agent))
         else if field \<in> {''os_version'', ''osversion''} then Some (version (parse_os user_agent))
         else if field \<in> {''browser_name'', ''browsername''} then Some (ua_name (parse_browser user_agent))
         else if field \<in> {''browser_version'', ''browserversion''} then Some (version (parse_browser user_agent))
         else None)"

definition first_party_get_value :: "ext \<Rightarrow> string \<Rightarrow> string \<Rightarrow> dynamic_value option" where
  "first_party_get_value x field user_agent = map_option (dv_from_string x) (first_party_value field user_agent)"

text \<open>
  The parser of the crate uaparser, once it is loaded: family, major, minor and patch of the system and of the browser.
\<close>

record ua_family =
  uf_family :: string
  uf_major :: "string option"
  uf_minor :: "string option"
  uf_patch :: "string option"

record ext_ua_parser =
  ep_parse_os :: "string \<Rightarrow> ua_family"
  ep_parse_user_agent :: "string \<Rightarrow> ua_family"

definition get_json_version :: "ua_family \<Rightarrow> string" where
  "get_json_version f =
     opt_default ''0'' (uf_major f) @ ''.'' @ opt_default ''0'' (uf_minor f) @ ''.'' @ opt_default ''0'' (uf_patch f)"

definition third_party_get_value ::
    "ext \<Rightarrow> bool \<Rightarrow> ext_ua_parser option \<Rightarrow> string \<Rightarrow> string \<Rightarrow> string + dynamic_value option" where
  "third_party_get_value x lock_ok parser field user_agent =
     (if \<not> lock_ok then Inl ''lock_failure''
      else
        (case parser of
           None \<Rightarrow> Inl ''parser_not_loaded''
         | Some p \<Rightarrow>
             Inr (map_option (dv_from_string x)
               (if field \<in> {''os_name'', ''osname''} then Some (uf_family (ep_parse_os p user_agent))
                else if field \<in> {''os_version'', ''osversion''} then Some (get_json_version (ep_parse_os p user_agent))
                else if field \<in> {''browser_name'', ''browsername''} then Some (uf_family (ep_parse_user_agent p user_agent))
                else if field \<in> {''browser_version'', ''browserversion''} then
                  Some (get_json_version (ep_parse_user_agent p user_agent))
                else None))))"

text \<open>Loading the parser, from the bytes of the resource: the read lock, the parser in place, the one loaded, the write lock.\<close>

definition load_parser :: "bool \<Rightarrow> bool \<Rightarrow> (string + ext_ua_parser) \<Rightarrow> ext_ua_parser option \<Rightarrow> ext_ua_parser option" where
  "load_parser read_ok write_ok loaded parser =
     (if \<not> read_ok then parser
      else if parser \<noteq> None then parser
      else case loaded of Inl e \<Rightarrow> parser | Inr p \<Rightarrow> if write_ok then Some p else parser)"

definition UA_UNINITIALIZED_REASON :: string where
  "UA_UNINITIALIZED_REASON = ''UAParserNotLoaded''"

definition get_value_from_user_agent ::
    "ext \<Rightarrow> bool \<Rightarrow> ext_ua_parser option \<Rightarrow> statsig_user_internal \<Rightarrow> dynamic_string option \<Rightarrow> bool \<Rightarrow>
     dynamic_value option \<times> string option" where
  "get_value_from_user_agent x lock_ok parser user field use_third_party_ua_parser =
     (case field of
        None \<Rightarrow> (None, None)
      | Some f \<Rightarrow>
          (case Option.bind (get_user_value user (Some (ds_from_string x ''userAgent''))) dv_string of
             None \<Rightarrow> (None, None)
           | Some s \<Rightarrow>
               let user_agent = ds_value s
               in if 1000 < length user_agent then (None, None)
                  else if use_third_party_ua_parser then
                    (case third_party_get_value x lock_ok parser (ds_lowercased f) user_agent of
                       Inr v \<Rightarrow> (v, None)
                     | Inl _ \<Rightarrow> (None, Some UA_UNINITIALIZED_REASON))
                  else (first_party_get_value x (ds_lowercased f) user_agent, None)))"

record parsed_user_agent_value =
  pu_os_name :: "string option"
  pu_os_version :: "string option"
  pu_browser_name :: "string option"
  pu_browser_version :: "string option"

definition get_first_party_ua_value :: "ext \<Rightarrow> string \<Rightarrow> string \<Rightarrow> string option" where
  "get_first_party_ua_value x key ua = map_option ds_value (Option.bind (first_party_get_value x key ua) dv_string)"

definition get_third_party_ua_value :: "ext \<Rightarrow> bool \<Rightarrow> ext_ua_parser option \<Rightarrow> string \<Rightarrow> string \<Rightarrow> string option" where
  "get_third_party_ua_value x lock_ok parser key ua =
     (case third_party_get_value x lock_ok parser key ua of
        Inl _ \<Rightarrow> None
      | Inr v \<Rightarrow> map_option ds_value (Option.bind v dv_string))"

definition get_parsed_user_agent_value_for_user ::
    "ext \<Rightarrow> bool \<Rightarrow> ext_ua_parser option \<Rightarrow> user_data \<Rightarrow> statsig_options \<Rightarrow> parsed_user_agent_value option" where
  "get_parsed_user_agent_value_for_user x lock_ok parser user options =
     (case get_string_field ud_user_agent user of
        None \<Rightarrow> None
      | Some ua \<Rightarrow>
          let read = (if so_use_third_party_ua_parser options = Some True then get_third_party_ua_value x lock_ok parser
              else get_first_party_ua_value x)
          in Some \<lparr>pu_os_name = read ''os_name'' ua, pu_os_version = read ''os_version'' ua,
               pu_browser_name = read ''browser_name'' ua, pu_browser_version = read ''browser_version'' ua\<rparr>)"

end
