(* ===== verification/User_Agent_Contract.thy ===== *)
theory User_Agent_Contract
  imports User_Agent Evaluation
begin

text \<open>
  What the parser of user agents promises: the window is the words still to come, the tokens are numbered, the system is one of the
  known names, and the text of a version is read back as it stands.
\<close>

section \<open>The window is the words to come\<close>

text \<open>The tokenizer on a list of words.\<close>

definition first_words :: "string list \<Rightarrow> string option \<times> string option \<times> string option \<times> string option" where
  "first_words ws = (nth_opt ws 0, nth_opt ws 1, nth_opt ws 2, nth_opt ws 3)"

function run_words :: "string list \<Rightarrow> tokenizer_result \<Rightarrow> tokenizer_result" where
  "run_words ws r =
     (if ws = [] then r else (let (n, r1) = tokenizer_step (first_words ws) r in run_words (drop (n + 1) ws) r1))"
  by pat_completeness auto
termination by (relation "measure (\<lambda>(ws, r). length ws)") auto

declare run_words.simps [simp del]

definition window_full :: "window_iter \<Rightarrow> bool" where
  "window_full win \<longleftrightarrow> wi_window win = take 4 (window_words win)"

lemma window_full_cases: "window_full win \<Longrightarrow> wi_iter win = [] \<or> length (wi_window win) = 4"
  unfolding window_full_def window_words_def by (drule arg_cong [where f = length]) (auto simp: min_def split: if_splits)

lemma window_push_full:
  assumes "wi_iter win = [] \<or> length (wi_window win) = 3" "length (wi_window win) \<le> 4"
  shows "window_full (window_push win)"
  using assms by (auto simp: window_full_def window_words_def window_push_def split: list.splits)

lemma slide_full:
  "window_full win \<Longrightarrow> window_full (slide_window_by n win) \<and> window_words (slide_window_by n win) = drop n (window_words win)"
proof (induction n arbitrary: win)
  case (Suc n)
  let ?w = "win\<lparr>wi_window := tl (wi_window win)\<rparr>"
  have "length (wi_window win) \<le> 4" using Suc.prems unfolding window_full_def by (metis length_take min.cobounded2)
  then have full: "window_full (window_push ?w)"
    using window_full_cases [OF Suc.prems] by (intro window_push_full) auto
  have "window_words ?w = tl (window_words win)"
    using window_full_cases [OF Suc.prems] by (cases "wi_window win") (auto simp: window_words_def)
  then have "window_words (window_push ?w) = tl (window_words win)" by simp
  with Suc.IH [OF full] show ?case by (simp add: drop_Suc)
qed simp

lemma window_new_full: "window_full (window_new input) \<and> window_words (window_new input) = split_any (set '';'' \<union> set '' '') input"
  by (auto simp: window_new_def numeral_eq_Suc window_push_def window_full_def window_words_def split: list.splits)

lemma nth_opt_take: "i < n \<Longrightarrow> nth_opt (take n xs) i = nth_opt xs i"
  by (simp add: nth_opt_def)

lemma get_window_full: "window_full win \<Longrightarrow> get_window win = first_words (window_words win)"
  by (simp add: window_full_def get_window_def first_words_def nth_opt_take)

lemma tokenizer_loop_words: "window_full win \<Longrightarrow> tokenizer_loop win r = run_words (window_words win) r"
proof (induction win r rule: tokenizer_loop.induct)
  case (1 win r)
  have empty: "window_is_empty win \<longleftrightarrow> window_words win = []"
    using window_full_cases [OF 1(2)] by (auto simp: window_is_empty_def window_words_def)
  obtain n r1 where s: "tokenizer_step (get_window win) r = (n, r1)" by fastforce
  show ?case
  proof (cases "window_is_empty win")
    case False
    from 1(1) [OF False s [symmetric] refl] slide_full [OF 1(2), of "n + 1"]
    have "tokenizer_loop (slide_window_by (n + 1) win) r1 = run_words (drop (n + 1) (window_words win)) r1" by metis
    then show ?thesis using False empty s get_window_full [OF 1(2)]
      by (subst tokenizer_loop.simps, subst run_words.simps) (simp del: slide_window_by.simps)
  qed (use empty in \<open>simp add: tokenizer_loop.simps run_words.simps\<close>)
qed

text \<open>
  C28: The window of four words over the iterator of the words refines reading the words of the whole text: the tokenizer gives what its
  rounds give on the list of words, each round looking at the next four words and dropping those it consumed. Sliding past the end of the text
  reads nothing, and the loop always ends.
\<close>

theorem tokenizer_refines_words:
  "tokenizer_run input = run_words (split_any (set '';'' \<union> set '' '') input) tokenizer_result_default"
  using window_new_full [of input] tokenizer_loop_words by (simp add: tokenizer_run_def)

section \<open>Invariants of the tokens\<close>

text \<open>An invariant that every round keeps holds at the end.\<close>

lemma run_words_invariant:
  assumes "\<And>w r. I r \<Longrightarrow> I (snd (tokenizer_step w r))"
  shows "I r \<Longrightarrow> I (run_words ws r)"
proof (induction ws r rule: run_words.induct)
  case (1 ws r)
  obtain n r1 where s: "tokenizer_step (first_words ws) r = (n, r1)" by fastforce
  with assms [OF 1(2), of "first_words ws"] have "I r1" by simp
  with 1(1) [OF _ s [symmetric] refl] s 1(2) show ?case by (subst run_words.simps) (simp split: if_split)
qed

lemma tokenizer_invariant:
  assumes "\<And>w r. I r \<Longrightarrow> I (snd (tokenizer_step w r))" "I tokenizer_result_default"
  shows "I (tokenizer_run input)"
  unfolding tokenizer_refines_words by (rule run_words_invariant [OF assms])

definition os_names :: "string list" where
  "os_names = [''Mac OS X'', ''iOS'', ''Chrome OS'', ''Chromecast'', ''Android'', ''Windows Phone'', ''Windows'', ''Red Hat'', ''Ubuntu'', ''Kindle'',
     ''ATV OS X'', ''Linux'', ''Other'']"

definition os_known :: "tokenizer_result \<Rightarrow> bool" where
  "os_known r \<longleftrightarrow> (\<forall>t. tr_possible_os_token r = Some t \<longrightarrow> tk_tag t \<in> set os_names)"

named_theorems os_known_rules

lemma os_known_hints [os_known_rules]:
  "os_known (r\<lparr>tr_linux_hint := b\<rparr>) = os_known r" "os_known (r\<lparr>tr_ios_hint := b\<rparr>) = os_known r"
  "os_known (r\<lparr>tr_macos_hint := b\<rparr>) = os_known r" "os_known (r\<lparr>tr_windows_hint := b\<rparr>) = os_known r"
  "os_known (r\<lparr>tr_mobile_hint := b\<rparr>) = os_known r" "os_known (r\<lparr>tr_safari_hint := b\<rparr>) = os_known r"
  "os_known (r\<lparr>tr_playstation_hint := b\<rparr>) = os_known r" "os_known (r\<lparr>tr_huawei_hint := b\<rparr>) = os_known r"
  "os_known (r\<lparr>tr_cfnetwork_hint := b\<rparr>) = os_known r" "os_known (r\<lparr>tr_crawler_hint := b\<rparr>) = os_known r"
  by (simp_all add: os_known_def)

lemma os_known_add [os_known_rules]:
  "os_known (add_tag tag v r) = os_known r"
  "os_known (add_possible_browser_tag tag v r) = os_known r"
  "os_known (add_possible_browser_tag_for_bot tag v r) = os_known r"
  "os_known r \<Longrightarrow> tag \<in> set os_names \<Longrightarrow> os_known (add_possible_os_tag tag v r)"
  "os_known r \<Longrightarrow> tag \<in> set os_names \<Longrightarrow> os_known (add_possible_os_and_browser_tag tag v r)"
  "tag \<in> set os_names \<Longrightarrow> os_known (add_possible_os_tag_override_existing tag v r)"
  "os_known r \<Longrightarrow> tag \<in> set os_names \<Longrightarrow> os_known (snd (tagged_os tag n cn r))"
  by (simp_all add: os_known_def add_tag_def add_possible_browser_tag_def add_possible_browser_tag_impl_def
      add_possible_browser_tag_for_bot_def add_possible_os_tag_def add_possible_os_tag_impl_def token_here_def
      add_possible_os_and_browser_tag_def add_possible_os_tag_override_existing_def tagged_os_def)

lemma os_names_mem [os_known_rules]:
  "''Mac OS X'' \<in> set os_names" "''iOS'' \<in> set os_names" "''Chrome OS'' \<in> set os_names" "''Chromecast'' \<in> set os_names"
  "''Android'' \<in> set os_names" "''Windows Phone'' \<in> set os_names" "''Windows'' \<in> set os_names" "''Red Hat'' \<in> set os_names"
  "''Ubuntu'' \<in> set os_names" "''Kindle'' \<in> set os_names" "''ATV OS X'' \<in> set os_names" "''Linux'' \<in> set os_names"
  "''Other'' \<in> set os_names"
  by (simp_all add: os_names_def)

lemma os_known_ios [os_known_rules]: "os_known r \<Longrightarrow> os_known (ios_instead_of_macos r)"
  by (simp add: ios_instead_of_macos_def os_known_rules split: option.split)

lemma os_known_product: "os_known r \<Longrightarrow> os_known (product_step c r)"
  by (simp add: product_step_def os_known_rules split: prod.split)

lemma os_known_system: "os_known r \<Longrightarrow> pred_option (\<lambda>nr. os_known (snd nr)) (system_step c n1 n2 n3 r)"
  by (simp add: system_step_def Let_def os_known_rules split: prod.split option.split)

text \<open>A round is the step of a system's name, or a bot or product, or nothing.\<close>

lemma if_both: "P a \<Longrightarrow> P b \<Longrightarrow> P (if c then a else b)"
  by simp

lemma other_step_cases:
  obtains (skip) "snd (other_step c n1 n2 r) = r"
  | (bot) tag where "snd (other_step c n1 n2 r) = add_possible_browser_tag_for_bot tag None r"
  | (product) "snd (other_step c n1 n2 r) = product_step c r"
proof -
  define P where "P = (\<lambda>p :: nat \<times> tokenizer_result. snd p = r \<or> (\<exists>tag. snd p = add_possible_browser_tag_for_bot tag None r) \<or>
      snd p = product_step c r)"
  have p: "P (0, r)" "\<And>tag. P (0, add_possible_browser_tag_for_bot tag None r)" "P (0, product_step c r)"
    by (auto simp: P_def)
  have "P (other_step c n1 n2 r)" unfolding other_step_def by (intro if_both [where P = P] p)
  then show ?thesis using skip bot product unfolding P_def by blast
qed

lemma tokenizer_step_cases:
  obtains (skip) "snd (tokenizer_step w r) = r"
  | (system) c n1 n2 n3 nr where "system_step c n1 n2 n3 r = Some nr" "snd (tokenizer_step w r) = snd nr"
  | (bot) tag where "snd (tokenizer_step w r) = add_possible_browser_tag_for_bot tag None r"
  | (product) c where "snd (tokenizer_step w r) = product_step c r"
proof -
  obtain w0 w1 w2 w3 where w: "w = (w0, w1, w2, w3)" by (metis prod_cases4)
  let ?n1 = "trim_invalid_chars w1" and ?n2 = "trim_invalid_chars w2" and ?n3 = "trim_invalid_chars w3"
  show ?thesis
  proof (cases "trim_invalid_chars w0")
    case None
    then show ?thesis by (intro skip) (simp add: w tokenizer_step_def)
  next
    case (Some c)
    then have step: "tokenizer_step w r =
        (case system_step c ?n1 ?n2 ?n3 r of Some nr \<Rightarrow> nr | None \<Rightarrow> other_step c ?n1 ?n2 r)"
      by (simp add: w tokenizer_step_def Let_def)
    show ?thesis
    proof (cases "system_step c ?n1 ?n2 ?n3 r")
      case None
      then have "tokenizer_step w r = other_step c ?n1 ?n2 r" by (simp add: step)
      with skip bot product show ?thesis by (metis other_step_cases)
    next
      case (Some nr)
      then show ?thesis by (intro system [OF Some]) (simp add: step)
    qed
  qed
qed

lemma os_known_step: "os_known r \<Longrightarrow> os_known (snd (tokenizer_step w r))"
  by (rule tokenizer_step_cases [of w r])
    (use os_known_system [of r] in \<open>auto simp: os_known_product os_known_rules pred_option_def\<close>)

lemma os_loop_known: "os_loop r ts = Some p \<Longrightarrow> ua_name p \<in> set os_names"
  by (induction ts) (auto simp: os_of_token_def create_res_def os_known_rules split: option.splits if_splits)

lemma parse_os_known: "ua_name (parse_os agent) \<in> set os_names"
proof -
  have "os_known (tokenizer_run agent)" by (rule tokenizer_invariant [of os_known, OF os_known_step]) (simp_all add: os_known_def tokenizer_result_default_def)
  then show ?thesis
    by (auto simp: parse_os_def Let_def create_res_def os_known_def os_known_rules dest: os_loop_known split: option.split)
qed


text \<open>
  C27: A condition on the operating system of a user whose custom fields do not name it sees, with the SDK's own parser of user agents, no value or
  one of thirteen names, whatever text the client sent as its user agent.
\<close>

theorem os_condition_sees_known_name:
  assumes "co_type c = ''ua_based''" "co_field c = Some f" "ds_lowercased f \<in> {''os_name'', ''osname''}"
    and "get_user_value (en_user en) (Some f) = None"
    and "en_user_agent en = get_value_from_user_agent x lock_ok parser" "\<not> en_third_party_parser en"
  shows "\<exists>v. condition_value en rec target c = ev_return (Some v) \<and> (v = None \<or> (\<exists>n\<in>set os_names. v = Some (dv_from_string x n)))"
proof -
  let ?vr = "get_value_from_user_agent x lock_ok parser (en_user en) (Some f) False"
  have vr: "snd ?vr = None \<and> (fst ?vr = None \<or> (\<exists>n\<in>set os_names. fst ?vr = Some (dv_from_string x n)))"
    using assms(3) parse_os_known
    by (auto simp: get_value_from_user_agent_def first_party_get_value_def first_party_value_def Let_def split: option.split)
  moreover have "condition_value en rec target c = with_reason ?vr"
    using assms by (simp add: condition_value_def)
  ultimately show ?thesis by (auto simp: with_reason_def)
qed

definition linux_user :: user_data where
  "linux_user = (with_user_id sample_ext (UnitString ''u1''))\<lparr>ud_user_agent := Some (dv_from_string sample_ext ''Linux'')\<rparr>"

section \<open>Versions\<close>

fun join_with :: "char \<Rightarrow> string list \<Rightarrow> string" where
  "join_with c [] = []"
| "join_with c [p] = p"
| "join_with c (p # ps) = p @ c # join_with c ps"

lemma split_any_word: "set p \<inter> C = {} \<Longrightarrow> split_any C p = [p]"
  by (induction p) auto

lemma split_any_append: "set p \<inter> C = {} \<Longrightarrow> c \<in> C \<Longrightarrow> split_any C (p @ c # s) = p # split_any C s"
  by (induction p) auto

lemma split_any_join:
  "ps \<noteq> [] \<Longrightarrow> \<forall>p\<in>set ps. set p \<inter> C = {} \<Longrightarrow> c \<in> C \<Longrightarrow> split_any C (join_with c ps) = ps"
  by (induction c ps rule: join_with.induct) (simp_all add: split_any_word split_any_append)

lemma split_terminator_join:
  "ps \<noteq> [] \<Longrightarrow> \<forall>p\<in>set ps. p \<noteq> [] \<and> set p \<inter> C = {} \<Longrightarrow> c \<in> C \<Longrightarrow> split_terminator_any C (join_with c ps) = ps"
  by (auto simp: split_terminator_any_def split_any_join)


section \<open>Examples\<close>


theorem os_condition_sees_known_name_witness:
  "\<exists>v. condition_value ((sample_env specs_default)\<lparr>en_user := \<lparr>su_data = linux_user, su_statsig = None\<rparr>,
       en_user_agent := get_value_from_user_agent sample_ext True None\<rparr>) (\<lambda>_ _. ev_return Recognized) (mv_from_string sample_ext [])
       (public_condition\<lparr>co_type := ''ua_based'', co_field := Some (ds_from_string sample_ext ''os_name'')\<rparr>) = ev_return (Some v) \<and>
     (v = None \<or> (\<exists>n\<in>set os_names. v = Some (dv_from_string sample_ext n)))"
  by (rule os_condition_sees_known_name [where f = "ds_from_string sample_ext ''os_name''"])
    (simp_all add: ds_from_string_def sample_ext_def ascii_lower_char_def sample_env_def get_user_value_def linux_user_def Let_def
      builtin_field_def builtin_field_alt_def get_either_def non_empty_string_def with_user_id_def ud_default_def)

text \<open>After \<open>Mac OS\<close> without the \<open>X\<close> the tokenizer drops one word more than it has read.\<close>

theorem word_after_mac_os_lost:
  "ua_name (parse_browser ''Mac OS 10.15 Firefox/139.0'') = ''Other'' \<and>
   ua_name (parse_browser ''Mac OS X 10.15 Firefox/139.0'') = ''Firefox''"
  by code_simp

end
